(* ===== verification/Prelude.thy ===== *)
theory Prelude
  imports Main "HOL-Library.Sublist" "HOL-Library.List_Lexorder" "HOL-Library.Char_ord"
begin

text \<open>
  The prelude: the effect type every handler of the development is written in, the
  weakest-precondition calculus and the preservation rules that carry the component
  proofs, the JavaScript string and array operations the sources use, and the character
  classes of their regular expressions.

  A handler of the source is an asynchronous function that reads and writes durable state
  and may throw. It is modelled as a function from the state to a result (\<open>Inl\<close> the thrown
  error, \<open>Inr\<close> the returned value) and the state it leaves behind; the state changes made
  before a throw stay.
\<close>

section \<open>Effects: state and exceptions\<close>

type_synonym ('e, 's, 'a) eff = "'s \<Rightarrow> ('e + 'a) \<times> 's"

named_theorems eff_simps "unfolding rules of the effect combinators"
named_theorems wp_simps "equations of the weakest-precondition calculus"
named_theorems pres_intros "introduction rules of state preservation"

definition ret :: "'a \<Rightarrow> ('e, 's, 'a) eff" where
  "ret x = (\<lambda>s. (Inr x, s))"

definition throw :: "'e \<Rightarrow> ('e, 's, 'a) eff" where
  "throw e = (\<lambda>s. (Inl e, s))"

definition bindE :: "('e, 's, 'a) eff \<Rightarrow> ('a \<Rightarrow> ('e, 's, 'b) eff) \<Rightarrow> ('e, 's, 'b) eff" where
  "bindE m f = (\<lambda>s. case m s of (r, s') \<Rightarrow> (case r of Inl e \<Rightarrow> (Inl e, s') | Inr x \<Rightarrow> f x s'))"

text \<open>\<open>try { m } catch (error) { h error }\<close>; the error type may change.\<close>

definition catchE :: "('e, 's, 'a) eff \<Rightarrow> ('e \<Rightarrow> ('f, 's, 'a) eff) \<Rightarrow> ('f, 's, 'a) eff" where
  "catchE m h = (\<lambda>s. case m s of (r, s') \<Rightarrow> (case r of Inl e \<Rightarrow> h e s' | Inr x \<Rightarrow> (Inr x, s')))"

text \<open>
  \<open>tagE l m\<close> marks what \<open>m\<close> throws with \<open>l\<close>: the value a mutable local variable of the
  handler has while \<open>m\<close> runs, for a \<open>catch\<close> block that reads the variable.
\<close>

definition tagE :: "'l \<Rightarrow> ('e, 's, 'a) eff \<Rightarrow> ('e \<times> 'l, 's, 'a) eff" where
  "tagE l m = (\<lambda>s. case m s of (r, s') \<Rightarrow> (case r of Inl e \<Rightarrow> (Inl (e, l), s') | Inr x \<Rightarrow> (Inr x, s')))"

definition getE :: "('s \<Rightarrow> 'a) \<Rightarrow> ('e, 's, 'a) eff" where
  "getE f = (\<lambda>s. (Inr (f s), s))"

definition modifyE :: "('s \<Rightarrow> 's) \<Rightarrow> ('e, 's, unit) eff" where
  "modifyE f = (\<lambda>s. (Inr (), f s))"

text \<open>\<open>if (bad) throw error;\<close>\<close>

definition throw_if :: "bool \<Rightarrow> 'e \<Rightarrow> ('e, 's, unit) eff" where
  "throw_if b e = (if b then throw e else ret ())"

definition liftR :: "'e + 'a \<Rightarrow> ('e, 's, 'a) eff" where
  "liftR r = (\<lambda>s. (r, s))"

fun for_each :: "'a list \<Rightarrow> ('a \<Rightarrow> ('e, 's, unit) eff) \<Rightarrow> ('e, 's, unit) eff" where
  "for_each [] f = ret ()"
| "for_each (x # xs) f = bindE (f x) (\<lambda>_. for_each xs f)"

fun foldE :: "('b \<Rightarrow> 'a \<Rightarrow> ('e, 's, 'b) eff) \<Rightarrow> 'b \<Rightarrow> 'a list \<Rightarrow> ('e, 's, 'b) eff" where
  "foldE f acc [] = ret acc"
| "foldE f acc (x # xs) = bindE (f acc x) (\<lambda>acc'. foldE f acc' xs)"

text \<open>\<open>try { m } finally { f }\<close>: what \<open>f\<close> throws replaces the outcome of \<open>m\<close>.\<close>

definition finallyE :: "('e, 's, 'a) eff \<Rightarrow> ('e, 's, unit) eff \<Rightarrow> ('e, 's, 'a) eff" where
  "finallyE m f = (\<lambda>s. case m s of (r, s') \<Rightarrow>
     (case f s' of (q, s'') \<Rightarrow> (case q of Inl e \<Rightarrow> (Inl e, s'') | Inr _ \<Rightarrow> (r, s''))))"

fun mapM :: "('a \<Rightarrow> 'e + 'b) \<Rightarrow> 'a list \<Rightarrow> 'e + 'b list" where
  "mapM f [] = Inr []"
| "mapM f (x # xs) =
     (case f x of Inl e \<Rightarrow> Inl e
      | Inr y \<Rightarrow> (case mapM f xs of Inl e \<Rightarrow> Inl e | Inr ys \<Rightarrow> Inr (y # ys)))"

definition bindR :: "'e + 'a \<Rightarrow> ('a \<Rightarrow> 'e + 'b) \<Rightarrow> 'e + 'b" where
  "bindR r f = (case r of Inl e \<Rightarrow> Inl e | Inr x \<Rightarrow> f x)"

definition guardR :: "bool \<Rightarrow> 'e \<Rightarrow> 'e + unit" where
  "guardR ok e = (if ok then Inr () else Inl e)"

lemmas eff_defs = ret_def throw_def bindE_def catchE_def tagE_def getE_def modifyE_def
  throw_if_def liftR_def

lemma bindR_Inr_iff [simp]: "bindR r f = Inr y \<longleftrightarrow> (\<exists>x. r = Inr x \<and> f x = Inr y)"
  by (cases r) (auto simp: bindR_def)

lemma guardR_Inr_iff [simp]: "guardR ok e = Inr u \<longleftrightarrow> ok"
  by (simp add: guardR_def)

lemma bindR_simps [simp]: "bindR (Inl e) f = Inl e" "bindR (Inr x) f = f x"
  by (simp_all add: bindR_def)

lemma guardR_simps [simp]: "guardR True e = Inr ()" "guardR False e = Inl e"
  by (simp_all add: guardR_def)

lemma mapM_Inr_map: "(\<And>x. x \<in> set xs \<Longrightarrow> f x = Inr (g x)) \<Longrightarrow> mapM f xs = Inr (map g xs)"
  by (induction xs) auto

subsection \<open>Weakest preconditions\<close>

text \<open>
  \<open>wp m Q R s\<close>: run from \<open>s\<close>, \<open>m\<close> either returns a value and a state that satisfy \<open>Q\<close>, or
  throws an error and leaves a state that satisfy \<open>R\<close>. Handlers are total, so this is total
  correctness on both exits.
\<close>

definition wp ::
  "('e, 's, 'a) eff \<Rightarrow> ('a \<Rightarrow> 's \<Rightarrow> bool) \<Rightarrow> ('e \<Rightarrow> 's \<Rightarrow> bool) \<Rightarrow> 's \<Rightarrow> bool" where
  "wp m Q R s = (case m s of (r, s') \<Rightarrow> (case r of Inl e \<Rightarrow> R e s' | Inr x \<Rightarrow> Q x s'))"

lemma wp_ret [wp_simps]: "wp (ret x) Q R s = Q x s"
  by (simp add: wp_def ret_def)

lemma wp_throw [wp_simps]: "wp (throw e) Q R s = R e s"
  by (simp add: wp_def throw_def)

lemma wp_bindE [wp_simps]: "wp (bindE m f) Q R s = wp m (\<lambda>x. wp (f x) Q R) R s"
  by (simp add: wp_def bindE_def split: prod.split sum.split)

lemma wp_catchE [wp_simps]: "wp (catchE m h) Q R s = wp m Q (\<lambda>e. wp (h e) Q R) s"
  by (simp add: wp_def catchE_def split: prod.split sum.split)

lemma wp_tagE [wp_simps]: "wp (tagE l m) Q R s = wp m Q (\<lambda>e. R (e, l)) s"
  by (simp add: wp_def tagE_def split: prod.split sum.split)

lemma wp_getE [wp_simps]: "wp (getE f) Q R s = Q (f s) s"
  by (simp add: wp_def getE_def)

lemma wp_modifyE [wp_simps]: "wp (modifyE f) Q R s = Q () (f s)"
  by (simp add: wp_def modifyE_def)

lemma wp_throw_if [wp_simps]: "wp (throw_if b e) Q R s = (if b then R e s else Q () s)"
  by (simp add: wp_def throw_if_def ret_def throw_def)

lemma wp_liftR [wp_simps]:
  "wp (liftR r) Q R s = (case r of Inl e \<Rightarrow> R e s | Inr x \<Rightarrow> Q x s)"
  by (simp add: wp_def liftR_def split: sum.split)

lemma wp_finallyE [wp_simps]:
  "wp (finallyE m f) Q R s
   = wp m (\<lambda>x. wp f (\<lambda>_. Q x) R) (\<lambda>e. wp f (\<lambda>_. R e) R) s"
  by (simp add: wp_def finallyE_def split: prod.split sum.split)

lemma wp_if: "wp (if b then m else n) Q R s = (if b then wp m Q R s else wp n Q R s)"
  by simp

lemma wp_conseq:
  "wp m Q R s \<Longrightarrow> (\<And>x t. Q x t \<Longrightarrow> Q' x t) \<Longrightarrow> (\<And>e t. R e t \<Longrightarrow> R' e t) \<Longrightarrow> wp m Q' R' s"
  by (auto simp: wp_def split: prod.splits sum.splits)

lemma wp_conj: "wp m Q R s \<Longrightarrow> wp m Q' R' s \<Longrightarrow>
    wp m (\<lambda>x t. Q x t \<and> Q' x t) (\<lambda>e t. R e t \<and> R' e t) s"
  by (auto simp: wp_def split: prod.splits sum.splits)

lemma wp_returnD: "wp m Q R s \<Longrightarrow> m s = (Inr x, t) \<Longrightarrow> Q x t"
  by (simp add: wp_def)

lemma wp_throwD: "wp m Q R s \<Longrightarrow> m s = (Inl e, t) \<Longrightarrow> R e t"
  by (simp add: wp_def)

lemma wpI: "(\<And>x t. m s = (Inr x, t) \<Longrightarrow> Q x t) \<Longrightarrow> (\<And>e t. m s = (Inl e, t) \<Longrightarrow> R e t) \<Longrightarrow> wp m Q R s"
  by (auto simp: wp_def split: prod.splits sum.splits)

subsection \<open>Preservation of a relation between the state before and after\<close>

text \<open>
  \<open>keeps P m\<close>: whatever state satisfying \<open>P\<close> the handler \<open>m\<close> starts in, it leaves one that
  satisfies \<open>P\<close>, on return and on throw.
\<close>

definition keeps :: "('s \<Rightarrow> bool) \<Rightarrow> ('e, 's, 'a) eff \<Rightarrow> bool" where
  "keeps P m \<longleftrightarrow> (\<forall>s. P s \<longrightarrow> P (snd (m s)))"

lemma keepsI: "(\<And>s. P s \<Longrightarrow> P (snd (m s))) \<Longrightarrow> keeps P m"
  by (simp add: keeps_def)

lemma keepsD: "keeps P m \<Longrightarrow> P s \<Longrightarrow> P (snd (m s))"
  by (simp add: keeps_def)

lemma keepsD_eq: "keeps P m \<Longrightarrow> P s \<Longrightarrow> m s = (r, t) \<Longrightarrow> P t"
  by (auto simp: keeps_def)

lemma keeps_wp: "keeps P m \<Longrightarrow> P s \<Longrightarrow> wp m (\<lambda>_. P) (\<lambda>_. P) s"
  by (auto simp: keeps_def wp_def split: prod.splits sum.splits)

lemma keeps_ret [pres_intros]: "keeps P (ret x)"
  by (simp add: keeps_def ret_def)

lemma keeps_throw [pres_intros]: "keeps P (throw e)"
  by (simp add: keeps_def throw_def)

lemma keeps_getE [pres_intros]: "keeps P (getE f)"
  by (simp add: keeps_def getE_def)

lemma keeps_throw_if [pres_intros]: "keeps P (throw_if b e)"
  by (simp add: keeps_def throw_if_def ret_def throw_def)

lemma keeps_liftR [pres_intros]: "keeps P (liftR r)"
  by (simp add: keeps_def liftR_def)

lemma keeps_bindE [pres_intros]:
  "keeps P m \<Longrightarrow> (\<And>x. keeps P (f x)) \<Longrightarrow> keeps P (bindE m f)"
  by (auto simp: keeps_def bindE_def split: prod.split sum.split)

lemma keeps_catchE [pres_intros]:
  "keeps P m \<Longrightarrow> (\<And>e. keeps P (h e)) \<Longrightarrow> keeps P (catchE m h)"
  by (auto simp: keeps_def catchE_def split: prod.split sum.split)

lemma keeps_tagE [pres_intros]: "keeps P m \<Longrightarrow> keeps P (tagE l m)"
  by (auto simp: keeps_def tagE_def split: prod.split sum.split)

lemma keeps_if [pres_intros]: "(b \<Longrightarrow> keeps P m) \<Longrightarrow> (\<not> b \<Longrightarrow> keeps P n) \<Longrightarrow> keeps P (if b then m else n)"
  by simp

lemma keeps_case_option [pres_intros]:
  "(x = None \<Longrightarrow> keeps P m) \<Longrightarrow> (\<And>y. x = Some y \<Longrightarrow> keeps P (f y)) \<Longrightarrow> keeps P (case x of None \<Rightarrow> m | Some y \<Rightarrow> f y)"
  by (cases x) simp_all

lemma keeps_case_sum [pres_intros]:
  "(\<And>y. keeps P (f y)) \<Longrightarrow> (\<And>y. keeps P (g y)) \<Longrightarrow> keeps P (case x of Inl y \<Rightarrow> f y | Inr y \<Rightarrow> g y)"
  by (cases x) simp_all

lemma keeps_case_prod [pres_intros]:
  "(\<And>a b. keeps P (f a b)) \<Longrightarrow> keeps P (case p of (a, b) \<Rightarrow> f a b)"
  by (cases p) simp

lemma keeps_case_list [pres_intros]:
  "keeps P m \<Longrightarrow> (\<And>y ys. keeps P (f y ys)) \<Longrightarrow> keeps P (case xs of [] \<Rightarrow> m | y # ys \<Rightarrow> f y ys)"
  by (cases xs) simp_all

lemma keeps_Let [pres_intros]: "(\<And>y. keeps P (f y)) \<Longrightarrow> keeps P (Let x f)"
  by simp

lemma keeps_for_each [pres_intros]: "(\<And>x. keeps P (f x)) \<Longrightarrow> keeps P (for_each xs f)"
  by (induction xs) (auto intro!: pres_intros)

lemma keeps_foldE [pres_intros]: "(\<And>acc x. keeps P (f acc x)) \<Longrightarrow> keeps P (foldE f acc xs)"
  by (induction xs arbitrary: acc) (auto intro!: pres_intros)

lemma keeps_finallyE [pres_intros]: "keeps P m \<Longrightarrow> keeps P f \<Longrightarrow> keeps P (finallyE m f)"
  by (auto simp: keeps_def finallyE_def split: prod.split sum.split)

lemma keeps_wpI:
  assumes "\<And>s. P s \<Longrightarrow> wp m (\<lambda>_. P) (\<lambda>_. P) s"
  shows "keeps P m"
proof (rule keepsI)
  fix s assume "P s"
  from assms [OF this] show "P (snd (m s))"
    by (cases "m s"; cases "fst (m s)") (simp_all add: wp_def)
qed

subsection \<open>Preservation with a postcondition on the value\<close>

text \<open>
  \<open>yields P m Q R\<close>: started where \<open>P\<close> holds, \<open>m\<close> keeps \<open>P\<close>; a returned value satisfies \<open>Q\<close>
  and a thrown error satisfies \<open>R\<close>.
\<close>

definition yields ::
  "('s \<Rightarrow> bool) \<Rightarrow> ('e, 's, 'a) eff \<Rightarrow> ('a \<Rightarrow> bool) \<Rightarrow> ('e \<Rightarrow> bool) \<Rightarrow> bool" where
  "yields P m Q R \<longleftrightarrow> (\<forall>s. P s \<longrightarrow> wp m (\<lambda>x t. P t \<and> Q x) (\<lambda>e t. P t \<and> R e) s)"

named_theorems yield_intros "introduction rules of preservation with a postcondition"

lemma yieldsI: "(\<And>s. P s \<Longrightarrow> wp m (\<lambda>x t. P t \<and> Q x) (\<lambda>e t. P t \<and> R e) s) \<Longrightarrow> yields P m Q R"
  by (simp add: yields_def)

lemma yields_conseq:
  "yields P m Q R \<Longrightarrow> (\<And>x. Q x \<Longrightarrow> Q' x) \<Longrightarrow> (\<And>e. R e \<Longrightarrow> R' e) \<Longrightarrow> yields P m Q' R'"
  unfolding yields_def by (blast intro: wp_conseq)

lemma keeps_yields: "keeps P m \<Longrightarrow> yields P m (\<lambda>_. True) (\<lambda>_. True)"
  by (auto simp: yields_def intro: keeps_wp)

lemma wp_keeps: "wp m (\<lambda>x t. P t \<and> Q x) (\<lambda>e t. P t \<and> R e) s \<Longrightarrow> P (snd (m s))"
  by (cases "m s"; cases "fst (m s)") (simp_all add: wp_def)

lemma yields_keeps: "yields P m Q R \<Longrightarrow> keeps P m"
  unfolding yields_def keeps_def by (intro allI impI) (rule wp_keeps [of m P Q R], simp)

lemma yields_ret [yield_intros]: "Q x \<Longrightarrow> yields P (ret x) Q R"
  by (simp add: yields_def wp_ret)

lemma yields_throw [yield_intros]: "R e \<Longrightarrow> yields P (throw e) Q R"
  by (simp add: yields_def wp_throw)

lemma yields_bindE [yield_intros]:
  "yields P m Q R \<Longrightarrow> (\<And>x. Q x \<Longrightarrow> yields P (f x) Q' R) \<Longrightarrow> yields P (bindE m f) Q' R"
  unfolding yields_def wp_bindE by (blast intro: wp_conseq)

lemma yields_catchE [yield_intros]:
  "yields P m Q R \<Longrightarrow> (\<And>e. R e \<Longrightarrow> yields P (h e) Q R') \<Longrightarrow> yields P (catchE m h) Q R'"
  unfolding yields_def wp_catchE by (blast intro: wp_conseq)

lemma yields_tagE [yield_intros]: "yields P m Q (\<lambda>e. R (e, l)) \<Longrightarrow> yields P (tagE l m) Q R"
  by (simp add: yields_def wp_tagE)

lemma yields_throw_if [yield_intros]:
  "(b \<Longrightarrow> R e) \<Longrightarrow> (\<not> b \<Longrightarrow> Q ()) \<Longrightarrow> yields P (throw_if b e) Q R"
  by (simp add: yields_def wp_throw_if)

lemma yields_if [yield_intros]:
  "(b \<Longrightarrow> yields P m Q R) \<Longrightarrow> (\<not> b \<Longrightarrow> yields P n Q R) \<Longrightarrow> yields P (if b then m else n) Q R"
  by simp

lemma yields_case_option [yield_intros]:
  "(x = None \<Longrightarrow> yields P m Q R) \<Longrightarrow> (\<And>y. x = Some y \<Longrightarrow> yields P (f y) Q R)
   \<Longrightarrow> yields P (case x of None \<Rightarrow> m | Some y \<Rightarrow> f y) Q R"
  by (cases x) simp_all

lemma yields_case_prod [yield_intros]:
  "(\<And>a b. p = (a, b) \<Longrightarrow> yields P (f a b) Q R) \<Longrightarrow> yields P (case p of (a, b) \<Rightarrow> f a b) Q R"
  by (cases p) simp

lemma yields_Let [yield_intros]: "yields P (f x) Q R \<Longrightarrow> yields P (Let x f) Q R"
  by simp

lemma yields_finallyE [yield_intros]:
  assumes m: "yields P m Q R" and f: "yields P f (\<lambda>_. True) R"
  shows "yields P (finallyE m f) Q R"
proof (rule yieldsI, unfold wp_finallyE)
  fix s assume "P s"
  with m have "wp m (\<lambda>x t. P t \<and> Q x) (\<lambda>e t. P t \<and> R e) s"
    by (simp add: yields_def)
  moreover have fin: "wp f (\<lambda>_ u. P u \<and> A) (\<lambda>e u. P u \<and> R e) t" if "P t" "A" for t A
    using f that wp_conseq [of f "\<lambda>x u. P u \<and> True" "\<lambda>e u. P u \<and> R e" t] by (simp add: yields_def)
  ultimately show "wp m (\<lambda>x. wp f (\<lambda>_ t. P t \<and> Q x) (\<lambda>e t. P t \<and> R e))
      (\<lambda>e. wp f (\<lambda>_ t. P t \<and> R e) (\<lambda>e t. P t \<and> R e)) s"
    by (rule wp_conseq) (simp_all add: fin fin [of _ True, simplified])
qed

lemma yields_foldE:
  "I acc \<Longrightarrow> (\<And>acc x. I acc \<Longrightarrow> yields P (f acc x) I R) \<Longrightarrow> yields P (foldE f acc xs) I R"
  by (induction xs arbitrary: acc) (auto intro!: yield_intros)

subsection \<open>What holds when a handler returns\<close>

text \<open>\<open>returns P m Q\<close>: started where \<open>P\<close> holds, what \<open>m\<close> returns satisfies \<open>Q\<close> in the state it leaves.\<close>

definition returns :: "('s \<Rightarrow> bool) \<Rightarrow> ('e, 's, 'a) eff \<Rightarrow> ('a \<Rightarrow> 's \<Rightarrow> bool) \<Rightarrow> bool" where
  "returns P m Q \<longleftrightarrow> (\<forall>s x t. P s \<longrightarrow> m s = (Inr x, t) \<longrightarrow> Q x t)"

lemma returnsD: "returns P m Q \<Longrightarrow> P s \<Longrightarrow> m s = (Inr x, t) \<Longrightarrow> Q x t"
  by (simp add: returns_def)

lemma returns_wp: "(\<And>s. P s \<Longrightarrow> wp m Q (\<lambda>_ _. True) s) \<Longrightarrow> returns P m Q"
  by (auto simp: returns_def dest: wp_returnD)

lemma returns_yields: "yields P m Q R \<Longrightarrow> returns P m (\<lambda>x s. P s \<and> Q x)"
  by (auto simp: returns_def yields_def dest: wp_returnD)

lemma returns_conseq:
  "returns P m Q \<Longrightarrow> (\<And>s. P' s \<Longrightarrow> P s) \<Longrightarrow> (\<And>x s. Q x s \<Longrightarrow> Q' x s) \<Longrightarrow> returns P' m Q'"
  unfolding returns_def by blast

lemma returns_keeps: "keeps P m \<Longrightarrow> returns P m (\<lambda>_. P)"
  by (auto simp: returns_def dest: keepsD_eq)

lemma returns_any: "returns P m (\<lambda>_ _. True)"
  by (simp add: returns_def)

lemma returns_ret: "(\<And>s. P s \<Longrightarrow> Q x s) \<Longrightarrow> returns P (ret x) Q"
  by (simp add: returns_def ret_def)

lemma returns_throw: "returns P (throw e) Q"
  by (simp add: returns_def throw_def)

lemma returns_bindE:
  assumes "returns P m Q" "\<And>x. returns (Q x) (f x) R"
  shows "returns P (bindE m f) R"
  unfolding returns_def bindE_def
proof (intro allI impI)
  fix s y t assume "P s" and run: "(case m s of (r, s') \<Rightarrow> case r of Inl e \<Rightarrow> (Inl e, s') | Inr x \<Rightarrow> f x s') = (Inr y, t)"
  obtain r u where m: "m s = (r, u)"
    by (cases "m s")
  with run obtain x where "r = Inr x"
    by (cases r) auto
  with run m \<open>P s\<close> assms show "R y t"
    by (auto simp: returns_def)
qed

lemma returns_guard: "returns (\<lambda>s. P s \<and> \<not> b) (f ()) Q \<Longrightarrow> returns P (bindE (throw_if b e) f) Q"
  by (simp add: returns_def bindE_def throw_if_def ret_def throw_def)

lemma returns_if:
  "(b \<Longrightarrow> returns P m Q) \<Longrightarrow> (\<not> b \<Longrightarrow> returns P n Q) \<Longrightarrow> returns P (if b then m else n) Q"
  by simp

lemma returns_case_prod:
  "(\<And>a b. p = (a, b) \<Longrightarrow> returns P (f a b) Q) \<Longrightarrow> returns P (case p of (a, b) \<Rightarrow> f a b) Q"
  by (cases p) simp

lemma returns_catchE:
  assumes "returns P m Q" "\<And>e. returns (\<lambda>_. True) (h e) Q"
  shows "returns P (catchE m h) Q"
  unfolding returns_def catchE_def
proof (intro allI impI)
  fix s y t assume "P s" and run: "(case m s of (r, s') \<Rightarrow> case r of Inl e \<Rightarrow> h e s' | Inr x \<Rightarrow> (Inr x, s')) = (Inr y, t)"
  obtain r u where m: "m s = (r, u)"
    by (cases "m s")
  with run \<open>P s\<close> assms show "Q y t"
    by (cases r) (auto simp: returns_def)
qed

lemma returns_finallyE:
  assumes "returns P m Q" "\<And>x. keeps (Q x) f"
  shows "returns P (finallyE m f) Q"
  unfolding returns_def finallyE_def
proof (intro allI impI)
  fix s y t assume "P s" and run: "(case m s of (r, s') \<Rightarrow> case f s' of (q, s'') \<Rightarrow>
      case q of Inl e \<Rightarrow> (Inl e, s'') | Inr x \<Rightarrow> (r, s'')) = (Inr y, t)"
  obtain r u q v where m: "m s = (r, u)" and f: "f u = (q, v)"
    by (cases "m s"; cases "f (snd (m s))") auto
  with run have "r = Inr y" "v = t"
    by (auto split: sum.splits)
  with m assms(1) \<open>P s\<close> have "Q y u"
    by (auto simp: returns_def)
  from keepsD_eq [OF assms(2) this f] \<open>v = t\<close> show "Q y t"
    by simp
qed

text \<open>A step that reads the value of another: equal continuations on the values it returns.\<close>

lemma bindE_cong_returns:
  "(\<And>x t. m s = (Inr x, t) \<Longrightarrow> f x t = g x t) \<Longrightarrow> bindE m f s = bindE m g s"
  by (simp add: bindE_def split: prod.split sum.split)

subsection \<open>Facts that a step returns\<close>

named_theorems fact_intros "rules for the facts that hold when a handler returns"

lemma bindE_liftR: "bindE (liftR (Inr x)) f = f x" "bindE (liftR (Inl e)) f = throw e"
  by (simp_all add: bindE_def liftR_def throw_def)

lemma fact_bindE: "returns (\<lambda>_. True) m (\<lambda>x _. F x) \<Longrightarrow> (\<And>x. F x \<Longrightarrow> returns (\<lambda>_. True) (f x) Q)
   \<Longrightarrow> returns (\<lambda>_. True) (bindE m f) Q"
  unfolding returns_def bindE_def by (auto split: prod.splits sum.splits) blast

lemma fact_liftR [fact_intros]:
  "(\<And>x. r = Inr x \<Longrightarrow> returns P (f x) Q) \<Longrightarrow> returns P (bindE (liftR r) f) Q"
  by (cases r) (simp_all add: bindE_liftR returns_throw)

lemma fact_guard [fact_intros]: "(\<not> b \<Longrightarrow> returns P (f ()) Q) \<Longrightarrow> returns P (bindE (throw_if b e) f) Q"
  by (cases b) (simp_all add: returns_def bindE_def throw_if_def throw_def ret_def)

lemma fact_step [fact_intros]: "(\<And>x. returns (\<lambda>_. True) (f x) Q) \<Longrightarrow> returns P (bindE m f) Q"
  by (rule returns_bindE [OF returns_any])

lemma fact_case_option [fact_intros]:
  "(x = None \<Longrightarrow> returns P m Q) \<Longrightarrow> (\<And>y. x = Some y \<Longrightarrow> returns P (f y) Q)
   \<Longrightarrow> returns P (case x of None \<Rightarrow> m | Some y \<Rightarrow> f y) Q"
  by (cases x) simp_all

lemma fact_case_prod [fact_intros]:
  "(\<And>a b. x = (a, b) \<Longrightarrow> returns P (f a b) Q) \<Longrightarrow> returns P (case x of (a, b) \<Rightarrow> f a b) Q"
  by (cases x) simp

lemma fact_throw [fact_intros]: "returns P (throw e) Q"
  by (rule returns_throw)

lemma fact_ret [fact_intros]: "(\<And>s. Q x s) \<Longrightarrow> returns P (ret x) Q"
  by (simp add: returns_def ret_def)

lemma keeps_bind_fact:
  "keeps I m \<Longrightarrow> returns (\<lambda>_. True) m (\<lambda>x _. F x) \<Longrightarrow> (\<And>x. F x \<Longrightarrow> keeps I (f x)) \<Longrightarrow> keeps I (bindE m f)"
  unfolding keeps_def returns_def bindE_def by (fastforce split: prod.splits sum.splits)

lemma keeps_bind_then:
  "keeps I m \<Longrightarrow> returns (\<lambda>_. True) m (\<lambda>_. C) \<Longrightarrow> (\<And>x. keeps (\<lambda>s. I s \<and> C s) (f x)) \<Longrightarrow> keeps I (bindE m f)"
  unfolding keeps_def returns_def bindE_def by (fastforce split: prod.splits sum.splits)

lemma fact_case_single:
  "(\<And>x. xs = [x] \<Longrightarrow> returns P (f x) Q) \<Longrightarrow> (\<And>x y zs. returns P (g x y zs) Q) \<Longrightarrow> returns P h Q
   \<Longrightarrow> returns P (case xs of [] \<Rightarrow> h | x # ys \<Rightarrow> (case ys of [] \<Rightarrow> f x | y # zs \<Rightarrow> g x y zs)) Q"
  by (auto split: list.split)

section \<open>Characters and regular expressions\<close>

text \<open>
  Strings are lists of characters with codes below 256; the sources' regular expressions
  are over ASCII classes and are anchored at both ends.
\<close>

definition code_of :: "char \<Rightarrow> nat" where
  "code_of c = of_char c"

definition char_between :: "char \<Rightarrow> char \<Rightarrow> char \<Rightarrow> bool" where
  "char_between lo hi c \<longleftrightarrow> code_of lo \<le> code_of c \<and> code_of c \<le> code_of hi"

definition is_digit :: "char \<Rightarrow> bool" where
  "is_digit c = char_between CHR ''0'' CHR ''9'' c"

definition is_lower :: "char \<Rightarrow> bool" where
  "is_lower c = char_between CHR ''a'' CHR ''z'' c"

definition is_upper :: "char \<Rightarrow> bool" where
  "is_upper c = char_between CHR ''A'' CHR ''Z'' c"

definition is_alnum :: "char \<Rightarrow> bool" where
  "is_alnum c \<longleftrightarrow> is_digit c \<or> is_lower c \<or> is_upper c"

text \<open>\<open>[a-f0-9]\<close>\<close>

definition is_hex :: "char \<Rightarrow> bool" where
  "is_hex c \<longleftrightarrow> is_digit c \<or> char_between CHR ''a'' CHR ''f'' c"

text \<open>\<open>[A-Za-z0-9._:-]\<close>\<close>

definition is_id_char :: "char \<Rightarrow> bool" where
  "is_id_char c \<longleftrightarrow> is_alnum c \<or> c \<in> set ''._:-''"

text \<open>\<open>/^[A-Za-z0-9][A-Za-z0-9._:-]{lo,hi}$/\<close> (\<open>lo\<close> and \<open>hi\<close> bound the tail).\<close>

definition id_regex :: "nat \<Rightarrow> nat \<Rightarrow> string \<Rightarrow> bool" where
  "id_regex lo hi s = (case s of [] \<Rightarrow> False
     | c # cs \<Rightarrow> is_alnum c \<and> lo \<le> length cs \<and> length cs \<le> hi \<and> list_all is_id_char cs)"

text \<open>\<open>/^[a-f0-9]{n}$/\<close>\<close>

definition hex_n :: "nat \<Rightarrow> string \<Rightarrow> bool" where
  "hex_n n s \<longleftrightarrow> length s = n \<and> list_all is_hex s"

definition lower_char :: "char \<Rightarrow> char" where
  "lower_char c = (if is_upper c then char_of (code_of c + 32) else c)"

definition upper_char :: "char \<Rightarrow> char" where
  "upper_char c = (if is_lower c then char_of (code_of c - 32) else c)"

definition to_lower :: "string \<Rightarrow> string" where
  "to_lower = map lower_char"

definition to_upper :: "string \<Rightarrow> string" where
  "to_upper = map upper_char"

definition is_space :: "char \<Rightarrow> bool" where
  "is_space c \<longleftrightarrow> code_of c \<in> {9, 10, 11, 12, 13, 32, 160}"

definition trim :: "string \<Rightarrow> string" where
  "trim s = rev (dropWhile is_space (rev (dropWhile is_space s)))"

text \<open>The UTF-8 length of a string of characters below 256.\<close>

definition utf8_length :: "string \<Rightarrow> nat" where
  "utf8_length s = sum_list (map (\<lambda>c. if code_of c < 128 then 1 else 2) s)"

text \<open>\<open>s.includes(part)\<close>\<close>

definition contains :: "string \<Rightarrow> string \<Rightarrow> bool" where
  "contains part s \<longleftrightarrow> (\<exists>k\<in>set [0..<Suc (length s)]. take (length part) (drop k s) = part)"

section \<open>Arrays\<close>

text \<open>
  \<open>Array.prototype.sort\<close> with a comparator: stable, so an insertion sort by the sign of
  the comparator.
\<close>

fun insert_cmp :: "('a \<Rightarrow> 'a \<Rightarrow> int) \<Rightarrow> 'a \<Rightarrow> 'a list \<Rightarrow> 'a list" where
  "insert_cmp cmp x [] = [x]"
| "insert_cmp cmp x (y # ys) = (if cmp x y \<le> 0 then x # y # ys else y # insert_cmp cmp x ys)"

definition sort_cmp :: "('a \<Rightarrow> 'a \<Rightarrow> int) \<Rightarrow> 'a list \<Rightarrow> 'a list" where
  "sort_cmp cmp xs = foldr (insert_cmp cmp) xs []"

lemma set_insert_cmp [simp]: "set (insert_cmp cmp x xs) = insert x (set xs)"
  by (induction xs) auto

lemma length_insert_cmp [simp]: "length (insert_cmp cmp x xs) = Suc (length xs)"
  by (induction xs) auto

lemma distinct_insert_cmp [simp]: "distinct (insert_cmp cmp x xs) \<longleftrightarrow> x \<notin> set xs \<and> distinct xs"
  by (induction xs) auto

lemma sort_cmp_Nil [simp]: "sort_cmp cmp [] = []"
  by (simp add: sort_cmp_def)

lemma sort_cmp_Cons [simp]: "sort_cmp cmp (x # xs) = insert_cmp cmp x (sort_cmp cmp xs)"
  by (simp add: sort_cmp_def)

lemma set_sort_cmp [simp]: "set (sort_cmp cmp xs) = set xs"
  by (induction xs) auto

lemma length_sort_cmp [simp]: "length (sort_cmp cmp xs) = length xs"
  by (induction xs) auto

lemma distinct_sort_cmp [simp]: "distinct (sort_cmp cmp xs) = distinct xs"
  by (induction xs) auto

lemma sort_cmp_empty_iff [simp]: "sort_cmp cmp xs = [] \<longleftrightarrow> xs = []"
  by (metis length_0_conv length_sort_cmp)

text \<open>\<open>xs.join(sep)\<close>\<close>

fun join_with :: "string \<Rightarrow> string list \<Rightarrow> string" where
  "join_with sep [] = []"
| "join_with sep [x] = x"
| "join_with sep (x # y # ys) = x @ sep @ join_with sep (y # ys)"

text \<open>\<open>String(n)\<close> for an integer.\<close>

fun nat_digits :: "nat \<Rightarrow> string" where
  "nat_digits n = (if n < 10 then [char_of (48 + n)] else nat_digits (n div 10) @ [char_of (48 + n mod 10)])"

declare nat_digits.simps [simp del]

definition int_string :: "int \<Rightarrow> string" where
  "int_string i = (if i < 0 then CHR ''-'' # nat_digits (nat (- i)) else nat_digits (nat i))"

text \<open>\<open>Number.isSafeInteger\<close> on an integer.\<close>

definition safe_integer :: "int \<Rightarrow> bool" where
  "safe_integer i \<longleftrightarrow> abs i \<le> 2 ^ 53 - 1"

lemma apsnd_fundef_cong [fundef_cong]:
  "p = q \<Longrightarrow> f (snd q) = g (snd q) \<Longrightarrow> apsnd f p = apsnd g q"
  by (cases q) simp

section \<open>Association lists as directories of files\<close>

text \<open>
  A directory of durable records is an association list from file names to contents; a
  write replaces the file of that name or adds a new one.
\<close>

fun put_file :: "'k \<Rightarrow> 'v \<Rightarrow> ('k \<times> 'v) list \<Rightarrow> ('k \<times> 'v) list" where
  "put_file k v [] = [(k, v)]"
| "put_file k v (p # ps) = (if fst p = k then (k, v) # ps else p # put_file k v ps)"

lemma map_of_put_file [simp]: "map_of (put_file k v fs) = (map_of fs)(k \<mapsto> v)"
  by (induction fs) (auto simp: fun_eq_iff)

lemma keys_put_file [simp]: "fst ` set (put_file k v fs) = insert k (fst ` set fs)"
  by (induction fs) (auto simp: image_iff)

lemma distinct_put_file [simp]:
  "distinct (map fst fs) \<Longrightarrow> distinct (map fst (put_file k v fs))"
  using keys_put_file [of k v] by (induction fs) (auto simp: image_iff split: if_splits)

lemma set_put_file_subset: "set (put_file k v fs) \<subseteq> insert (k, v) (set fs)"
  by (induction fs) auto

lemma put_file_mem: "(k, v) \<in> set (put_file k v fs)"
  by (induction fs) auto

lemma put_file_all: "list_all good fs \<Longrightarrow> good (k, v) \<Longrightarrow> list_all good (put_file k v fs)"
  by (induction fs) auto

end
