(* ===== verification/Canonical_Json.thy ===== *)
theory Canonical_Json
  imports Prelude "HOL-Library.Multiset"
begin

text \<open>
  Canonical JSON and content digests (src/task-runtime/canonical-json.ts and the copy in
  src/github/types.ts). Every durable record and every piece of evidence is hashed through
  this encoder, so what the digests bind is what the encoder distinguishes. \<open>json\<close> is the
  type \<open>JsonValue\<close> of the sources with integer numbers (no record of the program holds a
  fractional number); \<open>js_value\<close> adds the values the task-runtime encoder rejects. SHA-256
  (node:crypto) is a parameter of the digest functions. \<open>json_parse\<close> is \<open>JSON.parse\<close> on
  texts whose numbers are integers.
\<close>

section \<open>Values and their canonical text\<close>

datatype json =
    JNull
  | JBool bool
  | JNum int
  | JStr string
  | JArr "json list"
  | JObj "(string \<times> json) list"

text \<open>\<open>JSON.stringify\<close> of a string.\<close>

definition hex_digit :: "nat \<Rightarrow> char" where
  "hex_digit n = (if n < 10 then char_of (48 + n) else char_of (87 + n))"

definition escape_char :: "char \<Rightarrow> string" where
  "escape_char c =
     (if c = CHR 0x22 then [CHR 0x5C, CHR 0x22]
      else if c = CHR 0x5C then [CHR 0x5C, CHR 0x5C]
      else if c = CHR 0x08 then [CHR 0x5C, CHR ''b'']
      else if c = CHR 0x09 then [CHR 0x5C, CHR ''t'']
      else if c = CHR 0x0A then [CHR 0x5C, CHR ''n'']
      else if c = CHR 0x0C then [CHR 0x5C, CHR ''f'']
      else if c = CHR 0x0D then [CHR 0x5C, CHR ''r'']
      else if code_of c < 32 then
        [CHR 0x5C, CHR ''u'', CHR ''0'', CHR ''0'', hex_digit (code_of c div 16), hex_digit (code_of c mod 16)]
      else [c])"

definition quote_string :: "string \<Rightarrow> string" where
  "quote_string s = CHR 0x22 # concat (map escape_char s) @ [CHR 0x22]"

definition member_text :: "string \<times> string \<Rightarrow> string" where
  "member_text p = quote_string (fst p) @ '':'' @ snd p"

fun canonicalJson :: "json \<Rightarrow> string" where
  "canonicalJson JNull = ''null''"
| "canonicalJson (JBool b) = (if b then ''true'' else ''false'')"
| "canonicalJson (JNum i) = int_string i"
| "canonicalJson (JStr s) = quote_string s"
| "canonicalJson (JArr vs) = ''['' @ join_with '','' (map canonicalJson vs) @ '']''"
| "canonicalJson (JObj kvs) =
     ''{'' @ join_with '','' (map member_text (sort_key fst (map (apsnd canonicalJson) kvs))) @ ''}''"

text \<open>
  The task-runtime encoder takes any JavaScript value and throws a \<open>TypeError\<close> (\<open>None\<close>) on
  what has no canonical form. Cycles cannot occur in a HOL value.
\<close>

datatype js_value =
    VUndefined
  | VNull
  | VBool bool
  | VFinite int
  | VNonFinite
  | VString string
  | VArray "js_value list"
  | VPlain "(string \<times> js_value) list"
  | VInstance
  | VOther

fun all_some :: "'a option list \<Rightarrow> 'a list option" where
  "all_some [] = Some []"
| "all_some (None # xs) = None"
| "all_some (Some x # xs) = map_option (Cons x) (all_some xs)"

definition some_member :: "string \<times> string option \<Rightarrow> (string \<times> string) option" where
  "some_member p = map_option (Pair (fst p)) (snd p)"

fun encodeCanonical :: "js_value \<Rightarrow> string option" where
  "encodeCanonical VNull = Some ''null''"
| "encodeCanonical (VBool b) = Some (if b then ''true'' else ''false'')"
| "encodeCanonical (VFinite i) = Some (int_string i)"
| "encodeCanonical (VString s) = Some (quote_string s)"
| "encodeCanonical (VArray vs) =
     map_option (\<lambda>ts. ''['' @ join_with '','' ts @ '']'') (all_some (map encodeCanonical vs))"
| "encodeCanonical (VPlain kvs) =
     map_option (\<lambda>ms. ''{'' @ join_with '','' (map member_text ms) @ ''}'')
       (all_some (map some_member (sort_key fst (map (apsnd encodeCanonical) kvs))))"
| "encodeCanonical VUndefined = None"
| "encodeCanonical VNonFinite = None"
| "encodeCanonical VInstance = None"
| "encodeCanonical VOther = None"

fun js_of_json :: "json \<Rightarrow> js_value" where
  "js_of_json JNull = VNull"
| "js_of_json (JBool b) = VBool b"
| "js_of_json (JNum i) = VFinite i"
| "js_of_json (JStr s) = VString s"
| "js_of_json (JArr vs) = VArray (map js_of_json vs)"
| "js_of_json (JObj kvs) = VPlain (map (apsnd js_of_json) kvs)"

section \<open>Digests\<close>

definition sha256Json :: "(string \<Rightarrow> string) \<Rightarrow> json \<Rightarrow> string" where
  "sha256Json H v = H (canonicalJson v)"

definition digestRecord :: "(string \<Rightarrow> string) \<Rightarrow> (string \<times> json) list \<Rightarrow> string \<Rightarrow> string" where
  "digestRecord H kvs digestField = sha256Json H (JObj (filter (\<lambda>p. fst p \<noteq> digestField) kvs))"

definition hashedDiskKey :: "(string \<Rightarrow> string) \<Rightarrow> string \<Rightarrow> string \<Rightarrow> string" where
  "hashedDiskKey H namespace externalId = H (namespace @ [CHR 0x00] @ externalId)"

section \<open>Reading JSON text\<close>

definition json_ws :: "char \<Rightarrow> bool" where
  "json_ws c \<longleftrightarrow> c = CHR '' '' \<or> c = CHR 0x09 \<or> c = CHR 0x0A \<or> c = CHR 0x0D"

definition skip_ws :: "string \<Rightarrow> string" where
  "skip_ws = dropWhile json_ws"

definition hex_value :: "char \<Rightarrow> nat option" where
  "hex_value c = (if is_digit c then Some (code_of c - 48)
     else if char_between CHR ''a'' CHR ''f'' c then Some (code_of c - 87)
     else if char_between CHR ''A'' CHR ''F'' c then Some (code_of c - 55) else None)"

definition simple_escape :: "char \<Rightarrow> char option" where
  "simple_escape d =
     (if d = CHR 0x22 \<or> d = CHR 0x5C \<or> d = CHR ''/'' then Some d
      else if d = CHR ''b'' then Some CHR 0x08
      else if d = CHR ''t'' then Some CHR 0x09
      else if d = CHR ''n'' then Some CHR 0x0A
      else if d = CHR ''f'' then Some CHR 0x0C
      else if d = CHR ''r'' then Some CHR 0x0D else None)"

definition hex4 :: "char \<Rightarrow> char \<Rightarrow> char \<Rightarrow> char \<Rightarrow> char option" where
  "hex4 a b c d = (case (hex_value a, hex_value b, hex_value c, hex_value d) of
     (Some 0, Some 0, Some x, Some y) \<Rightarrow> Some (char_of (16 * x + y)) | _ \<Rightarrow> None)"

fun parse_chars :: "string \<Rightarrow> (string \<times> string) option" where
  "parse_chars [] = None"
| "parse_chars (c # cs) =
     (if c = CHR 0x22 then Some ([], cs)
      else if c = CHR 0x5C then
        (case cs of [] \<Rightarrow> None
         | d # rest \<Rightarrow>
             if d = CHR ''u'' then
               (case rest of
                  x # y # z # w # rest' \<Rightarrow>
                    (case hex4 x y z w of None \<Rightarrow> None
                     | Some ch \<Rightarrow> map_option (map_prod (Cons ch) id) (parse_chars rest'))
                | _ \<Rightarrow> None)
             else
               (case simple_escape d of None \<Rightarrow> None
                | Some ch \<Rightarrow> map_option (map_prod (Cons ch) id) (parse_chars rest)))
      else if code_of c < 32 then None
      else map_option (map_prod (Cons c) id) (parse_chars cs))"

fun digits_value :: "nat \<Rightarrow> string \<Rightarrow> nat" where
  "digits_value acc [] = acc"
| "digits_value acc (c # cs) = digits_value (10 * acc + (code_of c - 48)) cs"

text \<open>An integer literal: no leading zero, and no fraction or exponent after it.\<close>

definition parse_int :: "string \<Rightarrow> (int \<times> string) option" where
  "parse_int s =
     (let neg = (case s of c # _ \<Rightarrow> c = CHR ''-'' | [] \<Rightarrow> False);
          body = (if neg then tl s else s);
          ds = takeWhile is_digit body;
          rest = dropWhile is_digit body;
          v = int (digits_value 0 ds)
      in if ds = [] \<or> (hd ds = CHR ''0'' \<and> length ds > 1)
            \<or> (case rest of c # _ \<Rightarrow> c \<in> set ''.eE'' | [] \<Rightarrow> False) then None
         else Some (if neg then - v else v, rest))"

definition starts_at :: "string \<Rightarrow> string \<Rightarrow> string option" where
  "starts_at p s = (if prefix p s then Some (drop (length p) s) else None)"

text \<open>\<open>next_is c s\<close>: what follows the character \<open>c\<close> at the start of \<open>s\<close>, blanks skipped.\<close>

definition next_is :: "char \<Rightarrow> string \<Rightarrow> string option" where
  "next_is c s = (case skip_ws s of [] \<Rightarrow> None | d # r \<Rightarrow> if d = c then Some r else None)"

fun p_value :: "nat \<Rightarrow> string \<Rightarrow> (json \<times> string) option"
  and p_elems :: "nat \<Rightarrow> string \<Rightarrow> (json list \<times> string) option"
  and p_members :: "nat \<Rightarrow> string \<Rightarrow> ((string \<times> json) list \<times> string) option" where
  "p_value 0 s = None"
| "p_value (Suc n) s =
     (case skip_ws s of
        [] \<Rightarrow> None
      | c # cs \<Rightarrow>
          if c = CHR 0x22 then map_option (map_prod JStr id) (parse_chars cs)
          else if c = CHR ''['' then
            (case next_is CHR '']'' cs of
               Some r \<Rightarrow> Some (JArr [], r)
             | None \<Rightarrow> map_option (map_prod JArr id) (p_elems n cs))
          else if c = CHR ''{'' then
            (case next_is CHR ''}'' cs of
               Some r \<Rightarrow> Some (JObj [], r)
             | None \<Rightarrow> map_option (map_prod JObj id) (p_members n cs))
          else if c = CHR ''n'' then map_option (Pair JNull) (starts_at ''ull'' cs)
          else if c = CHR ''t'' then map_option (Pair (JBool True)) (starts_at ''rue'' cs)
          else if c = CHR ''f'' then map_option (Pair (JBool False)) (starts_at ''alse'' cs)
          else map_option (map_prod JNum id) (parse_int (c # cs)))"
| "p_elems 0 s = None"
| "p_elems (Suc n) s =
     (case p_value n s of None \<Rightarrow> None
      | Some (v, r) \<Rightarrow>
          (case next_is CHR '','' r of
             Some r' \<Rightarrow> map_option (map_prod (Cons v) id) (p_elems n r')
           | None \<Rightarrow> map_option (Pair [v]) (next_is CHR '']'' r)))"
| "p_members 0 s = None"
| "p_members (Suc n) s =
     (case Option.bind (next_is CHR 0x22 s) parse_chars of None \<Rightarrow> None
      | Some (k, r) \<Rightarrow>
          (case Option.bind (next_is CHR '':'' r) (p_value n) of None \<Rightarrow> None
           | Some (v, r') \<Rightarrow>
               (case next_is CHR '','' r' of
                  Some r'' \<Rightarrow>
                    map_option (map_prod (\<lambda>ms. if k \<in> fst ` set ms then ms else (k, v) # ms) id) (p_members n r'')
                | None \<Rightarrow> map_option (Pair [(k, v)]) (next_is CHR ''}'' r'))))"

definition json_parse :: "string \<Rightarrow> json option" where
  "json_parse s = (case p_value (2 * length s + 2) s of
     Some (v, r) \<Rightarrow> (if skip_ws r = [] then Some v else None) | None \<Rightarrow> None)"

section \<open>Values up to the order of object keys\<close>

fun key_sorted :: "json \<Rightarrow> json" where
  "key_sorted (JArr vs) = JArr (map key_sorted vs)"
| "key_sorted (JObj kvs) = JObj (sort_key fst (map (apsnd key_sorted) kvs))"
| "key_sorted v = v"

text \<open>A JavaScript object has every key once.\<close>

fun wf_json :: "json \<Rightarrow> bool" where
  "wf_json (JArr vs) = list_all wf_json vs"
| "wf_json (JObj kvs) \<longleftrightarrow> distinct (map fst kvs) \<and> list_all (\<lambda>p. wf_json (snd p)) kvs"
| "wf_json v = True"

section \<open>The reader undoes the encoder\<close>

text \<open>
  Reading back a canonical text gives the encoded value with its object keys sorted. The
  proof follows the recursive-descent reader: each piece of text the encoder emits is
  consumed exactly, whatever delimiter follows (\<open>stops\<close>), with \<open>jfuel\<close> bounding the recursion
  depth and \<open>jfuel_length\<close> showing that the fuel \<open>json_parse\<close> starts with is enough.
\<close>

lemma code_of_char_of [simp]: "code_of (char_of n) = n mod 256"
  by (simp add: code_of_def)

lemma char_of_code_of [simp]: "char_of (code_of c) = c"
  by (simp add: code_of_def)

lemma hex_value_hex_digit: "n < 16 \<Longrightarrow> hex_value (hex_digit n) = Some n"
  by (simp add: hex_value_def hex_digit_def is_digit_def char_between_def code_of_def)

lemma parse_chars_escape:
  "parse_chars (escape_char c @ t) = map_option (map_prod (Cons c) id) (parse_chars t)"
proof (cases "code_of c < 32")
  case True
  have "hex_value CHR ''0'' = Some 0"
    by (simp add: hex_value_def is_digit_def char_between_def code_of_def)
  then have "hex4 CHR ''0'' CHR ''0'' (hex_digit (code_of c div 16)) (hex_digit (code_of c mod 16)) = Some c"
    using True by (simp add: hex4_def hex_value_hex_digit)
  then show ?thesis
    using True by (auto simp: escape_char_def simple_escape_def)
next
  case False
  then show ?thesis
    by (auto simp: escape_char_def simple_escape_def code_of_def)
qed

lemma parse_chars_quote:
  "parse_chars (concat (map escape_char s) @ CHR 0x22 # rest) = Some (s, rest)"
proof (induction s)
  case (Cons c s)
  then show ?case by (simp add: parse_chars_escape del: parse_chars.simps(2))
qed simp

lemma insort_key_map_snd:
  "insort_key fst (apsnd f p) (map (apsnd f) ps) = map (apsnd f) (insort_key fst p ps)"
  by (induction ps) auto

lemma sort_key_map_snd:
  "sort_key fst (map (apsnd f) kvs) = map (apsnd f) (sort_key fst kvs)"
  by (induction kvs) (simp_all add: insort_key_map_snd)

lemma all_some_map_Some: "all_some (map (\<lambda>x. Some (f x)) xs) = Some (map f xs)"
  by (induction xs) auto

lemma is_digit_char_of: "(n::nat) < 10 \<Longrightarrow> is_digit (char_of (48 + n))"
  by (simp add: is_digit_def char_between_def code_of_def)

lemma nat_digits_digits: "list_all is_digit (nat_digits n)"
proof (induction n rule: nat_digits.induct)
  case (1 n)
  then show ?case
    by (subst nat_digits.simps) (auto intro!: is_digit_char_of simp del: One_nat_def)
qed

lemma nat_digits_nonempty: "nat_digits n \<noteq> []"
  by (subst nat_digits.simps) simp

lemma nat_digits_hd: "0 < n \<Longrightarrow> hd (nat_digits n) \<noteq> CHR ''0''"
proof (induction n rule: nat_digits.induct)
  case (1 n)
  show ?case
  proof (cases "n < 10")
    case True
    have "code_of (char_of (48 + n)) \<noteq> code_of CHR ''0''"
      using True 1 by (simp add: code_of_def)
    then have "char_of (48 + n) \<noteq> CHR ''0''" by metis
    then show ?thesis using True by (subst nat_digits.simps) simp
  next
    case False
    then show ?thesis using 1 by (subst nat_digits.simps) (simp add: nat_digits_nonempty)
  qed
qed

lemma digits_value_snoc: "digits_value acc (xs @ [c]) = 10 * digits_value acc xs + (code_of c - 48)"
  by (induction xs arbitrary: acc) auto

lemma digits_value_nat_digits: "digits_value 0 (nat_digits n) = n"
proof (induction n rule: nat_digits.induct)
  case (1 n)
  have "n mod 10 < 10" by simp
  then have "(48 + n mod 10) mod 256 = 48 + n mod 10" by (intro mod_less) linarith
  then show ?case using 1
    by (subst nat_digits.simps) (auto simp: digits_value_snoc)
qed

text \<open>What may follow a value inside a text: nothing, a delimiter, or the line end of a file.\<close>

definition stops :: "string \<Rightarrow> bool" where
  "stops rest = (case rest of [] \<Rightarrow> True | c # _ \<Rightarrow> c \<in> set '',]}'' \<or> c = CHR 0x0A)"

lemma stops_simps [simp]: "stops []" "stops (CHR 0x0A # r)" "stops (CHR '','' # r)" "stops (CHR '']'' # r)" "stops (CHR ''}'' # r)"
  by (simp_all add: stops_def)

lemma stops_not_digit: "stops rest \<Longrightarrow> takeWhile is_digit rest = [] \<and> dropWhile is_digit rest = rest"
  by (cases rest) (auto simp: stops_def is_digit_def char_between_def code_of_def)

lemma stops_no_fraction: "stops rest \<Longrightarrow> \<not> (case rest of c # _ \<Rightarrow> c \<in> set ''.eE'' | [] \<Rightarrow> False)"
  by (cases rest) (auto simp: stops_def)

lemma takeWhile_all: "list_all p xs \<Longrightarrow> takeWhile p ys = [] \<Longrightarrow> takeWhile p (xs @ ys) = xs"
  by (simp add: list_all_iff takeWhile_append)

lemma dropWhile_all: "list_all p xs \<Longrightarrow> dropWhile p ys = ys \<Longrightarrow> dropWhile p (xs @ ys) = ys"
  by (simp add: list_all_iff dropWhile_append3)

lemma nat_digits_not_minus: "nat_digits n = c # cs \<Longrightarrow> is_digit c"
  using nat_digits_digits [of n] by simp

lemma parse_int_body:
  assumes "stops rest"
  shows "takeWhile is_digit (nat_digits n @ rest) = nat_digits n"
    and "dropWhile is_digit (nat_digits n @ rest) = rest"
  using assms stops_not_digit [of rest] nat_digits_digits [of n]
  by (simp_all add: takeWhile_all dropWhile_all)

lemma no_leading_zero: "\<not> (hd (nat_digits n) = CHR ''0'' \<and> length (nat_digits n) > 1)"
proof (cases "n = 0")
  case True
  then show ?thesis by (subst (2) nat_digits.simps) simp
next
  case False
  then show ?thesis using nat_digits_hd [of n] by simp
qed

lemma parse_int_string:
  assumes "stops rest"
  shows "parse_int (int_string i @ rest) = Some (i, rest)"
proof (cases "i < 0")
  case True
  then show ?thesis
    using parse_int_body [OF assms, of "nat (- i)"] stops_no_fraction [OF assms] no_leading_zero [of "nat (- i)"]
    by (simp add: parse_int_def int_string_def Let_def nat_digits_nonempty digits_value_nat_digits)
next
  case False
  obtain c cs where ccs: "nat_digits (nat i) = c # cs" using nat_digits_nonempty by (cases "nat_digits (nat i)") auto
  have "c \<noteq> CHR ''-''" using nat_digits_not_minus [OF ccs]
    by (auto simp: is_digit_def char_between_def code_of_def)
  then have neg: "(case nat_digits (nat i) @ rest of [] \<Rightarrow> False | c # _ \<Rightarrow> c = CHR ''-'') = False"
    by (simp add: ccs)
  show ?thesis
    using False parse_int_body [OF assms, of "nat i"] stops_no_fraction [OF assms] no_leading_zero [of "nat i"]
    by (simp add: parse_int_def int_string_def Let_def neg nat_digits_nonempty digits_value_nat_digits)
qed


lemma skip_ws_Cons: "\<not> json_ws c \<Longrightarrow> skip_ws (c # cs) = c # cs"
  by (simp add: skip_ws_def)

lemma next_is_hit [simp]: "\<not> json_ws c \<Longrightarrow> next_is c (c # r) = Some r"
  by (simp add: next_is_def skip_ws_Cons)

lemma next_is_miss: "\<not> json_ws d \<Longrightarrow> d \<noteq> c \<Longrightarrow> next_is c (d # r) = None"
  by (simp add: next_is_def skip_ws_Cons)

lemma not_ws [simp]: "\<not> json_ws CHR '',''" "\<not> json_ws CHR '']''" "\<not> json_ws CHR ''}''" "\<not> json_ws CHR '':''"
  "\<not> json_ws CHR 0x22" "\<not> json_ws CHR ''[''" "\<not> json_ws CHR ''{''"
  by (simp_all add: json_ws_def)

definition value_head :: "char \<Rightarrow> bool" where
  "value_head c \<longleftrightarrow> is_digit c \<or> c \<in> {CHR ''-'', CHR 0x22, CHR ''['', CHR ''{'', CHR ''n'', CHR ''t'', CHR ''f''}"

lemma value_head_not: "value_head c \<Longrightarrow> \<not> json_ws c \<and> c \<noteq> CHR '']'' \<and> c \<noteq> CHR ''}''"
  by (auto simp: value_head_def json_ws_def is_digit_def char_between_def code_of_def)

lemma int_string_head: "\<exists>c cs. int_string i = c # cs \<and> (is_digit c \<or> c = CHR ''-'')"
proof -
  obtain c cs where "nat_digits (nat i) = c # cs" using nat_digits_nonempty by (cases "nat_digits (nat i)") auto
  then show ?thesis using nat_digits_not_minus by (auto simp: int_string_def)
qed

lemma canonicalJson_head: "\<exists>c cs. canonicalJson j = c # cs \<and> value_head c"
proof (cases j)
  case (JNum i)
  then show ?thesis using int_string_head [of i] by (auto simp: value_head_def)
qed (auto simp: value_head_def quote_string_def)

fun jfuel :: "json \<Rightarrow> nat" where
  "jfuel (JArr vs) = Suc (Suc (sum_list (map (\<lambda>v. Suc (jfuel v)) vs)))"
| "jfuel (JObj kvs) = Suc (Suc (sum_list (map (\<lambda>p. Suc (jfuel (snd p))) kvs)))"
| "jfuel v = 1"

definition reads :: "json \<Rightarrow> bool" where
  "reads v \<longleftrightarrow> (\<forall>n rest. jfuel v \<le> n \<longrightarrow> stops rest \<longrightarrow>
     p_value n (canonicalJson v @ rest) = Some (key_sorted v, rest))"

lemma p_elems_join:
  assumes "vs \<noteq> []" "\<And>v. v \<in> set vs \<Longrightarrow> reads v"
    and "Suc (sum_list (map (\<lambda>v. Suc (jfuel v)) vs)) \<le> n"
  shows "p_elems n (join_with '','' (map canonicalJson vs) @ CHR '']'' # rest) = Some (map key_sorted vs, rest)"
  using assms
proof (induction vs arbitrary: n)
  case (Cons v vs)
  then obtain m where n: "n = Suc m" by (cases n) auto
  have v: "p_value m (canonicalJson v @ r) = Some (key_sorted v, r)" if "stops r" for r
    using Cons.prems that by (auto simp: n reads_def)
  show ?case
  proof (cases vs)
    case Nil
    then show ?thesis using v by (simp add: n next_is_miss)
  next
    case (Cons w ws)
    have "p_elems m (join_with '','' (map canonicalJson vs) @ CHR '']'' # rest) = Some (map key_sorted vs, rest)"
      using Cons Cons.prems by (intro Cons.IH) (auto simp: n)
    then show ?thesis using v by (simp add: n Cons)
  qed
qed simp


lemma p_members_join:
  assumes "ms \<noteq> []" "\<And>p. p \<in> set ms \<Longrightarrow> reads (snd p)" "distinct (map fst ms)"
    and "Suc (sum_list (map (\<lambda>p. Suc (jfuel (snd p))) ms)) \<le> n"
  shows "p_members n (join_with '','' (map member_text (map (apsnd canonicalJson) ms)) @ CHR ''}'' # rest)
    = Some (map (apsnd key_sorted) ms, rest)"
  using assms
proof (induction ms arbitrary: n)
  case (Cons p ms)
  obtain k v where p: "p = (k, v)" by (cases p)
  from Cons obtain m where n: "n = Suc m" by (cases n) auto
  have "reads v" using Cons.prems(2) [of p] by (simp add: p)
  moreover have "jfuel v \<le> m" using Cons.prems(4) by (simp add: n p)
  ultimately have v: "p_value m (canonicalJson v @ r) = Some (key_sorted v, r)" if "stops r" for r
    using that by (simp add: reads_def)
  have key: "parse_chars (concat (map escape_char k) @ CHR 0x22 # r) = Some (k, r)" for r
    by (rule parse_chars_quote)
  show ?case
  proof (cases ms)
    case Nil
    then show ?thesis using v by (simp add: n p member_text_def quote_string_def next_is_miss key)
  next
    case (Cons q qs)
    have "p_members m (join_with '','' (map member_text (map (apsnd canonicalJson) ms)) @ CHR ''}'' # rest)
        = Some (map (apsnd key_sorted) ms, rest)"
      using Cons Cons.prems by (intro Cons.IH) (auto simp: n)
    moreover have "k \<notin> fst ` set ms" using Cons.prems(3) by (simp add: p)
    ultimately show ?thesis using v
      by (simp add: n p Cons member_text_def [of "(k, canonicalJson v)"] quote_string_def [of k] key image_iff)
  qed
qed simp

lemma sum_list_sort_key: "sum_list (map f (sort_key g xs)) = (sum_list (map f xs) :: nat)"
  by (metis mset_map mset_sort sum_mset_sum_list)

lemma canonicalJson_reads: "wf_json j \<Longrightarrow> reads j"
proof (induction j)
  case (JNum i)
  obtain c cs where ccs: "int_string i = c # cs" and c: "is_digit c \<or> c = CHR ''-''" using int_string_head by blast
  have "c \<noteq> CHR 0x22 \<and> c \<noteq> CHR ''['' \<and> c \<noteq> CHR ''{'' \<and> c \<noteq> CHR ''n'' \<and> c \<noteq> CHR ''t'' \<and> c \<noteq> CHR ''f'' \<and> \<not> json_ws c"
    using c by (auto simp: is_digit_def char_between_def code_of_def json_ws_def)
  then have "p_value (Suc m) (int_string i @ rest) = Some (JNum i, rest)" if "stops rest" for m rest
    using parse_int_string [OF that, of i] by (simp add: ccs skip_ws_Cons)
  then show ?case by (auto simp: reads_def Suc_le_eq gr0_conv_Suc)
next
  case (JStr s)
  then show ?case
    by (auto simp: reads_def Suc_le_eq gr0_conv_Suc quote_string_def skip_ws_Cons parse_chars_quote)
next
  case (JArr vs)
  show ?case
    unfolding reads_def
  proof (intro allI impI)
    fix n rest assume n: "jfuel (JArr vs) \<le> n" and "stops rest"
    then obtain m where m: "n = Suc m" by (cases n) auto
    show "p_value n (canonicalJson (JArr vs) @ rest) = Some (key_sorted (JArr vs), rest)"
    proof (cases "vs = []")
      case False
      then obtain w ws where vs: "vs = w # ws" by (cases vs) auto
      have "p_elems m (join_with '','' (map canonicalJson vs) @ CHR '']'' # rest) = Some (map key_sorted vs, rest)"
        using False JArr n m by (intro p_elems_join) (auto simp: list_all_iff)
      moreover obtain c cs where "join_with '','' (map canonicalJson vs) = c # cs" "value_head c"
        using canonicalJson_head [of w] by (cases ws) (auto simp: vs)
      ultimately show ?thesis
        using value_head_not [of c] by (simp add: m skip_ws_Cons next_is_miss)
    qed (simp add: m skip_ws_Cons)
  qed
next
  case (JObj kvs)
  show ?case
    unfolding reads_def
  proof (intro allI impI)
    fix n rest assume n: "jfuel (JObj kvs) \<le> n" and "stops rest"
    then obtain m where m: "n = Suc m" by (cases n) auto
    let ?ms = "sort_key fst kvs"
    show "p_value n (canonicalJson (JObj kvs) @ rest) = Some (key_sorted (JObj kvs), rest)"
    proof (cases "kvs = []")
      case False
      then obtain w ws where ms: "?ms = w # ws" by (cases ?ms) (auto dest: arg_cong [of _ _ set])
      have "p_members m (join_with '','' (map member_text (map (apsnd canonicalJson) ?ms)) @ CHR ''}'' # rest)
          = Some (map (apsnd key_sorted) ?ms, rest)"
      proof (rule p_members_join)
        show "reads (snd p)" if "p \<in> set ?ms" for p
          using that JObj by (auto simp: list_all_iff snds.simps)
        show "distinct (map fst ?ms)" using JObj.prems by (simp add: distinct_map)
        show "?ms \<noteq> []" by (simp add: ms)
        show "Suc (sum_list (map (\<lambda>p. Suc (jfuel (snd p))) ?ms)) \<le> m"
          using n by (simp add: m sum_list_sort_key)
      qed
      moreover obtain cs where "join_with '','' (map member_text (map (apsnd canonicalJson) ?ms)) = CHR 0x22 # cs"
        by (cases ws) (auto simp: ms member_text_def quote_string_def)
      ultimately show ?thesis
        by (simp add: m skip_ws_Cons next_is_miss sort_key_map_snd)
    qed (simp add: m skip_ws_Cons)
  qed
qed (auto simp: reads_def Suc_le_eq gr0_conv_Suc skip_ws_def json_ws_def starts_at_def)


lemma length_join_with: "xs \<noteq> [] \<Longrightarrow> length (join_with '','' xs) + 1 = sum_list (map length xs) + length xs"
  by (induction "'',''" xs rule: join_with.induct) auto

lemma sum_list_plus_length: "sum_list (map (\<lambda>x. Suc (f x)) xs) = sum_list (map f xs) + length xs"
  by (induction xs) auto

lemma sort_empty: "sort_key fst xs = [] \<longleftrightarrow> xs = []"
  by (metis length_0_conv length_sort)

lemma jfuel_length: "jfuel j \<le> 2 * length (canonicalJson j)"
proof (induction j)
  case (JNum i)
  then show ?case using int_string_head [of i] by auto
next
  case (JArr vs)
  have "sum_list (map jfuel vs) \<le> sum_list (map (\<lambda>v. 2 * length (canonicalJson v)) vs)"
    using JArr by (intro sum_list_mono) auto
  then have "sum_list (map jfuel vs) \<le> 2 * sum_list (map length (map canonicalJson vs))"
    by (simp add: sum_list_const_mult comp_def)
  then show ?case
    using length_join_with [of "map canonicalJson vs"]
    by (cases "vs = []") (auto simp: sum_list_plus_length)
next
  case (JObj kvs)
  let ?ts = "map member_text (map (apsnd canonicalJson) (sort_key fst kvs))"
  have "sum_list (map (\<lambda>p. jfuel (snd p)) kvs) \<le> sum_list (map (\<lambda>p. 2 * length (canonicalJson (snd p))) kvs)"
    using JObj by (intro sum_list_mono) (auto simp: snds.simps)
  also have "\<dots> \<le> sum_list (map (\<lambda>p. 2 * length (member_text (apsnd canonicalJson p))) kvs)"
    by (intro sum_list_mono) (auto simp: member_text_def)
  also have "\<dots> = 2 * sum_list (map length ?ts)"
    by (simp add: sum_list_const_mult comp_def sum_list_sort_key)
  finally show ?case
    using length_join_with [of ?ts]
    using sort_empty [of kvs]
    by (cases "kvs = []") (auto simp: sum_list_plus_length sort_key_map_snd)
qed (auto simp: quote_string_def)


lemma parse_canonical_then:
  assumes "wf_json j" "stops rest" "skip_ws rest = []"
  shows "json_parse (canonicalJson j @ rest) = Some (key_sorted j)"
proof -
  have "p_value n (canonicalJson j @ rest) = Some (key_sorted j, rest)" if "jfuel j \<le> n" for n
    using canonicalJson_reads [of j] that assms unfolding reads_def by blast
  from this [of "2 * length (canonicalJson j @ rest) + 2"] jfuel_length [of j] assms(3) show ?thesis
    by (simp add: json_parse_def del: p_value.simps)
qed

lemma parse_canonical: "wf_json j \<Longrightarrow> json_parse (canonicalJson j) = Some (key_sorted j)"
  using parse_canonical_then [of j "[]"] by (simp add: skip_ws_def)

text \<open>A record is written to its file with a line end.\<close>

definition file_text :: "json \<Rightarrow> string" where
  "file_text v = canonicalJson v @ [CHR 0x0A]"

lemma parse_file_text: "wf_json j \<Longrightarrow> json_parse (file_text j) = Some (key_sorted j)"
  unfolding file_text_def by (rule parse_canonical_then) (simp_all add: skip_ws_def json_ws_def)

lemma sort_key_idem: "sort_key f (sort_key f xs) = sort_key f xs"
  by (simp add: sort_key_id_if_sorted)

lemma canonicalJson_key_sorted: "canonicalJson (key_sorted j) = canonicalJson j"
proof (induction j)
  case (JObj kvs)
  have "map (apsnd canonicalJson) (map (apsnd key_sorted) kvs) = map (apsnd canonicalJson) kvs"
    using JObj by (auto simp: snds.simps intro!: prod_eqI)
  then have "map (apsnd canonicalJson) (sort_key fst (map (apsnd key_sorted) kvs)) = sort_key fst (map (apsnd canonicalJson) kvs)"
    by (metis sort_key_map_snd)
  then show ?case
    by (simp only: key_sorted.simps canonicalJson.simps sort_key_map_snd [of canonicalJson] sort_key_idem)
qed (auto simp: comp_def cong: map_cong)

lemma canonicalJson_eq:
  assumes "wf_json a" "wf_json b"
  shows "canonicalJson a = canonicalJson b \<longleftrightarrow> key_sorted a = key_sorted b"
  using assms by (metis canonicalJson_key_sorted option.inject parse_canonical)

text \<open>Objects with the same text have the same members.\<close>

lemma map_of_sort_key: "distinct (map fst xs) \<Longrightarrow> map_of (sort_key fst xs) = map_of xs"
  by (subst map_of_inject_set) (simp_all add: distinct_map)

lemma sorted_members:
  assumes "distinct (map fst kvs)"
  shows "map_of (sort_key fst (map (apsnd key_sorted) kvs)) k = map_option key_sorted (map_of kvs k)"
proof -
  have "map fst (map (apsnd key_sorted) kvs) = map fst kvs"
    by simp
  with assms have "map_of (sort_key fst (map (apsnd key_sorted) kvs)) = map_of (map (apsnd key_sorted) kvs)"
    by (intro map_of_sort_key) (simp only:)
  moreover have "map_of (map (apsnd key_sorted) kvs) k = map_option key_sorted (map_of kvs k)"
    by (induction kvs) auto
  ultimately show ?thesis
    by simp
qed

lemma canonical_object_members:
  assumes "canonicalJson (JObj xs) = canonicalJson (JObj ys)" "wf_json (JObj xs)" "wf_json (JObj ys)"
  shows "map_option key_sorted (map_of xs k) = map_option key_sorted (map_of ys k)"
  using assms canonicalJson_eq [OF assms(2,3)] sorted_members [of xs k] sorted_members [of ys k]
  by (auto simp del: canonicalJson.simps)

lemma encode_canonicalJson: "encodeCanonical (js_of_json j) = Some (canonicalJson j)"
proof (induction j)
  case (JArr vs)
  then have "map encodeCanonical (map js_of_json vs) = map (\<lambda>v. Some (canonicalJson v)) vs" by simp
  then have "all_some (map encodeCanonical (map js_of_json vs)) = Some (map canonicalJson vs)"
    by (simp only: all_some_map_Some)
  then show ?case by (simp only: js_of_json.simps encodeCanonical.simps canonicalJson.simps option.map)
next
  case (JObj kvs)
  have "map (apsnd encodeCanonical) (map (apsnd js_of_json) kvs) = map (apsnd (\<lambda>v. Some (canonicalJson v))) kvs"
    using JObj by (auto simp: snds.simps intro!: prod_eqI)
  then have "sort_key fst (map (apsnd encodeCanonical) (map (apsnd js_of_json) kvs))
      = map (apsnd (\<lambda>v. Some (canonicalJson v))) (sort_key fst kvs)"
    by (simp only: sort_key_map_snd)
  moreover have "map some_member (map (apsnd (\<lambda>v. Some (canonicalJson v))) ps) = map (\<lambda>p. Some (apsnd canonicalJson p)) ps" for ps
    by (simp add: some_member_def apsnd_def map_prod_def split_beta)
  ultimately show ?case
    by (simp only: js_of_json.simps encodeCanonical.simps canonicalJson.simps option.map all_some_map_Some sort_key_map_snd)
qed auto

lemma sort_key_mset:
  assumes "mset xs = mset ys" "distinct (map fst xs)"
  shows "sort_key fst xs = sort_key fst ys"
proof (rule map_sorted_distinct_set_unique)
  have "set xs = set ys" using assms(1) by (metis set_mset_mset)
  then show "set (sort_key fst xs) = set (sort_key fst ys)" by simp
  show "inj_on fst (set (sort_key fst xs) \<union> set (sort_key fst ys))"
    using assms(2) \<open>set xs = set ys\<close> by (simp add: distinct_map)
  have "distinct (map fst ys)"
    using assms by (metis mset_map mset_eq_imp_distinct_iff)
  then show "distinct (map fst (sort_key fst ys))" by (simp add: distinct_map)
  show "distinct (map fst (sort_key fst xs))" using assms(2) by (simp add: distinct_map)
qed simp_all

lemma canonicalJson_mset:
  assumes "mset xs = mset ys" "distinct (map fst xs)"
  shows "canonicalJson (JObj xs) = canonicalJson (JObj ys)"
  using sort_key_mset [OF assms] by (simp add: sort_key_map_snd)

lemma digestRecord_mset:
  assumes "mset xs = mset ys" "distinct (map fst xs)"
  shows "digestRecord H xs f = digestRecord H ys f"
proof -
  have "mset (filter (\<lambda>p. fst p \<noteq> f) xs) = mset (filter (\<lambda>p. fst p \<noteq> f) ys)"
    using assms(1) by (metis mset_filter)
  moreover have "distinct (map fst (filter (\<lambda>p. fst p \<noteq> f) xs))"
    using assms(2) by (simp add: distinct_map_filter)
  ultimately have "canonicalJson (JObj (filter (\<lambda>p. fst p \<noteq> f) xs)) = canonicalJson (JObj (filter (\<lambda>p. fst p \<noteq> f) ys))"
    by (rule canonicalJson_mset)
  then show ?thesis by (simp only: digestRecord_def sha256Json_def)
qed

lemma digestRecord_ignores_field: "digestRecord H ((f, v) # kvs) f = digestRecord H kvs f"
  by (simp add: digestRecord_def)

section \<open>Properties\<close>

text \<open>Two JSON values have the same canonical text, and so the
  same digest input, exactly when they are equal up to the order of object keys.\<close>

lemma canonical_text_identifies_value:
  assumes "wf_json a" "wf_json b"
  shows "canonicalJson a = canonicalJson b \<longleftrightarrow> key_sorted a = key_sorted b"
  using assms by (rule canonicalJson_eq)

lemma canonical_text_identifies_value_witness:
  "canonicalJson (JObj [(''b'', JNum 1), (''a'', JNull)]) = canonicalJson (JObj [(''a'', JNull), (''b'', JNum 1)])"
  by (subst canonical_text_identifies_value) (simp, simp, code_simp)

text \<open>\<open>JSON.parse\<close> accepts every canonical text and gives back the encoded
  value, its object keys in sorted order.\<close>

lemma json_round_trip:
  assumes "wf_json j"
  shows "json_parse (canonicalJson j) = Some (key_sorted j)"
  using assms by (rule parse_canonical)

lemma json_round_trip_witness:
  "json_parse (canonicalJson (JObj [(''k'', JArr [JNum (-12), JStr [CHR 0x0A, CHR 0x22]])]))
     = Some (JObj [(''k'', JArr [JNum (-12), JStr [CHR 0x0A, CHR 0x22]])])"
  using json_round_trip [of "JObj [(''k'', JArr [JNum (-12), JStr [CHR 0x0A, CHR 0x22]])]"] by simp

text \<open>The task-runtime encoder, which rejects what is not JSON,
  gives exactly the canonical text of the GitHub encoder on every JSON value.\<close>

lemma encoders_agree: "encodeCanonical (js_of_json j) = Some (canonicalJson j)"
  by (rule encode_canonicalJson)

end
