(* ===== verification/Phase_Machine.thy ===== *)
theory Phase_Machine
  imports Prelude
begin

text \<open>
  The phases of durable operations and what every table of permitted transitions promises.
  Three components keep an operation record whose phase moves along a fixed table: the
  task-runtime operations (src/task-runtime/state-store.ts), the GitHub operations
  (src/github/operation-controller.ts) and the task mutations
  (src/task-runtime/mutation-store.ts). The locales state the contract once; each component
  interprets them on its own table.
\<close>

section \<open>The twelve phases\<close>

datatype op_phase =
    CREATED
  | ADMITTED
  | LOCAL_MUTATION_STARTED
  | LOCAL_MUTATION_COMPLETE
  | EXTERNAL_PRECONTACT
  | EXTERNAL_CONTACTED
  | EXTERNAL_SUCCEEDED
  | FAILED_PRECONTACT
  | FAILED_KNOWN_AFTER_CONTACT
  | UNKNOWN_AFTER_CONTACT
  | ROLLBACK_COMPLETE
  | BLOCKED

fun phase_name :: "op_phase \<Rightarrow> string" where
  "phase_name CREATED = ''CREATED''"
| "phase_name ADMITTED = ''ADMITTED''"
| "phase_name LOCAL_MUTATION_STARTED = ''LOCAL_MUTATION_STARTED''"
| "phase_name LOCAL_MUTATION_COMPLETE = ''LOCAL_MUTATION_COMPLETE''"
| "phase_name EXTERNAL_PRECONTACT = ''EXTERNAL_PRECONTACT''"
| "phase_name EXTERNAL_CONTACTED = ''EXTERNAL_CONTACTED''"
| "phase_name EXTERNAL_SUCCEEDED = ''EXTERNAL_SUCCEEDED''"
| "phase_name FAILED_PRECONTACT = ''FAILED_PRECONTACT''"
| "phase_name FAILED_KNOWN_AFTER_CONTACT = ''FAILED_KNOWN_AFTER_CONTACT''"
| "phase_name UNKNOWN_AFTER_CONTACT = ''UNKNOWN_AFTER_CONTACT''"
| "phase_name ROLLBACK_COMPLETE = ''ROLLBACK_COMPLETE''"
| "phase_name BLOCKED = ''BLOCKED''"

section \<open>Transition tables\<close>

text \<open>A table gives the phases a phase may move to; settled phases have none.\<close>

locale phase_table =
  fixes allowed :: "'p \<Rightarrow> 'p list"
    and settled :: "'p \<Rightarrow> bool"
  assumes settled_final: "settled p \<Longrightarrow> allowed p = []"

context phase_table
begin

inductive path :: "'p \<Rightarrow> 'p list \<Rightarrow> 'p \<Rightarrow> bool" where
  path_nil: "path p [] p"
| path_cons: "q \<in> set (allowed p) \<Longrightarrow> path q qs r \<Longrightarrow> path p (q # qs) r"

inductive_cases path_nilE: "path p [] r"
inductive_cases path_consE: "path p (q # qs) r"

lemma settled_path:
  assumes "settled p" "path p qs r"
  shows "qs = [] \<and> r = p"
  using assms(2,1) by (cases rule: path.cases) (auto dest: settled_final)

lemma path_last: "path p qs r \<Longrightarrow> r = last (p # qs)"
  by (induction rule: path.induct) auto

lemma path_settled_last:
  "path p qs r \<Longrightarrow> q \<in> set (butlast (p # qs)) \<Longrightarrow> \<not> settled q"
proof (induction rule: path.induct)
  case (path_cons q p qs r)
  then show ?case by (auto dest: settled_final split: if_splits)
qed simp

end

text \<open>Where a rank grows along the table, an operation moves at most \<open>bound\<close> times.\<close>

locale ranked_phase_table = phase_table allowed settled
  for allowed :: "'p \<Rightarrow> 'p list" and settled :: "'p \<Rightarrow> bool" +
  fixes rank :: "'p \<Rightarrow> nat"
    and bound :: nat
  assumes rank_grows: "q \<in> set (allowed p) \<Longrightarrow> rank p < rank q"
    and rank_bound: "rank p \<le> bound"

context ranked_phase_table
begin

lemma path_rank: "path p qs r \<Longrightarrow> rank p + length qs \<le> rank r"
  by (induction rule: path.induct) (auto dest: rank_grows)

lemma path_bounded: "path p qs r \<Longrightarrow> length qs \<le> bound"
  using path_rank rank_bound [of r] by fastforce

lemma no_return: "path p qs p \<Longrightarrow> qs = []"
  using path_rank by fastforce

end

end
