(* ===== verification/Task_Contracts.thy ===== *)
theory Task_Contracts
  imports Canonical_Json Phase_Machine
begin

text \<open>
  The durable records of the task runtime and their schemas (src/task-runtime/contracts.ts).
  A schema of the source is a predicate here: \<open>task_schema\<close> holds of the records the Zod
  schema accepts, the refinements on the combination of fields included. Literal fields
  (\<open>schema_version\<close>) are not stored. Timestamps are the strings the code stores; what Zod
  accepts as a datetime is the parameter \<open>dt\<close> of the schemas.
\<close>

section \<open>Enumerations\<close>

datatype task_authority = Inspect | Implement | Ship

datatype task_lifecycle =
  OPENING | OPEN | CLOSING | CLOSED | CLEANUP_STARTED | CLEANUP_BLOCKED | CLEANED | RECOVERY_REQUIRED

datatype worktree_state = WT_ABSENT | WT_PRESENT | WT_DIRTY | WT_PARTIAL | WT_CONFLICT | WT_UNKNOWN

datatype branch_state = BR_ABSENT | BR_PRESENT | BR_PRESERVED | BR_UNKNOWN

datatype registration_state = PENDING | REGISTERED | UNREGISTERED | REG_UNKNOWN

datatype close_disposition = Completed | Blocked_Task | Abandoned | Superseded

datatype effect_state = NOT_STARTED | EFF_ABSENT | EFF_PRESENT | EFF_PARTIAL | EFF_UNKNOWN

datatype operation_kind = KIND_OPEN | KIND_CLOSE | KIND_CLEANUP | KIND_AGENT_CONTINUE

fun authority_name :: "task_authority \<Rightarrow> string" where
  "authority_name Inspect = ''inspect''"
| "authority_name Implement = ''implement''"
| "authority_name Ship = ''ship''"

fun lifecycle_name :: "task_lifecycle \<Rightarrow> string" where
  "lifecycle_name OPENING = ''OPENING''"
| "lifecycle_name OPEN = ''OPEN''"
| "lifecycle_name CLOSING = ''CLOSING''"
| "lifecycle_name CLOSED = ''CLOSED''"
| "lifecycle_name CLEANUP_STARTED = ''CLEANUP_STARTED''"
| "lifecycle_name CLEANUP_BLOCKED = ''CLEANUP_BLOCKED''"
| "lifecycle_name CLEANED = ''CLEANED''"
| "lifecycle_name RECOVERY_REQUIRED = ''RECOVERY_REQUIRED''"

fun worktree_name :: "worktree_state \<Rightarrow> string" where
  "worktree_name WT_ABSENT = ''ABSENT''"
| "worktree_name WT_PRESENT = ''PRESENT''"
| "worktree_name WT_DIRTY = ''DIRTY''"
| "worktree_name WT_PARTIAL = ''PARTIAL''"
| "worktree_name WT_CONFLICT = ''CONFLICT''"
| "worktree_name WT_UNKNOWN = ''UNKNOWN''"

fun branch_name :: "branch_state \<Rightarrow> string" where
  "branch_name BR_ABSENT = ''ABSENT''"
| "branch_name BR_PRESENT = ''PRESENT''"
| "branch_name BR_PRESERVED = ''PRESERVED''"
| "branch_name BR_UNKNOWN = ''UNKNOWN''"

fun registration_name :: "registration_state \<Rightarrow> string" where
  "registration_name PENDING = ''PENDING''"
| "registration_name REGISTERED = ''REGISTERED''"
| "registration_name UNREGISTERED = ''UNREGISTERED''"
| "registration_name REG_UNKNOWN = ''UNKNOWN''"

fun disposition_name :: "close_disposition \<Rightarrow> string" where
  "disposition_name Completed = ''completed''"
| "disposition_name Blocked_Task = ''blocked''"
| "disposition_name Abandoned = ''abandoned''"
| "disposition_name Superseded = ''superseded''"

fun effect_name :: "effect_state \<Rightarrow> string" where
  "effect_name NOT_STARTED = ''NOT_STARTED''"
| "effect_name EFF_ABSENT = ''ABSENT''"
| "effect_name EFF_PRESENT = ''PRESENT''"
| "effect_name EFF_PARTIAL = ''PARTIAL''"
| "effect_name EFF_UNKNOWN = ''UNKNOWN''"

fun kind_name :: "operation_kind \<Rightarrow> string" where
  "kind_name KIND_OPEN = ''OPEN''"
| "kind_name KIND_CLOSE = ''CLOSE''"
| "kind_name KIND_CLEANUP = ''CLEANUP''"
| "kind_name KIND_AGENT_CONTINUE = ''AGENT_CONTINUE''"

section \<open>Records\<close>

record task_state =
  t_task_id :: string
  t_repo_id :: string
  t_base_repo_id :: string
  t_base_branch :: string
  t_base_commit :: string
  t_base_tree :: string
  t_authority :: task_authority
  t_goal :: string
  t_branch_slug :: string
  t_server_branch :: string
  t_worktree_path :: string
  t_lifecycle :: task_lifecycle
  t_worktree_state :: worktree_state
  t_branch_state :: branch_state
  t_worktree_head :: "string option"
  t_worktree_tree :: "string option"
  t_registration_state :: registration_state
  t_close_disposition :: "close_disposition option"
  t_closed_at :: "string option"
  t_close_reason :: "string option"
  t_cleanup_note :: "string option"
  t_revision :: nat
  t_created_at :: string
  t_updated_at :: string
  t_state_sha256 :: string

record operation_state =
  o_task_id :: string
  o_operation_id :: string
  o_kind :: operation_kind
  o_request_sha256 :: string
  o_phase :: op_phase
  o_effect_state :: effect_state
  o_revision :: nat
  o_created_at :: string
  o_updated_at :: string
  o_completed_at :: "string option"
  o_result_repo_id :: "string option"
  o_error_code :: "string option"
  o_error_message :: "string option"
  o_state_sha256 :: string

section \<open>Field schemas\<close>

definition task_id_schema :: "string \<Rightarrow> bool" where
  "task_id_schema s \<longleftrightarrow> 1 \<le> length s \<and> length s \<le> 128 \<and> id_regex 0 (length s) s"

definition operation_id_schema :: "string \<Rightarrow> bool" where
  "operation_id_schema s \<longleftrightarrow> 1 \<le> length s \<and> length s \<le> 160 \<and> id_regex 0 (length s) s"

definition task_repo_id_schema :: "string \<Rightarrow> bool" where
  "task_repo_id_schema s \<longleftrightarrow> prefix ''task-'' s \<and> hex_n 40 (drop 5 s)"

definition sha256_schema :: "string \<Rightarrow> bool" where
  "sha256_schema s = hex_n 64 s"

definition git_object_id_schema :: "string \<Rightarrow> bool" where
  "git_object_id_schema s \<longleftrightarrow> hex_n 40 s \<or> hex_n 64 s"

definition is_slug_char :: "char \<Rightarrow> bool" where
  "is_slug_char c \<longleftrightarrow> is_lower c \<or> is_digit c \<or> c = CHR ''-''"

definition branch_slug_schema :: "string \<Rightarrow> bool" where
  "branch_slug_schema s = (case s of [] \<Rightarrow> False
     | c # cs \<Rightarrow> (is_lower c \<or> is_digit c) \<and> length cs \<le> 48 \<and> list_all is_slug_char cs)"

definition server_branch_schema :: "string \<Rightarrow> bool" where
  "server_branch_schema s \<longleftrightarrow>
     (let r = drop 15 s; n = length r - 13 in
      prefix ''chat-pro/tasks/'' s \<and> 14 \<le> length r
        \<and> branch_slug_schema (take n r) \<and> r ! n = CHR ''-'' \<and> hex_n 12 (drop (Suc n) r))"

definition is_absolute :: "string \<Rightarrow> bool" where
  "is_absolute p = prefix ''/'' p"

definition runtime_path_schema :: "string \<Rightarrow> bool" where
  "runtime_path_schema s \<longleftrightarrow> 1 \<le> length s \<and> length s \<le> 4096 \<and> is_absolute s \<and> CHR 0x00 \<notin> set s"

definition base_branch_schema :: "string \<Rightarrow> bool" where
  "base_branch_schema s \<longleftrightarrow> 1 \<le> length s \<and> length s \<le> 255 \<and> \<not> prefix ''-'' s
     \<and> CHR 0x00 \<notin> set s \<and> CHR 0x0D \<notin> set s \<and> CHR 0x0A \<notin> set s"

definition bounded_text_schema :: "string \<Rightarrow> bool" where
  "bounded_text_schema s \<longleftrightarrow> 1 \<le> length s \<and> length s \<le> 8000 \<and> CHR 0x00 \<notin> set s"

definition length_between :: "nat \<Rightarrow> nat \<Rightarrow> string \<Rightarrow> bool" where
  "length_between lo hi s \<longleftrightarrow> lo \<le> length s \<and> length s \<le> hi"

definition optional :: "('a \<Rightarrow> bool) \<Rightarrow> 'a option \<Rightarrow> bool" where
  "optional p x = (case x of None \<Rightarrow> True | Some v \<Rightarrow> p v)"

definition timestamp_schema :: "(string \<Rightarrow> bool) \<Rightarrow> string \<Rightarrow> bool" where
  "timestamp_schema dt s \<longleftrightarrow> length s \<le> 64 \<and> dt s"

section \<open>Record schemas\<close>

definition terminal_lifecycle :: "task_lifecycle \<Rightarrow> bool" where
  "terminal_lifecycle l \<longleftrightarrow> l \<in> {CLOSED, CLEANUP_STARTED, CLEANUP_BLOCKED, CLEANED}"

text \<open>The four refinements of \<open>TaskStateSchema\<close> on the combination of fields.\<close>

definition task_refinement :: "task_state \<Rightarrow> bool" where
  "task_refinement t \<longleftrightarrow>
     (terminal_lifecycle (t_lifecycle t) \<longrightarrow> t_close_disposition t \<noteq> None \<and> t_closed_at t \<noteq> None)
   \<and> (t_lifecycle t \<in> {OPEN, OPENING} \<longrightarrow> t_close_disposition t = None \<and> t_closed_at t = None)
   \<and> (t_lifecycle t = CLOSING \<longrightarrow> t_close_disposition t \<noteq> None \<and> t_closed_at t = None)
   \<and> (t_lifecycle t = CLEANED \<longrightarrow> t_worktree_state t = WT_ABSENT \<and> t_registration_state t = UNREGISTERED)"

definition task_schema :: "(string \<Rightarrow> bool) \<Rightarrow> task_state \<Rightarrow> bool" where
  "task_schema dt t \<longleftrightarrow>
     task_id_schema (t_task_id t) \<and> task_repo_id_schema (t_repo_id t)
   \<and> length_between 1 200 (t_base_repo_id t) \<and> base_branch_schema (t_base_branch t)
   \<and> git_object_id_schema (t_base_commit t) \<and> git_object_id_schema (t_base_tree t)
   \<and> bounded_text_schema (t_goal t) \<and> branch_slug_schema (t_branch_slug t)
   \<and> server_branch_schema (t_server_branch t) \<and> runtime_path_schema (t_worktree_path t)
   \<and> optional git_object_id_schema (t_worktree_head t) \<and> optional git_object_id_schema (t_worktree_tree t)
   \<and> optional (timestamp_schema dt) (t_closed_at t)
   \<and> optional (length_between 1 1000) (t_close_reason t)
   \<and> optional (length_between 1 1000) (t_cleanup_note t)
   \<and> timestamp_schema dt (t_created_at t) \<and> timestamp_schema dt (t_updated_at t)
   \<and> sha256_schema (t_state_sha256 t) \<and> task_refinement t"

definition terminal_operation_phase :: "op_phase \<Rightarrow> bool" where
  "terminal_operation_phase p \<longleftrightarrow> p \<in> {LOCAL_MUTATION_COMPLETE, EXTERNAL_SUCCEEDED, FAILED_PRECONTACT,
     FAILED_KNOWN_AFTER_CONTACT, UNKNOWN_AFTER_CONTACT, ROLLBACK_COMPLETE, BLOCKED}"

definition operation_refinement :: "operation_state \<Rightarrow> bool" where
  "operation_refinement p \<longleftrightarrow>
     (terminal_operation_phase (o_phase p) \<longleftrightarrow> o_completed_at p \<noteq> None)
   \<and> (o_error_code p = None \<longleftrightarrow> o_error_message p = None)
   \<and> (o_phase p \<in> {EXTERNAL_CONTACTED, UNKNOWN_AFTER_CONTACT} \<longrightarrow> o_effect_state p = EFF_UNKNOWN)
   \<and> (o_phase p = EXTERNAL_SUCCEEDED \<longrightarrow> o_effect_state p = EFF_PRESENT)"

definition operation_schema :: "(string \<Rightarrow> bool) \<Rightarrow> operation_state \<Rightarrow> bool" where
  "operation_schema dt p \<longleftrightarrow>
     task_id_schema (o_task_id p) \<and> operation_id_schema (o_operation_id p)
   \<and> sha256_schema (o_request_sha256 p)
   \<and> timestamp_schema dt (o_created_at p) \<and> timestamp_schema dt (o_updated_at p)
   \<and> optional (timestamp_schema dt) (o_completed_at p)
   \<and> optional task_repo_id_schema (o_result_repo_id p)
   \<and> optional (length_between 1 100) (o_error_code p)
   \<and> optional (length_between 1 1000) (o_error_message p)
   \<and> sha256_schema (o_state_sha256 p) \<and> operation_refinement p"

section \<open>Inputs\<close>

record task_open_input =
  oi_operation_id :: string
  oi_task_id :: string
  oi_base_repo_id :: string
  oi_base_branch :: string
  oi_base_commit :: string
  oi_base_tree :: string
  oi_authority :: task_authority
  oi_goal :: string
  oi_branch_slug :: string

record task_close_input =
  ci_operation_id :: string
  ci_task_id :: string
  ci_expected_head :: "string option"
  ci_expected_tree :: "string option"
  ci_disposition :: close_disposition
  ci_reason :: "string option"

datatype cleanup_scope = Workspace_Only | Workspace_And_Artifacts

record task_cleanup_input =
  li_operation_id :: string
  li_task_id :: string
  li_expected_head :: "string option"
  li_expected_tree :: "string option"
  li_cleanup_scope :: cleanup_scope

definition requireExpectedPair :: "string option \<Rightarrow> string option \<Rightarrow> bool" where
  "requireExpectedPair expected_head expected_tree \<longleftrightarrow> (expected_head = None) = (expected_tree = None)"

definition task_open_input_schema :: "task_open_input \<Rightarrow> bool" where
  "task_open_input_schema i \<longleftrightarrow>
     operation_id_schema (oi_operation_id i) \<and> task_id_schema (oi_task_id i)
   \<and> length_between 1 200 (oi_base_repo_id i) \<and> base_branch_schema (oi_base_branch i)
   \<and> git_object_id_schema (oi_base_commit i) \<and> git_object_id_schema (oi_base_tree i)
   \<and> bounded_text_schema (oi_goal i) \<and> branch_slug_schema (oi_branch_slug i)"

definition task_close_input_schema :: "task_close_input \<Rightarrow> bool" where
  "task_close_input_schema i \<longleftrightarrow>
     operation_id_schema (ci_operation_id i) \<and> task_id_schema (ci_task_id i)
   \<and> optional git_object_id_schema (ci_expected_head i) \<and> optional git_object_id_schema (ci_expected_tree i)
   \<and> optional (length_between 1 1000) (ci_reason i)
   \<and> requireExpectedPair (ci_expected_head i) (ci_expected_tree i)"

definition task_cleanup_input_schema :: "task_cleanup_input \<Rightarrow> bool" where
  "task_cleanup_input_schema i \<longleftrightarrow>
     operation_id_schema (li_operation_id i) \<and> task_id_schema (li_task_id i)
   \<and> optional git_object_id_schema (li_expected_head i) \<and> optional git_object_id_schema (li_expected_tree i)
   \<and> requireExpectedPair (li_expected_head i) (li_expected_tree i)"

section \<open>Records as JSON\<close>

text \<open>
  The objects whose canonical text is hashed into \<open>state_sha256\<close> (without that field) and
  written to disk: \<open>null\<close> for an absent nullable field, no member for an absent optional one.
\<close>

definition nullable :: "string option \<Rightarrow> json" where
  "nullable x = (case x of None \<Rightarrow> JNull | Some s \<Rightarrow> JStr s)"

definition optional_member :: "string \<Rightarrow> string option \<Rightarrow> (string \<times> json) list" where
  "optional_member k x = (case x of None \<Rightarrow> [] | Some s \<Rightarrow> [(k, JStr s)])"

definition task_members :: "task_state \<Rightarrow> (string \<times> json) list" where
  "task_members t =
     [(''schema_version'', JNum 1), (''task_id'', JStr (t_task_id t)), (''repo_id'', JStr (t_repo_id t)),
      (''base_repo_id'', JStr (t_base_repo_id t)), (''base_branch'', JStr (t_base_branch t)),
      (''base_commit'', JStr (t_base_commit t)), (''base_tree'', JStr (t_base_tree t)),
      (''authority'', JStr (authority_name (t_authority t))), (''goal'', JStr (t_goal t)),
      (''branch_slug'', JStr (t_branch_slug t)), (''server_branch'', JStr (t_server_branch t)),
      (''worktree_path'', JStr (t_worktree_path t)), (''lifecycle'', JStr (lifecycle_name (t_lifecycle t))),
      (''worktree_state'', JStr (worktree_name (t_worktree_state t))),
      (''branch_state'', JStr (branch_name (t_branch_state t))),
      (''worktree_head'', nullable (t_worktree_head t)), (''worktree_tree'', nullable (t_worktree_tree t)),
      (''registration_state'', JStr (registration_name (t_registration_state t))),
      (''close_disposition'', nullable (map_option disposition_name (t_close_disposition t))),
      (''closed_at'', nullable (t_closed_at t))]
     @ optional_member ''close_reason'' (t_close_reason t)
     @ optional_member ''cleanup_note'' (t_cleanup_note t)
     @ [(''revision'', JNum (int (t_revision t))), (''created_at'', JStr (t_created_at t)),
        (''updated_at'', JStr (t_updated_at t))]"

definition operation_members :: "operation_state \<Rightarrow> (string \<times> json) list" where
  "operation_members p =
     [(''schema_version'', JNum 1), (''task_id'', JStr (o_task_id p)), (''operation_id'', JStr (o_operation_id p)),
      (''kind'', JStr (kind_name (o_kind p))), (''request_sha256'', JStr (o_request_sha256 p)),
      (''phase'', JStr (phase_name (o_phase p))), (''effect_state'', JStr (effect_name (o_effect_state p))),
      (''revision'', JNum (int (o_revision p))), (''created_at'', JStr (o_created_at p)),
      (''updated_at'', JStr (o_updated_at p)), (''completed_at'', nullable (o_completed_at p)),
      (''result_repo_id'', nullable (o_result_repo_id p)), (''error_code'', nullable (o_error_code p)),
      (''error_message'', nullable (o_error_message p))]"

definition task_open_json :: "task_open_input \<Rightarrow> json" where
  "task_open_json i = JObj
     [(''operation_id'', JStr (oi_operation_id i)), (''task_id'', JStr (oi_task_id i)),
      (''base_repo_id'', JStr (oi_base_repo_id i)), (''base_branch'', JStr (oi_base_branch i)),
      (''base_commit'', JStr (oi_base_commit i)), (''base_tree'', JStr (oi_base_tree i)),
      (''authority'', JStr (authority_name (oi_authority i))), (''goal'', JStr (oi_goal i)),
      (''branch_slug'', JStr (oi_branch_slug i))]"

definition task_close_json :: "task_close_input \<Rightarrow> json" where
  "task_close_json i = JObj
     ([(''operation_id'', JStr (ci_operation_id i)), (''task_id'', JStr (ci_task_id i))]
      @ optional_member ''expected_head'' (ci_expected_head i)
      @ optional_member ''expected_tree'' (ci_expected_tree i)
      @ [(''disposition'', JStr (disposition_name (ci_disposition i)))]
      @ optional_member ''reason'' (ci_reason i))"

definition task_cleanup_json :: "task_cleanup_input \<Rightarrow> json" where
  "task_cleanup_json i = JObj
     ([(''operation_id'', JStr (li_operation_id i)), (''task_id'', JStr (li_task_id i))]
      @ optional_member ''expected_head'' (li_expected_head i)
      @ optional_member ''expected_tree'' (li_expected_tree i)
      @ [(''cleanup_scope'', JStr (case li_cleanup_scope i of Workspace_Only \<Rightarrow> ''workspace_only''
            | Workspace_And_Artifacts \<Rightarrow> ''workspace_and_artifacts''))])"

end
