(* ===== verification/Runtime_State.thy ===== *)
theory Runtime_State
  imports Task_Contracts
begin

text \<open>
  The durable state of the task runtime, the world around it, and the primitive effects its
  services are built from (src/task-runtime/secure-runtime-fs.ts as its callers see it,
  src/task-runtime/errors.ts, the interfaces declared in src/task-runtime/task-service.ts
  and src/task-runtime/git-worktree-service.ts).

  A directory of records is an association list. A file holds either bytes that are no
  record at all (\<open>Malformed\<close>) or a record; whether the record satisfies its schema and its
  digest is for the reader to find out. Every read and every write may fail; a failing write
  may or may not have taken effect. The clock, the lock manager, the base-repository lookup,
  the registrar, the worktree service and the hash are parameters, collected in \<open>rt_env\<close>;
  the registrar and worktree calls that change something, and the status readings that
  permit them, are recorded in \<open>rt_trace\<close>.
\<close>

section \<open>Errors\<close>

text \<open>A \<open>TaskRuntimeError\<close> with its code, a \<open>ZodError\<close>, a \<open>RepoReaderError\<close> with its code, or any
  other thrown value with its \<open>code\<close> property.\<close>

datatype task_err = TaskErr string | ZodErr | RepoErr string | OtherErr "string option"

definition err_code :: "task_err \<Rightarrow> string option" where
  "err_code e = (case e of TaskErr c \<Rightarrow> Some c | ZodErr \<Rightarrow> None | RepoErr c \<Rightarrow> Some c | OtherErr c \<Rightarrow> c)"

section \<open>Values exchanged with Git and the registrar\<close>

datatype observation_disposition = ABSENT | EXACT | PARTIAL | CONFLICT

record worktree_observation =
  w_disposition :: observation_disposition
  w_path_present :: bool
  w_registered :: bool
  w_branch_present :: bool
  w_observed_head :: "string option"
  w_observed_tree :: "string option"
  w_observed_branch :: "string option"

record worktree_status =
  s_clean :: bool
  s_porcelain_z :: string
  s_changed_entry_count :: nat
  s_head :: string
  s_tree :: string
  s_branch :: string

record binding_input =
  bi_task_id :: string
  bi_owner_root :: string
  bi_base_branch :: string
  bi_base_commit :: string
  bi_base_tree :: string
  bi_branch_slug :: string

record git_task_binding = binding_input +
  b_server_branch :: string
  b_worktree_path :: string

datatype delete_reason = Delete_Absent | Deleted | Not_Merged

record base_repository =
  br_repo_id :: string
  br_root :: string
  br_worktree_root :: string
  br_require_clean_base :: "bool option"
  br_max_concurrent_tasks :: "int option"

record task_registration =
  r_repo_id :: string
  r_root :: string
  r_task_id :: string
  r_base_repo_id :: string
  r_authority :: task_authority
  r_branch :: string

datatype task_call =
    Call_Create git_task_binding
  | Call_Remove git_task_binding
  | Call_Delete_Branch git_task_binding string
  | Saw_Status git_task_binding bool
  | Call_Register task_registration
  | Call_Unregister string

section \<open>The world\<close>

datatype write_fault = Write_Ok | Write_Fails_Before task_err | Write_Fails_After task_err

datatype read_fault = Read_Ok | Read_Unsafe | Read_Too_Large | Read_Io

record 'w worktree_ops =
  wo_binding :: "binding_input \<Rightarrow> task_err + git_task_binding"
  wo_verify_base :: "git_task_binding \<Rightarrow> 'w \<Rightarrow> (task_err + unit) \<times> 'w"
  wo_verify_base_clean :: "git_task_binding \<Rightarrow> 'w \<Rightarrow> (task_err + unit) \<times> 'w"
  wo_inspect :: "git_task_binding \<Rightarrow> 'w \<Rightarrow> (task_err + worktree_observation) \<times> 'w"
  wo_create :: "git_task_binding \<Rightarrow> 'w \<Rightarrow> (task_err + worktree_observation) \<times> 'w"
  wo_status :: "git_task_binding \<Rightarrow> 'w \<Rightarrow> (task_err + worktree_status) \<times> 'w"
  wo_remove :: "git_task_binding \<Rightarrow> 'w \<Rightarrow> (task_err + unit) \<times> 'w"
  wo_delete_branch :: "git_task_binding \<Rightarrow> string \<Rightarrow> 'w \<Rightarrow> (task_err + (bool \<times> delete_reason)) \<times> 'w"

record 'w rt_env =
  re_sha256 :: "string \<Rightarrow> string"
  re_datetime :: "string \<Rightarrow> bool"
  re_compare :: "string \<Rightarrow> string \<Rightarrow> int"
  re_message :: "task_err \<Rightarrow> string"
  re_now :: "'w \<Rightarrow> string \<times> 'w"
  re_write_fault :: "'w \<Rightarrow> write_fault \<times> 'w"
  re_read_fault :: "'w \<Rightarrow> read_fault \<times> 'w"
  re_ensure_directory :: "string \<Rightarrow> 'w \<Rightarrow> (task_err + unit) \<times> 'w"
  re_lock :: "string \<Rightarrow> 'w \<Rightarrow> (task_err + unit) \<times> 'w"
  re_unlock :: "string \<Rightarrow> 'w \<Rightarrow> (task_err + unit) \<times> 'w"
  re_get_base :: "string \<Rightarrow> 'w \<Rightarrow> (task_err + base_repository) \<times> 'w"
  re_worktrees :: "string \<Rightarrow> 'w worktree_ops"
  re_register :: "task_registration \<Rightarrow> 'w \<Rightarrow> (task_err + unit) \<times> 'w"
  re_unregister :: "string \<Rightarrow> 'w \<Rightarrow> (task_err + unit) \<times> 'w"

datatype 'r disk_file = Malformed | Stored 'r

record 'w rt_state =
  rt_tasks :: "(string \<times> task_state disk_file) list"
  rt_ops :: "((string \<times> string) \<times> operation_state disk_file) list"
  rt_trace :: "task_call list"
  rt_world :: 'w

type_synonym ('w, 'z, 'a) rt = "(task_err, ('w, 'z) rt_state_scheme, 'a) eff"

section \<open>Primitive effects\<close>

definition worldE :: "('w \<Rightarrow> (task_err + 'a) \<times> 'w) \<Rightarrow> ('w, 'z, 'a) rt" where
  "worldE f = (\<lambda>s. case f (rt_world s) of (r, w) \<Rightarrow> (r, s\<lparr>rt_world := w\<rparr>))"

definition askE :: "('w \<Rightarrow> 'a \<times> 'w) \<Rightarrow> ('w, 'z, 'a) rt" where
  "askE f = (\<lambda>s. case f (rt_world s) of (x, w) \<Rightarrow> (Inr x, s\<lparr>rt_world := w\<rparr>))"

definition recordE :: "task_call \<Rightarrow> ('w, 'z, unit) rt" where
  "recordE c = modifyE (\<lambda>s. s\<lparr>rt_trace := rt_trace s @ [c]\<rparr>)"

definition now_iso :: "'w rt_env \<Rightarrow> ('w, 'z, string) rt" where
  "now_iso E = askE (re_now E)"

text \<open>\<open>SecureRuntimeFs.atomicWrite\<close>, the new contents given as a state change.\<close>

definition atomicWrite ::
  "'w rt_env \<Rightarrow> (('w, 'z) rt_state_scheme \<Rightarrow> ('w, 'z) rt_state_scheme) \<Rightarrow> ('w, 'z, unit) rt" where
  "atomicWrite E upd = bindE (askE (re_write_fault E)) (\<lambda>f. case f of
       Write_Ok \<Rightarrow> modifyE upd
     | Write_Fails_Before e \<Rightarrow> throw e
     | Write_Fails_After e \<Rightarrow> bindE (modifyE upd) (\<lambda>_. throw e))"

text \<open>\<open>SecureRuntimeFs.readFile\<close>: \<open>None\<close> is the absent file, which every caller catches by its
  \<open>ENOENT\<close> code.\<close>

definition readFile ::
  "'w rt_env \<Rightarrow> (('w, 'z) rt_state_scheme \<Rightarrow> 'r disk_file option) \<Rightarrow> ('w, 'z, 'r disk_file option) rt" where
  "readFile E get = bindE (askE (re_read_fault E)) (\<lambda>f. case f of
       Read_Ok \<Rightarrow> getE get
     | Read_Unsafe \<Rightarrow> throw (TaskErr ''RUNTIME_FILE_UNSAFE'')
     | Read_Too_Large \<Rightarrow> throw (TaskErr ''RUNTIME_SIZE_LIMIT'')
     | Read_Io \<Rightarrow> throw (OtherErr (Some ''EIO'')))"

definition withLock :: "'w rt_env \<Rightarrow> string \<Rightarrow> ('w, 'z, 'a) rt \<Rightarrow> ('w, 'z, 'a) rt" where
  "withLock E lock_id action =
     bindE (worldE (re_lock E lock_id)) (\<lambda>_. finallyE action (worldE (re_unlock E lock_id)))"

subsection \<open>What the primitives do\<close>

lemma wp_atomicWrite:
  assumes "\<And>w. Q () (upd (s\<lparr>rt_world := w\<rparr>))"
    and "\<And>e w. R e (s\<lparr>rt_world := w\<rparr>)"
    and "\<And>e w. R e (upd (s\<lparr>rt_world := w\<rparr>))"
  shows "wp (atomicWrite E upd) Q R s"
  using assms by (auto simp: wp_def atomicWrite_def bindE_def askE_def modifyE_def throw_def
      split: prod.split write_fault.split)

lemma wp_readFile:
  assumes "\<And>w. Q (get (s\<lparr>rt_world := w\<rparr>)) (s\<lparr>rt_world := w\<rparr>)"
    and "\<And>e w. R e (s\<lparr>rt_world := w\<rparr>)"
  shows "wp (readFile E get) Q R s"
  using assms by (auto simp: wp_def readFile_def bindE_def askE_def getE_def throw_def
      split: prod.split read_fault.split)

section \<open>Preservation\<close>

text \<open>
  What the primitives leave alone. A predicate that ignores the world survives every
  question to the world; \<open>ignores_world\<close> collects the argument.
\<close>

definition ignores_world :: "(('w, 'z) rt_state_scheme \<Rightarrow> bool) \<Rightarrow> bool" where
  "ignores_world P \<longleftrightarrow> (\<forall>s w. P (s\<lparr>rt_world := w\<rparr>) = P s)"

lemma ignores_worldD: "ignores_world P \<Longrightarrow> P (s\<lparr>rt_world := w\<rparr>) = P s"
  by (simp add: ignores_world_def)

lemma wp_worldE [wp_simps]:
  "wp (worldE f) Q R s = (case f (rt_world s) of (r, w) \<Rightarrow>
     (case r of Inl e \<Rightarrow> R e (s\<lparr>rt_world := w\<rparr>) | Inr x \<Rightarrow> Q x (s\<lparr>rt_world := w\<rparr>)))"
  by (simp add: wp_def worldE_def split: prod.split)

lemma wp_askE [wp_simps]:
  "wp (askE f) Q R s = (case f (rt_world s) of (x, w) \<Rightarrow> Q x (s\<lparr>rt_world := w\<rparr>))"
  by (simp add: wp_def askE_def split: prod.split)

lemma keeps_worldE [pres_intros]: "ignores_world P \<Longrightarrow> keeps P (worldE f)"
  by (auto simp: keeps_def worldE_def ignores_worldD split: prod.split)

lemma keeps_askE [pres_intros]: "ignores_world P \<Longrightarrow> keeps P (askE f)"
  by (auto simp: keeps_def askE_def ignores_worldD split: prod.split)

lemma keeps_now_iso [pres_intros]: "ignores_world P \<Longrightarrow> keeps P (now_iso E)"
  by (simp add: now_iso_def keeps_askE)

lemma keeps_recordE [pres_intros]:
  "(\<And>s cs. P (s\<lparr>rt_trace := cs\<rparr>) = P s) \<Longrightarrow> keeps P (recordE c)"
  by (simp add: keeps_def recordE_def modifyE_def)

lemma keeps_readFile [pres_intros]: "ignores_world P \<Longrightarrow> keeps P (readFile E get)"
  unfolding readFile_def
  by (intro pres_intros; (simp split: read_fault.split)?) (auto intro!: pres_intros split: read_fault.split)

lemma keeps_atomicWrite:
  "ignores_world P \<Longrightarrow> (\<And>s. P s \<Longrightarrow> P (upd s)) \<Longrightarrow> keeps P (atomicWrite E upd)"
  by (auto simp: keeps_def atomicWrite_def bindE_def askE_def modifyE_def throw_def ignores_worldD
      split: prod.split write_fault.split)

lemma keeps_withLock [pres_intros]:
  "ignores_world P \<Longrightarrow> keeps P m \<Longrightarrow> keeps P (withLock E l m)"
  unfolding withLock_def by (intro pres_intros)

end
