(* ===== verification/State_Store.thy ===== *)
theory State_Store
  imports Runtime_State
begin

text \<open>
  The durable store of task and operation records (src/task-runtime/state-store.ts): the
  table of operation phases, reading with schema, digest and identity checks, and writing,
  with the checks that bind an operation id to one request and one line of revisions.
\<close>

section \<open>The table of operation phases\<close>

fun operation_transitions :: "op_phase \<Rightarrow> op_phase list" where
  "operation_transitions CREATED = [ADMITTED, FAILED_PRECONTACT, BLOCKED]"
| "operation_transitions ADMITTED =
     [LOCAL_MUTATION_STARTED, LOCAL_MUTATION_COMPLETE, EXTERNAL_PRECONTACT, FAILED_PRECONTACT, BLOCKED]"
| "operation_transitions LOCAL_MUTATION_STARTED = [LOCAL_MUTATION_COMPLETE, BLOCKED]"
| "operation_transitions LOCAL_MUTATION_COMPLETE = []"
| "operation_transitions EXTERNAL_PRECONTACT = [EXTERNAL_CONTACTED, FAILED_PRECONTACT, BLOCKED]"
| "operation_transitions EXTERNAL_CONTACTED =
     [EXTERNAL_SUCCEEDED, FAILED_KNOWN_AFTER_CONTACT, UNKNOWN_AFTER_CONTACT, BLOCKED]"
| "operation_transitions EXTERNAL_SUCCEEDED = [ROLLBACK_COMPLETE]"
| "operation_transitions FAILED_PRECONTACT = []"
| "operation_transitions FAILED_KNOWN_AFTER_CONTACT = [ROLLBACK_COMPLETE, BLOCKED]"
| "operation_transitions UNKNOWN_AFTER_CONTACT = [ROLLBACK_COMPLETE, BLOCKED]"
| "operation_transitions ROLLBACK_COMPLETE = []"
| "operation_transitions BLOCKED = [ROLLBACK_COMPLETE]"

definition assertOperationTransition :: "op_phase \<Rightarrow> op_phase \<Rightarrow> ('w, 'z, unit) rt" where
  "assertOperationTransition from_phase to_phase =
     throw_if (to_phase \<notin> set (operation_transitions from_phase)) (TaskErr ''TASK_RUNTIME_INVALID'')"

section \<open>File names\<close>

definition task_key :: "'w rt_env \<Rightarrow> string \<Rightarrow> string" where
  "task_key E task_id = hashedDiskKey (re_sha256 E) ''task'' task_id"

definition operation_key :: "'w rt_env \<Rightarrow> string \<Rightarrow> string \<Rightarrow> string \<times> string" where
  "operation_key E task_id operation_id =
     (hashedDiskKey (re_sha256 E) ''operation-task'' task_id,
      hashedDiskKey (re_sha256 E) ''operation'' operation_id)"

section \<open>Reading\<close>

definition tampered :: task_err where
  "tampered = TaskErr ''TASK_STATE_TAMPERED''"

definition task_digest :: "'w rt_env \<Rightarrow> task_state \<Rightarrow> string" where
  "task_digest E t = sha256Json (re_sha256 E) (JObj (task_members t))"

definition operation_digest :: "'w rt_env \<Rightarrow> operation_state \<Rightarrow> string" where
  "operation_digest E p = sha256Json (re_sha256 E) (JObj (operation_members p))"

text \<open>What \<open>readDigested\<close> checks of the contents of a file.\<close>

definition verified_task :: "'w rt_env \<Rightarrow> string \<Rightarrow> task_state \<Rightarrow> bool" where
  "verified_task E task_id t \<longleftrightarrow>
     task_schema (re_datetime E) t \<and> task_digest E t = t_state_sha256 t \<and> t_task_id t = task_id"

definition verified_operation :: "'w rt_env \<Rightarrow> string \<Rightarrow> string \<Rightarrow> operation_state \<Rightarrow> bool" where
  "verified_operation E task_id operation_id p \<longleftrightarrow>
     operation_schema (re_datetime E) p \<and> operation_digest E p = o_state_sha256 p
     \<and> o_task_id p @ '':'' @ o_operation_id p = task_id @ '':'' @ operation_id"

definition readDigested :: "('r \<Rightarrow> bool) \<Rightarrow> 'r disk_file option \<Rightarrow> task_err + 'r option" where
  "readDigested verified f = (case f of
       None \<Rightarrow> Inr None
     | Some Malformed \<Rightarrow> Inl tampered
     | Some (Stored r) \<Rightarrow> (if verified r then Inr (Some r) else Inl tampered))"

definition readTask :: "'w rt_env \<Rightarrow> string \<Rightarrow> ('w, 'z, task_state option) rt" where
  "readTask E task_id =
     bindE (throw_if (\<not> task_id_schema task_id) ZodErr) (\<lambda>_.
     bindE (readFile E (\<lambda>s. map_of (rt_tasks s) (task_key E task_id))) (\<lambda>f.
     liftR (readDigested (verified_task E task_id) f)))"

definition requireTask :: "'w rt_env \<Rightarrow> string \<Rightarrow> ('w, 'z, task_state) rt" where
  "requireTask E task_id = bindE (readTask E task_id) (\<lambda>t.
     case t of None \<Rightarrow> throw (TaskErr ''TASK_STATE_NOT_FOUND'') | Some t \<Rightarrow> ret t)"

definition readOperation :: "'w rt_env \<Rightarrow> string \<Rightarrow> string \<Rightarrow> ('w, 'z, operation_state option) rt" where
  "readOperation E task_id operation_id =
     bindE (throw_if (\<not> (task_id_schema task_id \<and> operation_id_schema operation_id)) ZodErr) (\<lambda>_.
     bindE (readFile E (\<lambda>s. map_of (rt_ops s) (operation_key E task_id operation_id))) (\<lambda>f.
     liftR (readDigested (verified_operation E task_id operation_id) f)))"

definition boundedListLimit :: "int \<Rightarrow> ('w, 'z, nat) rt" where
  "boundedListLimit value =
     (if \<not> safe_integer value \<or> value < 1 \<or> value > 10000 then throw (TaskErr ''TASK_RUNTIME_INVALID'')
      else ret (nat value))"

definition listDirectory ::
  "(('w, 'z) rt_state_scheme \<Rightarrow> ('k \<times> 'v) list) \<Rightarrow> nat \<Rightarrow> ('w, 'z, ('k \<times> 'v) list) rt" where
  "listDirectory dir limit = bindE (getE dir) (\<lambda>entries.
     if limit < length entries then throw (TaskErr ''RUNTIME_SIZE_LIMIT'') else ret entries)"

definition list_task_entry ::
  "'w rt_env \<Rightarrow> task_state list \<Rightarrow> string \<times> task_state disk_file \<Rightarrow> ('w, 'z, task_state list) rt" where
  "list_task_entry E tasks entry =
     bindE (throw_if (\<not> hex_n 64 (fst entry)) tampered) (\<lambda>_.
     bindE (catchE (readFile E (\<lambda>_. Some (snd entry)))
        (\<lambda>e. throw (case e of TaskErr c \<Rightarrow> TaskErr c | _ \<Rightarrow> tampered))) (\<lambda>f.
     case f of
       Some (Stored t) \<Rightarrow>
         (if task_schema (re_datetime E) t \<and> task_digest E t = t_state_sha256 t
             \<and> task_key E (t_task_id t) = fst entry
          then ret (tasks @ [t]) else throw tampered)
     | _ \<Rightarrow> throw tampered))"

definition listTasks :: "'w rt_env \<Rightarrow> int option \<Rightarrow> ('w, 'z, task_state list) rt" where
  "listTasks E limit_option =
     bindE (boundedListLimit (case limit_option of None \<Rightarrow> 1000 | Some l \<Rightarrow> l)) (\<lambda>limit.
     bindE (listDirectory rt_tasks limit) (\<lambda>entries.
     bindE (foldE (list_task_entry E) [] entries) (\<lambda>tasks.
     ret (sort_cmp (\<lambda>l r. re_compare E (t_task_id l) (t_task_id r)) tasks))))"

definition list_operation_entry ::
  "'w rt_env \<Rightarrow> string \<Rightarrow> operation_state list \<Rightarrow> (string \<times> string) \<times> operation_state disk_file
   \<Rightarrow> ('w, 'z, operation_state list) rt" where
  "list_operation_entry E task_id operations entry =
     bindE (throw_if (\<not> hex_n 64 (snd (fst entry))) tampered) (\<lambda>_.
     bindE (readFile E (\<lambda>_. Some (snd entry))) (\<lambda>f.
     case f of
       Some (Stored p) \<Rightarrow>
         (if operation_schema (re_datetime E) p \<and> o_task_id p = task_id
             \<and> hashedDiskKey (re_sha256 E) ''operation'' (o_operation_id p) = snd (fst entry)
             \<and> operation_digest E p = o_state_sha256 p
          then ret (operations @ [p]) else throw tampered)
     | _ \<Rightarrow> throw tampered))"

definition listOperationsForTask :: "'w rt_env \<Rightarrow> string \<Rightarrow> int option \<Rightarrow> ('w, 'z, operation_state list) rt" where
  "listOperationsForTask E task_id limit_option =
     bindE (boundedListLimit (case limit_option of None \<Rightarrow> 1000 | Some l \<Rightarrow> l)) (\<lambda>limit.
     bindE (listDirectory (\<lambda>s. filter (\<lambda>p. fst (fst p) = hashedDiskKey (re_sha256 E) ''operation-task'' task_id) (rt_ops s))
        limit) (\<lambda>entries.
     bindE (foldE (list_operation_entry E task_id) [] entries) (\<lambda>operations.
     ret (sort_cmp (\<lambda>l r. let c = re_compare E (o_updated_at l) (o_updated_at r) in
            if c \<noteq> 0 then c else re_compare E (o_operation_id l) (o_operation_id r)) operations))))"

section \<open>Writing\<close>

definition sign_task :: "'w rt_env \<Rightarrow> task_state \<Rightarrow> task_state" where
  "sign_task E t = t\<lparr>t_state_sha256 := task_digest E t\<rparr>"

definition sign_operation :: "'w rt_env \<Rightarrow> operation_state \<Rightarrow> operation_state" where
  "sign_operation E p = p\<lparr>o_state_sha256 := operation_digest E p\<rparr>"

definition store_task :: "'w rt_env \<Rightarrow> task_state \<Rightarrow> ('w, 'z) rt_state_scheme \<Rightarrow> ('w, 'z) rt_state_scheme" where
  "store_task E t = rt_tasks_update (put_file (task_key E (t_task_id t)) (Stored t))"

definition store_operation ::
  "'w rt_env \<Rightarrow> operation_state \<Rightarrow> ('w, 'z) rt_state_scheme \<Rightarrow> ('w, 'z) rt_state_scheme" where
  "store_operation E p = rt_ops_update (put_file (operation_key E (o_task_id p) (o_operation_id p)) (Stored p))"

definition writeTask :: "'w rt_env \<Rightarrow> task_state \<Rightarrow> ('w, 'z, task_state) rt" where
  "writeTask E value =
     (let parsed = sign_task E value in
      bindE (throw_if (\<not> task_schema (re_datetime E) parsed) ZodErr) (\<lambda>_.
      bindE (atomicWrite E (store_task E parsed)) (\<lambda>_. ret parsed)))"

definition writeOperation :: "'w rt_env \<Rightarrow> operation_state \<Rightarrow> ('w, 'z, operation_state) rt" where
  "writeOperation E value =
     (let parsed = sign_operation E value in
      bindE (throw_if (\<not> operation_schema (re_datetime E) parsed) ZodErr) (\<lambda>_.
      bindE (readOperation E (o_task_id parsed) (o_operation_id parsed)) (\<lambda>previous_option.
      bindE (case previous_option of
          Some previous \<Rightarrow>
            bindE (throw_if (o_request_sha256 previous \<noteq> o_request_sha256 parsed \<or> o_kind previous \<noteq> o_kind parsed)
              (TaskErr ''OPERATION_ID_CONFLICT'')) (\<lambda>_.
            bindE (if o_phase previous \<noteq> o_phase parsed
              then assertOperationTransition (o_phase previous) (o_phase parsed) else ret ()) (\<lambda>_.
            throw_if (o_revision parsed \<noteq> o_revision previous + 1) (TaskErr ''TASK_RUNTIME_INVALID'')))
        | None \<Rightarrow>
            throw_if (o_phase parsed \<noteq> CREATED \<or> o_revision parsed \<noteq> 0) (TaskErr ''TASK_RUNTIME_INVALID'')) (\<lambda>_.
      bindE (atomicWrite E (store_operation E parsed)) (\<lambda>_. ret parsed)))))"

section \<open>The phase table keeps its contract\<close>

definition settled_operation :: "op_phase \<Rightarrow> bool" where
  "settled_operation p \<longleftrightarrow> p \<in> {LOCAL_MUTATION_COMPLETE, FAILED_PRECONTACT, ROLLBACK_COMPLETE}"

fun operation_rank :: "op_phase \<Rightarrow> nat" where
  "operation_rank CREATED = 0"
| "operation_rank ADMITTED = 1"
| "operation_rank LOCAL_MUTATION_STARTED = 2"
| "operation_rank EXTERNAL_PRECONTACT = 2"
| "operation_rank LOCAL_MUTATION_COMPLETE = 3"
| "operation_rank EXTERNAL_CONTACTED = 3"
| "operation_rank EXTERNAL_SUCCEEDED = 4"
| "operation_rank FAILED_PRECONTACT = 4"
| "operation_rank FAILED_KNOWN_AFTER_CONTACT = 4"
| "operation_rank UNKNOWN_AFTER_CONTACT = 4"
| "operation_rank BLOCKED = 5"
| "operation_rank ROLLBACK_COMPLETE = 6"

interpretation op_table: ranked_phase_table operation_transitions settled_operation operation_rank 6
proof unfold_locales
  fix p q :: op_phase
  show "settled_operation p \<Longrightarrow> operation_transitions p = []"
    by (auto simp: settled_operation_def)
  show "q \<in> set (operation_transitions p) \<Longrightarrow> operation_rank p < operation_rank q"
    by (cases p) auto
  show "operation_rank p \<le> 6"
    by (cases p) auto
qed

section \<open>What reading and writing do\<close>

lemma wp_readTask:
  assumes "\<And>w. map_of (rt_tasks s) (task_key E i) = None \<Longrightarrow> Q None (s\<lparr>rt_world := w\<rparr>)"
    and "\<And>w t. map_of (rt_tasks s) (task_key E i) = Some (Stored t) \<Longrightarrow> verified_task E i t
           \<Longrightarrow> Q (Some t) (s\<lparr>rt_world := w\<rparr>)"
    and "\<And>e w. R e (s\<lparr>rt_world := w\<rparr>)"
    and "\<And>e. R e s"
  shows "wp (readTask E i) Q R s"
  unfolding readTask_def wp_bindE wp_throw_if
  using assms by (auto intro!: wp_readFile simp: readDigested_def wp_simps split: option.split disk_file.split)

lemma wp_readOperation:
  assumes "\<And>w. map_of (rt_ops s) (operation_key E i j) = None \<Longrightarrow> Q None (s\<lparr>rt_world := w\<rparr>)"
    and "\<And>w p. map_of (rt_ops s) (operation_key E i j) = Some (Stored p) \<Longrightarrow> verified_operation E i j p
           \<Longrightarrow> Q (Some p) (s\<lparr>rt_world := w\<rparr>)"
    and "\<And>e w. R e (s\<lparr>rt_world := w\<rparr>)"
    and "\<And>e. R e s"
  shows "wp (readOperation E i j) Q R s"
  unfolding readOperation_def wp_bindE wp_throw_if
  using assms by (auto intro!: wp_readFile simp: readDigested_def wp_simps split: option.split disk_file.split)

lemma wp_writeTask:
  assumes "\<And>w. task_schema (re_datetime E) (sign_task E v)
       \<Longrightarrow> Q (sign_task E v) (store_task E (sign_task E v) (s\<lparr>rt_world := w\<rparr>))"
    and "\<And>e w. R e (s\<lparr>rt_world := w\<rparr>)"
    and "\<And>e w. task_schema (re_datetime E) (sign_task E v)
       \<Longrightarrow> R e (store_task E (sign_task E v) (s\<lparr>rt_world := w\<rparr>))"
    and "\<And>e. R e s"
  shows "wp (writeTask E v) Q R s"
  unfolding writeTask_def Let_def wp_bindE wp_throw_if
  using assms by (auto intro!: wp_atomicWrite simp: wp_simps)

text \<open>The checks of \<open>writeOperation\<close> against the record on disk.\<close>

definition admissible_write :: "operation_state option \<Rightarrow> operation_state \<Rightarrow> bool" where
  "admissible_write previous_option p = (case previous_option of
       None \<Rightarrow> o_phase p = CREATED \<and> o_revision p = 0
     | Some previous \<Rightarrow>
         o_request_sha256 previous = o_request_sha256 p \<and> o_kind previous = o_kind p
       \<and> (o_phase previous = o_phase p \<or> o_phase p \<in> set (operation_transitions (o_phase previous)))
       \<and> o_revision p = o_revision previous + 1)"

definition stored_operation :: "'w rt_env \<Rightarrow> ('w, 'z) rt_state_scheme \<Rightarrow> operation_state \<Rightarrow> operation_state disk_file option" where
  "stored_operation E s p = map_of (rt_ops s) (operation_key E (o_task_id p) (o_operation_id p))"

lemma wp_writeOperation:
  assumes "\<And>w previous. operation_schema (re_datetime E) (sign_operation E v)
       \<Longrightarrow> stored_operation E s v = map_option Stored previous
       \<Longrightarrow> (\<forall>p. previous = Some p \<longrightarrow> verified_operation E (o_task_id v) (o_operation_id v) p)
       \<Longrightarrow> admissible_write previous v
       \<Longrightarrow> Q (sign_operation E v) (store_operation E (sign_operation E v) (s\<lparr>rt_world := w\<rparr>))
         \<and> (\<forall>e. R e (store_operation E (sign_operation E v) (s\<lparr>rt_world := w\<rparr>)))"
    and "\<And>e w. R e (s\<lparr>rt_world := w\<rparr>)"
    and "\<And>e. R e s"
  shows "wp (writeOperation E v) Q R s"
proof -
  have id: "o_task_id (sign_operation E v) = o_task_id v" "o_operation_id (sign_operation E v) = o_operation_id v"
    "o_request_sha256 (sign_operation E v) = o_request_sha256 v" "o_kind (sign_operation E v) = o_kind v"
    "o_phase (sign_operation E v) = o_phase v" "o_revision (sign_operation E v) = o_revision v"
    by (simp_all add: sign_operation_def)
  show ?thesis
    unfolding writeOperation_def Let_def wp_bindE wp_throw_if id
  proof (simp, safe, goal_cases)
    case 1
    then show ?case by (simp add: assms(3))
  next
    case 2
    note schema = this
    show ?case
    proof (rule wp_readOperation, goal_cases)
      case (1 w)
      then show ?case
        using assms(1) [OF schema, of None] assms(2)
        by (auto simp: wp_simps stored_operation_def admissible_write_def intro!: wp_atomicWrite)
    next
      case (2 w p)
      then show ?case
        using assms(1) [OF schema, of "Some p"] assms(2)
        by (auto simp: wp_simps stored_operation_def admissible_write_def assertOperationTransition_def
            intro!: wp_atomicWrite)
    qed (simp_all add: assms)
  qed
qed

end
