(* ===== verification/Task_Service.thy ===== *)
theory Task_Service
  imports State_Store
begin

text \<open>
  The task runtime service (src/task-runtime/task-service.ts): open, status, list,
  rehydrate, run an action on an exact task state, close and clean up. Every handler is
  written in the order of the source, its guards and early returns included; the locals a
  \<open>catch\<close> block reads are passed by \<open>tagE\<close>. The diagnostics of errors are left out, their
  codes and the error messages that are stored are kept.
\<close>

section \<open>Results\<close>

record task_open_result =
  or_repo_id :: string
  or_task :: task_state
  or_operation :: operation_state
  or_recovered_from_readback :: bool

text \<open>\<open>None\<close> in \<open>sr_observed_worktree\<close> is the \<open>UNKNOWN\<close> observation.\<close>

record task_status_result =
  sr_repo_id :: string
  sr_task :: task_state
  sr_observed_worktree :: "worktree_observation option"
  sr_git_status :: "worktree_status option"

record task_close_result =
  cr_repo_id :: string
  cr_task :: task_state
  cr_operation :: operation_state

record task_cleanup_result =
  lr_repo_id :: string
  lr_task :: task_state
  lr_operation :: operation_state
  lr_branch_deleted :: bool
  lr_branch_preserved :: bool

record rehydration_result =
  hr_registered :: "task_registration list"
  hr_skipped_task_ids :: "string list"
  hr_recovery_required_task_ids :: "string list"

record exact_task_mutation_state =
  ex_task :: task_state
  ex_head :: string
  ex_tree :: string
  ex_clean :: bool

section \<open>Helpers of the service\<close>

definition no_replay_phase :: "op_phase \<Rightarrow> bool" where
  "no_replay_phase p \<longleftrightarrow> p \<in> {EXTERNAL_CONTACTED, EXTERNAL_PRECONTACT, EXTERNAL_SUCCEEDED, FAILED_PRECONTACT,
     FAILED_KNOWN_AFTER_CONTACT, UNKNOWN_AFTER_CONTACT, ROLLBACK_COMPLETE, BLOCKED}"

definition blocked :: "operation_state \<Rightarrow> task_err" where
  "blocked operation = TaskErr ''OPERATION_BLOCKED''"

definition uncertainOpen :: task_err where
  "uncertainOpen = TaskErr ''GIT_EFFECT_UNCERTAIN''"

definition rejectNoReplay :: "operation_state \<Rightarrow> ('w, 'z, unit) rt" where
  "rejectNoReplay operation =
     throw_if (no_replay_phase (o_phase operation) \<or> o_effect_state operation = EFF_PARTIAL
       \<or> o_effect_state operation = EFF_UNKNOWN) (blocked operation)"

definition ephemeralRepoId :: "'w rt_env \<Rightarrow> string \<Rightarrow> string \<Rightarrow> string" where
  "ephemeralRepoId E task_id base_repo_id =
     ''task-'' @ take 40 (hashedDiskKey (re_sha256 E) ''task-repository'' (task_id @ CHR 0x00 # base_repo_id))"

definition assertPersistedExpectedState ::
  "task_state \<Rightarrow> string option \<Rightarrow> string option \<Rightarrow> ('w, 'z, unit) rt" where
  "assertPersistedExpectedState task expected_head expected_tree =
     (if expected_head = None \<or> expected_tree = None then ret ()
      else throw_if (t_worktree_head task \<noteq> expected_head \<or> t_worktree_tree task \<noteq> expected_tree)
        (TaskErr ''GIT_BINDING_MISMATCH''))"

definition task_matches_input :: "task_state \<Rightarrow> task_open_input \<Rightarrow> bool" where
  "task_matches_input task i \<longleftrightarrow>
     t_base_repo_id task = oi_base_repo_id i \<and> t_base_branch task = oi_base_branch i
   \<and> t_base_commit task = oi_base_commit i \<and> t_base_tree task = oi_base_tree i
   \<and> t_authority task = oi_authority i \<and> t_goal task = oi_goal i \<and> t_branch_slug task = oi_branch_slug i"

definition assertTaskBinding :: "task_state \<Rightarrow> task_open_input \<Rightarrow> ('w, 'z, unit) rt" where
  "assertTaskBinding task i = throw_if (\<not> task_matches_input task i) (TaskErr ''TASK_BINDING_CONFLICT'')"

definition assertDerivedBinding :: "task_state \<Rightarrow> git_task_binding \<Rightarrow> ('w, 'z, unit) rt" where
  "assertDerivedBinding task binding =
     throw_if (t_server_branch task \<noteq> b_server_branch binding \<or> t_worktree_path task \<noteq> b_worktree_path binding)
       (TaskErr ''TASK_BINDING_CONFLICT'')"

definition isRehydratableTask :: "task_state \<Rightarrow> bool" where
  "isRehydratableTask task \<longleftrightarrow>
     t_close_disposition task = None \<and> (t_lifecycle task = OPEN \<or> t_lifecycle task = RECOVERY_REQUIRED)"

definition isTerminalTask :: "task_state \<Rightarrow> bool" where
  "isTerminalTask task \<longleftrightarrow> t_close_disposition task \<noteq> None \<or> terminal_lifecycle (t_lifecycle task)"

text \<open>The dispositions of an observation are also worktree states; an exact one is not written.\<close>

fun worktree_of :: "observation_disposition \<Rightarrow> worktree_state" where
  "worktree_of ABSENT = WT_ABSENT"
| "worktree_of PARTIAL = WT_PARTIAL"
| "worktree_of CONFLICT = WT_CONFLICT"
| "worktree_of EXACT = WT_PRESENT"

definition recoveryStateFor :: "worktree_observation \<Rightarrow> task_state \<Rightarrow> task_state" where
  "recoveryStateFor observation t =
     t\<lparr>t_lifecycle := RECOVERY_REQUIRED, t_worktree_state := worktree_of (w_disposition observation),
       t_branch_state := (if w_branch_present observation then BR_PRESENT
          else if w_disposition observation = ABSENT then BR_ABSENT else BR_UNKNOWN),
       t_registration_state := REG_UNKNOWN\<rparr>"

definition mustPropagateRehydrationError :: "task_err \<Rightarrow> bool" where
  "mustPropagateRehydrationError e \<longleftrightarrow>
     err_code e = Some ''TASK_STATE_TAMPERED'' \<or> err_code e = Some ''RUNTIME_FILE_UNSAFE''"

definition cleanupResult :: "task_state \<Rightarrow> operation_state \<Rightarrow> task_cleanup_result" where
  "cleanupResult task operation =
     \<lparr>lr_repo_id = t_repo_id task, lr_task = task, lr_operation = operation,
      lr_branch_deleted = (t_branch_state task = BR_ABSENT), lr_branch_preserved = (t_branch_state task = BR_PRESERVED)\<rparr>"

definition registrationFor :: "task_state \<Rightarrow> task_registration" where
  "registrationFor task =
     \<lparr>r_repo_id = t_repo_id task, r_root = t_worktree_path task, r_task_id = t_task_id task,
      r_base_repo_id = t_base_repo_id task, r_authority = t_authority task, r_branch = t_server_branch task\<rparr>"

section \<open>Calls to the injected services\<close>

text \<open>
  The base-repository lookup, the registrar and the worktree service are interfaces handed
  to the service. A call that changes something is recorded before it is made; a status
  reading is recorded after it.
\<close>

definition initialize :: "'w rt_env \<Rightarrow> ('w, 'z, unit) rt" where
  "initialize E = for_each [''tasks'', ''operations'', ''locks'', ''cas/sha256''] (\<lambda>d. worldE (re_ensure_directory E d))"

definition getBaseRepository :: "'w rt_env \<Rightarrow> string \<Rightarrow> ('w, 'z, base_repository) rt" where
  "getBaseRepository E repo_id = worldE (re_get_base E repo_id)"

definition registerTaskRepository :: "'w rt_env \<Rightarrow> task_registration \<Rightarrow> ('w, 'z, unit) rt" where
  "registerTaskRepository E r = bindE (recordE (Call_Register r)) (\<lambda>_. worldE (re_register E r))"

definition unregisterTaskRepository :: "'w rt_env \<Rightarrow> string \<Rightarrow> ('w, 'z, unit) rt" where
  "unregisterTaskRepository E repo_id = bindE (recordE (Call_Unregister repo_id)) (\<lambda>_. worldE (re_unregister E repo_id))"

definition git_inspect :: "'w worktree_ops \<Rightarrow> git_task_binding \<Rightarrow> ('w, 'z, worktree_observation) rt" where
  "git_inspect git binding = worldE (wo_inspect git binding)"

definition git_status :: "'w worktree_ops \<Rightarrow> git_task_binding \<Rightarrow> ('w, 'z, worktree_status) rt" where
  "git_status git binding = bindE (worldE (wo_status git binding)) (\<lambda>status.
     bindE (recordE (Saw_Status binding (s_clean status))) (\<lambda>_. ret status))"

definition git_create :: "'w worktree_ops \<Rightarrow> git_task_binding \<Rightarrow> ('w, 'z, worktree_observation) rt" where
  "git_create git binding = bindE (recordE (Call_Create binding)) (\<lambda>_. worldE (wo_create git binding))"

definition git_remove :: "'w worktree_ops \<Rightarrow> git_task_binding \<Rightarrow> ('w, 'z, unit) rt" where
  "git_remove git binding = bindE (recordE (Call_Remove binding)) (\<lambda>_. worldE (wo_remove git binding))"

definition git_delete_branch ::
  "'w worktree_ops \<Rightarrow> git_task_binding \<Rightarrow> string \<Rightarrow> ('w, 'z, bool \<times> delete_reason) rt" where
  "git_delete_branch git binding expected_head =
     bindE (recordE (Call_Delete_Branch binding expected_head)) (\<lambda>_. worldE (wo_delete_branch git binding expected_head))"

section \<open>Operation and task records\<close>

definition operation_request :: "operation_kind \<Rightarrow> json \<Rightarrow> json" where
  "operation_request kind request =
     JObj [(''schema_version'', JNum 1), (''kind'', JStr (kind_name kind)), (''request'', request)]"

definition ensureOperation ::
  "'w rt_env \<Rightarrow> operation_kind \<Rightarrow> string \<Rightarrow> string \<Rightarrow> json \<Rightarrow> ('w, 'z, operation_state) rt" where
  "ensureOperation E kind task_id operation_id request =
     (let request_sha = sha256Json (re_sha256 E) (operation_request kind request) in
      bindE (readOperation E task_id operation_id) (\<lambda>existing_option.
      case existing_option of
        Some existing \<Rightarrow>
          bindE (throw_if (o_kind existing \<noteq> kind \<or> o_request_sha256 existing \<noteq> request_sha)
            (TaskErr ''OPERATION_ID_CONFLICT'')) (\<lambda>_. ret existing)
      | None \<Rightarrow>
          bindE (now_iso E) (\<lambda>timestamp.
          writeOperation E
            \<lparr>o_task_id = task_id, o_operation_id = operation_id, o_kind = kind, o_request_sha256 = request_sha,
             o_phase = CREATED, o_effect_state = NOT_STARTED, o_revision = 0, o_created_at = timestamp,
             o_updated_at = timestamp, o_completed_at = None, o_result_repo_id = None, o_error_code = None,
             o_error_message = None, o_state_sha256 = []\<rparr>)))"

definition advance ::
  "'w rt_env \<Rightarrow> operation_state \<Rightarrow> op_phase \<Rightarrow> effect_state \<Rightarrow> string option \<Rightarrow> ('w, 'z, operation_state) rt" where
  "advance E operation phase effect result_repo_id =
     (let completed = phase \<in> {LOCAL_MUTATION_COMPLETE, EXTERNAL_SUCCEEDED, ROLLBACK_COMPLETE} in
      bindE (now_iso E) (\<lambda>updated.
      bindE (if completed then bindE (now_iso E) (\<lambda>at. ret (Some at)) else ret None) (\<lambda>completed_at.
      writeOperation E (operation
        \<lparr>o_phase := phase, o_effect_state := effect, o_revision := o_revision operation + 1,
         o_updated_at := updated, o_completed_at := completed_at,
         o_result_repo_id := (case result_repo_id of Some r \<Rightarrow> Some r | None \<Rightarrow> o_result_repo_id operation),
         o_error_code := None, o_error_message := None\<rparr>))))"

definition block ::
  "'w rt_env \<Rightarrow> operation_state \<Rightarrow> effect_state \<Rightarrow> string \<Rightarrow> string \<Rightarrow> ('w, 'z, operation_state) rt" where
  "block E operation effect code message =
     bindE (now_iso E) (\<lambda>updated.
     bindE (now_iso E) (\<lambda>completed.
     writeOperation E (operation
       \<lparr>o_phase := BLOCKED, o_effect_state := effect, o_revision := o_revision operation + 1,
        o_updated_at := updated, o_completed_at := Some completed,
        o_error_code := Some code, o_error_message := Some (take 1000 message)\<rparr>)))"

text \<open>\<open>operation = await this.block(...); throw blocked(operation);\<close>\<close>

definition block_and_throw ::
  "'w rt_env \<Rightarrow> operation_state \<Rightarrow> effect_state \<Rightarrow> string \<Rightarrow> string \<Rightarrow> ('w, 'z, 'a) rt" where
  "block_and_throw E operation effect code message =
     bindE (block E operation effect code message) (\<lambda>operation'. throw (blocked operation'))"

text \<open>The changes of \<open>writeTaskUpdate\<close> are given as a record update.\<close>

definition writeTaskUpdate :: "'w rt_env \<Rightarrow> task_state \<Rightarrow> (task_state \<Rightarrow> task_state) \<Rightarrow> ('w, 'z, task_state) rt" where
  "writeTaskUpdate E task changes = bindE (now_iso E) (\<lambda>now.
     writeTask E ((changes task)\<lparr>t_revision := t_revision task + 1, t_updated_at := now\<rparr>))"

definition bindingForTask :: "'w rt_env \<Rightarrow> task_state \<Rightarrow> ('w, 'z, 'w worktree_ops \<times> git_task_binding) rt" where
  "bindingForTask E task =
     bindE (getBaseRepository E (t_base_repo_id task)) (\<lambda>base.
     bindE (throw_if (br_repo_id base \<noteq> t_base_repo_id task) (TaskErr ''TASK_BINDING_CONFLICT'')) (\<lambda>_.
     let git = re_worktrees E (br_worktree_root base) in
     bindE (liftR (wo_binding git
       \<lparr>bi_task_id = t_task_id task, bi_owner_root = br_root base, bi_base_branch = t_base_branch task,
        bi_base_commit = t_base_commit task, bi_base_tree = t_base_tree task, bi_branch_slug = t_branch_slug task\<rparr>)) (\<lambda>binding.
     bindE (assertDerivedBinding task binding) (\<lambda>_. ret (git, binding)))))"

definition ensureRegistered :: "'w rt_env \<Rightarrow> task_state \<Rightarrow> ('w, 'z, task_state) rt" where
  "ensureRegistered E task =
     bindE (registerTaskRepository E (registrationFor task)) (\<lambda>_.
     if t_registration_state task = REGISTERED \<and> t_lifecycle task = OPEN then ret task
     else writeTaskUpdate E task (\<lambda>t. t\<lparr>t_lifecycle := OPEN, t_registration_state := REGISTERED\<rparr>))"

definition verifyExpectedTaskState ::
  "'w rt_env \<Rightarrow> task_state \<Rightarrow> string option \<Rightarrow> string option \<Rightarrow> ('w, 'z, worktree_status option) rt" where
  "verifyExpectedTaskState E task expected_head expected_tree =
     (if expected_head = None \<or> expected_tree = None then ret None
      else bindE (bindingForTask E task) (\<lambda>(git, binding).
        bindE (git_inspect git binding) (\<lambda>observation.
        bindE (throw_if (w_disposition observation \<noteq> EXACT) uncertainOpen) (\<lambda>_.
        bindE (git_status git binding) (\<lambda>status.
        bindE (throw_if (Some (s_head status) \<noteq> expected_head) (TaskErr ''GIT_BINDING_MISMATCH'')) (\<lambda>_.
        bindE (throw_if (Some (s_tree status) \<noteq> expected_tree) (TaskErr ''GIT_BINDING_MISMATCH'')) (\<lambda>_.
        ret (Some status))))))))"

text \<open>\<open>observeExactTask\<close>: the head, tree and cleanness of the exact worktree.\<close>

definition observeExactTask :: "'w rt_env \<Rightarrow> task_state \<Rightarrow> ('w, 'z, string \<times> string \<times> bool) rt" where
  "observeExactTask E task = bindE (bindingForTask E task) (\<lambda>(git, binding).
     bindE (git_inspect git binding) (\<lambda>observation.
     bindE (throw_if (w_disposition observation \<noteq> EXACT) uncertainOpen) (\<lambda>_.
     bindE (git_status git binding) (\<lambda>status.
     ret (s_head status, s_tree status, s_clean status)))))"

definition refreshTaskGitBinding :: "'w rt_env \<Rightarrow> task_state \<Rightarrow> ('w, 'z, task_state) rt" where
  "refreshTaskGitBinding E task = bindE (observeExactTask E task) (\<lambda>(head, tree, clean).
     if t_worktree_head task = Some head \<and> t_worktree_tree task = Some tree then ret task
     else writeTaskUpdate E task (\<lambda>t. t\<lparr>t_worktree_head := Some head, t_worktree_tree := Some tree\<rparr>))"

definition inspectAfterFailure :: "'w worktree_ops \<Rightarrow> git_task_binding \<Rightarrow> ('w, 'z, worktree_observation) rt" where
  "inspectAfterFailure git binding = catchE (git_inspect git binding) (\<lambda>_. ret
     \<lparr>w_disposition = CONFLICT, w_path_present = False, w_registered = False, w_branch_present = False,
      w_observed_head = None, w_observed_tree = None, w_observed_branch = None\<rparr>)"

section \<open>Opening a task\<close>

definition new_task ::
  "'w rt_env \<Rightarrow> task_open_input \<Rightarrow> git_task_binding \<Rightarrow> string \<Rightarrow> task_state" where
  "new_task E i binding timestamp =
     \<lparr>t_task_id = oi_task_id i, t_repo_id = ephemeralRepoId E (oi_task_id i) (oi_base_repo_id i),
      t_base_repo_id = oi_base_repo_id i, t_base_branch = oi_base_branch i, t_base_commit = oi_base_commit i,
      t_base_tree = oi_base_tree i, t_authority = oi_authority i, t_goal = oi_goal i,
      t_branch_slug = oi_branch_slug i, t_server_branch = b_server_branch binding,
      t_worktree_path = b_worktree_path binding, t_lifecycle = OPENING, t_worktree_state = WT_ABSENT,
      t_branch_state = BR_ABSENT, t_worktree_head = Some (oi_base_commit i), t_worktree_tree = Some (oi_base_tree i),
      t_registration_state = PENDING, t_close_disposition = None, t_closed_at = None, t_close_reason = None,
      t_cleanup_note = None, t_revision = 0, t_created_at = timestamp, t_updated_at = timestamp,
      t_state_sha256 = []\<rparr>"

text \<open>The tasks that count against the concurrency limit of a base repository.\<close>

definition active_task :: "string \<Rightarrow> task_state \<Rightarrow> bool" where
  "active_task base_repo_id t \<longleftrightarrow>
     t_base_repo_id t = base_repo_id \<and> t_lifecycle t \<notin> {CLOSED, CLEANED} \<and> t_close_disposition t = None"

definition enforce_capacity ::
  "'w rt_env \<Rightarrow> task_open_input \<Rightarrow> base_repository \<Rightarrow> operation_state \<Rightarrow> ('w, 'z, unit) rt" where
  "enforce_capacity E i base operation =
     (let limit = (case br_max_concurrent_tasks base of None \<Rightarrow> 8 | Some l \<Rightarrow> l) in
      bindE (throw_if (\<not> safe_integer limit \<or> limit < 1 \<or> limit > 64) (TaskErr ''TASK_RUNTIME_INVALID'')) (\<lambda>_.
      bindE (listTasks E (Some 10000)) (\<lambda>tasks.
      if limit \<le> int (length (filter (active_task (oi_base_repo_id i)) tasks))
      then block_and_throw E operation EFF_ABSENT ''TASK_CAPACITY_REACHED''
        ''Repository task concurrency limit is reached.''
      else ret ())))"

text \<open>The persisted task, its binding checked, or a new record.\<close>

definition establish_task ::
  "'w rt_env \<Rightarrow> task_open_input \<Rightarrow> git_task_binding \<Rightarrow> task_state option \<Rightarrow> ('w, 'z, task_state) rt" where
  "establish_task E i binding existing = (case existing of
       Some task \<Rightarrow> bindE (assertTaskBinding task i) (\<lambda>_. bindE (assertDerivedBinding task binding) (\<lambda>_. ret task))
     | None \<Rightarrow> bindE (now_iso E) (\<lambda>timestamp. writeTask E (new_task E i binding timestamp)))"

text \<open>\<open>git.create\<close> with the readback of its failure.\<close>

definition create_worktree ::
  "'w rt_env \<Rightarrow> 'w worktree_ops \<Rightarrow> git_task_binding \<Rightarrow> task_state \<Rightarrow> operation_state
   \<Rightarrow> ('w, 'z, worktree_observation) rt" where
  "create_worktree E git binding task operation =
     catchE (git_create git binding) (\<lambda>error.
       bindE (inspectAfterFailure git binding) (\<lambda>after.
       if w_disposition after = EXACT then ret after
       else
         let effect = (case w_disposition after of ABSENT \<Rightarrow> EFF_ABSENT | PARTIAL \<Rightarrow> EFF_PARTIAL | _ \<Rightarrow> EFF_UNKNOWN) in
         bindE (writeTaskUpdate E task (\<lambda>t. t
           \<lparr>t_lifecycle := (if effect = EFF_ABSENT then OPENING else RECOVERY_REQUIRED),
            t_worktree_state := worktree_of (w_disposition after),
            t_branch_state := (if w_branch_present after then BR_PRESENT else BR_UNKNOWN)\<rparr>)) (\<lambda>_.
         block_and_throw E operation effect ''WORKTREE_CREATE_FAILED'' (re_message E error))))"

text \<open>From the exact worktree to the registered open task.\<close>

definition open_registered ::
  "'w rt_env \<Rightarrow> task_state \<Rightarrow> operation_state \<Rightarrow> worktree_observation \<Rightarrow> bool
   \<Rightarrow> ('w, 'z, task_open_result) rt" where
  "open_registered E task operation observation recovered =
     bindE (throw_if (w_disposition observation \<noteq> EXACT) uncertainOpen) (\<lambda>_.
     bindE (writeTaskUpdate E task (\<lambda>t. t
       \<lparr>t_lifecycle := OPENING, t_worktree_state := WT_PRESENT, t_branch_state := BR_PRESENT,
        t_worktree_head := w_observed_head observation, t_worktree_tree := w_observed_tree observation,
        t_registration_state := PENDING\<rparr>)) (\<lambda>task1.
     bindE (catchE (ensureRegistered E task1) (\<lambda>error.
         bindE (writeTaskUpdate E task1 (\<lambda>t. t
           \<lparr>t_lifecycle := RECOVERY_REQUIRED, t_registration_state := REG_UNKNOWN\<rparr>)) (\<lambda>_.
         block_and_throw E operation EFF_PRESENT ''REGISTRAR_REGISTER_FAILED'' (re_message E error)))) (\<lambda>task2.
     bindE (advance E operation LOCAL_MUTATION_COMPLETE EFF_PRESENT (Some (t_repo_id task2))) (\<lambda>operation1.
     ret \<lparr>or_repo_id = t_repo_id task2, or_task = task2, or_operation = operation1,
          or_recovered_from_readback = recovered\<rparr>))))"

text \<open>The worktree of an admitted open operation: inspected, created when absent, registered.\<close>

definition materialize_task ::
  "'w rt_env \<Rightarrow> 'w worktree_ops \<Rightarrow> git_task_binding \<Rightarrow> task_state \<Rightarrow> operation_state
   \<Rightarrow> ('w, 'z, task_open_result) rt" where
  "materialize_task E git binding task operation =
     bindE (git_inspect git binding) (\<lambda>observation.
     let recovered = (o_phase operation = LOCAL_MUTATION_STARTED \<or> w_disposition observation = EXACT) in
     if w_disposition observation = PARTIAL \<or> w_disposition observation = CONFLICT then
       bindE (writeTaskUpdate E task (\<lambda>t. t
         \<lparr>t_lifecycle := RECOVERY_REQUIRED, t_worktree_state := worktree_of (w_disposition observation),
          t_branch_state := (if w_branch_present observation then BR_PRESENT else BR_UNKNOWN)\<rparr>)) (\<lambda>_.
       block_and_throw E operation (if w_disposition observation = PARTIAL then EFF_PARTIAL else EFF_UNKNOWN)
         ''WORKTREE_RECONCILIATION_REQUIRED''
         ''Open operation found a partial or conflicting task worktree.'')
     else
       bindE (if o_phase operation = ADMITTED
         then advance E operation LOCAL_MUTATION_STARTED
           (if w_disposition observation = ABSENT then EFF_ABSENT else EFF_PRESENT) None
         else ret operation) (\<lambda>operation1.
       bindE (if w_disposition observation = ABSENT then create_worktree E git binding task operation1
         else ret observation) (\<lambda>observation1.
       open_registered E task operation1 observation1 recovered)))"

definition open_replay :: "'w rt_env \<Rightarrow> task_open_input \<Rightarrow> operation_state \<Rightarrow> task_state option
   \<Rightarrow> ('w, 'z, task_open_result) rt" where
  "open_replay E i operation existing_option = (case existing_option of
       None \<Rightarrow> throw (TaskErr ''TASK_STATE_TAMPERED'')
     | Some existing \<Rightarrow>
        bindE (assertTaskBinding existing i) (\<lambda>_.
        if isTerminalTask existing then
          ret \<lparr>or_repo_id = t_repo_id existing, or_task = existing, or_operation = operation,
               or_recovered_from_readback = True\<rparr>
        else
          bindE (bindingForTask E existing) (\<lambda>(git, binding).
          bindE (git_inspect git binding) (\<lambda>observation.
          bindE (throw_if (w_disposition observation \<noteq> EXACT) uncertainOpen) (\<lambda>_.
          bindE (ensureRegistered E existing) (\<lambda>task.
          ret \<lparr>or_repo_id = t_repo_id task, or_task = task, or_operation = operation,
               or_recovered_from_readback = True\<rparr>))))))"

definition open_admitted :: "'w rt_env \<Rightarrow> task_open_input \<Rightarrow> operation_state \<Rightarrow> task_state option
   \<Rightarrow> ('w, 'z, task_open_result) rt" where
  "open_admitted E i operation existing =
     bindE (getBaseRepository E (oi_base_repo_id i)) (\<lambda>base.
     if br_repo_id base \<noteq> oi_base_repo_id i then
       block_and_throw E operation EFF_ABSENT ''BASE_REPOSITORY_ID_MISMATCH''
         ''Base repository lookup returned a different repo_id.''
     else
       let git = re_worktrees E (br_worktree_root base) in
       bindE (liftR (wo_binding git
         \<lparr>bi_task_id = oi_task_id i, bi_owner_root = br_root base, bi_base_branch = oi_base_branch i,
          bi_base_commit = oi_base_commit i, bi_base_tree = oi_base_tree i, bi_branch_slug = oi_branch_slug i\<rparr>)) (\<lambda>binding.
       bindE (worldE (if br_require_clean_base base = Some True then wo_verify_base_clean git binding
         else wo_verify_base git binding)) (\<lambda>_.
       bindE (if existing = None then enforce_capacity E i base operation else ret ()) (\<lambda>_.
       bindE (establish_task E i binding existing) (\<lambda>task.
       materialize_task E git binding task operation)))))"

definition openLocked :: "'w rt_env \<Rightarrow> task_open_input \<Rightarrow> ('w, 'z, task_open_result) rt" where
  "openLocked E i =
     bindE (ensureOperation E KIND_OPEN (oi_task_id i) (oi_operation_id i) (task_open_json i)) (\<lambda>operation.
     bindE (readTask E (oi_task_id i)) (\<lambda>existing.
     if o_phase operation = LOCAL_MUTATION_COMPLETE then open_replay E i operation existing
     else
       bindE (rejectNoReplay operation) (\<lambda>_.
       bindE (if o_phase operation = CREATED then advance E operation ADMITTED NOT_STARTED None
         else ret operation) (\<lambda>operation1.
       if (case existing of Some t \<Rightarrow> isTerminalTask t | None \<Rightarrow> False) then
         block_and_throw E operation1 EFF_ABSENT ''TASK_ALREADY_CLOSED''
           ''A terminal task_id cannot be reopened with a new operation.''
       else open_admitted E i operation1 existing))))"

definition open_task :: "'w rt_env \<Rightarrow> task_open_input \<Rightarrow> ('w, 'z, task_open_result) rt" where
  "open_task E i =
     bindE (throw_if (\<not> task_open_input_schema i) ZodErr) (\<lambda>_.
     bindE (initialize E) (\<lambda>_.
     withLock E (''repo-open:'' @ oi_base_repo_id i) (
     withLock E (''task:'' @ oi_task_id i) (openLocked E i))))"

section \<open>Reading tasks\<close>

definition task_status :: "'w rt_env \<Rightarrow> string \<Rightarrow> ('w, 'z, task_status_result) rt" where
  "task_status E task_id =
     bindE (initialize E) (\<lambda>_.
     bindE (throw_if (\<not> task_id_schema task_id) ZodErr) (\<lambda>_.
     withLock E (''task:'' @ task_id) (
     bindE (requireTask E task_id) (\<lambda>task.
     catchE
       (bindE (bindingForTask E task) (\<lambda>(git, binding).
        bindE (git_inspect git binding) (\<lambda>observed.
        bindE (if w_disposition observed = EXACT
          then bindE (git_status git binding) (\<lambda>st. ret (Some st)) else ret None) (\<lambda>status.
        ret \<lparr>sr_repo_id = t_repo_id task, sr_task = task, sr_observed_worktree = Some observed,
             sr_git_status = status\<rparr>))))
       (\<lambda>error.
        if t_lifecycle task \<noteq> RECOVERY_REQUIRED \<or> mustPropagateRehydrationError error then throw error
        else ret \<lparr>sr_repo_id = t_repo_id task, sr_task = task, sr_observed_worktree = None,
                  sr_git_status = None\<rparr>)))))"

definition service_listTasks :: "'w rt_env \<Rightarrow> int option \<Rightarrow> ('w, 'z, task_state list) rt" where
  "service_listTasks E limit = bindE (initialize E) (\<lambda>_. listTasks E limit)"

definition add_registered :: "task_registration \<Rightarrow> rehydration_result \<Rightarrow> rehydration_result" where
  "add_registered r acc = acc\<lparr>hr_registered := hr_registered acc @ [r]\<rparr>"

definition add_skipped :: "string \<Rightarrow> rehydration_result \<Rightarrow> rehydration_result" where
  "add_skipped i acc = acc\<lparr>hr_skipped_task_ids := hr_skipped_task_ids acc @ [i]\<rparr>"

definition add_recovery :: "string \<Rightarrow> rehydration_result \<Rightarrow> rehydration_result" where
  "add_recovery i acc = acc\<lparr>hr_recovery_required_task_ids := hr_recovery_required_task_ids acc @ [i]\<rparr>"

text \<open>The \<open>try\<close> block of \<open>rehydrateOpenTaskRepositories\<close>; what it throws carries \<open>task\<close>.\<close>

definition rehydrate_registered ::
  "'w rt_env \<Rightarrow> rehydration_result \<Rightarrow> task_state
   \<Rightarrow> (task_err \<times> task_state, ('w, 'z) rt_state_scheme, rehydration_result) eff" where
  "rehydrate_registered E acc task =
     bindE (tagE task (bindingForTask E task)) (\<lambda>(git, binding).
     bindE (tagE task (git_inspect git binding)) (\<lambda>observation.
     if w_disposition observation \<noteq> EXACT then
       bindE (tagE task (writeTaskUpdate E task (recoveryStateFor observation))) (\<lambda>task1.
       ret (add_recovery (t_task_id task1) acc))
     else (case (w_observed_head observation, w_observed_tree observation) of
         (Some head, Some tree) \<Rightarrow>
           if head = [] \<or> tree = [] then tagE task (throw (TaskErr ''GIT_EFFECT_UNCERTAIN''))
           else
             bindE (if t_worktree_state task \<noteq> WT_PRESENT \<or> t_branch_state task \<noteq> BR_PRESENT
                 \<or> t_worktree_head task \<noteq> Some head \<or> t_worktree_tree task \<noteq> Some tree
               then tagE task (writeTaskUpdate E task (\<lambda>t. t
                 \<lparr>t_worktree_state := WT_PRESENT, t_branch_state := BR_PRESENT,
                  t_worktree_head := Some head, t_worktree_tree := Some tree\<rparr>))
               else ret task) (\<lambda>task1.
             bindE (tagE task1 (ensureRegistered E task1)) (\<lambda>registeredTask.
             ret (add_registered (registrationFor registeredTask) acc)))
       | _ \<Rightarrow> tagE task (throw (TaskErr ''GIT_EFFECT_UNCERTAIN'')))))"

definition rehydrate_locked ::
  "'w rt_env \<Rightarrow> rehydration_result \<Rightarrow> string \<Rightarrow> ('w, 'z, rehydration_result) rt" where
  "rehydrate_locked E acc task_id =
     bindE (requireTask E task_id) (\<lambda>task.
     if \<not> isRehydratableTask task then ret (add_skipped (t_task_id task) acc)
     else catchE (rehydrate_registered E acc task) (\<lambda>(error, task1).
       if mustPropagateRehydrationError error then throw error
       else
         bindE (writeTaskUpdate E task1 (\<lambda>t. t
           \<lparr>t_lifecycle := RECOVERY_REQUIRED, t_worktree_state := WT_UNKNOWN, t_branch_state := BR_UNKNOWN,
            t_registration_state := REG_UNKNOWN\<rparr>)) (\<lambda>task2.
         ret (add_recovery (t_task_id task2) acc))))"

definition rehydrate_one ::
  "'w rt_env \<Rightarrow> rehydration_result \<Rightarrow> task_state \<Rightarrow> ('w, 'z, rehydration_result) rt" where
  "rehydrate_one E acc discoveredTask =
     (if \<not> isRehydratableTask discoveredTask then ret (add_skipped (t_task_id discoveredTask) acc)
      else withLock E (''task:'' @ t_task_id discoveredTask) (rehydrate_locked E acc (t_task_id discoveredTask)))"

definition rehydrateOpenTaskRepositories ::
  "'w rt_env \<Rightarrow> int option \<Rightarrow> ('w, 'z, rehydration_result) rt" where
  "rehydrateOpenTaskRepositories E limit =
     bindE (initialize E) (\<lambda>_.
     bindE (listTasks E limit) (\<lambda>discovered.
     foldE (rehydrate_one E)
       \<lparr>hr_registered = [], hr_skipped_task_ids = [], hr_recovery_required_task_ids = []\<rparr> discovered))"

section \<open>Running an action on an exact task state\<close>

definition runWithExactTaskState ::
  "'w rt_env \<Rightarrow> string \<Rightarrow> string \<Rightarrow> string \<Rightarrow> (exact_task_mutation_state \<Rightarrow> ('w, 'z, 'a) rt)
   \<Rightarrow> ('w, 'z, 'a \<times> exact_task_mutation_state \<times> exact_task_mutation_state) rt" where
  "runWithExactTaskState E task_id expected_head expected_tree action =
     bindE (initialize E) (\<lambda>_.
     bindE (throw_if (\<not> (task_id_schema task_id \<and> git_object_id_schema expected_head
        \<and> git_object_id_schema expected_tree)) ZodErr) (\<lambda>_.
     withLock E (''task:'' @ task_id) (
     bindE (requireTask E task_id) (\<lambda>task.
     bindE (throw_if (t_lifecycle task \<noteq> OPEN \<or> t_registration_state task \<noteq> REGISTERED
        \<or> t_close_disposition task \<noteq> None) (TaskErr ''TASK_NOT_OPEN'')) (\<lambda>_.
     bindE (observeExactTask E task) (\<lambda>(head, tree, clean).
     bindE (throw_if (head \<noteq> expected_head \<or> tree \<noteq> expected_tree) (TaskErr ''GIT_BINDING_MISMATCH'')) (\<lambda>_.
     let before = \<lparr>ex_task = task, ex_head = head, ex_tree = tree, ex_clean = clean\<rparr> in
     bindE (catchE (action before) (\<lambda>error.
        bindE (catchE (bindE (refreshTaskGitBinding E task) (\<lambda>_. ret ())) (\<lambda>_. ret ())) (\<lambda>_.
        throw error))) (\<lambda>result.
     bindE (refreshTaskGitBinding E task) (\<lambda>task1.
     bindE (observeExactTask E task1) (\<lambda>(head1, tree1, clean1).
     ret (result, before, \<lparr>ex_task = task1, ex_head = head1, ex_tree = tree1, ex_clean = clean1\<rparr>)))))))))))"

section \<open>Closing a task\<close>

definition admit_if_created :: "'w rt_env \<Rightarrow> operation_state \<Rightarrow> ('w, 'z, operation_state) rt" where
  "admit_if_created E operation =
     (if o_phase operation = CREATED then advance E operation ADMITTED NOT_STARTED None else ret operation)"

text \<open>A task that is already terminal: only the operation record moves.\<close>

definition close_terminal ::
  "'w rt_env \<Rightarrow> task_close_input \<Rightarrow> operation_state \<Rightarrow> task_state \<Rightarrow> ('w, 'z, task_close_result) rt" where
  "close_terminal E i operation task =
     bindE (if t_lifecycle task = CLEANED
       then assertPersistedExpectedState task (ci_expected_head i) (ci_expected_tree i)
       else bindE (verifyExpectedTaskState E task (ci_expected_head i) (ci_expected_tree i)) (\<lambda>_. ret ())) (\<lambda>_.
     bindE (admit_if_created E operation) (\<lambda>operation1.
     bindE (advance E operation1 LOCAL_MUTATION_COMPLETE EFF_ABSENT (Some (t_repo_id task))) (\<lambda>operation2.
     ret \<lparr>cr_repo_id = t_repo_id task, cr_task = task, cr_operation = operation2\<rparr>)))"

definition close_unregister ::
  "'w rt_env \<Rightarrow> task_close_input \<Rightarrow> operation_state \<Rightarrow> task_state \<Rightarrow> ('w, 'z, task_close_result) rt" where
  "close_unregister E i operation task0 =
     bindE (writeTaskUpdate E task0 (\<lambda>t. t
       \<lparr>t_lifecycle := CLOSING, t_registration_state := REG_UNKNOWN,
        t_close_disposition := Some (ci_disposition i), t_close_reason := ci_reason i\<rparr>)) (\<lambda>task.
     bindE (catchE (unregisterTaskRepository E (t_repo_id task)) (\<lambda>error.
       bindE (writeTaskUpdate E task (\<lambda>t. t
         \<lparr>t_lifecycle := RECOVERY_REQUIRED, t_registration_state := REG_UNKNOWN\<rparr>)) (\<lambda>_.
       block_and_throw E operation EFF_UNKNOWN ''REGISTRAR_UNREGISTER_FAILED'' (re_message E error)))) (\<lambda>_.
     bindE (now_iso E) (\<lambda>closed.
     bindE (writeTaskUpdate E task (\<lambda>t. t
       \<lparr>t_lifecycle := CLOSED, t_registration_state := UNREGISTERED,
        t_close_disposition := Some (ci_disposition i), t_closed_at := Some closed\<rparr>)) (\<lambda>task1.
     bindE (advance E operation LOCAL_MUTATION_COMPLETE EFF_PRESENT (Some (t_repo_id task1))) (\<lambda>operation1.
     ret \<lparr>cr_repo_id = t_repo_id task1, cr_task = task1, cr_operation = operation1\<rparr>)))))"

definition close_live ::
  "'w rt_env \<Rightarrow> task_close_input \<Rightarrow> operation_state \<Rightarrow> task_state \<Rightarrow> ('w, 'z, task_close_result) rt" where
  "close_live E i operation task =
     bindE (throw_if (t_lifecycle task \<notin> {OPEN, CLOSING, CLOSED, CLEANUP_BLOCKED, RECOVERY_REQUIRED})
       (TaskErr ''TASK_NOT_OPEN'')) (\<lambda>_.
     bindE (verifyExpectedTaskState E task (ci_expected_head i) (ci_expected_tree i)) (\<lambda>verified.
     bindE (case verified of
         Some v \<Rightarrow> writeTaskUpdate E task (\<lambda>t. t\<lparr>t_worktree_head := Some (s_head v), t_worktree_tree := Some (s_tree v)\<rparr>)
       | None \<Rightarrow> ret task) (\<lambda>task1.
     bindE (admit_if_created E operation) (\<lambda>operation1.
     bindE (if o_phase operation1 = ADMITTED then advance E operation1 LOCAL_MUTATION_STARTED NOT_STARTED None
       else ret operation1) (\<lambda>operation2.
     close_unregister E i operation2 task1)))))"

definition closeLocked :: "'w rt_env \<Rightarrow> task_close_input \<Rightarrow> ('w, 'z, task_close_result) rt" where
  "closeLocked E i =
     bindE (ensureOperation E KIND_CLOSE (ci_task_id i) (ci_operation_id i) (task_close_json i)) (\<lambda>operation.
     if o_phase operation = LOCAL_MUTATION_COMPLETE then
       bindE (requireTask E (ci_task_id i)) (\<lambda>task.
       ret \<lparr>cr_repo_id = t_repo_id task, cr_task = task, cr_operation = operation\<rparr>)
     else
       bindE (rejectNoReplay operation) (\<lambda>_.
       bindE (requireTask E (ci_task_id i)) (\<lambda>task.
       bindE (throw_if (t_close_disposition task \<noteq> None \<and> t_close_disposition task \<noteq> Some (ci_disposition i))
         (TaskErr ''TASK_BINDING_CONFLICT'')) (\<lambda>_.
       if terminal_lifecycle (t_lifecycle task) then close_terminal E i operation task
       else close_live E i operation task))))"

definition close_task :: "'w rt_env \<Rightarrow> task_close_input \<Rightarrow> ('w, 'z, task_close_result) rt" where
  "close_task E i =
     bindE (throw_if (\<not> task_close_input_schema i) ZodErr) (\<lambda>_.
     bindE (initialize E) (\<lambda>_.
     withLock E (''task:'' @ ci_task_id i) (closeLocked E i)))"

section \<open>Cleaning up a task\<close>

text \<open>The exact worktree of a closed task: kept when dirty, removed when clean.\<close>

definition cleanup_remove ::
  "'w rt_env \<Rightarrow> 'w worktree_ops \<Rightarrow> git_task_binding \<Rightarrow> operation_state \<Rightarrow> task_state
   \<Rightarrow> ('w, 'z, task_state \<times> worktree_observation) rt" where
  "cleanup_remove E git binding operation task =
     bindE (git_status git binding) (\<lambda>status.
     if \<not> s_clean status then
       bindE (writeTaskUpdate E task (\<lambda>t. t
         \<lparr>t_lifecycle := CLEANUP_BLOCKED, t_worktree_state := WT_DIRTY, t_branch_state := BR_PRESERVED\<rparr>)) (\<lambda>_.
       block_and_throw E operation EFF_PRESENT ''GIT_WORKTREE_DIRTY'' ''Cleanup preserved a dirty task worktree.'')
     else
       bindE (writeTaskUpdate E task (\<lambda>t. t
         \<lparr>t_worktree_head := Some (s_head status), t_worktree_tree := Some (s_tree status)\<rparr>)) (\<lambda>task1.
       bindE (git_remove git binding) (\<lambda>_.
       bindE (git_inspect git binding) (\<lambda>observation.
       ret (task1, observation)))))"

text \<open>The branch of a removed worktree: deleted when Git considers it merged.\<close>

definition cleanup_branch ::
  "'w rt_env \<Rightarrow> 'w worktree_ops \<Rightarrow> git_task_binding \<Rightarrow> operation_state \<Rightarrow> task_state \<Rightarrow> worktree_observation
   \<Rightarrow> ('w, 'z, bool \<times> bool) rt" where
  "cleanup_branch E git binding operation task observation =
     (if \<not> w_branch_present observation then ret (False, False)
      else (case t_worktree_head task of
          Some (c # cs) \<Rightarrow>
            bindE (git_delete_branch git binding (c # cs)) (\<lambda>(deleted, reason).
            ret (deleted, reason = Not_Merged))
        | _ \<Rightarrow>
            bindE (writeTaskUpdate E task (\<lambda>t. t
              \<lparr>t_lifecycle := RECOVERY_REQUIRED, t_worktree_state := WT_ABSENT, t_branch_state := BR_UNKNOWN\<rparr>)) (\<lambda>_.
            block_and_throw E operation EFF_PARTIAL ''BRANCH_HEAD_UNKNOWN''
              ''Task branch exists but its expected head was not durably bound.'')))"

definition cleanup_finish ::
  "'w rt_env \<Rightarrow> 'w worktree_ops \<Rightarrow> git_task_binding \<Rightarrow> operation_state \<Rightarrow> task_state \<Rightarrow> worktree_observation
   \<Rightarrow> ('w, 'z, task_cleanup_result) rt" where
  "cleanup_finish E git binding operation task observation =
     (if w_path_present observation \<or> w_registered observation then
        bindE (writeTaskUpdate E task (\<lambda>t. t
          \<lparr>t_lifecycle := RECOVERY_REQUIRED, t_worktree_state := WT_PARTIAL\<rparr>)) (\<lambda>_.
        block_and_throw E operation EFF_PARTIAL ''WORKTREE_REMOVE_UNCERTAIN''
          ''Task worktree removal did not reach a known absent state.'')
      else
        bindE (cleanup_branch E git binding operation task observation) (\<lambda>(branchDeleted, branchPreserved).
        bindE (writeTaskUpdate E task (\<lambda>t. t
          \<lparr>t_lifecycle := CLEANED, t_worktree_state := WT_ABSENT,
           t_branch_state := (if branchPreserved then BR_PRESERVED else BR_ABSENT),
           t_registration_state := UNREGISTERED,
           t_cleanup_note := (if branchPreserved
             then Some ''Server-owned branch was preserved because Git did not consider it merged.''
             else t_cleanup_note t)\<rparr>)) (\<lambda>task1.
        bindE (advance E operation LOCAL_MUTATION_COMPLETE EFF_PRESENT (Some (t_repo_id task1))) (\<lambda>operation1.
        ret \<lparr>lr_repo_id = t_repo_id task1, lr_task = task1, lr_operation = operation1,
             lr_branch_deleted = branchDeleted, lr_branch_preserved = branchPreserved\<rparr>))))"

definition cleanup_closed ::
  "'w rt_env \<Rightarrow> task_cleanup_input \<Rightarrow> operation_state \<Rightarrow> task_state \<Rightarrow> ('w, 'z, task_cleanup_result) rt" where
  "cleanup_closed E i operation task =
     bindE (throw_if (t_close_disposition task = None \<or> t_closed_at task = None) (TaskErr ''TASK_NOT_CLOSED'')) (\<lambda>_.
     bindE (throw_if (t_lifecycle task \<notin> {CLOSED, CLEANUP_STARTED, CLEANUP_BLOCKED, RECOVERY_REQUIRED})
       (TaskErr ''TASK_NOT_CLOSED'')) (\<lambda>_.
     bindE (verifyExpectedTaskState E task (li_expected_head i) (li_expected_tree i)) (\<lambda>_.
     bindE (admit_if_created E operation) (\<lambda>operation1.
     bindE (bindingForTask E task) (\<lambda>(git, binding).
     bindE (git_inspect git binding) (\<lambda>observation.
     if w_disposition observation = CONFLICT \<or> (w_disposition observation = PARTIAL \<and> w_path_present observation) then
       bindE (writeTaskUpdate E task (\<lambda>t. t
         \<lparr>t_lifecycle := RECOVERY_REQUIRED, t_worktree_state := worktree_of (w_disposition observation)\<rparr>)) (\<lambda>_.
       block_and_throw E operation1 (if w_disposition observation = CONFLICT then EFF_UNKNOWN else EFF_PARTIAL)
         ''WORKTREE_RECONCILIATION_REQUIRED'' ''Task worktree is conflicting or partially materialized.'')
     else
       bindE (if o_phase operation1 = ADMITTED
         then advance E operation1 LOCAL_MUTATION_STARTED
           (if w_disposition observation = ABSENT then EFF_ABSENT else EFF_PRESENT) None
         else ret operation1) (\<lambda>operation2.
       bindE (writeTaskUpdate E task (\<lambda>t. t\<lparr>t_lifecycle := CLEANUP_STARTED\<rparr>)) (\<lambda>task1.
       bindE (if w_disposition observation = EXACT then cleanup_remove E git binding operation2 task1
         else ret (task1, observation)) (\<lambda>(task2, observation1).
       cleanup_finish E git binding operation2 task2 observation1)))))))))"

definition cleanupLocked :: "'w rt_env \<Rightarrow> task_cleanup_input \<Rightarrow> ('w, 'z, task_cleanup_result) rt" where
  "cleanupLocked E i =
     bindE (ensureOperation E KIND_CLEANUP (li_task_id i) (li_operation_id i) (task_cleanup_json i)) (\<lambda>operation.
     if o_phase operation = LOCAL_MUTATION_COMPLETE then
       bindE (requireTask E (li_task_id i)) (\<lambda>task. ret (cleanupResult task operation))
     else
       bindE (rejectNoReplay operation) (\<lambda>_.
       bindE (requireTask E (li_task_id i)) (\<lambda>task.
       if t_lifecycle task = CLEANED then
         bindE (assertPersistedExpectedState task (li_expected_head i) (li_expected_tree i)) (\<lambda>_.
         bindE (admit_if_created E operation) (\<lambda>operation1.
         bindE (advance E operation1 LOCAL_MUTATION_COMPLETE EFF_ABSENT (Some (t_repo_id task))) (\<lambda>operation2.
         ret (cleanupResult task operation2))))
       else cleanup_closed E i operation task)))"

definition cleanup_task :: "'w rt_env \<Rightarrow> task_cleanup_input \<Rightarrow> ('w, 'z, task_cleanup_result) rt" where
  "cleanup_task E i =
     bindE (throw_if (\<not> task_cleanup_input_schema i) ZodErr) (\<lambda>_.
     bindE (initialize E) (\<lambda>_.
     withLock E (''task:'' @ li_task_id i) (cleanupLocked E i)))"

end
