(* ===== verification/Task_Invariants.thy ===== *)
theory Task_Invariants
  imports Task_Service
begin

text \<open>
  What every handler of the task runtime service keeps. The locale states the interface
  between the handlers and the store: a property of the durable state that survives the
  answers of the world and the two ways the service writes records. Every handler keeps
  such a property; the interpretations instantiate it.
\<close>

section \<open>Properties the handlers keep\<close>

locale record_frame =
  fixes E :: "'w rt_env"
    and P :: "('w, 'z) rt_state_scheme \<Rightarrow> bool"
  assumes of_world: "ignores_world P"
    and of_record: "(\<And>b. c \<noteq> Call_Remove b) \<Longrightarrow> keeps P (recordE c)"
    and of_writeOperation: "keeps P (writeOperation E p)"

context record_frame
begin

lemmas of_primitives = of_writeOperation keeps_worldE [OF of_world]
  keeps_askE [OF of_world] keeps_now_iso [OF of_world] keeps_readFile [OF of_world]
  keeps_withLock [OF of_world]

lemma of_readTask: "keeps P (readTask E i)"
  unfolding readTask_def by (intro pres_intros of_primitives)

lemma of_requireTask: "keeps P (requireTask E i)"
  unfolding requireTask_def by (intro pres_intros of_readTask)

lemma of_readOperation: "keeps P (readOperation E i j)"
  unfolding readOperation_def by (intro pres_intros of_primitives)

lemma of_list_task_entry: "keeps P (list_task_entry E acc e)"
  unfolding list_task_entry_def
  by (intro pres_intros of_primitives) (auto split: option.split disk_file.split intro!: pres_intros)

lemma of_listTasks: "keeps P (listTasks E l)"
  unfolding listTasks_def boundedListLimit_def listDirectory_def
  by (intro pres_intros of_list_task_entry)

lemma of_ensureOperation: "keeps P (ensureOperation E k i j r)"
  unfolding ensureOperation_def by (intro pres_intros of_primitives of_readOperation)

lemma of_advance: "keeps P (advance E p ph e r)"
  unfolding advance_def by (intro pres_intros of_primitives)

lemma of_block: "keeps P (block E p e c m)"
  unfolding block_def by (intro pres_intros of_primitives)

lemma of_block_and_throw: "keeps P (block_and_throw E p e c m)"
  unfolding block_and_throw_def by (intro pres_intros of_block)

lemma yields_block_and_throw: "yields P (block_and_throw E p e c m) Q (\<lambda>_. True)"
  unfolding block_and_throw_def by (rule yields_bindE [OF keeps_yields [OF of_block]]) (simp add: yields_throw)

lemma of_admit: "keeps P (admit_if_created E p)"
  unfolding admit_if_created_def by (intro pres_intros of_advance)

lemma of_initialize: "keeps P (initialize E)"
  unfolding initialize_def by (intro pres_intros of_primitives)

lemma of_calls: "keeps P (getBaseRepository E b)" "keeps P (registerTaskRepository E r)"
  "keeps P (unregisterTaskRepository E i)" "keeps P (git_inspect git binding)"
  "keeps P (git_status git binding)" "keeps P (git_create git binding)"
  "keeps P (git_delete_branch git binding h)" "keeps P (inspectAfterFailure git binding)"
  unfolding getBaseRepository_def registerTaskRepository_def unregisterTaskRepository_def git_inspect_def
    git_status_def git_create_def git_delete_branch_def inspectAfterFailure_def
  by (intro pres_intros of_primitives of_record; simp)+

lemma of_asserts: "keeps P (assertTaskBinding t i)" "keeps P (assertDerivedBinding t binding)"
  "keeps P (assertPersistedExpectedState t h tr)" "keeps P (rejectNoReplay p)"
  unfolding assertTaskBinding_def assertDerivedBinding_def assertPersistedExpectedState_def rejectNoReplay_def
  by (intro pres_intros)+

lemma of_bindingForTask: "keeps P (bindingForTask E t)"
  unfolding bindingForTask_def by (intro pres_intros of_calls of_asserts)

lemma of_verifyExpectedTaskState: "keeps P (verifyExpectedTaskState E t h tr)"
  unfolding verifyExpectedTaskState_def by (intro pres_intros of_calls of_bindingForTask)

lemma of_observeExactTask: "keeps P (observeExactTask E t)"
  unfolding observeExactTask_def by (intro pres_intros of_calls of_bindingForTask)

lemma of_enforce_capacity: "keeps P (enforce_capacity E i base p)"
  unfolding enforce_capacity_def by (intro pres_intros of_listTasks of_block_and_throw)

lemmas frame_steps = of_primitives of_readTask of_requireTask of_listTasks of_ensureOperation of_advance
  of_block_and_throw of_admit of_initialize of_calls of_asserts of_bindingForTask
  of_verifyExpectedTaskState of_observeExactTask of_enforce_capacity

lemma of_status: "keeps P (task_status E i)"
  unfolding task_status_def by (intro pres_intros frame_steps)

end

text \<open>With writes of task records as well, every handler keeps the property; what precedes the
  removal of a worktree is left to the user of the locale.\<close>

locale service_invariant = record_frame E P
  for E :: "'w rt_env" and P :: "('w, 'z) rt_state_scheme \<Rightarrow> bool" +
  assumes of_writeTask: "keeps P (writeTask E t)"

context service_invariant
begin

lemma of_writeTaskUpdate: "keeps P (writeTaskUpdate E t f)"
  unfolding writeTaskUpdate_def by (intro pres_intros of_primitives of_writeTask)

lemma of_ensureRegistered: "keeps P (ensureRegistered E t)"
  unfolding ensureRegistered_def by (intro pres_intros of_calls of_writeTaskUpdate)

lemma of_refreshTaskGitBinding: "keeps P (refreshTaskGitBinding E t)"
  unfolding refreshTaskGitBinding_def by (intro pres_intros of_observeExactTask of_writeTaskUpdate)

lemmas of_steps = frame_steps of_writeTask of_writeTaskUpdate of_ensureRegistered of_refreshTaskGitBinding

lemma of_open: "keeps P (open_task E i)"
  unfolding open_task_def openLocked_def open_replay_def open_admitted_def enforce_capacity_def
    establish_task_def materialize_task_def create_worktree_def open_registered_def
  by (intro pres_intros of_steps)

lemma of_rehydrate: "keeps P (rehydrateOpenTaskRepositories E l)"
  unfolding rehydrateOpenTaskRepositories_def rehydrate_one_def rehydrate_locked_def rehydrate_registered_def
  by (intro pres_intros of_steps)

lemma of_runWithExactTaskState:
  "(\<And>before. keeps P (action before)) \<Longrightarrow> keeps P (runWithExactTaskState E i h tr action)"
  unfolding runWithExactTaskState_def by (intro pres_intros of_steps)

lemma of_close: "keeps P (close_task E i)"
  unfolding close_task_def closeLocked_def close_terminal_def close_live_def close_unregister_def
  by (intro pres_intros of_steps)

lemma of_cleanup:
  "(\<And>git b p t. keeps P (cleanup_remove E git b p t)) \<Longrightarrow> keeps P (cleanup_task E i)"
  unfolding cleanup_task_def cleanupLocked_def cleanup_closed_def cleanup_finish_def cleanup_branch_def
  by (intro pres_intros of_steps)

lemma of_cleanup_remove:
  "(\<And>git b. keeps P (git_remove git b)) \<Longrightarrow> keeps P (cleanup_remove E git b p t)"
  unfolding cleanup_remove_def by (intro pres_intros of_steps)

end

section \<open>Every record on disk satisfies its schema and its digest\<close>

definition valid_task_file :: "'w rt_env \<Rightarrow> string \<times> task_state disk_file \<Rightarrow> bool" where
  "valid_task_file E = (\<lambda>(k, f). case f of
       Malformed \<Rightarrow> False
     | Stored t \<Rightarrow> k = task_key E (t_task_id t) \<and> verified_task E (t_task_id t) t)"

definition valid_operation_file :: "'w rt_env \<Rightarrow> (string \<times> string) \<times> operation_state disk_file \<Rightarrow> bool" where
  "valid_operation_file E = (\<lambda>(k, f). case f of
       Malformed \<Rightarrow> False
     | Stored p \<Rightarrow> k = operation_key E (o_task_id p) (o_operation_id p)
         \<and> verified_operation E (o_task_id p) (o_operation_id p) p)"

definition records_valid :: "'w rt_env \<Rightarrow> ('w, 'z) rt_state_scheme \<Rightarrow> bool" where
  "records_valid E s \<longleftrightarrow>
     list_all (valid_task_file E) (rt_tasks s) \<and> list_all (valid_operation_file E) (rt_ops s)"

lemma task_members_sign [simp]: "task_members (sign_task E t) = task_members t"
  by (simp add: sign_task_def task_members_def)

lemma task_id_sign [simp]: "t_task_id (sign_task E t) = t_task_id t"
  by (simp add: sign_task_def)

lemma operation_members_sign [simp]: "operation_members (sign_operation E p) = operation_members p"
  by (simp add: sign_operation_def operation_members_def)

lemma verified_sign_task:
  "task_schema (re_datetime E) (sign_task E t) \<Longrightarrow> verified_task E (t_task_id t) (sign_task E t)"
  by (simp add: verified_task_def task_digest_def) (simp add: sign_task_def task_digest_def)

lemma verified_sign_operation:
  "operation_schema (re_datetime E) (sign_operation E p)
   \<Longrightarrow> verified_operation E (o_task_id p) (o_operation_id p) (sign_operation E p)"
  by (simp add: verified_operation_def operation_digest_def) (simp add: sign_operation_def operation_digest_def)

lemma records_valid_store_task:
  assumes "records_valid E s" "verified_task E (t_task_id t) t"
  shows "records_valid E (store_task E t s)"
  using assms by (simp add: records_valid_def store_task_def put_file_all valid_task_file_def [of E, THEN fun_cong])

lemma records_valid_store_operation:
  assumes "records_valid E s" "verified_operation E (o_task_id p) (o_operation_id p) p"
  shows "records_valid E (store_operation E p s)"
  using assms
  by (simp add: records_valid_def store_operation_def put_file_all valid_operation_file_def [of E, THEN fun_cong])

lemma records_valid_world [simp]: "records_valid E (s\<lparr>rt_world := w\<rparr>) = records_valid E s"
  by (simp add: records_valid_def)

lemma keeps_git_remove:
  "ignores_world P \<Longrightarrow> (\<And>s cs. P (s\<lparr>rt_trace := cs\<rparr>) = P s) \<Longrightarrow> keeps P (git_remove git b)"
  unfolding git_remove_def by (intro pres_intros)

interpretation valid: service_invariant E "records_valid E :: ('w, 'z) rt_state_scheme \<Rightarrow> bool"
  for E :: "'w rt_env"
proof unfold_locales
  show "ignores_world (records_valid E :: ('w, 'z) rt_state_scheme \<Rightarrow> bool)"
    by (simp add: ignores_world_def)
  show "keeps (records_valid E :: ('w, 'z) rt_state_scheme \<Rightarrow> bool) (recordE c)" for c
    by (rule keeps_recordE) (simp add: records_valid_def)
  show "keeps (records_valid E :: ('w, 'z) rt_state_scheme \<Rightarrow> bool) (writeTask E t)" for t
    by (rule keeps_wpI, rule wp_writeTask) (simp_all add: records_valid_store_task verified_sign_task)
  show "keeps (records_valid E :: ('w, 'z) rt_state_scheme \<Rightarrow> bool) (writeOperation E p)" for p
  proof (rule keeps_wpI, rule wp_writeOperation)
    show "records_valid E (store_operation E (sign_operation E p) (s\<lparr>rt_world := w\<rparr>))
      \<and> (\<forall>e. records_valid E (store_operation E (sign_operation E p) (s\<lparr>rt_world := w\<rparr>)))"
      if "records_valid E s" "operation_schema (re_datetime E) (sign_operation E p)"
      for s :: "('w, 'z) rt_state_scheme" and w
      using that verified_sign_operation [of E p]
      by (auto intro!: records_valid_store_operation simp: sign_operation_def)
  qed simp_all
qed

section \<open>Operations only move forward\<close>

text \<open>What a record of an operation may become: same request, same kind, a path of the phase
  table away, and never an older revision.\<close>

definition operation_follows :: "operation_state \<Rightarrow> operation_state \<Rightarrow> bool" where
  "operation_follows p q \<longleftrightarrow>
     o_kind q = o_kind p \<and> o_request_sha256 q = o_request_sha256 p \<and> o_revision p \<le> o_revision q
   \<and> (\<exists>phases. op_table.path (o_phase p) phases (o_phase q))"

definition operations_evolve :: "('w, 'z) rt_state_scheme \<Rightarrow> ('w, 'z) rt_state_scheme \<Rightarrow> bool" where
  "operations_evolve s0 s \<longleftrightarrow>
     (\<forall>k p. map_of (rt_ops s0) k = Some (Stored p)
        \<longrightarrow> (\<exists>q. map_of (rt_ops s) k = Some (Stored q) \<and> operation_follows p q))"

lemma path_append:
  assumes "op_table.path p ps q" "op_table.path q qs r"
  shows "op_table.path p (ps @ qs) r"
  using assms by (induction rule: op_table.path.induct) (auto intro: op_table.path.intros)

lemma operation_follows_refl: "operation_follows p p"
  by (auto simp: operation_follows_def intro: op_table.path.intros)

lemma operation_follows_trans:
  "operation_follows p q \<Longrightarrow> operation_follows q r \<Longrightarrow> operation_follows p r"
  by (auto simp: operation_follows_def intro: path_append)

lemma admissible_follows: "admissible_write (Some p) q \<Longrightarrow> operation_follows p q"
  using op_table.path_nil [of "o_phase q"] op_table.path_cons [OF _ op_table.path_nil]
  by (auto simp: admissible_write_def operation_follows_def)

lemma operation_follows_sign [simp]: "operation_follows p (sign_operation E q) = operation_follows p q"
  by (simp add: operation_follows_def sign_operation_def)

lemma operations_evolve_refl: "operations_evolve s s"
  by (auto simp: operations_evolve_def operation_follows_refl)

lemma operations_evolve_store:
  assumes s: "operations_evolve s0 s"
    and prev: "stored_operation E s v = map_option Stored previous" "admissible_write previous v"
  shows "operations_evolve s0 (store_operation E (sign_operation E v) s)"
  unfolding operations_evolve_def
proof (intro allI impI)
  fix k p assume k: "map_of (rt_ops s0) k = Some (Stored p)"
  with s obtain q where q: "map_of (rt_ops s) k = Some (Stored q)" "operation_follows p q"
    unfolding operations_evolve_def by blast
  show "\<exists>r. map_of (rt_ops (store_operation E (sign_operation E v) s)) k = Some (Stored r) \<and> operation_follows p r"
  proof (cases "k = operation_key E (o_task_id v) (o_operation_id v)")
    case True
    with q prev have "previous = Some q"
      by (cases previous) (auto simp: stored_operation_def)
    with prev q have "operation_follows p v"
      using admissible_follows operation_follows_trans by blast
    with True show ?thesis
      by (simp add: store_operation_def sign_operation_def) (simp add: operation_follows_def)
  next
    case False
    with q show ?thesis
      by (simp add: store_operation_def sign_operation_def)
  qed
qed

interpretation evolves: service_invariant E "operations_evolve s0"
  for E :: "'w rt_env" and s0 :: "('w, 'z) rt_state_scheme"
proof unfold_locales
  have world: "operations_evolve s0 (s\<lparr>rt_world := w\<rparr>) = operations_evolve s0 s" for s :: "('w, 'z) rt_state_scheme" and w
    by (simp add: operations_evolve_def)
  show "ignores_world (operations_evolve s0)"
    by (simp add: ignores_world_def world)
  show "keeps (operations_evolve s0) (recordE c)" for c
    by (rule keeps_recordE) (simp add: operations_evolve_def)
  show "keeps (operations_evolve s0) (writeTask E t)" for t
    by (rule keeps_wpI, rule wp_writeTask) (simp_all add: operations_evolve_def store_task_def)
  show "keeps (operations_evolve s0) (writeOperation E p)" for p
  proof (rule keeps_wpI, rule wp_writeOperation)
    show "operations_evolve s0 (store_operation E (sign_operation E p) (s\<lparr>rt_world := w\<rparr>))
      \<and> (\<forall>e. operations_evolve s0 (store_operation E (sign_operation E p) (s\<lparr>rt_world := w\<rparr>)))"
      if "operations_evolve s0 s" "stored_operation E s p = map_option Stored previous" "admissible_write previous p"
      for s :: "('w, 'z) rt_state_scheme" and w previous
      using that operations_evolve_store [of s0 "s\<lparr>rt_world := w\<rparr>" E p previous]
      by (simp add: world stored_operation_def)
  qed (simp_all add: world)
qed

lemma valid_cleanup: "keeps (records_valid E) (cleanup_task E i)"
  by (intro valid.of_cleanup valid.of_cleanup_remove keeps_git_remove)
    (simp_all add: ignores_world_def records_valid_def)

lemma evolves_cleanup: "keeps (operations_evolve s0) (cleanup_task E i)"
  by (intro evolves.of_cleanup evolves.of_cleanup_remove keeps_git_remove)
    (simp_all add: ignores_world_def operations_evolve_def)

end
