(* ===== verification/Task_History.thy ===== *)
theory Task_History
  imports Task_Invariants
begin

text \<open>
  How task records change over time: what identifies a task never changes, revisions never
  decrease, the close disposition and the time of closing are written once, and a cleaned
  task stays cleaned. Every handler of src/task-runtime/task-service.ts keeps this relation
  between the disk before and after it.
\<close>

definition task_follows :: "task_state \<Rightarrow> task_state \<Rightarrow> bool" where
  "task_follows t u \<longleftrightarrow>
     t_task_id u = t_task_id t \<and> t_repo_id u = t_repo_id t
   \<and> t_base_repo_id u = t_base_repo_id t \<and> t_base_branch u = t_base_branch t
   \<and> t_base_commit u = t_base_commit t \<and> t_base_tree u = t_base_tree t
   \<and> t_authority u = t_authority t \<and> t_goal u = t_goal t \<and> t_branch_slug u = t_branch_slug t
   \<and> t_server_branch u = t_server_branch t \<and> t_worktree_path u = t_worktree_path t
   \<and> t_created_at u = t_created_at t \<and> t_revision t \<le> t_revision u
   \<and> (\<forall>d. t_close_disposition t = Some d \<longrightarrow> t_close_disposition u = Some d)
   \<and> (\<forall>c. t_closed_at t = Some c \<longrightarrow> t_closed_at u = Some c)
   \<and> (t_lifecycle t = CLEANED \<longrightarrow> t_lifecycle u = CLEANED)"

definition tasks_evolve :: "('w, 'z) rt_state_scheme \<Rightarrow> ('w, 'z) rt_state_scheme \<Rightarrow> bool" where
  "tasks_evolve s0 s \<longleftrightarrow>
     (\<forall>k t. map_of (rt_tasks s0) k = Some (Stored t)
        \<longrightarrow> (\<exists>u. map_of (rt_tasks s) k = Some (Stored u) \<and> task_follows t u))"

text \<open>A record that may replace what \<open>s0\<close> holds for its task.\<close>

definition replaces :: "'w rt_env \<Rightarrow> ('w, 'z) rt_state_scheme \<Rightarrow> task_state \<Rightarrow> bool" where
  "replaces E s0 t \<longleftrightarrow>
     (\<forall>t0. map_of (rt_tasks s0) (task_key E (t_task_id t)) = Some (Stored t0) \<longrightarrow> task_follows t0 t)"

definition current_task :: "'w rt_env \<Rightarrow> ('w, 'z) rt_state_scheme \<Rightarrow> task_state \<Rightarrow> bool" where
  "current_task E s0 t \<longleftrightarrow> task_schema (re_datetime E) t \<and> replaces E s0 t"

lemma task_follows_refl: "task_follows t t"
  by (simp add: task_follows_def)

lemma task_follows_trans: "task_follows t u \<Longrightarrow> task_follows u v \<Longrightarrow> task_follows t v"
  by (auto simp: task_follows_def)

lemma task_follows_sign [simp]: "task_follows t (sign_task E u) = task_follows t u"
  by (simp add: task_follows_def sign_task_def)

lemma replaces_trans:
  assumes "replaces E s0 t" "task_follows t u"
  shows "replaces E s0 u"
proof -
  have "t_task_id u = t_task_id t"
    using assms(2) by (simp add: task_follows_def)
  with assms show ?thesis
    by (auto simp: replaces_def intro: task_follows_trans)
qed

lemma tasks_evolve_refl: "tasks_evolve s s"
  by (auto simp: tasks_evolve_def task_follows_refl)

lemma tasks_evolve_store:
  assumes "tasks_evolve s0 s" "replaces E s0 v"
  shows "tasks_evolve s0 (store_task E (sign_task E v) s)"
  using assms by (auto simp: tasks_evolve_def store_task_def replaces_def)

lemma refinement_of_schema: "task_schema dt t \<Longrightarrow> task_refinement t"
  by (simp add: task_schema_def)

interpretation tasks_frame: record_frame E "tasks_evolve s0"
  for E :: "'w rt_env" and s0 :: "('w, 'z) rt_state_scheme"
proof unfold_locales
  show "ignores_world (tasks_evolve s0)"
    by (simp add: ignores_world_def tasks_evolve_def)
  show "keeps (tasks_evolve s0) (recordE c)" for c
    by (rule keeps_recordE) (simp add: tasks_evolve_def)
  show "keeps (tasks_evolve s0) (writeOperation E p)" for p
    by (rule keeps_wpI, rule wp_writeOperation) (simp_all add: tasks_evolve_def store_operation_def)
qed

lemma yields_readTask:
  "yields (tasks_evolve s0) (readTask E i)
     (\<lambda>r. case r of Some t \<Rightarrow> current_task E s0 t \<and> t_task_id t = i
        | None \<Rightarrow> (\<forall>t. map_of (rt_tasks s0) (task_key E i) \<noteq> Some (Stored t))) (\<lambda>_. True)"
proof (rule yieldsI, rule wp_readTask)
  fix s assume P: "tasks_evolve s0 s"
  have w: "tasks_evolve s0 (s\<lparr>rt_world := w\<rparr>)" for w
    using P by (simp add: tasks_evolve_def)
  { fix w assume "map_of (rt_tasks s) (task_key E i) = None"
    with P w show "tasks_evolve s0 (s\<lparr>rt_world := w\<rparr>) \<and> (case None of Some t \<Rightarrow> current_task E s0 t \<and> t_task_id t = i
        | None \<Rightarrow> (\<forall>t. map_of (rt_tasks s0) (task_key E i) \<noteq> Some (Stored t)))"
      by (fastforce simp: tasks_evolve_def) }
  { fix w t assume "map_of (rt_tasks s) (task_key E i) = Some (Stored t)" "verified_task E i t"
    with P w show "tasks_evolve s0 (s\<lparr>rt_world := w\<rparr>) \<and> (case Some t of Some t \<Rightarrow> current_task E s0 t \<and> t_task_id t = i
        | None \<Rightarrow> (\<forall>t. map_of (rt_tasks s0) (task_key E i) \<noteq> Some (Stored t)))"
      by (fastforce simp: tasks_evolve_def current_task_def replaces_def verified_task_def) }
  show "tasks_evolve s0 (s\<lparr>rt_world := w\<rparr>) \<and> True" "tasks_evolve s0 s \<and> True" for w
    using P w by simp_all
qed

lemma yields_requireTask:
  "yields (tasks_evolve s0) (requireTask E i) (\<lambda>t. current_task E s0 t \<and> t_task_id t = i) (\<lambda>_. True)"
  unfolding requireTask_def
  by (rule yields_bindE [OF yields_readTask]) (auto intro!: yield_intros split: option.split)

lemma yields_writeTask:
  assumes "replaces E s0 v"
  shows "yields (tasks_evolve s0) (writeTask E v)
     (\<lambda>u. u = sign_task E v \<and> current_task E s0 u) (\<lambda>_. True)"
proof (rule yieldsI, rule wp_writeTask)
  fix s assume P: "tasks_evolve s0 s"
  then have w: "tasks_evolve s0 (s\<lparr>rt_world := w\<rparr>)" for w
    by (simp add: tasks_evolve_def)
  have r: "replaces E s0 (sign_task E v)"
    using assms by (simp add: replaces_def)
  show "tasks_evolve s0 (store_task E (sign_task E v) (s\<lparr>rt_world := w\<rparr>))
      \<and> sign_task E v = sign_task E v \<and> current_task E s0 (sign_task E v)"
    if "task_schema (re_datetime E) (sign_task E v)" for w
    using tasks_evolve_store [OF w assms] r that by (simp add: current_task_def)
  show "tasks_evolve s0 (s\<lparr>rt_world := w\<rparr>) \<and> True" "tasks_evolve s0 s \<and> True"
    "tasks_evolve s0 (store_task E (sign_task E v) (s\<lparr>rt_world := w\<rparr>)) \<and> True" for w
    using P w tasks_evolve_store [OF w assms] by simp_all
qed

text \<open>The record an update writes, up to its revision, its time stamp and its digest.\<close>

definition updated :: "(task_state \<Rightarrow> task_state) \<Rightarrow> task_state \<Rightarrow> task_state \<Rightarrow> bool" where
  "updated f t u \<longleftrightarrow> t_close_disposition u = t_close_disposition (f t) \<and> t_closed_at u = t_closed_at (f t)
     \<and> t_lifecycle u = t_lifecycle (f t)"

lemma yields_writeTaskUpdate:
  assumes "current_task E s0 t"
    and "\<And>now. task_follows t ((f t)\<lparr>t_revision := t_revision t + 1, t_updated_at := now\<rparr>)"
  shows "yields (tasks_evolve s0) (writeTaskUpdate E t f) (\<lambda>u. current_task E s0 u \<and> updated f t u) (\<lambda>_. True)"
  unfolding writeTaskUpdate_def
proof (rule yields_bindE)
  show "yields (tasks_evolve s0) (now_iso E) (\<lambda>_. True) (\<lambda>_. True)"
    by (intro keeps_yields tasks_frame.frame_steps)
  show "yields (tasks_evolve s0) (writeTask E ((f t)\<lparr>t_revision := t_revision t + 1, t_updated_at := now\<rparr>))
      (\<lambda>u. current_task E s0 u \<and> updated f t u) (\<lambda>_. True)" for now
    using assms by (intro yields_conseq [OF yields_writeTask])
      (auto simp: current_task_def updated_def sign_task_def intro: replaces_trans)
qed

section \<open>The handlers\<close>

text \<open>Updates that leave the close fields alone, of a task that is not cleaned yet.\<close>

definition quiet :: "(task_state \<Rightarrow> task_state) \<Rightarrow> bool" where
  "quiet f \<longleftrightarrow> (\<forall>t now. t_lifecycle t \<noteq> CLEANED
     \<longrightarrow> task_follows t ((f t)\<lparr>t_revision := t_revision t + 1, t_updated_at := now\<rparr>)
       \<and> t_close_disposition (f t) = t_close_disposition t \<and> t_closed_at (f t) = t_closed_at t)"

lemma yields_quiet:
  assumes "current_task E s0 t" "t_lifecycle t \<noteq> CLEANED" "quiet f"
  shows "yields (tasks_evolve s0) (writeTaskUpdate E t f)
     (\<lambda>u. current_task E s0 u \<and> t_lifecycle u = t_lifecycle (f t)
        \<and> t_close_disposition u = t_close_disposition t \<and> t_closed_at u = t_closed_at t) (\<lambda>_. True)"
  using assms by (intro yields_conseq [OF yields_writeTaskUpdate]) (auto simp: quiet_def updated_def)

definition live :: "'w rt_env \<Rightarrow> ('w, 'z) rt_state_scheme \<Rightarrow> task_state \<Rightarrow> bool" where
  "live E s0 t \<longleftrightarrow> current_task E s0 t \<and> t_close_disposition t = None"

lemma live_not_cleaned: "live E s0 t \<Longrightarrow> t_lifecycle t \<noteq> CLEANED"
  by (auto simp: live_def current_task_def task_schema_def task_refinement_def terminal_lifecycle_def)

lemma yields_live:
  assumes "live E s0 t" "quiet f"
  shows "yields (tasks_evolve s0) (writeTaskUpdate E t f) (live E s0) (\<lambda>_. True)"
  using assms live_not_cleaned [OF assms(1)]
  by (intro yields_conseq [OF yields_quiet]) (auto simp: live_def)

lemma any: "yields P m Q (\<lambda>_. True) \<Longrightarrow> yields P m (\<lambda>_. True) (\<lambda>_. True)"
  by (erule yields_conseq) simp_all

lemma yields_bind_frame:
  "keeps P m \<Longrightarrow> (\<And>x. yields P (f x) Q (\<lambda>_. True)) \<Longrightarrow> yields P (bindE m f) Q (\<lambda>_. True)"
  by (rule yields_bindE [OF keeps_yields]) simp_all

lemma yields_withLock:
  "keeps P (worldE (re_lock E l)) \<Longrightarrow> keeps P (worldE (re_unlock E l)) \<Longrightarrow> yields P m Q (\<lambda>_. True)
   \<Longrightarrow> yields P (withLock E l m) Q (\<lambda>_. True)"
  unfolding withLock_def by (intro yields_bind_frame yields_finallyE keeps_yields)

lemma yields_ensureRegistered:
  "live E s0 t \<Longrightarrow> yields (tasks_evolve s0) (ensureRegistered E t) (live E s0) (\<lambda>_. True)"
  unfolding ensureRegistered_def
  by (intro yields_bind_frame tasks_frame.frame_steps yield_intros yields_live)
    (simp_all add: quiet_def task_follows_def)

lemma yields_blocked_update:
  assumes "current_task E s0 t" "t_lifecycle t \<noteq> CLEANED" "quiet f"
  shows "yields (tasks_evolve s0) (bindE (writeTaskUpdate E t f) (\<lambda>_. block_and_throw E p e c m)) Q (\<lambda>_. True)"
  by (rule yields_bindE [OF yields_quiet [OF assms]]) (rule tasks_frame.yields_block_and_throw)

lemmas quiet_simps = quiet_def task_follows_def

lemma yields_bind_live:
  "live E s0 t \<Longrightarrow> quiet f \<Longrightarrow> (\<And>u. live E s0 u \<Longrightarrow> yields (tasks_evolve s0) (g u) Q (\<lambda>_. True))
   \<Longrightarrow> yields (tasks_evolve s0) (bindE (writeTaskUpdate E t f) g) Q (\<lambda>_. True)"
  by (rule yields_bindE [OF yields_live])

lemma live_blocked_update:
  "live E s0 t \<Longrightarrow> quiet f
   \<Longrightarrow> yields (tasks_evolve s0) (bindE (writeTaskUpdate E t f) (\<lambda>_. block_and_throw E p e c m)) Q (\<lambda>_. True)"
  by (rule yields_bind_live) (simp_all add: tasks_frame.yields_block_and_throw)

lemma yields_open_registered:
  "live E s0 t \<Longrightarrow> yields (tasks_evolve s0) (open_registered E t p ob rc) (\<lambda>_. True) (\<lambda>_. True)"
  unfolding open_registered_def
  apply (rule yields_bind_frame, intro pres_intros)
  apply (rule yields_bind_live, assumption, simp add: quiet_simps)
  apply (rule yields_bindE [OF yields_catchE [OF yields_ensureRegistered]], assumption)
   apply (rule live_blocked_update, assumption, simp add: quiet_simps)
  apply (intro keeps_yields pres_intros tasks_frame.frame_steps)
  done

lemma yields_create_worktree:
  "live E s0 t \<Longrightarrow> yields (tasks_evolve s0) (create_worktree E git binding t p) (\<lambda>_. True) (\<lambda>_. True)"
  unfolding create_worktree_def
  apply (rule yields_catchE [OF keeps_yields [OF tasks_frame.of_calls(6)]])
  apply (rule yields_bind_frame, intro tasks_frame.frame_steps)
  apply (rule yields_if, rule yields_ret, simp)
  apply (rule yields_Let, rule live_blocked_update, assumption, simp add: quiet_simps)
  done

lemma yields_materialize_task:
  "live E s0 t \<Longrightarrow> yields (tasks_evolve s0) (materialize_task E git binding t p) (\<lambda>_. True) (\<lambda>_. True)"
  unfolding materialize_task_def
  apply (rule yields_bind_frame, intro tasks_frame.frame_steps)
  apply (rule yields_Let, rule yields_if)
   apply (rule live_blocked_update, assumption, simp add: quiet_simps)
  apply (rule yields_bind_frame, intro pres_intros tasks_frame.frame_steps)
  apply (rule yields_bindE [OF yields_if [OF yields_create_worktree]])
    apply (assumption, rule yields_ret, simp)
  apply (erule yields_open_registered)
  done

lemma yields_establish_task:
  assumes "case existing of Some t \<Rightarrow> live E s0 t
     | None \<Rightarrow> (\<forall>t. map_of (rt_tasks s0) (task_key E (oi_task_id i)) \<noteq> Some (Stored t))"
  shows "yields (tasks_evolve s0) (establish_task E i binding existing) (live E s0) (\<lambda>_. True)"
proof (cases existing)
  case None
  have "replaces E s0 (new_task E i binding now)" for now
    using assms None by (simp add: replaces_def new_task_def)
  then show ?thesis
    unfolding establish_task_def None option.case
    by (intro yields_bind_frame tasks_frame.frame_steps yields_conseq [OF yields_writeTask])
      (auto simp: live_def new_task_def sign_task_def)
next
  case (Some t)
  with assms show ?thesis
    unfolding establish_task_def Some option.case
    by (intro yields_bind_frame tasks_frame.frame_steps yields_ret) simp
qed

lemma live_of_open:
  "current_task E s0 t \<Longrightarrow> \<not> isTerminalTask t \<Longrightarrow> live E s0 t"
  by (auto simp: live_def isTerminalTask_def)

lemma yields_open_admitted:
  assumes "case existing of Some t \<Rightarrow> live E s0 t
     | None \<Rightarrow> (\<forall>t. map_of (rt_tasks s0) (task_key E (oi_task_id i)) \<noteq> Some (Stored t))"
  shows "yields (tasks_evolve s0) (open_admitted E i p existing) (\<lambda>_. True) (\<lambda>_. True)"
  unfolding open_admitted_def
  apply (rule yields_bind_frame, intro tasks_frame.frame_steps)
  apply (rule yields_if, rule tasks_frame.yields_block_and_throw)
  apply (rule yields_Let)
  apply (rule yields_bind_frame, intro pres_intros)+
   apply (simp add: ignores_world_def tasks_evolve_def)
  apply (rule yields_bind_frame, intro pres_intros tasks_frame.frame_steps)
  apply (rule yields_bindE [OF yields_establish_task [OF assms]])
  apply (erule yields_materialize_task)
  done

lemma yields_open_replay:
  assumes "case existing of Some t \<Rightarrow> current_task E s0 t | None \<Rightarrow> True"
  shows "yields (tasks_evolve s0) (open_replay E i p existing) (\<lambda>_. True) (\<lambda>_. True)"
proof (cases existing)
  case None
  then show ?thesis
    by (simp add: open_replay_def yields_throw)
next
  case (Some t)
  with assms have t: "current_task E s0 t"
    by simp
  show ?thesis
    unfolding open_replay_def Some option.case
    apply (rule yields_bind_frame, intro tasks_frame.frame_steps)
    apply (rule yields_if, rule yields_ret, simp)
    apply (rule yields_bind_frame, intro tasks_frame.frame_steps)
    apply (rule yields_case_prod)
    apply (rule yields_bind_frame, intro tasks_frame.frame_steps pres_intros)+
    apply (rule yields_bindE [OF yields_ensureRegistered])
     apply (rule live_of_open [OF t], assumption)
    apply (rule yields_ret, simp)
    done
qed

lemma keeps_open_task: "keeps (tasks_evolve s0) (open_task E i)"
  unfolding open_task_def openLocked_def
  apply (rule yields_keeps [where Q = "\<lambda>_. True" and R = "\<lambda>_. True"])
  apply (rule yields_bind_frame, intro pres_intros)
  apply (rule yields_bind_frame, intro tasks_frame.frame_steps)
  apply (rule yields_withLock, (rule tasks_frame.frame_steps)+)+
  apply (rule yields_bind_frame, intro tasks_frame.frame_steps)
  apply (rule yields_bindE [OF yields_readTask])
  apply (rule yields_if)
   apply (rule yields_open_replay, simp split: option.splits)
  apply (rule yields_bind_frame, intro tasks_frame.frame_steps)
  apply (rule yields_bind_frame, intro pres_intros tasks_frame.frame_steps)
  apply (rule yields_if, rule tasks_frame.yields_block_and_throw)
  apply (rule yields_open_admitted)
  apply (auto split: option.splits intro: live_of_open)
  done

lemma yields_bind_guard:
  "(\<not> b \<Longrightarrow> yields P (f ()) Q (\<lambda>_. True)) \<Longrightarrow> yields P (bindE (throw_if b e) f) Q (\<lambda>_. True)"
  by (rule yields_bindE [OF yields_throw_if]) (simp_all add: old.unit.exhaust)

lemma yields_refresh:
  "live E s0 t \<Longrightarrow> yields (tasks_evolve s0) (refreshTaskGitBinding E t) (live E s0) (\<lambda>_. True)"
  unfolding refreshTaskGitBinding_def
  apply (rule yields_bind_frame, intro tasks_frame.frame_steps)
  apply (intro yields_case_prod yields_if yields_ret, assumption)
  apply (rule yields_live, assumption, simp add: quiet_simps)
  done

lemma keeps_runWithExactTaskState:
  assumes act: "\<And>before. keeps (tasks_evolve s0) (action before)"
  shows "keeps (tasks_evolve s0) (runWithExactTaskState E i h tr action)"
  unfolding runWithExactTaskState_def
  apply (rule yields_keeps [where Q = "\<lambda>_. True" and R = "\<lambda>_. True"])
  apply (rule yields_bind_frame, intro tasks_frame.frame_steps)
  apply (rule yields_bind_frame, intro pres_intros)
  apply (rule yields_withLock, (rule tasks_frame.frame_steps)+)
  apply (rule yields_bindE [OF yields_requireTask])
  apply (rule yields_bind_guard)
  apply (rule yields_bind_frame, intro tasks_frame.frame_steps)
  apply (intro yields_case_prod)
  apply (rule yields_bind_guard)
  apply (rule yields_Let)
  subgoal premises p for u v t a head b tree clean
  proof -
    have live: "live E s0 t"
      using p by (auto simp: live_def)
    note refresh = yields_refresh [OF live]
    show ?thesis
      apply (rule yields_bindE [OF yields_catchE [OF keeps_yields [OF act]]])
       apply (rule yields_bindE [OF yields_catchE [where Q = "\<lambda>_. True" and R = "\<lambda>_. True"]])
         apply (rule yields_bindE [OF refresh])
         apply (intro yields_ret TrueI)+
       apply (intro yields_throw TrueI)
      apply (rule yields_bindE [OF refresh])
      apply (intro keeps_yields pres_intros tasks_frame.frame_steps)
      done
  qed
  done

lemma live_of_rehydratable: "current_task E s0 t \<Longrightarrow> isRehydratableTask t \<Longrightarrow> live E s0 t"
  by (simp add: live_def isRehydratableTask_def)

text \<open>What the \<open>try\<close> block of the rehydration throws carries a live task.\<close>

lemma yields_tag_frame:
  "keeps P m \<Longrightarrow> live E s0 t \<Longrightarrow> yields P (tagE t m) (\<lambda>_. True) (\<lambda>et. live E s0 (snd et))"
  by (rule yields_tagE, rule yields_conseq [OF keeps_yields]) simp_all

lemma yields_tag_live:
  "yields P m (live E s0) (\<lambda>_. True) \<Longrightarrow> live E s0 t
   \<Longrightarrow> yields P (tagE t m) (live E s0) (\<lambda>et. live E s0 (snd et))"
  by (rule yields_tagE, erule yields_conseq) simp_all

lemma yields_rehydrate_registered:
  assumes live: "live E s0 t"
  shows "yields (tasks_evolve s0) (rehydrate_registered E acc t) (\<lambda>_. True) (\<lambda>et. live E s0 (snd et))"
  unfolding rehydrate_registered_def
  apply (rule yields_bindE [OF yields_tag_frame [OF tasks_frame.of_bindingForTask live]])
  apply (rule yields_case_prod)
  apply (rule yields_bindE [OF yields_tag_frame [OF tasks_frame.of_calls(4) live]])
  apply (rule yields_if)
   apply (rule yields_bindE [OF yields_tag_live [OF yields_live [OF live] live]])
    apply (simp add: quiet_simps recoveryStateFor_def)
   apply (intro yields_ret TrueI)
  apply (intro yields_case_prod yields_case_option yields_if yields_tag_frame [OF keeps_throw live])
  apply (rule yields_bindE [where Q = "live E s0"])
   apply (intro yields_if yields_ret live yields_tag_live yields_live)
   apply (simp add: quiet_simps)
  apply (rule yields_bindE [OF yields_tag_live [OF yields_ensureRegistered]], assumption+)
  apply (intro yields_ret TrueI)
  done

lemma yields_rehydrate_locked:
  "yields (tasks_evolve s0) (rehydrate_locked E acc i) (\<lambda>_. True) (\<lambda>_. True)"
  unfolding rehydrate_locked_def
  apply (rule yields_bindE [OF yields_requireTask])
  apply (rule yields_if, intro yields_ret TrueI)
  apply (rule yields_catchE [OF yields_rehydrate_registered])
   apply (rule live_of_rehydratable; simp)
  apply (intro yields_case_prod yields_if yields_throw TrueI)
  apply (rule yields_bind_live, simp, simp add: quiet_simps)
  apply (intro yields_ret TrueI)
  done

lemma keeps_rehydrate: "keeps (tasks_evolve s0) (rehydrateOpenTaskRepositories E l)"
  unfolding rehydrateOpenTaskRepositories_def rehydrate_one_def
  by (intro pres_intros tasks_frame.frame_steps yields_keeps [OF yields_rehydrate_locked])

section \<open>Closing and cleaning up\<close>

lemma yields_verify:
  "keeps (tasks_evolve s0) (verifyExpectedTaskState E t h tr)"
  by (rule tasks_frame.of_verifyExpectedTaskState)

lemma closing_not_closed: "current_task E s0 t \<Longrightarrow> t_lifecycle t = CLOSING \<Longrightarrow> t_closed_at t = None"
  by (simp add: current_task_def task_schema_def task_refinement_def)

lemma yields_close_unregister:
  assumes cur: "current_task E s0 t" "t_lifecycle t \<noteq> CLEANED"
    and disp: "t_close_disposition t = None \<or> t_close_disposition t = Some (ci_disposition i)"
  shows "yields (tasks_evolve s0) (close_unregister E i p t) (\<lambda>_. True) (\<lambda>_. True)"
proof -
  define closing where "closing u \<longleftrightarrow> current_task E s0 u \<and> t_lifecycle u = CLOSING
    \<and> t_close_disposition u = Some (ci_disposition i)" for u
  have first: "yields (tasks_evolve s0) (writeTaskUpdate E t (\<lambda>t. t
       \<lparr>t_lifecycle := CLOSING, t_registration_state := REG_UNKNOWN,
        t_close_disposition := Some (ci_disposition i), t_close_reason := ci_reason i\<rparr>)) closing (\<lambda>_. True)"
    using cur disp
    by (intro yields_conseq [OF yields_writeTaskUpdate]) (auto simp: closing_def updated_def task_follows_def)
  have fail: "yields (tasks_evolve s0) (bindE (writeTaskUpdate E u (\<lambda>t. t
         \<lparr>t_lifecycle := RECOVERY_REQUIRED, t_registration_state := REG_UNKNOWN\<rparr>)) (\<lambda>_.
       block_and_throw E p EFF_UNKNOWN ''REGISTRAR_UNREGISTER_FAILED'' m)) Q (\<lambda>_. True)"
    if "closing u" for u m and Q :: "unit \<Rightarrow> bool"
    using that by (intro yields_blocked_update) (auto simp: closing_def quiet_simps)
  have second: "yields (tasks_evolve s0) (writeTaskUpdate E u (\<lambda>t. t
       \<lparr>t_lifecycle := CLOSED, t_registration_state := UNREGISTERED,
        t_close_disposition := Some (ci_disposition i), t_closed_at := Some c\<rparr>)) (\<lambda>_. True) (\<lambda>_. True)"
    if "closing u" for u c
    using that closing_not_closed [of E s0 u]
    by (intro yields_conseq [OF yields_writeTaskUpdate]) (auto simp: closing_def task_follows_def)
  show ?thesis
    unfolding close_unregister_def
    apply (rule yields_bindE [OF first])
    apply (rule yields_bindE [OF yields_catchE [OF keeps_yields [OF tasks_frame.of_calls(3)]]], erule fail)
    apply (rule yields_bind_frame, intro tasks_frame.frame_steps)
    apply (rule yields_bindE [OF second], assumption)
    apply (intro keeps_yields pres_intros tasks_frame.frame_steps)
    done
qed

lemma yields_close_live:
  assumes cur: "current_task E s0 t" "\<not> terminal_lifecycle (t_lifecycle t)"
    and disp: "t_close_disposition t = None \<or> t_close_disposition t = Some (ci_disposition i)"
  shows "yields (tasks_evolve s0) (close_live E i p t) (\<lambda>_. True) (\<lambda>_. True)"
proof -
  define open_for where "open_for u \<longleftrightarrow> current_task E s0 u \<and> t_lifecycle u = t_lifecycle t
    \<and> t_close_disposition u = t_close_disposition t" for u
  have nc: "t_lifecycle t \<noteq> CLEANED"
    using cur by (auto simp: terminal_lifecycle_def)
  have "yields (tasks_evolve s0) (writeTaskUpdate E t (\<lambda>t. t\<lparr>t_worktree_head := h, t_worktree_tree := tr\<rparr>))
      open_for (\<lambda>_. True)" for h tr
    using cur nc by (intro yields_conseq [OF yields_quiet]) (auto simp: open_for_def quiet_simps)
  then have upd: "yields (tasks_evolve s0) (case v of
         Some v \<Rightarrow> writeTaskUpdate E t (\<lambda>t. t\<lparr>t_worktree_head := Some (s_head v), t_worktree_tree := Some (s_tree v)\<rparr>)
       | None \<Rightarrow> ret t) open_for (\<lambda>_. True)" for v :: "worktree_status option"
    using cur by (intro yields_case_option yields_ret) (auto simp: open_for_def)
  show ?thesis
    unfolding close_live_def
    apply (rule yields_bind_frame, intro pres_intros)
    apply (rule yields_bind_frame, intro tasks_frame.frame_steps)
    apply (rule yields_bindE [OF upd])
    apply (rule yields_bind_frame, intro tasks_frame.frame_steps)
    apply (rule yields_bind_frame, intro pres_intros tasks_frame.frame_steps)
    apply (rule yields_close_unregister)
    using nc disp by (auto simp: open_for_def)
qed

lemma keeps_close_task: "keeps (tasks_evolve s0) (close_task E i)"
  unfolding close_task_def closeLocked_def
  apply (rule yields_keeps [where Q = "\<lambda>_. True" and R = "\<lambda>_. True"])
  apply (rule yields_bind_frame, intro pres_intros)
  apply (rule yields_bind_frame, intro tasks_frame.frame_steps)
  apply (rule yields_withLock, (rule tasks_frame.frame_steps)+)
  apply (rule yields_bind_frame, intro tasks_frame.frame_steps)
  apply (rule yields_if, intro keeps_yields pres_intros tasks_frame.frame_steps)
  apply (rule yields_bind_frame, intro tasks_frame.frame_steps)
  apply (rule yields_bindE [OF yields_requireTask])
  apply (rule yields_bind_guard)
  apply (rule yields_if)
   apply (unfold close_terminal_def)
   apply (intro keeps_yields pres_intros tasks_frame.frame_steps)
  apply (rule yields_close_live)
    apply auto
  done

lemma tasks_git_remove: "keeps (tasks_evolve s0) (git_remove git b)"
  by (rule keeps_git_remove) (simp_all add: ignores_world_def tasks_evolve_def)

lemma yields_cleanup_remove:
  assumes "current_task E s0 t" "t_lifecycle t = CLEANUP_STARTED"
  shows "yields (tasks_evolve s0) (cleanup_remove E git binding p t)
     (\<lambda>(u, ob). current_task E s0 u \<and> t_lifecycle u = CLEANUP_STARTED) (\<lambda>_. True)"
  unfolding cleanup_remove_def
  apply (rule yields_bind_frame, intro tasks_frame.frame_steps)
  apply (rule yields_if)
   apply (rule yields_blocked_update)
  subgoal using assms by simp
  subgoal using assms by simp
  subgoal by (simp add: quiet_simps)
  apply (rule yields_bindE [OF yields_quiet])
  subgoal using assms by simp
  subgoal using assms by simp
  subgoal by (simp add: quiet_simps)
  apply (rule yields_bind_frame, intro tasks_frame.frame_steps tasks_git_remove)+
  apply (rule yields_ret)
  using assms by simp

lemma yields_cleanup_finish:
  assumes cur: "current_task E s0 t" "t_lifecycle t = CLEANUP_STARTED"
  shows "yields (tasks_evolve s0) (cleanup_finish E git binding p t ob) (\<lambda>_. True) (\<lambda>_. True)"
proof -
  have nc: "t_lifecycle t \<noteq> CLEANED"
    using cur by simp
  have quiet: "quiet (\<lambda>t. t\<lparr>t_lifecycle := RECOVERY_REQUIRED, t_worktree_state := WT_PARTIAL\<rparr>)"
    "quiet (\<lambda>t. t\<lparr>t_lifecycle := RECOVERY_REQUIRED, t_worktree_state := WT_ABSENT, t_branch_state := BR_UNKNOWN\<rparr>)"
    by (simp_all add: quiet_simps)
  have branch: "yields (tasks_evolve s0) (cleanup_branch E git binding p t ob) (\<lambda>_. True) (\<lambda>_. True)"
    unfolding cleanup_branch_def
    by (auto split: option.split list.split
      intro!: yields_ret yields_blocked_update [OF cur(1) nc quiet(2)] keeps_yields pres_intros tasks_frame.frame_steps)
  have final: "yields (tasks_evolve s0) (writeTaskUpdate E t (\<lambda>t. t
          \<lparr>t_lifecycle := CLEANED, t_worktree_state := WT_ABSENT, t_branch_state := bs,
           t_registration_state := UNREGISTERED, t_cleanup_note := cn t\<rparr>)) (\<lambda>_. True) (\<lambda>_. True)" for bs cn
    using cur by (intro yields_conseq [OF yields_writeTaskUpdate]) (auto simp: task_follows_def)
  show ?thesis
    unfolding cleanup_finish_def
    apply (rule yields_if, rule yields_blocked_update [OF cur(1) nc quiet(1)])
    apply (rule yields_bindE [OF branch], rule yields_case_prod)
    apply (rule yields_bindE [OF final])
    apply (intro keeps_yields pres_intros tasks_frame.frame_steps)
    done
qed

lemma yields_cleanup_closed:
  assumes cur: "current_task E s0 t" "t_lifecycle t \<noteq> CLEANED"
  shows "yields (tasks_evolve s0) (cleanup_closed E i p t) (\<lambda>_. True) (\<lambda>_. True)"
  unfolding cleanup_closed_def
  apply (rule yields_bind_frame, intro pres_intros tasks_frame.frame_steps)+
  apply (rule yields_case_prod)
  apply (rule yields_bind_frame, intro pres_intros tasks_frame.frame_steps)
  apply (rule yields_if, rule yields_blocked_update [OF cur], simp add: quiet_simps)
  apply (rule yields_bind_frame, intro pres_intros tasks_frame.frame_steps)
  apply (rule yields_bindE [OF yields_quiet [OF cur]], simp add: quiet_simps)
  apply (rule yields_bindE [OF yields_if [OF yields_cleanup_remove]])
     apply (simp, simp, rule yields_ret, simp)
  apply (rule yields_case_prod, rule yields_cleanup_finish, simp_all)
  done

lemma keeps_cleanup_task: "keeps (tasks_evolve s0) (cleanup_task E i)"
  unfolding cleanup_task_def cleanupLocked_def
  apply (rule yields_keeps [where Q = "\<lambda>_. True" and R = "\<lambda>_. True"])
  apply (rule yields_bind_frame, intro pres_intros)
  apply (rule yields_bind_frame, intro tasks_frame.frame_steps)
  apply (rule yields_withLock, (rule tasks_frame.frame_steps)+)
  apply (rule yields_bind_frame, intro tasks_frame.frame_steps)
  apply (rule yields_if, intro keeps_yields pres_intros tasks_frame.frame_steps)
  apply (rule yields_bind_frame, intro tasks_frame.frame_steps)
  apply (rule yields_bindE [OF yields_requireTask])
  apply (rule yields_if, intro keeps_yields pres_intros tasks_frame.frame_steps)
  apply (rule yields_cleanup_closed, simp_all)
  done

end
