(* ===== verification/Task_Safety.thy ===== *)
theory Task_Safety
  imports Task_History
begin

text \<open>
  Properties of the task runtime service over any sequence of requests: records stay valid,
  operations only move forward, tasks keep their identity and their close outcome; replays of
  settled operations change nothing. A small concrete environment serves the witnesses.
\<close>

section \<open>Sequences of requests\<close>

datatype task_request =
    Req_Open task_open_input
  | Req_Status string
  | Req_Rehydrate "int option"
  | Req_Close task_close_input
  | Req_Cleanup task_cleanup_input

fun handle :: "'w rt_env \<Rightarrow> task_request \<Rightarrow> 'w rt_state \<Rightarrow> 'w rt_state" where
  "handle E (Req_Open i) s = snd (open_task E i s)"
| "handle E (Req_Status i) s = snd (task_status E i s)"
| "handle E (Req_Rehydrate l) s = snd (rehydrateOpenTaskRepositories E l s)"
| "handle E (Req_Close i) s = snd (close_task E i s)"
| "handle E (Req_Cleanup i) s = snd (cleanup_task E i s)"

definition serve :: "'w rt_env \<Rightarrow> task_request list \<Rightarrow> 'w rt_state \<Rightarrow> 'w rt_state" where
  "serve E requests s = fold (handle E) requests s"

lemma serve_invariant:
  assumes "\<And>q t. P t \<Longrightarrow> P (handle E q t)" "P s"
  shows "P (serve E requests s)"
  using assms(2) unfolding serve_def by (induction requests arbitrary: s) (simp_all add: assms(1))

lemma handle_keeps:
  assumes "\<And>i. keeps P (open_task E i)" "\<And>i. keeps P (task_status E i)"
    "\<And>l. keeps P (rehydrateOpenTaskRepositories E l)" "\<And>i. keeps P (close_task E i)" "\<And>i. keeps P (cleanup_task E i)"
    "P s"
  shows "P (handle E q s)"
  by (cases q) (simp_all add: assms keepsD)

section \<open>A concrete environment\<close>

text \<open>A constant hash of 64 hexadecimal digits, and a world that answers every question with
  success; the world says whether the worktree is there and whether it is clean.\<close>

definition demo_hash :: "string \<Rightarrow> string" where
  "demo_hash s = replicate 64 (CHR ''0'')"

definition demo_observation :: "observation_disposition \<Rightarrow> worktree_observation" where
  "demo_observation d =
     \<lparr>w_disposition = d, w_path_present = (d \<noteq> ABSENT), w_registered = (d \<noteq> ABSENT), w_branch_present = (d \<noteq> ABSENT),
      w_observed_head = Some (replicate 40 (CHR ''a'')), w_observed_tree = Some (replicate 40 (CHR ''b'')),
      w_observed_branch = None\<rparr>"

definition demo_worktrees :: "string \<Rightarrow> (bool \<times> bool) worktree_ops" where
  "demo_worktrees root =
     \<lparr>wo_binding = (\<lambda>i. Inr \<lparr>bi_task_id = bi_task_id i, bi_owner_root = bi_owner_root i, bi_base_branch = bi_base_branch i,
         bi_base_commit = bi_base_commit i, bi_base_tree = bi_base_tree i, bi_branch_slug = bi_branch_slug i,
         b_server_branch = ''chat-pro/tasks/s-000000000000'', b_worktree_path = ''/w/s-000000000000''\<rparr>),
      wo_verify_base = (\<lambda>_ w. (Inr (), w)), wo_verify_base_clean = (\<lambda>_ w. (Inr (), w)),
      wo_inspect = (\<lambda>_ w. (Inr (demo_observation (if fst w then EXACT else ABSENT)), w)),
      wo_create = (\<lambda>_ w. (Inr (demo_observation EXACT), (True, snd w))),
      wo_status = (\<lambda>_ w. (Inr \<lparr>s_clean = snd w, s_porcelain_z = [], s_changed_entry_count = 0,
         s_head = replicate 40 (CHR ''a''), s_tree = replicate 40 (CHR ''b''), s_branch = ''s''\<rparr>, w)),
      wo_remove = (\<lambda>_ w. (Inr (), (False, snd w))),
      wo_delete_branch = (\<lambda>_ _ w. (Inr (True, Deleted), w))\<rparr>"

definition demo_env :: "(bool \<times> bool) rt_env" where
  "demo_env =
     \<lparr>re_sha256 = demo_hash, re_datetime = (\<lambda>s. s = ''T''), re_compare = (\<lambda>_ _. 0), re_message = (\<lambda>_. ''failed''),
      re_now = (\<lambda>w. (''T'', w)), re_write_fault = (\<lambda>w. (Write_Ok, w)), re_read_fault = (\<lambda>w. (Read_Ok, w)),
      re_ensure_directory = (\<lambda>_ w. (Inr (), w)), re_lock = (\<lambda>_ w. (Inr (), w)), re_unlock = (\<lambda>_ w. (Inr (), w)),
      re_get_base = (\<lambda>i w. (Inr \<lparr>br_repo_id = i, br_root = ''/r'', br_worktree_root = ''/w'',
         br_require_clean_base = None, br_max_concurrent_tasks = Some 1\<rparr>, w)),
      re_worktrees = demo_worktrees, re_register = (\<lambda>_ w. (Inr (), w)), re_unregister = (\<lambda>_ w. (Inr (), w))\<rparr>"

definition demo_state :: "(bool \<times> bool) rt_state" where
  "demo_state = \<lparr>rt_tasks = [], rt_ops = [], rt_trace = [], rt_world = (False, True)\<rparr>"

definition demo_open :: task_open_input where
  "demo_open = \<lparr>oi_operation_id = ''op'', oi_task_id = ''t'', oi_base_repo_id = ''r'', oi_base_branch = ''main'',
     oi_base_commit = replicate 40 (CHR ''a''), oi_base_tree = replicate 40 (CHR ''b''), oi_authority = Implement,
     oi_goal = ''g'', oi_branch_slug = ''s''\<rparr>"

definition demo_close :: "string \<Rightarrow> close_disposition \<Rightarrow> task_close_input" where
  "demo_close operation_id d = \<lparr>ci_operation_id = operation_id, ci_task_id = ''t'', ci_expected_head = None,
     ci_expected_tree = None, ci_disposition = d, ci_reason = None\<rparr>"

definition demo_cleanup :: "string \<Rightarrow> task_cleanup_input" where
  "demo_cleanup operation_id = \<lparr>li_operation_id = operation_id, li_task_id = ''t'', li_expected_head = None,
     li_expected_tree = None, li_cleanup_scope = Workspace_Only\<rparr>"

definition demo_operation :: "operation_kind \<Rightarrow> op_phase \<Rightarrow> operation_state" where
  "demo_operation kind phase =
     \<lparr>o_task_id = ''t'', o_operation_id = ''op'', o_kind = kind, o_request_sha256 = replicate 64 (CHR ''0''),
      o_phase = phase, o_effect_state = EFF_PRESENT, o_revision = 3, o_created_at = ''T'', o_updated_at = ''T'',
      o_completed_at = Some ''T'', o_result_repo_id = None, o_error_code = None, o_error_message = None,
      o_state_sha256 = replicate 64 (CHR ''0'')\<rparr>"

definition demo_task :: "task_lifecycle \<Rightarrow> close_disposition option \<Rightarrow> string option \<Rightarrow> task_state" where
  "demo_task lifecycle disposition closed =
     \<lparr>t_task_id = ''t'', t_repo_id = ''task-'' @ replicate 40 (CHR ''0''), t_base_repo_id = ''r'', t_base_branch = ''main'',
      t_base_commit = replicate 40 (CHR ''a''), t_base_tree = replicate 40 (CHR ''b''), t_authority = Implement,
      t_goal = ''g'', t_branch_slug = ''s'', t_server_branch = ''chat-pro/tasks/s-000000000000'',
      t_worktree_path = ''/w/s-000000000000'', t_lifecycle = lifecycle, t_worktree_state = WT_PRESENT,
      t_branch_state = BR_PRESENT, t_worktree_head = Some (replicate 40 (CHR ''a'')),
      t_worktree_tree = Some (replicate 40 (CHR ''b'')), t_registration_state = REGISTERED,
      t_close_disposition = disposition, t_closed_at = closed, t_close_reason = None, t_cleanup_note = None,
      t_revision = 5, t_created_at = ''T'', t_updated_at = ''T'', t_state_sha256 = replicate 64 (CHR ''0'')\<rparr>"

definition demo_disk :: "task_state list \<Rightarrow> operation_state list \<Rightarrow> (bool \<times> bool) rt_state" where
  "demo_disk tasks operations =
     \<lparr>rt_tasks = map (\<lambda>t. (task_key demo_env (t_task_id t), Stored t)) tasks,
      rt_ops = map (\<lambda>p. (operation_key demo_env (o_task_id p) (o_operation_id p), Stored p)) operations,
      rt_trace = [], rt_world = (True, True)\<rparr>"

section \<open>Over any sequence of requests\<close>

text \<open>C4 (operations only move forward). Whatever sequence of open, status, rehydrate, close and
  cleanup requests is served, and however the world answers (failing reads and writes, locks,
  Git and registrar included), a record of an operation that was on disk is still there
  afterwards, with the same kind and the same request digest, no older revision, and a phase
  that the transition table reaches in at most six moves from the one it had: an operation id
  is never rebound to another request, and a settled operation never moves again.\<close>

theorem operations_move_forward:
  assumes "map_of (rt_ops s) key = Some (Stored p)"
  shows "\<exists>q phases. map_of (rt_ops (serve E requests s)) key = Some (Stored q)
     \<and> o_kind q = o_kind p \<and> o_request_sha256 q = o_request_sha256 p \<and> o_revision p \<le> o_revision q
     \<and> op_table.path (o_phase p) phases (o_phase q) \<and> length phases \<le> 6
     \<and> (settled_operation (o_phase p) \<longrightarrow> o_phase q = o_phase p)"
proof -
  have "operations_evolve s (serve E requests s)"
    by (rule serve_invariant [where P = "operations_evolve s"], rule handle_keeps [where P = "operations_evolve s"])
      (simp_all add: evolves.of_open evolves.of_status evolves.of_rehydrate evolves.of_close evolves_cleanup
        operations_evolve_refl)
  with assms obtain q phases where q: "map_of (rt_ops (serve E requests s)) key = Some (Stored q)"
      "o_kind q = o_kind p" "o_request_sha256 q = o_request_sha256 p" "o_revision p \<le> o_revision q"
    and path: "op_table.path (o_phase p) phases (o_phase q)"
    unfolding operations_evolve_def operation_follows_def by blast
  have "settled_operation (o_phase p) \<longrightarrow> o_phase q = o_phase p"
    using op_table.settled_path [OF _ path] by blast
  with q path op_table.path_bounded [OF path] show ?thesis
    by blast
qed

theorem operations_move_forward_witness:
  "\<exists>q phases. map_of (rt_ops (serve demo_env [Req_Close (demo_close ''op'' Completed), Req_Open demo_open]
       (demo_disk [] [demo_operation KIND_CLOSE LOCAL_MUTATION_COMPLETE])))
     (operation_key demo_env ''t'' ''op'') = Some (Stored q)
     \<and> o_kind q = KIND_CLOSE \<and> o_request_sha256 q = replicate 64 (CHR ''0'') \<and> 3 \<le> o_revision q
     \<and> op_table.path LOCAL_MUTATION_COMPLETE phases (o_phase q) \<and> length phases \<le> 6
     \<and> (settled_operation LOCAL_MUTATION_COMPLETE \<longrightarrow> o_phase q = LOCAL_MUTATION_COMPLETE)"
  using operations_move_forward [of "demo_disk [] [demo_operation KIND_CLOSE LOCAL_MUTATION_COMPLETE]"
      "operation_key demo_env ''t'' ''op''" "demo_operation KIND_CLOSE LOCAL_MUTATION_COMPLETE" demo_env
      "[Req_Close (demo_close ''op'' Completed), Req_Open demo_open]"]
  by (simp add: demo_disk_def demo_operation_def)

text \<open>C11 (a task keeps its identity and its outcome). Over any sequence of requests, the record
  of a task stays, with the same repository, base, authority, goal, branch and worktree path,
  and no older revision; a close disposition and a time of closing are never replaced or
  erased, and a cleaned task stays cleaned.\<close>

theorem task_outcome_write_once:
  assumes "map_of (rt_tasks s) key = Some (Stored t)"
  shows "\<exists>u. map_of (rt_tasks (serve E requests s)) key = Some (Stored u)
     \<and> t_task_id u = t_task_id t \<and> t_repo_id u = t_repo_id t
     \<and> t_base_repo_id u = t_base_repo_id t \<and> t_base_branch u = t_base_branch t
     \<and> t_base_commit u = t_base_commit t \<and> t_base_tree u = t_base_tree t
     \<and> t_authority u = t_authority t \<and> t_goal u = t_goal t \<and> t_branch_slug u = t_branch_slug t
     \<and> t_server_branch u = t_server_branch t \<and> t_worktree_path u = t_worktree_path t
     \<and> t_created_at u = t_created_at t \<and> t_revision t \<le> t_revision u
     \<and> (\<forall>d. t_close_disposition t = Some d \<longrightarrow> t_close_disposition u = Some d)
     \<and> (\<forall>c. t_closed_at t = Some c \<longrightarrow> t_closed_at u = Some c)
     \<and> (t_lifecycle t = CLEANED \<longrightarrow> t_lifecycle u = CLEANED)"
proof -
  have "tasks_evolve s (serve E requests s)"
    by (rule serve_invariant [where P = "tasks_evolve s"], rule handle_keeps [where P = "tasks_evolve s"])
      (simp_all add: keeps_open_task tasks_frame.of_status keeps_rehydrate keeps_close_task keeps_cleanup_task
        tasks_evolve_refl)
  with assms show ?thesis
    by (simp add: tasks_evolve_def task_follows_def)
qed

theorem task_outcome_write_once_witness:
  "\<exists>u. map_of (rt_tasks (serve demo_env [Req_Cleanup (demo_cleanup ''op''), Req_Close (demo_close ''c'' Abandoned)]
       (demo_disk [demo_task CLOSED (Some Completed) (Some ''T'')] []))) (task_key demo_env ''t'') = Some (Stored u)
     \<and> t_task_id u = ''t'' \<and> t_authority u = Implement \<and> 5 \<le> t_revision u
     \<and> t_close_disposition u = Some Completed \<and> t_closed_at u = Some ''T''"
  using task_outcome_write_once [of "demo_disk [demo_task CLOSED (Some Completed) (Some ''T'')] []"
      "task_key demo_env ''t''" "demo_task CLOSED (Some Completed) (Some ''T'')" demo_env
      "[Req_Cleanup (demo_cleanup ''op''), Req_Close (demo_close ''c'' Abandoned)]"]
  by (fastforce simp: demo_disk_def demo_task_def)

text \<open>C28 (durable records are valid). If every record on disk satisfies its schema, its digest
  and its file name, so does every record after any sequence of requests, also when handlers
  fail half way.\<close>

theorem records_stay_valid:
  assumes "records_valid E s"
  shows "records_valid E (serve E requests s)"
  by (rule serve_invariant [where P = "records_valid E"], rule handle_keeps [where P = "records_valid E"])
    (simp_all add: valid.of_open valid.of_status valid.of_rehydrate valid.of_close valid_cleanup assms)

theorem records_stay_valid_witness:
  "records_valid demo_env (serve demo_env [Req_Open demo_open, Req_Close (demo_close ''c'' Completed)] demo_state)"
  by (rule records_stay_valid) (simp add: records_valid_def demo_state_def)

end
