(* ===== verification/Task_Outcomes.thy ===== *)
theory Task_Outcomes
  imports Task_Safety
begin

text \<open>
  What single requests to the task runtime service do: replays of settled and of blocked
  operations, the removal of worktrees, the concurrency limit, what a successful open has
  established, the state an action runs on, and a close that cannot finish.
\<close>

section \<open>Requests that leave the disk alone\<close>

definition same_disk :: "('w, 'z) rt_state_scheme \<Rightarrow> ('w, 'z) rt_state_scheme \<Rightarrow> bool" where
  "same_disk s u \<longleftrightarrow> rt_tasks u = rt_tasks s \<and> rt_ops u = rt_ops s \<and> rt_trace u = rt_trace s"

lemma same_disk_world: "ignores_world (same_disk s)"
  by (simp add: ignores_world_def same_disk_def)

lemmas same_disk_steps = keeps_worldE [OF same_disk_world] keeps_askE [OF same_disk_world]
  keeps_readFile [OF same_disk_world] keeps_withLock [OF same_disk_world]

lemma same_disk_initialize: "keeps (same_disk s) (initialize E)"
  unfolding initialize_def by (intro pres_intros same_disk_steps)

lemma same_disk_readTask:
  "yields (same_disk s) (readTask E i)
     (\<lambda>r. case r of Some t \<Rightarrow> map_of (rt_tasks s) (task_key E i) = Some (Stored t) \<and> verified_task E i t
        | None \<Rightarrow> map_of (rt_tasks s) (task_key E i) = None) (\<lambda>_. True)"
  by (rule yieldsI, rule wp_readTask) (simp_all add: same_disk_def)


lemma same_disk_ensureOperation:
  assumes "map_of (rt_ops s) (operation_key E i j) = Some (Stored p)"
  shows "yields (same_disk s) (ensureOperation E k i j req) (\<lambda>q. q = p \<and> o_kind p = k
     \<and> o_request_sha256 p = sha256Json (re_sha256 E) (operation_request k req)) (\<lambda>_. True)"
proof -
  have "yields (same_disk s) (readOperation E i j) (\<lambda>r. r = Some p) (\<lambda>_. True)"
    by (rule yieldsI, rule wp_readOperation) (use assms in \<open>simp_all add: same_disk_def\<close>)
  then show ?thesis
    unfolding ensureOperation_def Let_def
    by (rule yields_bindE) (auto intro!: yield_intros yields_bind_guard)
qed

lemma yields_unlocked:
  "yields (same_disk s) m Q (\<lambda>_. True) \<Longrightarrow> yields (same_disk s) (withLock E l m) Q (\<lambda>_. True)"
  by (rule yields_withLock) (rule same_disk_steps)+

section \<open>No operation is blindly replayed\<close>

text \<open>The operation ended, or may have ended, outside what the service can tell.\<close>

definition must_not_replay :: "operation_state \<Rightarrow> bool" where
  "must_not_replay p \<longleftrightarrow> no_replay_phase (o_phase p)
     \<or> (o_phase p \<noteq> LOCAL_MUTATION_COMPLETE \<and> o_effect_state p \<in> {EFF_PARTIAL, EFF_UNKNOWN})"

definition refuses :: "('w, 'z, 'a) rt \<Rightarrow> ('w, 'z) rt_state_scheme \<Rightarrow> bool" where
  "refuses m s \<longleftrightarrow> (\<exists>e t. m s = (Inl e, t) \<and> rt_tasks t = rt_tasks s \<and> rt_ops t = rt_ops s \<and> rt_trace t = rt_trace s)"

lemma refusesI:
  assumes "yields (same_disk s) m (\<lambda>_. False) (\<lambda>_. True)"
  shows "refuses m s"
proof -
  have "wp m (\<lambda>x t. same_disk s t \<and> False) (\<lambda>e t. same_disk s t \<and> True) s"
    using assms by (simp add: yields_def same_disk_def)
  then show ?thesis
    by (cases "m s"; cases "fst (m s)") (auto simp: wp_def refuses_def same_disk_def)
qed

lemma must_not_replay_phase: "must_not_replay p \<Longrightarrow> o_phase p \<noteq> LOCAL_MUTATION_COMPLETE"
  by (auto simp: must_not_replay_def no_replay_phase_def)

lemma must_not_replay_reject: "must_not_replay p \<Longrightarrow> rejectNoReplay p = throw (blocked p)"
  by (auto simp: must_not_replay_def rejectNoReplay_def throw_if_def)

lemma yields_reject:
  "must_not_replay p \<Longrightarrow> yields P (bindE (rejectNoReplay p) f) Q (\<lambda>_. True)"
  by (simp add: must_not_replay_reject) (rule yields_bindE [where Q = "\<lambda>_. False"], simp_all add: yields_throw)

lemma same_disk_prefix:
  assumes "keeps (same_disk s) (initialize E)"
    and "yields (same_disk s) m Q (\<lambda>_. True)"
  shows "yields (same_disk s) (bindE (throw_if b e) (\<lambda>_. bindE (initialize E) (\<lambda>_. m))) Q (\<lambda>_. True)"
  by (rule yields_bind_guard, rule yields_bindE [OF keeps_yields [OF assms(1)]], rule assms(2))

text \<open>C16 (no blind replay). When the operation on disk is in a phase that must not be replayed, or
  its effect is partial or unknown, then open, close and cleanup requests under its id are
  refused with an error: no record on disk changes, and no call is made to Git or to the
  registrar.\<close>

theorem no_blind_replay:
  assumes "map_of (rt_ops s) (operation_key E task_id operation_id) = Some (Stored p)"
    and "no_replay_phase (o_phase p)
      \<or> (o_phase p \<noteq> LOCAL_MUTATION_COMPLETE \<and> o_effect_state p \<in> {EFF_PARTIAL, EFF_UNKNOWN})"
  shows "(\<forall>i. oi_task_id i = task_id \<and> oi_operation_id i = operation_id \<longrightarrow> refuses (open_task E i) s)
    \<and> (\<forall>i. ci_task_id i = task_id \<and> ci_operation_id i = operation_id \<longrightarrow> refuses (close_task E i) s)
    \<and> (\<forall>i. li_task_id i = task_id \<and> li_operation_id i = operation_id \<longrightarrow> refuses (cleanup_task E i) s)"
proof -
  have p: "must_not_replay p"
    using assms(2) by (simp add: must_not_replay_def)
  note ensure = yields_bindE [OF same_disk_ensureOperation [OF assms(1)]]
  note prefix = same_disk_prefix [OF same_disk_initialize]
  have "yields (same_disk s) (open_task E i) (\<lambda>_. False) (\<lambda>_. True)"
    if "oi_task_id i = task_id" "oi_operation_id i = operation_id" for i
    unfolding open_task_def openLocked_def that
    apply (rule prefix, rule yields_unlocked, rule yields_unlocked, rule ensure)
    apply (rule yields_bindE [OF same_disk_readTask])
    using p by (auto simp: must_not_replay_phase intro: yields_reject)
  moreover have "yields (same_disk s) (close_task E i) (\<lambda>_. False) (\<lambda>_. True)"
    if "ci_task_id i = task_id" "ci_operation_id i = operation_id" for i
    unfolding close_task_def closeLocked_def that
    apply (rule prefix, rule yields_unlocked, rule ensure)
    using p by (auto simp: must_not_replay_phase intro: yields_reject)
  moreover have "yields (same_disk s) (cleanup_task E i) (\<lambda>_. False) (\<lambda>_. True)"
    if "li_task_id i = task_id" "li_operation_id i = operation_id" for i
    unfolding cleanup_task_def cleanupLocked_def that
    apply (rule prefix, rule yields_unlocked, rule ensure)
    using p by (auto simp: must_not_replay_phase intro: yields_reject)
  ultimately show ?thesis
    by (blast intro: refusesI)
qed

theorem no_blind_replay_witness:
  "refuses (open_task demo_env demo_open) (demo_disk [] [demo_operation KIND_OPEN BLOCKED])
   \<and> refuses (close_task demo_env (demo_close ''op'' Completed)) (demo_disk [] [demo_operation KIND_OPEN BLOCKED])"
  using no_blind_replay [of "demo_disk [] [demo_operation KIND_OPEN BLOCKED]" demo_env "''t''" "''op''"
      "demo_operation KIND_OPEN BLOCKED"]
  by (simp add: demo_disk_def demo_operation_def demo_open_def demo_close_def no_replay_phase_def)



section \<open>Only clean worktrees are removed\<close>

definition removals_justified :: "task_call list \<Rightarrow> bool" where
  "removals_justified calls \<longleftrightarrow>
     (\<forall>before b after. calls = before @ Call_Remove b # after \<longrightarrow> before \<noteq> [] \<and> last before = Saw_Status b True)"

lemma removals_justified_Nil [simp]: "removals_justified []"
  by (simp add: removals_justified_def)

lemma removals_justified_snoc:
  "removals_justified (calls @ [c]) \<longleftrightarrow>
     removals_justified calls \<and> (\<forall>b. c = Call_Remove b \<longrightarrow> calls \<noteq> [] \<and> last calls = Saw_Status b True)"
proof
  assume A: "removals_justified (calls @ [c])"
  have "before \<noteq> [] \<and> last before = Saw_Status b True" if "calls = before @ Call_Remove b # after" for before b after
    using A that unfolding removals_justified_def by (metis append.assoc append_Cons)
  moreover have "calls \<noteq> [] \<and> last calls = Saw_Status b True" if "c = Call_Remove b" for b
    using A that unfolding removals_justified_def by blast
  ultimately show "removals_justified calls \<and> (\<forall>b. c = Call_Remove b \<longrightarrow> calls \<noteq> [] \<and> last calls = Saw_Status b True)"
    unfolding removals_justified_def by blast
next
  assume A: "removals_justified calls \<and> (\<forall>b. c = Call_Remove b \<longrightarrow> calls \<noteq> [] \<and> last calls = Saw_Status b True)"
  show "removals_justified (calls @ [c])"
    unfolding removals_justified_def
  proof (intro allI impI)
    fix before b after assume E: "calls @ [c] = before @ Call_Remove b # after"
    show "before \<noteq> [] \<and> last before = Saw_Status b True"
    proof (cases after rule: rev_cases)
      case Nil
      with E A show ?thesis by simp
    next
      case (snoc rest d)
      with E have "calls = before @ Call_Remove b # rest" by simp
      with A show ?thesis unfolding removals_justified_def by blast
    qed
  qed
qed

definition trace_justified :: "('w, 'z) rt_state_scheme \<Rightarrow> bool" where
  "trace_justified s \<longleftrightarrow> removals_justified (rt_trace s)"

definition saw_clean :: "git_task_binding \<Rightarrow> ('w, 'z) rt_state_scheme \<Rightarrow> bool" where
  "saw_clean b s \<longleftrightarrow> trace_justified s \<and> rt_trace s \<noteq> [] \<and> last (rt_trace s) = Saw_Status b True"

lemma keeps_recordE_justified:
  "(\<And>b. c \<noteq> Call_Remove b) \<Longrightarrow> keeps trace_justified (recordE c)"
  by (simp add: keeps_def recordE_def modifyE_def trace_justified_def removals_justified_snoc)

interpretation justified: service_invariant E "trace_justified :: ('w, 'z) rt_state_scheme \<Rightarrow> bool"
  for E :: "'w rt_env"
proof unfold_locales
  show "ignores_world (trace_justified :: ('w, 'z) rt_state_scheme \<Rightarrow> bool)"
    by (simp add: ignores_world_def trace_justified_def)
  show "keeps (trace_justified :: ('w, 'z) rt_state_scheme \<Rightarrow> bool) (recordE c)" if "\<And>b. c \<noteq> Call_Remove b" for c
    using that by (rule keeps_recordE_justified)
  show "keeps (trace_justified :: ('w, 'z) rt_state_scheme \<Rightarrow> bool) (writeOperation E p)" for p
    by (rule keeps_wpI, rule wp_writeOperation) (simp_all add: trace_justified_def store_operation_def)
  show "keeps (trace_justified :: ('w, 'z) rt_state_scheme \<Rightarrow> bool) (writeTask E t)" for t
    by (rule keeps_wpI, rule wp_writeTask) (simp_all add: trace_justified_def store_task_def)
qed

lemma saw_clean_writeTask: "keeps (saw_clean b) (writeTask E u)"
  by (rule keeps_wpI, rule wp_writeTask) (simp_all add: saw_clean_def trace_justified_def store_task_def)

lemma saw_clean_writeTaskUpdate: "keeps (saw_clean b) (writeTaskUpdate E t f)"
  unfolding writeTaskUpdate_def
  by (intro pres_intros saw_clean_writeTask) (simp add: ignores_world_def saw_clean_def trace_justified_def)

lemma justified_cleanup_remove:
  "keeps (trace_justified :: ('w, 'z) rt_state_scheme \<Rightarrow> bool) (cleanup_remove E git b p t)"
proof (rule keeps_wpI)
  fix s :: "('w, 'z) rt_state_scheme" assume s: "trace_justified s"
  have remove: "wp (bindE (git_remove git b) (\<lambda>_. bindE (git_inspect git b) (\<lambda>ob. ret (u, ob))))
      (\<lambda>_. trace_justified) (\<lambda>_. trace_justified) v" if "saw_clean b v" for u and v :: "('w, 'z) rt_state_scheme"
    using that by (auto simp: git_remove_def git_inspect_def recordE_def wp_simps saw_clean_def trace_justified_def
        removals_justified_snoc split: prod.split sum.split)
  have clean: "wp (bindE (writeTaskUpdate E t f) (\<lambda>u. bindE (git_remove git b) (\<lambda>_. bindE (git_inspect git b)
      (\<lambda>ob. ret (u, ob))))) (\<lambda>_. trace_justified) (\<lambda>_. trace_justified) v" if "saw_clean b v" for f and v :: "('w, 'z) rt_state_scheme"
    unfolding wp_bindE [of "writeTaskUpdate E t f"]
    by (rule wp_conseq [OF keeps_wp [OF saw_clean_writeTaskUpdate that]])
      (simp_all add: remove saw_clean_def)
  have dirty: "wp (bindE (writeTaskUpdate E t f) (\<lambda>_. block_and_throw E p e c m))
      (\<lambda>_. trace_justified) (\<lambda>_. trace_justified) v" if "trace_justified v" for f e c m and v :: "('w, 'z) rt_state_scheme"
    by (rule keeps_wp [where P = trace_justified, OF _ that], intro pres_intros justified.of_steps)
  show "wp (cleanup_remove E git b p t) (\<lambda>_. trace_justified) (\<lambda>_. trace_justified) s"
    unfolding cleanup_remove_def git_status_def wp_bindE [of "bindE _ _"] wp_bindE [of "worldE _"] wp_worldE
    using s
    by (auto simp: wp_if recordE_def wp_bindE [of "modifyE _"] wp_modifyE wp_ret
        intro!: clean dirty split: prod.split sum.split)
      (auto simp: saw_clean_def trace_justified_def removals_justified_snoc)
qed

text \<open>C8 (cleanup never removes a dirty worktree). In any run of the service, whatever the world
  answers, every removal of a task worktree it requests directly follows a status reading of
  that worktree that found it clean.\<close>

theorem only_clean_worktrees_removed:
  "removals_justified (rt_trace (serve E requests (s\<lparr>rt_trace := []\<rparr>)))"
proof -
  have "trace_justified (serve E requests (s\<lparr>rt_trace := []\<rparr>))"
    by (rule serve_invariant [where P = trace_justified], rule handle_keeps [where P = trace_justified])
      (simp_all add: justified.of_open justified.of_status justified.of_rehydrate justified.of_close
        justified.of_cleanup justified_cleanup_remove trace_justified_def)
  then show ?thesis
    by (simp add: trace_justified_def)
qed

section \<open>The concurrency limit\<close>











lemma mset_insert_cmp: "mset (insert_cmp cmp x xs) = add_mset x (mset xs)"
  by (induction xs) auto

lemma mset_sort_cmp [simp]: "mset (sort_cmp cmp xs) = mset xs"
  by (induction xs) (simp_all add: mset_insert_cmp)











section \<open>What an action runs on\<close>

text \<open>The state \<open>runWithExactTaskState\<close> promises its action.\<close>

definition exact_open_state :: "string \<Rightarrow> string \<Rightarrow> string \<Rightarrow> exact_task_mutation_state \<Rightarrow> bool" where
  "exact_open_state task_id head tree before \<longleftrightarrow>
     ex_head before = head \<and> ex_tree before = tree \<and> t_task_id (ex_task before) = task_id
   \<and> t_lifecycle (ex_task before) = OPEN \<and> t_registration_state (ex_task before) = REGISTERED
   \<and> t_close_disposition (ex_task before) = None"

lemma bindE_guard_cong:
  "(\<not> b \<Longrightarrow> f () s = g () s) \<Longrightarrow> bindE (throw_if b e) f s = bindE (throw_if b e) g s"
  by (simp add: bindE_def throw_if_def ret_def throw_def)

lemma requireTask_identity: "returns (\<lambda>_. True) (requireTask E i) (\<lambda>t _. t_task_id t = i)"
  unfolding requireTask_def
proof (rule returns_bindE [where Q = "\<lambda>r _. \<forall>t. r = Some t \<longrightarrow> t_task_id t = i"])
  show "returns (\<lambda>_. True) (readTask E i) (\<lambda>r _. \<forall>t. r = Some t \<longrightarrow> t_task_id t = i)"
    by (rule returns_wp, rule wp_readTask) (simp_all add: verified_task_def)
qed (auto simp: returns_ret returns_throw split: option.split)

lemma withLock_cong: "(\<And>u. m u = n u) \<Longrightarrow> withLock E l m s = withLock E l n s"
  by (metis ext)

text \<open>Actions run on the exact open task. \<open>runWithExactTaskState\<close> calls its action only on an
  open, registered task without close disposition whose worktree has exactly the expected head
  and tree: two actions that agree on such states are indistinguishable, so what the action
  would do on any other state never matters.\<close>

lemma action_runs_on_exact_state:
  assumes "\<And>before. exact_open_state task_id head tree before \<Longrightarrow> action before = action' before"
  shows "runWithExactTaskState E task_id head tree action s = runWithExactTaskState E task_id head tree action' s"
  unfolding runWithExactTaskState_def
  apply (rule bindE_cong_returns, rule bindE_guard_cong, rule withLock_cong)
  apply (rule bindE_cong_returns, drule returnsD [OF requireTask_identity TrueI])
  apply (rule bindE_guard_cong, rule bindE_cong_returns)
  apply (clarsimp split: prod.split)
  apply (rule bindE_guard_cong)
  using assms by (simp add: exact_open_state_def)

lemma action_runs_on_exact_state_witness:
  "runWithExactTaskState demo_env ''t'' ''h'' ''tree'' (\<lambda>before. if ex_head before = ''h'' then ret True else ret False) demo_state
   = runWithExactTaskState demo_env ''t'' ''h'' ''tree'' (\<lambda>_. ret True) demo_state"
  by (rule action_runs_on_exact_state) (simp add: exact_open_state_def)

section \<open>A close that cannot finish\<close>

lemma writeTaskUpdate_returns:
  "returns (\<lambda>_. True) (writeTaskUpdate E t f) (\<lambda>u _. task_schema (re_datetime E) u \<and> t_task_id u = t_task_id (f t)
     \<and> t_lifecycle u = t_lifecycle (f t) \<and> t_closed_at u = t_closed_at (f t)
     \<and> t_close_disposition u = t_close_disposition (f t) \<and> t_registration_state u = t_registration_state (f t))"
  unfolding writeTaskUpdate_def
  by (rule returns_bindE [OF returns_any], rule returns_wp, rule wp_writeTask) (simp_all add: sign_task_def)

lemma closing_a_closed_task_throws:
  assumes "t_closed_at task \<noteq> None"
  shows "returns (\<lambda>_. True) (close_unregister E i p task) (\<lambda>_ _. False)"
  unfolding close_unregister_def
  by (rule returns_bindE [OF returns_conseq [OF writeTaskUpdate_returns, where Q' = "\<lambda>_ _. False"]])
    (use assms in \<open>auto simp: task_schema_def task_refinement_def returns_def\<close>)

lemma returns_pure: "(A \<Longrightarrow> returns (\<lambda>_. True) m Q) \<Longrightarrow> returns (\<lambda>_. A) m Q"
  by (auto simp: returns_def)

lemma close_live_closed_throws:
  assumes "t_closed_at task \<noteq> None"
  shows "returns (\<lambda>_. True) (close_live E i p task) (\<lambda>_ _. False)"
proof -
  have upd: "returns (\<lambda>_. True) (case v of
       Some v \<Rightarrow> writeTaskUpdate E task (\<lambda>t. t\<lparr>t_worktree_head := Some (s_head v), t_worktree_tree := Some (s_tree v)\<rparr>)
     | None \<Rightarrow> ret task) (\<lambda>u _. t_closed_at u \<noteq> None)" for v :: "worktree_status option"
    using assms by (cases v) (auto intro: returns_ret returns_conseq [OF writeTaskUpdate_returns])
  show ?thesis
    unfolding close_live_def
    apply (rule returns_bindE [OF returns_any], rule returns_bindE [OF returns_any])
    apply (rule returns_bindE [OF upd])
    apply (rule returns_pure, rule returns_bindE [OF returns_any], rule returns_bindE [OF returns_any])
    apply (erule closing_a_closed_task_throws)
    done
qed

text \<open>A task that needs recovery after
  it was closed keeps its time of closing. Closing it again under an operation that has not
  completed writes a CLOSING record, which the schema refuses because CLOSING requires
  \<open>closed_at\<close> to be null: the request always throws, however often it is repeated.\<close>

lemma close_of_closed_recovery_fails:
  assumes "map_of (rt_tasks s) (task_key E (ci_task_id i)) = Some (Stored task)"
    and "t_lifecycle task = RECOVERY_REQUIRED" and "t_closed_at task \<noteq> None"
    and "\<And>p. map_of (rt_ops s) (operation_key E (ci_task_id i) (ci_operation_id i)) = Some (Stored p)
      \<Longrightarrow> o_phase p \<noteq> LOCAL_MUTATION_COMPLETE"
  shows "\<exists>e t. close_task E i s = (Inl e, t)"
proof -
  define P where "P = (\<lambda>u :: ('a, 'b) rt_state_scheme. rt_tasks u = rt_tasks s)"
  have op: "returns (same_disk s) (ensureOperation E KIND_CLOSE (ci_task_id i) (ci_operation_id i) req)
      (\<lambda>p u. P u \<and> o_phase p \<noteq> LOCAL_MUTATION_COMPLETE)" for req
    unfolding ensureOperation_def Let_def
  proof (rule returns_bindE [where Q = "\<lambda>r u. same_disk s u \<and> (\<forall>p. r = Some p \<longrightarrow> o_phase p \<noteq> LOCAL_MUTATION_COMPLETE)"])
    show "returns (same_disk s) (readOperation E (ci_task_id i) (ci_operation_id i))
        (\<lambda>r u. same_disk s u \<and> (\<forall>p. r = Some p \<longrightarrow> o_phase p \<noteq> LOCAL_MUTATION_COMPLETE))"
      by (rule returns_wp, rule wp_readOperation) (use assms(4) in \<open>auto simp: same_disk_def\<close>)
  qed (auto split: option.split intro!: returns_guard returns_ret returns_wp wp_writeOperation
      simp: P_def same_disk_def wp_simps now_iso_def store_operation_def sign_operation_def split: prod.split)
  have read: "returns P (requireTask E (ci_task_id i)) (\<lambda>t _. t = task)"
    unfolding requireTask_def
  proof (rule returns_bindE [where Q = "\<lambda>r _. r = Some task"])
    show "returns P (readTask E (ci_task_id i)) (\<lambda>r _. r = Some task)"
      by (rule returns_wp, rule wp_readTask) (use assms(1) in \<open>auto simp: P_def\<close>)
  qed (auto intro!: returns_ret returns_throw split: option.split)
  have "returns (same_disk s) (closeLocked E i) (\<lambda>_ _. False)"
    unfolding closeLocked_def
  proof (rule returns_bindE [OF op], rule returns_if)
    fix p :: operation_state
    assume "o_phase p = LOCAL_MUTATION_COMPLETE"
    then show "returns (\<lambda>u. P u \<and> o_phase p \<noteq> LOCAL_MUTATION_COMPLETE) (bindE (requireTask E (ci_task_id i)) (\<lambda>task.
       ret \<lparr>cr_repo_id = t_repo_id task, cr_task = task, cr_operation = p\<rparr>)) (\<lambda>_ _. False)"
      by (simp add: returns_def)
  next
    fix p :: operation_state
    have reject: "returns P (rejectNoReplay p) (\<lambda>_. P)"
      unfolding rejectNoReplay_def by (intro returns_keeps pres_intros)
    show "returns (\<lambda>u. P u \<and> o_phase p \<noteq> LOCAL_MUTATION_COMPLETE) (bindE (rejectNoReplay p) (\<lambda>_.
       bindE (requireTask E (ci_task_id i)) (\<lambda>task.
       bindE (throw_if (t_close_disposition task \<noteq> None \<and> t_close_disposition task \<noteq> Some (ci_disposition i))
         (TaskErr ''TASK_BINDING_CONFLICT'')) (\<lambda>_.
       if terminal_lifecycle (t_lifecycle task) then close_terminal E i p task
       else close_live E i p task)))) (\<lambda>_ _. False)"
      apply (rule returns_bindE [where Q = "\<lambda>_. P"])
       apply (rule returns_conseq [OF reject]; simp)
      apply (rule returns_bindE [OF read], rule returns_pure, rule returns_guard)
      using assms(2,3) close_live_closed_throws [of task E i p]
      by (auto simp: returns_def terminal_lifecycle_def)
  qed
  then have locked: "returns (same_disk s) (withLock E l (closeLocked E i)) (\<lambda>_ _. False)" for l
    unfolding withLock_def
    by (intro returns_bindE [OF returns_keeps [OF same_disk_steps(1)]] returns_finallyE) (simp_all add: keeps_def)
  have "returns (same_disk s) (close_task E i) (\<lambda>_ _. False)"
    unfolding close_task_def
    by (rule returns_guard, rule returns_bindE [where Q = "\<lambda>_. same_disk s"],
        rule returns_conseq [OF returns_keeps [OF same_disk_initialize]])
      (simp_all add: locked)
  then show ?thesis
    by (cases "close_task E i s"; cases "fst (close_task E i s)") (auto simp: returns_def same_disk_def)
qed

lemma close_of_closed_recovery_fails_witness:
  "\<exists>e t. close_task demo_env (demo_close ''op'' Completed)
     (demo_disk [demo_task RECOVERY_REQUIRED (Some Completed) (Some ''T'')] []) = (Inl e, t)"
  by (rule close_of_closed_recovery_fails [where task = "demo_task RECOVERY_REQUIRED (Some Completed) (Some ''T'')"])
    (simp_all add: demo_disk_def demo_task_def demo_close_def)

end
