(* ===== verification/Mutation_Store.thy ===== *)
theory Mutation_Store
  imports Task_Outcomes
begin

text \<open>
  The write-once records of task mutations (src/task-runtime/mutation-store.ts) and the
  runtime that executes a mutating tool at most once per operation id
  (src/services/durable-task-mutation-runtime.ts). The state extends the task runtime's by the
  directory of mutation records; the ghost field \<open>ms_invocations\<close> lists the operation ids
  whose tool was invoked, in order.
\<close>

section \<open>Records\<close>

datatype mutation_phase = MUT_ADMITTED | MUT_LOCAL_MUTATION_STARTED | MUT_LOCAL_MUTATION_COMPLETE | MUT_BLOCKED

fun mutation_phase_name :: "mutation_phase \<Rightarrow> string" where
  "mutation_phase_name MUT_ADMITTED = ''ADMITTED''"
| "mutation_phase_name MUT_LOCAL_MUTATION_STARTED = ''LOCAL_MUTATION_STARTED''"
| "mutation_phase_name MUT_LOCAL_MUTATION_COMPLETE = ''LOCAL_MUTATION_COMPLETE''"
| "mutation_phase_name MUT_BLOCKED = ''BLOCKED''"

record task_mutation_record =
  m_operation_id :: string
  m_task_id :: string
  m_repo_id :: string
  m_tool :: string
  m_request_sha256 :: string
  m_phase :: mutation_phase
  m_before_head_sha :: string
  m_before_tree_sha :: string
  m_after_head_sha :: "string option"
  m_after_tree_sha :: "string option"
  m_result_sha256 :: "string option"
  m_result_is_error :: "bool option"
  m_failure_code :: "string option"
  m_created_at :: string
  m_updated_at :: string
  m_state_sha256 :: string

definition mutation_operation_id_schema :: "string \<Rightarrow> bool" where
  "mutation_operation_id_schema s \<longleftrightarrow> 8 \<le> length s \<and> length s \<le> 160 \<and> id_regex 0 (length s) s"

text \<open>The two refinements; the digests are not empty, so a truthy value is a present one.\<close>

definition mutation_refinement :: "task_mutation_record \<Rightarrow> bool" where
  "mutation_refinement r \<longleftrightarrow>
     (m_phase r = MUT_LOCAL_MUTATION_COMPLETE
        \<longleftrightarrow> m_result_sha256 r \<noteq> None \<and> m_after_head_sha r \<noteq> None \<and> m_after_tree_sha r \<noteq> None)
   \<and> (m_phase r = MUT_BLOCKED \<longleftrightarrow> m_failure_code r \<noteq> None)"

definition mutation_schema :: "(string \<Rightarrow> bool) \<Rightarrow> task_mutation_record \<Rightarrow> bool" where
  "mutation_schema dt r \<longleftrightarrow>
     mutation_operation_id_schema (m_operation_id r) \<and> length_between 1 128 (m_task_id r)
   \<and> length_between 1 200 (m_repo_id r) \<and> length_between 1 200 (m_tool r) \<and> sha256_schema (m_request_sha256 r)
   \<and> hex_n 40 (m_before_head_sha r) \<and> hex_n 40 (m_before_tree_sha r)
   \<and> optional (hex_n 40) (m_after_head_sha r) \<and> optional (hex_n 40) (m_after_tree_sha r)
   \<and> optional sha256_schema (m_result_sha256 r) \<and> optional (length_between 1 120) (m_failure_code r)
   \<and> dt (m_created_at r) \<and> dt (m_updated_at r) \<and> sha256_schema (m_state_sha256 r) \<and> mutation_refinement r"

definition mutation_members :: "task_mutation_record \<Rightarrow> (string \<times> json) list" where
  "mutation_members r =
     [(''schema_version'', JNum 1), (''operation_id'', JStr (m_operation_id r)), (''task_id'', JStr (m_task_id r)),
      (''repo_id'', JStr (m_repo_id r)), (''tool'', JStr (m_tool r)), (''request_sha256'', JStr (m_request_sha256 r)),
      (''phase'', JStr (mutation_phase_name (m_phase r))),
      (''before_head_sha'', JStr (m_before_head_sha r)), (''before_tree_sha'', JStr (m_before_tree_sha r))]
     @ optional_member ''after_head_sha'' (m_after_head_sha r)
     @ optional_member ''after_tree_sha'' (m_after_tree_sha r)
     @ optional_member ''result_sha256'' (m_result_sha256 r)
     @ (case m_result_is_error r of None \<Rightarrow> [] | Some b \<Rightarrow> [(''result_is_error'', JBool b)])
     @ optional_member ''failure_code'' (m_failure_code r)
     @ [(''created_at'', JStr (m_created_at r)), (''updated_at'', JStr (m_updated_at r))]"

record 'w mut_state = "'w rt_state" +
  ms_mutations :: "(string \<times> task_mutation_record disk_file) list"
  ms_invocations :: "string list"

type_synonym ('w, 'z, 'a) mt = "(task_err, ('w, 'z) mut_state_scheme, 'a) eff"

section \<open>The store\<close>

fun mutation_transitions :: "mutation_phase \<Rightarrow> mutation_phase list" where
  "mutation_transitions MUT_ADMITTED = [MUT_LOCAL_MUTATION_STARTED, MUT_BLOCKED]"
| "mutation_transitions MUT_LOCAL_MUTATION_STARTED = [MUT_LOCAL_MUTATION_COMPLETE, MUT_BLOCKED]"
| "mutation_transitions MUT_LOCAL_MUTATION_COMPLETE = []"
| "mutation_transitions MUT_BLOCKED = []"

definition assertTransition :: "mutation_phase \<Rightarrow> mutation_phase \<Rightarrow> ('w, 'z, unit) mt" where
  "assertTransition from_phase to_phase =
     throw_if (to_phase \<notin> set (mutation_transitions from_phase)) (TaskErr ''TASK_RUNTIME_INVALID'')"

definition mutation_key :: "'w rt_env \<Rightarrow> string \<Rightarrow> string" where
  "mutation_key E operation_id = hashedDiskKey (re_sha256 E) ''task-mutation'' operation_id"

definition mutation_digest :: "'w rt_env \<Rightarrow> task_mutation_record \<Rightarrow> string" where
  "mutation_digest E r = sha256Json (re_sha256 E) (JObj (mutation_members r))"

definition read_mutation :: "'w rt_env \<Rightarrow> string \<Rightarrow> ('w, 'z, task_mutation_record option) mt" where
  "read_mutation E operation_id =
     bindE (worldE (re_ensure_directory E ''mutations'')) (\<lambda>_.
     bindE (catchE (readFile E (\<lambda>s. map_of (ms_mutations s) (mutation_key E operation_id)))
        (\<lambda>e. throw (case e of TaskErr c \<Rightarrow> TaskErr c | _ \<Rightarrow> tampered))) (\<lambda>f.
     case f of
       None \<Rightarrow> ret None
     | Some Malformed \<Rightarrow> throw tampered
     | Some (Stored r) \<Rightarrow>
         (if mutation_schema (re_datetime E) r \<and> m_operation_id r = operation_id
             \<and> mutation_digest E r = m_state_sha256 r
          then ret (Some r) else throw tampered)))"

definition sign_mutation :: "'w rt_env \<Rightarrow> task_mutation_record \<Rightarrow> ('w, 'z, task_mutation_record) mt" where
  "sign_mutation E r =
     (let signed = r\<lparr>m_state_sha256 := mutation_digest E r\<rparr> in
      bindE (throw_if (\<not> mutation_schema (re_datetime E) signed) ZodErr) (\<lambda>_. ret signed))"

definition put_mutation :: "'w rt_env \<Rightarrow> task_mutation_record \<Rightarrow> ('w, 'z) mut_state_scheme \<Rightarrow> ('w, 'z) mut_state_scheme" where
  "put_mutation E r = ms_mutations_update (put_file (mutation_key E (m_operation_id r)) (Stored r))"

text \<open>\<open>atomicWrite\<close> with \<open>exclusive: true\<close>: the link of an existing target fails with EEXIST.\<close>

definition exclusiveWrite :: "'w rt_env \<Rightarrow> task_mutation_record \<Rightarrow> ('w, 'z, unit) mt" where
  "exclusiveWrite E r =
     bindE (getE (\<lambda>s. map_of (ms_mutations s) (mutation_key E (m_operation_id r)))) (\<lambda>present.
     if present \<noteq> None then throw (OtherErr (Some ''EEXIST'')) else atomicWrite E (put_mutation E r))"

text \<open>The exclusive write of a new record, with the readback of a lost race.\<close>

definition write_or_read ::
  "'w rt_env \<Rightarrow> task_mutation_record \<Rightarrow> ('w, 'z, task_mutation_record) mt" where
  "write_or_read E record =
     catchE (bindE (exclusiveWrite E record) (\<lambda>_. ret record)) (\<lambda>error.
       if err_code error \<noteq> Some ''EEXIST'' then throw error
       else bindE (read_mutation E (m_operation_id record)) (\<lambda>raced.
         case raced of None \<Rightarrow> throw tampered | Some r \<Rightarrow> ret r))"

definition create_mutation :: "'w rt_env \<Rightarrow> task_mutation_record \<Rightarrow> ('w, 'z, task_mutation_record) mt" where
  "create_mutation E input =
     bindE (read_mutation E (m_operation_id input)) (\<lambda>existing.
     case existing of
       Some r \<Rightarrow> ret r
     | None \<Rightarrow> bindE (sign_mutation E input) (write_or_read E))"

text \<open>\<open>TaskMutationStore.transition\<close>; the changes are given as a record update.\<close>

definition transition_mutation ::
  "'w rt_env \<Rightarrow> task_mutation_record \<Rightarrow> mutation_phase \<Rightarrow> (task_mutation_record \<Rightarrow> task_mutation_record) \<Rightarrow> string
   \<Rightarrow> ('w, 'z, task_mutation_record) mt" where
  "transition_mutation E previous phase changes updated_at =
     bindE (read_mutation E (m_operation_id previous)) (\<lambda>current_option.
     bindE (throw_if (\<not> (case current_option of None \<Rightarrow> False
        | Some current \<Rightarrow> m_state_sha256 current = m_state_sha256 previous)) tampered) (\<lambda>_.
     bindE (assertTransition (m_phase previous) phase) (\<lambda>_.
     bindE (sign_mutation E ((changes previous)\<lparr>m_phase := phase, m_updated_at := updated_at\<rparr>)) (\<lambda>record.
     bindE (atomicWrite E (put_mutation E record)) (\<lambda>_. ret record)))))"

section \<open>The phase table keeps its contract\<close>

definition settled_mutation :: "mutation_phase \<Rightarrow> bool" where
  "settled_mutation p \<longleftrightarrow> p = MUT_LOCAL_MUTATION_COMPLETE \<or> p = MUT_BLOCKED"

fun mutation_rank :: "mutation_phase \<Rightarrow> nat" where
  "mutation_rank MUT_ADMITTED = 0"
| "mutation_rank MUT_LOCAL_MUTATION_STARTED = 1"
| "mutation_rank MUT_LOCAL_MUTATION_COMPLETE = 2"
| "mutation_rank MUT_BLOCKED = 2"

interpretation mutation_table: ranked_phase_table mutation_transitions settled_mutation mutation_rank 2
proof unfold_locales
  fix p q :: mutation_phase
  show "settled_mutation p \<Longrightarrow> mutation_transitions p = []"
    by (auto simp: settled_mutation_def)
  show "q \<in> set (mutation_transitions p) \<Longrightarrow> mutation_rank p < mutation_rank q"
    by (cases p) auto
  show "mutation_rank p \<le> 2"
    by (cases p) auto
qed

section \<open>Executing a mutation once\<close>

definition MAX_RESULT_DIGEST_BYTES :: nat where
  "MAX_RESULT_DIGEST_BYTES = 1024 * 1024"

record mutation_binding =
  mb_operation_id :: string
  mb_repo_id :: string
  mb_expected_head :: string
  mb_expected_tree :: string

definition mismatch :: task_err where
  "mismatch = RepoErr ''TASK_STATE_MISMATCH''"

text \<open>\<open>requireMutationBinding\<close> on the members of the tool's input.\<close>

definition requireMutationBinding :: "(string \<times> json) list \<Rightarrow> task_err + mutation_binding" where
  "requireMutationBinding input =
     (case (map_of input ''operation_id'', map_of input ''repo_id'', map_of input ''expected_head_sha'',
        map_of input ''expected_tree_sha'') of
        (Some (JStr operation_id), Some (JStr repo_id), Some (JStr head), Some (JStr tree)) \<Rightarrow>
          if id_regex 7 159 operation_id \<and> repo_id \<noteq> [] \<and> hex_n 40 head \<and> hex_n 40 tree
          then Inr \<lparr>mb_operation_id = operation_id, mb_repo_id = repo_id, mb_expected_head = head, mb_expected_tree = tree\<rparr>
          else Inl mismatch
      | _ \<Rightarrow> Inl mismatch)"

text \<open>The results of tools are JSON objects; an error envelope is its code.\<close>

datatype tool_outcome = Executed json | Task_Error string | Error_Envelope task_err

definition digestResult :: "'w rt_env \<Rightarrow> json \<Rightarrow> task_err + string" where
  "digestResult E result =
     (if MAX_RESULT_DIGEST_BYTES < utf8_length (canonicalJson result) then Inl (RepoErr ''TASK_OPERATION_BLOCKED'')
      else Inr (sha256Json (re_sha256 E) result))"

definition mutation_request_sha :: "'w rt_env \<Rightarrow> string \<Rightarrow> (string \<times> json) list \<Rightarrow> task_err + string" where
  "mutation_request_sha E tool input =
     (if MAX_RESULT_DIGEST_BYTES < utf8_length (canonicalJson (JObj input)) then Inl mismatch
      else Inr (sha256Json (re_sha256 E)
        (JObj [(''schema_version'', JNum 1), (''tool'', JStr tool), (''input'', JObj input)])))"

definition result_is_error :: "json \<Rightarrow> bool" where
  "result_is_error r = (case r of JObj kvs \<Rightarrow> map_of kvs ''isError'' = Some (JBool True) | _ \<Rightarrow> False)"

definition is_code_char :: "char \<Rightarrow> bool" where
  "is_code_char c \<longleftrightarrow> is_upper c \<or> is_digit c \<or> c = CHR ''_''"

definition stableFailureCode :: "task_err \<Rightarrow> string" where
  "stableFailureCode e = (case err_code e of
       Some c \<Rightarrow> if length_between 1 120 c \<and> list_all is_code_char c then c else ''TASK_MUTATION_FAILED''
     | None \<Rightarrow> ''TASK_MUTATION_FAILED'')"

definition handleExisting ::
  "task_mutation_record \<Rightarrow> string \<Rightarrow> string \<Rightarrow> string \<Rightarrow> string \<Rightarrow> tool_outcome" where
  "handleExisting r tool task_id repo_id request_sha =
     (if m_tool r \<noteq> tool \<or> m_task_id r \<noteq> task_id \<or> m_repo_id r \<noteq> repo_id \<or> m_request_sha256 r \<noteq> request_sha
      then Task_Error ''TASK_OPERATION_CONFLICT''
      else if m_phase r = MUT_LOCAL_MUTATION_COMPLETE \<and> m_result_sha256 r \<noteq> None
      then Task_Error ''TASK_OPERATION_ALREADY_COMPLETED''
      else Task_Error ''TASK_OPERATION_BLOCKED'')"

text \<open>The collaborators of the runtime: the registry of task repositories, the tool, and the sink
  of validation logs (\<open>persistValidationArtifact\<close>), which may replace the result.\<close>

record ('w, 'z) mutation_env =
  me_rt :: "'w rt_env"
  me_task_binding :: "string \<Rightarrow> string option"
  me_invoke :: "('w, 'z, json) mt"
  me_persist :: "string \<Rightarrow> string \<Rightarrow> exact_task_mutation_state \<Rightarrow> exact_task_mutation_state \<Rightarrow> json \<Rightarrow> ('w, 'z, json) mt"

definition admitted_record :: "mutation_binding \<Rightarrow> string \<Rightarrow> string \<Rightarrow> string \<Rightarrow> string \<Rightarrow> task_mutation_record" where
  "admitted_record b task_id tool request_sha timestamp =
     \<lparr>m_operation_id = mb_operation_id b, m_task_id = task_id, m_repo_id = mb_repo_id b, m_tool = tool,
      m_request_sha256 = request_sha, m_phase = MUT_ADMITTED, m_before_head_sha = mb_expected_head b,
      m_before_tree_sha = mb_expected_tree b, m_after_head_sha = None, m_after_tree_sha = None,
      m_result_sha256 = None, m_result_is_error = None, m_failure_code = None,
      m_created_at = timestamp, m_updated_at = timestamp, m_state_sha256 = []\<rparr>"

text \<open>The action run on the exact task state: the record moves to STARTED, then the tool runs.\<close>

definition invoke_once ::
  "('w, 'z) mutation_env \<Rightarrow> task_mutation_record \<Rightarrow> ('w, 'z, task_mutation_record \<times> json) mt" where
  "invoke_once M record =
     bindE (now_iso (me_rt M)) (\<lambda>now.
     bindE (transition_mutation (me_rt M) record MUT_LOCAL_MUTATION_STARTED (\<lambda>r. r) now) (\<lambda>record1.
     bindE (modifyE (\<lambda>s. s\<lparr>ms_invocations := ms_invocations s @ [m_operation_id record]\<rparr>)) (\<lambda>_.
     bindE (me_invoke M) (\<lambda>result. ret (record1, result)))))"

definition execute_mutation ::
  "('w, 'z) mutation_env \<Rightarrow> string \<Rightarrow> mutation_binding \<Rightarrow> string \<Rightarrow> task_mutation_record \<Rightarrow> ('w, 'z, tool_outcome) mt" where
  "execute_mutation M tool b task_id record =
     bindE (runWithExactTaskState (me_rt M) task_id (mb_expected_head b) (mb_expected_tree b)
        (\<lambda>_. invoke_once M record)) (\<lambda>((record1, result0), before, after).
     bindE (if tool = ''repo_validate'' then me_persist M (mb_operation_id b) task_id before after result0
        else ret result0) (\<lambda>result.
     bindE (liftR (digestResult (me_rt M) result)) (\<lambda>result_sha.
     bindE (now_iso (me_rt M)) (\<lambda>now.
     bindE (transition_mutation (me_rt M) record1 MUT_LOCAL_MUTATION_COMPLETE (\<lambda>r. r
        \<lparr>m_after_head_sha := Some (ex_head after), m_after_tree_sha := Some (ex_tree after),
         m_result_sha256 := Some result_sha, m_result_is_error := Some (result_is_error result)\<rparr>) now) (\<lambda>_.
     ret (Executed result))))))"

text \<open>The \<open>catch\<close> block: the record is blocked when it is still in flight.\<close>

definition block_mutation :: "('w, 'z) mutation_env \<Rightarrow> mutation_binding \<Rightarrow> task_err \<Rightarrow> ('w, 'z, tool_outcome) mt" where
  "block_mutation M b error =
     bindE (catchE
       (bindE (read_mutation (me_rt M) (mb_operation_id b)) (\<lambda>current_option.
        case current_option of
          None \<Rightarrow> ret ()
        | Some current \<Rightarrow>
            if m_phase current = MUT_ADMITTED \<or> m_phase current = MUT_LOCAL_MUTATION_STARTED then
              bindE (now_iso (me_rt M)) (\<lambda>now.
              bindE (transition_mutation (me_rt M) current MUT_BLOCKED
                (\<lambda>r. r\<lparr>m_failure_code := Some (stableFailureCode error)\<rparr>) now) (\<lambda>_. ret ()))
            else ret ()))
       (\<lambda>_. ret ())) (\<lambda>_.
     ret (Task_Error ''TASK_OPERATION_BLOCKED''))"

definition run_locked ::
  "('w, 'z) mutation_env \<Rightarrow> string \<Rightarrow> mutation_binding \<Rightarrow> string \<Rightarrow> string \<Rightarrow> ('w, 'z, tool_outcome) mt" where
  "run_locked M tool b task_id request_sha =
     bindE (read_mutation (me_rt M) (mb_operation_id b)) (\<lambda>existing.
     case existing of
       Some r \<Rightarrow> ret (handleExisting r tool task_id (mb_repo_id b) request_sha)
     | None \<Rightarrow>
        bindE (now_iso (me_rt M)) (\<lambda>timestamp.
        bindE (create_mutation (me_rt M) (admitted_record b task_id tool request_sha timestamp)) (\<lambda>record.
        if m_request_sha256 record \<noteq> request_sha \<or> m_task_id record \<noteq> task_id \<or> m_tool record \<noteq> tool
        then ret (Task_Error ''TASK_OPERATION_CONFLICT'')
        else catchE (execute_mutation M tool b task_id record) (block_mutation M b))))"

text \<open>\<open>DurableTaskMutationRuntime.run\<close>.\<close>

definition run_mutation ::
  "('w, 'z) mutation_env \<Rightarrow> string \<Rightarrow> (string \<times> json) list \<Rightarrow> ('w, 'z, tool_outcome) mt" where
  "run_mutation M tool input =
     catchE
       (bindE (liftR (requireMutationBinding input)) (\<lambda>b.
        case me_task_binding M (mb_repo_id b) of
          None \<Rightarrow> ret (Task_Error ''TASK_STATE_MISMATCH'')
        | Some task_id \<Rightarrow>
            bindE (liftR (mutation_request_sha (me_rt M) tool input)) (\<lambda>request_sha.
            withLock (me_rt M) (''mutation-operation:'' @ mb_operation_id b)
              (run_locked M tool b task_id request_sha))))
       (\<lambda>error. case error of
          RepoErr c \<Rightarrow> ret (Error_Envelope error)
        | _ \<Rightarrow> ret (Task_Error ''TASK_STATE_MISMATCH''))"

end
