(* ===== verification/Store_Properties.thy ===== *)
theory Store_Properties
  imports Task_Outcomes
begin

text \<open>
  What the store of src/task-runtime/state-store.ts guarantees of single writes and reads, and
  what a successful open has established on disk: checked writes of operations, reading back
  what was written, detection of changed records.
\<close>

section \<open>Writes\<close>

text \<open>A write of an operation that returns has stored the signed
  record under its own file name and touched no other file; the record satisfies the schema,
  and either it is the first, at CREATED revision zero, or the verified record it replaces has
  the same request digest and kind, a phase from which the new one is allowed, and the revision
  just before.\<close>

lemma operation_write_is_checked:
  assumes "writeOperation E v s = (Inr p, t)"
  shows "p = sign_operation E v \<and> operation_schema (re_datetime E) p
    \<and> rt_ops t = put_file (operation_key E (o_task_id v) (o_operation_id v)) (Stored p) (rt_ops s)
    \<and> rt_tasks t = rt_tasks s
    \<and> (case map_of (rt_ops s) (operation_key E (o_task_id v) (o_operation_id v)) of
         None \<Rightarrow> o_phase p = CREATED \<and> o_revision p = 0
       | Some Malformed \<Rightarrow> False
       | Some (Stored q) \<Rightarrow> verified_operation E (o_task_id v) (o_operation_id v) q
           \<and> o_request_sha256 p = o_request_sha256 q \<and> o_kind p = o_kind q
           \<and> (o_phase p = o_phase q \<or> o_phase p \<in> set (operation_transitions (o_phase q)))
           \<and> o_revision p = o_revision q + 1)"
    (is "?goal p t")
proof -
  have "wp (writeOperation E v) ?goal (\<lambda>_ _. True) s"
    by (rule wp_writeOperation)
      (auto simp: store_operation_def stored_operation_def admissible_write_def sign_operation_def
        split: option.splits)
  from this assms show ?thesis
    by (rule wp_returnD)
qed

definition demo_created :: operation_state where
  "demo_created = (demo_operation KIND_OPEN CREATED)\<lparr>o_revision := 0, o_effect_state := NOT_STARTED, o_completed_at := None\<rparr>"

lemma demo_created_write:
  "writeOperation demo_env demo_created demo_state
   = (Inr demo_created, demo_state\<lparr>rt_ops := [(operation_key demo_env ''t'' ''op'', Stored demo_created)]\<rparr>)"
proof -
  have digest: "operation_digest demo_env p = replicate 64 (CHR ''0'')" for p
    by (simp add: operation_digest_def sha256Json_def demo_env_def demo_hash_def)
  have signed: "sign_operation demo_env demo_created = demo_created"
    unfolding sign_operation_def digest by (simp add: demo_created_def demo_operation_def)
  have schema: "operation_schema (re_datetime demo_env) demo_created"
    by code_simp
  have ids: "task_id_schema ''t''" "operation_id_schema ''op''"
    by code_simp+
  have "readOperation demo_env ''t'' ''op'' demo_state = (Inr None, demo_state)"
    using ids by (simp add: readOperation_def readFile_def readDigested_def eff_defs askE_def demo_env_def demo_state_def)
  then show ?thesis
    unfolding writeOperation_def Let_def signed
    using schema by (simp add: eff_defs atomicWrite_def askE_def store_operation_def)
      (simp add: demo_created_def demo_operation_def eff_defs askE_def demo_env_def demo_state_def)
qed

lemma operation_write_is_checked_witness:
  "rt_ops (snd (writeOperation demo_env demo_created demo_state))
     = put_file (operation_key demo_env (o_task_id demo_created) (o_operation_id demo_created))
         (Stored demo_created) (rt_ops demo_state)"
  using operation_write_is_checked [OF demo_created_write] by (simp only: demo_created_write snd_conv)

section \<open>Reading back\<close>

text \<open>The next read of the file system succeeds.\<close>

definition readable :: "'w rt_env \<Rightarrow> ('w, 'z) rt_state_scheme \<Rightarrow> bool" where
  "readable E s \<longleftrightarrow> fst (re_read_fault E (rt_world s)) = Read_Ok"

lemma readTask_run:
  assumes "readable E s"
  shows "fst (readTask E i s) = (if \<not> task_id_schema i then Inl ZodErr
     else readDigested (verified_task E i) (map_of (rt_tasks s) (task_key E i)))"
  using assms by (auto simp: readable_def readTask_def readFile_def askE_def eff_defs split: prod.splits)

text \<open>After a write of a task record that returned, a read of
  that task returns exactly the record the write returned.\<close>

lemma task_write_read_round_trip:
  assumes "writeTask E v s = (Inr u, t)" and "readable E t"
  shows "fst (readTask E (t_task_id v) t) = Inr (Some u)"
proof -
  have "wp (writeTask E v) (\<lambda>u t. task_schema (re_datetime E) (sign_task E v) \<and> u = sign_task E v
      \<and> map_of (rt_tasks t) (task_key E (t_task_id v)) = Some (Stored u)) (\<lambda>_ _. True) s"
    by (rule wp_writeTask) (simp_all add: store_task_def)
  from wp_returnD [OF this assms(1)] have u: "task_schema (re_datetime E) (sign_task E v)" "u = sign_task E v"
      "map_of (rt_tasks t) (task_key E (t_task_id v)) = Some (Stored u)"
    by auto
  then have "verified_task E (t_task_id v) u" "task_id_schema (t_task_id v)"
    using verified_sign_task [of E v] by (simp_all add: task_schema_def)
  with u(3) show ?thesis
    by (simp add: readTask_run [OF assms(2)] readDigested_def)
qed

lemma demo_task_digest: "task_digest demo_env t = replicate 64 (CHR ''0'')"
  by (simp add: task_digest_def sha256Json_def demo_env_def demo_hash_def)

lemma demo_task_signed: "sign_task demo_env (demo_task l d c) = demo_task l d c"
  unfolding sign_task_def demo_task_digest by (simp add: demo_task_def)

lemma demo_task_schema: "task_schema (re_datetime demo_env) (demo_task OPEN None None)"
  by code_simp

lemma demo_write_fault [simp]: "re_write_fault demo_env w = (Write_Ok, w)"
  by (simp add: demo_env_def)

lemma demo_task_write:
  "writeTask demo_env (demo_task OPEN None None) demo_state
   = (Inr (demo_task OPEN None None), store_task demo_env (demo_task OPEN None None) demo_state)"
  unfolding writeTask_def Let_def demo_task_signed
  using demo_task_schema
  by (simp add: eff_defs atomicWrite_def askE_def)

lemma task_write_read_round_trip_witness:
  "fst (readTask demo_env (t_task_id (demo_task OPEN None None))
     (store_task demo_env (demo_task OPEN None None) demo_state)) = Inr (Some (demo_task OPEN None None))"
  by (rule task_write_read_round_trip [OF demo_task_write]) (simp add: readable_def demo_env_def)

section \<open>Changed records are detected\<close>

text \<open>The members of a task record determine it.\<close>

lemma names_injective [simp]:
  "authority_name a = authority_name b \<longleftrightarrow> a = b"
  "lifecycle_name l = lifecycle_name m \<longleftrightarrow> l = m"
  "worktree_name w = worktree_name x \<longleftrightarrow> w = x"
  "branch_name c = branch_name d \<longleftrightarrow> c = d"
  "registration_name r = registration_name q \<longleftrightarrow> r = q"
  "disposition_name e = disposition_name f \<longleftrightarrow> e = f"
  subgoal by (cases a; cases b; simp)
  subgoal by (cases l; cases m; simp)
  subgoal by (cases w; cases x; simp)
  subgoal by (cases c; cases d; simp)
  subgoal by (cases r; cases q; simp)
  subgoal by (cases e; cases f; simp)
  done

lemma nullable_inject [simp]: "nullable x = nullable y \<longleftrightarrow> x = y"
  by (auto simp: nullable_def split: option.splits)

lemma disposition_inject [simp]: "map_option disposition_name x = map_option disposition_name y \<longleftrightarrow> x = y"
  by (cases x; cases y) simp_all

lemma task_lookup:
  "map_of (task_members t) ''task_id'' = Some (JStr (t_task_id t))"
  "map_of (task_members t) ''repo_id'' = Some (JStr (t_repo_id t))"
  "map_of (task_members t) ''base_repo_id'' = Some (JStr (t_base_repo_id t))"
  "map_of (task_members t) ''base_branch'' = Some (JStr (t_base_branch t))"
  "map_of (task_members t) ''base_commit'' = Some (JStr (t_base_commit t))"
  "map_of (task_members t) ''base_tree'' = Some (JStr (t_base_tree t))"
  "map_of (task_members t) ''authority'' = Some (JStr (authority_name (t_authority t)))"
  "map_of (task_members t) ''goal'' = Some (JStr (t_goal t))"
  "map_of (task_members t) ''branch_slug'' = Some (JStr (t_branch_slug t))"
  "map_of (task_members t) ''server_branch'' = Some (JStr (t_server_branch t))"
  "map_of (task_members t) ''worktree_path'' = Some (JStr (t_worktree_path t))"
  "map_of (task_members t) ''lifecycle'' = Some (JStr (lifecycle_name (t_lifecycle t)))"
  "map_of (task_members t) ''worktree_state'' = Some (JStr (worktree_name (t_worktree_state t)))"
  "map_of (task_members t) ''branch_state'' = Some (JStr (branch_name (t_branch_state t)))"
  "map_of (task_members t) ''worktree_head'' = Some (nullable (t_worktree_head t))"
  "map_of (task_members t) ''worktree_tree'' = Some (nullable (t_worktree_tree t))"
  "map_of (task_members t) ''registration_state'' = Some (JStr (registration_name (t_registration_state t)))"
  "map_of (task_members t) ''close_disposition'' = Some (nullable (map_option disposition_name (t_close_disposition t)))"
  "map_of (task_members t) ''closed_at'' = Some (nullable (t_closed_at t))"
  "map_of (task_members t) ''close_reason'' = map_option JStr (t_close_reason t)"
  "map_of (task_members t) ''cleanup_note'' = map_option JStr (t_cleanup_note t)"
  "map_of (task_members t) ''revision'' = Some (JNum (int (t_revision t)))"
  "map_of (task_members t) ''created_at'' = Some (JStr (t_created_at t))"
  "map_of (task_members t) ''updated_at'' = Some (JStr (t_updated_at t))"
  by (simp_all add: task_members_def optional_member_def split: option.split)

lemma task_members_inject:
  assumes members: "map_of (task_members t) = map_of (task_members u)"
    and sha: "t_state_sha256 t = t_state_sha256 u"
  shows "t = u"
proof -
  have look: "map_of (task_members t) k = map_of (task_members u) k" for k
    by (simp add: members)
  have reason: "t_close_reason t = t_close_reason u"
    using look [of "''close_reason''"] by (cases "t_close_reason t"; cases "t_close_reason u") (simp_all add: task_lookup)
  have cnote: "t_cleanup_note t = t_cleanup_note u"
    using look [of "''cleanup_note''"] by (cases "t_cleanup_note t"; cases "t_cleanup_note u") (simp_all add: task_lookup)
  show ?thesis
    by (rule task_state.equality)
      (use look [of "''task_id''"] look [of "''repo_id''"] look [of "''base_repo_id''"] look [of "''base_branch''"]
        look [of "''base_commit''"] look [of "''base_tree''"] look [of "''authority''"] look [of "''goal''"]
        look [of "''branch_slug''"] look [of "''server_branch''"] look [of "''worktree_path''"]
        look [of "''lifecycle''"] look [of "''worktree_state''"] look [of "''branch_state''"]
        look [of "''worktree_head''"] look [of "''worktree_tree''"] look [of "''registration_state''"]
        look [of "''close_disposition''"] look [of "''closed_at''"] look [of "''revision''"]
        look [of "''created_at''"] look [of "''updated_at''"] reason cnote sha
        in \<open>simp_all add: task_lookup\<close>)
qed

lemma task_members_keys: "distinct (map fst (task_members t))"
  by (cases "t_close_reason t"; cases "t_cleanup_note t") (simp_all add: task_members_def optional_member_def)

lemma key_sorted_nullable [simp]: "key_sorted (nullable x) = nullable x" "wf_json (nullable x)"
  by (cases x; simp add: nullable_def)+

lemma task_members_flat: "map (apsnd key_sorted) (task_members t) = task_members t"
  by (cases "t_close_reason t"; cases "t_cleanup_note t") (simp_all add: task_members_def optional_member_def)

lemma task_members_wf: "wf_json (JObj (task_members t))"
  using task_members_keys [of t]
  by (cases "t_close_reason t"; cases "t_cleanup_note t") (simp_all add: task_members_def optional_member_def)

lemma task_text_inject:
  assumes "canonicalJson (JObj (task_members t)) = canonicalJson (JObj (task_members u))"
  shows "map_of (task_members t) = map_of (task_members u)"
proof -
  have "sort_key fst (task_members t) = sort_key fst (task_members u)"
    using assms canonicalJson_eq [OF task_members_wf task_members_wf, of t u] by (simp add: task_members_flat)
  then show ?thesis
    using map_of_sort_key [OF task_members_keys] by metis
qed

text \<open>Put any other record \<open>u\<close> with the digest field of a valid
  task record \<open>t\<close> in its file: unless the hash maps the two different canonical texts to the same
  digest, reading the task throws TASK_STATE_TAMPERED.\<close>

lemma changed_record_is_detected:
  assumes "verified_task E i t" and "task_id_schema i"
    and "u \<noteq> t" and "t_state_sha256 u = t_state_sha256 t"
    and "canonicalJson (JObj (task_members u)) \<noteq> canonicalJson (JObj (task_members t))
      \<Longrightarrow> re_sha256 E (canonicalJson (JObj (task_members u))) \<noteq> re_sha256 E (canonicalJson (JObj (task_members t)))"
    and "map_of (rt_tasks s) (task_key E i) = Some (Stored u)" and "readable E s"
  shows "fst (readTask E i s) = Inl (TaskErr ''TASK_STATE_TAMPERED'')"
proof -
  have "canonicalJson (JObj (task_members u)) \<noteq> canonicalJson (JObj (task_members t))"
    using assms(3,4) task_text_inject task_members_inject by blast
  then have "task_digest E u \<noteq> task_digest E t"
    using assms(5) by (simp add: task_digest_def sha256Json_def)
  with assms(1,4) have "\<not> verified_task E i u"
    by (simp add: verified_task_def)
  with assms show ?thesis
    by (simp add: readTask_run readDigested_def tampered_def)
qed

text \<open>A hash that gives the text of one record its own digest, and that record with another goal.\<close>

definition pinned_env :: "(bool \<times> bool) rt_env" where
  "pinned_env = demo_env\<lparr>re_sha256 := \<lambda>s. replicate 64
     (if s = canonicalJson (JObj (task_members (demo_task OPEN None None))) then CHR ''0'' else CHR ''1'')\<rparr>"

definition changed_task :: task_state where
  "changed_task = (demo_task OPEN None None)\<lparr>t_goal := ''other''\<rparr>"

lemma changed_task_text:
  "canonicalJson (JObj (task_members changed_task)) \<noteq> canonicalJson (JObj (task_members (demo_task OPEN None None)))"
proof
  assume "canonicalJson (JObj (task_members changed_task)) = canonicalJson (JObj (task_members (demo_task OPEN None None)))"
  then have "map_of (task_members changed_task) ''goal'' = map_of (task_members (demo_task OPEN None None)) ''goal''"
    by (rule fun_cong [OF task_text_inject])
  then show False
    by (simp add: task_lookup) (simp add: changed_task_def demo_task_def)
qed

lemma pinned_hash: "re_sha256 pinned_env s = replicate 64
    (if s = canonicalJson (JObj (task_members (demo_task OPEN None None))) then CHR ''0'' else CHR ''1'')"
  by (simp add: pinned_env_def del: canonicalJson.simps)

lemma pinned_task_verified: "verified_task pinned_env ''t'' (demo_task OPEN None None)"
proof -
  have "task_digest pinned_env (demo_task OPEN None None) = replicate 64 (CHR ''0'')"
    unfolding task_digest_def sha256Json_def pinned_hash by (simp only: if_True simp_thms)
  moreover have "re_datetime pinned_env = re_datetime demo_env"
    by (simp add: pinned_env_def)
  ultimately show ?thesis
    using demo_task_schema by (simp add: verified_task_def) (simp add: demo_task_def)
qed

lemma changed_record_is_detected_witness:
  "fst (readTask pinned_env ''t'' (demo_state\<lparr>rt_tasks := [(task_key pinned_env ''t'', Stored changed_task)]\<rparr>))
     = Inl (TaskErr ''TASK_STATE_TAMPERED'')"
proof (rule changed_record_is_detected [OF pinned_task_verified])
  show "task_id_schema ''t''"
    by code_simp
  show "changed_task \<noteq> demo_task OPEN None None" "t_state_sha256 changed_task = t_state_sha256 (demo_task OPEN None None)"
    by (simp_all add: changed_task_def demo_task_def)
  show "re_sha256 pinned_env (canonicalJson (JObj (task_members changed_task)))
      \<noteq> re_sha256 pinned_env (canonicalJson (JObj (task_members (demo_task OPEN None None))))"
    using changed_task_text unfolding pinned_hash by (simp del: canonicalJson.simps)
qed (simp_all add: readable_def pinned_env_def demo_env_def)

section \<open>What a successful open has established\<close>




















subsection \<open>Running the demonstration environment\<close>

lemma demo_fields [simp]:
  "re_sha256 demo_env = demo_hash" "re_datetime demo_env = (\<lambda>s. s = ''T'')" "re_now demo_env w = (''T'', w)"
  "re_read_fault demo_env w = (Read_Ok, w)" "re_ensure_directory demo_env d w = (Inr (), w)"
  "re_lock demo_env l w = (Inr (), w)" "re_unlock demo_env l w = (Inr (), w)"
  "re_register demo_env g w = (Inr (), w)" "re_unregister demo_env i w = (Inr (), w)"
  "re_get_base demo_env i w = (Inr \<lparr>br_repo_id = i, br_root = ''/r'', br_worktree_root = ''/w'',
         br_require_clean_base = None, br_max_concurrent_tasks = Some 1\<rparr>, w)"
  "re_worktrees demo_env = demo_worktrees"
  by (simp_all add: demo_env_def)
lemma demo_digests [simp]: "sha256Json demo_hash j = replicate 64 (CHR ''0'')"
  "hashedDiskKey demo_hash a b = replicate 64 (CHR ''0'')"
  "task_digest demo_env t = replicate 64 (CHR ''0'')" "operation_digest demo_env p = replicate 64 (CHR ''0'')"
  by (simp_all add: sha256Json_def hashedDiskKey_def demo_hash_def task_digest_def operation_digest_def)








end
