(* ===== verification/Mutation_Once.thy ===== *)
theory Mutation_Once
  imports Mutation_Store Store_Properties
begin

text \<open>
  The promise of the mutation runtime (src/services/durable-task-mutation-runtime.ts): over any
  sequence of requests, whatever fails, the tool behind an operation id is invoked at most
  once; and an operation id that has a record on disk never invokes its tool again.
\<close>

section \<open>Frames\<close>

text \<open>A property of the mutation records alone survives every task service handler.\<close>

definition rt_blind :: "(('w, 'z) rt_state_scheme \<Rightarrow> bool) \<Rightarrow> bool" where
  "rt_blind P \<longleftrightarrow>
     (\<forall>s f. P (rt_tasks_update f s) = P s) \<and> (\<forall>s f. P (rt_ops_update f s) = P s)
   \<and> (\<forall>s f. P (rt_trace_update f s) = P s) \<and> (\<forall>s f. P (rt_world_update f s) = P s)"

lemma service_frame:
  assumes "rt_blind P"
  shows "service_invariant E P"
proof
  note blind = assms [unfolded rt_blind_def]
  show "ignores_world P"
    using blind by (simp add: ignores_world_def)
  show "keeps P (recordE c)" for c
    by (rule keeps_recordE) (use blind in simp)
  show "keeps P (writeOperation E p)" for p
    by (rule keeps_wpI, rule wp_writeOperation) (use blind in \<open>simp_all add: store_operation_def\<close>)
  show "keeps P (writeTask E t)" for t
    by (rule keeps_wpI, rule wp_writeTask) (use blind in \<open>simp_all add: store_task_def\<close>)
qed

text \<open>\<open>moves A B m\<close>: from \<open>A\<close>, \<open>m\<close> ends in \<open>B\<close> on return and on throw.\<close>

definition moves :: "('s \<Rightarrow> bool) \<Rightarrow> ('s \<Rightarrow> bool) \<Rightarrow> ('e, 's, 'a) eff \<Rightarrow> bool" where
  "moves A B m \<longleftrightarrow> (\<forall>s. A s \<longrightarrow> B (snd (m s)))"

lemma moves_keeps: "keeps A m \<Longrightarrow> (\<And>s. A s \<Longrightarrow> B s) \<Longrightarrow> moves A B m"
  by (simp add: moves_def keeps_def)

lemma moves_bind_first:
  assumes "keeps A m" "\<And>s. A s \<Longrightarrow> B s" "\<And>x. moves A B (f x)"
  shows "moves A B (bindE m f)"
  unfolding moves_def bindE_def
proof (intro allI impI)
  fix s assume "A s"
  with assms(1) have "A (snd (m s))"
    by (simp add: keeps_def)
  with assms(2,3) show "B (snd (case m s of (r, s') \<Rightarrow> case r of Inl e \<Rightarrow> (Inl e, s') | Inr x \<Rightarrow> f x s'))"
    by (cases "m s"; cases "fst (m s)") (simp_all add: moves_def)
qed

lemma moves_bind_last:
  assumes "moves A B m" "\<And>x. keeps B (f x)"
  shows "moves A B (bindE m f)"
  unfolding moves_def bindE_def
proof (intro allI impI)
  fix s assume "A s"
  with assms(1) have "B (snd (m s))"
    by (simp add: moves_def)
  with assms(2) show "B (snd (case m s of (r, s') \<Rightarrow> case r of Inl e \<Rightarrow> (Inl e, s') | Inr x \<Rightarrow> f x s'))"
    by (cases "m s"; cases "fst (m s)") (simp_all add: keeps_def)
qed

lemma moves_catch: "moves A B m \<Longrightarrow> (\<And>e. keeps B (h e)) \<Longrightarrow> moves A B (catchE m h)"
  unfolding moves_def catchE_def keeps_def by (auto split: prod.split sum.split)

lemma moves_finally: "moves A B m \<Longrightarrow> keeps B f \<Longrightarrow> moves A B (finallyE m f)"
  unfolding moves_def finallyE_def keeps_def by (auto split: prod.split sum.split)

lemma moves_throw_if: "(\<And>s. A s \<Longrightarrow> B s) \<Longrightarrow> (\<not> b \<Longrightarrow> moves A B (f ())) \<Longrightarrow> moves A B (bindE (throw_if b e) f)"
  by (simp add: moves_def bindE_def throw_if_def throw_def ret_def)

lemma moves_case_prod: "(\<And>a b. moves A B (f a b)) \<Longrightarrow> moves A B (case p of (a, b) \<Rightarrow> f a b)"
  by (cases p) simp

text \<open>An action that moves from \<open>A\<close> to \<open>B\<close> does so when it is run on the exact task state.\<close>

lemmas service_steps = service_invariant.of_steps record_frame.frame_steps [OF service_invariant.axioms(1)]

lemma moves_runWithExactTaskState:
  assumes A: "service_invariant E A" and B: "service_invariant E B" and AB: "\<And>s. A s \<Longrightarrow> B s"
    and act: "\<And>before. moves A B (action before)"
  shows "moves A B (runWithExactTaskState E i h tr action)"
  unfolding runWithExactTaskState_def withLock_def
  apply (rule moves_bind_first, intro record_frame.frame_steps [OF service_invariant.axioms(1) [OF A]], erule AB)
  apply (rule moves_throw_if, erule AB)
  apply (rule moves_bind_first, intro record_frame.frame_steps [OF service_invariant.axioms(1) [OF A]], erule AB)
  apply (rule moves_finally)
   apply (rule moves_bind_first, intro record_frame.frame_steps [OF service_invariant.axioms(1) [OF A]], erule AB)
   apply (rule moves_throw_if, erule AB)
   apply (rule moves_bind_first, intro record_frame.frame_steps [OF service_invariant.axioms(1) [OF A]], erule AB)
   apply (rule moves_case_prod)+
   apply (rule moves_throw_if, erule AB)
   apply (simp only: Let_def)
   apply (rule moves_bind_last)
    apply (rule moves_catch, rule act)
    apply (intro pres_intros service_invariant.of_steps [OF B] record_frame.frame_steps [OF service_invariant.axioms(1) [OF B]])+
  apply (rule record_frame.of_world [OF service_invariant.axioms(1) [OF B]])
  done

section \<open>Once\<close>

definition recorded :: "'w rt_env \<Rightarrow> string \<Rightarrow> ('w, 'z) mut_state_scheme \<Rightarrow> bool" where
  "recorded E operation_id s \<longleftrightarrow> map_of (ms_mutations s) (mutation_key E operation_id) \<noteq> None"

text \<open>Every invoked operation has a record, and none was invoked twice.\<close>

definition invoked_once :: "'w rt_env \<Rightarrow> ('w, 'z) mut_state_scheme \<Rightarrow> bool" where
  "invoked_once E s \<longleftrightarrow> distinct (ms_invocations s) \<and> (\<forall>i \<in> set (ms_invocations s). recorded E i s)"

text \<open>The operation has a record but was not invoked yet.\<close>

definition ready :: "'w rt_env \<Rightarrow> string \<Rightarrow> ('w, 'z) mut_state_scheme \<Rightarrow> bool" where
  "ready E i s \<longleftrightarrow> invoked_once E s \<and> i \<notin> set (ms_invocations s) \<and> recorded E i s"

definition not_invoked :: "'w rt_env \<Rightarrow> string \<Rightarrow> ('w, 'z) mut_state_scheme \<Rightarrow> bool" where
  "not_invoked E i s \<longleftrightarrow> invoked_once E s \<and> i \<notin> set (ms_invocations s)"

lemmas once_defs = invoked_once_def ready_def not_invoked_def recorded_def

lemma once_blind: "rt_blind (invoked_once E)" "rt_blind (ready E i)" "rt_blind (not_invoked E i)"
  by (simp_all add: rt_blind_def once_defs)

lemma once_world: "ignores_world (invoked_once E)" "ignores_world (ready E i)" "ignores_world (not_invoked E i)"
  by (simp_all add: ignores_world_def once_defs)

lemma once_put: "invoked_once E s \<Longrightarrow> invoked_once E (put_mutation E r s)"
  "ready E i s \<Longrightarrow> ready E i (put_mutation E r s)"
  "not_invoked E i s \<Longrightarrow> not_invoked E i (put_mutation E r s)"
  by (auto simp: once_defs put_mutation_def)

text \<open>The steps of the store keep any property that the world and a further record leave alone.\<close>

lemma keeps_read_mutation: "ignores_world P \<Longrightarrow> keeps P (read_mutation E i)"
  unfolding read_mutation_def
  by (intro pres_intros) (auto intro!: pres_intros split: option.split disk_file.split)

lemma keeps_sign_mutation: "keeps P (sign_mutation E r)"
  unfolding sign_mutation_def by (intro pres_intros)

lemma keeps_transition:
  assumes "ignores_world P" "\<And>s r. P s \<Longrightarrow> P (put_mutation E r s)"
  shows "keeps P (transition_mutation E r ph f now)"
  unfolding transition_mutation_def assertTransition_def
  using assms by (intro pres_intros keeps_read_mutation keeps_sign_mutation keeps_atomicWrite)

text \<open>What the tool and the sink of validation logs leave alone.\<close>

definition tools_confined :: "('w, 'z) mutation_env \<Rightarrow> bool" where
  "tools_confined M \<longleftrightarrow>
     (\<forall>s. ms_mutations (snd (me_invoke M s)) = ms_mutations s \<and> ms_invocations (snd (me_invoke M s)) = ms_invocations s)
   \<and> (\<forall>a b c d e s. ms_mutations (snd (me_persist M a b c d e s)) = ms_mutations s
        \<and> ms_invocations (snd (me_persist M a b c d e s)) = ms_invocations s)"

lemma tools_confinedD:
  assumes "tools_confined M"
  shows "keeps (invoked_once E) (me_invoke M)" "keeps (invoked_once E) (me_persist M a b c d e)"
  using assms by (simp_all add: tools_confined_def keeps_def once_defs)

lemma moves_invoke_once:
  assumes "tools_confined M" and E: "me_rt M = E"
  shows "moves (ready E (m_operation_id r)) (invoked_once E) (invoke_once M r)"
  unfolding invoke_once_def E
  apply (rule moves_bind_first)
    apply (intro pres_intros once_world)
   apply (simp add: ready_def)
  apply (rule moves_bind_first, rule keeps_transition, rule once_world, erule once_put, simp add: ready_def)
  apply (rule moves_bind_last)
   apply (simp add: moves_def modifyE_def once_defs)
  apply (intro pres_intros tools_confinedD [OF assms(1)])
  done

lemma moves_execute:
  assumes M: "tools_confined M" and E: "me_rt M = E"
  shows "moves (ready E (m_operation_id r)) (invoked_once E) (execute_mutation M tool b t r)"
  unfolding execute_mutation_def E
  apply (rule moves_bind_last)
   apply (rule moves_runWithExactTaskState [OF service_frame service_frame])
      apply (rule once_blind)+
    apply (simp add: ready_def)
   apply (rule moves_invoke_once [OF M E])
  apply (simp only: split_paired_all prod.case)
  apply (intro pres_intros tools_confinedD [OF M] keeps_transition once_world once_put, assumption)
  done

lemma keeps_block:
  assumes E: "me_rt M = E"
  shows "keeps (invoked_once E) (block_mutation M b e)"
  unfolding block_mutation_def E
  by (intro pres_intros keeps_read_mutation keeps_transition once_world once_put)

text \<open>A created record bears the requested operation id and is on disk.\<close>

lemma wp_read_mutation:
  assumes "\<And>w. map_of (ms_mutations s) (mutation_key E i) = None \<Longrightarrow> Q None (s\<lparr>rt_world := w\<rparr>)"
    and "\<And>w r. map_of (ms_mutations s) (mutation_key E i) = Some (Stored r) \<Longrightarrow> m_operation_id r = i
       \<Longrightarrow> mutation_schema (re_datetime E) r \<Longrightarrow> mutation_digest E r = m_state_sha256 r \<Longrightarrow> Q (Some r) (s\<lparr>rt_world := w\<rparr>)"
    and "\<And>e w. R e (s\<lparr>rt_world := w\<rparr>)"
  shows "wp (read_mutation E i) Q R s"
  unfolding read_mutation_def wp_bindE wp_worldE
  using assms
  by (auto simp: wp_catchE wp_simps intro!: wp_readFile split: prod.split sum.split option.split disk_file.split)

lemma once_world_simps:
  "not_invoked E i (u\<lparr>rt_world := w\<rparr>) = not_invoked E i u" "recorded E i (u\<lparr>rt_world := w\<rparr>) = recorded E i u"
  "invoked_once E (u\<lparr>rt_world := w\<rparr>) = invoked_once E u" "ready E i (u\<lparr>rt_world := w\<rparr>) = ready E i u"
  by (simp_all add: once_defs)

lemma not_invoked_once: "not_invoked E i u \<Longrightarrow> invoked_once E u"
  by (simp add: not_invoked_def)

lemma wp_exclusiveWrite:
  assumes "not_invoked E (m_operation_id r) u"
  shows "wp (exclusiveWrite E r) (\<lambda>_. ready E (m_operation_id r)) (\<lambda>_. not_invoked E (m_operation_id r)) u"
proof -
  have put: "not_invoked E (m_operation_id r) (put_mutation E r v)" "ready E (m_operation_id r) (put_mutation E r v)"
    if "not_invoked E (m_operation_id r) v" for v
    using once_put(3) [OF that] by (simp_all add: ready_def not_invoked_def recorded_def put_mutation_def)
  have "wp (atomicWrite E (put_mutation E r)) (\<lambda>_. ready E (m_operation_id r)) (\<lambda>_. not_invoked E (m_operation_id r)) u"
    by (rule wp_atomicWrite) (use assms in \<open>simp_all add: put once_world_simps\<close>)
  with assms show ?thesis
    by (simp add: exclusiveWrite_def wp_bindE wp_getE wp_if wp_throw)
qed

lemma wp_write_or_read:
  assumes "not_invoked E (m_operation_id r) u"
  shows "wp (write_or_read E r) (\<lambda>x t. ready E (m_operation_id r) t \<and> m_operation_id x = m_operation_id r)
     (\<lambda>_. invoked_once E) u"
proof -
  have raced: "wp (read_mutation E (m_operation_id r)) (\<lambda>y. wp (case y of None \<Rightarrow> throw tampered | Some r \<Rightarrow> ret r)
      (\<lambda>x t. ready E (m_operation_id r) t \<and> m_operation_id x = m_operation_id r) (\<lambda>_. invoked_once E)) (\<lambda>_. invoked_once E) v"
    if v: "not_invoked E (m_operation_id r) v" for v
    by (rule wp_read_mutation)
      (use v not_invoked_once [OF v] in \<open>auto simp: wp_throw wp_ret once_world_simps ready_def not_invoked_def recorded_def\<close>)
  show ?thesis
    unfolding write_or_read_def wp_catchE wp_bindE wp_ret wp_if wp_throw
    by (rule wp_conseq [OF wp_exclusiveWrite [OF assms]]) (auto simp: raced not_invoked_once)
qed

lemma wp_create_mutation:
  assumes N: "not_invoked E (m_operation_id v) s"
  shows "wp (create_mutation E v) (\<lambda>r t. ready E (m_operation_id v) t \<and> m_operation_id r = m_operation_id v)
     (\<lambda>_. invoked_once E) s"
  unfolding create_mutation_def wp_bindE
proof (rule wp_read_mutation)
  fix w
  have n: "not_invoked E (m_operation_id v) (s\<lparr>rt_world := w\<rparr>)"
    using N by (simp add: once_world_simps)
  have "wp (bindE (sign_mutation E v) (write_or_read E))
      (\<lambda>r t. ready E (m_operation_id v) t \<and> m_operation_id r = m_operation_id v) (\<lambda>_. invoked_once E) (s\<lparr>rt_world := w\<rparr>)"
    using wp_write_or_read [of E "v\<lparr>m_state_sha256 := mutation_digest E v\<rparr>" "s\<lparr>rt_world := w\<rparr>"] n
    by (simp add: sign_mutation_def Let_def wp_bindE wp_throw_if wp_ret not_invoked_once)
  then show "wp (case None of None \<Rightarrow> bindE (sign_mutation E v) (write_or_read E) | Some r \<Rightarrow> ret r)
      (\<lambda>r t. ready E (m_operation_id v) t \<and> m_operation_id r = m_operation_id v) (\<lambda>_. invoked_once E) (s\<lparr>rt_world := w\<rparr>)"
    by simp
next
  fix w r assume "map_of (ms_mutations s) (mutation_key E (m_operation_id v)) = Some (Stored r)" "m_operation_id r = m_operation_id v"
  then show "wp (case Some r of None \<Rightarrow> bindE (sign_mutation E v) (write_or_read E) | Some r \<Rightarrow> ret r)
      (\<lambda>r t. ready E (m_operation_id v) t \<and> m_operation_id r = m_operation_id v) (\<lambda>_. invoked_once E) (s\<lparr>rt_world := w\<rparr>)"
    using N by (simp add: wp_ret once_world_simps ready_def not_invoked_def) (simp add: recorded_def)
qed (use N in \<open>simp add: once_world_simps not_invoked_once\<close>)

lemma moves_wp: "moves A B m \<Longrightarrow> A s \<Longrightarrow> wp m (\<lambda>_. B) (\<lambda>_. B) s"
  by (cases "m s"; cases "fst (m s)") (auto simp: moves_def wp_def)

lemma keeps_run_locked:
  assumes M: "tools_confined M" and E: "me_rt M = E"
  shows "keeps (invoked_once E) (run_locked M tool b t sha)"
proof (rule keeps_wpI)
  fix s :: "('a, 'b) mut_state_scheme" assume s: "invoked_once E s"
  have run: "wp (catchE (execute_mutation M tool b t r) (block_mutation M b)) (\<lambda>_. invoked_once E) (\<lambda>_. invoked_once E) u"
    if "ready E (m_operation_id r) u" for r u
    by (rule moves_wp [OF moves_catch [OF moves_execute [OF M E] keeps_block [OF E]] that])
  have fresh: "wp (bindE (now_iso E) (\<lambda>timestamp.
        bindE (create_mutation E (admitted_record b t tool sha timestamp)) (\<lambda>record.
        if m_request_sha256 record \<noteq> sha \<or> m_task_id record \<noteq> t \<or> m_tool record \<noteq> tool
        then ret (Task_Error ''TASK_OPERATION_CONFLICT'')
        else catchE (execute_mutation M tool b t record) (block_mutation M b))))
      (\<lambda>_. invoked_once E) (\<lambda>_. invoked_once E) u"
    if u: "not_invoked E (mb_operation_id b) u" for u
  proof -
    have create: "wp (create_mutation E (admitted_record b t tool sha n))
        (\<lambda>r v. ready E (mb_operation_id b) v \<and> m_operation_id r = mb_operation_id b) (\<lambda>_. invoked_once E) (u\<lparr>rt_world := w\<rparr>)" for n w
      using wp_create_mutation [of E "admitted_record b t tool sha n" "u\<lparr>rt_world := w\<rparr>"] u
      by (simp add: admitted_record_def once_world_simps)
    then show ?thesis
      unfolding wp_bindE now_iso_def wp_askE wp_if wp_ret
      using s u run by (auto split: prod.split intro!: wp_conseq [OF create] simp: ready_def)
  qed
  show "wp (run_locked M tool b t sha) (\<lambda>_. invoked_once E) (\<lambda>_. invoked_once E) s"
    unfolding run_locked_def E wp_bindE [of "read_mutation _ _"]
  proof (rule wp_read_mutation)
    fix w assume "map_of (ms_mutations s) (mutation_key E (mb_operation_id b)) = None"
    with s have "not_invoked E (mb_operation_id b) (s\<lparr>rt_world := w\<rparr>)"
      by (auto simp: once_world_simps not_invoked_def invoked_once_def recorded_def)
    from fresh [OF this] show "wp (case None of None \<Rightarrow> bindE (now_iso E) (\<lambda>timestamp.
        bindE (create_mutation E (admitted_record b t tool sha timestamp)) (\<lambda>record.
        if m_request_sha256 record \<noteq> sha \<or> m_task_id record \<noteq> t \<or> m_tool record \<noteq> tool
        then ret (Task_Error ''TASK_OPERATION_CONFLICT'')
        else catchE (execute_mutation M tool b t record) (block_mutation M b)))
       | Some r \<Rightarrow> ret (handleExisting r tool t (mb_repo_id b) sha))
       (\<lambda>_. invoked_once E) (\<lambda>_. invoked_once E) (s\<lparr>rt_world := w\<rparr>)"
      by simp
  qed (use s in \<open>simp_all add: wp_ret once_world_simps\<close>)
qed

lemma keeps_run_mutation:
  assumes M: "tools_confined M" and E: "me_rt M = E"
  shows "keeps (invoked_once E) (run_mutation M tool input)"
  unfolding run_mutation_def E
  by (intro pres_intros once_world keeps_run_locked [OF M E]) (auto intro!: pres_intros split: task_err.split)

text \<open>A sequence of requests, each with its tool and its collaborators.\<close>

definition run_all ::
  "(('w, 'z) mutation_env \<times> string \<times> (string \<times> json) list) list \<Rightarrow> ('w, 'z) mut_state_scheme \<Rightarrow> ('w, 'z) mut_state_scheme" where
  "run_all requests s = fold (\<lambda>(M, tool, input) u. snd (run_mutation M tool input u)) requests s"

text \<open>C6 (a mutation is invoked at most once). Over any sequence of mutation requests, whatever
  fails (reads, writes, locks, Git, the tools themselves), no operation id has its tool invoked
  twice, provided the tools do not touch the directory of mutation records.\<close>

theorem mutation_invoked_at_most_once:
  assumes "\<And>M tool input. (M, tool, input) \<in> set requests \<Longrightarrow> me_rt M = E \<and> tools_confined M"
    and "ms_invocations s = []"
  shows "distinct (ms_invocations (run_all requests s))"
proof -
  have "invoked_once E (fold (\<lambda>(M, tool, input) u. snd (run_mutation M tool input u)) rs u)"
    if "set rs \<subseteq> set requests" "invoked_once E u" for rs u
    using that
  proof (induction rs arbitrary: u)
    case (Cons r rs)
    obtain M tool input where r: "r = (M, tool, input)"
      by (cases r)
    with Cons.prems(1) assms(1) have "me_rt M = E" "tools_confined M"
      by auto
    with Cons.prems(2) have "invoked_once E (snd (run_mutation M tool input u))"
      by (intro keepsD [OF keeps_run_mutation]) simp_all
    with Cons r show ?case
      by simp
  qed simp
  moreover have "invoked_once E s"
    using assms(2) by (simp add: invoked_once_def)
  ultimately show ?thesis
    by (simp add: run_all_def invoked_once_def)
qed

definition demo_mutation :: "(bool \<times> bool, unit) mutation_env" where
  "demo_mutation = \<lparr>me_rt = demo_env, me_task_binding = (\<lambda>_. Some ''t''), me_invoke = ret (JObj []),
     me_persist = (\<lambda>_ _ _ _ r. ret r)\<rparr>"

definition demo_mutation_input :: "(string \<times> json) list" where
  "demo_mutation_input = [(''operation_id'', JStr ''operation-1''), (''repo_id'', JStr ''r''),
     (''expected_head_sha'', JStr (replicate 40 (CHR ''a''))), (''expected_tree_sha'', JStr (replicate 40 (CHR ''b'')))]"

definition demo_mut_state :: "(bool \<times> bool) mut_state" where
  "demo_mut_state = \<lparr>rt_tasks = [(task_key demo_env ''t'', Stored (demo_task OPEN None None))], rt_ops = [], rt_trace = [],
     rt_world = (True, True), ms_mutations = [], ms_invocations = []\<rparr>"

lemma demo_confined: "tools_confined demo_mutation"
  by (simp add: tools_confined_def demo_mutation_def ret_def)

theorem mutation_invoked_at_most_once_witness:
  "distinct (ms_invocations (run_all [(demo_mutation, ''repo_write_file'', demo_mutation_input),
     (demo_mutation, ''repo_write_file'', demo_mutation_input)] demo_mut_state))"
  by (rule mutation_invoked_at_most_once [where E = demo_env])
    (use demo_confined in \<open>auto simp: demo_mutation_def demo_mut_state_def\<close>)

text \<open>When the directory holds any file under
  the operation id, even a malformed one, a request under it changes nothing: no tool runs, no
  record moves, and the answer is never an executed result.\<close>

lemma recorded_operation_never_invokes:
  assumes "requireMutationBinding input = Inr b"
    and "map_of (ms_mutations s) (mutation_key (me_rt M) (mb_operation_id b)) \<noteq> None"
  shows "(\<forall>x. fst (run_mutation M tool input s) \<noteq> Inr (Executed x))
    \<and> (\<exists>w. snd (run_mutation M tool input s) = s\<lparr>rt_world := w\<rparr>)"
proof -
  define P where "P = (\<lambda>u. \<exists>w. u = s\<lparr>rt_world := w\<rparr>)"
  have P: "P s" "\<And>w u. P u \<Longrightarrow> P (u\<lparr>rt_world := w\<rparr>)"
    by (auto simp: P_def intro: exI [of _ "rt_world s"])
  have blind: "keeps P (worldE f)" for f
    using P(2) by (auto simp: keeps_def worldE_def split: prod.split)
  have read: "yields P (read_mutation (me_rt M) (mb_operation_id b)) (\<lambda>r. r \<noteq> None) (\<lambda>_. True)"
  proof (rule yieldsI, rule wp_read_mutation)
    fix u w assume u: "P u" and "map_of (ms_mutations u) (mutation_key (me_rt M) (mb_operation_id b)) = None"
    with assms(2) show "P (u\<lparr>rt_world := w\<rparr>) \<and> None \<noteq> None"
      by (auto simp: P_def)
  qed (use P(2) in auto)
  have locked: "yields P (run_locked M tool b t sha) (\<lambda>x. \<forall>r. x \<noteq> Executed r) (\<lambda>_. True)" for t sha
    unfolding run_locked_def
    by (rule yields_bindE [OF read]) (auto intro!: yields_ret simp: handleExisting_def)
  have "yields P (run_mutation M tool input) (\<lambda>x. \<forall>r. x \<noteq> Executed r) (\<lambda>_. True)"
    unfolding run_mutation_def
    apply (rule yields_catchE [where R = "\<lambda>_. True"])
     apply (simp add: assms(1) liftR_def [abs_def] bindE_def [of "\<lambda>s. (Inr b, s)"])
     apply (intro yields_case_option yields_ret; simp?)
     apply (rule yields_bind_frame, intro pres_intros)
     apply (rule yields_withLock [OF blind blind locked])
    apply (auto intro!: yields_ret split: task_err.split)
    done
  then have "wp (run_mutation M tool input) (\<lambda>x t. P t \<and> (\<forall>r. x \<noteq> Executed r)) (\<lambda>e t. P t \<and> True) s"
    using P(1) by (simp add: yields_def)
  then show ?thesis
    by (cases "run_mutation M tool input s"; cases "fst (run_mutation M tool input s)") (auto simp: wp_def P_def)
qed

lemma recorded_operation_never_invokes_witness:
  "\<exists>w. snd (run_mutation demo_mutation ''repo_write_file'' demo_mutation_input
      (demo_mut_state\<lparr>ms_mutations := [(mutation_key demo_env ''operation-1'', Malformed)]\<rparr>))
    = demo_mut_state\<lparr>ms_mutations := [(mutation_key demo_env ''operation-1'', Malformed)], rt_world := w\<rparr>"
proof -
  have "requireMutationBinding demo_mutation_input = Inr \<lparr>mb_operation_id = ''operation-1'', mb_repo_id = ''r'',
      mb_expected_head = replicate 40 (CHR ''a''), mb_expected_tree = replicate 40 (CHR ''b'')\<rparr>"
    by code_simp
  from recorded_operation_never_invokes [OF this, of "demo_mut_state\<lparr>ms_mutations := [(mutation_key demo_env ''operation-1'', Malformed)]\<rparr>"
      demo_mutation "''repo_write_file''"]
  show ?thesis
    by (simp add: demo_mutation_def)
qed

end
