(* ===== verification/Remote_Identity.thy ===== *)
theory Remote_Identity
  imports Runtime_State
begin

text \<open>
  The canonical identity of a Git remote (src/services/remote-identity.ts). The URL parser
  and \<open>decodeURIComponent\<close> of the platform are the two functions of \<open>url_lib\<close>;
  everything the source does before and after them is modelled on strings.
\<close>

record url_view =
  uv_protocol :: string
  uv_username :: string
  uv_password :: string
  uv_hostname :: string
  uv_port :: string
  uv_pathname :: string
  uv_search :: string
  uv_hash :: string

text \<open>\<open>None\<close> is a throw: an invalid URL, a malformed escape.\<close>

record url_lib =
  ul_parse :: "string \<Rightarrow> url_view option"
  ul_decode :: "string \<Rightarrow> string option"

section \<open>Strings and paths\<close>

text \<open>\<open>s.split(c)\<close> for a one-character separator.\<close>

fun split_on :: "char \<Rightarrow> string \<Rightarrow> string list" where
  "split_on c [] = [[]]"
| "split_on c (x # xs) = (if x = c then [] # split_on c xs
     else (case split_on c xs of [] \<Rightarrow> [[x]] | w # ws \<Rightarrow> (x # w) # ws))"

text \<open>The segments of \<open>normalizeString\<close>: the accumulator holds the kept segments, last first.\<close>

fun kept_segments :: "bool \<Rightarrow> string list \<Rightarrow> string list \<Rightarrow> string list" where
  "kept_segments climb acc [] = rev acc"
| "kept_segments climb acc (s # ss) =
     (if s = [] \<or> s = ''.'' then kept_segments climb acc ss
      else if s = ''..'' then
        (case acc of
           t # ts \<Rightarrow> if t = ''..'' then (if climb then kept_segments climb (s # acc) ss else kept_segments climb acc ss)
                    else kept_segments climb ts ss
         | [] \<Rightarrow> if climb then kept_segments climb [s] ss else kept_segments climb [] ss)
      else kept_segments climb (s # acc) ss)"

text \<open>\<open>posix.normalize\<close>\<close>

definition posix_normalize :: "string \<Rightarrow> string" where
  "posix_normalize p =
     (let absolute = prefix ''/'' p;
          body = join_with ''/'' (kept_segments (\<not> absolute) [] (split_on (CHR ''/'') p));
          trailing = (p \<noteq> [] \<and> last p = CHR ''/'') in
      if p = [] then ''.''
      else if body = [] then (if absolute then ''/'' else if trailing then ''./'' else ''.'')
      else (if absolute then ''/'' else []) @ body @ (if trailing then ''/'' else []))"

text \<open>\<open>resolve\<close> of an absolute path: normalized, without a trailing separator.\<close>

definition posix_resolve_absolute :: "string \<Rightarrow> string" where
  "posix_resolve_absolute p = ''/'' @ join_with ''/'' (kept_segments False [] (split_on (CHR ''/'') p))"

definition drop_trailing :: "char \<Rightarrow> string \<Rightarrow> string" where
  "drop_trailing c s = rev (dropWhile (\<lambda>x. x = c) (rev s))"

text \<open>\<open>.replace(/\.git$/i, "")\<close>\<close>

definition drop_git_suffix :: "string \<Rightarrow> string" where
  "drop_git_suffix s =
     (let n = length s - 4 in if 4 \<le> length s \<and> to_lower (drop n s) = ''.git'' then take n s else s)"

section \<open>Identities\<close>

definition identity_error :: "task_err + 'a" where
  "identity_error = Inl (RepoErr ''VALIDATION_ERROR'')"

definition networked_host :: "string \<Rightarrow> bool" where
  "networked_host host \<longleftrightarrow>
     host = ''localhost'' \<or> CHR ''.'' \<in> set host
   \<or> (3 \<le> length host \<and> hd host = CHR 0x5B \<and> last host = CHR 0x5D
      \<and> list_all (\<lambda>c. is_hex (lower_char c) \<or> c = CHR '':'') (butlast (tl host)))"

definition identity_path :: "string \<Rightarrow> string" where
  "identity_path raw =
     drop_git_suffix (drop_trailing (CHR ''/'') (dropWhile (\<lambda>c. c = CHR ''/'') raw))"

definition hostPathIdentity :: "string \<Rightarrow> string \<Rightarrow> string \<Rightarrow> task_err + string" where
  "hostPathIdentity hostname port raw =
     (let host = to_lower hostname; path = identity_path raw in
      if \<not> networked_host host \<or> path = []
         \<or> list_ex (\<lambda>s. s = ''.'' \<or> s = ''..'' \<or> s = []) (split_on (CHR ''/'') path)
      then identity_error
      else Inr (host @ (if port = [] then [] else '':'' @ port) @ ''/'' @ path))"

text \<open>\<open>/^[a-z][a-z0-9+.-]*:\/\//i\<close>: what follows the scheme and the two slashes.\<close>

definition after_scheme :: "string \<Rightarrow> string option" where
  "after_scheme s = (case s of [] \<Rightarrow> None
     | c # cs \<Rightarrow>
         let rest = dropWhile (\<lambda>x. is_alnum x \<or> x \<in> set ''+.-'') cs in
         if (is_lower c \<or> is_upper c) \<and> take 3 rest = ''://'' then Some (drop 3 rest) else None)"

definition url_identity :: "url_lib \<Rightarrow> string \<Rightarrow> string \<Rightarrow> task_err + string" where
  "url_identity U candidate after =
     (let raw = takeWhile (\<lambda>c. c \<noteq> CHR ''?'' \<and> c \<noteq> CHR 0x23) (dropWhile (\<lambda>c. c \<noteq> CHR ''/'') after) in
      case ul_decode U raw of
        None \<Rightarrow> Inl (OtherErr None)
      | Some decoded \<Rightarrow>
          if ''..'' \<in> set (split_on (CHR ''/'') decoded) then identity_error
          else (case ul_parse U candidate of
              None \<Rightarrow> Inl (OtherErr (Some ''ERR_INVALID_URL''))
            | Some url \<Rightarrow>
                if uv_hostname url = [] then identity_error
                else if uv_protocol url \<notin> {''http:'', ''https:'', ''ssh:'', ''git:''} then identity_error
                else hostPathIdentity (uv_hostname url) (uv_port url) (uv_pathname url)))"

text \<open>\<open>/^(?:[^@/:]+@)?([^:/]+):(.+)$/\<close>; the group before \<open>@\<close> is dropped when a host is left.\<close>

definition scp_parts :: "string \<Rightarrow> (string \<times> string) option" where
  "scp_parts s =
     (let before = takeWhile (\<lambda>c. c \<noteq> CHR '':'' \<and> c \<noteq> CHR ''/'') s;
          rest = dropWhile (\<lambda>c. c \<noteq> CHR '':'' \<and> c \<noteq> CHR ''/'') s;
          user = takeWhile (\<lambda>c. c \<noteq> CHR ''@'') before;
          host = (if user \<noteq> [] \<and> 1 < length (drop (length user) before) then drop (length user + 1) before else before) in
      case rest of
        [] \<Rightarrow> None
      | c # path \<Rightarrow>
          if c = CHR '':'' \<and> before \<noteq> [] \<and> path \<noteq> [] \<and> CHR 0x0A \<notin> set path \<and> CHR 0x0D \<notin> set path
          then Some (host, path) else None)"

text \<open>\<open>/^[A-Za-z0-9.-]+\/[A-Za-z0-9_./-]+(?:\.git)?$/\<close>\<close>

definition slash_parts :: "string \<Rightarrow> (string \<times> string) option" where
  "slash_parts s =
     (let host = takeWhile (\<lambda>c. c \<noteq> CHR ''/'') s; rest = dropWhile (\<lambda>c. c \<noteq> CHR ''/'') s in
      if host \<noteq> [] \<and> list_all (\<lambda>c. is_alnum c \<or> c \<in> set ''.-'') host \<and> 1 < length rest
         \<and> list_all (\<lambda>c. is_alnum c \<or> c \<in> set ''_./-'') (tl rest)
      then Some (host, tl rest) else None)"

definition file_url_identity :: "url_lib \<Rightarrow> string \<Rightarrow> task_err + string" where
  "file_url_identity U candidate = (case ul_parse U candidate of
       None \<Rightarrow> Inl (OtherErr (Some ''ERR_INVALID_URL''))
     | Some url \<Rightarrow>
         if uv_hostname url \<noteq> [] \<and> uv_hostname url \<noteq> ''localhost'' then identity_error
         else (case ul_decode U (uv_pathname url) of
             None \<Rightarrow> Inl (OtherErr None)
           | Some path \<Rightarrow> Inr (''file:'' @ posix_normalize path)))"

definition is_absolute_path :: "string \<Rightarrow> bool" where
  "is_absolute_path p = prefix ''/'' p"

definition normalizeRemoteIdentity :: "url_lib \<Rightarrow> string \<Rightarrow> task_err + string" where
  "normalizeRemoteIdentity U value =
     (let candidate = trim value in
      if candidate = [] \<or> CHR 0x00 \<in> set candidate then identity_error
      else if is_absolute_path candidate then Inr (''file:'' @ posix_normalize (posix_resolve_absolute candidate))
      else if prefix ''file://'' candidate then file_url_identity U candidate
      else if prefix ''file:'' candidate then
        (if \<not> is_absolute_path (drop 5 candidate) then identity_error
         else Inr (''file:'' @ posix_normalize (drop 5 candidate)))
      else (case after_scheme candidate of
          Some after \<Rightarrow> url_identity U candidate after
        | None \<Rightarrow>
            (case scp_parts candidate of
               Some (host, path) \<Rightarrow> hostPathIdentity host [] path
             | None \<Rightarrow>
                 (case slash_parts candidate of
                    Some (host, path) \<Rightarrow> hostPathIdentity host [] path
                  | None \<Rightarrow> identity_error))))"

definition is_repository_name :: "string \<Rightarrow> bool" where
  "is_repository_name s \<longleftrightarrow>
     (let ok = (\<lambda>c. is_alnum c \<or> c \<in> set ''_.-''); owner = takeWhile ok s; rest = dropWhile ok s in
      owner \<noteq> [] \<and> 1 < length rest \<and> hd rest = CHR ''/'' \<and> list_all ok (tl rest))"

definition githubRepositoryFromIdentity :: "url_lib \<Rightarrow> string \<Rightarrow> task_err + string option" where
  "githubRepositoryFromIdentity U identity =
     bindR (normalizeRemoteIdentity U identity) (\<lambda>normalized.
     if \<not> prefix ''github.com/'' (to_lower normalized) then Inr None
     else (let repository = drop 11 normalized in
       Inr (if is_repository_name repository then Some repository else None)))"

section \<open>What an identity looks like\<close>

lemma scp_identity_example:
  "normalizeRemoteIdentity \<lparr>ul_parse = (\<lambda>_. None), ul_decode = Some\<rparr> ''git@github.com:owner/name.git'' = Inr ''github.com/owner/name''"
  by code_simp

end
