(* ===== verification/Github_Types.thy ===== *)
theory Github_Types
  imports Remote_Identity
begin

text \<open>
  The vocabulary of the GitHub boundary (src/github/types.ts): the records exchanged with
  GitHub, Git and the durable stores, the boundary error, and the assertions on identifiers.
  The GitHub state extends the task runtime's by the directory of operation records, the
  directory of owner approvals and the list of external effects requested (a ghost field
  that no code reads). The GitHub CLI adapter, Git, the artifact sink and the clock are
  parameters, collected in \<open>gh_env\<close>; each is a function of the world with a result that may be
  an error.
\<close>

section \<open>Records\<close>

datatype github_semantic =
    SEM_remote_status | SEM_write_push | SEM_pr_create_or_update | SEM_pr_status | SEM_pr_review_threads
  | SEM_write_pr_reply | SEM_write_pr_resolve_thread | SEM_ci_status | SEM_write_ci_retry_failed
  | SEM_merge_gate_prepare | SEM_write_merge | SEM_post_merge_readback

fun semantic_name :: "github_semantic \<Rightarrow> string" where
  "semantic_name SEM_remote_status = ''repo_remote_status''"
| "semantic_name SEM_write_push = ''repo_write_push''"
| "semantic_name SEM_pr_create_or_update = ''repo_pr_create_or_update''"
| "semantic_name SEM_pr_status = ''repo_pr_status''"
| "semantic_name SEM_pr_review_threads = ''repo_pr_review_threads''"
| "semantic_name SEM_write_pr_reply = ''repo_write_pr_reply''"
| "semantic_name SEM_write_pr_resolve_thread = ''repo_write_pr_resolve_thread''"
| "semantic_name SEM_ci_status = ''repo_ci_status''"
| "semantic_name SEM_write_ci_retry_failed = ''repo_write_ci_retry_failed''"
| "semantic_name SEM_merge_gate_prepare = ''repo_merge_gate_prepare''"
| "semantic_name SEM_write_merge = ''repo_write_merge''"
| "semantic_name SEM_post_merge_readback = ''repo_post_merge_readback''"

datatype merge_method = Method_Merge | Method_Squash | Method_Rebase

fun method_name :: "merge_method \<Rightarrow> string" where
  "method_name Method_Merge = ''merge''"
| "method_name Method_Squash = ''squash''"
| "method_name Method_Rebase = ''rebase''"

datatype required_check = Check_Run string string | Commit_Status string

record repository_ref =
  rr_owner :: string
  rr_name :: string

record server_owned_task =
  sv_repo_id :: string
  sv_task_id :: string
  sv_root :: string
  sv_branch :: string
  sv_remote_name :: string
  sv_remote_identity :: string
  sv_repository :: repository_ref
  sv_base_branch :: string
  sv_merge_method :: merge_method
  sv_required_checks :: "required_check list"
  sv_transient_conclusions :: "string list"
  sv_independent_review :: "bool option"

record github_operation =
  g_operation_id :: string
  g_semantic :: github_semantic
  g_repo_id :: string
  g_task_id :: string
  g_subject_digest :: string
  g_binding_digest :: string
  g_phase :: op_phase
  g_created_at :: string
  g_updated_at :: string
  g_result :: "json option"
  g_failure_code :: "string option"

text \<open>The disk form of a GitHub operation (GitHubOperationDisk).\<close>

record github_disk = github_operation +
  g_revision :: nat
  g_state_sha256 :: string

record local_git_snapshot =
  lg_branch :: string
  lg_head :: string
  lg_tree :: string
  lg_clean :: bool
  lg_push_urls :: "string list"
  lg_upstream :: "string option"

record repository_snapshot =
  rp_id :: string
  rp_name_with_owner :: string
  rp_default_branch :: string
  rp_archived :: bool
  rp_viewer_permission :: string
  rp_merge_methods :: "merge_method \<Rightarrow> bool"

record ref_snapshot =
  rf_name :: string
  rf_sha :: string
  rf_tree :: string

datatype pr_state = PR_OPEN | PR_CLOSED | PR_MERGED

fun pr_state_name :: "pr_state \<Rightarrow> string" where
  "pr_state_name PR_OPEN = ''OPEN''"
| "pr_state_name PR_CLOSED = ''CLOSED''"
| "pr_state_name PR_MERGED = ''MERGED''"

datatype pr_mergeable = PR_MERGEABLE | PR_CONFLICTING | PR_MERGEABLE_UNKNOWN

fun mergeable_name :: "pr_mergeable \<Rightarrow> string" where
  "mergeable_name PR_MERGEABLE = ''MERGEABLE''"
| "mergeable_name PR_CONFLICTING = ''CONFLICTING''"
| "mergeable_name PR_MERGEABLE_UNKNOWN = ''UNKNOWN''"

record pull_request =
  pr_id :: string
  pr_number :: int
  pr_url :: string
  pr_state :: pr_state
  pr_is_draft :: bool
  pr_title :: string
  pr_head_ref :: string
  pr_head :: string
  pr_base_ref :: string
  pr_base :: string
  pr_title_digest :: string
  pr_body_digest :: string
  pr_markers :: "string list"
  pr_mergeable :: pr_mergeable
  pr_merge_state :: string
  pr_review_decision :: "string option"
  pr_updated_at :: string
  pr_merged_at :: "string option"
  pr_merge_commit :: "string option"

record review_comment =
  rc_id :: string
  rc_author :: string
  rc_body :: string
  rc_created_at :: string
  rc_updated_at :: string
  rc_url :: string

record review_thread =
  th_id :: string
  th_pr_id :: string
  th_pr_number :: int
  th_head :: string
  th_resolved :: bool
  th_outdated :: bool
  th_path :: string
  th_line :: "int option"
  th_original_line :: "int option"
  th_side :: "string option"
  th_comments :: "review_comment list"
  th_updated_at :: string

record thread_page =
  tp_pr_id :: string
  tp_pr_number :: int
  tp_head :: string
  tp_threads :: "review_thread list"
  tp_next_cursor :: "string option"

record reply_receipt =
  rv_comment :: review_comment
  rv_thread_id :: string
  rv_marker :: string

record merge_api_result =
  ma_merged :: bool
  ma_message :: string
  ma_sha :: "string option"

datatype run_status = RUN_queued | RUN_in_progress | RUN_completed | RUN_waiting | RUN_pending | RUN_requested

fun run_status_name :: "run_status \<Rightarrow> string" where
  "run_status_name RUN_queued = ''queued''"
| "run_status_name RUN_in_progress = ''in_progress''"
| "run_status_name RUN_completed = ''completed''"
| "run_status_name RUN_waiting = ''waiting''"
| "run_status_name RUN_pending = ''pending''"
| "run_status_name RUN_requested = ''requested''"

record check_run =
  ck_id :: int
  ck_name :: string
  ck_app :: string
  ck_head :: string
  ck_status :: run_status
  ck_conclusion :: "string option"

record check_run_page =
  cp_total :: int
  cp_runs :: "check_run list"

datatype commit_state = CS_error | CS_failure | CS_pending | CS_success

fun commit_state_name :: "commit_state \<Rightarrow> string" where
  "commit_state_name CS_error = ''error''"
| "commit_state_name CS_failure = ''failure''"
| "commit_state_name CS_pending = ''pending''"
| "commit_state_name CS_success = ''success''"

record commit_status =
  cs_id :: int
  cs_context :: string
  cs_state :: commit_state

record commit_status_page =
  sp_sha :: string
  sp_state :: commit_state
  sp_statuses :: "commit_status list"

record workflow_job =
  wj_id :: int
  wj_name :: string
  wj_status :: string
  wj_conclusion :: "string option"
  wj_started_at :: "string option"
  wj_completed_at :: "string option"
  wj_url :: string
  wj_failure_summary :: "string list"

record workflow_run =
  wr_id :: int
  wr_head :: string
  wr_attempt :: int
  wr_status :: run_status
  wr_conclusion :: "string option"
  wr_name :: string
  wr_event :: string
  wr_created_at :: string
  wr_updated_at :: string
  wr_url :: string
  wr_jobs :: "workflow_job list"

datatype check_observation_status = CHK_missing | CHK_pending | CHK_success | CHK_failure

fun check_status_name :: "check_observation_status \<Rightarrow> string" where
  "check_status_name CHK_missing = ''missing''"
| "check_status_name CHK_pending = ''pending''"
| "check_status_name CHK_success = ''success''"
| "check_status_name CHK_failure = ''failure''"

record check_observation =
  co_key :: string
  co_required :: required_check
  co_status :: check_observation_status
  co_source_id :: "int option"
  co_source_ids :: "int list option"
  co_conclusion :: "string option"

datatype ci_overall = CI_pending | CI_success | CI_failure | CI_no_runs

fun overall_name :: "ci_overall \<Rightarrow> string" where
  "overall_name CI_pending = ''pending''"
| "overall_name CI_success = ''success''"
| "overall_name CI_failure = ''failure''"
| "overall_name CI_no_runs = ''no_runs''"

record ci_evidence =
  ce_status_id :: string
  ce_digest :: string
  ce_state_digest :: string
  ce_head :: string
  ce_overall :: ci_overall
  ce_checks :: "check_observation list"
  ce_runs :: "workflow_run list"
  ce_observed_at :: string
  ce_artifact_id :: string

datatype compare_status = CMP_ahead | CMP_behind | CMP_diverged | CMP_identical

record compare_snapshot =
  cm_status :: compare_status
  cm_ahead_by :: int
  cm_behind_by :: int
  cm_merge_base :: string

datatype evidence_status = EV_passed | EV_failed | EV_missing

fun evidence_name :: "evidence_status \<Rightarrow> string" where
  "evidence_name EV_passed = ''passed''"
| "evidence_name EV_failed = ''failed''"
| "evidence_name EV_missing = ''missing''"

record validation_evidence =
  ve_status :: evidence_status
  ve_head :: string
  ve_tree :: string
  ve_id :: string
  ve_digest :: string
  ve_created_at :: "string option"

record review_evidence =
  ie_status :: evidence_status
  ie_head :: string
  ie_tree :: string
  ie_id :: string
  ie_digest :: string
  ie_findings :: "int option"

text \<open>The fields of the manifest that are literal types in the source hold no choice and appear
  only in its JSON form.\<close>

record manifest_core =
  mc_repo_id :: string
  mc_task_id :: string
  mc_repository_id :: string
  mc_name_with_owner :: string
  mc_pr_id :: string
  mc_pr_number :: int
  mc_base_branch :: string
  mc_base :: string
  mc_task_branch :: string
  mc_head :: string
  mc_tree :: string
  mc_merge_method :: merge_method
  mc_run_ids :: "string list"
  mc_thread_ids :: "string list"
  mc_ci_status_id :: string
  mc_ci_digest :: string
  mc_validation_id :: string
  mc_validation_digest :: string
  mc_review_id :: string
  mc_review_digest :: string
  mc_review_required :: bool
  mc_prepared_at :: string
  mc_expires_at :: string

record merge_manifest = manifest_core +
  mm_id :: string
  mm_sha256 :: string
  mm_artifact_id :: "string option"

datatype artifact_namespace =
    NS_remote | NS_push | NS_pr | NS_merge_gates | NS_ci | NS_review | NS_merge | NS_post_merge

fun namespace_name :: "artifact_namespace \<Rightarrow> string" where
  "namespace_name NS_remote = ''github-remote-evidence''"
| "namespace_name NS_push = ''github-push-evidence''"
| "namespace_name NS_pr = ''github-pr-evidence''"
| "namespace_name NS_merge_gates = ''github-merge-gates''"
| "namespace_name NS_ci = ''github-ci-evidence''"
| "namespace_name NS_review = ''github-review-evidence''"
| "namespace_name NS_merge = ''github-merge-evidence''"
| "namespace_name NS_post_merge = ''github-post-merge-evidence''"

section \<open>Errors\<close>

datatype gh_effect = NONE_EFFECT | KNOWN_EFFECT | UNKNOWN_EFFECT

text \<open>A \<open>GitHubBoundaryError\<close> with its code, effect, transience and the operation attached to it by
  \<open>operationError\<close>; or an error of the task runtime.\<close>

datatype gh_err =
    Boundary string gh_effect bool "github_operation option"
  | Runtime task_err

definition boundary :: "string \<Rightarrow> gh_err" where
  "boundary code = Boundary code NONE_EFFECT False None"

definition boundary_unknown :: "string \<Rightarrow> gh_err" where
  "boundary_unknown code = Boundary code UNKNOWN_EFFECT False None"

definition errorCode :: "string \<Rightarrow> gh_err \<Rightarrow> string" where
  "errorCode fallback e = (case e of Boundary c _ _ _ \<Rightarrow> c | Runtime _ \<Rightarrow> fallback)"

definition operationError :: "string \<Rightarrow> gh_err \<Rightarrow> github_operation \<Rightarrow> gh_err" where
  "operationError fallback e operation =
     (case e of Boundary c f t _ \<Rightarrow> Boundary c f t (Some operation)
      | Runtime _ \<Rightarrow> Boundary fallback NONE_EFFECT False (Some operation))"

definition isOperationError :: "gh_err \<Rightarrow> bool" where
  "isOperationError e = (case e of Boundary _ _ _ (Some _) \<Rightarrow> True | _ \<Rightarrow> False)"

definition hasCode :: "gh_err \<Rightarrow> string \<Rightarrow> bool" where
  "hasCode e code = (case e of Boundary c _ _ _ \<Rightarrow> c = code | Runtime t \<Rightarrow> err_code t = Some code)"

section \<open>Assertions on identifiers\<close>

definition is_repository_char :: "char \<Rightarrow> bool" where
  "is_repository_char c \<longleftrightarrow> is_alnum c \<or> c \<in> set ''_.-''"

definition assertRepositoryPart :: "string \<Rightarrow> gh_err + unit" where
  "assertRepositoryPart v = guardR (v \<noteq> [] \<and> list_all is_repository_char v) (boundary ''INVALID_REPOSITORY'')"

definition repositorySlug :: "repository_ref \<Rightarrow> gh_err + string" where
  "repositorySlug r =
     bindR (assertRepositoryPart (rr_owner r)) (\<lambda>_.
     bindR (assertRepositoryPart (rr_name r)) (\<lambda>_.
     Inr (rr_owner r @ ''/'' @ rr_name r)))"

definition assertSha :: "string \<Rightarrow> gh_err + string" where
  "assertSha v = (if hex_n 40 v then Inr v else Inl (boundary ''INVALID_SHA''))"

definition assertSafeIdentifier :: "string \<Rightarrow> gh_err + string" where
  "assertSafeIdentifier v = (if id_regex 0 199 v then Inr v else Inl (boundary ''INVALID_IDENTIFIER''))"

definition assertSafeBranch :: "string \<Rightarrow> gh_err + string" where
  "assertSafeBranch v =
     (if v = [] \<or> 200 < length v \<or> hd v = CHR ''/'' \<or> last v = CHR ''/'' \<or> contains ''..'' v
         \<or> contains [CHR 0x40, CHR 0x7B] v
         \<or> list_ex (\<lambda>c. is_space c \<or> c \<in> set [CHR 0x7E, CHR 0x5E, CHR '':'', CHR ''?'', CHR ''*'', CHR 0x5B, CHR 0x5D, CHR 0x5C]) v
      then Inl (boundary ''INVALID_BRANCH'') else Inr v)"

section \<open>The state and its environment\<close>

record approval_file =
  af_secure :: bool
  af_text :: string

text \<open>The calls that ask GitHub for an effect, with the operation that asks.\<close>

datatype effect_call =
    Call_Push string
  | Call_Create_Pr string
  | Call_Update_Pr string int
  | Call_Ready string
  | Call_Merge string int string merge_method
  | Call_Reply string
  | Call_Resolve string
  | Call_Retry string int

fun effect_operation :: "effect_call \<Rightarrow> string" where
  "effect_operation (Call_Push i) = i"
| "effect_operation (Call_Create_Pr i) = i"
| "effect_operation (Call_Update_Pr i _) = i"
| "effect_operation (Call_Ready i) = i"
| "effect_operation (Call_Merge i _ _ _) = i"
| "effect_operation (Call_Reply i) = i"
| "effect_operation (Call_Resolve i) = i"
| "effect_operation (Call_Retry i _) = i"

record 'w gh_state = "'w rt_state" +
  gs_ledger :: "(string \<times> github_disk disk_file) list"
  gs_approvals :: "(string \<times> approval_file) list"
  gs_calls :: "effect_call list"

type_synonym ('w, 'z, 'a) gh = "(gh_err, ('w, 'z) gh_state_scheme, 'a) eff"

datatype excl_fault = Excl_Ok | Excl_Not_Created gh_err | Excl_Cut nat gh_err

record 'w gh_env =
  ge_rt :: "'w rt_env"
  ge_now :: "'w \<Rightarrow> int \<times> 'w"
  ge_iso :: "int \<Rightarrow> string"
  ge_date :: "string \<Rightarrow> int option"
  ge_task :: "string \<Rightarrow> 'w \<Rightarrow> (gh_err + server_owned_task) \<times> 'w"
  ge_inspect :: "server_owned_task \<Rightarrow> 'w \<Rightarrow> (gh_err + local_git_snapshot) \<times> 'w"
  ge_is_ancestor :: "server_owned_task \<Rightarrow> string \<Rightarrow> string \<Rightarrow> 'w \<Rightarrow> (gh_err + bool) \<times> 'w"
  ge_push :: "server_owned_task \<Rightarrow> string \<Rightarrow> string \<Rightarrow> 'w \<Rightarrow> (gh_err + unit) \<times> 'w"
  ge_repository :: "repository_ref \<Rightarrow> 'w \<Rightarrow> (gh_err + repository_snapshot) \<times> 'w"
  ge_ref :: "repository_ref \<Rightarrow> string \<Rightarrow> 'w \<Rightarrow> (gh_err + ref_snapshot option) \<times> 'w"
  ge_open_prs :: "repository_ref \<Rightarrow> string \<Rightarrow> string \<Rightarrow> 'w \<Rightarrow> (gh_err + pull_request list) \<times> 'w"
  ge_pr :: "repository_ref \<Rightarrow> int \<Rightarrow> 'w \<Rightarrow> (gh_err + pull_request) \<times> 'w"
  ge_create_pr :: "repository_ref \<Rightarrow> string \<Rightarrow> string \<Rightarrow> string \<Rightarrow> string \<Rightarrow> 'w \<Rightarrow> (gh_err + pull_request) \<times> 'w"
  ge_update_pr :: "repository_ref \<Rightarrow> int \<Rightarrow> string \<Rightarrow> string \<Rightarrow> string \<Rightarrow> 'w \<Rightarrow> (gh_err + pull_request) \<times> 'w"
  ge_mark_ready :: "repository_ref \<Rightarrow> string \<Rightarrow> 'w \<Rightarrow> (gh_err + pull_request) \<times> 'w"
  ge_threads_page :: "repository_ref \<Rightarrow> int \<Rightarrow> nat \<Rightarrow> string option \<Rightarrow> 'w \<Rightarrow> (gh_err + thread_page) \<times> 'w"
  ge_reply :: "repository_ref \<Rightarrow> string \<Rightarrow> string \<Rightarrow> string \<Rightarrow> 'w \<Rightarrow> (gh_err + reply_receipt) \<times> 'w"
  ge_resolve :: "repository_ref \<Rightarrow> string \<Rightarrow> 'w \<Rightarrow> (gh_err + review_thread) \<times> 'w"
  ge_checks_page :: "repository_ref \<Rightarrow> string \<Rightarrow> nat \<Rightarrow> 'w \<Rightarrow> (gh_err + check_run_page) \<times> 'w"
  ge_statuses_page :: "repository_ref \<Rightarrow> string \<Rightarrow> nat \<Rightarrow> 'w \<Rightarrow> (gh_err + commit_status_page) \<times> 'w"
  ge_runs :: "repository_ref \<Rightarrow> string \<Rightarrow> 'w \<Rightarrow> (gh_err + workflow_run list) \<times> 'w"
  ge_run :: "repository_ref \<Rightarrow> int \<Rightarrow> 'w \<Rightarrow> (gh_err + workflow_run) \<times> 'w"
  ge_retry :: "repository_ref \<Rightarrow> int \<Rightarrow> 'w \<Rightarrow> (gh_err + unit) \<times> 'w"
  ge_merge :: "repository_ref \<Rightarrow> int \<Rightarrow> string \<Rightarrow> merge_method \<Rightarrow> 'w \<Rightarrow> (gh_err + merge_api_result) \<times> 'w"
  ge_compare :: "repository_ref \<Rightarrow> string \<Rightarrow> string \<Rightarrow> 'w \<Rightarrow> (gh_err + compare_snapshot) \<times> 'w"
  ge_put_json :: "artifact_namespace \<Rightarrow> string \<Rightarrow> json \<Rightarrow> 'w \<Rightarrow> (gh_err + string) \<times> 'w"
  ge_get_json :: "artifact_namespace \<Rightarrow> string \<Rightarrow> 'w \<Rightarrow> (gh_err + json option) \<times> 'w"
  ge_validation :: "server_owned_task \<Rightarrow> 'w \<Rightarrow> (gh_err + validation_evidence) \<times> 'w"
  ge_review :: "server_owned_task \<Rightarrow> 'w \<Rightarrow> (gh_err + review_evidence) \<times> 'w"
  ge_approval_directory :: "'w \<Rightarrow> (gh_err + unit) \<times> 'w"
  ge_opaque_id :: "'w \<Rightarrow> string \<times> 'w"
  ge_excl_fault :: "'w \<Rightarrow> excl_fault \<times> 'w"
  ge_read_fault :: "'w \<Rightarrow> (gh_err + unit) \<times> 'w"
  ge_sync :: "'w \<Rightarrow> (gh_err + unit) \<times> 'w"
  ge_secret_free :: "string \<Rightarrow> bool"
  ge_urls :: url_lib
  ge_fuel :: nat

section \<open>Primitive effects\<close>

text \<open>A question to the world that answers in the boundary's errors.\<close>

definition askG :: "('w \<Rightarrow> (gh_err + 'a) \<times> 'w) \<Rightarrow> ('w, 'z, 'a) gh" where
  "askG f = (\<lambda>s. case f (rt_world s) of (r, w) \<Rightarrow> (r, s\<lparr>rt_world := w\<rparr>))"

definition readG :: "('w \<Rightarrow> 'a \<times> 'w) \<Rightarrow> ('w, 'z, 'a) gh" where
  "readG f = (\<lambda>s. case f (rt_world s) of (x, w) \<Rightarrow> (Inr x, s\<lparr>rt_world := w\<rparr>))"

text \<open>A step of the task runtime, its errors embedded.\<close>

definition runtimeE :: "('w, 'z gh_state_ext, 'a) rt \<Rightarrow> ('w, 'z, 'a) gh" where
  "runtimeE m = catchE m (\<lambda>e. throw (Runtime e))"

definition withLockG :: "'w gh_env \<Rightarrow> string \<Rightarrow> ('w, 'z, 'a) gh \<Rightarrow> ('w, 'z, 'a) gh" where
  "withLockG E lock_id action =
     bindE (runtimeE (worldE (re_lock (ge_rt E) lock_id))) (\<lambda>_.
     finallyE action (runtimeE (worldE (re_unlock (ge_rt E) lock_id))))"

text \<open>\<open>clock.now().toISOString()\<close>\<close>

definition now_text :: "'w gh_env \<Rightarrow> ('w, 'z, string) gh" where
  "now_text E = bindE (readG (ge_now E)) (\<lambda>ms. ret (ge_iso E ms))"

text \<open>A call that asks for an effect: it is recorded, then the world answers.\<close>

definition effectG :: "effect_call \<Rightarrow> ('w \<Rightarrow> (gh_err + 'a) \<times> 'w) \<Rightarrow> ('w, 'z, 'a) gh" where
  "effectG c f = bindE (modifyE (\<lambda>s. s\<lparr>gs_calls := gs_calls s @ [c]\<rparr>)) (\<lambda>_. askG f)"

lemma wp_ret_eta [wp_simps]: "wp (ret x) Q R = Q x"
  by (simp add: fun_eq_iff wp_ret)

lemma wp_throw_eta [wp_simps]: "wp (throw e) Q R = R e"
  by (simp add: fun_eq_iff wp_throw)

lemma wp_askG [wp_simps]:
  "wp (askG f) Q R s = (case f (rt_world s) of (r, w) \<Rightarrow>
     (case r of Inl e \<Rightarrow> R e (s\<lparr>rt_world := w\<rparr>) | Inr x \<Rightarrow> Q x (s\<lparr>rt_world := w\<rparr>)))"
  by (simp add: wp_def askG_def split: prod.split)

lemma wp_readG [wp_simps]:
  "wp (readG f) Q R s = (case f (rt_world s) of (x, w) \<Rightarrow> Q x (s\<lparr>rt_world := w\<rparr>))"
  by (simp add: wp_def readG_def split: prod.split)

lemma wp_runtimeE [wp_simps]: "wp (runtimeE m) Q R s = wp m Q (\<lambda>e. R (Runtime e)) s"
  by (simp add: wp_def runtimeE_def catchE_def throw_def split: prod.split sum.split)

lemma keeps_askG [pres_intros]: "ignores_world P \<Longrightarrow> keeps P (askG f)"
  by (auto simp: keeps_def askG_def ignores_worldD split: prod.split)

lemma keeps_readG [pres_intros]: "ignores_world P \<Longrightarrow> keeps P (readG f)"
  by (auto simp: keeps_def readG_def ignores_worldD split: prod.split)

lemma keeps_runtimeE [pres_intros]: "keeps P m \<Longrightarrow> keeps P (runtimeE m)"
  unfolding runtimeE_def by (intro pres_intros)

lemma keeps_withLockG [pres_intros]: "ignores_world P \<Longrightarrow> keeps P m \<Longrightarrow> keeps P (withLockG E l m)"
  unfolding withLockG_def by (intro pres_intros)

lemma keeps_now_text [pres_intros]: "ignores_world P \<Longrightarrow> keeps P (now_text E)"
  unfolding now_text_def by (intro pres_intros)

section \<open>Facts about the assertions\<close>

lemma repositorySlug_Inr:
  "repositorySlug r = Inr s \<Longrightarrow> s = rr_owner r @ ''/'' @ rr_name r"
  by (simp add: repositorySlug_def)

lemma assertSha_Inr [simp]: "assertSha v = Inr w \<longleftrightarrow> w = v \<and> hex_n 40 v"
  by (auto simp: assertSha_def)

lemma assertSafeIdentifier_Inr [simp]: "assertSafeIdentifier v = Inr w \<longleftrightarrow> w = v \<and> id_regex 0 199 v"
  by (auto simp: assertSafeIdentifier_def)

lemma assertSafeBranch_same: "assertSafeBranch v = Inr w \<Longrightarrow> w = v"
  by (simp add: assertSafeBranch_def split: if_splits)

end
