(* ===== verification/Github_Ledger.thy ===== *)
theory Github_Ledger
  imports Github_Types Phase_Machine
begin

text \<open>
  The durable ledger of GitHub operations (class DurableGitHubOperationLedger of
  src/services/github-runtime-adapters.ts) and the controller that admits an operation id
  once and moves it along the permitted transitions (src/github/operation-controller.ts).
  Every step a ledger record makes is a compare-and-set under the lock of its operation id:
  the locale \<open>ledger_frame\<close> of \<open>Github_Frame\<close> states what that promises.
\<close>

section \<open>The disk record\<close>

definition is_failure_code :: "string \<Rightarrow> bool" where
  "is_failure_code c \<longleftrightarrow> length_between 1 160 c \<and> list_all (\<lambda>x. is_upper x \<or> is_digit x \<or> x = CHR ''_'') c"

definition github_disk_schema :: "(string \<Rightarrow> bool) \<Rightarrow> github_disk \<Rightarrow> bool" where
  "github_disk_schema dt r \<longleftrightarrow>
     length_between 8 160 (g_operation_id r) \<and> length_between 1 200 (g_repo_id r) \<and> length_between 1 128 (g_task_id r)
   \<and> sha256_schema (g_subject_digest r) \<and> sha256_schema (g_binding_digest r)
   \<and> dt (g_created_at r) \<and> dt (g_updated_at r) \<and> optional is_failure_code (g_failure_code r)
   \<and> sha256_schema (g_state_sha256 r)"

definition github_members :: "github_disk \<Rightarrow> (string \<times> json) list" where
  "github_members r =
     [(''schema_version'', JNum 1), (''operationId'', JStr (g_operation_id r)),
      (''semantic'', JStr (semantic_name (g_semantic r))), (''repoId'', JStr (g_repo_id r)),
      (''taskId'', JStr (g_task_id r)), (''subjectDigest'', JStr (g_subject_digest r)),
      (''bindingDigest'', JStr (g_binding_digest r)), (''phase'', JStr (phase_name (g_phase r))),
      (''createdAt'', JStr (g_created_at r)), (''updatedAt'', JStr (g_updated_at r))]
     @ (case g_result r of None \<Rightarrow> [] | Some v \<Rightarrow> [(''result'', v)])
     @ optional_member ''failureCode'' (g_failure_code r)
     @ [(''revision'', JNum (int (g_revision r)))]"

definition github_digest :: "'w gh_env \<Rightarrow> github_disk \<Rightarrow> string" where
  "github_digest E r = sha256Json (re_sha256 (ge_rt E)) (JObj (github_members r))"

definition operationPath :: "'w gh_env \<Rightarrow> string \<Rightarrow> string" where
  "operationPath E operation_id = hashedDiskKey (re_sha256 (ge_rt E)) ''github-operation'' operation_id"

definition diskRecord :: "github_disk \<Rightarrow> github_operation" where
  "diskRecord r = github_operation.truncate r"

definition githubStateTampered :: gh_err where
  "githubStateTampered = boundary ''GITHUB_RUNTIME_STATE_TAMPERED''"

section \<open>The ledger\<close>

definition ledger_initialize :: "'w gh_env \<Rightarrow> ('w, 'z, unit) gh" where
  "ledger_initialize E = runtimeE (worldE (re_ensure_directory (ge_rt E) ''github-operations''))"

definition ledger_read :: "'w gh_env \<Rightarrow> string \<Rightarrow> ('w, 'z, github_disk option) gh" where
  "ledger_read E operation_id =
     bindE (runtimeE (readFile (ge_rt E) (\<lambda>s. map_of (gs_ledger s) (operationPath E operation_id)))) (\<lambda>f.
     case f of
       None \<Rightarrow> ret None
     | Some Malformed \<Rightarrow> throw githubStateTampered
     | Some (Stored r) \<Rightarrow>
         (if github_disk_schema (re_datetime (ge_rt E)) r \<and> github_digest E r = g_state_sha256 r
             \<and> operationPath E (g_operation_id r) = operationPath E operation_id
          then ret (Some r) else throw githubStateTampered))"

definition sign_github :: "'w gh_env \<Rightarrow> github_disk \<Rightarrow> github_disk" where
  "sign_github E r = r\<lparr>g_state_sha256 := github_digest E r\<rparr>"

definition store_github :: "'w gh_env \<Rightarrow> github_disk \<Rightarrow> ('w, 'z) gh_state_scheme \<Rightarrow> ('w, 'z) gh_state_scheme" where
  "store_github E r = gs_ledger_update (put_file (operationPath E (g_operation_id r)) (Stored r))"

definition ledger_write :: "'w gh_env \<Rightarrow> github_disk \<Rightarrow> bool \<Rightarrow> ('w, 'z, github_disk) gh" where
  "ledger_write E value exclusive =
     (let parsed = sign_github E value in
      bindE (throw_if (\<not> github_disk_schema (re_datetime (ge_rt E)) parsed) (Runtime ZodErr)) (\<lambda>_.
      bindE (getE (\<lambda>s. map_of (gs_ledger s) (operationPath E (g_operation_id parsed)))) (\<lambda>present.
      bindE (throw_if (exclusive \<and> present \<noteq> None) (Runtime (OtherErr (Some ''EEXIST'')))) (\<lambda>_.
      bindE (runtimeE (atomicWrite (ge_rt E) (store_github E parsed))) (\<lambda>_.
      ret parsed)))))"

definition new_disk :: "github_operation \<Rightarrow> github_disk" where
  "new_disk r = github_operation.extend r \<lparr>g_revision = 0, g_state_sha256 = []\<rparr>"

definition ledger_create :: "'w gh_env \<Rightarrow> github_operation \<Rightarrow> ('w, 'z, bool \<times> github_operation) gh" where
  "ledger_create E r =
     bindE (ledger_initialize E) (\<lambda>_.
     withLockG E (''github-operation:'' @ g_operation_id r)
       (bindE (ledger_read E (g_operation_id r)) (\<lambda>existing.
        case existing of
          Some d \<Rightarrow> ret (False, diskRecord d)
        | None \<Rightarrow> bindE (ledger_write E (new_disk r) True) (\<lambda>stored. ret (True, diskRecord stored)))))"

definition next_disk ::
  "github_disk \<Rightarrow> op_phase \<Rightarrow> string \<Rightarrow> json option \<Rightarrow> string option \<Rightarrow> github_disk" where
  "next_disk current next_phase updated_at result failure_code = current
     \<lparr>g_phase := next_phase, g_updated_at := updated_at,
      g_result := (case result of None \<Rightarrow> g_result current | Some v \<Rightarrow> Some v),
      g_failure_code := (case failure_code of None \<Rightarrow> g_failure_code current | Some c \<Rightarrow> Some c),
      g_revision := g_revision current + 1\<rparr>"

definition ledger_transition ::
  "'w gh_env \<Rightarrow> string \<Rightarrow> string \<Rightarrow> op_phase list \<Rightarrow> op_phase \<Rightarrow> string \<Rightarrow> json option \<Rightarrow> string option
   \<Rightarrow> ('w, 'z, github_operation) gh" where
  "ledger_transition E operation_id binding_digest expected next_phase updated_at result failure_code =
     withLockG E (''github-operation:'' @ operation_id)
       (bindE (ledger_read E operation_id) (\<lambda>current_option.
        case current_option of
          None \<Rightarrow> throw (boundary ''OPERATION_NOT_FOUND'')
        | Some current \<Rightarrow>
            bindE (throw_if (g_binding_digest current \<noteq> binding_digest \<or> g_phase current \<notin> set expected)
              (boundary ''OPERATION_TRANSITION_CONFLICT'')) (\<lambda>_.
            bindE (ledger_write E (next_disk current next_phase updated_at result failure_code) False) (\<lambda>stored.
            ret (diskRecord stored)))))"

definition ledger_list_entry ::
  "'w gh_env \<Rightarrow> github_disk list \<Rightarrow> string \<times> github_disk disk_file \<Rightarrow> ('w, 'z, github_disk list) gh" where
  "ledger_list_entry E records entry =
     bindE (throw_if (\<not> hex_n 64 (fst entry)) githubStateTampered) (\<lambda>_.
     bindE (runtimeE (readFile (ge_rt E) (\<lambda>_. Some (snd entry)))) (\<lambda>f.
     case f of
       Some (Stored r) \<Rightarrow>
         (if github_disk_schema (re_datetime (ge_rt E)) r \<and> operationPath E (g_operation_id r) = fst entry
             \<and> github_digest E r = g_state_sha256 r
          then ret (records @ [r]) else throw githubStateTampered)
     | _ \<Rightarrow> throw githubStateTampered))"

definition MAX_GITHUB_OPERATIONS :: nat where
  "MAX_GITHUB_OPERATIONS = 10000"

definition ledger_listAll :: "'w gh_env \<Rightarrow> ('w, 'z, github_disk list) gh" where
  "ledger_listAll E =
     bindE (ledger_initialize E) (\<lambda>_.
     bindE (getE gs_ledger) (\<lambda>entries.
     bindE (throw_if (MAX_GITHUB_OPERATIONS < length entries) (Runtime (TaskErr ''RUNTIME_SIZE_LIMIT''))) (\<lambda>_.
     foldE (ledger_list_entry E) [] entries)))"

definition findBySubject ::
  "'w gh_env \<Rightarrow> string \<Rightarrow> string \<Rightarrow> github_semantic option \<Rightarrow> string \<Rightarrow> ('w, 'z, github_operation list) gh" where
  "findBySubject E repo_id task_id semantic subject_digest =
     bindE (ledger_listAll E) (\<lambda>records.
     ret (map diskRecord (filter (\<lambda>r. g_repo_id r = repo_id \<and> g_task_id r = task_id
       \<and> g_subject_digest r = subject_digest \<and> (semantic = None \<or> semantic = Some (g_semantic r))) records)))"

definition compare_updated :: "'w gh_env \<Rightarrow> github_disk \<Rightarrow> github_disk \<Rightarrow> int" where
  "compare_updated E l r =
     (let c = re_compare (ge_rt E) (g_updated_at l) (g_updated_at r) in
      if c \<noteq> 0 then c else re_compare (ge_rt E) (g_operation_id l) (g_operation_id r))"

definition listForTask :: "'w gh_env \<Rightarrow> string \<Rightarrow> string \<Rightarrow> ('w, 'z, github_operation list) gh" where
  "listForTask E repo_id task_id =
     bindE (ledger_listAll E) (\<lambda>records.
     ret (map diskRecord (sort_cmp (compare_updated E)
       (filter (\<lambda>r. g_repo_id r = repo_id \<and> g_task_id r = task_id) records))))"

definition withSubjectLock ::
  "'w gh_env \<Rightarrow> string \<Rightarrow> string \<Rightarrow> github_semantic \<Rightarrow> string \<Rightarrow> ('w, 'z, 'a) gh \<Rightarrow> ('w, 'z, 'a) gh" where
  "withSubjectLock E repo_id task_id semantic subject_digest action =
     bindE (throw_if (\<not> sha256_schema subject_digest) (boundary ''INVALID_SUBJECT_DIGEST'')) (\<lambda>_.
     withLockG E (''github-subject:'' @ sha256Json (re_sha256 (ge_rt E))
       (JObj [(''repoId'', JStr repo_id), (''taskId'', JStr task_id), (''semantic'', JStr (semantic_name semantic)),
              (''subjectDigest'', JStr subject_digest)])) action)"

section \<open>The controller\<close>

fun github_transitions :: "op_phase \<Rightarrow> op_phase list" where
  "github_transitions CREATED = [ADMITTED, FAILED_PRECONTACT, BLOCKED]"
| "github_transitions ADMITTED = [LOCAL_MUTATION_STARTED, EXTERNAL_PRECONTACT, EXTERNAL_SUCCEEDED, FAILED_PRECONTACT, BLOCKED]"
| "github_transitions LOCAL_MUTATION_STARTED = [LOCAL_MUTATION_COMPLETE, ROLLBACK_COMPLETE, BLOCKED]"
| "github_transitions LOCAL_MUTATION_COMPLETE = [EXTERNAL_PRECONTACT, EXTERNAL_SUCCEEDED, BLOCKED]"
| "github_transitions EXTERNAL_PRECONTACT = [EXTERNAL_CONTACTED, EXTERNAL_SUCCEEDED, FAILED_PRECONTACT, BLOCKED]"
| "github_transitions EXTERNAL_CONTACTED =
     [LOCAL_MUTATION_STARTED, EXTERNAL_SUCCEEDED, FAILED_KNOWN_AFTER_CONTACT, UNKNOWN_AFTER_CONTACT, BLOCKED]"
| "github_transitions EXTERNAL_SUCCEEDED = []"
| "github_transitions FAILED_PRECONTACT = []"
| "github_transitions FAILED_KNOWN_AFTER_CONTACT = []"
| "github_transitions UNKNOWN_AFTER_CONTACT = []"
| "github_transitions ROLLBACK_COMPLETE = []"
| "github_transitions BLOCKED = []"

definition settled_github :: "op_phase \<Rightarrow> bool" where
  "settled_github p \<longleftrightarrow> p \<in> {EXTERNAL_SUCCEEDED, FAILED_PRECONTACT, FAILED_KNOWN_AFTER_CONTACT,
     UNKNOWN_AFTER_CONTACT, ROLLBACK_COMPLETE, BLOCKED}"

interpretation github_table: phase_table github_transitions settled_github
proof
  fix p show "settled_github p \<Longrightarrow> github_transitions p = []"
    by (cases p) (auto simp: settled_github_def)
qed

text \<open>The phase type has no other values, so the first check of \<open>transition\<close> always passes.\<close>

definition assertStoredIdentity :: "github_operation \<Rightarrow> github_operation \<Rightarrow> ('w, 'z, unit) gh" where
  "assertStoredIdentity expected actual =
     throw_if (g_operation_id actual \<noteq> g_operation_id expected \<or> g_binding_digest actual \<noteq> g_binding_digest expected
       \<or> g_semantic actual \<noteq> g_semantic expected \<or> g_repo_id actual \<noteq> g_repo_id expected
       \<or> g_task_id actual \<noteq> g_task_id expected) (boundary ''OPERATION_ID_CONFLICT'')"

definition transition_github ::
  "'w gh_env \<Rightarrow> github_operation \<Rightarrow> op_phase \<Rightarrow> json option \<Rightarrow> string option \<Rightarrow> ('w, 'z, github_operation) gh" where
  "transition_github E current next_phase result failure_code =
     bindE (throw_if (next_phase \<notin> set (github_transitions (g_phase current)))
       (boundary ''INVALID_OPERATION_TRANSITION'')) (\<lambda>_.
     bindE (now_text E) (\<lambda>now.
     bindE (ledger_transition E (g_operation_id current) (g_binding_digest current) [g_phase current] next_phase now
       result (if failure_code = Some [] then None else failure_code)) (\<lambda>updated.
     bindE (assertStoredIdentity current updated) (\<lambda>_. ret updated))))"

datatype admission = EXECUTE github_operation | STORED github_operation

record admission_request =
  aq_operation_id :: string
  aq_semantic :: github_semantic
  aq_repo_id :: string
  aq_task_id :: string
  aq_subject :: json
  aq_binding :: json

definition created_record :: "'w gh_env \<Rightarrow> admission_request \<Rightarrow> string \<Rightarrow> github_operation" where
  "created_record E q now =
     \<lparr>g_operation_id = aq_operation_id q, g_semantic = aq_semantic q, g_repo_id = aq_repo_id q, g_task_id = aq_task_id q,
      g_subject_digest = sha256Json (re_sha256 (ge_rt E)) (aq_subject q),
      g_binding_digest = sha256Json (re_sha256 (ge_rt E)) (aq_binding q),
      g_phase = CREATED, g_created_at = now, g_updated_at = now, g_result = None, g_failure_code = None\<rparr>"

definition admit :: "'w gh_env \<Rightarrow> admission_request \<Rightarrow> ('w, 'z, admission) gh" where
  "admit E q =
     bindE (throw_if (\<not> id_regex 7 159 (aq_operation_id q)) (boundary ''INVALID_OPERATION_ID'')) (\<lambda>_.
     bindE (now_text E) (\<lambda>now.
     let record = created_record E q now in
     bindE (ledger_create E record) (\<lambda>(created, stored).
     bindE (assertStoredIdentity record stored) (\<lambda>_.
     if \<not> created then ret (STORED stored)
     else bindE (transition_github E stored ADMITTED None None) (\<lambda>admitted. ret (EXECUTE admitted))))))"

section \<open>What the ledger keeps\<close>

text \<open>A predicate that only a write of the ledger can change.\<close>

lemma keeps_ledger_initialize [pres_intros]: "ignores_world P \<Longrightarrow> keeps P (ledger_initialize E)"
  unfolding ledger_initialize_def by (intro pres_intros)

lemma keeps_ledger_read [pres_intros]: "ignores_world P \<Longrightarrow> keeps P (ledger_read E i)"
  unfolding ledger_read_def by (intro pres_intros) (auto intro!: pres_intros split: disk_file.split)

lemma keeps_ledger_list_entry [pres_intros]: "ignores_world P \<Longrightarrow> keeps P (ledger_list_entry E rs e)"
  unfolding ledger_list_entry_def
  by (intro pres_intros) (auto intro!: pres_intros split: option.split disk_file.split)

lemma keeps_ledger_listAll [pres_intros]: "ignores_world P \<Longrightarrow> keeps P (ledger_listAll E)"
  unfolding ledger_listAll_def by (intro pres_intros)

lemma keeps_findBySubject [pres_intros]: "ignores_world P \<Longrightarrow> keeps P (findBySubject E r t m d)"
  unfolding findBySubject_def by (intro pres_intros)

lemma keeps_listForTask [pres_intros]: "ignores_world P \<Longrightarrow> keeps P (listForTask E r t)"
  unfolding listForTask_def by (intro pres_intros)

lemma keeps_assertStoredIdentity [pres_intros]: "keeps P (assertStoredIdentity e a)"
  unfolding assertStoredIdentity_def by (intro pres_intros)

lemma keeps_withSubjectLock [pres_intros]:
  "ignores_world P \<Longrightarrow> keeps P m \<Longrightarrow> keeps P (withSubjectLock E r t n d m)"
  unfolding withSubjectLock_def by (intro pres_intros)

lemma wp_ledger_read:
  assumes "\<And>w. map_of (gs_ledger s) (operationPath E i) = None \<Longrightarrow> Q None (s\<lparr>rt_world := w\<rparr>)"
    and "\<And>w d. map_of (gs_ledger s) (operationPath E i) = Some (Stored d) \<Longrightarrow> github_disk_schema (re_datetime (ge_rt E)) d
       \<Longrightarrow> github_digest E d = g_state_sha256 d \<Longrightarrow> operationPath E (g_operation_id d) = operationPath E i
       \<Longrightarrow> Q (Some d) (s\<lparr>rt_world := w\<rparr>)"
    and "\<And>e w. R e (s\<lparr>rt_world := w\<rparr>)"
  shows "wp (ledger_read E i) Q R s"
  unfolding ledger_read_def wp_bindE wp_runtimeE
  by (rule wp_readFile) (use assms in \<open>auto simp: wp_simps split: option.split disk_file.split\<close>)

lemma wp_ledger_write:
  assumes "\<And>w. github_disk_schema (re_datetime (ge_rt E)) (sign_github E v)
       \<Longrightarrow> (exclusive \<Longrightarrow> map_of (gs_ledger s) (operationPath E (g_operation_id v)) = None)
       \<Longrightarrow> Q (sign_github E v) (store_github E (sign_github E v) (s\<lparr>rt_world := w\<rparr>))"
    and "\<And>e w. github_disk_schema (re_datetime (ge_rt E)) (sign_github E v)
       \<Longrightarrow> (exclusive \<Longrightarrow> map_of (gs_ledger s) (operationPath E (g_operation_id v)) = None)
       \<Longrightarrow> R e (store_github E (sign_github E v) (s\<lparr>rt_world := w\<rparr>))"
    and "\<And>e w. R e (s\<lparr>rt_world := w\<rparr>)" "\<And>e. R e s"
  shows "wp (ledger_write E v exclusive) Q R s"
proof -
  have id: "g_operation_id (sign_github E v) = g_operation_id v"
    by (simp add: sign_github_def)
  have "wp (atomicWrite (ge_rt E) (store_github E (sign_github E v))) (\<lambda>_. Q (sign_github E v)) (\<lambda>e. R (Runtime e)) s"
    if "github_disk_schema (re_datetime (ge_rt E)) (sign_github E v)"
      "exclusive \<longrightarrow> map_of (gs_ledger s) (operationPath E (g_operation_id v)) = None"
    by (rule wp_atomicWrite) (use assms that in auto)
  then show ?thesis
    using assms(4) by (auto simp: ledger_write_def Let_def wp_simps id)
qed

end
