(* ===== verification/Github_Approvals.thy ===== *)
theory Github_Approvals
  imports Github_Ledger
begin

text \<open>
  The owner's merge approvals (src/github/owner-approval-store.ts). An approval is a canonical
  JSON file created exclusively; claiming it creates a second file beside it, exclusively, so
  the file system decides which operation consumes the approval. The files are modelled by
  their bytes: what a reader accepts is what \<open>json_parse\<close> and the canonical encoder accept. A
  write that fails may leave no file or any prefix of its content. New files are created with
  mode 0600 by the process owner, so they pass the secure-file check; files that come from
  elsewhere may not (\<open>af_secure\<close>).
\<close>

section \<open>Records and their JSON\<close>

record owner_approval =
  oa_id :: string
  oa_gate :: string
  oa_gate_sha :: string
  oa_issued_at :: string
  oa_expires_at :: string
  oa_consumed :: bool
  oa_consumed_at :: "string option"
  oa_consumed_by :: "string option"

record approval_claim =
  ac_id :: string
  ac_gate :: string
  ac_gate_sha :: string
  ac_operation :: string
  ac_consumed_at :: string

definition approvalRecordJson :: "owner_approval \<Rightarrow> json" where
  "approvalRecordJson r = JObj
     [(''approvalId'', JStr (oa_id r)), (''gateId'', JStr (oa_gate r)), (''gateSha256'', JStr (oa_gate_sha r)),
      (''issuedAt'', JStr (oa_issued_at r)), (''expiresAt'', JStr (oa_expires_at r)), (''consumed'', JBool False)]"

definition approvalClaimJson :: "approval_claim \<Rightarrow> json" where
  "approvalClaimJson c = JObj
     [(''approvalId'', JStr (ac_id c)), (''gateId'', JStr (ac_gate c)), (''gateSha256'', JStr (ac_gate_sha c)),
      (''operationId'', JStr (ac_operation c)), (''consumedAt'', JStr (ac_consumed_at c))]"

section \<open>Assertions\<close>

definition is_base64url :: "char \<Rightarrow> bool" where
  "is_base64url c \<longleftrightarrow> is_alnum c \<or> c = CHR ''_'' \<or> c = CHR ''-''"

definition approval_id_ok :: "string \<Rightarrow> bool" where
  "approval_id_ok v \<longleftrightarrow> take 15 v = ''merge_approval_'' \<and> 16 \<le> length (drop 15 v) \<and> length (drop 15 v) \<le> 160
     \<and> list_all is_base64url (drop 15 v)"

definition assertApprovalId :: "string \<Rightarrow> gh_err + string" where
  "assertApprovalId v = (if approval_id_ok v then Inr v else Inl (boundary ''INVALID_APPROVAL_ID''))"

definition assertGateDigest :: "string \<Rightarrow> gh_err + string" where
  "assertGateDigest v = (if hex_n 64 v then Inr v else Inl (boundary ''INVALID_GATE_DIGEST''))"

definition assertGateId :: "string \<Rightarrow> string \<Rightarrow> gh_err + string" where
  "assertGateId v digest =
     bindR (assertSafeIdentifier v) (\<lambda>_.
     bindR (assertGateDigest digest) (\<lambda>d.
     if v \<noteq> ''merge_manifest_'' @ d then Inl (boundary ''INVALID_GATE_ID'') else Inr v))"

definition assertApprovalTimestamp :: "'w gh_env \<Rightarrow> string \<Rightarrow> gh_err + string" where
  "assertApprovalTimestamp E v = (if ge_date E v = None then Inl (boundary ''APPROVAL_FILE_INVALID'') else Inr v)"

definition assertTtl :: "int \<Rightarrow> gh_err + unit" where
  "assertTtl v = guardR (safe_integer v \<and> 1000 \<le> v \<and> v \<le> 60 * 60 * 1000) (boundary ''INVALID_APPROVAL_TTL'')"

section \<open>Parsing\<close>

definition string_member :: "(string \<times> json) list \<Rightarrow> string \<Rightarrow> string option" where
  "string_member kvs k = (case map_of kvs k of Some (JStr s) \<Rightarrow> Some s | _ \<Rightarrow> None)"

definition approval_keys :: "string list" where
  "approval_keys = [''approvalId'', ''consumed'', ''expiresAt'', ''gateId'', ''gateSha256'', ''issuedAt'']"

definition claim_keys :: "string list" where
  "claim_keys = [''approvalId'', ''consumedAt'', ''gateId'', ''gateSha256'', ''operationId'']"

definition parseApprovalRecord :: "'w gh_env \<Rightarrow> json \<Rightarrow> gh_err + owner_approval" where
  "parseApprovalRecord E v =
     (case v of
        JObj kvs \<Rightarrow>
          (case (string_member kvs ''approvalId'', string_member kvs ''gateId'', string_member kvs ''gateSha256'',
                 string_member kvs ''issuedAt'', string_member kvs ''expiresAt'') of
             (Some i, Some g, Some d, Some issued, Some expires) \<Rightarrow>
               (if map_of kvs ''consumed'' \<noteq> Some (JBool False) \<or> sort (map fst kvs) \<noteq> approval_keys
                then Inl (boundary ''APPROVAL_FILE_INVALID'')
                else
                  bindR (assertApprovalId i) (\<lambda>i. bindR (assertGateId g d) (\<lambda>g. bindR (assertGateDigest d) (\<lambda>d.
                  bindR (assertApprovalTimestamp E issued) (\<lambda>issued. bindR (assertApprovalTimestamp E expires) (\<lambda>expires.
                  Inr \<lparr>oa_id = i, oa_gate = g, oa_gate_sha = d, oa_issued_at = issued, oa_expires_at = expires,
                       oa_consumed = False, oa_consumed_at = None, oa_consumed_by = None\<rparr>))))))
           | _ \<Rightarrow> Inl (boundary ''APPROVAL_FILE_INVALID''))
      | _ \<Rightarrow> Inl (boundary ''APPROVAL_FILE_INVALID''))"

definition parseApprovalClaim :: "'w gh_env \<Rightarrow> json \<Rightarrow> gh_err + approval_claim" where
  "parseApprovalClaim E v =
     (case v of
        JObj kvs \<Rightarrow>
          (case (string_member kvs ''approvalId'', string_member kvs ''gateId'', string_member kvs ''gateSha256'',
                 string_member kvs ''operationId'', string_member kvs ''consumedAt'') of
             (Some i, Some g, Some d, Some operation, Some consumed) \<Rightarrow>
               (if sort (map fst kvs) \<noteq> claim_keys then Inl (boundary ''APPROVAL_CLAIM_INVALID'')
                else
                  bindR (assertApprovalId i) (\<lambda>i. bindR (assertGateId g d) (\<lambda>g. bindR (assertGateDigest d) (\<lambda>d.
                  bindR (assertSafeIdentifier operation) (\<lambda>operation.
                  bindR (assertApprovalTimestamp E consumed) (\<lambda>consumed.
                  Inr \<lparr>ac_id = i, ac_gate = g, ac_gate_sha = d, ac_operation = operation, ac_consumed_at = consumed\<rparr>))))))
           | _ \<Rightarrow> Inl (boundary ''APPROVAL_CLAIM_INVALID''))
      | _ \<Rightarrow> Inl (boundary ''APPROVAL_CLAIM_INVALID''))"

section \<open>Files\<close>

definition approval_name :: "string \<Rightarrow> string" where
  "approval_name approval_id = approval_id @ ''.json''"

definition claim_name :: "string \<Rightarrow> string" where
  "claim_name approval_id = approval_id @ ''.claim''"

definition put_approval :: "string \<Rightarrow> string \<Rightarrow> ('w, 'z) gh_state_scheme \<Rightarrow> ('w, 'z) gh_state_scheme" where
  "put_approval name bytes = gs_approvals_update (put_file name \<lparr>af_secure = True, af_text = bytes\<rparr>)"

definition approvalDirectory :: "'w gh_env \<Rightarrow> ('w, 'z, unit) gh" where
  "approvalDirectory E = askG (ge_approval_directory E)"

definition writeExclusiveFile :: "'w gh_env \<Rightarrow> string \<Rightarrow> json \<Rightarrow> ('w, 'z, unit) gh" where
  "writeExclusiveFile E name v =
     bindE (readG (ge_excl_fault E)) (\<lambda>fault.
     bindE (getE (\<lambda>s. map_of (gs_approvals s) name)) (\<lambda>present.
     case fault of
       Excl_Not_Created e \<Rightarrow> throw (if hasCode e ''EEXIST'' then boundary ''APPROVAL_ALREADY_EXISTS'' else e)
     | _ \<Rightarrow>
         if present \<noteq> None then throw (boundary ''APPROVAL_ALREADY_EXISTS'')
         else (case fault of
             Excl_Cut n e \<Rightarrow> bindE (modifyE (put_approval name (take n (file_text v)))) (\<lambda>_. throw e)
           | _ \<Rightarrow> modifyE (put_approval name (file_text v)))))"

definition assertSecureFile :: "'w gh_env \<Rightarrow> string \<Rightarrow> ('w, 'z, unit) gh" where
  "assertSecureFile E name =
     bindE (askG (ge_read_fault E)) (\<lambda>_.
     bindE (getE (\<lambda>s. map_of (gs_approvals s) name)) (\<lambda>f.
     case f of
       None \<Rightarrow> throw (Runtime (OtherErr (Some ''ENOENT'')))
     | Some f \<Rightarrow> throw_if (\<not> af_secure f) (boundary ''APPROVAL_FILE_UNSAFE'')))"

definition readSecureFile :: "'w gh_env \<Rightarrow> string \<Rightarrow> string \<Rightarrow> ('w, 'z, string) gh" where
  "readSecureFile E name invalid_code =
     bindE (getE (\<lambda>s. map_of (gs_approvals s) name)) (\<lambda>f.
     case f of
       None \<Rightarrow> throw (Runtime (OtherErr (Some ''ENOENT'')))
     | Some f \<Rightarrow>
         bindE (askG (ge_read_fault E)) (\<lambda>_.
         bindE (throw_if (\<not> af_secure f \<or> utf8_length (af_text f) = 0 \<or> 16384 < utf8_length (af_text f))
           (boundary invalid_code)) (\<lambda>_.
         ret (af_text f))))"

definition syncDirectory :: "'w gh_env \<Rightarrow> ('w, 'z, unit) gh" where
  "syncDirectory E = askG (ge_sync E)"

text \<open>\<open>ENOENT\<close> is the absent claim; a failing \<open>JSON.parse\<close> throws a \<open>SyntaxError\<close>, which has no code.\<close>

definition readClaimIfPresent :: "'w gh_env \<Rightarrow> owner_approval \<Rightarrow> ('w, 'z, approval_claim option) gh" where
  "readClaimIfPresent E r =
     catchE
       (bindE (readSecureFile E (claim_name (oa_id r)) ''APPROVAL_CLAIM_INVALID'') (\<lambda>bytes.
        bindE (case json_parse bytes of None \<Rightarrow> throw (Runtime (OtherErr None)) | Some v \<Rightarrow> ret v) (\<lambda>v.
        bindE (liftR (parseApprovalClaim E v)) (\<lambda>parsed.
        bindE (throw_if (file_text (approvalClaimJson parsed) \<noteq> bytes) (boundary ''APPROVAL_CLAIM_INVALID'')) (\<lambda>_.
        ret (Some parsed))))))
       (\<lambda>e. if hasCode e ''ENOENT'' then ret None else throw e)"

section \<open>The operations\<close>

record gate_ref =
  gr_gate :: string
  gr_sha :: string

definition create_approval :: "'w gh_env \<Rightarrow> gate_ref \<Rightarrow> int \<Rightarrow> ('w, 'z, owner_approval) gh" where
  "create_approval E i ttl_ms =
     bindE (liftR (assertGateId (gr_gate i) (gr_sha i))) (\<lambda>gate_id.
     bindE (liftR (assertGateDigest (gr_sha i))) (\<lambda>gate_sha.
     bindE (liftR (assertTtl ttl_ms)) (\<lambda>_.
     bindE (readG (ge_opaque_id E)) (\<lambda>opaque.
     bindE (liftR (assertApprovalId (''merge_approval_'' @ opaque))) (\<lambda>approval_id.
     bindE (readG (ge_now E)) (\<lambda>issued_at.
     let r = \<lparr>oa_id = approval_id, oa_gate = gate_id, oa_gate_sha = gate_sha, oa_issued_at = ge_iso E issued_at,
              oa_expires_at = ge_iso E (issued_at + ttl_ms), oa_consumed = False, oa_consumed_at = None,
              oa_consumed_by = None\<rparr> in
     bindE (approvalDirectory E) (\<lambda>_.
     bindE (writeExclusiveFile E (approval_name approval_id) (approvalRecordJson r)) (\<lambda>_.
     bindE (assertSecureFile E (approval_name approval_id)) (\<lambda>_.
     bindE (syncDirectory E) (\<lambda>_.
     ret r))))))))))"

definition approval_expired :: "'w gh_env \<Rightarrow> owner_approval \<Rightarrow> int \<Rightarrow> bool" where
  "approval_expired E r now = (case ge_date E (oa_expires_at r) of None \<Rightarrow> False | Some t \<Rightarrow> t \<le> now)"

definition inspect_approval :: "'w gh_env \<Rightarrow> string \<Rightarrow> gate_ref \<Rightarrow> ('w, 'z, owner_approval) gh" where
  "inspect_approval E approval_id0 i =
     bindE (liftR (assertApprovalId approval_id0)) (\<lambda>approval_id.
     bindE (liftR (assertGateId (gr_gate i) (gr_sha i))) (\<lambda>gate_id.
     bindE (liftR (assertGateDigest (gr_sha i))) (\<lambda>gate_sha.
     bindE (approvalDirectory E) (\<lambda>_.
     bindE (readSecureFile E (approval_name approval_id) ''APPROVAL_FILE_INVALID'') (\<lambda>bytes.
     bindE (case json_parse bytes of None \<Rightarrow> throw (boundary ''APPROVAL_FILE_INVALID'') | Some v \<Rightarrow> ret v) (\<lambda>v.
     bindE (liftR (parseApprovalRecord E v)) (\<lambda>r.
     bindE (throw_if (file_text (approvalRecordJson r) \<noteq> bytes) (boundary ''APPROVAL_FILE_NON_CANONICAL'')) (\<lambda>_.
     bindE (throw_if (oa_gate r \<noteq> gate_id \<or> oa_gate_sha r \<noteq> gate_sha) (boundary ''APPROVAL_BINDING_MISMATCH'')) (\<lambda>_.
     bindE (readClaimIfPresent E r) (\<lambda>claim.
     case claim of
       Some c \<Rightarrow> ret (r\<lparr>oa_consumed := True, oa_consumed_at := Some (ac_consumed_at c),
                         oa_consumed_by := Some (ac_operation c)\<rparr>)
     | None \<Rightarrow>
         bindE (readG (ge_now E)) (\<lambda>now.
         bindE (throw_if (approval_expired E r now) (boundary ''APPROVAL_EXPIRED'')) (\<lambda>_.
         ret r))))))))))))"

text \<open>The \<open>catch\<close> block of \<open>claim\<close>: the claim another writer left decides.\<close>

definition observe_claim ::
  "'w gh_env \<Rightarrow> owner_approval \<Rightarrow> string \<Rightarrow> gh_err \<Rightarrow> ('w, 'z, owner_approval) gh" where
  "observe_claim E r operation_id error =
     bindE (catchE (readClaimIfPresent E r) (\<lambda>_. ret None)) (\<lambda>observed.
     case observed of
       None \<Rightarrow> throw error
     | Some c \<Rightarrow>
         bindE (throw_if (ac_gate c \<noteq> oa_gate r \<or> ac_gate_sha c \<noteq> oa_gate_sha r) (boundary ''APPROVAL_CLAIM_CONFLICT'')) (\<lambda>_.
         if ac_operation c = operation_id
         then ret (r\<lparr>oa_consumed := True, oa_consumed_at := Some (ac_consumed_at c),
                      oa_consumed_by := Some (ac_operation c)\<rparr>)
         else throw (boundary ''APPROVAL_CONSUMED'')))"

definition claim_approval ::
  "'w gh_env \<Rightarrow> string \<Rightarrow> gate_ref \<Rightarrow> string \<Rightarrow> ('w, 'z, owner_approval) gh" where
  "claim_approval E approval_id i operation_id0 =
     bindE (liftR (assertSafeIdentifier operation_id0)) (\<lambda>operation_id.
     bindE (inspect_approval E approval_id i) (\<lambda>r.
     bindE (throw_if (oa_consumed r) (boundary ''APPROVAL_CONSUMED'')) (\<lambda>_.
     bindE (approvalDirectory E) (\<lambda>_.
     bindE (now_text E) (\<lambda>consumed_at.
     let claim = \<lparr>ac_id = oa_id r, ac_gate = oa_gate r, ac_gate_sha = oa_gate_sha r, ac_operation = operation_id,
                  ac_consumed_at = consumed_at\<rparr> in
     catchE
       (bindE (writeExclusiveFile E (claim_name (oa_id r)) (approvalClaimJson claim)) (\<lambda>_.
        bindE (assertSecureFile E (claim_name (oa_id r))) (\<lambda>_.
        bindE (syncDirectory E) (\<lambda>_.
        ret (r\<lparr>oa_consumed := True, oa_consumed_at := Some consumed_at, oa_consumed_by := Some operation_id\<rparr>)))))
       (observe_claim E r operation_id))))))"

section \<open>What the operations keep\<close>

lemma keeps_approvalDirectory [pres_intros]: "ignores_world P \<Longrightarrow> keeps P (approvalDirectory E)"
  unfolding approvalDirectory_def by (intro pres_intros)

lemma keeps_syncDirectory [pres_intros]: "ignores_world P \<Longrightarrow> keeps P (syncDirectory E)"
  unfolding syncDirectory_def by (intro pres_intros)

lemma keeps_assertSecureFile [pres_intros]: "ignores_world P \<Longrightarrow> keeps P (assertSecureFile E n)"
  unfolding assertSecureFile_def by (intro pres_intros)

lemma keeps_readSecureFile [pres_intros]: "ignores_world P \<Longrightarrow> keeps P (readSecureFile E n c)"
  unfolding readSecureFile_def by (intro pres_intros)

lemma keeps_readClaimIfPresent [pres_intros]: "ignores_world P \<Longrightarrow> keeps P (readClaimIfPresent E r)"
  unfolding readClaimIfPresent_def by (intro pres_intros)

lemma keeps_inspect_approval [pres_intros]: "ignores_world P \<Longrightarrow> keeps P (inspect_approval E a i)"
  unfolding inspect_approval_def by (intro pres_intros)

lemma keeps_observe_claim [pres_intros]: "ignores_world P \<Longrightarrow> keeps P (observe_claim E r i e)"
  unfolding observe_claim_def by (intro pres_intros)

text \<open>A predicate that survives the creation of a file that is not there yet.\<close>

definition new_files_ok :: "(('w, 'z) gh_state_scheme \<Rightarrow> bool) \<Rightarrow> bool" where
  "new_files_ok P \<longleftrightarrow> (\<forall>s name bytes. P s \<longrightarrow> map_of (gs_approvals s) name = None \<longrightarrow> P (put_approval name bytes s))"

lemma keeps_writeExclusiveFile [pres_intros]:
  assumes P: "ignores_world P" and N: "new_files_ok P"
  shows "keeps P (writeExclusiveFile E name v)"
proof (rule keeps_wpI)
  fix s assume "P s"
  then have world: "P (s\<lparr>rt_world := w\<rparr>)" for w
    using P by (simp add: ignores_worldD)
  from N have new: "P (put_approval name bytes (s\<lparr>rt_world := w\<rparr>))" if "map_of (gs_approvals s) name = None" for bytes w
    using that world by (simp add: new_files_ok_def)
  show "wp (writeExclusiveFile E name v) (\<lambda>_. P) (\<lambda>_. P) s"
    unfolding writeExclusiveFile_def
    by (auto simp: wp_simps world new split: prod.split excl_fault.split)
qed

lemma keeps_create_approval [pres_intros]: "ignores_world P \<Longrightarrow> new_files_ok P \<Longrightarrow> keeps P (create_approval E i ttl)"
  unfolding create_approval_def by (intro pres_intros)

lemma keeps_claim_approval [pres_intros]: "ignores_world P \<Longrightarrow> new_files_ok P \<Longrightarrow> keeps P (claim_approval E a i p)"
  unfolding claim_approval_def by (intro pres_intros)

section \<open>An approval is consumed by one operation\<close>

text \<open>The bytes of the claim file name the operation that consumed the approval and the gate it is for.\<close>

definition claimed_by :: "('w, 'z) gh_state_scheme \<Rightarrow> string \<Rightarrow> string \<Rightarrow> string \<Rightarrow> bool" where
  "claimed_by s approval_id operation_id gate_sha \<longleftrightarrow>
     (\<exists>f c. map_of (gs_approvals s) (claim_name approval_id) = Some f
        \<and> af_text f = file_text (approvalClaimJson c) \<and> ac_operation c = operation_id \<and> ac_gate_sha c = gate_sha)"

lemma claim_text_members:
  assumes "file_text (approvalClaimJson c) = file_text (approvalClaimJson d)"
  shows "ac_operation c = ac_operation d \<and> ac_gate_sha c = ac_gate_sha d"
proof -
  let ?members = "\<lambda>c. [(''approvalId'', JStr (ac_id c)), (''gateId'', JStr (ac_gate c)),
     (''gateSha256'', JStr (ac_gate_sha c)), (''operationId'', JStr (ac_operation c)),
     (''consumedAt'', JStr (ac_consumed_at c))]"
  have "map_option key_sorted (map_of (?members c) k) = map_option key_sorted (map_of (?members d) k)" for k
    using assms by (intro canonical_object_members) (simp_all add: file_text_def approvalClaimJson_def)
  from this [of "''operationId''"] this [of "''gateSha256''"] show ?thesis
    by simp
qed

lemma claimed_by_unique: "claimed_by s a p d \<Longrightarrow> claimed_by s a q d' \<Longrightarrow> p = q"
  unfolding claimed_by_def by (metis claim_text_members option.inject)

definition approvals_kept :: "('w, 'z) gh_state_scheme \<Rightarrow> ('w, 'z) gh_state_scheme \<Rightarrow> bool" where
  "approvals_kept s t \<longleftrightarrow> (\<forall>name f. map_of (gs_approvals s) name = Some f \<longrightarrow> map_of (gs_approvals t) name = Some f)"

lemma approvals_kept_claimed: "approvals_kept s t \<Longrightarrow> claimed_by s a p d \<Longrightarrow> claimed_by t a p d"
  unfolding approvals_kept_def claimed_by_def by blast

lemma approvals_kept_frame [intro]: "ignores_world (approvals_kept s)" "new_files_ok (approvals_kept s)"
  by (auto simp: approvals_kept_def ignores_world_def new_files_ok_def put_approval_def)

lemma claimed_by_frame [intro]:
  "ignores_world (\<lambda>s. claimed_by s a p d)" "new_files_ok (\<lambda>s. claimed_by s a p d)"
  by (auto simp: claimed_by_def ignores_world_def new_files_ok_def put_approval_def)

lemma wp_writeExclusiveFile:
  assumes "\<And>w. map_of (gs_approvals s) name = None \<Longrightarrow> Q () (put_approval name (file_text v) (s\<lparr>rt_world := w\<rparr>))"
    and "\<And>e t. R e t"
  shows "wp (writeExclusiveFile E name v) Q R s"
  using assms by (auto simp: writeExclusiveFile_def wp_simps split: prod.split excl_fault.split)

lemma wp_readClaimIfPresent:
  assumes "\<And>w f c. map_of (gs_approvals s) (claim_name (oa_id r)) = Some f \<Longrightarrow> af_text f = file_text (approvalClaimJson c)
       \<Longrightarrow> Q (Some c) (s\<lparr>rt_world := w\<rparr>)"
    and "\<And>w. Q None (s\<lparr>rt_world := w\<rparr>)"
    and "\<And>e w. R e (s\<lparr>rt_world := w\<rparr>)" "\<And>e. R e s" "Q None s"
  shows "wp (readClaimIfPresent E r) Q R s"
  using assms by (auto simp: readClaimIfPresent_def readSecureFile_def wp_simps split: option.split sum.split prod.split)

lemma inspect_approval_gate: "returns (\<lambda>_. True) (inspect_approval E a i) (\<lambda>r _. oa_gate_sha r = gr_sha i)"
proof -
  have read: "returns (\<lambda>_. oa_gate_sha r = gr_sha i) (bindE (readClaimIfPresent E r) (\<lambda>claim. case claim of
       Some c \<Rightarrow> ret (r\<lparr>oa_consumed := True, oa_consumed_at := Some (ac_consumed_at c),
                         oa_consumed_by := Some (ac_operation c)\<rparr>)
     | None \<Rightarrow> bindE (readG (ge_now E)) (\<lambda>now. bindE (throw_if (approval_expired E r now) (boundary ''APPROVAL_EXPIRED'')) (\<lambda>_.
         ret r)))) (\<lambda>r _. oa_gate_sha r = gr_sha i)" for r
    by (auto simp: returns_def bindE_def ret_def throw_def throw_if_def split: prod.splits sum.splits option.splits if_splits)
  show ?thesis
  proof (cases "assertGateDigest (gr_sha i)")
    case (Inr d)
    then have sha: "assertGateDigest (gr_sha i) = Inr (gr_sha i)"
      by (simp add: assertGateDigest_def split: if_splits)
    show ?thesis
      unfolding inspect_approval_def sha bindE_liftR
      by (intro returns_bindE [OF returns_any] returns_guard returns_conseq [OF read]) auto
  qed (simp add: inspect_approval_def returns_def bindE_def liftR_def split: prod.split sum.split)
qed

lemma claim_approval_claims:
  "returns (\<lambda>_. True) (claim_approval E a i p) (\<lambda>r t. claimed_by t (oa_id r) p (gr_sha i) \<and> oa_consumed_by r = Some p)"
proof -
  let ?done = "\<lambda>r t. claimed_by t (oa_id r) p (gr_sha i) \<and> oa_consumed_by r = Some p"
  have observed: "returns (\<lambda>_. True) (observe_claim E r p e) ?done" if "oa_gate_sha r = gr_sha i" for r e
  proof (rule returns_wp)
    fix s
    show "wp (observe_claim E r p e) ?done (\<lambda>_ _. True) s"
      unfolding observe_claim_def wp_bindE wp_catchE
      by (rule wp_readClaimIfPresent) (use that in \<open>auto simp: wp_simps claimed_by_def\<close>)
  qed
  have written: "returns (\<lambda>_. True) (writeExclusiveFile E (claim_name (oa_id r)) (approvalClaimJson c))
      (\<lambda>_ t. claimed_by t (oa_id r) (ac_operation c) (ac_gate_sha c))" for r c
    by (rule returns_wp, rule wp_writeExclusiveFile) (auto simp: put_approval_def claimed_by_def)
  have settle: "returns (\<lambda>t. claimed_by t (oa_id r) p (gr_sha i)) (bindE (assertSecureFile E n) (\<lambda>_. bindE (syncDirectory E) (\<lambda>_.
      ret (r\<lparr>oa_consumed := True, oa_consumed_at := Some consumed_at, oa_consumed_by := Some p\<rparr>)))) ?done" for r n consumed_at
    by (intro returns_bindE [OF returns_keeps] returns_ret pres_intros) (auto intro: claimed_by_frame)
  have run: "returns (\<lambda>_. True) (bindE (writeExclusiveFile E (claim_name (oa_id r)) (approvalClaimJson c)) (\<lambda>_.
        bindE (assertSecureFile E n) (\<lambda>_. bindE (syncDirectory E) (\<lambda>_.
        ret (r\<lparr>oa_consumed := True, oa_consumed_at := Some consumed_at, oa_consumed_by := Some p\<rparr>))))) ?done"
    if "ac_operation c = p" "ac_gate_sha c = gr_sha i" for r c n consumed_at
    by (rule returns_bindE [OF written [of r c, unfolded that] settle])
  have claim: "returns (\<lambda>_. oa_gate_sha r = gr_sha i) (bindE (throw_if (oa_consumed r) (boundary ''APPROVAL_CONSUMED'')) (\<lambda>_.
      bindE (approvalDirectory E) (\<lambda>_. bindE (now_text E) (\<lambda>consumed_at. catchE
       (bindE (writeExclusiveFile E (claim_name (oa_id r)) (approvalClaimJson \<lparr>ac_id = oa_id r, ac_gate = oa_gate r,
           ac_gate_sha = oa_gate_sha r, ac_operation = p, ac_consumed_at = consumed_at\<rparr>)) (\<lambda>_.
        bindE (assertSecureFile E (claim_name (oa_id r))) (\<lambda>_. bindE (syncDirectory E) (\<lambda>_.
        ret (r\<lparr>oa_consumed := True, oa_consumed_at := Some consumed_at, oa_consumed_by := Some p\<rparr>)))))
       (observe_claim E r p))))) ?done" for r
  proof (cases "oa_gate_sha r = gr_sha i")
    case True
    then show ?thesis
      by (intro returns_bindE [OF returns_any] returns_catchE [OF run observed]) simp_all
  qed (simp add: returns_def)
  show ?thesis
  proof (cases "assertSafeIdentifier p")
    case (Inr q)
    then have p: "assertSafeIdentifier p = Inr p"
      by simp
    show ?thesis
      unfolding claim_approval_def Let_def p bindE_liftR by (rule returns_bindE [OF inspect_approval_gate claim])
  qed (simp add: claim_approval_def returns_def bindE_def liftR_def)
qed

end
