(* ===== verification/Github_Exact.thy ===== *)
theory Github_Exact
  imports Github_Approvals
begin

text \<open>
  The exact binding of a request to the server-owned task (src/github/exact-task.ts), the
  guard of the publication target (src/services/publication-target-guard.ts) and the storing
  of evidence (src/github/evidence.ts). The paging loop over review threads runs on fuel
  (\<open>ge_fuel\<close>, any number): \<open>out_of_fuel\<close> stands for a loop that is still running after that
  many pages.
\<close>

section \<open>Evidence\<close>

record stored_evidence =
  se_artifact_id :: string
  se_digest :: string

definition storeGitHubEvidence :: "'w gh_env \<Rightarrow> artifact_namespace \<Rightarrow> json \<Rightarrow> ('w, 'z, stored_evidence) gh" where
  "storeGitHubEvidence E ns v =
     (let digest = sha256Json (re_sha256 (ge_rt E)) v in
      bindE (askG (ge_put_json E ns digest v)) (\<lambda>artifact_id.
      ret \<lparr>se_artifact_id = artifact_id, se_digest = digest\<rparr>))"

section \<open>Binding a request to its task\<close>

record exact_task_input =
  xi_operation_id :: string
  xi_repo_id :: string
  xi_task_id :: string
  xi_head :: string
  xi_tree :: string

definition getServerOwnedTask :: "'w gh_env \<Rightarrow> string \<Rightarrow> ('w, 'z, server_owned_task) gh" where
  "getServerOwnedTask E repo_id = askG (ge_task E repo_id)"

definition taskMatches :: "server_owned_task \<Rightarrow> exact_task_input \<Rightarrow> ('w, 'z, unit) gh" where
  "taskMatches task i =
     throw_if (sv_repo_id task \<noteq> xi_repo_id i \<or> sv_task_id task \<noteq> xi_task_id i) (boundary ''TASK_ID_MISMATCH'')"

definition bindExactTask ::
  "'w gh_env \<Rightarrow> exact_task_input \<Rightarrow> bool \<Rightarrow> ('w, 'z, server_owned_task \<times> local_git_snapshot) gh" where
  "bindExactTask E i require_clean =
     bindE (getServerOwnedTask E (xi_repo_id i)) (\<lambda>task.
     bindE (taskMatches task i) (\<lambda>_.
     bindE (askG (ge_inspect E task)) (\<lambda>local.
     bindE (throw_if (lg_branch local \<noteq> sv_branch task) (boundary ''TASK_BRANCH_DRIFT'')) (\<lambda>_.
     bindE (liftR (assertSha (xi_head i))) (\<lambda>head.
     bindE (throw_if (lg_head local \<noteq> head) (boundary ''HEAD_DRIFT'')) (\<lambda>_.
     bindE (liftR (assertSha (xi_tree i))) (\<lambda>tree.
     bindE (throw_if (lg_tree local \<noteq> tree) (boundary ''TREE_DRIFT'')) (\<lambda>_.
     bindE (throw_if (require_clean \<and> \<not> lg_clean local) (boundary ''WORKTREE_NOT_CLEAN'')) (\<lambda>_.
     ret (task, local))))))))))"

definition branch_ref :: "string \<Rightarrow> string" where
  "branch_ref b = ''refs/heads/'' @ b"

definition assertExactRemoteHead :: "'w gh_env \<Rightarrow> server_owned_task \<Rightarrow> string \<Rightarrow> string \<Rightarrow> ('w, 'z, unit) gh" where
  "assertExactRemoteHead E task head tree =
     bindE (askG (ge_ref E (sv_repository task) (branch_ref (sv_branch task)))) (\<lambda>remote.
     bindE (liftR (assertSha head)) (\<lambda>h.
     if map_option rf_sha remote \<noteq> Some h then throw (boundary ''REMOTE_HEAD_MISMATCH'')
     else bindE (liftR (assertSha tree)) (\<lambda>t.
       throw_if (map_option rf_tree remote \<noteq> Some t) (boundary ''REMOTE_HEAD_MISMATCH''))))"

definition assertExactTaskPullRequest ::
  "server_owned_task \<Rightarrow> pull_request \<Rightarrow> string \<Rightarrow> bool \<Rightarrow> ('w, 'z, unit) gh" where
  "assertExactTaskPullRequest task pr head require_draft =
     bindE (throw_if (pr_state pr \<noteq> PR_OPEN) (boundary ''PR_NOT_OPEN'')) (\<lambda>_.
     bindE (throw_if (require_draft \<and> \<not> pr_is_draft pr) (boundary ''PR_NOT_DRAFT'')) (\<lambda>_.
     bindE (throw_if (pr_head_ref pr \<noteq> sv_branch task \<or> pr_head pr \<noteq> head) (boundary ''PR_HEAD_MISMATCH'')) (\<lambda>_.
     throw_if (pr_base_ref pr \<noteq> sv_base_branch task) (boundary ''PR_BASE_MISMATCH''))))"

definition getUniqueTaskPullRequest ::
  "'w gh_env \<Rightarrow> server_owned_task \<Rightarrow> string \<Rightarrow> bool \<Rightarrow> ('w, 'z, pull_request) gh" where
  "getUniqueTaskPullRequest E task head require_draft =
     bindE (askG (ge_open_prs E (sv_repository task) (sv_branch task) (sv_base_branch task))) (\<lambda>matches.
     case matches of
       [] \<Rightarrow> throw (boundary ''PR_NOT_FOUND'')
     | [pr] \<Rightarrow> bindE (assertExactTaskPullRequest task pr head require_draft) (\<lambda>_. ret pr)
     | _ # _ # _ \<Rightarrow> throw (boundary ''PR_AMBIGUOUS''))"

section \<open>The review threads of a pull request\<close>

definition out_of_fuel :: gh_err where
  "out_of_fuel = Runtime (OtherErr (Some ''OUT_OF_FUEL''))"

definition check_thread :: "nat \<Rightarrow> pull_request \<Rightarrow> review_thread list \<Rightarrow> review_thread \<Rightarrow> ('w, 'z, review_thread list) gh" where
  "check_thread max_threads pr threads th =
     bindE (throw_if (th_pr_id th \<noteq> pr_id pr \<or> th_pr_number th \<noteq> pr_number pr \<or> th_head th \<noteq> pr_head pr)
       (boundary ''REVIEW_THREAD_BINDING_MISMATCH'')) (\<lambda>_.
     bindE (throw_if (max_threads < length (threads @ [th])) (boundary ''REVIEW_THREAD_LIMIT_EXCEEDED'')) (\<lambda>_.
     ret (threads @ [th])))"

text \<open>One turn of the \<open>do\<close> loop: the page of a cursor, appended; \<open>None\<close> ends the loop. An empty
  cursor is falsy.\<close>

definition thread_turn ::
  "'w gh_env \<Rightarrow> repository_ref \<Rightarrow> pull_request \<Rightarrow> nat \<Rightarrow> review_thread list \<Rightarrow> string list \<Rightarrow> string option
   \<Rightarrow> ('w, 'z, review_thread list \<times> (string list \<times> string) option) gh" where
  "thread_turn E repository pr max_threads threads seen cursor =
     bindE (throw_if (max_threads \<le> length threads) (boundary ''REVIEW_THREAD_LIMIT_EXCEEDED'')) (\<lambda>_.
     bindE (askG (ge_threads_page E repository (pr_number pr) (min 100 (max_threads - length threads)) cursor)) (\<lambda>page.
     bindE (throw_if (tp_pr_id page \<noteq> pr_id pr \<or> tp_pr_number page \<noteq> pr_number pr \<or> tp_head page \<noteq> pr_head pr)
       (boundary ''REVIEW_HEAD_MISMATCH'')) (\<lambda>_.
     bindE (foldE (check_thread max_threads pr) threads (tp_threads page)) (\<lambda>threads'.
     case tp_next_cursor page of
       None \<Rightarrow> ret (threads', None)
     | Some c \<Rightarrow>
         if c = [] then ret (threads', None)
         else bindE (throw_if (max_threads \<le> length threads') (boundary ''REVIEW_THREAD_LIMIT_EXCEEDED'')) (\<lambda>_.
              bindE (throw_if (c \<in> set seen) (boundary ''REVIEW_CURSOR_CYCLE'')) (\<lambda>_.
              ret (threads', Some (c # seen, c))))))))"

fun thread_loop ::
  "'w gh_env \<Rightarrow> repository_ref \<Rightarrow> pull_request \<Rightarrow> nat \<Rightarrow> nat \<Rightarrow> review_thread list \<Rightarrow> string list \<Rightarrow> string option
   \<Rightarrow> ('w, 'z, review_thread list) gh" where
  "thread_loop E repository pr max_threads 0 threads seen cursor = throw out_of_fuel"
| "thread_loop E repository pr max_threads (Suc fuel) threads seen cursor =
     bindE (thread_turn E repository pr max_threads threads seen cursor) (\<lambda>(threads', continue).
     case continue of
       None \<Rightarrow> ret threads'
     | Some (seen', c) \<Rightarrow> thread_loop E repository pr max_threads fuel threads' seen' (Some c))"

definition listAllExactReviewThreads ::
  "'w gh_env \<Rightarrow> server_owned_task \<Rightarrow> pull_request \<Rightarrow> ('w, 'z, review_thread list) gh" where
  "listAllExactReviewThreads E task pr = thread_loop E (sv_repository task) pr 500 (ge_fuel E) [] [] None"

section \<open>The publication target\<close>

definition writable_permissions :: "string list" where
  "writable_permissions = [''WRITE'', ''MAINTAIN'', ''ADMIN'']"

definition assertWritablePublicationTarget ::
  "server_owned_task \<Rightarrow> repository_snapshot \<Rightarrow> gh_err + unit" where
  "assertWritablePublicationTarget task repository =
     bindR (repositorySlug (sv_repository task)) (\<lambda>configured.
     if to_lower (sv_remote_identity task) \<noteq> to_lower (''github.com/'' @ configured)
     then Inl (boundary ''PUBLICATION_TARGET_BINDING_MISMATCH'')
     else if to_lower (rp_name_with_owner repository) \<noteq> to_lower configured
     then Inl (boundary ''PUBLICATION_TARGET_BINDING_MISMATCH'')
     else if rp_archived repository then Inl (boundary ''PUBLICATION_TARGET_ARCHIVED'')
     else if to_upper (trim (rp_viewer_permission repository)) \<notin> set writable_permissions
     then Inl (boundary ''PUBLICATION_TARGET_NOT_WRITABLE'')
     else Inr ())"

section \<open>What the steps keep\<close>

lemma keeps_storeGitHubEvidence [pres_intros]: "ignores_world P \<Longrightarrow> keeps P (storeGitHubEvidence E ns v)"
  unfolding storeGitHubEvidence_def by (intro pres_intros)

lemma keeps_getServerOwnedTask [pres_intros]: "ignores_world P \<Longrightarrow> keeps P (getServerOwnedTask E r)"
  unfolding getServerOwnedTask_def by (intro pres_intros)

lemma keeps_taskMatches [pres_intros]: "keeps P (taskMatches t i)"
  unfolding taskMatches_def by (intro pres_intros)

lemma keeps_bindExactTask [pres_intros]: "ignores_world P \<Longrightarrow> keeps P (bindExactTask E i c)"
  unfolding bindExactTask_def by (intro pres_intros)

lemma keeps_assertExactRemoteHead [pres_intros]: "ignores_world P \<Longrightarrow> keeps P (assertExactRemoteHead E t h r)"
  unfolding assertExactRemoteHead_def by (intro pres_intros)

lemma keeps_assertExactTaskPullRequest [pres_intros]: "keeps P (assertExactTaskPullRequest t pr h d)"
  unfolding assertExactTaskPullRequest_def by (intro pres_intros)

lemma keeps_getUniqueTaskPullRequest [pres_intros]: "ignores_world P \<Longrightarrow> keeps P (getUniqueTaskPullRequest E t h d)"
  unfolding getUniqueTaskPullRequest_def by (intro pres_intros)

lemma keeps_check_thread [pres_intros]: "keeps P (check_thread m pr ts t)"
  unfolding check_thread_def by (intro pres_intros)

lemma keeps_thread_turn [pres_intros]: "ignores_world P \<Longrightarrow> keeps P (thread_turn E r pr m ts seen c)"
  unfolding thread_turn_def by (intro pres_intros)

lemma keeps_thread_loop [pres_intros]: "ignores_world P \<Longrightarrow> keeps P (thread_loop E r pr m n ts seen c)"
  by (induction n arbitrary: ts seen c) (auto intro!: pres_intros)

lemma keeps_listAllExactReviewThreads [pres_intros]: "ignores_world P \<Longrightarrow> keeps P (listAllExactReviewThreads E t pr)"
  unfolding listAllExactReviewThreads_def by (intro pres_intros)

end
