(* ===== verification/Github_Gate.thy ===== *)
theory Github_Gate
  imports Github_Exact
begin

text \<open>
  The merge gate (src/services/github-merge-gate-service.ts): it evaluates every condition of
  a merge on the exact head and tree, and either records the blockers or writes a manifest
  whose digest is its identity. Loading a manifest re-evaluates the gate and compares the
  digest. The CI evidence reader is an argument (\<open>ci\<close>); the seven concurrent questions of
  \<open>evaluate\<close> are asked one after the other.
\<close>

section \<open>Manifests\<close>

definition assertDigest :: "string \<Rightarrow> gh_err + string" where
  "assertDigest v = (if hex_n 64 v then Inr v else Inl (boundary ''INVALID_DIGEST''))"

definition manifest_invalid :: gh_err where
  "manifest_invalid = boundary ''MERGE_MANIFEST_INVALID''"

definition assertRunId :: "string \<Rightarrow> gh_err + string" where
  "assertRunId v = (case v of
       [] \<Rightarrow> Inl manifest_invalid
     | c # cs \<Rightarrow> if is_digit c \<and> c \<noteq> CHR ''0'' \<and> length cs \<le> 19 \<and> list_all is_digit cs then Inr v else Inl manifest_invalid)"

definition is_node_id_char :: "char \<Rightarrow> bool" where
  "is_node_id_char c \<longleftrightarrow> is_alnum c \<or> c \<in> set ''_=:.-''"

definition assertOpaqueNodeId :: "string \<Rightarrow> gh_err + string" where
  "assertOpaqueNodeId v = (if length_between 1 500 v \<and> list_all is_node_id_char v then Inr v else Inl manifest_invalid)"

text \<open>\<open>/^[A-Za-z0-9_.-]+\/[A-Za-z0-9_.-]+$/\<close>\<close>

definition assertRepositoryNameWithOwner :: "string \<Rightarrow> gh_err + string" where
  "assertRepositoryNameWithOwner v =
     (let owner = takeWhile is_repository_char v; rest = dropWhile is_repository_char v in
      if owner \<noteq> [] \<and> rest \<noteq> [] \<and> hd rest = CHR ''/'' \<and> tl rest \<noteq> [] \<and> list_all is_repository_char (tl rest)
      then Inr v else Inl manifest_invalid)"

definition assertTimestamp :: "'w gh_env \<Rightarrow> string \<Rightarrow> gh_err + string" where
  "assertTimestamp E v = (if ge_date E v = None then Inl manifest_invalid else Inr v)"

definition string_field :: "(string \<times> json) list \<Rightarrow> string \<Rightarrow> gh_err + string" where
  "string_field kvs k = (case string_member kvs k of None \<Rightarrow> Inl manifest_invalid | Some s \<Rightarrow> Inr s)"

definition number_field :: "(string \<times> json) list \<Rightarrow> string \<Rightarrow> gh_err + int" where
  "number_field kvs k = (case map_of kvs k of
       Some (JNum n) \<Rightarrow> if safe_integer n \<and> 0 < n then Inr n else Inl manifest_invalid
     | _ \<Rightarrow> Inl manifest_invalid)"

definition string_of :: "json \<Rightarrow> gh_err + string" where
  "string_of v = (case v of JStr s \<Rightarrow> Inr s | _ \<Rightarrow> Inl manifest_invalid)"

definition string_array :: "(string \<times> json) list \<Rightarrow> string \<Rightarrow> gh_err + string list" where
  "string_array kvs k = (case map_of kvs k of Some (JArr vs) \<Rightarrow> mapM string_of vs | _ \<Rightarrow> Inl manifest_invalid)"

definition method_field :: "(string \<times> json) list \<Rightarrow> gh_err + merge_method" where
  "method_field kvs = bindR (string_field kvs ''mergeMethod'') (\<lambda>m.
     if m = ''merge'' then Inr Method_Merge else if m = ''squash'' then Inr Method_Squash
     else if m = ''rebase'' then Inr Method_Rebase else Inl manifest_invalid)"

definition plan_ok :: "json option \<Rightarrow> bool" where
  "plan_ok v = (case v of
       Some (JObj p) \<Rightarrow> map_of p ''readbackRequired'' = Some (JBool True) \<and> map_of p ''retainTaskBranch'' = Some (JBool True)
         \<and> map_of p ''verifyBaseContainsHead'' = Some (JBool True)
     | _ \<Rightarrow> False)"

definition fixed_fields_ok :: "(string \<times> json) list \<Rightarrow> bool" where
  "fixed_fields_ok kvs \<longleftrightarrow>
     map_of kvs ''pullRequestState'' = Some (JStr ''OPEN'') \<and> map_of kvs ''pullRequestDraft'' = Some (JBool True)
   \<and> map_of kvs ''pullRequestMergeable'' = Some (JStr ''MERGEABLE'')
   \<and> map_of kvs ''deleteTaskBranch'' = Some (JBool False) \<and> map_of kvs ''retainTaskBranch'' = Some (JBool True)
   \<and> (case map_of kvs ''independentReviewRequired'' of Some (JBool _) \<Rightarrow> True | _ \<Rightarrow> False)
   \<and> map_of kvs ''materialFindingCount'' = Some (JNum 0)"

definition bool_of :: "json option \<Rightarrow> bool" where
  "bool_of v = (v = Some (JBool True))"

definition parseMergeGateManifestCore :: "'w gh_env \<Rightarrow> json \<Rightarrow> gh_err + manifest_core" where
  "parseMergeGateManifestCore E v =
     (case v of
        JObj kvs \<Rightarrow>
          bindR (method_field kvs) (\<lambda>method.
          bindR (guardR (plan_ok (map_of kvs ''postMergePlan'')) manifest_invalid) (\<lambda>_.
          bindR (guardR (fixed_fields_ok kvs) manifest_invalid) (\<lambda>_.
          bindR (bindR (string_field kvs ''repoId'') assertSafeIdentifier) (\<lambda>repo_id.
          bindR (bindR (string_field kvs ''taskId'') assertSafeIdentifier) (\<lambda>task_id.
          bindR (bindR (string_field kvs ''repositoryId'') assertOpaqueNodeId) (\<lambda>repository_id.
          bindR (bindR (string_field kvs ''repositoryNameWithOwner'') assertRepositoryNameWithOwner) (\<lambda>name.
          bindR (bindR (string_field kvs ''pullRequestId'') assertOpaqueNodeId) (\<lambda>pr_id.
          bindR (number_field kvs ''pullRequestNumber'') (\<lambda>number.
          bindR (bindR (string_field kvs ''baseBranch'') assertSafeBranch) (\<lambda>base_branch.
          bindR (bindR (string_field kvs ''baseSha'') assertSha) (\<lambda>base.
          bindR (bindR (string_field kvs ''taskBranch'') assertSafeBranch) (\<lambda>task_branch.
          bindR (bindR (string_field kvs ''headSha'') assertSha) (\<lambda>head.
          bindR (bindR (string_field kvs ''treeSha'') assertSha) (\<lambda>tree.
          bindR (bindR (string_array kvs ''requiredRunIds'') (mapM assertRunId)) (\<lambda>run_ids.
          bindR (bindR (string_array kvs ''unresolvedThreadIds'') (mapM assertOpaqueNodeId)) (\<lambda>thread_ids.
          bindR (bindR (string_field kvs ''ciStatusId'') assertSafeIdentifier) (\<lambda>ci_status_id.
          bindR (bindR (string_field kvs ''ciEvidenceDigest'') assertDigest) (\<lambda>ci_digest.
          bindR (bindR (string_field kvs ''validationId'') assertSafeIdentifier) (\<lambda>validation_id.
          bindR (bindR (string_field kvs ''validationDigest'') assertDigest) (\<lambda>validation_digest.
          bindR (bindR (string_field kvs ''independentReviewId'') assertSafeIdentifier) (\<lambda>review_id.
          bindR (bindR (string_field kvs ''independentReviewDigest'') assertDigest) (\<lambda>review_digest.
          bindR (bindR (string_field kvs ''preparedAt'') (assertTimestamp E)) (\<lambda>prepared_at.
          bindR (bindR (string_field kvs ''expiresAt'') (assertTimestamp E)) (\<lambda>expires_at.
          Inr \<lparr>mc_repo_id = repo_id, mc_task_id = task_id, mc_repository_id = repository_id, mc_name_with_owner = name,
               mc_pr_id = pr_id, mc_pr_number = number, mc_base_branch = base_branch, mc_base = base,
               mc_task_branch = task_branch, mc_head = head, mc_tree = tree, mc_merge_method = method,
               mc_run_ids = run_ids, mc_thread_ids = thread_ids, mc_ci_status_id = ci_status_id, mc_ci_digest = ci_digest,
               mc_validation_id = validation_id, mc_validation_digest = validation_digest, mc_review_id = review_id,
               mc_review_digest = review_digest,
               mc_review_required = bool_of (map_of kvs ''independentReviewRequired''),
               mc_prepared_at = prepared_at, mc_expires_at = expires_at\<rparr>))))))))))))))))))))))))
      | _ \<Rightarrow> Inl manifest_invalid)"

definition manifestCoreJson :: "('a manifest_core_scheme) \<Rightarrow> json" where
  "manifestCoreJson c = JObj
     [(''repoId'', JStr (mc_repo_id c)), (''taskId'', JStr (mc_task_id c)), (''repositoryId'', JStr (mc_repository_id c)),
      (''repositoryNameWithOwner'', JStr (mc_name_with_owner c)), (''pullRequestId'', JStr (mc_pr_id c)),
      (''pullRequestNumber'', JNum (mc_pr_number c)), (''pullRequestState'', JStr ''OPEN''),
      (''pullRequestDraft'', JBool True), (''pullRequestMergeable'', JStr ''MERGEABLE''),
      (''baseBranch'', JStr (mc_base_branch c)), (''baseSha'', JStr (mc_base c)), (''taskBranch'', JStr (mc_task_branch c)),
      (''headSha'', JStr (mc_head c)), (''treeSha'', JStr (mc_tree c)),
      (''mergeMethod'', JStr (method_name (mc_merge_method c))), (''deleteTaskBranch'', JBool False),
      (''retainTaskBranch'', JBool True), (''requiredRunIds'', JArr (map JStr (mc_run_ids c))),
      (''unresolvedThreadIds'', JArr (map JStr (mc_thread_ids c))), (''ciStatusId'', JStr (mc_ci_status_id c)),
      (''ciEvidenceDigest'', JStr (mc_ci_digest c)), (''validationId'', JStr (mc_validation_id c)),
      (''validationDigest'', JStr (mc_validation_digest c)), (''independentReviewId'', JStr (mc_review_id c)),
      (''independentReviewDigest'', JStr (mc_review_digest c)),
      (''independentReviewRequired'', JBool (mc_review_required c)), (''materialFindingCount'', JNum 0),
      (''postMergePlan'', JObj [(''readbackRequired'', JBool True), (''retainTaskBranch'', JBool True),
         (''verifyBaseContainsHead'', JBool True)]),
      (''preparedAt'', JStr (mc_prepared_at c)), (''expiresAt'', JStr (mc_expires_at c))]"

definition ownerCommand :: "string \<Rightarrow> string" where
  "ownerCommand manifest_id = ''chat-pro-repo approve-merge --gate-id '' @ manifest_id"

section \<open>Evaluating the gate\<close>

type_synonym blocker = "string \<times> string"

definition blocker_if :: "bool \<Rightarrow> string \<Rightarrow> string \<Rightarrow> blocker list" where
  "blocker_if c code message = (if c then [(code, message)] else [])"

text \<open>A \<open>Map\<close> keeps the first position and the last value of a code; the result is sorted by code.\<close>

definition deduplicateBlockers :: "'w gh_env \<Rightarrow> blocker list \<Rightarrow> blocker list" where
  "deduplicateBlockers E bs =
     sort_cmp (\<lambda>l r. re_compare (ge_rt E) (fst l) (fst r)) (foldl (\<lambda>m b. put_file (fst b) (snd b) m) [] bs)"

record gate_observation =
  go_repository :: repository_snapshot
  go_task_ref :: "ref_snapshot option"
  go_base_ref :: "ref_snapshot option"
  go_ci :: ci_evidence
  go_validation :: validation_evidence
  go_review :: review_evidence
  go_operations :: "github_operation list"

definition observeGate ::
  "'w gh_env \<Rightarrow> (server_owned_task \<Rightarrow> string \<Rightarrow> ('w, 'z, ci_evidence) gh) \<Rightarrow> server_owned_task \<Rightarrow> string
   \<Rightarrow> ('w, 'z, gate_observation) gh" where
  "observeGate E ci task head =
     bindE (askG (ge_repository E (sv_repository task))) (\<lambda>repository.
     bindE (askG (ge_ref E (sv_repository task) (branch_ref (sv_branch task)))) (\<lambda>task_ref.
     bindE (askG (ge_ref E (sv_repository task) (branch_ref (sv_base_branch task)))) (\<lambda>base_ref.
     bindE (ci task head) (\<lambda>ci_evidence.
     bindE (askG (ge_validation E task)) (\<lambda>validation.
     bindE (askG (ge_review E task)) (\<lambda>review.
     bindE (listForTask E (sv_repo_id task) (sv_task_id task)) (\<lambda>operations.
     ret \<lparr>go_repository = repository, go_task_ref = task_ref, go_base_ref = base_ref, go_ci = ci_evidence,
          go_validation = validation, go_review = review, go_operations = operations\<rparr>)))))))"

definition identity_blockers :: "server_owned_task \<Rightarrow> repository_snapshot \<Rightarrow> gh_err + blocker list" where
  "identity_blockers task repository =
     (let b = [(''REPOSITORY_IDENTITY_MISMATCH'', ''Repository identity does not match the task binding.'')] in
      if rp_id repository = [] then Inr b
      else bindR (repositorySlug (sv_repository task)) (\<lambda>slug.
        Inr (if to_lower (rp_name_with_owner repository) \<noteq> to_lower slug then b else [])))"

definition repository_blockers ::
  "server_owned_task \<Rightarrow> string \<Rightarrow> string \<Rightarrow> gate_observation \<Rightarrow> blocker list" where
  "repository_blockers task head tree ob =
     (let repository = go_repository ob in
      blocker_if (rp_archived repository) ''REPOSITORY_ARCHIVED'' ''Archived repositories cannot be merged.''
      @ blocker_if (rp_default_branch repository \<noteq> sv_base_branch task) ''DEFAULT_BRANCH_DRIFT''
          ''Repository default branch differs from the task base branch.''
      @ blocker_if (\<not> rp_merge_methods repository (sv_merge_method task)) ''MERGE_METHOD_UNAVAILABLE''
          ''Configured repository merge method is unavailable.''
      @ blocker_if (to_upper (rp_viewer_permission repository) \<notin> set writable_permissions) ''MERGE_PERMISSION_UNAVAILABLE''
          ''Current inherited GitHub identity lacks write permission.''
      @ blocker_if (map_option rf_sha (go_task_ref ob) \<noteq> Some head \<or> map_option rf_tree (go_task_ref ob) \<noteq> Some tree)
          ''REMOTE_HEAD_MISMATCH'' ''Remote task branch differs from the exact task head and tree.''
      @ blocker_if (go_base_ref ob = None) ''BASE_REF_MISSING'' ''Bound base branch is missing remotely.'')"

definition pull_request_blockers :: "gate_observation \<Rightarrow> pull_request option \<Rightarrow> blocker list" where
  "pull_request_blockers ob pr =
     blocker_if (map_option pr_mergeable pr \<noteq> Some PR_MERGEABLE) ''PR_NOT_MERGEABLE'' ''Pull request is not currently MERGEABLE.''
     @ blocker_if (case (pr, go_base_ref ob) of (Some p, Some b) \<Rightarrow> pr_base p \<noteq> rf_sha b | _ \<Rightarrow> False) ''PR_BASE_SHA_DRIFT''
         ''Pull request base SHA differs from the current bound base branch.''
     @ blocker_if (Option.bind pr pr_review_decision = Some ''CHANGES_REQUESTED'') ''MATERIAL_REVIEW_FINDING''
         ''Pull request still has changes requested.''"

definition review_required :: "server_owned_task \<Rightarrow> bool" where
  "review_required task \<longleftrightarrow> sv_independent_review task \<noteq> Some False"

definition material_findings :: "server_owned_task \<Rightarrow> review_evidence \<Rightarrow> int" where
  "material_findings task r = (case ie_findings r of Some n \<Rightarrow> n
     | None \<Rightarrow> if review_required task \<and> ie_status r \<noteq> EV_passed then 1 else 0)"

definition evidence_blockers ::
  "server_owned_task \<Rightarrow> string \<Rightarrow> string \<Rightarrow> gate_observation \<Rightarrow> blocker list" where
  "evidence_blockers task head tree ob =
     blocker_if (ce_overall (go_ci ob) \<noteq> CI_success \<or> list_ex (\<lambda>c. co_status c \<noteq> CHK_success) (ce_checks (go_ci ob)))
       ''REQUIRED_CHECKS_NOT_SUCCESSFUL'' ''Required checks are not all successful on the exact head.''
     @ blocker_if (ve_status (go_validation ob) \<noteq> EV_passed \<or> ve_head (go_validation ob) \<noteq> head \<or> ve_tree (go_validation ob) \<noteq> tree)
         ''VALIDATION_EVIDENCE_INVALID'' ''Validation evidence is not passed on the exact head and tree.''
     @ blocker_if (review_required task
           \<and> (ie_status (go_review ob) \<noteq> EV_passed \<or> ie_head (go_review ob) \<noteq> head \<or> ie_tree (go_review ob) \<noteq> tree))
         ''INDEPENDENT_REVIEW_INVALID'' ''Required independent review is not passed on the exact head and tree.''
     @ blocker_if (material_findings task (go_review ob) \<noteq> 0) ''MATERIAL_REVIEW_FINDINGS_REMAIN''
         ''Independent review reports material findings.''
     @ blocker_if (list_ex (\<lambda>r. g_phase r = UNKNOWN_AFTER_CONTACT) (go_operations ob)) ''UNKNOWN_EXTERNAL_EFFECT''
         ''Task has an unresolved unknown external effect.''"

definition gate_error_code :: "gh_err \<Rightarrow> string" where
  "gate_error_code = errorCode ''MERGE_GATE_FAILED''"

text \<open>The pull request of the task, or the blocker that its absence is.\<close>

definition gate_pull_request ::
  "'w gh_env \<Rightarrow> server_owned_task \<Rightarrow> string \<Rightarrow> ('w, 'z, pull_request option \<times> blocker list) gh" where
  "gate_pull_request E task head =
     catchE (bindE (getUniqueTaskPullRequest E task head True) (\<lambda>pr. ret (Some pr, [])))
       (\<lambda>e. ret (None, [(gate_error_code e, ''Exact OPEN Draft pull request is unavailable.'')]))"

definition gate_threads ::
  "'w gh_env \<Rightarrow> server_owned_task \<Rightarrow> pull_request option \<Rightarrow> ('w, 'z, string list) gh" where
  "gate_threads E task pr_option = (case pr_option of
       None \<Rightarrow> ret []
     | Some pr \<Rightarrow>
         bindE (listAllExactReviewThreads E task pr) (\<lambda>threads.
         ret (sort (map th_id (filter (\<lambda>t. \<not> th_resolved t) threads)))))"

record fixed_gate =
  fg_ci_status_id :: string
  fg_prepared_at :: string
  fg_expires_at :: string

definition manifestTtlMs :: int where
  "manifestTtlMs = 15 * 60 * 1000"

definition gate_window :: "'w gh_env \<Rightarrow> fixed_gate option \<Rightarrow> ('w, 'z, string \<times> string) gh" where
  "gate_window E fixed = (case fixed of
       Some f \<Rightarrow> ret (fg_prepared_at f, fg_expires_at f)
     | None \<Rightarrow>
         bindE (now_text E) (\<lambda>prepared_at.
         case ge_date E prepared_at of
           None \<Rightarrow> throw (Runtime (OtherErr None))
         | Some t \<Rightarrow> ret (prepared_at, ge_iso E (t + manifestTtlMs))))"

definition successful_run_ids :: "workflow_run list \<Rightarrow> string list" where
  "successful_run_ids runs =
     map int_string (sort_cmp (\<lambda>l r. l - r)
       (map wr_id (filter (\<lambda>r. wr_status r = RUN_completed \<and> wr_conclusion r = Some ''success'') runs)))"

definition gate_core ::
  "server_owned_task \<Rightarrow> string \<Rightarrow> string \<Rightarrow> gate_observation \<Rightarrow> pull_request option \<Rightarrow> string list \<Rightarrow> fixed_gate option
   \<Rightarrow> string \<times> string \<Rightarrow> gh_err + manifest_core" where
  "gate_core task head tree ob pr_option unresolved fixed window =
     bindR (assertSha head) (\<lambda>head. bindR (assertSha tree) (\<lambda>tree.
     bindR (assertDigest (ve_digest (go_validation ob))) (\<lambda>validation_digest.
     bindR (assertDigest (ie_digest (go_review ob))) (\<lambda>review_digest.
     Inr \<lparr>mc_repo_id = sv_repo_id task, mc_task_id = sv_task_id task, mc_repository_id = rp_id (go_repository ob),
          mc_name_with_owner = rp_name_with_owner (go_repository ob),
          mc_pr_id = (case pr_option of None \<Rightarrow> ''missing'' | Some p \<Rightarrow> pr_id p),
          mc_pr_number = (case pr_option of None \<Rightarrow> 1 | Some p \<Rightarrow> pr_number p),
          mc_base_branch = sv_base_branch task,
          mc_base = (case go_base_ref ob of None \<Rightarrow> replicate 40 (CHR ''0'') | Some b \<Rightarrow> rf_sha b),
          mc_task_branch = sv_branch task, mc_head = head, mc_tree = tree, mc_merge_method = sv_merge_method task,
          mc_run_ids = successful_run_ids (ce_runs (go_ci ob)), mc_thread_ids = unresolved,
          mc_ci_status_id = (case fixed of None \<Rightarrow> ce_status_id (go_ci ob) | Some f \<Rightarrow> fg_ci_status_id f),
          mc_ci_digest = ce_state_digest (go_ci ob), mc_validation_id = ve_id (go_validation ob),
          mc_validation_digest = validation_digest, mc_review_id = ie_id (go_review ob),
          mc_review_digest = review_digest, mc_review_required = review_required task,
          mc_prepared_at = fst window, mc_expires_at = snd window\<rparr>))))"

definition evaluate ::
  "'w gh_env \<Rightarrow> (server_owned_task \<Rightarrow> string \<Rightarrow> ('w, 'z, ci_evidence) gh) \<Rightarrow> server_owned_task \<Rightarrow> string \<Rightarrow> string
   \<Rightarrow> fixed_gate option \<Rightarrow> ('w, 'z, blocker list \<times> manifest_core) gh" where
  "evaluate E ci task head tree fixed =
     bindE (bindExactTask E \<lparr>xi_operation_id = ''gate-evaluation'', xi_repo_id = sv_repo_id task,
        xi_task_id = sv_task_id task, xi_head = head, xi_tree = tree\<rparr> True) (\<lambda>_.
     bindE (observeGate E ci task head) (\<lambda>ob.
     bindE (liftR (identity_blockers task (go_repository ob))) (\<lambda>identity.
     bindE (gate_pull_request E task head) (\<lambda>(pr, missing).
     bindE (gate_threads E task pr) (\<lambda>unresolved.
     bindE (gate_window E fixed) (\<lambda>window.
     bindE (liftR (gate_core task head tree ob pr unresolved fixed window)) (\<lambda>core.
     ret (deduplicateBlockers E
       (identity @ repository_blockers task head tree ob @ missing @ pull_request_blockers ob pr
        @ evidence_blockers task head tree ob
        @ blocker_if (unresolved \<noteq> []) ''UNRESOLVED_REVIEW_THREADS'' ''Pull request has unresolved review threads.''),
       core))))))))"

section \<open>Preparing and revalidating a manifest\<close>

datatype gate_result =
    Gate_Eligible github_operation merge_manifest string stored_evidence
  | Gate_Blocked github_operation "blocker list" stored_evidence
  | Gate_Stored github_operation

definition blocker_json :: "blocker \<Rightarrow> json" where
  "blocker_json b = JObj [(''code'', JStr (fst b)), (''message'', JStr (snd b))]"

definition gate_operation_error :: "gh_err \<Rightarrow> github_operation \<Rightarrow> gh_err" where
  "gate_operation_error = operationError ''MERGE_GATE_FAILED''"

definition gate_request :: "server_owned_task \<Rightarrow> exact_task_input \<Rightarrow> admission_request" where
  "gate_request task i =
     \<lparr>aq_operation_id = xi_operation_id i, aq_semantic = SEM_merge_gate_prepare, aq_repo_id = sv_repo_id task,
      aq_task_id = sv_task_id task,
      aq_subject = JObj [(''branch'', JStr (sv_branch task)), (''baseBranch'', JStr (sv_base_branch task))],
      aq_binding = JObj [(''expectedHeadSha'', JStr (xi_head i)), (''expectedTreeSha'', JStr (xi_tree i)),
        (''mergeMethod'', JStr (method_name (sv_merge_method task))), (''retainTaskBranch'', JBool True)]\<rparr>"

definition gate_blocked ::
  "'w gh_env \<Rightarrow> server_owned_task \<Rightarrow> exact_task_input \<Rightarrow> github_operation \<Rightarrow> blocker list \<Rightarrow> ('w, 'z, gate_result) gh" where
  "gate_blocked E task i operation blockers =
     catchE
       (bindE (tagE operation
          (bindE (now_text E) (\<lambda>observed_at.
           bindE (storeGitHubEvidence E NS_merge_gates (JObj
             [(''semantic'', JStr ''repo_merge_gate_prepare''), (''eligible'', JBool False),
              (''repoId'', JStr (sv_repo_id task)), (''taskId'', JStr (sv_task_id task)),
              (''headSha'', JStr (xi_head i)), (''treeSha'', JStr (xi_tree i)),
              (''blockers'', JArr (map blocker_json blockers)), (''observedAt'', JStr observed_at)])) (\<lambda>evidence.
           bindE (transition_github E operation LOCAL_MUTATION_COMPLETE None None) (\<lambda>operation1.
           ret (evidence, operation1)))))) (\<lambda>(evidence, operation1).
        tagE operation1
          (bindE (transition_github E operation1 BLOCKED (Some (JObj
             [(''eligible'', JBool False), (''blockers'', JArr (map blocker_json blockers)),
              (''artifactId'', JStr (se_artifact_id evidence)), (''artifactDigest'', JStr (se_digest evidence))])) None)
             (\<lambda>operation2. ret (Gate_Blocked operation2 blockers evidence)))))
       (\<lambda>(e, current).
          if g_phase current \<noteq> LOCAL_MUTATION_STARTED then throw e
          else bindE (transition_github E current BLOCKED None (Some (gate_error_code e))) (\<lambda>failed.
               throw (gate_operation_error e failed)))"

definition gate_eligible ::
  "'w gh_env \<Rightarrow> github_operation \<Rightarrow> manifest_core \<Rightarrow> ('w, 'z, gate_result) gh" where
  "gate_eligible E operation core =
     (let sha = sha256Json (re_sha256 (ge_rt E)) (manifestCoreJson core);
          manifest_id = ''merge_manifest_'' @ sha in
      catchE
       (bindE (tagE operation
          (bindE (askG (ge_put_json E NS_merge_gates sha (manifestCoreJson core))) (\<lambda>artifact_id.
           bindE (transition_github E operation LOCAL_MUTATION_COMPLETE None None) (\<lambda>operation1.
           ret (artifact_id, operation1))))) (\<lambda>(artifact_id, operation1).
        tagE operation1
          (bindE (transition_github E operation1 EXTERNAL_SUCCEEDED (Some (JObj
             [(''eligible'', JBool True), (''manifestId'', JStr manifest_id), (''manifestSha256'', JStr sha),
              (''artifactId'', JStr artifact_id), (''ownerCommand'', JStr (ownerCommand manifest_id))])) None)
             (\<lambda>operation2. ret (Gate_Eligible operation2
                (manifest_core.extend core \<lparr>mm_id = manifest_id, mm_sha256 = sha, mm_artifact_id = Some artifact_id\<rparr>)
                (ownerCommand manifest_id) \<lparr>se_artifact_id = artifact_id, se_digest = sha\<rparr>)))))
       (\<lambda>(e, current).
          bindE (if g_phase current = LOCAL_MUTATION_STARTED
             then transition_github E current BLOCKED None (Some (gate_error_code e)) else ret current) (\<lambda>failed.
          throw (gate_operation_error e failed))))"

definition mergeGatePrepare ::
  "'w gh_env \<Rightarrow> (server_owned_task \<Rightarrow> string \<Rightarrow> ('w, 'z, ci_evidence) gh) \<Rightarrow> exact_task_input \<Rightarrow> ('w, 'z, gate_result) gh" where
  "mergeGatePrepare E ci i =
     bindE (getServerOwnedTask E (xi_repo_id i)) (\<lambda>task.
     bindE (taskMatches task i) (\<lambda>_.
     bindE (admit E (gate_request task i)) (\<lambda>admission.
     case admission of
       STORED r \<Rightarrow> ret (Gate_Stored r)
     | EXECUTE operation \<Rightarrow>
         bindE (transition_github E operation EXTERNAL_PRECONTACT None None) (\<lambda>operation1.
         bindE (transition_github E operation1 EXTERNAL_CONTACTED None None) (\<lambda>operation2.
         bindE (catchE (evaluate E ci task (xi_head i) (xi_tree i) None) (\<lambda>e.
            bindE (transition_github E operation2 FAILED_KNOWN_AFTER_CONTACT None (Some (gate_error_code e))) (\<lambda>failed.
            throw (gate_operation_error e failed)))) (\<lambda>(blockers, core).
         bindE (transition_github E operation2 LOCAL_MUTATION_STARTED None None) (\<lambda>operation3.
         if blockers \<noteq> [] then gate_blocked E task i operation3 blockers
         else gate_eligible E operation3 core)))))))"

definition manifest_expired :: "'w gh_env \<Rightarrow> manifest_core \<Rightarrow> int \<Rightarrow> bool" where
  "manifest_expired E core now = (case ge_date E (mc_expires_at core) of None \<Rightarrow> False | Some t \<Rightarrow> t \<le> now)"

definition loadAndRevalidateExactManifest ::
  "'w gh_env \<Rightarrow> (server_owned_task \<Rightarrow> string \<Rightarrow> ('w, 'z, ci_evidence) gh) \<Rightarrow> string \<Rightarrow> string
   \<Rightarrow> ('w, 'z, merge_manifest) gh" where
  "loadAndRevalidateExactManifest E ci manifest_id manifest_sha0 =
     bindE (liftR (assertDigest manifest_sha0)) (\<lambda>sha.
     bindE (throw_if (manifest_id \<noteq> ''merge_manifest_'' @ sha) (boundary ''MERGE_MANIFEST_ID_MISMATCH'')) (\<lambda>_.
     bindE (askG (ge_get_json E NS_merge_gates sha)) (\<lambda>stored_option.
     case stored_option of
       None \<Rightarrow> throw (boundary ''MERGE_MANIFEST_NOT_FOUND'')
     | Some stored \<Rightarrow>
         bindE (throw_if (sha256Json (re_sha256 (ge_rt E)) stored \<noteq> sha) (boundary ''MERGE_MANIFEST_NOT_FOUND'')) (\<lambda>_.
         bindE (liftR (parseMergeGateManifestCore E stored)) (\<lambda>core.
         bindE (readG (ge_now E)) (\<lambda>now.
         bindE (throw_if (manifest_expired E core now) (boundary ''MERGE_MANIFEST_EXPIRED'')) (\<lambda>_.
         bindE (getServerOwnedTask E (mc_repo_id core)) (\<lambda>task.
         bindE (throw_if (sv_task_id task \<noteq> mc_task_id core) (boundary ''MERGE_MANIFEST_TASK_MISMATCH'')) (\<lambda>_.
         bindE (evaluate E ci task (mc_head core) (mc_tree core)
            (Some \<lparr>fg_ci_status_id = mc_ci_status_id core, fg_prepared_at = mc_prepared_at core,
                  fg_expires_at = mc_expires_at core\<rparr>)) (\<lambda>(blockers, current).
         bindE (throw_if (blockers \<noteq> [] \<or> sha256Json (re_sha256 (ge_rt E)) (manifestCoreJson current) \<noteq> sha)
            (boundary ''MERGE_GATE_DRIFT'')) (\<lambda>_.
         ret (manifest_core.extend core \<lparr>mm_id = manifest_id, mm_sha256 = sha, mm_artifact_id = None\<rparr>))))))))))))"

end
