(* ===== verification/Github_Merge.thy ===== *)
theory Github_Merge
  imports Github_Gate
begin

text \<open>
  The merge (src/services/github-merge-service.ts): one operation id, one exact manifest that
  is re-evaluated, one owner approval claimed by the operation, then Ready and merge, each
  asked for once; whatever fails after that is read back, never repeated.
\<close>

section \<open>Checks on the pull request\<close>

definition assertManifestTaskBinding ::
  "merge_manifest \<Rightarrow> server_owned_task \<Rightarrow> exact_task_input \<Rightarrow> ('w, 'z, unit) gh" where
  "assertManifestTaskBinding m task i =
     throw_if (mc_repo_id m \<noteq> sv_repo_id task \<or> mc_task_id m \<noteq> sv_task_id task
       \<or> to_lower (mc_name_with_owner m) \<noteq> to_lower (rr_owner (sv_repository task) @ ''/'' @ rr_name (sv_repository task))
       \<or> mc_task_branch m \<noteq> sv_branch task \<or> mc_base_branch m \<noteq> sv_base_branch task
       \<or> mc_head m \<noteq> xi_head i \<or> mc_tree m \<noteq> xi_tree i \<or> mc_merge_method m \<noteq> sv_merge_method task)
     (boundary ''MERGE_MANIFEST_BINDING_MISMATCH'')"

definition assertDraftMergeCandidate :: "merge_manifest \<Rightarrow> pull_request \<Rightarrow> ('w, 'z, unit) gh" where
  "assertDraftMergeCandidate m pr =
     throw_if (pr_id pr \<noteq> mc_pr_id m \<or> pr_number pr \<noteq> mc_pr_number m \<or> pr_state pr \<noteq> PR_OPEN \<or> \<not> pr_is_draft pr
       \<or> pr_mergeable pr \<noteq> PR_MERGEABLE \<or> pr_head_ref pr \<noteq> mc_task_branch m \<or> pr_head pr \<noteq> mc_head m
       \<or> pr_base_ref pr \<noteq> mc_base_branch m \<or> pr_base pr \<noteq> mc_base m) (boundary ''MERGE_PR_DRIFT'')"

definition assertReadyMergeCandidate :: "merge_manifest \<Rightarrow> pull_request \<Rightarrow> ('w, 'z, unit) gh" where
  "assertReadyMergeCandidate m pr =
     throw_if (pr_id pr \<noteq> mc_pr_id m \<or> pr_number pr \<noteq> mc_pr_number m \<or> pr_state pr \<noteq> PR_OPEN \<or> pr_is_draft pr
       \<or> pr_head_ref pr \<noteq> mc_task_branch m \<or> pr_head pr \<noteq> mc_head m \<or> pr_base_ref pr \<noteq> mc_base_branch m)
     (boundary_unknown ''READY_READBACK_MISMATCH'')"

definition isExactMergedPullRequest :: "merge_manifest \<Rightarrow> pull_request \<Rightarrow> bool" where
  "isExactMergedPullRequest m pr \<longleftrightarrow>
     pr_number pr = mc_pr_number m \<and> pr_state pr = PR_MERGED \<and> pr_head_ref pr = mc_task_branch m
   \<and> pr_head pr = mc_head m \<and> pr_base_ref pr = mc_base_branch m \<and> pr_merge_commit pr \<noteq> None \<and> pr_merged_at pr \<noteq> None"

definition assertMergedPullRequest :: "merge_manifest \<Rightarrow> pull_request \<Rightarrow> ('w, 'z, unit) gh" where
  "assertMergedPullRequest m pr =
     throw_if (\<not> isExactMergedPullRequest m pr) (boundary_unknown ''MERGE_READBACK_MISMATCH'')"

section \<open>The operation\<close>

record merge_input = exact_task_input +
  xi_manifest_id :: string
  xi_manifest_sha :: string
  xi_approval_id :: string

definition merge_gate_ref :: "merge_input \<Rightarrow> gate_ref" where
  "merge_gate_ref i = \<lparr>gr_gate = xi_manifest_id i, gr_sha = xi_manifest_sha i\<rparr>"

datatype merge_result =
    Merge_Executed github_operation merge_manifest string string stored_evidence
  | Merge_Stored github_operation

definition merge_error_code :: "gh_err \<Rightarrow> string" where
  "merge_error_code = errorCode ''MERGE_OPERATION_FAILED''"

definition merge_operation_error :: "gh_err \<Rightarrow> github_operation \<Rightarrow> gh_err" where
  "merge_operation_error = operationError ''MERGE_OPERATION_FAILED''"

definition merge_request :: "server_owned_task \<Rightarrow> merge_input \<Rightarrow> admission_request" where
  "merge_request task i =
     \<lparr>aq_operation_id = xi_operation_id i, aq_semantic = SEM_write_merge, aq_repo_id = sv_repo_id task,
      aq_task_id = sv_task_id task, aq_subject = JObj [(''manifestId'', JStr (xi_manifest_id i))],
      aq_binding = JObj [(''expectedHeadSha'', JStr (xi_head i)), (''expectedTreeSha'', JStr (xi_tree i)),
        (''manifestId'', JStr (xi_manifest_id i)), (''manifestSha256'', JStr (xi_manifest_sha i)),
        (''approvalId'', JStr (xi_approval_id i))]\<rparr>"

text \<open>\<open>catch (error) { operation = await transition(operation, phase, ...); throw operationError(...) }\<close>\<close>

definition fail_merge :: "'w gh_env \<Rightarrow> github_operation \<Rightarrow> op_phase \<Rightarrow> gh_err \<Rightarrow> ('w, 'z, 'a) gh" where
  "fail_merge E operation phase e =
     bindE (transition_github E operation phase None (Some (merge_error_code e))) (\<lambda>failed.
     throw (merge_operation_error e failed))"

definition merge_admitted_checks :: "'w gh_env \<Rightarrow> merge_input \<Rightarrow> ('w, 'z, unit) gh" where
  "merge_admitted_checks E i =
     bindE (bindExactTask E (exact_task_input.truncate i) True) (\<lambda>_.
     bindE (inspect_approval E (xi_approval_id i) (merge_gate_ref i)) (\<lambda>approval.
     throw_if (oa_consumed approval) (boundary ''APPROVAL_CONSUMED'')))"

definition merge_candidate ::
  "'w gh_env \<Rightarrow> (server_owned_task \<Rightarrow> string \<Rightarrow> ('w, 'z, ci_evidence) gh) \<Rightarrow> server_owned_task \<Rightarrow> merge_input
   \<Rightarrow> ('w, 'z, merge_manifest) gh" where
  "merge_candidate E ci task i =
     bindE (askG (ge_repository E (sv_repository task))) (\<lambda>repository.
     bindE (liftR (assertWritablePublicationTarget task repository)) (\<lambda>_.
     bindE (loadAndRevalidateExactManifest E ci (xi_manifest_id i) (xi_manifest_sha i)) (\<lambda>m.
     bindE (assertManifestTaskBinding m task (exact_task_input.truncate i)) (\<lambda>_.
     bindE (askG (ge_pr E (sv_repository task) (mc_pr_number m))) (\<lambda>pr.
     bindE (assertDraftMergeCandidate m pr) (\<lambda>_.
     ret m))))))"

definition claim_for_merge ::
  "'w gh_env \<Rightarrow> merge_input \<Rightarrow> github_operation \<Rightarrow> ('w, 'z, github_operation) gh" where
  "claim_for_merge E i operation =
     bindE (claim_approval E (xi_approval_id i) (merge_gate_ref i) (xi_operation_id i)) (\<lambda>claimed.
     bindE (throw_if (\<not> oa_consumed claimed \<or> oa_consumed_by claimed \<noteq> Some (xi_operation_id i))
       (boundary ''APPROVAL_CLAIM_MISMATCH'')) (\<lambda>_.
     transition_github E operation LOCAL_MUTATION_COMPLETE (Some (JObj
       [(''approvalId'', JStr (xi_approval_id i)), (''approvalConsumed'', JBool True),
        (''manifestId'', JStr (xi_manifest_id i)), (''manifestSha256'', JStr (xi_manifest_sha i))])) None))"

definition merge_result_members ::
  "merge_manifest \<Rightarrow> string \<Rightarrow> string \<Rightarrow> string \<Rightarrow> bool \<Rightarrow> (string \<times> json) list" where
  "merge_result_members m approval_id commit merged_at reconciled =
     [(''manifestId'', JStr (mm_id m)), (''manifestSha256'', JStr (mm_sha256 m)), (''approvalId'', JStr approval_id),
      (''approvalConsumed'', JBool True), (''pullRequestNumber'', JNum (mc_pr_number m)),
      (''mergeMethod'', JStr (method_name (mc_merge_method m))), (''baseSha'', JStr (mc_base m)),
      (''mergedHeadSha'', JStr (mc_head m)), (''mergeCommitSha'', JStr commit), (''mergedAt'', JStr merged_at),
      (''retainTaskBranch'', JBool True), (''reconciled'', JBool reconciled)]"

definition merge_commit_of :: "pull_request \<Rightarrow> merge_api_result option \<Rightarrow> string" where
  "merge_commit_of pr api = (case pr_merge_commit pr of Some c \<Rightarrow> c
     | None \<Rightarrow> (case Option.bind api ma_sha of Some c \<Rightarrow> c | None \<Rightarrow> []))"

text \<open>An empty timestamp is falsy.\<close>

definition completeKnownMerge ::
  "'w gh_env \<Rightarrow> github_operation \<Rightarrow> server_owned_task \<Rightarrow> merge_manifest \<Rightarrow> string \<Rightarrow> pull_request
   \<Rightarrow> merge_api_result option \<Rightarrow> bool \<Rightarrow> ('w, 'z, merge_result) gh" where
  "completeKnownMerge E operation task m approval_id pr api reconciled =
     bindE (assertMergedPullRequest m pr) (\<lambda>_.
     bindE (liftR (assertSha (merge_commit_of pr api))) (\<lambda>commit.
     bindE (case pr_merged_at pr of
         None \<Rightarrow> throw (boundary_unknown ''MERGE_TIMESTAMP_MISSING'')
       | Some t \<Rightarrow> if t = [] then throw (boundary_unknown ''MERGE_TIMESTAMP_MISSING'') else ret t) (\<lambda>merged_at.
     let members = merge_result_members m approval_id commit merged_at reconciled in
     bindE (catchE (storeGitHubEvidence E NS_merge (JObj
         ([(''semantic'', JStr ''repo_write_merge''), (''repoId'', JStr (sv_repo_id task)), (''taskId'', JStr (sv_task_id task))]
          @ members))) (\<lambda>e.
        bindE (transition_github E operation FAILED_KNOWN_AFTER_CONTACT (Some (JObj members)) (Some ''MERGE_EVIDENCE_STORE_FAILED'')) (\<lambda>failed.
        throw (merge_operation_error e failed)))) (\<lambda>evidence.
     bindE (transition_github E operation EXTERNAL_SUCCEEDED (Some (JObj
         (members @ [(''artifactId'', JStr (se_artifact_id evidence)), (''artifactDigest'', JStr (se_digest evidence))]))) None) (\<lambda>completed.
     ret (Merge_Executed completed m approval_id commit evidence))))))"

text \<open>
  The mutable locals of the last \<open>try\<close>: whether the pull request was seen Ready, and what the
  merge call answered. \<open>tagE\<close> marks an error with their values.
\<close>

definition merge_attempt ::
  "'w gh_env \<Rightarrow> server_owned_task \<Rightarrow> merge_input \<Rightarrow> merge_manifest \<Rightarrow> github_operation
   \<Rightarrow> (gh_err \<times> bool \<times> merge_api_result option, ('w, 'z) gh_state_scheme, merge_result) eff" where
  "merge_attempt E task i m operation =
     bindE (tagE (False, None)
       (bindE (effectG (Call_Ready (xi_operation_id i)) (ge_mark_ready E (sv_repository task) (mc_pr_id m))) (\<lambda>ready.
        assertReadyMergeCandidate m ready))) (\<lambda>_.
     bindE (tagE (True, None)
       (effectG (Call_Merge (xi_operation_id i) (mc_pr_number m) (mc_head m) (mc_merge_method m))
         (ge_merge E (sv_repository task) (mc_pr_number m) (mc_head m) (mc_merge_method m)))) (\<lambda>api.
     tagE (True, Some api)
       (bindE (throw_if (\<not> ma_merged api) (boundary_unknown ''MERGE_NOT_CONFIRMED'')) (\<lambda>_.
        bindE (askG (ge_pr E (sv_repository task) (mc_pr_number m))) (\<lambda>merged.
        completeKnownMerge E operation task m (xi_approval_id i) merged (Some api) False)))))"

definition unknown_members :: "merge_input \<Rightarrow> merge_manifest \<Rightarrow> bool \<Rightarrow> (string \<times> json) list" where
  "unknown_members i m ready =
     [(''approvalId'', JStr (xi_approval_id i)), (''approvalConsumed'', JBool True), (''manifestId'', JStr (mm_id m)),
      (''pullRequestNumber'', JNum (mc_pr_number m)), (''readyObserved'', JBool ready)]"

definition merge_readback ::
  "'w gh_env \<Rightarrow> server_owned_task \<Rightarrow> merge_input \<Rightarrow> merge_manifest \<Rightarrow> github_operation \<Rightarrow> gh_err
   \<Rightarrow> bool \<Rightarrow> merge_api_result option \<Rightarrow> (gh_err \<times> github_operation, ('w, 'z) gh_state_scheme, merge_result) eff" where
  "merge_readback E task i m operation e ready api =
     bindE (tagE operation (askG (ge_pr E (sv_repository task) (mc_pr_number m)))) (\<lambda>observed.
     if isExactMergedPullRequest m observed
     then tagE operation (completeKnownMerge E operation task m (xi_approval_id i) observed api True)
     else
       let partial = ready \<or> (pr_state observed = PR_OPEN \<and> \<not> pr_is_draft observed) in
       bindE (tagE operation (transition_github E operation UNKNOWN_AFTER_CONTACT
          (Some (JObj (unknown_members i m partial @ [(''mergedObserved'', JBool False)])))
          (Some (if partial then ''MERGE_PARTIAL_READY_ONLY'' else merge_error_code e)))) (\<lambda>operation1.
       tagE operation1 (throw (merge_operation_error
          (boundary_unknown (if partial then ''MERGE_PARTIAL_READY_ONLY'' else ''MERGE_EFFECT_UNKNOWN'')) operation1))))"

definition merge_recover ::
  "'w gh_env \<Rightarrow> server_owned_task \<Rightarrow> merge_input \<Rightarrow> merge_manifest \<Rightarrow> github_operation \<Rightarrow> gh_err
   \<Rightarrow> bool \<Rightarrow> merge_api_result option \<Rightarrow> ('w, 'z, merge_result) gh" where
  "merge_recover E task i m operation e ready api =
     (if isOperationError e then throw e
      else catchE (merge_readback E task i m operation e ready api) (\<lambda>(readback_error, current).
        if isOperationError readback_error then throw readback_error
        else bindE (transition_github E current UNKNOWN_AFTER_CONTACT (Some (JObj (unknown_members i m ready)))
               (Some ''MERGE_READBACK_UNAVAILABLE'')) (\<lambda>failed.
             throw (merge_operation_error e failed))))"

definition merge_execute ::
  "'w gh_env \<Rightarrow> (server_owned_task \<Rightarrow> string \<Rightarrow> ('w, 'z, ci_evidence) gh) \<Rightarrow> server_owned_task \<Rightarrow> merge_input
   \<Rightarrow> github_operation \<Rightarrow> ('w, 'z, merge_result) gh" where
  "merge_execute E ci task i operation =
     bindE (catchE (merge_admitted_checks E i) (fail_merge E operation BLOCKED)) (\<lambda>_.
     bindE (transition_github E operation EXTERNAL_PRECONTACT None None) (\<lambda>operation1.
     bindE (transition_github E operation1 EXTERNAL_CONTACTED None None) (\<lambda>operation2.
     bindE (catchE (merge_candidate E ci task i) (fail_merge E operation2 FAILED_KNOWN_AFTER_CONTACT)) (\<lambda>m.
     bindE (transition_github E operation2 LOCAL_MUTATION_STARTED None None) (\<lambda>operation3.
     bindE (catchE (claim_for_merge E i operation3) (fail_merge E operation3 BLOCKED)) (\<lambda>operation4.
     bindE (transition_github E operation4 EXTERNAL_PRECONTACT None None) (\<lambda>operation5.
     bindE (transition_github E operation5 EXTERNAL_CONTACTED None None) (\<lambda>operation6.
     catchE (merge_attempt E task i m operation6)
       (\<lambda>(e, ready, api). merge_recover E task i m operation6 e ready api)))))))))"

definition writeMerge ::
  "'w gh_env \<Rightarrow> (server_owned_task \<Rightarrow> string \<Rightarrow> ('w, 'z, ci_evidence) gh) \<Rightarrow> merge_input \<Rightarrow> ('w, 'z, merge_result) gh" where
  "writeMerge E ci i =
     bindE (getServerOwnedTask E (xi_repo_id i)) (\<lambda>task.
     bindE (taskMatches task (exact_task_input.truncate i)) (\<lambda>_.
     bindE (admit E (merge_request task i)) (\<lambda>admission.
     case admission of
       STORED r \<Rightarrow> ret (Merge_Stored r)
     | EXECUTE operation \<Rightarrow> merge_execute E ci task i operation)))"

end
