(* ===== verification/Github_Ci.thy ===== *)
theory Github_Ci
  imports Github_Exact
begin

text \<open>
  Continuous integration (src/services/github-ci-service.ts): the exact evidence of a commit,
  collected page by page within fixed bounds, and the retry of one failed run, asked for at
  most once per run. The paging loops stop after a hundred pages, so they are recursive on
  the number of pages left.
\<close>

section \<open>Collecting the checks of a commit\<close>

definition check_drift :: gh_err where
  "check_drift = boundary ''CI_CHECK_SET_DRIFT''"

text \<open>
  One turn of the loop: the checks so far, the total, and whether to go on. \<open>page\<close> runs from 1
  to 100; \<open>left\<close> counts the pages that may still be asked for.
\<close>

definition check_turn ::
  "'w gh_env \<Rightarrow> repository_ref \<Rightarrow> string \<Rightarrow> nat \<Rightarrow> int option \<Rightarrow> check_run list
   \<Rightarrow> ('w, 'z, check_run list \<times> int \<times> bool) gh" where
  "check_turn E repository sha page expected checks =
     bindE (askG (ge_checks_page E repository sha page)) (\<lambda>result.
     let total = (case expected of None \<Rightarrow> cp_total result | Some t \<Rightarrow> t);
         checks' = checks @ cp_runs result in
     bindE (throw_if (cp_total result \<noteq> total \<or> 10000 < total) check_drift) (\<lambda>_.
     if total \<le> int (length checks') then ret (checks', total, False)
     else bindE (throw_if (cp_runs result = []) (boundary ''CI_CHECK_PAGINATION_INCOMPLETE'')) (\<lambda>_.
          bindE (throw_if (page = 100) (boundary ''CI_CHECK_LIMIT_EXCEEDED'')) (\<lambda>_.
          ret (checks', total, True)))))"

primrec check_pages ::
  "'w gh_env \<Rightarrow> repository_ref \<Rightarrow> string \<Rightarrow> nat \<Rightarrow> nat \<Rightarrow> int option \<Rightarrow> check_run list
   \<Rightarrow> ('w, 'z, check_run list \<times> int option) gh" where
  "check_pages E repository sha 0 = (\<lambda>page expected checks. ret (checks, expected))"
| "check_pages E repository sha (Suc left) = (\<lambda>page expected checks.
     bindE (check_turn E repository sha page expected checks) (\<lambda>(checks', total, again).
     if again then check_pages E repository sha left (page + 1) (Some total) checks'
     else ret (checks', Some total)))"

definition collectCheckRuns :: "'w gh_env \<Rightarrow> server_owned_task \<Rightarrow> string \<Rightarrow> ('w, 'z, check_run list) gh" where
  "collectCheckRuns E task sha =
     bindE (check_pages E (sv_repository task) sha 100 1 None []) (\<lambda>(checks, expected).
     bindE (throw_if (Some (int (length checks)) \<noteq> expected) (boundary ''CI_CHECK_COUNT_MISMATCH'')) (\<lambda>_.
     bindE (throw_if (\<not> distinct (map ck_id checks)) (boundary ''CI_CHECK_DUPLICATE'')) (\<lambda>_.
     ret checks)))"

definition status_turn ::
  "'w gh_env \<Rightarrow> repository_ref \<Rightarrow> string \<Rightarrow> nat \<Rightarrow> commit_status list \<Rightarrow> ('w, 'z, commit_status list \<times> bool) gh" where
  "status_turn E repository sha page statuses =
     bindE (askG (ge_statuses_page E repository sha page)) (\<lambda>result.
     bindE (throw_if (sp_sha result \<noteq> sha) (boundary ''CI_STATUS_HEAD_MISMATCH'')) (\<lambda>_.
     if length (sp_statuses result) < 100 then ret (statuses @ sp_statuses result, False)
     else bindE (throw_if (page = 100) (boundary ''CI_STATUS_LIMIT_EXCEEDED'')) (\<lambda>_.
          ret (statuses @ sp_statuses result, True))))"

primrec status_pages ::
  "'w gh_env \<Rightarrow> repository_ref \<Rightarrow> string \<Rightarrow> nat \<Rightarrow> nat \<Rightarrow> commit_status list \<Rightarrow> ('w, 'z, commit_status list) gh" where
  "status_pages E repository sha 0 = (\<lambda>page statuses. ret statuses)"
| "status_pages E repository sha (Suc left) = (\<lambda>page statuses.
     bindE (status_turn E repository sha page statuses) (\<lambda>(statuses', again).
     if again then status_pages E repository sha left (page + 1) statuses' else ret statuses'))"

definition collectCommitStatuses :: "'w gh_env \<Rightarrow> server_owned_task \<Rightarrow> string \<Rightarrow> ('w, 'z, commit_status list) gh" where
  "collectCommitStatuses E task sha =
     bindE (status_pages E (sv_repository task) sha 100 1 []) (\<lambda>statuses.
     bindE (throw_if (\<not> distinct (map cs_id statuses)) (boundary ''CI_STATUS_DUPLICATE'')) (\<lambda>_.
     ret statuses))"

section \<open>What the checks amount to\<close>

definition checkRunStatus :: "check_run \<Rightarrow> check_observation_status" where
  "checkRunStatus c = (if ck_status c \<noteq> RUN_completed then CHK_pending
     else if ck_conclusion c = Some ''success'' then CHK_success else CHK_failure)"

definition provider_state :: "check_run \<Rightarrow> run_status \<times> string" where
  "provider_state c = (ck_status c, case ck_conclusion c of None \<Rightarrow> [] | Some s \<Rightarrow> s)"

text \<open>An empty conclusion is falsy and left out.\<close>

definition observe_check_run :: "string \<Rightarrow> string \<Rightarrow> check_run list \<Rightarrow> gh_err + check_observation" where
  "observe_check_run name app checks =
     (let matches = sort_cmp (\<lambda>l r. ck_id l - ck_id r) (filter (\<lambda>c. ck_name c = name \<and> ck_app c = app) checks);
          key = ''check:'' @ app @ '':'' @ name in
      case matches of
        [] \<Rightarrow> Inr \<lparr>co_key = key, co_required = Check_Run name app, co_status = CHK_missing, co_source_id = None,
                  co_source_ids = None, co_conclusion = None\<rparr>
      | c # rest \<Rightarrow>
          if list_ex (\<lambda>d. provider_state d \<noteq> provider_state c) rest then Inl (boundary ''CI_REQUIRED_CHECK_AMBIGUOUS'')
          else Inr \<lparr>co_key = key, co_required = Check_Run name app, co_status = checkRunStatus c,
                   co_source_id = (if rest = [] then Some (ck_id c) else None),
                   co_source_ids = Some (map ck_id matches),
                   co_conclusion = (if ck_conclusion c = Some [] then None else ck_conclusion c)\<rparr>)"

definition commit_observation :: "commit_state \<Rightarrow> check_observation_status" where
  "commit_observation s = (if s = CS_success then CHK_success else if s = CS_pending then CHK_pending else CHK_failure)"

definition observe_commit_status :: "string \<Rightarrow> commit_status list \<Rightarrow> gh_err + check_observation" where
  "observe_commit_status context_name statuses =
     (case filter (\<lambda>s. cs_context s = context_name) statuses of
        [] \<Rightarrow> Inr \<lparr>co_key = ''status:'' @ context_name, co_required = Commit_Status context_name, co_status = CHK_missing,
                  co_source_id = None, co_source_ids = None, co_conclusion = None\<rparr>
      | [s] \<Rightarrow> Inr \<lparr>co_key = ''status:'' @ context_name, co_required = Commit_Status context_name,
                  co_status = commit_observation (cs_state s), co_source_id = Some (cs_id s), co_source_ids = None,
                  co_conclusion = Some (commit_state_name (cs_state s))\<rparr>
      | _ \<Rightarrow> Inl (boundary ''CI_REQUIRED_STATUS_AMBIGUOUS''))"

fun observe_required :: "check_run list \<Rightarrow> commit_status list \<Rightarrow> required_check \<Rightarrow> gh_err + check_observation" where
  "observe_required checks statuses (Check_Run name app) = observe_check_run name app checks"
| "observe_required checks statuses (Commit_Status c) = observe_commit_status c statuses"

definition normalizeRequiredChecks ::
  "server_owned_task \<Rightarrow> check_run list \<Rightarrow> commit_status list \<Rightarrow> gh_err + check_observation list" where
  "normalizeRequiredChecks task checks statuses = mapM (observe_required checks statuses) (sv_required_checks task)"

definition overallCiStatus :: "check_observation list \<Rightarrow> workflow_run list \<Rightarrow> nat \<Rightarrow> ci_overall" where
  "overallCiStatus required runs provider_count =
     (if list_ex (\<lambda>c. co_status c = CHK_failure \<or> co_status c = CHK_missing) required then CI_failure
      else if list_ex (\<lambda>c. co_status c = CHK_pending) required then CI_pending
      else if required \<noteq> [] then CI_success
      else if provider_count = 0 \<and> runs = [] then CI_no_runs
      else if list_ex (\<lambda>r. wr_status r \<noteq> RUN_completed) runs then CI_pending
      else if list_ex (\<lambda>r. wr_conclusion r \<noteq> Some ''success'') runs then CI_failure
      else CI_success)"

section \<open>Snapshots\<close>

text \<open>
  The overall status of a stored snapshot is whatever JSON value prints as one of the four
  names (\<open>String(value.overall)\<close>), so it is kept as JSON; the status of a stored job is any string.
\<close>

record ci_snapshot =
  ss_repo_id :: string
  ss_task_id :: string
  ss_head :: string
  ss_overall :: json
  ss_checks :: "check_observation list"
  ss_runs :: "workflow_run list"
  ss_observed_at :: string

definition required_json :: "required_check \<Rightarrow> json" where
  "required_json r = (case r of
       Check_Run name app \<Rightarrow> JObj [(''kind'', JStr ''check_run''), (''name'', JStr name), (''appSlug'', JStr app)]
     | Commit_Status c \<Rightarrow> JObj [(''kind'', JStr ''commit_status''), (''context'', JStr c)])"

definition nullable_num :: "int option \<Rightarrow> json" where
  "nullable_num n = (case n of None \<Rightarrow> JNull | Some i \<Rightarrow> JNum i)"

definition requiredCheckJson :: "check_observation \<Rightarrow> json" where
  "requiredCheckJson c = JObj
     [(''key'', JStr (co_key c)), (''required'', required_json (co_required c)),
      (''status'', JStr (check_status_name (co_status c))), (''sourceId'', nullable_num (co_source_id c)),
      (''sourceIds'', JArr (map JNum (case co_source_ids c of Some ids \<Rightarrow> ids
         | None \<Rightarrow> (case co_source_id c of None \<Rightarrow> [] | Some i \<Rightarrow> [i])))),
      (''conclusion'', nullable (co_conclusion c))]"

definition workflowJobJson :: "workflow_job \<Rightarrow> json" where
  "workflowJobJson j = JObj
     [(''id'', JNum (wj_id j)), (''name'', JStr (wj_name j)), (''status'', JStr (wj_status j)),
      (''conclusion'', nullable (wj_conclusion j)), (''startedAt'', nullable (wj_started_at j)),
      (''completedAt'', nullable (wj_completed_at j)), (''url'', JStr (wj_url j)),
      (''failureSummary'', JArr (map JStr (wj_failure_summary j)))]"

definition workflowRunJson :: "workflow_run \<Rightarrow> json" where
  "workflowRunJson r = JObj
     [(''id'', JNum (wr_id r)), (''headSha'', JStr (wr_head r)), (''attempt'', JNum (wr_attempt r)),
      (''status'', JStr (run_status_name (wr_status r))), (''conclusion'', nullable (wr_conclusion r)),
      (''workflowName'', JStr (wr_name r)), (''event'', JStr (wr_event r)), (''createdAt'', JStr (wr_created_at r)),
      (''updatedAt'', JStr (wr_updated_at r)), (''url'', JStr (wr_url r)),
      (''jobs'', JArr (map workflowJobJson (wr_jobs r)))]"

definition ci_state_members :: "ci_snapshot \<Rightarrow> (string \<times> json) list" where
  "ci_state_members s =
     [(''semantic'', JStr ''repo_ci_status''), (''repoId'', JStr (ss_repo_id s)), (''taskId'', JStr (ss_task_id s)),
      (''headSha'', JStr (ss_head s)), (''overall'', ss_overall s),
      (''requiredChecks'', JArr (map requiredCheckJson (ss_checks s))),
      (''workflowRuns'', JArr (map workflowRunJson (ss_runs s)))]"

definition ciStateJson :: "ci_snapshot \<Rightarrow> json" where
  "ciStateJson s = JObj (ci_state_members s)"

definition ciSnapshotJson :: "ci_snapshot \<Rightarrow> json" where
  "ciSnapshotJson s = JObj (ci_state_members s @ [(''observedAt'', JStr (ss_observed_at s))])"

definition getExactCiEvidence :: "'w gh_env \<Rightarrow> server_owned_task \<Rightarrow> string \<Rightarrow> ('w, 'z, ci_evidence) gh" where
  "getExactCiEvidence E task expected_head =
     bindE (liftR (assertSha expected_head)) (\<lambda>head.
     bindE (collectCheckRuns E task head) (\<lambda>checks.
     bindE (collectCommitStatuses E task head) (\<lambda>statuses.
     bindE (askG (ge_runs E (sv_repository task) head)) (\<lambda>runs.
     bindE (throw_if (list_ex (\<lambda>r. wr_head r \<noteq> head) runs) (boundary ''CI_RUN_HEAD_MISMATCH'')) (\<lambda>_.
     bindE (liftR (normalizeRequiredChecks task checks statuses)) (\<lambda>required.
     bindE (now_text E) (\<lambda>observed_at.
     let overall = overallCiStatus required runs (length checks + length statuses);
         snapshot = \<lparr>ss_repo_id = sv_repo_id task, ss_task_id = sv_task_id task, ss_head = head, ss_overall = JStr (overall_name overall),
                     ss_checks = required, ss_runs = runs, ss_observed_at = observed_at\<rparr> in
     bindE (storeGitHubEvidence E NS_ci (ciSnapshotJson snapshot)) (\<lambda>stored.
     ret \<lparr>ce_status_id = ''ci_status_'' @ se_digest stored, ce_digest = se_digest stored,
          ce_state_digest = sha256Json (re_sha256 (ge_rt E)) (ciStateJson snapshot), ce_head = head, ce_overall = overall,
          ce_checks = required, ce_runs = runs, ce_observed_at = observed_at, ce_artifact_id = se_artifact_id stored\<rparr>))))))))"

end
