(* ===== verification/Github_Ci_Retry.thy ===== *)
theory Github_Ci_Retry
  imports Github_Ci
begin

text \<open>
  The two operations of src/services/github-ci-service.ts: the status of the continuous
  integration of a task's head, and the retry of one failed run. A retry names a stored
  snapshot by its digest; the snapshot is parsed, compared with the task and with the live
  run, and the retry is asked for under the lock of its subject.
\<close>

section \<open>Parsing a stored snapshot\<close>

definition snapshot_invalid :: gh_err where
  "snapshot_invalid = boundary ''CI_SNAPSHOT_INVALID''"

text \<open>\<open>String(v)\<close> of a JSON value.\<close>

fun js_text :: "json \<Rightarrow> string" where
  "js_text JNull = ''null''"
| "js_text (JBool b) = (if b then ''true'' else ''false'')"
| "js_text (JNum i) = int_string i"
| "js_text (JStr s) = s"
| "js_text (JArr vs) = join_with '','' (map (\<lambda>v. if v = JNull then [] else js_text v) vs)"
| "js_text (JObj kvs) = ''[object Object]''"

definition overall_names :: "string list" where
  "overall_names = [''pending'', ''success'', ''failure'', ''no_runs'']"

definition snapshot_string :: "(string \<times> json) list \<Rightarrow> string \<Rightarrow> gh_err + string" where
  "snapshot_string kvs k = (case string_member kvs k of None \<Rightarrow> Inl snapshot_invalid | Some s \<Rightarrow> Inr s)"

definition snapshot_number :: "(string \<times> json) list \<Rightarrow> string \<Rightarrow> gh_err + int" where
  "snapshot_number kvs k = (case map_of kvs k of Some (JNum i) \<Rightarrow> Inr i | _ \<Rightarrow> Inl snapshot_invalid)"

definition snapshot_array :: "(string \<times> json) list \<Rightarrow> string \<Rightarrow> gh_err + json list" where
  "snapshot_array kvs k = (case map_of kvs k of Some (JArr vs) \<Rightarrow> Inr vs | _ \<Rightarrow> Inl snapshot_invalid)"

definition parseSourceId :: "json option \<Rightarrow> gh_err + int option" where
  "parseSourceId v = (case v of
       None \<Rightarrow> Inr None
     | Some JNull \<Rightarrow> Inr None
     | Some (JNum i) \<Rightarrow> if safe_integer i \<and> 0 < i then Inr (Some i) else Inl snapshot_invalid
     | _ \<Rightarrow> Inl snapshot_invalid)"

fun source_id_of :: "json \<Rightarrow> int option" where
  "source_id_of (JNum i) = (if safe_integer i \<and> 0 < i then Some i else None)"
| "source_id_of _ = None"

fun ascending :: "int list \<Rightarrow> bool" where
  "ascending (a # b # rest) \<longleftrightarrow> a < b \<and> ascending (b # rest)"
| "ascending _ = True"

definition parseSourceIds :: "json option \<Rightarrow> gh_err + int list option" where
  "parseSourceIds v = (case v of
       None \<Rightarrow> Inr None
     | Some (JArr vs) \<Rightarrow>
         (let ids = List.map_filter source_id_of vs in
          if length ids \<noteq> length vs \<or> \<not> distinct ids \<or> \<not> ascending ids then Inl snapshot_invalid else Inr (Some ids))
     | _ \<Rightarrow> Inl snapshot_invalid)"

definition assertSourceIdentity :: "int option \<Rightarrow> int list option \<Rightarrow> gh_err + unit" where
  "assertSourceIdentity source_id source_ids = (case source_ids of
       None \<Rightarrow> Inr ()
     | Some ids \<Rightarrow>
         guardR (\<not> (ids = [] \<and> source_id \<noteq> None) \<and> \<not> (length ids = 1 \<and> source_id \<noteq> Some (hd ids))
                 \<and> \<not> (1 < length ids \<and> source_id \<noteq> None)) snapshot_invalid)"

definition parse_required :: "(string \<times> json) list \<Rightarrow> gh_err + required_check" where
  "parse_required kvs =
     (case (string_member kvs ''kind'', string_member kvs ''name'', string_member kvs ''appSlug'', string_member kvs ''context'') of
        (Some kind, name, app, context_name) \<Rightarrow>
          if kind = ''check_run'' \<and> name \<noteq> None \<and> app \<noteq> None then Inr (Check_Run (the name) (the app))
          else if kind = ''commit_status'' \<and> context_name \<noteq> None then Inr (Commit_Status (the context_name))
          else Inl snapshot_invalid
      | _ \<Rightarrow> Inl snapshot_invalid)"

definition parse_check_status :: "json option \<Rightarrow> gh_err + check_observation_status" where
  "parse_check_status v =
     (if v = Some (JStr ''missing'') then Inr CHK_missing
      else if v = Some (JStr ''pending'') then Inr CHK_pending
      else if v = Some (JStr ''success'') then Inr CHK_success
      else if v = Some (JStr ''failure'') then Inr CHK_failure
      else Inl snapshot_invalid)"

definition parseRequiredCheckObservation :: "json \<Rightarrow> gh_err + check_observation" where
  "parseRequiredCheckObservation v = (case v of
       JObj kvs \<Rightarrow>
         (case map_of kvs ''required'' of
            Some (JObj required_kvs) \<Rightarrow>
              bindR (snapshot_string kvs ''key'') (\<lambda>key.
              bindR (parse_check_status (map_of kvs ''status'')) (\<lambda>status.
              bindR (parse_required required_kvs) (\<lambda>required.
              bindR (parseSourceId (map_of kvs ''sourceId'')) (\<lambda>source_id.
              bindR (parseSourceIds (map_of kvs ''sourceIds'')) (\<lambda>source_ids.
              bindR (assertSourceIdentity source_id source_ids) (\<lambda>_.
              Inr \<lparr>co_key = key, co_required = required, co_status = status, co_source_id = source_id,
                   co_source_ids = source_ids, co_conclusion = string_member kvs ''conclusion''\<rparr>))))))
          | _ \<Rightarrow> Inl snapshot_invalid)
     | _ \<Rightarrow> Inl snapshot_invalid)"

definition summary_of :: "json \<Rightarrow> gh_err + string" where
  "summary_of v = (case v of JStr s \<Rightarrow> Inr s | _ \<Rightarrow> Inl snapshot_invalid)"

definition parse_workflow_job :: "json \<Rightarrow> gh_err + workflow_job" where
  "parse_workflow_job v = (case v of
       JObj kvs \<Rightarrow>
         bindR (snapshot_number kvs ''id'') (\<lambda>id.
         bindR (snapshot_string kvs ''name'') (\<lambda>name.
         bindR (snapshot_string kvs ''status'') (\<lambda>status.
         bindR (snapshot_string kvs ''url'') (\<lambda>url.
         bindR (bindR (snapshot_array kvs ''failureSummary'') (mapM summary_of)) (\<lambda>summary.
         Inr \<lparr>wj_id = id, wj_name = name, wj_status = status, wj_conclusion = string_member kvs ''conclusion'',
              wj_started_at = string_member kvs ''startedAt'', wj_completed_at = string_member kvs ''completedAt'',
              wj_url = url, wj_failure_summary = summary\<rparr>)))))
     | _ \<Rightarrow> Inl snapshot_invalid)"

definition run_statuses :: "run_status list" where
  "run_statuses = [RUN_queued, RUN_in_progress, RUN_completed, RUN_waiting, RUN_pending, RUN_requested]"

definition parse_run_status :: "string \<Rightarrow> gh_err + run_status" where
  "parse_run_status s = (case find (\<lambda>r. run_status_name r = s) run_statuses of
       None \<Rightarrow> Inl snapshot_invalid | Some r \<Rightarrow> Inr r)"

definition parseWorkflowRun :: "json \<Rightarrow> gh_err + workflow_run" where
  "parseWorkflowRun v = (case v of
       JObj kvs \<Rightarrow>
         bindR (snapshot_number kvs ''id'') (\<lambda>id.
         bindR (snapshot_string kvs ''headSha'') (\<lambda>head0.
         bindR (snapshot_number kvs ''attempt'') (\<lambda>attempt.
         bindR (bindR (snapshot_string kvs ''status'') parse_run_status) (\<lambda>status.
         bindR (snapshot_string kvs ''workflowName'') (\<lambda>name.
         bindR (snapshot_string kvs ''event'') (\<lambda>event.
         bindR (snapshot_string kvs ''createdAt'') (\<lambda>created_at.
         bindR (snapshot_string kvs ''updatedAt'') (\<lambda>updated_at.
         bindR (snapshot_string kvs ''url'') (\<lambda>url.
         bindR (snapshot_array kvs ''jobs'') (\<lambda>jobs0.
         bindR (assertSha head0) (\<lambda>head.
         bindR (mapM parse_workflow_job jobs0) (\<lambda>jobs.
         Inr \<lparr>wr_id = id, wr_head = head, wr_attempt = attempt, wr_status = status,
              wr_conclusion = string_member kvs ''conclusion'', wr_name = name, wr_event = event,
              wr_created_at = created_at, wr_updated_at = updated_at, wr_url = url, wr_jobs = jobs\<rparr>))))))))))))
     | _ \<Rightarrow> Inl snapshot_invalid)"

definition parseStoredCiSnapshot :: "json \<Rightarrow> gh_err + ci_snapshot" where
  "parseStoredCiSnapshot v = (case v of
       JObj kvs \<Rightarrow>
         bindR (guardR (map_of kvs ''semantic'' = Some (JStr ''repo_ci_status'')) snapshot_invalid) (\<lambda>_.
         bindR (snapshot_string kvs ''repoId'') (\<lambda>repo_id.
         bindR (snapshot_string kvs ''taskId'') (\<lambda>task_id.
         bindR (snapshot_string kvs ''headSha'') (\<lambda>head0.
         bindR (snapshot_string kvs ''observedAt'') (\<lambda>observed_at.
         bindR (case map_of kvs ''overall'' of None \<Rightarrow> Inl snapshot_invalid | Some w \<Rightarrow> Inr w) (\<lambda>overall.
         bindR (guardR (js_text overall \<in> set overall_names) snapshot_invalid) (\<lambda>_.
         bindR (snapshot_array kvs ''requiredChecks'') (\<lambda>checks0.
         bindR (snapshot_array kvs ''workflowRuns'') (\<lambda>runs0.
         bindR (mapM parseRequiredCheckObservation checks0) (\<lambda>checks.
         bindR (mapM parseWorkflowRun runs0) (\<lambda>runs.
         bindR (assertSha head0) (\<lambda>head.
         Inr \<lparr>ss_repo_id = repo_id, ss_task_id = task_id, ss_head = head, ss_overall = overall, ss_checks = checks,
              ss_runs = runs, ss_observed_at = observed_at\<rparr>))))))))))))
     | _ \<Rightarrow> Inl snapshot_invalid)"

text \<open>\<open>/^ci_status_([a-f0-9]{64})$/\<close>\<close>

definition ci_status_digest :: "string \<Rightarrow> string option" where
  "ci_status_digest s =
     (if take 10 s = ''ci_status_'' \<and> hex_n 64 (drop 10 s) then Some (drop 10 s) else None)"

definition loadCiSnapshot :: "'w gh_env \<Rightarrow> string \<Rightarrow> ('w, 'z, ci_snapshot) gh" where
  "loadCiSnapshot E ci_status_id = (case ci_status_digest ci_status_id of
       None \<Rightarrow> throw (boundary ''INVALID_CI_STATUS_ID'')
     | Some digest \<Rightarrow>
         bindE (askG (ge_get_json E NS_ci digest)) (\<lambda>stored.
         case stored of
           None \<Rightarrow> throw (boundary ''CI_SNAPSHOT_NOT_FOUND'')
         | Some v \<Rightarrow>
             bindE (throw_if (sha256Json (re_sha256 (ge_rt E)) v \<noteq> digest) (boundary ''CI_SNAPSHOT_NOT_FOUND'')) (\<lambda>_.
             liftR (parseStoredCiSnapshot v))))"

section \<open>The status operation\<close>

definition ci_error_code :: "gh_err \<Rightarrow> string" where
  "ci_error_code = errorCode ''CI_OPERATION_FAILED''"

definition ci_operation_error :: "gh_err \<Rightarrow> github_operation \<Rightarrow> gh_err" where
  "ci_operation_error = operationError ''CI_OPERATION_FAILED''"

definition fail_ci :: "'w gh_env \<Rightarrow> github_operation \<Rightarrow> op_phase \<Rightarrow> gh_err \<Rightarrow> ('w, 'z, 'a) gh" where
  "fail_ci E operation phase e =
     bindE (transition_github E operation phase None (Some (ci_error_code e))) (\<lambda>failed.
     throw (ci_operation_error e failed))"

datatype ci_status_result = Ci_Status github_operation ci_evidence | Ci_Status_Stored github_operation

definition ci_status_request :: "server_owned_task \<Rightarrow> exact_task_input \<Rightarrow> admission_request" where
  "ci_status_request task i =
     \<lparr>aq_operation_id = xi_operation_id i, aq_semantic = SEM_ci_status, aq_repo_id = sv_repo_id task,
      aq_task_id = sv_task_id task, aq_subject = JObj [(''headSha'', JStr (xi_head i))],
      aq_binding = JObj [(''expectedHeadSha'', JStr (xi_head i)), (''expectedTreeSha'', JStr (xi_tree i))]\<rparr>"

definition ci_evidence_json :: "ci_evidence \<Rightarrow> json" where
  "ci_evidence_json ev = JObj
     [(''ciStatusId'', JStr (ce_status_id ev)), (''headSha'', JStr (ce_head ev)),
      (''overall'', JStr (overall_name (ce_overall ev))), (''artifactId'', JStr (ce_artifact_id ev)),
      (''artifactDigest'', JStr (ce_digest ev))]"

definition ciStatus :: "'w gh_env \<Rightarrow> exact_task_input \<Rightarrow> ('w, 'z, ci_status_result) gh" where
  "ciStatus E i =
     bindE (bindExactTask E i False) (\<lambda>(task, _).
     bindE (admit E (ci_status_request task i)) (\<lambda>admission.
     case admission of
       STORED r \<Rightarrow> ret (Ci_Status_Stored r)
     | EXECUTE operation \<Rightarrow>
         bindE (transition_github E operation EXTERNAL_PRECONTACT None None) (\<lambda>operation1.
         bindE (transition_github E operation1 EXTERNAL_CONTACTED None None) (\<lambda>operation2.
         catchE
           (bindE (assertExactRemoteHead E task (xi_head i) (xi_tree i)) (\<lambda>_.
            bindE (getExactCiEvidence E task (xi_head i)) (\<lambda>ev.
            bindE (transition_github E operation2 EXTERNAL_SUCCEEDED (Some (ci_evidence_json ev)) None) (\<lambda>operation3.
            ret (Ci_Status operation3 ev)))))
           (fail_ci E operation2 FAILED_KNOWN_AFTER_CONTACT)))))"

section \<open>Checks of a retry\<close>

text \<open>\<open>/^[1-9][0-9]{0,19}$/\<close>, and the number it denotes when that is a safe integer. A longer
  numeral rounds to a number that is not safe.\<close>

definition is_run_id :: "string \<Rightarrow> bool" where
  "is_run_id s = (case s of [] \<Rightarrow> False
     | c # cs \<Rightarrow> is_digit c \<and> c \<noteq> CHR ''0'' \<and> length cs \<le> 19 \<and> list_all is_digit cs)"

definition run_number :: "string \<Rightarrow> int option" where
  "run_number s = (let n = int (digits_value 0 s) in if is_run_id s \<and> safe_integer n then Some n else None)"

definition falsy_string :: "string option \<Rightarrow> bool" where
  "falsy_string c \<longleftrightarrow> c = None \<or> c = Some []"

definition assertTransientRetryEligible :: "server_owned_task \<Rightarrow> workflow_run \<Rightarrow> ('w, 'z, unit) gh" where
  "assertTransientRetryEligible task run =
     bindE (throw_if (length (wr_head run) \<noteq> 40 \<or> wr_attempt run \<noteq> 1 \<or> wr_status run \<noteq> RUN_completed
       \<or> falsy_string (wr_conclusion run)) (boundary ''CI_RETRY_NOT_ELIGIBLE'')) (\<lambda>_.
     throw_if (wr_conclusion run \<notin> Some ` set (sv_transient_conclusions task)) (boundary ''CI_FAILURE_NOT_TRANSIENT''))"

definition assertSameRun :: "workflow_run \<Rightarrow> workflow_run \<Rightarrow> string \<Rightarrow> ('w, 'z, unit) gh" where
  "assertSameRun stored live head =
     throw_if (wr_id stored \<noteq> wr_id live \<or> wr_head stored \<noteq> head \<or> wr_head live \<noteq> head
       \<or> wr_attempt stored \<noteq> wr_attempt live \<or> wr_status stored \<noteq> wr_status live
       \<or> wr_conclusion stored \<noteq> wr_conclusion live) (boundary ''CI_RUN_DRIFT'')"

definition assertSnapshotBinding :: "ci_snapshot \<Rightarrow> server_owned_task \<Rightarrow> string \<Rightarrow> ('w, 'z, unit) gh" where
  "assertSnapshotBinding s task head =
     throw_if (ss_repo_id s \<noteq> sv_repo_id task \<or> ss_task_id s \<noteq> sv_task_id task \<or> ss_head s \<noteq> head)
       (boundary ''CI_SNAPSHOT_BINDING_MISMATCH'')"

definition retryWasConsumed :: "github_operation \<Rightarrow> bool" where
  "retryWasConsumed r \<longleftrightarrow>
     g_phase r = EXTERNAL_SUCCEEDED \<or> g_phase r = UNKNOWN_AFTER_CONTACT
   \<or> (g_phase r = EXTERNAL_CONTACTED \<or> g_phase r = FAILED_KNOWN_AFTER_CONTACT) \<and> g_result r \<noteq> None"

section \<open>The retry operation\<close>

record ci_retry_input = exact_task_input +
  xi_ci_status_id :: string
  xi_run_ids :: "string list"

datatype ci_retry_result =
    Ci_Retried github_operation string "string list" stored_evidence
  | Ci_Retry_Stored github_operation

definition retryOperationResult ::
  "string \<Rightarrow> string \<Rightarrow> stored_evidence \<Rightarrow> workflow_run \<Rightarrow> (string \<times> json) list" where
  "retryOperationResult ci_status_id run_id ev after =
     [(''ciStatusId'', JStr ci_status_id), (''retriedRunIds'', JArr [JStr run_id]), (''skippedRunIds'', JArr []),
      (''changed'', JBool True), (''successorAttempt'', JNum (wr_attempt after)),
      (''artifactId'', JStr (se_artifact_id ev)), (''artifactDigest'', JStr (se_digest ev))]"

definition retry_subject :: "exact_task_input \<Rightarrow> string \<Rightarrow> json" where
  "retry_subject i run_id = JObj [(''headSha'', JStr (xi_head i)), (''runId'', JStr run_id)]"

definition retry_request :: "server_owned_task \<Rightarrow> ci_retry_input \<Rightarrow> string \<Rightarrow> admission_request" where
  "retry_request task i run_id =
     \<lparr>aq_operation_id = xi_operation_id i, aq_semantic = SEM_write_ci_retry_failed, aq_repo_id = sv_repo_id task,
      aq_task_id = sv_task_id task, aq_subject = retry_subject (exact_task_input.truncate i) run_id,
      aq_binding = JObj [(''expectedHeadSha'', JStr (xi_head i)), (''expectedTreeSha'', JStr (xi_tree i)),
        (''ciStatusId'', JStr (xi_ci_status_id i)), (''runId'', JStr run_id)]\<rparr>"

text \<open>One retry per run: another operation on the same subject that may have reached GitHub blocks this one.\<close>

definition retry_once :: "'w gh_env \<Rightarrow> server_owned_task \<Rightarrow> github_operation \<Rightarrow> ('w, 'z, unit) gh" where
  "retry_once E task operation =
     catchE
       (bindE (findBySubject E (sv_repo_id task) (sv_task_id task) (Some SEM_write_ci_retry_failed) (g_subject_digest operation)) (\<lambda>prior.
        if list_ex (\<lambda>r. g_operation_id r \<noteq> g_operation_id operation \<and> retryWasConsumed r) prior
        then bindE (transition_github E operation BLOCKED None (Some ''CI_RETRY_ALREADY_CONSUMED'')) (\<lambda>blocked.
             throw (ci_operation_error (boundary ''CI_RETRY_ALREADY_CONSUMED'') blocked))
        else ret ()))
       (\<lambda>e. if isOperationError e then throw e else fail_ci E operation FAILED_PRECONTACT e)"

text \<open>Up to the point where the mutation may start: the stored run, unchanged and eligible.\<close>

definition retry_checks ::
  "'w gh_env \<Rightarrow> server_owned_task \<Rightarrow> ci_retry_input \<Rightarrow> string \<Rightarrow> int \<Rightarrow> ('w, 'z, workflow_run) gh" where
  "retry_checks E task i run_id number =
     bindE (askG (ge_repository E (sv_repository task))) (\<lambda>repository.
     bindE (liftR (assertWritablePublicationTarget task repository)) (\<lambda>_.
     bindE (assertExactRemoteHead E task (xi_head i) (xi_tree i)) (\<lambda>_.
     bindE (loadCiSnapshot E (xi_ci_status_id i)) (\<lambda>stored.
     bindE (assertSnapshotBinding stored task (xi_head i)) (\<lambda>_.
     case filter (\<lambda>r. int_string (wr_id r) = run_id) (ss_runs stored) of
       [before] \<Rightarrow>
         bindE (assertTransientRetryEligible task before) (\<lambda>_.
         bindE (askG (ge_run E (sv_repository task) number)) (\<lambda>live.
         bindE (assertSameRun before live (xi_head i)) (\<lambda>_.
         bindE (assertTransientRetryEligible task live) (\<lambda>_.
         ret before))))
     | _ \<Rightarrow> throw (boundary ''CI_RUN_NOT_IN_SNAPSHOT''))))))"

definition retry_evidence ::
  "'w gh_env \<Rightarrow> server_owned_task \<Rightarrow> ci_retry_input \<Rightarrow> workflow_run \<Rightarrow> ('w, 'z, stored_evidence) gh" where
  "retry_evidence E task i before =
     bindE (now_text E) (\<lambda>prepared_at.
     storeGitHubEvidence E NS_ci (JObj
       [(''semantic'', JStr ''repo_write_ci_retry_failed''), (''repoId'', JStr (sv_repo_id task)),
        (''taskId'', JStr (sv_task_id task)), (''headSha'', JStr (xi_head i)), (''ciStatusId'', JStr (xi_ci_status_id i)),
        (''runBefore'', workflowRunJson before),
        (''deterministicTransientEvidence'', JObj [(''status'', JStr (run_status_name (wr_status before))),
           (''conclusion'', nullable (wr_conclusion before)), (''attempt'', JNum (wr_attempt before))]),
        (''preparedAt'', JStr prepared_at)]))"

text \<open>The second \<open>try\<close>; its \<open>catch\<close> reads the phase the operation had reached.\<close>

definition retry_prepare ::
  "'w gh_env \<Rightarrow> server_owned_task \<Rightarrow> ci_retry_input \<Rightarrow> string \<Rightarrow> int \<Rightarrow> github_operation
   \<Rightarrow> ('w, 'z, workflow_run \<times> stored_evidence \<times> github_operation) gh" where
  "retry_prepare E task i run_id number operation =
     catchE
       (bindE (tagE operation
          (bindE (retry_checks E task i run_id number) (\<lambda>before.
           bindE (transition_github E operation LOCAL_MUTATION_STARTED None None) (\<lambda>started.
           ret (before, started))))) (\<lambda>(before, started).
        tagE started
          (bindE (retry_evidence E task i before) (\<lambda>ev.
           bindE (transition_github E started LOCAL_MUTATION_COMPLETE (Some (JObj
              [(''artifactId'', JStr (se_artifact_id ev)), (''artifactDigest'', JStr (se_digest ev))])) None) (\<lambda>complete.
           ret (before, ev, complete))))))
       (\<lambda>(e, current).
          if isOperationError e then throw e
          else fail_ci E current (if g_phase current = EXTERNAL_CONTACTED then FAILED_KNOWN_AFTER_CONTACT else BLOCKED) e)"

definition successor_attempt :: "ci_retry_input \<Rightarrow> workflow_run \<Rightarrow> workflow_run \<Rightarrow> bool" where
  "successor_attempt i before after \<longleftrightarrow>
     wr_id after = wr_id before \<and> wr_head after = xi_head i \<and> wr_attempt before < wr_attempt after"

definition retry_attempt ::
  "'w gh_env \<Rightarrow> server_owned_task \<Rightarrow> ci_retry_input \<Rightarrow> string \<Rightarrow> int \<Rightarrow> workflow_run \<Rightarrow> stored_evidence \<Rightarrow> github_operation
   \<Rightarrow> ('w, 'z, ci_retry_result) gh" where
  "retry_attempt E task i run_id number before ev operation =
     bindE (effectG (Call_Retry (xi_operation_id i) number) (ge_retry E (sv_repository task) number)) (\<lambda>_.
     bindE (askG (ge_run E (sv_repository task) number)) (\<lambda>after.
     bindE (throw_if (\<not> successor_attempt i before after) (boundary_unknown ''CI_RETRY_READBACK_UNKNOWN'')) (\<lambda>_.
     bindE (transition_github E operation EXTERNAL_SUCCEEDED
        (Some (JObj (retryOperationResult (xi_ci_status_id i) run_id ev after))) None) (\<lambda>succeeded.
     ret (Ci_Retried succeeded (xi_ci_status_id i) [run_id] ev)))))"

definition retry_reconcile ::
  "'w gh_env \<Rightarrow> server_owned_task \<Rightarrow> ci_retry_input \<Rightarrow> string \<Rightarrow> int \<Rightarrow> workflow_run \<Rightarrow> stored_evidence \<Rightarrow> github_operation
   \<Rightarrow> ('w, 'z, ci_retry_result option) gh" where
  "retry_reconcile E task i run_id number before ev operation =
     catchE
       (bindE (askG (ge_run E (sv_repository task) number)) (\<lambda>after.
        if successor_attempt i before after
        then bindE (transition_github E operation EXTERNAL_SUCCEEDED
               (Some (JObj (retryOperationResult (xi_ci_status_id i) run_id ev after @ [(''reconciled'', JBool True)]))) None)
               (\<lambda>succeeded. ret (Some (Ci_Retried succeeded (xi_ci_status_id i) [run_id] ev)))
        else ret None))
       (\<lambda>_. ret None)"

definition effect_of :: "gh_err \<Rightarrow> gh_effect option" where
  "effect_of e = (case e of Boundary _ f _ _ \<Rightarrow> Some f | Runtime _ \<Rightarrow> None)"

definition retry_contact ::
  "'w gh_env \<Rightarrow> server_owned_task \<Rightarrow> ci_retry_input \<Rightarrow> string \<Rightarrow> int \<Rightarrow> workflow_run \<Rightarrow> stored_evidence \<Rightarrow> github_operation
   \<Rightarrow> ('w, 'z, ci_retry_result) gh" where
  "retry_contact E task i run_id number before ev operation =
     catchE (retry_attempt E task i run_id number before ev operation) (\<lambda>e.
       bindE (retry_reconcile E task i run_id number before ev operation) (\<lambda>reconciled.
       case reconciled of
         Some r \<Rightarrow> ret r
       | None \<Rightarrow> fail_ci E operation
           (if effect_of e = Some KNOWN_EFFECT then FAILED_KNOWN_AFTER_CONTACT else UNKNOWN_AFTER_CONTACT) e))"

definition retry_execute ::
  "'w gh_env \<Rightarrow> server_owned_task \<Rightarrow> ci_retry_input \<Rightarrow> string \<Rightarrow> int \<Rightarrow> github_operation \<Rightarrow> ('w, 'z, ci_retry_result) gh" where
  "retry_execute E task i run_id number operation =
     bindE (retry_once E task operation) (\<lambda>_.
     bindE (transition_github E operation EXTERNAL_PRECONTACT None None) (\<lambda>operation1.
     bindE (transition_github E operation1 EXTERNAL_CONTACTED None None) (\<lambda>operation2.
     bindE (retry_prepare E task i run_id number operation2) (\<lambda>(before, ev, operation3).
     bindE (transition_github E operation3 EXTERNAL_PRECONTACT None None) (\<lambda>operation4.
     bindE (transition_github E operation4 EXTERNAL_CONTACTED None None) (\<lambda>operation5.
     retry_contact E task i run_id number before ev operation5))))))"

definition writeCiRetryFailedLocked ::
  "'w gh_env \<Rightarrow> ci_retry_input \<Rightarrow> string \<Rightarrow> int \<Rightarrow> ('w, 'z, ci_retry_result) gh" where
  "writeCiRetryFailedLocked E i run_id number =
     bindE (bindExactTask E (exact_task_input.truncate i) True) (\<lambda>(task, _).
     bindE (admit E (retry_request task i run_id)) (\<lambda>admission.
     case admission of
       STORED r \<Rightarrow> ret (Ci_Retry_Stored r)
     | EXECUTE operation \<Rightarrow> retry_execute E task i run_id number operation))"

definition writeCiRetryFailed :: "'w gh_env \<Rightarrow> ci_retry_input \<Rightarrow> ('w, 'z, ci_retry_result) gh" where
  "writeCiRetryFailed E i = (case xi_run_ids i of
       [run_id] \<Rightarrow>
         (case run_number run_id of
            None \<Rightarrow> throw (boundary ''INVALID_RUN_ID'')
          | Some number \<Rightarrow>
              withSubjectLock E (xi_repo_id i) (xi_task_id i) SEM_write_ci_retry_failed
                (sha256Json (re_sha256 (ge_rt E)) (retry_subject (exact_task_input.truncate i) run_id))
                (writeCiRetryFailedLocked E i run_id number))
     | _ \<Rightarrow> throw (boundary ''ONE_CI_RUN_REQUIRED''))"

end
