(* ===== verification/Github_Pr.thy ===== *)
theory Github_Pr
  imports Github_Exact
begin

text \<open>
  The draft pull request of a task (src/services/github-pr-service.ts): its status, and its
  creation or update, asked for once per operation id and reconciled by reading the open pull
  requests back. Text that leaves the host is checked by \<open>assertSafeExternalText\<close>
  (src/github/types.ts); the secret patterns of src/policies/secret-patterns.ts are the
  parameter \<open>ge_secret_free\<close>.
\<close>

section \<open>Text that leaves the host\<close>

definition starts_ci :: "string \<Rightarrow> string \<Rightarrow> bool" where
  "starts_ci p s \<longleftrightarrow> to_lower (take (length p) s) = to_lower p"

definition backslash :: char where
  "backslash = CHR 0x5C"

text \<open>What the platform-path expression matches after its first group.\<close>

definition platform_root :: "string \<Rightarrow> bool" where
  "platform_root s \<longleftrightarrow>
     starts_ci ''file://'' s
   \<or> list_ex (\<lambda>d. starts_ci (''/'' @ d @ ''/'') s)
       [''Users'', ''home'', ''private'', ''var'', ''tmp'', ''Volumes'', ''opt'', ''root'']
   \<or> (case s of a # b # c # _ \<Rightarrow> (is_lower a \<or> is_upper a) \<and> b = CHR '':'' \<and> c = backslash | _ \<Rightarrow> False)
   \<or> take 2 s = [backslash, backslash]"

definition path_boundary :: "char \<Rightarrow> bool" where
  "path_boundary c \<longleftrightarrow> is_space c \<or> c \<in> set [CHR ''('', CHR 0x27, CHR 0x22, CHR 0x60]"

fun has_platform_path :: "bool \<Rightarrow> string \<Rightarrow> bool" where
  "has_platform_path boundary_before [] = False"
| "has_platform_path boundary_before (c # cs) \<longleftrightarrow>
     (boundary_before \<and> platform_root (c # cs)) \<or> has_platform_path (path_boundary c) cs"

definition assertSafeExternalText :: "'w gh_env \<Rightarrow> string \<Rightarrow> string list \<Rightarrow> gh_err + string" where
  "assertSafeExternalText E v forbidden_roots =
     (if v = [] \<or> CHR 0x00 \<in> set v then Inl (boundary ''UNSAFE_EXTERNAL_TEXT'')
      else if \<not> ge_secret_free E v then Inl (boundary ''SECRET_IN_EXTERNAL_TEXT'')
      else if has_platform_path True v \<or> list_ex (\<lambda>root. is_absolute root \<and> contains root v) forbidden_roots
      then Inl (boundary ''ABSOLUTE_PATH_IN_EXTERNAL_TEXT'')
      else Inr v)"

section \<open>Checks and evidence\<close>

definition pr_error_code :: "gh_err \<Rightarrow> string" where
  "pr_error_code = errorCode ''PR_OPERATION_FAILED''"

definition fail_pr ::
  "'w gh_env \<Rightarrow> github_operation \<Rightarrow> op_phase \<Rightarrow> gh_err \<Rightarrow> ('w, 'z, 'a) gh" where
  "fail_pr E operation phase e =
     bindE (transition_github E operation phase None (Some (pr_error_code e))) (\<lambda>failed.
     throw (operationError ''PR_OPERATION_FAILED'' e failed))"

definition assertTaskId :: "server_owned_task \<Rightarrow> string \<Rightarrow> ('w, 'z, unit) gh" where
  "assertTaskId task task_id = throw_if (sv_task_id task \<noteq> task_id) (boundary ''TASK_ID_MISMATCH'')"

definition pr_bindExactTask :: "'w gh_env \<Rightarrow> exact_task_input \<Rightarrow> bool \<Rightarrow> ('w, 'z, server_owned_task) gh" where
  "pr_bindExactTask E i require_clean =
     bindE (getServerOwnedTask E (xi_repo_id i)) (\<lambda>task.
     bindE (assertTaskId task (xi_task_id i)) (\<lambda>_.
     bindE (askG (ge_inspect E task)) (\<lambda>local.
     bindE (throw_if (lg_branch local \<noteq> sv_branch task) (boundary ''TASK_BRANCH_DRIFT'')) (\<lambda>_.
     bindE (liftR (assertSha (xi_head i))) (\<lambda>head.
     bindE (throw_if (lg_head local \<noteq> head) (boundary ''HEAD_DRIFT'')) (\<lambda>_.
     bindE (liftR (assertSha (xi_tree i))) (\<lambda>tree.
     bindE (throw_if (lg_tree local \<noteq> tree) (boundary ''TREE_DRIFT'')) (\<lambda>_.
     bindE (throw_if (require_clean \<and> \<not> lg_clean local) (boundary ''WORKTREE_NOT_CLEAN'')) (\<lambda>_.
     ret task)))))))))"

definition assertRemoteHead :: "'w gh_env \<Rightarrow> server_owned_task \<Rightarrow> string \<Rightarrow> string \<Rightarrow> ('w, 'z, unit) gh" where
  "assertRemoteHead E task head tree =
     bindE (askG (ge_ref E (sv_repository task) (branch_ref (sv_branch task)))) (\<lambda>remote.
     throw_if (map_option rf_sha remote \<noteq> Some head \<or> map_option rf_tree remote \<noteq> Some tree)
       (boundary ''REMOTE_HEAD_MISMATCH''))"

definition assertExactPullRequest :: "server_owned_task \<Rightarrow> pull_request \<Rightarrow> string \<Rightarrow> bool \<Rightarrow> gh_err + unit" where
  "assertExactPullRequest task pr head require_draft =
     bindR (guardR (pr_state pr = PR_OPEN) (boundary ''PR_NOT_OPEN'')) (\<lambda>_.
     bindR (guardR (require_draft \<longrightarrow> pr_is_draft pr) (boundary ''PR_NOT_DRAFT'')) (\<lambda>_.
     bindR (guardR (pr_head_ref pr = sv_branch task \<and> pr_head pr = head) (boundary ''PR_HEAD_MISMATCH'')) (\<lambda>_.
     guardR (pr_base_ref pr = sv_base_branch task) (boundary ''PR_BASE_MISMATCH''))))"

record pr_content =
  pc_operation_id :: string
  pc_title :: string
  pc_body :: string

definition assertDesiredDraft ::
  "'w gh_env \<Rightarrow> server_owned_task \<Rightarrow> pull_request \<Rightarrow> string \<Rightarrow> pr_content \<Rightarrow> gh_err + unit" where
  "assertDesiredDraft E task pr head c =
     bindR (assertExactPullRequest task pr head True) (\<lambda>_.
     bindR (guardR (pc_operation_id c \<in> set (pr_markers pr)) (boundary_unknown ''PR_OPERATION_MARKER_MISSING'')) (\<lambda>_.
     guardR (pr_title_digest pr = re_sha256 (ge_rt E) (pc_title c) \<and> pr_body_digest pr = re_sha256 (ge_rt E) (pc_body c))
       (boundary_unknown ''PR_CONTENT_MISMATCH'')))"

definition pr_json :: "pull_request \<Rightarrow> json" where
  "pr_json pr = JObj
     [(''id'', JStr (pr_id pr)), (''number'', JNum (pr_number pr)), (''url'', JStr (pr_url pr)),
      (''state'', JStr (pr_state_name (pr_state pr))), (''draft'', JBool (pr_is_draft pr)), (''title'', JStr (pr_title pr)),
      (''headBranch'', JStr (pr_head_ref pr)), (''headSha'', JStr (pr_head pr)), (''baseBranch'', JStr (pr_base_ref pr)),
      (''baseSha'', JStr (pr_base pr)), (''mergeable'', JStr (mergeable_name (pr_mergeable pr))),
      (''titleDigest'', JStr (pr_title_digest pr)), (''bodyDigest'', JStr (pr_body_digest pr)),
      (''updatedAt'', JStr (pr_updated_at pr))]"

definition storePrEvidence ::
  "'w gh_env \<Rightarrow> server_owned_task \<Rightarrow> pull_request option \<Rightarrow> github_semantic \<Rightarrow> ('w, 'z, stored_evidence) gh" where
  "storePrEvidence E task pr_option semantic = storeGitHubEvidence E NS_pr (JObj
     [(''semantic'', JStr (semantic_name semantic)), (''repoId'', JStr (sv_repo_id task)), (''taskId'', JStr (sv_task_id task)),
      (''branch'', JStr (sv_branch task)),
      (''pullRequest'', case pr_option of None \<Rightarrow> JNull | Some pr \<Rightarrow> pr_json pr)])"

definition pr_subject :: "server_owned_task \<Rightarrow> json" where
  "pr_subject task = JObj [(''branch'', JStr (sv_branch task)), (''baseBranch'', JStr (sv_base_branch task))]"

definition evidence_members :: "stored_evidence \<Rightarrow> (string \<times> json) list" where
  "evidence_members ev = [(''artifactId'', JStr (se_artifact_id ev)), (''artifactDigest'', JStr (se_digest ev))]"

section \<open>Status\<close>

datatype pr_status_result = Pr_Status github_operation "pull_request option" stored_evidence | Pr_Status_Stored github_operation

text \<open>At most one open pull request of the task, checked when there is one.\<close>

definition observed_pull_request ::
  "'w gh_env \<Rightarrow> server_owned_task \<Rightarrow> string \<Rightarrow> bool \<Rightarrow> ('w, 'z, pull_request option) gh" where
  "observed_pull_request E task head require_draft =
     bindE (askG (ge_open_prs E (sv_repository task) (sv_branch task) (sv_base_branch task))) (\<lambda>matches.
     bindE (throw_if (1 < length matches) (boundary ''PR_AMBIGUOUS'')) (\<lambda>_.
     case matches of
       [] \<Rightarrow> ret None
     | pr # _ \<Rightarrow> bindE (liftR (assertExactPullRequest task pr head require_draft)) (\<lambda>_. ret (Some pr))))"

definition prStatus :: "'w gh_env \<Rightarrow> exact_task_input \<Rightarrow> ('w, 'z, pr_status_result) gh" where
  "prStatus E i =
     bindE (pr_bindExactTask E i False) (\<lambda>task.
     bindE (admit E \<lparr>aq_operation_id = xi_operation_id i, aq_semantic = SEM_pr_status, aq_repo_id = sv_repo_id task,
        aq_task_id = sv_task_id task, aq_subject = pr_subject task,
        aq_binding = JObj [(''expectedHeadSha'', JStr (xi_head i)), (''expectedTreeSha'', JStr (xi_tree i))]\<rparr>) (\<lambda>admission.
     case admission of
       STORED r \<Rightarrow> ret (Pr_Status_Stored r)
     | EXECUTE operation \<Rightarrow>
         bindE (transition_github E operation EXTERNAL_PRECONTACT None None) (\<lambda>operation1.
         bindE (transition_github E operation1 EXTERNAL_CONTACTED None None) (\<lambda>operation2.
         catchE
           (bindE (assertRemoteHead E task (xi_head i) (xi_tree i)) (\<lambda>_.
            bindE (observed_pull_request E task (xi_head i) False) (\<lambda>pr.
            bindE (storePrEvidence E task pr SEM_pr_status) (\<lambda>ev.
            bindE (transition_github E operation2 EXTERNAL_SUCCEEDED (Some (JObj
              ((''pullRequestNumber'', case pr of None \<Rightarrow> JNull | Some p \<Rightarrow> JNum (pr_number p)) # evidence_members ev))) None) (\<lambda>operation3.
            ret (Pr_Status operation3 pr ev))))))
           (fail_pr E operation2 FAILED_KNOWN_AFTER_CONTACT)))))"

section \<open>Creation and update\<close>

datatype pr_action = Pr_Created | Pr_Updated | Pr_No_Change

fun action_name :: "pr_action \<Rightarrow> string" where
  "action_name Pr_Created = ''created''"
| "action_name Pr_Updated = ''updated''"
| "action_name Pr_No_Change = ''no_change''"

datatype pr_write_result =
    Pr_Written github_operation pr_action pull_request stored_evidence
  | Pr_Write_Stored github_operation

record pr_write_input = exact_task_input +
  xi_title :: string
  xi_body :: string
  xi_draft :: bool

definition pr_result_members :: "pr_action \<Rightarrow> pull_request \<Rightarrow> (string \<times> json) list" where
  "pr_result_members action pr =
     [(''action'', JStr (action_name action)), (''pullRequestNumber'', JNum (pr_number pr)), (''headSha'', JStr (pr_head pr)),
      (''draft'', JBool (pr_is_draft pr)), (''titleDigest'', JStr (pr_title_digest pr)),
      (''bodyDigest'', JStr (pr_body_digest pr))]"

definition pr_marker :: "string \<Rightarrow> string" where
  "pr_marker operation_id = ''<!-- chat-pro-operation:'' @ operation_id @ '' -->''"

definition pr_body_text :: "'w gh_env \<Rightarrow> server_owned_task \<Rightarrow> pr_write_input \<Rightarrow> gh_err + string" where
  "pr_body_text E task i =
     (if xi_body i = [] then Inr (pr_marker (xi_operation_id i))
      else bindR (assertSafeExternalText E (xi_body i) [sv_root task]) (\<lambda>b.
        Inr (b @ [CHR 0x0A, CHR 0x0A] @ pr_marker (xi_operation_id i))))"

definition pr_write_request ::
  "'w gh_env \<Rightarrow> server_owned_task \<Rightarrow> pr_write_input \<Rightarrow> string \<Rightarrow> string \<Rightarrow> admission_request" where
  "pr_write_request E task i title body =
     \<lparr>aq_operation_id = xi_operation_id i, aq_semantic = SEM_pr_create_or_update, aq_repo_id = sv_repo_id task,
      aq_task_id = sv_task_id task, aq_subject = pr_subject task,
      aq_binding = JObj [(''expectedHeadSha'', JStr (xi_head i)), (''expectedTreeSha'', JStr (xi_tree i)),
        (''titleDigest'', JStr (re_sha256 (ge_rt E) title)), (''bodyDigest'', JStr (re_sha256 (ge_rt E) body)),
        (''draft'', JBool True)]\<rparr>"

text \<open>The last \<open>try\<close> of a known effect: store the evidence, then succeed.\<close>

definition finish_pr ::
  "'w gh_env \<Rightarrow> server_owned_task \<Rightarrow> github_operation \<Rightarrow> pr_action \<Rightarrow> pull_request \<Rightarrow> (string \<times> json) list
   \<Rightarrow> ('w, 'z, pr_write_result) gh" where
  "finish_pr E task operation action pr extra =
     bindE (storePrEvidence E task (Some pr) SEM_pr_create_or_update) (\<lambda>ev.
     bindE (transition_github E operation EXTERNAL_SUCCEEDED
        (Some (JObj (pr_result_members action pr @ extra @ evidence_members ev))) None) (\<lambda>completed.
     ret (Pr_Written completed action pr ev)))"

definition fail_pr_evidence ::
  "'w gh_env \<Rightarrow> github_operation \<Rightarrow> (string \<times> json) list \<Rightarrow> gh_err \<Rightarrow> ('w, 'z, 'a) gh" where
  "fail_pr_evidence E operation members e =
     bindE (transition_github E operation FAILED_KNOWN_AFTER_CONTACT (Some (JObj members)) (Some ''PR_EVIDENCE_STORE_FAILED'')) (\<lambda>failed.
     throw (operationError ''PR_OPERATION_FAILED'' e failed))"

definition reconcileUnknownPrWrite ::
  "'w gh_env \<Rightarrow> server_owned_task \<Rightarrow> github_operation \<Rightarrow> string \<Rightarrow> pr_content \<Rightarrow> pr_action \<Rightarrow> ('w, 'z, pr_write_result) gh" where
  "reconcileUnknownPrWrite E task operation head c action =
     bindE (catchE
        (bindE (askG (ge_open_prs E (sv_repository task) (sv_branch task) (sv_base_branch task))) (\<lambda>matches.
         ret (filter (\<lambda>pr. assertDesiredDraft E task pr head c = Inr ()) matches)))
        (\<lambda>_. ret [])) (\<lambda>exact.
     case exact of
       [pr] \<Rightarrow>
         catchE (finish_pr E task operation action pr [(''reconciled'', JBool True)])
           (fail_pr_evidence E operation (pr_result_members action pr @ [(''reconciled'', JBool True)]))
     | _ \<Rightarrow>
         bindE (transition_github E operation UNKNOWN_AFTER_CONTACT None (Some ''PR_WRITE_EFFECT_UNKNOWN'')) (\<lambda>unknown.
         throw (operationError ''PR_OPERATION_FAILED'' (boundary_unknown ''PR_WRITE_EFFECT_UNKNOWN'') unknown)))"

definition ask_pr_write ::
  "'w gh_env \<Rightarrow> server_owned_task \<Rightarrow> pull_request option \<Rightarrow> pr_content \<Rightarrow> ('w, 'z, pull_request) gh" where
  "ask_pr_write E task existing c = (case existing of
       Some pr \<Rightarrow> effectG (Call_Update_Pr (pc_operation_id c) (pr_number pr))
         (ge_update_pr E (sv_repository task) (pr_number pr) (pc_title c) (pc_body c) (sv_base_branch task))
     | None \<Rightarrow> effectG (Call_Create_Pr (pc_operation_id c))
         (ge_create_pr E (sv_repository task) (pc_title c) (pc_body c) (sv_branch task) (sv_base_branch task)))"

definition write_pr ::
  "'w gh_env \<Rightarrow> server_owned_task \<Rightarrow> github_operation \<Rightarrow> string \<Rightarrow> pr_content \<Rightarrow> pull_request option
   \<Rightarrow> ('w, 'z, pr_write_result) gh" where
  "write_pr E task operation head c existing =
     (let action = (if existing = None then Pr_Created else Pr_Updated) in
      bindE (catchE
         (bindE (ask_pr_write E task existing c) (\<lambda>changed.
          bindE (liftR (assertDesiredDraft E task changed head c)) (\<lambda>_. ret (Inr changed))))
         (\<lambda>_. bindE (reconcileUnknownPrWrite E task operation head c action) (\<lambda>r. ret (Inl r)))) (\<lambda>outcome.
      case outcome of
        Inl r \<Rightarrow> ret r
      | Inr changed \<Rightarrow>
          catchE (finish_pr E task operation action changed [])
            (fail_pr_evidence E operation (pr_result_members action changed))))"

definition same_content :: "'w gh_env \<Rightarrow> pr_content \<Rightarrow> pull_request \<Rightarrow> bool" where
  "same_content E c pr \<longleftrightarrow>
     pr_title_digest pr = re_sha256 (ge_rt E) (pc_title c) \<and> pr_body_digest pr = re_sha256 (ge_rt E) (pc_body c)"

definition execute_pr ::
  "'w gh_env \<Rightarrow> server_owned_task \<Rightarrow> pr_write_input \<Rightarrow> pr_content \<Rightarrow> github_operation \<Rightarrow> ('w, 'z, pr_write_result) gh" where
  "execute_pr E task i c operation =
     bindE (catchE (pr_bindExactTask E (exact_task_input.truncate i) True) (fail_pr E operation FAILED_PRECONTACT)) (\<lambda>_.
     bindE (transition_github E operation EXTERNAL_PRECONTACT None None) (\<lambda>operation1.
     bindE (transition_github E operation1 EXTERNAL_CONTACTED None None) (\<lambda>operation2.
     bindE (catchE
        (bindE (askG (ge_repository E (sv_repository task))) (\<lambda>repository.
         bindE (liftR (assertWritablePublicationTarget task repository)) (\<lambda>_.
         bindE (assertRemoteHead E task (xi_head i) (xi_tree i)) (\<lambda>_.
         observed_pull_request E task (xi_head i) True))))
        (fail_pr E operation2 FAILED_KNOWN_AFTER_CONTACT)) (\<lambda>existing.
     case existing of
       Some pr \<Rightarrow>
         (if same_content E c pr
          then catchE (finish_pr E task operation2 Pr_No_Change pr []) (fail_pr E operation2 FAILED_KNOWN_AFTER_CONTACT)
          else write_pr E task operation2 (xi_head i) c existing)
     | None \<Rightarrow> write_pr E task operation2 (xi_head i) c None))))"

definition prCreateOrUpdate :: "'w gh_env \<Rightarrow> pr_write_input \<Rightarrow> ('w, 'z, pr_write_result) gh" where
  "prCreateOrUpdate E i =
     bindE (throw_if (\<not> xi_draft i) (boundary ''DRAFT_REQUIRED'')) (\<lambda>_.
     bindE (getServerOwnedTask E (xi_repo_id i)) (\<lambda>task.
     bindE (assertTaskId task (xi_task_id i)) (\<lambda>_.
     bindE (liftR (assertSafeExternalText E (xi_title i) [sv_root task])) (\<lambda>title.
     bindE (liftR (pr_body_text E task i)) (\<lambda>body.
     bindE (throw_if (65536 < length body) (boundary ''PR_BODY_TOO_LARGE'')) (\<lambda>_.
     bindE (liftR (assertSha (xi_head i))) (\<lambda>_.
     bindE (liftR (assertSha (xi_tree i))) (\<lambda>_.
     bindE (admit E (pr_write_request E task i title body)) (\<lambda>admission.
     case admission of
       STORED r \<Rightarrow> ret (Pr_Write_Stored r)
     | EXECUTE operation \<Rightarrow>
         execute_pr E task i \<lparr>pc_operation_id = xi_operation_id i, pc_title = title, pc_body = body\<rparr> operation)))))))))"

end
