(* ===== verification/Github_Review.thy ===== *)
theory Github_Review
  imports Github_Pr
begin

text \<open>
  Review threads (src/services/github-review-service.ts): reading a page of them, replying to
  one, and resolving one. A thread is resolved only on evidence: validation passed on the
  exact head and tree, no unknown effect left, and either an older snapshot of the thread on
  another head or a durable reply on this head confirmed by a later validation. The two
  concurrent questions of \<open>assertResolutionEvidence\<close> are asked one after the other.
\<close>

section \<open>Evidence of threads\<close>

definition nullable_int :: "int option \<Rightarrow> json" where
  "nullable_int n = (case n of None \<Rightarrow> JNull | Some i \<Rightarrow> JNum i)"

definition reviewCommentEvidence :: "review_comment \<Rightarrow> json" where
  "reviewCommentEvidence c = JObj
     [(''id'', JStr (rc_id c)), (''author'', JStr (rc_author c)), (''body'', JStr (rc_body c)),
      (''createdAt'', JStr (rc_created_at c)), (''updatedAt'', JStr (rc_updated_at c)), (''url'', JStr (rc_url c))]"

definition reviewThreadEvidence :: "review_thread \<Rightarrow> json" where
  "reviewThreadEvidence t = JObj
     [(''id'', JStr (th_id t)), (''pullRequestId'', JStr (th_pr_id t)), (''pullRequestNumber'', JNum (th_pr_number t)),
      (''headSha'', JStr (th_head t)), (''resolved'', JBool (th_resolved t)), (''outdated'', JBool (th_outdated t)),
      (''path'', JStr (th_path t)), (''line'', nullable_int (th_line t)), (''originalLine'', nullable_int (th_original_line t)),
      (''side'', nullable (th_side t)), (''comments'', JArr (map reviewCommentEvidence (th_comments t))),
      (''updatedAt'', JStr (th_updated_at t))]"

definition matchesReviewCommentEvidence :: "review_comment \<Rightarrow> (string \<times> json) list \<Rightarrow> bool" where
  "matchesReviewCommentEvidence c kvs \<longleftrightarrow>
     map_of kvs ''id'' = Some (JStr (rc_id c)) \<and> map_of kvs ''author'' = Some (JStr (rc_author c))
   \<and> map_of kvs ''body'' = Some (JStr (rc_body c)) \<and> map_of kvs ''createdAt'' = Some (JStr (rc_created_at c))
   \<and> map_of kvs ''updatedAt'' = Some (JStr (rc_updated_at c)) \<and> map_of kvs ''url'' = Some (JStr (rc_url c))"

definition jsonRecord :: "json option \<Rightarrow> (string \<times> json) list option" where
  "jsonRecord v = (case v of Some (JObj kvs) \<Rightarrow> Some kvs | _ \<Rightarrow> None)"

definition record_field :: "json option \<Rightarrow> string \<Rightarrow> json option" where
  "record_field v k = Option.bind (jsonRecord v) (\<lambda>kvs. map_of kvs k)"

text \<open>\<open>===\<close> on JSON values that come from two different documents: arrays and objects are never the same.\<close>

definition strict_equal :: "json option \<Rightarrow> json option \<Rightarrow> bool" where
  "strict_equal a b \<longleftrightarrow> a = b \<and> (case a of Some (JArr _) \<Rightarrow> False | Some (JObj _) \<Rightarrow> False | _ \<Rightarrow> True)"

section \<open>Failing\<close>

definition review_error_code :: "gh_err \<Rightarrow> string" where
  "review_error_code = errorCode ''REVIEW_OPERATION_FAILED''"

definition review_operation_error :: "gh_err \<Rightarrow> github_operation \<Rightarrow> gh_err" where
  "review_operation_error = operationError ''REVIEW_OPERATION_FAILED''"

definition fail_review_with ::
  "'w gh_env \<Rightarrow> github_operation \<Rightarrow> op_phase \<Rightarrow> json option \<Rightarrow> string \<Rightarrow> gh_err \<Rightarrow> ('w, 'z, 'a) gh" where
  "fail_review_with E operation phase result code e =
     bindE (transition_github E operation phase result (Some code)) (\<lambda>failed.
     throw (review_operation_error e failed))"

definition fail_review :: "'w gh_env \<Rightarrow> github_operation \<Rightarrow> op_phase \<Rightarrow> gh_err \<Rightarrow> ('w, 'z, 'a) gh" where
  "fail_review E operation phase e = fail_review_with E operation phase None (review_error_code e) e"

section \<open>Binding\<close>

definition bindPullRequest ::
  "'w gh_env \<Rightarrow> exact_task_input \<Rightarrow> bool \<Rightarrow> ('w, 'z, server_owned_task \<times> pull_request) gh" where
  "bindPullRequest E i require_clean =
     bindE (bindExactTask E i require_clean) (\<lambda>(task, _).
     bindE (assertExactRemoteHead E task (xi_head i) (xi_tree i)) (\<lambda>_.
     bindE (getUniqueTaskPullRequest E task (xi_head i) False) (\<lambda>pr.
     ret (task, pr))))"

definition findExactThread ::
  "'w gh_env \<Rightarrow> server_owned_task \<Rightarrow> pull_request \<Rightarrow> string \<Rightarrow> ('w, 'z, review_thread) gh" where
  "findExactThread E task pr thread_id =
     bindE (listAllExactReviewThreads E task pr) (\<lambda>threads.
     case filter (\<lambda>t. th_id t = thread_id) threads of
       [t] \<Rightarrow> ret t
     | _ \<Rightarrow> throw (boundary ''REVIEW_THREAD_NOT_FOUND''))"

definition bound_thread :: "pull_request \<Rightarrow> review_thread \<Rightarrow> bool" where
  "bound_thread pr t \<longleftrightarrow> th_pr_id t = pr_id pr \<and> th_pr_number t = pr_number pr \<and> th_head t = pr_head pr"

definition assertReviewPage :: "pull_request \<Rightarrow> thread_page \<Rightarrow> gh_err + unit" where
  "assertReviewPage pr page =
     bindR (guardR (tp_pr_id page = pr_id pr \<and> tp_pr_number page = pr_number pr \<and> tp_head page = pr_head pr)
       (boundary ''REVIEW_HEAD_MISMATCH'')) (\<lambda>_.
     guardR (list_all (bound_thread pr) (tp_threads page)) (boundary ''REVIEW_THREAD_BINDING_MISMATCH''))"

definition assertResolvedThread :: "pull_request \<Rightarrow> string \<Rightarrow> review_thread \<Rightarrow> gh_err + unit" where
  "assertResolvedThread pr thread_id t =
     guardR (th_id t = thread_id \<and> bound_thread pr t \<and> th_resolved t) (boundary_unknown ''REVIEW_RESOLVE_READBACK_MISMATCH'')"

definition assertCursor :: "string \<Rightarrow> gh_err + string" where
  "assertCursor v = (if 1024 < length v \<or> CHR 0x00 \<in> set v then Inl (boundary ''INVALID_CURSOR'') else Inr v)"

section \<open>Reading a page of threads\<close>

record review_threads_input = exact_task_input +
  xi_cursor :: "string option"
  xi_limit :: "int option"

record review_page_result =
  rr_number :: int
  rr_threads :: "review_thread list"
  rr_next_cursor :: "string option"
  rr_truncated :: bool
  rr_observed_at :: string
  rr_evidence :: stored_evidence

datatype review_threads_result = Review_Threads github_operation review_page_result | Review_Threads_Stored github_operation

text \<open>An empty cursor is falsy: it is neither checked nor sent.\<close>

definition review_cursor :: "string option \<Rightarrow> gh_err + string option" where
  "review_cursor c = (case c of None \<Rightarrow> Inr None | Some v \<Rightarrow> if v = [] then Inr None else bindR (assertCursor v) (\<lambda>w. Inr (Some w)))"

definition review_threads_request ::
  "server_owned_task \<Rightarrow> review_threads_input \<Rightarrow> string option \<Rightarrow> int \<Rightarrow> admission_request" where
  "review_threads_request task i cursor limit =
     \<lparr>aq_operation_id = xi_operation_id i, aq_semantic = SEM_pr_review_threads, aq_repo_id = sv_repo_id task,
      aq_task_id = sv_task_id task,
      aq_subject = JObj [(''branch'', JStr (sv_branch task)), (''cursor'', nullable cursor)],
      aq_binding = JObj [(''expectedHeadSha'', JStr (xi_head i)), (''expectedTreeSha'', JStr (xi_tree i)),
        (''cursor'', nullable cursor), (''limit'', JNum limit)]\<rparr>"

definition read_review_page ::
  "'w gh_env \<Rightarrow> server_owned_task \<Rightarrow> review_threads_input \<Rightarrow> string option \<Rightarrow> int \<Rightarrow> github_operation
   \<Rightarrow> ('w, 'z, review_threads_result) gh" where
  "read_review_page E task i cursor limit operation =
     bindE (bindPullRequest E (exact_task_input.truncate i) False) (\<lambda>(_, pr).
     bindE (askG (ge_threads_page E (sv_repository task) (pr_number pr) (nat limit) cursor)) (\<lambda>page.
     bindE (liftR (assertReviewPage pr page)) (\<lambda>_.
     bindE (now_text E) (\<lambda>observed_at.
     bindE (storeGitHubEvidence E NS_review (JObj
        [(''semantic'', JStr ''repo_pr_review_threads''), (''repoId'', JStr (sv_repo_id task)),
         (''taskId'', JStr (sv_task_id task)), (''pullRequestNumber'', JNum (pr_number pr)), (''headSha'', JStr (pr_head pr)),
         (''threads'', JArr (map reviewThreadEvidence (tp_threads page))), (''nextCursor'', nullable (tp_next_cursor page)),
         (''observedAt'', JStr observed_at)])) (\<lambda>ev.
     bindE (transition_github E operation EXTERNAL_SUCCEEDED (Some (JObj
        ([(''pullRequestNumber'', JNum (pr_number pr)), (''threadCount'', JNum (int (length (tp_threads page)))),
          (''nextCursor'', nullable (tp_next_cursor page))] @ evidence_members ev))) None) (\<lambda>completed.
     ret (Review_Threads completed
       \<lparr>rr_number = pr_number pr, rr_threads = tp_threads page,
        rr_next_cursor = (if tp_next_cursor page = Some [] then None else tp_next_cursor page),
        rr_truncated = (tp_next_cursor page \<noteq> None), rr_observed_at = observed_at, rr_evidence = ev\<rparr>)))))))"

definition prReviewThreads :: "'w gh_env \<Rightarrow> review_threads_input \<Rightarrow> ('w, 'z, review_threads_result) gh" where
  "prReviewThreads E i =
     (let limit = (case xi_limit i of None \<Rightarrow> 100 | Some l \<Rightarrow> l) in
      bindE (throw_if (limit < 1 \<or> 100 < limit) (boundary ''INVALID_REVIEW_LIMIT'')) (\<lambda>_.
      bindE (bindExactTask E (exact_task_input.truncate i) False) (\<lambda>(task, _).
      bindE (liftR (review_cursor (xi_cursor i))) (\<lambda>cursor.
      bindE (admit E (review_threads_request task i cursor limit)) (\<lambda>admission.
      case admission of
        STORED r \<Rightarrow> ret (Review_Threads_Stored r)
      | EXECUTE operation \<Rightarrow>
          bindE (transition_github E operation EXTERNAL_PRECONTACT None None) (\<lambda>operation1.
          bindE (transition_github E operation1 EXTERNAL_CONTACTED None None) (\<lambda>operation2.
          catchE (read_review_page E task i cursor limit operation2)
            (fail_review E operation2 FAILED_KNOWN_AFTER_CONTACT))))))))"

section \<open>Replying\<close>

record review_reply_input = exact_task_input +
  xi_reply_thread :: string
  xi_reply_body :: string

datatype review_reply_result =
    Review_Replied github_operation int string review_comment stored_evidence
  | Review_Reply_Stored github_operation

definition thread_subject :: "string \<Rightarrow> json" where
  "thread_subject thread_id = JObj [(''threadId'', JStr thread_id)]"

definition reply_binding :: "'w gh_env \<Rightarrow> string \<Rightarrow> string \<Rightarrow> string \<Rightarrow> string \<Rightarrow> json" where
  "reply_binding E head tree thread_id body = JObj
     [(''expectedHeadSha'', JStr head), (''expectedTreeSha'', JStr tree), (''threadId'', JStr thread_id),
      (''bodyDigest'', JStr (re_sha256 (ge_rt E) body))]"

definition reply_request :: "'w gh_env \<Rightarrow> server_owned_task \<Rightarrow> review_reply_input \<Rightarrow> string \<Rightarrow> admission_request" where
  "reply_request E task i body =
     \<lparr>aq_operation_id = xi_operation_id i, aq_semantic = SEM_write_pr_reply, aq_repo_id = sv_repo_id task,
      aq_task_id = sv_task_id task, aq_subject = thread_subject (xi_reply_thread i),
      aq_binding = reply_binding E (xi_head i) (xi_tree i) (xi_reply_thread i) body\<rparr>"

text \<open>A writable target, the pull request of the task and the thread named by the request.\<close>

definition bound_writable_thread ::
  "'w gh_env \<Rightarrow> server_owned_task \<Rightarrow> exact_task_input \<Rightarrow> string \<Rightarrow> ('w, 'z, pull_request \<times> review_thread) gh" where
  "bound_writable_thread E task i thread_id =
     bindE (askG (ge_repository E (sv_repository task))) (\<lambda>repository.
     bindE (liftR (assertWritablePublicationTarget task repository)) (\<lambda>_.
     bindE (bindPullRequest E i True) (\<lambda>(_, pr).
     bindE (findExactThread E task pr thread_id) (\<lambda>t.
     ret (pr, t)))))"

definition effect_known :: "gh_err \<Rightarrow> bool" where
  "effect_known e = (case e of Boundary _ f _ _ \<Rightarrow> f = KNOWN_EFFECT | Runtime _ \<Rightarrow> False)"

definition ask_reply ::
  "'w gh_env \<Rightarrow> server_owned_task \<Rightarrow> review_reply_input \<Rightarrow> string \<Rightarrow> review_thread \<Rightarrow> ('w, 'z, reply_receipt) gh" where
  "ask_reply E task i body t =
     bindE (effectG (Call_Reply (xi_operation_id i))
        (ge_reply E (sv_repository task) (th_id t) body (xi_operation_id i))) (\<lambda>receipt.
     bindE (throw_if (rv_thread_id receipt \<noteq> th_id t \<or> rv_marker receipt \<noteq> xi_operation_id i
        \<or> rc_body (rv_comment receipt) \<noteq> body) (boundary_unknown ''REVIEW_REPLY_READBACK_MISMATCH'')) (\<lambda>_.
     ret receipt))"

definition finish_reply ::
  "'w gh_env \<Rightarrow> server_owned_task \<Rightarrow> github_operation \<Rightarrow> pull_request \<Rightarrow> review_thread \<Rightarrow> review_comment
   \<Rightarrow> ('w, 'z, review_reply_result) gh" where
  "finish_reply E task operation pr t comment =
     bindE (storeGitHubEvidence E NS_review (JObj
        [(''semantic'', JStr ''repo_write_pr_reply''), (''repoId'', JStr (sv_repo_id task)),
         (''taskId'', JStr (sv_task_id task)), (''pullRequestNumber'', JNum (pr_number pr)), (''headSha'', JStr (pr_head pr)),
         (''threadId'', JStr (th_id t)), (''comment'', reviewCommentEvidence comment)])) (\<lambda>ev.
     bindE (transition_github E operation EXTERNAL_SUCCEEDED (Some (JObj
        ([(''pullRequestNumber'', JNum (pr_number pr)), (''threadId'', JStr (th_id t)), (''commentId'', JStr (rc_id comment))]
         @ evidence_members ev))) None) (\<lambda>completed.
     ret (Review_Replied completed (pr_number pr) (th_id t) comment ev)))"

definition reply_execute ::
  "'w gh_env \<Rightarrow> server_owned_task \<Rightarrow> review_reply_input \<Rightarrow> string \<Rightarrow> github_operation \<Rightarrow> ('w, 'z, review_reply_result) gh" where
  "reply_execute E task i body operation =
     bindE (transition_github E operation EXTERNAL_PRECONTACT None None) (\<lambda>operation1.
     bindE (transition_github E operation1 EXTERNAL_CONTACTED None None) (\<lambda>operation2.
     bindE (catchE (bound_writable_thread E task (exact_task_input.truncate i) (xi_reply_thread i))
       (fail_review E operation2 FAILED_KNOWN_AFTER_CONTACT)) (\<lambda>(pr, t).
     bindE (catchE (ask_reply E task i body t) (\<lambda>e.
        fail_review E operation2 (if effect_known e then FAILED_KNOWN_AFTER_CONTACT else UNKNOWN_AFTER_CONTACT) e)) (\<lambda>receipt.
     catchE (finish_reply E task operation2 pr t (rv_comment receipt))
       (fail_review_with E operation2 FAILED_KNOWN_AFTER_CONTACT (Some (JObj
          [(''pullRequestNumber'', JNum (pr_number pr)), (''threadId'', JStr (th_id t)),
           (''commentId'', JStr (rc_id (rv_comment receipt))), (''created'', JBool True)]))
         ''REVIEW_EVIDENCE_STORE_FAILED'')))))"

definition writePrReply :: "'w gh_env \<Rightarrow> review_reply_input \<Rightarrow> ('w, 'z, review_reply_result) gh" where
  "writePrReply E i =
     bindE (liftR (assertSafeExternalText E (xi_reply_body i) [])) (\<lambda>body.
     bindE (throw_if (65536 < length body) (boundary ''REVIEW_REPLY_TOO_LARGE'')) (\<lambda>_.
     bindE (bindExactTask E (exact_task_input.truncate i) True) (\<lambda>(task, _).
     bindE (admit E (reply_request E task i body)) (\<lambda>admission.
     case admission of
       STORED r \<Rightarrow> ret (Review_Reply_Stored r)
     | EXECUTE operation \<Rightarrow> reply_execute E task i body operation))))"

section \<open>The evidence for a resolution\<close>

definition array_field :: "(string \<times> json) list \<Rightarrow> string \<Rightarrow> json list option" where
  "array_field kvs k = (case map_of kvs k of Some (JArr vs) \<Rightarrow> Some vs | _ \<Rightarrow> None)"

definition some_entry :: "(string \<times> json) list \<Rightarrow> string \<Rightarrow> (json \<Rightarrow> bool) \<Rightarrow> bool" where
  "some_entry kvs k p = (case array_field kvs k of None \<Rightarrow> False | Some vs \<Rightarrow> list_ex p vs)"

definition newest_first :: "'w gh_env \<Rightarrow> github_semantic \<Rightarrow> github_operation list \<Rightarrow> github_operation list" where
  "newest_first E semantic operations =
     sort_cmp (\<lambda>l r. re_compare (ge_rt E) (g_updated_at r) (g_updated_at l))
       (filter (\<lambda>r. g_semantic r = semantic \<and> g_phase r = EXTERNAL_SUCCEEDED) operations)"

text \<open>The JSON object an operation's result points to, when there is one; an empty digest is falsy.\<close>

definition result_digest :: "github_operation \<Rightarrow> string option" where
  "result_digest operation = (case record_field (g_result operation) ''artifactDigest'' of
       Some (JStr d) \<Rightarrow> if d = [] then None else Some d | _ \<Rightarrow> None)"

definition operation_evidence ::
  "'w gh_env \<Rightarrow> github_operation \<Rightarrow> ('w, 'z, (string \<times> json) list option) gh" where
  "operation_evidence E operation = (case result_digest operation of
       None \<Rightarrow> ret None
     | Some digest \<Rightarrow> bindE (askG (ge_get_json E NS_review digest)) (\<lambda>v. ret (jsonRecord v)))"

definition other_head_snapshot :: "string \<Rightarrow> review_thread \<Rightarrow> (string \<times> json) list \<Rightarrow> bool" where
  "other_head_snapshot head t s \<longleftrightarrow>
     (case map_of s ''headSha'' of Some (JStr h) \<Rightarrow> h \<noteq> head | _ \<Rightarrow> False)
   \<and> some_entry s ''threads'' (\<lambda>v. record_field (Some v) ''id'' = Some (JStr (th_id t)))"

text \<open>The first loop: \<open>None\<close> when a snapshot of another head settles the matter, otherwise the snapshots read.\<close>

primrec snapshot_loop ::
  "'w gh_env \<Rightarrow> string \<Rightarrow> review_thread \<Rightarrow> github_operation list \<Rightarrow> (github_operation \<times> (string \<times> json) list) list
   \<Rightarrow> ('w, 'z, (github_operation \<times> (string \<times> json) list) list option) gh" where
  "snapshot_loop E head t [] = (\<lambda>found. ret (Some found))"
| "snapshot_loop E head t (operation # operations) = (\<lambda>found.
     bindE (operation_evidence E operation) (\<lambda>v. case v of
       None \<Rightarrow> snapshot_loop E head t operations found
     | Some s \<Rightarrow>
         if other_head_snapshot head t s then ret None
         else snapshot_loop E head t operations (found @ [(operation, s)])))"

definition durable_reply ::
  "'w gh_env \<Rightarrow> server_owned_task \<Rightarrow> review_thread \<Rightarrow> string \<Rightarrow> string \<Rightarrow> github_operation \<Rightarrow> (string \<times> json) list
   \<Rightarrow> (string \<times> json) list \<Rightarrow> bool" where
  "durable_reply E task t head tree operation reply comment \<longleftrightarrow>
     map_of reply ''semantic'' = Some (JStr ''repo_write_pr_reply'')
   \<and> map_of reply ''repoId'' = Some (JStr (sv_repo_id task)) \<and> map_of reply ''taskId'' = Some (JStr (sv_task_id task))
   \<and> map_of reply ''pullRequestNumber'' = Some (JNum (th_pr_number t)) \<and> map_of reply ''headSha'' = Some (JStr head)
   \<and> map_of reply ''threadId'' = Some (JStr (th_id t))
   \<and> record_field (g_result operation) ''pullRequestNumber'' = Some (JNum (th_pr_number t))
   \<and> record_field (g_result operation) ''threadId'' = Some (JStr (th_id t))
   \<and> strict_equal (record_field (g_result operation) ''commentId'') (map_of comment ''id'')
   \<and> g_subject_digest operation = sha256Json (re_sha256 (ge_rt E)) (thread_subject (th_id t))
   \<and> (case map_of comment ''body'' of
        Some (JStr body) \<Rightarrow> g_binding_digest operation = sha256Json (re_sha256 (ge_rt E)) (reply_binding E head tree (th_id t) body)
      | _ \<Rightarrow> False)
   \<and> list_ex (\<lambda>c. matchesReviewCommentEvidence c comment) (th_comments t)"

definition prior_snapshot ::
  "'w gh_env \<Rightarrow> server_owned_task \<Rightarrow> review_thread \<Rightarrow> string \<Rightarrow> github_operation \<Rightarrow> json option
   \<Rightarrow> github_operation \<times> (string \<times> json) list \<Rightarrow> bool" where
  "prior_snapshot E task t head operation comment_id entry \<longleftrightarrow>
     re_compare (ge_rt E) (g_updated_at (fst entry)) (g_created_at operation) < 0
   \<and> map_of (snd entry) ''semantic'' = Some (JStr ''repo_pr_review_threads'')
   \<and> map_of (snd entry) ''repoId'' = Some (JStr (sv_repo_id task))
   \<and> map_of (snd entry) ''taskId'' = Some (JStr (sv_task_id task))
   \<and> map_of (snd entry) ''pullRequestNumber'' = Some (JNum (th_pr_number t))
   \<and> map_of (snd entry) ''headSha'' = Some (JStr head)
   \<and> some_entry (snd entry) ''threads'' (\<lambda>v. case v of
        JObj thr \<Rightarrow>
          map_of thr ''id'' = Some (JStr (th_id t)) \<and> map_of thr ''pullRequestId'' = Some (JStr (th_pr_id t))
        \<and> map_of thr ''pullRequestNumber'' = Some (JNum (th_pr_number t)) \<and> map_of thr ''headSha'' = Some (JStr head)
        \<and> map_of thr ''resolved'' = Some (JBool False) \<and> map_of thr ''outdated'' = Some (JBool False)
        \<and> array_field thr ''comments'' \<noteq> None
        \<and> \<not> some_entry thr ''comments'' (\<lambda>c. strict_equal (record_field (Some c) ''id'') comment_id)
      | _ \<Rightarrow> False)"

datatype reply_verdict = Reply_Ignored | Reply_Stale | Reply_Confirmed

definition judge_reply ::
  "'w gh_env \<Rightarrow> server_owned_task \<Rightarrow> review_thread \<Rightarrow> string \<Rightarrow> string \<Rightarrow> string option
   \<Rightarrow> (github_operation \<times> (string \<times> json) list) list \<Rightarrow> github_operation \<Rightarrow> (string \<times> json) list \<Rightarrow> reply_verdict" where
  "judge_reply E task t head tree validated_at snapshots operation reply =
     (case jsonRecord (map_of reply ''comment'') of
        None \<Rightarrow> Reply_Ignored
      | Some comment \<Rightarrow>
          if \<not> durable_reply E task t head tree operation reply comment then Reply_Ignored
          else if \<not> list_ex (prior_snapshot E task t head operation (map_of comment ''id'')) snapshots then Reply_Ignored
          else if (case validated_at of None \<Rightarrow> True
                   | Some v \<Rightarrow> v = [] \<or> re_compare (ge_rt E) v (g_updated_at operation) \<le> 0) then Reply_Stale
          else Reply_Confirmed)"

text \<open>The second loop: \<open>None\<close> when a reply settles the matter, otherwise whether a fresher validation would have.\<close>

primrec reply_loop ::
  "'w gh_env \<Rightarrow> ((string \<times> json) list \<Rightarrow> github_operation \<Rightarrow> reply_verdict) \<Rightarrow> github_operation list \<Rightarrow> bool
   \<Rightarrow> ('w, 'z, bool option) gh" where
  "reply_loop E judge [] = (\<lambda>stale. ret (Some stale))"
| "reply_loop E judge (operation # operations) = (\<lambda>stale.
     bindE (operation_evidence E operation) (\<lambda>v. case v of
       None \<Rightarrow> reply_loop E judge operations stale
     | Some reply \<Rightarrow> (case judge reply operation of
           Reply_Ignored \<Rightarrow> reply_loop E judge operations stale
         | Reply_Stale \<Rightarrow> reply_loop E judge operations True
         | Reply_Confirmed \<Rightarrow> ret None)))"

definition assertResolutionEvidence ::
  "'w gh_env \<Rightarrow> server_owned_task \<Rightarrow> review_thread \<Rightarrow> string \<Rightarrow> string \<Rightarrow> ('w, 'z, unit) gh" where
  "assertResolutionEvidence E task t head tree =
     bindE (askG (ge_validation E task)) (\<lambda>validation.
     bindE (listForTask E (sv_repo_id task) (sv_task_id task)) (\<lambda>operations.
     bindE (throw_if (ve_status validation \<noteq> EV_passed \<or> ve_head validation \<noteq> head \<or> ve_tree validation \<noteq> tree)
        (boundary ''REVIEW_RESOLUTION_VALIDATION_MISSING'')) (\<lambda>_.
     bindE (throw_if (list_ex (\<lambda>r. g_phase r = UNKNOWN_AFTER_CONTACT) operations) (boundary ''UNKNOWN_EXTERNAL_EFFECT'')) (\<lambda>_.
     bindE (snapshot_loop E head t (newest_first E SEM_pr_review_threads operations) []) (\<lambda>found.
     case found of
       None \<Rightarrow> ret ()
     | Some snapshots \<Rightarrow>
         bindE (reply_loop E (\<lambda>reply operation. judge_reply E task t head tree (ve_created_at validation) snapshots operation reply)
            (newest_first E SEM_write_pr_reply operations) False) (\<lambda>outcome.
         case outcome of
           None \<Rightarrow> ret ()
         | Some stale \<Rightarrow> throw (boundary (if stale then ''REVIEW_CONFIRMATION_VALIDATION_STALE''
                                  else ''REVIEW_CORRECTION_EVIDENCE_MISSING''))))))))"

section \<open>Resolving\<close>

record review_resolve_input = exact_task_input +
  xi_resolve_thread :: string
  xi_thread_updated_at :: string

datatype review_resolve_result =
    Review_Resolved github_operation int review_thread bool stored_evidence
  | Review_Resolve_Stored github_operation

definition resolve_request :: "server_owned_task \<Rightarrow> review_resolve_input \<Rightarrow> admission_request" where
  "resolve_request task i =
     \<lparr>aq_operation_id = xi_operation_id i, aq_semantic = SEM_write_pr_resolve_thread, aq_repo_id = sv_repo_id task,
      aq_task_id = sv_task_id task, aq_subject = thread_subject (xi_resolve_thread i),
      aq_binding = JObj [(''expectedHeadSha'', JStr (xi_head i)), (''expectedTreeSha'', JStr (xi_tree i)),
        (''threadId'', JStr (xi_resolve_thread i)), (''expectedThreadUpdatedAt'', JStr (xi_thread_updated_at i))]\<rparr>"

definition storeResolveEvidence ::
  "'w gh_env \<Rightarrow> server_owned_task \<Rightarrow> pull_request \<Rightarrow> review_thread \<Rightarrow> bool \<Rightarrow> ('w, 'z, stored_evidence) gh" where
  "storeResolveEvidence E task pr t changed =
     bindE (now_text E) (\<lambda>observed_at.
     storeGitHubEvidence E NS_review (JObj
       [(''semantic'', JStr ''repo_write_pr_resolve_thread''), (''repoId'', JStr (sv_repo_id task)),
        (''taskId'', JStr (sv_task_id task)), (''pullRequestNumber'', JNum (pr_number pr)), (''headSha'', JStr (pr_head pr)),
        (''changed'', JBool changed), (''thread'', reviewThreadEvidence t), (''observedAt'', JStr observed_at)]))"

definition resolveOperationResult ::
  "pull_request \<Rightarrow> review_thread \<Rightarrow> bool \<Rightarrow> stored_evidence \<Rightarrow> (string \<times> json) list" where
  "resolveOperationResult pr t changed ev =
     [(''pullRequestNumber'', JNum (pr_number pr)), (''threadId'', JStr (th_id t)), (''resolved'', JBool True),
      (''changed'', JBool changed), (''updatedAt'', JStr (th_updated_at t))] @ evidence_members ev"

definition finish_resolve ::
  "'w gh_env \<Rightarrow> server_owned_task \<Rightarrow> github_operation \<Rightarrow> pull_request \<Rightarrow> review_thread \<Rightarrow> bool \<Rightarrow> (string \<times> json) list
   \<Rightarrow> ('w, 'z, review_resolve_result) gh" where
  "finish_resolve E task operation pr t changed extra =
     bindE (storeResolveEvidence E task pr t changed) (\<lambda>ev.
     bindE (transition_github E operation EXTERNAL_SUCCEEDED
        (Some (JObj (resolveOperationResult pr t changed ev @ extra))) None) (\<lambda>completed.
     ret (Review_Resolved completed (pr_number pr) t changed ev)))"

definition resolve_candidate ::
  "'w gh_env \<Rightarrow> server_owned_task \<Rightarrow> review_resolve_input \<Rightarrow> ('w, 'z, pull_request \<times> review_thread) gh" where
  "resolve_candidate E task i =
     bindE (bound_writable_thread E task (exact_task_input.truncate i) (xi_resolve_thread i)) (\<lambda>(pr, before).
     bindE (throw_if (th_updated_at before \<noteq> xi_thread_updated_at i) (boundary ''REVIEW_THREAD_VERSION_DRIFT'')) (\<lambda>_.
     bindE (throw_if (th_outdated before) (boundary ''REVIEW_THREAD_OUTDATED'')) (\<lambda>_.
     bindE (assertResolutionEvidence E task before (xi_head i) (xi_tree i)) (\<lambda>_.
     ret (pr, before)))))"

text \<open>The mutable local \<open>resolvedReceipt\<close>: \<open>tagE\<close> marks an error with its value.\<close>

definition resolve_attempt ::
  "'w gh_env \<Rightarrow> server_owned_task \<Rightarrow> review_resolve_input \<Rightarrow> github_operation \<Rightarrow> pull_request \<Rightarrow> review_thread
   \<Rightarrow> (gh_err \<times> review_thread option, ('w, 'z) gh_state_scheme, review_resolve_result) eff" where
  "resolve_attempt E task i operation pr before =
     bindE (tagE None
       (bindE (effectG (Call_Resolve (xi_operation_id i)) (ge_resolve E (sv_repository task) (th_id before))) (\<lambda>after.
        bindE (liftR (assertResolvedThread pr (th_id before) after)) (\<lambda>_. ret after)))) (\<lambda>after.
     tagE (Some after) (finish_resolve E task operation pr after True []))"

text \<open>The readback after an attempt that failed: \<open>None\<close> falls through to the unknown effect.\<close>

definition resolve_readback ::
  "'w gh_env \<Rightarrow> server_owned_task \<Rightarrow> github_operation \<Rightarrow> pull_request \<Rightarrow> review_thread
   \<Rightarrow> ('w, 'z, review_resolve_result option) gh" where
  "resolve_readback E task operation pr before =
     catchE
       (bindE (findExactThread E task pr (th_id before)) (\<lambda>after.
        if th_resolved after
        then bindE (finish_resolve E task operation pr after True [(''reconciled'', JBool True)]) (\<lambda>r. ret (Some r))
        else if th_updated_at after = th_updated_at before
        then fail_review_with E operation FAILED_KNOWN_AFTER_CONTACT None ''REVIEW_RESOLVE_KNOWN_NO_EFFECT''
               (Boundary ''REVIEW_RESOLVE_KNOWN_NO_EFFECT'' KNOWN_EFFECT False None)
        else ret None))
       (\<lambda>e. if isOperationError e then throw e else ret None)"

definition resolve_recover ::
  "'w gh_env \<Rightarrow> server_owned_task \<Rightarrow> github_operation \<Rightarrow> pull_request \<Rightarrow> review_thread \<Rightarrow> gh_err \<Rightarrow> review_thread option
   \<Rightarrow> ('w, 'z, review_resolve_result) gh" where
  "resolve_recover E task operation pr before e receipt = (case receipt of
       Some r \<Rightarrow>
         fail_review_with E operation FAILED_KNOWN_AFTER_CONTACT (Some (JObj
           [(''pullRequestNumber'', JNum (pr_number pr)), (''threadId'', JStr (th_id r)), (''resolved'', JBool True),
            (''changed'', JBool True), (''updatedAt'', JStr (th_updated_at r))])) ''REVIEW_EVIDENCE_STORE_FAILED'' e
     | None \<Rightarrow>
         bindE (resolve_readback E task operation pr before) (\<lambda>outcome.
         case outcome of
           Some r \<Rightarrow> ret r
         | None \<Rightarrow> fail_review E operation UNKNOWN_AFTER_CONTACT e))"

definition resolve_execute ::
  "'w gh_env \<Rightarrow> server_owned_task \<Rightarrow> review_resolve_input \<Rightarrow> github_operation \<Rightarrow> ('w, 'z, review_resolve_result) gh" where
  "resolve_execute E task i operation =
     bindE (transition_github E operation EXTERNAL_PRECONTACT None None) (\<lambda>operation1.
     bindE (transition_github E operation1 EXTERNAL_CONTACTED None None) (\<lambda>operation2.
     bindE (catchE (resolve_candidate E task i) (fail_review E operation2 FAILED_KNOWN_AFTER_CONTACT)) (\<lambda>(pr, before).
     if th_resolved before
     then catchE (finish_resolve E task operation2 pr before False []) (fail_review E operation2 FAILED_KNOWN_AFTER_CONTACT)
     else catchE (resolve_attempt E task i operation2 pr before)
       (\<lambda>(e, receipt). resolve_recover E task operation2 pr before e receipt))))"

definition writePrResolveThread :: "'w gh_env \<Rightarrow> review_resolve_input \<Rightarrow> ('w, 'z, review_resolve_result) gh" where
  "writePrResolveThread E i =
     bindE (bindExactTask E (exact_task_input.truncate i) True) (\<lambda>(task, _).
     bindE (admit E (resolve_request task i)) (\<lambda>admission.
     case admission of
       STORED r \<Rightarrow> ret (Review_Resolve_Stored r)
     | EXECUTE operation \<Rightarrow> resolve_execute E task i operation))"

end
