(* ===== verification/Github_Post_Merge.thy ===== *)
theory Github_Post_Merge
  imports Github_Review
begin

text \<open>
  The readback after a merge (src/services/github-post-merge-service.ts): the stored receipt of
  the merge operation is compared with the pull request, the base branch, the task branch and
  the continuous integration of the base head; the task is ready for closure only when all
  of them agree. The CI evidence reader is an argument (\<open>ci\<close>).
\<close>

section \<open>The stored receipt\<close>

record stored_merge =
  sm_number :: int
  sm_head :: string
  sm_commit :: string
  sm_base :: string
  sm_merged_at :: string
  sm_method :: merge_method

definition receipt_invalid :: gh_err where
  "receipt_invalid = boundary ''MERGE_RECEIPT_INVALID''"

definition parse_method :: "json option \<Rightarrow> gh_err + merge_method" where
  "parse_method v =
     (if v = Some (JStr ''merge'') then Inr Method_Merge
      else if v = Some (JStr ''squash'') then Inr Method_Squash
      else if v = Some (JStr ''rebase'') then Inr Method_Rebase
      else Inl receipt_invalid)"

definition receipt_string :: "(string \<times> json) list \<Rightarrow> string \<Rightarrow> gh_err + string" where
  "receipt_string kvs k = (case map_of kvs k of Some (JStr s) \<Rightarrow> Inr s | _ \<Rightarrow> Inl receipt_invalid)"

definition parseStoredMergeResult :: "json option \<Rightarrow> gh_err + stored_merge" where
  "parseStoredMergeResult v = (case jsonRecord v of
       None \<Rightarrow> Inl receipt_invalid
     | Some kvs \<Rightarrow>
         bindR (case map_of kvs ''pullRequestNumber'' of
             Some (JNum n) \<Rightarrow> if safe_integer n \<and> 0 < n then Inr n else Inl receipt_invalid
           | _ \<Rightarrow> Inl receipt_invalid) (\<lambda>number.
         bindR (receipt_string kvs ''mergedHeadSha'') (\<lambda>head0.
         bindR (receipt_string kvs ''mergeCommitSha'') (\<lambda>commit0.
         bindR (receipt_string kvs ''baseSha'') (\<lambda>base0.
         bindR (receipt_string kvs ''mergedAt'') (\<lambda>merged_at.
         bindR (parse_method (map_of kvs ''mergeMethod'')) (\<lambda>method.
         bindR (assertSha head0) (\<lambda>head.
         bindR (assertSha commit0) (\<lambda>commit.
         bindR (assertSha base0) (\<lambda>base.
         Inr \<lparr>sm_number = number, sm_head = head, sm_commit = commit, sm_base = base, sm_merged_at = merged_at,
              sm_method = method\<rparr>))))))))))"

section \<open>The readback\<close>

record post_merge_input = exact_task_input +
  xi_merge_operation :: string

record post_merge_view =
  pv_confirmed :: bool
  pv_base :: "ref_snapshot option"
  pv_task :: "ref_snapshot option"
  pv_retained :: bool
  pv_advanced :: bool
  pv_contains :: bool
  pv_ci :: "ci_evidence option"

datatype readback_state = Readback_Confirmed | Readback_Incomplete

fun readback_name :: "readback_state \<Rightarrow> string" where
  "readback_name Readback_Confirmed = ''confirmed''"
| "readback_name Readback_Incomplete = ''incomplete''"

datatype post_merge_disposition = Closure_Ready | Recovery_Required

fun post_disposition_name :: "post_merge_disposition \<Rightarrow> string" where
  "post_disposition_name Closure_Ready = ''closure_ready''"
| "post_disposition_name Recovery_Required = ''recovery_required''"

datatype post_merge_result =
    Post_Merge github_operation stored_merge post_merge_view readback_state post_merge_disposition string stored_evidence
  | Post_Merge_Stored github_operation

definition post_error_code :: "gh_err \<Rightarrow> string" where
  "post_error_code = errorCode ''POST_MERGE_READBACK_FAILED''"

definition fail_post :: "'w gh_env \<Rightarrow> github_operation \<Rightarrow> op_phase \<Rightarrow> gh_err \<Rightarrow> ('w, 'z, 'a) gh" where
  "fail_post E operation phase e =
     bindE (transition_github E operation phase None (Some (post_error_code e))) (\<lambda>failed.
     throw (operationError ''POST_MERGE_READBACK_FAILED'' e failed))"

definition merge_receipt ::
  "'w gh_env \<Rightarrow> server_owned_task \<Rightarrow> post_merge_input \<Rightarrow> ('w, 'z, stored_merge) gh" where
  "merge_receipt E task i =
     bindE (bindExactTask E (exact_task_input.truncate i) False) (\<lambda>_.
     bindE (listForTask E (sv_repo_id task) (sv_task_id task)) (\<lambda>records.
     case filter (\<lambda>r. g_operation_id r = xi_merge_operation i) records of
       [r] \<Rightarrow>
         bindE (throw_if (g_semantic r \<noteq> SEM_write_merge \<or> g_phase r \<noteq> EXTERNAL_SUCCEEDED)
            (boundary ''MERGE_OPERATION_NOT_COMPLETE'')) (\<lambda>_.
         bindE (liftR (parseStoredMergeResult (g_result r))) (\<lambda>m.
         bindE (throw_if (sm_head m \<noteq> xi_head i) (boundary ''MERGE_OPERATION_HEAD_MISMATCH'')) (\<lambda>_.
         ret m)))
     | _ \<Rightarrow> throw (boundary ''MERGE_OPERATION_NOT_FOUND'')))"

definition pull_request_confirmed :: "stored_merge \<Rightarrow> pull_request \<Rightarrow> bool" where
  "pull_request_confirmed m pr \<longleftrightarrow>
     pr_state pr = PR_MERGED \<and> pr_number pr = sm_number m \<and> pr_head pr = sm_head m \<and> pr_merge_commit pr = Some (sm_commit m)"

definition base_contains ::
  "'w gh_env \<Rightarrow> server_owned_task \<Rightarrow> stored_merge \<Rightarrow> ref_snapshot option \<Rightarrow> ('w, 'z, bool) gh" where
  "base_contains E task m base_ref = (case base_ref of
       None \<Rightarrow> ret False
     | Some b \<Rightarrow>
         bindE (askG (ge_compare E (sv_repository task) (sm_commit m) (rf_sha b))) (\<lambda>c.
         ret (cm_status c = CMP_ahead \<or> cm_status c = CMP_identical)))"

definition observe_post_merge ::
  "'w gh_env \<Rightarrow> (server_owned_task \<Rightarrow> string \<Rightarrow> ('w, 'z, ci_evidence) gh) \<Rightarrow> server_owned_task \<Rightarrow> stored_merge
   \<Rightarrow> string \<Rightarrow> ('w, 'z, post_merge_view) gh" where
  "observe_post_merge E ci task m expected_tree =
     bindE (askG (ge_pr E (sv_repository task) (sm_number m))) (\<lambda>pr.
     bindE (askG (ge_ref E (sv_repository task) (branch_ref (sv_base_branch task)))) (\<lambda>base_ref.
     bindE (askG (ge_ref E (sv_repository task) (branch_ref (sv_branch task)))) (\<lambda>task_ref.
     bindE (base_contains E task m base_ref) (\<lambda>contained.
     bindE (case base_ref of None \<Rightarrow> ret None
        | Some b \<Rightarrow> bindE (ci task (rf_sha b)) (\<lambda>ev. ret (Some ev))) (\<lambda>main_ci.
     ret \<lparr>pv_confirmed = pull_request_confirmed m pr, pv_base = base_ref, pv_task = task_ref,
          pv_retained = (map_option rf_sha task_ref = Some (sm_head m) \<and> map_option rf_tree task_ref = Some expected_tree),
          pv_advanced = (base_ref \<noteq> None \<and> map_option rf_sha base_ref \<noteq> Some (sm_base m)),
          pv_contains = contained, pv_ci = main_ci\<rparr>)))))"

definition main_ci_confirmed :: "ci_evidence option \<Rightarrow> bool" where
  "main_ci_confirmed c = (case c of None \<Rightarrow> False
     | Some ev \<Rightarrow> ce_overall ev = CI_success \<and> list_all (\<lambda>k. co_status k = CHK_success) (ce_checks ev))"

definition readback_of :: "post_merge_view \<Rightarrow> readback_state" where
  "readback_of v =
     (if pv_confirmed v \<and> pv_advanced v \<and> pv_contains v \<and> pv_retained v \<and> main_ci_confirmed (pv_ci v)
      then Readback_Confirmed else Readback_Incomplete)"

definition disposition_of :: "readback_state \<Rightarrow> post_merge_disposition" where
  "disposition_of r = (if r = Readback_Confirmed then Closure_Ready else Recovery_Required)"

definition ref_members :: "post_merge_view \<Rightarrow> (string \<times> json) list" where
  "ref_members v =
     [(''baseHeadSha'', nullable (map_option rf_sha (pv_base v))), (''baseHeadTreeSha'', nullable (map_option rf_tree (pv_base v))),
      (''taskBranchHeadSha'', nullable (map_option rf_sha (pv_task v))),
      (''taskBranchTreeSha'', nullable (map_option rf_tree (pv_task v))), (''baseAdvanced'', JBool (pv_advanced v)),
      (''baseContainsMergeCommit'', JBool (pv_contains v)), (''taskBranchRetained'', JBool (pv_retained v)),
      (''mainCiStatusId'', nullable (map_option ce_status_id (pv_ci v))),
      (''mainCiOverall'', nullable (map_option (overall_name \<circ> ce_overall) (pv_ci v))),
      (''mainCiEvidenceDigest'', nullable (map_option ce_digest (pv_ci v)))]"

definition main_checks_json :: "ci_evidence option \<Rightarrow> json" where
  "main_checks_json c = JArr (case c of None \<Rightarrow> []
     | Some ev \<Rightarrow> map (\<lambda>k. JObj [(''key'', JStr (co_key k)), (''status'', JStr (check_status_name (co_status k)))]) (ce_checks ev))"

definition outcome_members :: "post_merge_view \<Rightarrow> (string \<times> json) list" where
  "outcome_members v =
     [(''readbackState'', JStr (readback_name (readback_of v))),
      (''taskDisposition'', JStr (post_disposition_name (disposition_of (readback_of v))))]"

definition complete_readback ::
  "'w gh_env \<Rightarrow> server_owned_task \<Rightarrow> post_merge_input \<Rightarrow> stored_merge \<Rightarrow> github_operation \<Rightarrow> post_merge_view
   \<Rightarrow> ('w, 'z, post_merge_result) gh" where
  "complete_readback E task i m operation v =
     bindE (now_text E) (\<lambda>observed_at.
     bindE (storeGitHubEvidence E NS_post_merge (JObj
        ([(''semantic'', JStr ''repo_post_merge_readback''), (''repoId'', JStr (sv_repo_id task)),
          (''taskId'', JStr (sv_task_id task)), (''mergeOperationId'', JStr (xi_merge_operation i)),
          (''pullRequestNumber'', JNum (sm_number m)), (''mergeMethod'', JStr (method_name (sm_method m))),
          (''mergedHeadSha'', JStr (sm_head m)), (''mergeCommitSha'', JStr (sm_commit m)),
          (''pullRequestConfirmed'', JBool (pv_confirmed v)), (''expectedBaseBeforeMergeSha'', JStr (sm_base m))]
         @ ref_members v @ [(''mainRequiredChecks'', main_checks_json (pv_ci v))] @ outcome_members v
         @ [(''observedAt'', JStr observed_at)]))) (\<lambda>ev.
     bindE (transition_github E operation EXTERNAL_SUCCEEDED (Some (JObj
        ([(''mergeOperationId'', JStr (xi_merge_operation i)), (''pullRequestNumber'', JNum (sm_number m)),
          (''pullRequestConfirmed'', JBool (pv_confirmed v)), (''mergedHeadSha'', JStr (sm_head m)),
          (''mergeCommitSha'', JStr (sm_commit m)), (''expectedBaseSha'', JStr (sm_base m))]
         @ ref_members v @ outcome_members v @ evidence_members ev @ [(''observedAt'', JStr observed_at)]))) None) (\<lambda>completed.
     ret (Post_Merge completed m v (readback_of v) (disposition_of (readback_of v)) observed_at ev))))"

definition post_merge_request :: "server_owned_task \<Rightarrow> post_merge_input \<Rightarrow> admission_request" where
  "post_merge_request task i =
     \<lparr>aq_operation_id = xi_operation_id i, aq_semantic = SEM_post_merge_readback, aq_repo_id = sv_repo_id task,
      aq_task_id = sv_task_id task, aq_subject = JObj [(''mergeOperationId'', JStr (xi_merge_operation i))],
      aq_binding = JObj [(''expectedHeadSha'', JStr (xi_head i)), (''expectedTreeSha'', JStr (xi_tree i)),
        (''mergeOperationId'', JStr (xi_merge_operation i)), (''retainTaskBranch'', JBool True)]\<rparr>"

definition post_merge_execute ::
  "'w gh_env \<Rightarrow> (server_owned_task \<Rightarrow> string \<Rightarrow> ('w, 'z, ci_evidence) gh) \<Rightarrow> server_owned_task \<Rightarrow> post_merge_input
   \<Rightarrow> github_operation \<Rightarrow> ('w, 'z, post_merge_result) gh" where
  "post_merge_execute E ci task i operation =
     bindE (catchE (merge_receipt E task i) (fail_post E operation FAILED_PRECONTACT)) (\<lambda>m.
     bindE (transition_github E operation EXTERNAL_PRECONTACT None None) (\<lambda>operation1.
     bindE (transition_github E operation1 EXTERNAL_CONTACTED None None) (\<lambda>operation2.
     catchE
       (bindE (observe_post_merge E ci task m (xi_tree i)) (\<lambda>v. complete_readback E task i m operation2 v))
       (fail_post E operation2 FAILED_KNOWN_AFTER_CONTACT))))"

definition postMergeReadback ::
  "'w gh_env \<Rightarrow> (server_owned_task \<Rightarrow> string \<Rightarrow> ('w, 'z, ci_evidence) gh) \<Rightarrow> post_merge_input
   \<Rightarrow> ('w, 'z, post_merge_result) gh" where
  "postMergeReadback E ci i =
     bindE (liftR (assertSafeIdentifier (xi_merge_operation i))) (\<lambda>_.
     bindE (getServerOwnedTask E (xi_repo_id i)) (\<lambda>task.
     bindE (taskMatches task (exact_task_input.truncate i)) (\<lambda>_.
     bindE (admit E (post_merge_request task i)) (\<lambda>admission.
     case admission of
       STORED r \<Rightarrow> ret (Post_Merge_Stored r)
     | EXECUTE operation \<Rightarrow> post_merge_execute E ci task i operation))))"

end
