(* ===== verification/Git_Remote.thy ===== *)
theory Git_Remote
  imports Github_Pr
begin

text \<open>
  The remote of a task (src/services/git-remote-service.ts): the exact Git boundary built on a
  process runner, the status of the remote task branch, and the push of the exact head, asked
  for once per operation id and reconciled by reading the branch back. The process runner
  \<open>git\<close> is an argument of the boundary; the boundary's three functions have the types of
  the fields \<open>ge_inspect\<close>, \<open>ge_is_ancestor\<close> and \<open>ge_push\<close>. Concurrent questions are asked one after
  the other.
\<close>

section \<open>The exact Git boundary\<close>

record git_process_result =
  gp_exit :: "int option"
  gp_spawned :: bool
  gp_timed_out :: bool
  gp_stdout :: string
  gp_stdout_truncated :: bool
  gp_stderr_truncated :: bool

type_synonym 'w git_runner = "string \<Rightarrow> string list \<Rightarrow> 'w \<Rightarrow> git_process_result \<times> 'w"

type_synonym ('w, 'a) git_eff = "(gh_err, 'w, 'a) eff"

definition assertRemoteName :: "string \<Rightarrow> gh_err + unit" where
  "assertRemoteName v = guardR (case v of [] \<Rightarrow> False
     | c # cs \<Rightarrow> is_alnum c \<and> length cs \<le> 63 \<and> list_all (\<lambda>x. is_alnum x \<or> x \<in> set ''._-'') cs)
     (boundary ''REMOTE_NAME_INVALID'')"

definition assertTaskRoot :: "string \<Rightarrow> gh_err + unit" where
  "assertTaskRoot v =
     guardR (is_absolute_path v \<and> v \<noteq> ''/'' \<and> CHR 0x00 \<notin> set v) (boundary ''TASK_ROOT_INVALID'')"

definition assertSafeUpstream :: "string \<Rightarrow> gh_err + string" where
  "assertSafeUpstream v =
     (if (case v of [] \<Rightarrow> False
          | c # cs \<Rightarrow> is_alnum c \<and> length cs \<le> 299 \<and> list_all (\<lambda>x. is_alnum x \<or> x \<in> set ''._/-'') cs)
        \<and> \<not> contains ''..'' v \<and> \<not> contains ''//'' v
      then Inr v else Inl (boundary ''UPSTREAM_REF_INVALID''))"

text \<open>The effect of a Git failure is unknown only when a spawned process was to change the remote.\<close>

definition git_effect :: "git_process_result \<Rightarrow> bool \<Rightarrow> gh_effect" where
  "git_effect r external = (if external \<and> gp_spawned r then UNKNOWN_EFFECT else NONE_EFFECT)"

definition assertBoundedGitResult :: "git_process_result \<Rightarrow> bool \<Rightarrow> gh_err + unit" where
  "assertBoundedGitResult r external =
     (if gp_stdout_truncated r \<or> gp_stderr_truncated r
      then Inl (Boundary ''GIT_OUTPUT_TRUNCATED'' (git_effect r external) False None)
      else if gp_timed_out r then Inl (Boundary ''GIT_TIMEOUT'' (git_effect r external) True None)
      else Inr ())"

definition run_git :: "'w git_runner \<Rightarrow> string \<Rightarrow> string list \<Rightarrow> ('w, git_process_result) git_eff" where
  "run_git git root args = (\<lambda>w. case git root args w of (r, w') \<Rightarrow> (Inr r, w'))"

definition mustRun :: "'w git_runner \<Rightarrow> string \<Rightarrow> string list \<Rightarrow> ('w, string) git_eff" where
  "mustRun git root args =
     bindE (run_git git root args) (\<lambda>r.
     bindE (liftR (assertBoundedGitResult r False)) (\<lambda>_.
     bindE (throw_if (gp_exit r \<noteq> Some 0) (boundary ''GIT_INSPECTION_FAILED'')) (\<lambda>_.
     ret (gp_stdout r))))"

definition inspect :: "'w git_runner \<Rightarrow> server_owned_task \<Rightarrow> ('w, local_git_snapshot) git_eff" where
  "inspect git task =
     bindE (liftR (assertTaskRoot (sv_root task))) (\<lambda>_.
     bindE (liftR (assertSafeBranch (sv_branch task))) (\<lambda>_.
     bindE (liftR (assertRemoteName (sv_remote_name task))) (\<lambda>_.
     bindE (mustRun git (sv_root task) [''symbolic-ref'', ''--quiet'', ''--short'', ''HEAD'']) (\<lambda>branch0.
     bindE (liftR (assertSafeBranch (trim branch0))) (\<lambda>branch.
     bindE (mustRun git (sv_root task) [''rev-parse'', ''HEAD'']) (\<lambda>head0.
     bindE (mustRun git (sv_root task) [''rev-parse'', ''HEAD^{tree}'']) (\<lambda>tree0.
     bindE (mustRun git (sv_root task) [''status'', ''--porcelain=v1'', ''-z'', ''--untracked-files=all'']) (\<lambda>status.
     bindE (mustRun git (sv_root task) [''remote'', ''get-url'', ''--push'', ''--all'', sv_remote_name task]) (\<lambda>urls.
     bindE (mustRun git (sv_root task) [''for-each-ref'', ''--format=%(upstream:short)'', branch_ref branch]) (\<lambda>upstream0.
     bindE (liftR (assertSha (trim head0))) (\<lambda>head.
     bindE (liftR (assertSha (trim tree0))) (\<lambda>tree.
     bindE (if trim upstream0 = [] then ret None
        else bindE (liftR (assertSafeUpstream (trim upstream0))) (\<lambda>u. ret (Some u))) (\<lambda>upstream.
     ret \<lparr>lg_branch = branch, lg_head = head, lg_tree = tree, lg_clean = (status = []),
          lg_push_urls = filter (\<lambda>u. u \<noteq> []) (map trim (split_on (CHR 0x0A) urls)), lg_upstream = upstream\<rparr>)))))))))))))"

definition isAncestor ::
  "'w git_runner \<Rightarrow> server_owned_task \<Rightarrow> string \<Rightarrow> string \<Rightarrow> ('w, bool) git_eff" where
  "isAncestor git task ancestor descendant =
     bindE (liftR (assertTaskRoot (sv_root task))) (\<lambda>_.
     bindE (liftR (assertSha ancestor)) (\<lambda>_.
     bindE (liftR (assertSha descendant)) (\<lambda>_.
     bindE (run_git git (sv_root task) [''merge-base'', ''--is-ancestor'', ancestor, descendant]) (\<lambda>r.
     bindE (liftR (assertBoundedGitResult r False)) (\<lambda>_.
     if gp_exit r = Some 0 then ret True
     else if gp_exit r = Some 1 then ret False
     else throw (boundary ''GIT_ANCESTRY_FAILED''))))))"

text \<open>\<open>/^(?:git@)?github\.com:[A-Za-z0-9_.-]+\/[A-Za-z0-9_.-]+(?:\.git)?$/\<close>\<close>

definition is_scp_github :: "string \<Rightarrow> bool" where
  "is_scp_github v =
     (let bare = (if prefix ''git@'' v then drop 4 v else v) in
      prefix ''github.com:'' bare \<and> is_repository_name (drop 11 bare))"

definition safe_remote_url :: "url_view \<Rightarrow> bool" where
  "safe_remote_url u \<longleftrightarrow>
     ((uv_protocol u = ''https:'' \<and> uv_username u = [] \<and> uv_password u = [])
      \<or> (uv_protocol u = ''ssh:'' \<and> (uv_username u = [] \<or> uv_username u = ''git'') \<and> uv_password u = []))
   \<and> to_lower (uv_hostname u) = ''github.com'' \<and> uv_search u = [] \<and> uv_hash u = []"

definition assertSafeGitHubRemoteUrl ::
  "url_lib \<Rightarrow> string \<Rightarrow> string \<Rightarrow> repository_ref \<Rightarrow> gh_err + unit" where
  "assertSafeGitHubRemoteUrl U value expected_identity repository =
     bindR (repositorySlug repository) (\<lambda>slug.
     if to_lower expected_identity \<noteq> to_lower (''github.com/'' @ slug) then Inl (boundary ''REMOTE_IDENTITY_MISMATCH'')
     else (case normalizeRemoteIdentity U value of
         Inl e \<Rightarrow> Inl (Runtime e)
       | Inr identity \<Rightarrow>
           if to_lower identity \<noteq> to_lower (''github.com/'' @ slug) then Inl (boundary ''REMOTE_IDENTITY_MISMATCH'')
           else if is_scp_github value then Inr ()
           else (case ul_parse U value of
               None \<Rightarrow> Inl (boundary ''REMOTE_URL_INVALID'')
             | Some url \<Rightarrow> guardR (safe_remote_url url) (boundary ''REMOTE_URL_UNSAFE''))))"

definition push_arguments :: "string \<Rightarrow> string \<Rightarrow> string \<Rightarrow> string list" where
  "push_arguments url sha branch =
     [''push'', ''--porcelain'', ''--no-force'', ''--no-force-with-lease'', ''--no-force-if-includes'', ''--no-delete'',
      ''--no-prune'', ''--no-follow-tags'', ''--no-signed'', ''--recurse-submodules=no'', ''--no-verify'', url,
      sha @ '':'' @ branch_ref branch]"

definition pushExact ::
  "url_lib \<Rightarrow> 'w git_runner \<Rightarrow> server_owned_task \<Rightarrow> string \<Rightarrow> string \<Rightarrow> ('w, unit) git_eff" where
  "pushExact U git task expected_head url =
     bindE (liftR (assertTaskRoot (sv_root task))) (\<lambda>_.
     bindE (liftR (assertSha expected_head)) (\<lambda>sha.
     bindE (liftR (assertSafeBranch (sv_branch task))) (\<lambda>branch.
     bindE (liftR (assertSafeGitHubRemoteUrl U url (sv_remote_identity task) (sv_repository task))) (\<lambda>_.
     bindE (run_git git (sv_root task) (push_arguments url sha branch)) (\<lambda>r.
     bindE (liftR (assertBoundedGitResult r True)) (\<lambda>_.
     throw_if (gp_exit r \<noteq> Some 0)
       (Boundary ''GIT_PUSH_FAILED'' (if gp_spawned r then UNKNOWN_EFFECT else NONE_EFFECT) (gp_timed_out r) None)))))))"

section \<open>The service\<close>

definition remote_error_code :: "gh_err \<Rightarrow> string" where
  "remote_error_code = errorCode ''GITHUB_OPERATION_FAILED''"

definition remote_operation_error :: "gh_err \<Rightarrow> github_operation \<Rightarrow> gh_err" where
  "remote_operation_error = operationError ''GITHUB_OPERATION_FAILED''"

definition fail_remote_with ::
  "'w gh_env \<Rightarrow> github_operation \<Rightarrow> op_phase \<Rightarrow> json option \<Rightarrow> string \<Rightarrow> gh_err \<Rightarrow> ('w, 'z, 'a) gh" where
  "fail_remote_with E operation phase result code e =
     bindE (transition_github E operation phase result (Some code)) (\<lambda>failed.
     throw (remote_operation_error e failed))"

definition fail_remote :: "'w gh_env \<Rightarrow> github_operation \<Rightarrow> op_phase \<Rightarrow> gh_err \<Rightarrow> ('w, 'z, 'a) gh" where
  "fail_remote E operation phase e = fail_remote_with E operation phase None (remote_error_code e) e"

definition assertLocalTaskBinding :: "'w gh_env \<Rightarrow> server_owned_task \<Rightarrow> local_git_snapshot \<Rightarrow> gh_err + unit" where
  "assertLocalTaskBinding E task local =
     bindR (guardR (lg_branch local = sv_branch task) (boundary ''TASK_BRANCH_DRIFT'')) (\<lambda>_.
     case lg_push_urls local of
       [url] \<Rightarrow> assertSafeGitHubRemoteUrl (ge_urls E) url (sv_remote_identity task) (sv_repository task)
     | _ \<Rightarrow> Inl (boundary ''REMOTE_IDENTITY_MISMATCH''))"

definition assertRepositoryIdentity :: "server_owned_task \<Rightarrow> string \<Rightarrow> gh_err + unit" where
  "assertRepositoryIdentity task actual =
     bindR (repositorySlug (sv_repository task)) (\<lambda>slug.
     guardR (to_lower actual = to_lower slug) (boundary ''GITHUB_REPOSITORY_MISMATCH''))"

datatype relationship = Rel_Absent | Rel_Equal | Rel_Ahead | Rel_Behind | Rel_Diverged

fun relationship_name :: "relationship \<Rightarrow> string" where
  "relationship_name Rel_Absent = ''absent''"
| "relationship_name Rel_Equal = ''equal''"
| "relationship_name Rel_Ahead = ''ahead''"
| "relationship_name Rel_Behind = ''behind''"
| "relationship_name Rel_Diverged = ''diverged''"

text \<open>The \<open>try\<close> block: \<open>None\<close> when Git could not decide.\<close>

definition local_relationship ::
  "'w gh_env \<Rightarrow> server_owned_task \<Rightarrow> string \<Rightarrow> string \<Rightarrow> ('w, 'z, relationship option) gh" where
  "local_relationship E task remote_sha local_head =
     catchE
       (bindE (askG (ge_is_ancestor E task remote_sha local_head)) (\<lambda>behind_us.
        if behind_us then ret (Some Rel_Ahead)
        else bindE (askG (ge_is_ancestor E task local_head remote_sha)) (\<lambda>before_us.
          ret (Some (if before_us then Rel_Behind else Rel_Diverged)))))
       (\<lambda>e. case e of
          Boundary code f t oper \<Rightarrow> if code \<noteq> ''GIT_ANCESTRY_FAILED'' then throw e else ret None
        | Runtime _ \<Rightarrow> throw e)"

definition remoteRelationship ::
  "'w gh_env \<Rightarrow> server_owned_task \<Rightarrow> ref_snapshot option \<Rightarrow> string \<Rightarrow> ('w, 'z, relationship) gh" where
  "remoteRelationship E task remote_option local_head = (case remote_option of
       None \<Rightarrow> ret Rel_Absent
     | Some remote \<Rightarrow>
         if rf_sha remote = local_head then ret Rel_Equal
         else bindE (local_relationship E task (rf_sha remote) local_head) (\<lambda>known.
           case known of
             Some r \<Rightarrow> ret r
           | None \<Rightarrow>
               bindE (askG (ge_compare E (sv_repository task) (rf_sha remote) local_head)) (\<lambda>c.
               ret (case cm_status c of CMP_ahead \<Rightarrow> Rel_Ahead | CMP_behind \<Rightarrow> Rel_Behind | CMP_identical \<Rightarrow> Rel_Equal
                    | CMP_diverged \<Rightarrow> Rel_Diverged))))"

text \<open>The local snapshot of the task on the exact head and tree.\<close>

definition exact_local ::
  "'w gh_env \<Rightarrow> server_owned_task \<Rightarrow> string \<Rightarrow> string \<Rightarrow> bool \<Rightarrow> ('w, 'z, local_git_snapshot) gh" where
  "exact_local E task head tree require_clean =
     bindE (askG (ge_inspect E task)) (\<lambda>local.
     bindE (liftR (assertLocalTaskBinding E task local)) (\<lambda>_.
     bindE (throw_if (require_clean \<and> \<not> lg_clean local) (boundary ''WORKTREE_NOT_CLEAN'')) (\<lambda>_.
     bindE (throw_if (lg_head local \<noteq> head) (boundary ''HEAD_DRIFT'')) (\<lambda>_.
     bindE (throw_if (lg_tree local \<noteq> tree) (boundary ''TREE_DRIFT'')) (\<lambda>_.
     ret local)))))"

definition remote_subject :: "server_owned_task \<Rightarrow> json" where
  "remote_subject task = JObj [(''branch'', JStr (sv_branch task))]"

section \<open>Status of the remote branch\<close>

record remote_status =
  rs_local :: local_git_snapshot
  rs_remote :: "ref_snapshot option"
  rs_aligned :: bool
  rs_relationship :: relationship
  rs_default :: ref_snapshot
  rs_permission :: string
  rs_repository_id :: string
  rs_evidence :: stored_evidence

datatype remote_status_result = Remote_Status github_operation remote_status | Remote_Status_Stored github_operation

definition observe_remote ::
  "'w gh_env \<Rightarrow> server_owned_task \<Rightarrow> local_git_snapshot \<Rightarrow> github_operation \<Rightarrow> ('w, 'z, remote_status_result) gh" where
  "observe_remote E task local operation =
     bindE (askG (ge_repository E (sv_repository task))) (\<lambda>repository.
     bindE (liftR (assertRepositoryIdentity task (rp_name_with_owner repository))) (\<lambda>_.
     bindE (askG (ge_ref E (sv_repository task) (branch_ref (sv_branch task)))) (\<lambda>remote.
     bindE (askG (ge_ref E (sv_repository task) (branch_ref (rp_default_branch repository)))) (\<lambda>default_option.
     case default_option of
       None \<Rightarrow> throw (boundary ''DEFAULT_BRANCH_MISSING'')
     | Some default_ref \<Rightarrow>
         let aligned = (map_option rf_sha remote = Some (lg_head local) \<and> map_option rf_tree remote = Some (lg_tree local)) in
         bindE (remoteRelationship E task remote (lg_head local)) (\<lambda>rel.
         bindE (storeGitHubEvidence E NS_remote (JObj
            [(''semantic'', JStr ''repo_remote_status''), (''repoId'', JStr (sv_repo_id task)),
             (''taskId'', JStr (sv_task_id task)), (''branch'', JStr (sv_branch task)),
             (''localHeadSha'', JStr (lg_head local)), (''localTreeSha'', JStr (lg_tree local)),
             (''remoteHeadSha'', nullable (map_option rf_sha remote)), (''remoteTreeSha'', nullable (map_option rf_tree remote)),
             (''taskBranchName'', JStr (sv_branch task)), (''defaultBranchName'', JStr (rp_default_branch repository)),
             (''localUpstream'', nullable (lg_upstream local)), (''remoteName'', JStr (sv_remote_name task)),
             (''normalizedRemoteIdentity'', JStr (sv_remote_identity task)),
             (''configuredRepositoryIdentity'', JStr (rp_name_with_owner repository)),
             (''defaultBranchHeadSha'', JStr (rf_sha default_ref)), (''defaultBranchTreeSha'', JStr (rf_tree default_ref)),
             (''aligned'', JBool aligned), (''relationship'', JStr (relationship_name rel)),
             (''repositoryId'', JStr (rp_id repository))])) (\<lambda>ev.
         bindE (transition_github E operation EXTERNAL_SUCCEEDED (Some (JObj
            ([(''remoteHeadSha'', nullable (map_option rf_sha remote)), (''remoteTreeSha'', nullable (map_option rf_tree remote)),
              (''aligned'', JBool aligned), (''relationship'', JStr (relationship_name rel))] @ evidence_members ev))) None) (\<lambda>completed.
         ret (Remote_Status completed
           \<lparr>rs_local = local, rs_remote = remote, rs_aligned = aligned, rs_relationship = rel, rs_default = default_ref,
            rs_permission = rp_viewer_permission repository, rs_repository_id = rp_id repository, rs_evidence = ev\<rparr>))))))))"

definition remoteStatus :: "'w gh_env \<Rightarrow> exact_task_input \<Rightarrow> ('w, 'z, remote_status_result) gh" where
  "remoteStatus E i =
     bindE (getServerOwnedTask E (xi_repo_id i)) (\<lambda>task.
     bindE (assertTaskId task (xi_task_id i)) (\<lambda>_.
     bindE (liftR (assertSha (xi_head i))) (\<lambda>head.
     bindE (liftR (assertSha (xi_tree i))) (\<lambda>tree.
     bindE (admit E \<lparr>aq_operation_id = xi_operation_id i, aq_semantic = SEM_remote_status, aq_repo_id = sv_repo_id task,
        aq_task_id = sv_task_id task, aq_subject = remote_subject task,
        aq_binding = JObj [(''expectedHeadSha'', JStr head), (''expectedTreeSha'', JStr tree)]\<rparr>) (\<lambda>admission.
     case admission of
       STORED r \<Rightarrow> ret (Remote_Status_Stored r)
     | EXECUTE operation \<Rightarrow>
         bindE (catchE (exact_local E task head tree False) (fail_remote E operation FAILED_PRECONTACT)) (\<lambda>local.
         bindE (transition_github E operation EXTERNAL_PRECONTACT None None) (\<lambda>operation1.
         bindE (transition_github E operation1 EXTERNAL_CONTACTED None None) (\<lambda>operation2.
         catchE (observe_remote E task local operation2) (fail_remote E operation2 FAILED_KNOWN_AFTER_CONTACT)))))))))"

section \<open>Push\<close>

datatype push_result = Pushed github_operation bool string stored_evidence | Push_Stored github_operation

definition push_request :: "'w gh_env \<Rightarrow> server_owned_task \<Rightarrow> exact_task_input \<Rightarrow> string \<Rightarrow> string \<Rightarrow> admission_request" where
  "push_request E task i head tree =
     \<lparr>aq_operation_id = xi_operation_id i, aq_semantic = SEM_write_push, aq_repo_id = sv_repo_id task,
      aq_task_id = sv_task_id task, aq_subject = remote_subject task,
      aq_binding = JObj [(''branch'', JStr (sv_branch task)), (''expectedHeadSha'', JStr head), (''expectedTreeSha'', JStr tree),
        (''remoteIdentityDigest'', JStr (re_sha256 (ge_rt E) (sv_remote_identity task)))]\<rparr>"

definition storePushEvidence ::
  "'w gh_env \<Rightarrow> server_owned_task \<Rightarrow> ref_snapshot option \<Rightarrow> ref_snapshot option \<Rightarrow> string \<Rightarrow> bool
   \<Rightarrow> ('w, 'z, stored_evidence) gh" where
  "storePushEvidence E task before after head pushed = storeGitHubEvidence E NS_push (JObj
     [(''semantic'', JStr ''repo_write_push''), (''repoId'', JStr (sv_repo_id task)), (''taskId'', JStr (sv_task_id task)),
      (''taskBranch'', JStr (sv_branch task)), (''expectedHeadSha'', JStr head),
      (''remoteBefore'', nullable (map_option rf_sha before)), (''remoteBeforeTree'', nullable (map_option rf_tree before)),
      (''remoteAfter'', nullable (map_option rf_sha after)), (''remoteAfterTree'', nullable (map_option rf_tree after)),
      (''pushed'', JBool pushed), (''fastForwardOnly'', JBool True), (''forceUsed'', JBool False), (''branchRetained'', JBool True)])"

definition pushed_members :: "bool \<Rightarrow> string \<Rightarrow> (string \<times> json) list" where
  "pushed_members pushed head = [(''pushed'', JBool pushed), (''remoteHeadSha'', JStr head)]"

definition finish_push ::
  "'w gh_env \<Rightarrow> server_owned_task \<Rightarrow> github_operation \<Rightarrow> ref_snapshot option \<Rightarrow> ref_snapshot option \<Rightarrow> string \<Rightarrow> bool
   \<Rightarrow> (string \<times> json) list \<Rightarrow> ('w, 'z, push_result) gh" where
  "finish_push E task operation before after head pushed extra =
     bindE (storePushEvidence E task before after head pushed) (\<lambda>ev.
     bindE (transition_github E operation EXTERNAL_SUCCEEDED
        (Some (JObj (pushed_members pushed head @ extra @ evidence_members ev))) None) (\<lambda>completed.
     ret (Pushed completed pushed head ev)))"

definition push_checks ::
  "'w gh_env \<Rightarrow> server_owned_task \<Rightarrow> string \<Rightarrow> string \<Rightarrow> ('w, 'z, ref_snapshot option) gh" where
  "push_checks E task head tree =
     bindE (askG (ge_repository E (sv_repository task))) (\<lambda>repository.
     bindE (liftR (assertWritablePublicationTarget task repository)) (\<lambda>_.
     bindE (askG (ge_ref E (sv_repository task) (branch_ref (sv_branch task)))) (\<lambda>before.
     bindE (throw_if (map_option rf_sha before = Some head \<and> map_option rf_tree before \<noteq> Some tree)
        (boundary ''REMOTE_TREE_MISMATCH'')) (\<lambda>_.
     case before of
       None \<Rightarrow> ret None
     | Some b \<Rightarrow>
         if rf_sha b = head then ret before
         else bindE (askG (ge_is_ancestor E task (rf_sha b) head)) (\<lambda>ancestor.
              bindE (throw_if (\<not> ancestor) (boundary ''NON_FAST_FORWARD_BLOCKED'')) (\<lambda>_. ret before))))))"

definition observed_head_json :: "string \<Rightarrow> ref_snapshot option \<Rightarrow> json" where
  "observed_head_json head after =
     JObj [(''expectedHeadSha'', JStr head), (''observedHeadSha'', nullable (map_option rf_sha after))]"

definition reconcilePushFailure ::
  "'w gh_env \<Rightarrow> server_owned_task \<Rightarrow> github_operation \<Rightarrow> ref_snapshot option \<Rightarrow> string \<Rightarrow> string
   \<Rightarrow> ('w, 'z, push_result) gh" where
  "reconcilePushFailure E task operation before head tree =
     catchE
       (bindE (askG (ge_ref E (sv_repository task) (branch_ref (sv_branch task)))) (\<lambda>after.
        if map_option rf_sha after = Some head \<and> map_option rf_tree after = Some tree
        then catchE (finish_push E task operation before after head True [(''reconciled'', JBool True)])
          (fail_remote_with E operation FAILED_KNOWN_AFTER_CONTACT
             (Some (JObj (pushed_members True head @ [(''reconciled'', JBool True)]))) ''PUSH_EVIDENCE_STORE_FAILED'')
        else if map_option rf_sha after = map_option rf_sha before
        then fail_remote_with E operation FAILED_KNOWN_AFTER_CONTACT None ''PUSH_KNOWN_NO_EFFECT''
          (Boundary ''PUSH_KNOWN_NO_EFFECT'' KNOWN_EFFECT False None)
        else fail_remote_with E operation UNKNOWN_AFTER_CONTACT (Some (observed_head_json head after)) ''PUSH_REMOTE_DRIFT''
          (boundary_unknown ''PUSH_REMOTE_DRIFT'')))
       (\<lambda>e. if isOperationError e then throw e
            else fail_remote_with E operation UNKNOWN_AFTER_CONTACT None ''PUSH_READBACK_UNAVAILABLE'' e)"

text \<open>The readback after a push that reported success. The \<open>catch\<close> block reads the phase the
  operation has; \<open>tagE\<close> marks an error with the operation.\<close>

definition push_readback ::
  "'w gh_env \<Rightarrow> server_owned_task \<Rightarrow> github_operation \<Rightarrow> string \<Rightarrow> string \<Rightarrow> ('w, 'z, ref_snapshot option) gh" where
  "push_readback E task operation head tree =
     catchE
       (bindE (tagE operation (askG (ge_ref E (sv_repository task) (branch_ref (sv_branch task))))) (\<lambda>after.
        if map_option rf_sha after \<noteq> Some head \<or> map_option rf_tree after \<noteq> Some tree
        then bindE (tagE operation (transition_github E operation UNKNOWN_AFTER_CONTACT
               (Some (observed_head_json head after)) (Some ''PUSH_READBACK_MISMATCH''))) (\<lambda>unknown.
             tagE unknown (throw (remote_operation_error (boundary_unknown ''PUSH_READBACK_MISMATCH'') unknown)))
        else ret after))
       (\<lambda>(e, current).
          if g_phase current = UNKNOWN_AFTER_CONTACT then throw e
          else fail_remote E current UNKNOWN_AFTER_CONTACT e)"

definition push_execute ::
  "'w gh_env \<Rightarrow> server_owned_task \<Rightarrow> exact_task_input \<Rightarrow> string \<Rightarrow> string \<Rightarrow> github_operation \<Rightarrow> ('w, 'z, push_result) gh" where
  "push_execute E task i head tree operation =
     bindE (catchE (exact_local E task head tree True) (fail_remote E operation FAILED_PRECONTACT)) (\<lambda>local.
     bindE (transition_github E operation EXTERNAL_PRECONTACT None None) (\<lambda>operation1.
     bindE (transition_github E operation1 EXTERNAL_CONTACTED None None) (\<lambda>operation2.
     bindE (catchE (push_checks E task head tree) (fail_remote E operation2 FAILED_KNOWN_AFTER_CONTACT)) (\<lambda>before.
     if map_option rf_sha before = Some head
     then catchE (finish_push E task operation2 before before head False []) (fail_remote E operation2 FAILED_KNOWN_AFTER_CONTACT)
     else
       bindE (catchE (bindE (effectG (Call_Push (xi_operation_id i)) (ge_push E task head (hd (lg_push_urls local)))) (\<lambda>_. ret None))
         (\<lambda>_. bindE (reconcilePushFailure E task operation2 before head tree) (\<lambda>r. ret (Some r)))) (\<lambda>reconciled.
       case reconciled of
         Some r \<Rightarrow> ret r
       | None \<Rightarrow>
           bindE (push_readback E task operation2 head (lg_tree local)) (\<lambda>after.
           catchE (finish_push E task operation2 before after head True [])
             (fail_remote_with E operation2 FAILED_KNOWN_AFTER_CONTACT (Some (JObj (pushed_members True head)))
                ''PUSH_EVIDENCE_STORE_FAILED'')))))))"

definition writePush :: "'w gh_env \<Rightarrow> exact_task_input \<Rightarrow> ('w, 'z, push_result) gh" where
  "writePush E i =
     bindE (getServerOwnedTask E (xi_repo_id i)) (\<lambda>task.
     bindE (assertTaskId task (xi_task_id i)) (\<lambda>_.
     bindE (liftR (assertSha (xi_head i))) (\<lambda>head.
     bindE (liftR (assertSha (xi_tree i))) (\<lambda>tree.
     bindE (admit E (push_request E task i head tree)) (\<lambda>admission.
     case admission of
       STORED r \<Rightarrow> ret (Push_Stored r)
     | EXECUTE operation \<Rightarrow> push_execute E task i head tree operation)))))"

end
