(* ===== verification/Github_Frame.thy ===== *)
theory Github_Frame
  imports Github_Merge Github_Ci_Retry Github_Post_Merge Git_Remote
begin

text \<open>
  What every GitHub handler keeps. The handlers change the state in four ways only: the world
  moves on, the ledger creates a record or moves one along the table, the approval store
  creates a file, and an effect is asked for. The locales name these four as assumptions on a
  predicate and prove once that every handler keeps it; the components that state an
  invariant interpret them.
\<close>

section \<open>Handlers that only ask\<close>

lemma keeps_case_admission [pres_intros]:
  "(\<And>r. a = EXECUTE r \<Longrightarrow> keeps P (f r)) \<Longrightarrow> (\<And>r. a = STORED r \<Longrightarrow> keeps P (g r))
   \<Longrightarrow> keeps P (case a of EXECUTE r \<Rightarrow> f r | STORED r \<Rightarrow> g r)"
  by (cases a) simp_all

lemma keeps_case_gh_err [pres_intros]:
  "(\<And>a b c d. keeps P (f a b c d)) \<Longrightarrow> (\<And>t. keeps P (g t))
   \<Longrightarrow> keeps P (case e of Boundary a b c d \<Rightarrow> f a b c d | Runtime t \<Rightarrow> g t)"
  by (cases e) simp_all

lemma keeps_case_verdict [pres_intros]:
  "keeps P a \<Longrightarrow> keeps P b \<Longrightarrow> keeps P c
   \<Longrightarrow> keeps P (case v of Reply_Ignored \<Rightarrow> a | Reply_Stale \<Rightarrow> b | Reply_Confirmed \<Rightarrow> c)"
  by (cases v) simp_all

lemma keeps_check_turn [pres_intros]: "ignores_world P \<Longrightarrow> keeps P (check_turn E r h n t cs)"
  unfolding check_turn_def by (intro pres_intros)

lemma keeps_check_pages [pres_intros]: "ignores_world P \<Longrightarrow> keeps P (check_pages E r h left n t cs)"
  by (induction left arbitrary: n t cs) (auto intro!: pres_intros)

lemma keeps_collectCheckRuns [pres_intros]: "ignores_world P \<Longrightarrow> keeps P (collectCheckRuns E t h)"
  unfolding collectCheckRuns_def by (intro pres_intros)

lemma keeps_status_turn [pres_intros]: "ignores_world P \<Longrightarrow> keeps P (status_turn E r h n cs)"
  unfolding status_turn_def by (intro pres_intros)

lemma keeps_status_pages [pres_intros]: "ignores_world P \<Longrightarrow> keeps P (status_pages E r h left n cs)"
  by (induction left arbitrary: n cs) (auto intro!: pres_intros)

lemma keeps_collectCommitStatuses [pres_intros]: "ignores_world P \<Longrightarrow> keeps P (collectCommitStatuses E t h)"
  unfolding collectCommitStatuses_def by (intro pres_intros)

lemma keeps_getExactCiEvidence [pres_intros]: "ignores_world P \<Longrightarrow> keeps P (getExactCiEvidence E t h)"
  unfolding getExactCiEvidence_def by (intro pres_intros)

lemma keeps_loadCiSnapshot [pres_intros]: "ignores_world P \<Longrightarrow> keeps P (loadCiSnapshot E i)"
  unfolding loadCiSnapshot_def by (intro pres_intros)

lemma keeps_retry_checks [pres_intros]: "ignores_world P \<Longrightarrow> keeps P (retry_checks E t i r n)"
  unfolding retry_checks_def assertSnapshotBinding_def assertTransientRetryEligible_def assertSameRun_def
  by (intro pres_intros)

lemma keeps_retry_evidence [pres_intros]: "ignores_world P \<Longrightarrow> keeps P (retry_evidence E t i r)"
  unfolding retry_evidence_def by (intro pres_intros)

lemma keeps_observeGate [pres_intros]:
  "ignores_world P \<Longrightarrow> (\<And>t h. keeps P (ci t h)) \<Longrightarrow> keeps P (observeGate E ci t h)"
  unfolding observeGate_def by (intro pres_intros)

lemma keeps_gate_pull_request [pres_intros]: "ignores_world P \<Longrightarrow> keeps P (gate_pull_request E t h)"
  unfolding gate_pull_request_def by (intro pres_intros)

lemma keeps_gate_threads [pres_intros]: "ignores_world P \<Longrightarrow> keeps P (gate_threads E t pr)"
  unfolding gate_threads_def by (intro pres_intros)

lemma keeps_gate_window [pres_intros]: "ignores_world P \<Longrightarrow> keeps P (gate_window E f)"
  unfolding gate_window_def by (intro pres_intros)

lemma keeps_evaluate [pres_intros]: "ignores_world P \<Longrightarrow> (\<And>t h. keeps P (ci t h)) \<Longrightarrow> keeps P (evaluate E ci t h r f)"
  unfolding evaluate_def by (intro pres_intros)

lemma keeps_loadAndRevalidate [pres_intros]:
  "ignores_world P \<Longrightarrow> (\<And>t h. keeps P (ci t h)) \<Longrightarrow> keeps P (loadAndRevalidateExactManifest E ci i d)"
  unfolding loadAndRevalidateExactManifest_def by (intro pres_intros)

lemma keeps_merge_admitted_checks [pres_intros]: "ignores_world P \<Longrightarrow> keeps P (merge_admitted_checks E i)"
  unfolding merge_admitted_checks_def by (intro pres_intros)

lemma keeps_merge_candidate [pres_intros]: "ignores_world P \<Longrightarrow> (\<And>t h. keeps P (ci t h)) \<Longrightarrow> keeps P (merge_candidate E ci t i)"
  unfolding merge_candidate_def assertManifestTaskBinding_def assertDraftMergeCandidate_def
  by (intro pres_intros)

lemma keeps_assertMerged [pres_intros]: "ignores_world P \<Longrightarrow> keeps P (assertMergedPullRequest m pr)"
  unfolding assertMergedPullRequest_def by (intro pres_intros)

lemma keeps_assertReady [pres_intros]: "ignores_world P \<Longrightarrow> keeps P (assertReadyMergeCandidate m pr)"
  unfolding assertReadyMergeCandidate_def by (intro pres_intros)

lemma keeps_assertTaskId [pres_intros]: "ignores_world P \<Longrightarrow> keeps P (assertTaskId t i)"
  unfolding assertTaskId_def by (intro pres_intros)

lemma keeps_pr_bindExactTask [pres_intros]: "ignores_world P \<Longrightarrow> keeps P (pr_bindExactTask E i c)"
  unfolding pr_bindExactTask_def by (intro pres_intros)

lemma keeps_assertRemoteHead [pres_intros]: "ignores_world P \<Longrightarrow> keeps P (assertRemoteHead E t h r)"
  unfolding assertRemoteHead_def by (intro pres_intros)

lemma keeps_storePrEvidence [pres_intros]: "ignores_world P \<Longrightarrow> keeps P (storePrEvidence E t pr n)"
  unfolding storePrEvidence_def by (intro pres_intros)

lemma keeps_observed_pull_request [pres_intros]: "ignores_world P \<Longrightarrow> keeps P (observed_pull_request E t h d)"
  unfolding observed_pull_request_def by (intro pres_intros)

lemma keeps_bindPullRequest [pres_intros]: "ignores_world P \<Longrightarrow> keeps P (bindPullRequest E i c)"
  unfolding bindPullRequest_def by (intro pres_intros)

lemma keeps_findExactThread [pres_intros]: "ignores_world P \<Longrightarrow> keeps P (findExactThread E t pr i)"
  unfolding findExactThread_def by (intro pres_intros)

lemma keeps_bound_writable_thread [pres_intros]: "ignores_world P \<Longrightarrow> keeps P (bound_writable_thread E t i d)"
  unfolding bound_writable_thread_def by (intro pres_intros)

lemma keeps_operation_evidence [pres_intros]: "ignores_world P \<Longrightarrow> keeps P (operation_evidence E r)"
  unfolding operation_evidence_def by (intro pres_intros)

lemma keeps_snapshot_loop [pres_intros]: "ignores_world P \<Longrightarrow> keeps P (snapshot_loop E h t rs found)"
  by (induction rs arbitrary: found) (auto intro!: pres_intros)

lemma keeps_reply_loop [pres_intros]: "ignores_world P \<Longrightarrow> keeps P (reply_loop E judge rs stale)"
  by (induction rs arbitrary: stale) (auto intro!: pres_intros)

lemma keeps_assertResolutionEvidence [pres_intros]: "ignores_world P \<Longrightarrow> keeps P (assertResolutionEvidence E t th h r)"
  unfolding assertResolutionEvidence_def by (intro pres_intros)

lemma keeps_storeResolveEvidence [pres_intros]: "ignores_world P \<Longrightarrow> keeps P (storeResolveEvidence E t pr th c)"
  unfolding storeResolveEvidence_def by (intro pres_intros)

lemma keeps_resolve_candidate [pres_intros]: "ignores_world P \<Longrightarrow> keeps P (resolve_candidate E t i)"
  unfolding resolve_candidate_def by (intro pres_intros)

lemma keeps_merge_receipt [pres_intros]: "ignores_world P \<Longrightarrow> keeps P (merge_receipt E t i)"
  unfolding merge_receipt_def by (intro pres_intros)

lemma keeps_base_contains [pres_intros]: "ignores_world P \<Longrightarrow> keeps P (base_contains E t m b)"
  unfolding base_contains_def by (intro pres_intros)

lemma keeps_observe_post_merge [pres_intros]:
  "ignores_world P \<Longrightarrow> (\<And>t h. keeps P (ci t h)) \<Longrightarrow> keeps P (observe_post_merge E ci t m r)"
  unfolding observe_post_merge_def by (intro pres_intros)

lemma keeps_local_relationship [pres_intros]: "ignores_world P \<Longrightarrow> keeps P (local_relationship E t r h)"
  unfolding local_relationship_def by (intro pres_intros)

lemma keeps_remoteRelationship [pres_intros]: "ignores_world P \<Longrightarrow> keeps P (remoteRelationship E t r h)"
  unfolding remoteRelationship_def by (intro pres_intros)

lemma keeps_exact_local [pres_intros]: "ignores_world P \<Longrightarrow> keeps P (exact_local E t h r c)"
  unfolding exact_local_def by (intro pres_intros)

lemma keeps_storePushEvidence [pres_intros]: "ignores_world P \<Longrightarrow> keeps P (storePushEvidence E t b a h p)"
  unfolding storePushEvidence_def by (intro pres_intros)

lemma keeps_push_checks [pres_intros]: "ignores_world P \<Longrightarrow> keeps P (push_checks E t h r)"
  unfolding push_checks_def by (intro pres_intros)

section \<open>Handlers that move the ledger\<close>

text \<open>
  The contract of a predicate with the ledger and the approval store: it ignores the world,
  it survives a file that was not there, a record that was not there, and a step of a stored
  record along the table.
\<close>

locale ledger_frame =
  fixes E :: "'w gh_env" and P :: "('w, 'z) gh_state_scheme \<Rightarrow> bool"
  assumes world: "ignores_world P"
    and files: "new_files_ok P"
    and created: "P s \<Longrightarrow> map_of (gs_ledger s) (operationPath E (g_operation_id r)) = None \<Longrightarrow> g_phase r = CREATED
      \<Longrightarrow> github_disk_schema (re_datetime (ge_rt E)) (sign_github E (new_disk r))
      \<Longrightarrow> P (store_github E (sign_github E (new_disk r)) s)"
    and moved: "P s \<Longrightarrow> map_of (gs_ledger s) (operationPath E (g_operation_id d)) = Some (Stored d)
      \<Longrightarrow> q \<in> set (github_transitions (g_phase d))
      \<Longrightarrow> github_disk_schema (re_datetime (ge_rt E)) (sign_github E (next_disk d q now v c))
      \<Longrightarrow> P (store_github E (sign_github E (next_disk d q now v c)) s)"

context ledger_frame
begin

lemma at_world: "P (s\<lparr>rt_world := w\<rparr>) = P s"
  by (rule ignores_worldD [OF world])

lemma of_create [pres_intros]:
  assumes "g_phase r = CREATED"
  shows "keeps P (ledger_create E r)"
proof -
  have "keeps P (bindE (ledger_read E (g_operation_id r)) (\<lambda>existing. case existing of
      Some d \<Rightarrow> ret (False, diskRecord d)
    | None \<Rightarrow> bindE (ledger_write E (new_disk r) True) (\<lambda>stored. ret (True, diskRecord stored))))"
    (is "keeps P ?m")
  proof (rule keeps_wpI)
    fix s assume s: "P s"
    have new: "wp (bindE (ledger_write E (new_disk r) True) (\<lambda>stored. ret (True, diskRecord stored)))
        (\<lambda>_. P) (\<lambda>_. P) (s\<lparr>rt_world := w\<rparr>)" for w
    proof -
      have stored: "P (store_github E (sign_github E (new_disk r)) (s\<lparr>rt_world := w, rt_world := w'\<rparr>))"
        if "map_of (gs_ledger s) (operationPath E (g_operation_id (new_disk r))) = None"
          "github_disk_schema (re_datetime (ge_rt E)) (sign_github E (new_disk r))" for w'
        using s assms that by (intro created) (simp_all add: at_world new_disk_def github_operation.defs)
      show ?thesis
        unfolding wp_bindE wp_ret_eta by (rule wp_ledger_write) (use stored in \<open>simp_all add: s at_world\<close>)
    qed
    show "wp ?m (\<lambda>_. P) (\<lambda>_. P) s"
      unfolding wp_bindE by (rule wp_ledger_read) (use new in \<open>simp_all add: wp_simps s at_world\<close>)
  qed
  then show ?thesis
    unfolding ledger_create_def by (intro keeps_bindE [OF keeps_ledger_initialize [OF world]] keeps_withLockG [OF world])
qed

lemma of_transition [pres_intros]: "keeps P (transition_github E cur q v c)"
proof (cases "q \<in> set (github_transitions (g_phase cur))")
  case False
  then show ?thesis
    by (simp add: transition_github_def keeps_def bindE_def throw_if_def throw_def)
next
  case True
  have "keeps P (ledger_transition E i b [g_phase cur] q now v' c')" for i b now v' c'
  proof -
    have "keeps P (bindE (ledger_read E i) (\<lambda>current_option. case current_option of
          None \<Rightarrow> throw (boundary ''OPERATION_NOT_FOUND'')
        | Some current \<Rightarrow> bindE (throw_if (g_binding_digest current \<noteq> b \<or> g_phase current \<notin> set [g_phase cur])
              (boundary ''OPERATION_TRANSITION_CONFLICT'')) (\<lambda>_.
            bindE (ledger_write E (next_disk current q now v' c') False) (\<lambda>stored. ret (diskRecord stored)))))"
      (is "keeps P ?m")
    proof (rule keeps_wpI)
      fix s assume s: "P s"
      have step: "wp (bindE (ledger_write E (next_disk d q now v' c') False) (\<lambda>stored. ret (diskRecord stored)))
          (\<lambda>_. P) (\<lambda>_. P) (s\<lparr>rt_world := w\<rparr>)"
        if d: "map_of (gs_ledger s) (operationPath E i) = Some (Stored d)"
          "operationPath E (g_operation_id d) = operationPath E i" "g_phase d = g_phase cur" for d w
      proof -
        have stored: "P (store_github E (sign_github E (next_disk d q now v' c')) (s\<lparr>rt_world := w, rt_world := w'\<rparr>))"
          if "github_disk_schema (re_datetime (ge_rt E)) (sign_github E (next_disk d q now v' c'))" for w'
          using s d True that by (intro moved) (simp_all add: at_world)
        show ?thesis
          unfolding wp_bindE wp_ret_eta by (rule wp_ledger_write) (use stored in \<open>simp_all add: s at_world\<close>)
      qed
      show "wp ?m (\<lambda>_. P) (\<lambda>_. P) s"
        unfolding wp_bindE by (rule wp_ledger_read) (use step in \<open>auto simp: wp_simps s at_world\<close>)
    qed
    then show ?thesis
      unfolding ledger_transition_def by (intro keeps_withLockG [OF world])
  qed
  then show ?thesis
    unfolding transition_github_def by (intro pres_intros world)
qed

lemma of_admit [pres_intros]: "keeps P (admit E q)"
  unfolding admit_def Let_def by (intro pres_intros world) (simp add: created_record_def)

lemma of_claim [pres_intros]: "keeps P (claim_approval E a i p)"
  by (intro pres_intros world files)

text \<open>The parts of the handlers that ask for no effect.\<close>

lemma of_fails [pres_intros]:
  "keeps P (fail_merge E r p e)" "keeps P (fail_pr E r p e)" "keeps P (fail_ci E r p e)" "keeps P (fail_post E r p e)"
  "keeps P (fail_review_with E r p v c e)" "keeps P (fail_review E r p e)" "keeps P (fail_remote_with E r p v c e)"
  "keeps P (fail_remote E r p e)" "keeps P (fail_pr_evidence E r kvs e)"
  unfolding fail_merge_def fail_pr_def fail_ci_def fail_post_def fail_review_def fail_review_with_def fail_remote_def
    fail_remote_with_def fail_pr_evidence_def by (intro pres_intros world)+

lemma of_claim_for_merge [pres_intros]: "keeps P (claim_for_merge E i r)"
  unfolding claim_for_merge_def by (intro pres_intros world files)

lemma of_completeKnownMerge [pres_intros]: "keeps P (completeKnownMerge E r t m a pr api b)"
  unfolding completeKnownMerge_def by (intro pres_intros world)

lemma of_merge_readback [pres_intros]: "keeps P (merge_readback E t i m r e b api)"
  unfolding merge_readback_def by (intro pres_intros world)

lemma of_merge_recover [pres_intros]: "keeps P (merge_recover E t i m r e b api)"
  unfolding merge_recover_def by (intro pres_intros world)

lemma of_finishes [pres_intros]:
  "keeps P (finish_pr E t r a pr kvs)" "keeps P (finish_push E t r b c h p kvs)" "keeps P (finish_reply E t r pr th cm)"
  "keeps P (finish_resolve E t r pr th ch kvs)"
  unfolding finish_pr_def finish_push_def finish_reply_def finish_resolve_def by (intro pres_intros world)+

lemma of_reconcile_pr [pres_intros]: "keeps P (reconcileUnknownPrWrite E t r h c a)"
  unfolding reconcileUnknownPrWrite_def by (intro pres_intros world)

lemma of_reconcile_push [pres_intros]: "keeps P (reconcilePushFailure E t r b h tr)"
  unfolding reconcilePushFailure_def by (intro pres_intros world)

lemma of_push_readback [pres_intros]: "keeps P (push_readback E t r h tr)"
  unfolding push_readback_def by (intro pres_intros world)

lemma of_retry_once [pres_intros]: "keeps P (retry_once E t r)"
  unfolding retry_once_def by (intro pres_intros world)

lemma of_retry_prepare [pres_intros]: "keeps P (retry_prepare E t i r n p)"
  unfolding retry_prepare_def by (intro pres_intros world)

lemma of_retry_reconcile [pres_intros]: "keeps P (retry_reconcile E t i r n b ev p)"
  unfolding retry_reconcile_def by (intro pres_intros world)

lemma of_resolve_readback [pres_intros]: "keeps P (resolve_readback E t r pr b)"
  unfolding resolve_readback_def by (intro pres_intros world)

lemma of_resolve_recover [pres_intros]: "keeps P (resolve_recover E t r pr b e receipt)"
  unfolding resolve_recover_def by (intro pres_intros world)

text \<open>The handlers that ask for no effect.\<close>

lemma of_create_approval: "keeps P (create_approval E i ttl)"
  by (intro pres_intros world files)

lemma of_prStatus: "keeps P (prStatus E i)"
  unfolding prStatus_def by (intro pres_intros world)

lemma of_ciStatus: "keeps P (ciStatus E i)"
  unfolding ciStatus_def by (intro pres_intros world)

lemma of_remoteStatus: "keeps P (remoteStatus E i)"
  unfolding remoteStatus_def observe_remote_def by (intro pres_intros world)

lemma of_prReviewThreads: "keeps P (prReviewThreads E i)"
  unfolding prReviewThreads_def read_review_page_def by (intro pres_intros world)

lemma of_mergeGatePrepare: "(\<And>t h. keeps P (ci t h)) \<Longrightarrow> keeps P (mergeGatePrepare E ci i)"
  unfolding mergeGatePrepare_def gate_blocked_def gate_eligible_def by (intro pres_intros world)

lemma of_postMergeReadback: "(\<And>t h. keeps P (ci t h)) \<Longrightarrow> keeps P (postMergeReadback E ci i)"
  unfolding postMergeReadback_def post_merge_execute_def complete_readback_def by (intro pres_intros world)

end

end
