(* ===== verification/Github_Evolution.thy ===== *)
theory Github_Evolution
  imports Github_Frame
begin

text \<open>
  Sequences of GitHub requests. The locales extend the contract of Github_Frame by the effects
  that are asked for, prove every handler once more, and are interpreted on the evolution of
  the ledger: records keep their identity and move along the table of
  src/github/operation-controller.ts, one revision per move.
\<close>

section \<open>Handlers that ask for effects\<close>

definition asked :: "effect_call \<Rightarrow> ('w, 'z) gh_state_scheme \<Rightarrow> ('w, 'z) gh_state_scheme" where
  "asked c s = s\<lparr>gs_calls := gs_calls s @ [c]\<rparr>"

fun is_merge :: "effect_call \<Rightarrow> bool" where
  "is_merge (Call_Merge _ _ _ _) = True"
| "is_merge _ = False"

locale effect_frame = ledger_frame E P
  for E :: "'w gh_env" and P :: "('w, 'z) gh_state_scheme \<Rightarrow> bool" +
  assumes asks: "P s \<Longrightarrow> \<not> is_merge c \<Longrightarrow> P (asked c s)"

context effect_frame
begin

lemma of_effect [pres_intros]: "\<not> is_merge c \<Longrightarrow> keeps P (effectG c f)"
  unfolding effectG_def
  by (intro keeps_bindE keeps_askG world) (simp add: keeps_def modifyE_def asks [unfolded asked_def])

lemma of_push_execute [pres_intros]: "keeps P (push_execute E t i h r p)"
  unfolding push_execute_def by (intro pres_intros world) simp_all

lemma of_writePush: "keeps P (writePush E i)"
  unfolding writePush_def by (intro pres_intros world)

lemma of_ask_pr_write [pres_intros]: "keeps P (ask_pr_write E t e c)"
  unfolding ask_pr_write_def by (intro pres_intros world) simp_all

lemma of_write_pr [pres_intros]: "keeps P (write_pr E t r h c e)"
  unfolding write_pr_def by (intro pres_intros world)

lemma of_execute_pr [pres_intros]: "keeps P (execute_pr E t i c r)"
  unfolding execute_pr_def by (intro pres_intros world)

lemma of_prCreateOrUpdate: "keeps P (prCreateOrUpdate E i)"
  unfolding prCreateOrUpdate_def by (intro pres_intros world)

lemma of_reply_execute [pres_intros]: "keeps P (reply_execute E t i b r)"
  unfolding reply_execute_def ask_reply_def by (intro pres_intros world) simp_all

lemma of_writePrReply: "keeps P (writePrReply E i)"
  unfolding writePrReply_def by (intro pres_intros world)

lemma of_resolve_execute [pres_intros]: "keeps P (resolve_execute E t i r)"
  unfolding resolve_execute_def resolve_attempt_def by (intro pres_intros world) simp_all

lemma of_writePrResolveThread: "keeps P (writePrResolveThread E i)"
  unfolding writePrResolveThread_def by (intro pres_intros world)

lemma of_retry_execute [pres_intros]: "keeps P (retry_execute E t i r n p)"
  unfolding retry_execute_def retry_contact_def retry_attempt_def by (intro pres_intros world) simp_all

lemma of_writeCiRetryFailed: "keeps P (writeCiRetryFailed E i)"
  unfolding writeCiRetryFailed_def writeCiRetryFailedLocked_def by (intro pres_intros world)

end

locale merge_frame = effect_frame E P
  for E :: "'w gh_env" and P :: "('w, 'z) gh_state_scheme \<Rightarrow> bool" +
  assumes asks_merge: "P s \<Longrightarrow> is_merge c \<Longrightarrow> P (asked c s)"

context merge_frame
begin

lemma of_any_effect [pres_intros]: "keeps P (effectG c f)"
  unfolding effectG_def using asks [of _ c] asks_merge [of _ c]
  by (intro keeps_bindE keeps_askG world) (auto simp: keeps_def modifyE_def asked_def)

lemma of_merge_execute [pres_intros]: "(\<And>t h. keeps P (ci t h)) \<Longrightarrow> keeps P (merge_execute E ci t i r)"
  unfolding merge_execute_def merge_attempt_def by (intro pres_intros world files)

lemma of_writeMerge: "(\<And>t h. keeps P (ci t h)) \<Longrightarrow> keeps P (writeMerge E ci i)"
  unfolding writeMerge_def by (intro pres_intros world)

end

section \<open>Sequences of requests\<close>

datatype github_request =
    GReq_Remote_Status exact_task_input
  | GReq_Push exact_task_input
  | GReq_Pr_Status exact_task_input
  | GReq_Pr_Write pr_write_input
  | GReq_Threads review_threads_input
  | GReq_Reply review_reply_input
  | GReq_Resolve review_resolve_input
  | GReq_Ci_Status exact_task_input
  | GReq_Ci_Retry ci_retry_input
  | GReq_Gate exact_task_input
  | GReq_Approve gate_ref int
  | GReq_Merge merge_input
  | GReq_Post_Merge post_merge_input

text \<open>The services as they are composed: the CI service is the reader of CI evidence.\<close>

fun handle_github :: "'w gh_env \<Rightarrow> github_request \<Rightarrow> ('w, 'z) gh_state_scheme \<Rightarrow> ('w, 'z) gh_state_scheme" where
  "handle_github E (GReq_Remote_Status i) s = snd (remoteStatus E i s)"
| "handle_github E (GReq_Push i) s = snd (writePush E i s)"
| "handle_github E (GReq_Pr_Status i) s = snd (prStatus E i s)"
| "handle_github E (GReq_Pr_Write i) s = snd (prCreateOrUpdate E i s)"
| "handle_github E (GReq_Threads i) s = snd (prReviewThreads E i s)"
| "handle_github E (GReq_Reply i) s = snd (writePrReply E i s)"
| "handle_github E (GReq_Resolve i) s = snd (writePrResolveThread E i s)"
| "handle_github E (GReq_Ci_Status i) s = snd (ciStatus E i s)"
| "handle_github E (GReq_Ci_Retry i) s = snd (writeCiRetryFailed E i s)"
| "handle_github E (GReq_Gate i) s = snd (mergeGatePrepare E (getExactCiEvidence E) i s)"
| "handle_github E (GReq_Approve g ttl) s = snd (create_approval E g ttl s)"
| "handle_github E (GReq_Merge i) s = snd (writeMerge E (getExactCiEvidence E) i s)"
| "handle_github E (GReq_Post_Merge i) s = snd (postMergeReadback E (getExactCiEvidence E) i s)"

definition serve_github ::
  "'w gh_env \<Rightarrow> github_request list \<Rightarrow> ('w, 'z) gh_state_scheme \<Rightarrow> ('w, 'z) gh_state_scheme" where
  "serve_github E requests s = fold (handle_github E) requests s"

lemma serve_github_invariant:
  assumes "\<And>q t. P t \<Longrightarrow> P (handle_github E q t)" "P s"
  shows "P (serve_github E requests s)"
  using assms(2) unfolding serve_github_def by (induction requests arbitrary: s) (simp_all add: assms(1))

context effect_frame
begin

lemma of_handle:
  assumes merge: "\<And>i. keeps P (writeMerge E (getExactCiEvidence E) i)" and s: "P s"
  shows "P (handle_github E q s)"
proof -
  have ci: "keeps P (getExactCiEvidence E t h)" for t h
    by (intro pres_intros world)
  note handlers = of_remoteStatus of_writePush of_prStatus of_prCreateOrUpdate of_prReviewThreads of_writePrReply
    of_writePrResolveThread of_ciStatus of_writeCiRetryFailed of_mergeGatePrepare [OF ci] of_create_approval merge
    of_postMergeReadback [OF ci]
  show ?thesis
    by (cases q) (simp_all add: handlers [THEN keepsD, OF s])
qed

end

context merge_frame
begin

lemma of_serve: "P s \<Longrightarrow> P (serve_github E requests s)"
  by (rule serve_github_invariant)
    (intro of_handle of_writeMerge keeps_getExactCiEvidence world, assumption+)

end

section \<open>The ledger only moves forward\<close>

definition github_follows :: "github_disk \<Rightarrow> github_disk \<Rightarrow> bool" where
  "github_follows p q \<longleftrightarrow>
     g_operation_id q = g_operation_id p \<and> g_semantic q = g_semantic p \<and> g_repo_id q = g_repo_id p
   \<and> g_task_id q = g_task_id p \<and> g_subject_digest q = g_subject_digest p \<and> g_binding_digest q = g_binding_digest p
   \<and> g_created_at q = g_created_at p
   \<and> (\<exists>phases. github_table.path (g_phase p) phases (g_phase q) \<and> g_revision q = g_revision p + length phases)"

lemma path_snoc: "github_table.path p qs r \<Longrightarrow> q \<in> set (github_transitions r) \<Longrightarrow> github_table.path p (qs @ [q]) q"
  by (induction rule: github_table.path.induct) (auto intro: github_table.path.intros)

lemma github_follows_refl: "github_follows p p"
  by (auto simp: github_follows_def intro: github_table.path_nil exI [of _ "[]"])

lemma github_follows_next:
  assumes "github_follows p d" "q \<in> set (github_transitions (g_phase d))"
  shows "github_follows p (sign_github E (next_disk d q now v c))"
proof -
  obtain phases where "github_table.path (g_phase p) phases (g_phase d)" "g_revision d = g_revision p + length phases"
    using assms(1) by (auto simp: github_follows_def)
  then have "github_table.path (g_phase p) (phases @ [q]) q" "g_revision d + 1 = g_revision p + length (phases @ [q])"
    using path_snoc assms(2) by auto
  with assms(1) show ?thesis
    unfolding github_follows_def by (auto simp: sign_github_def next_disk_def intro!: exI [of _ "phases @ [q]"])
qed

definition ledger_evolves :: "('w, 'z) gh_state_scheme \<Rightarrow> ('w, 'z) gh_state_scheme \<Rightarrow> bool" where
  "ledger_evolves s t \<longleftrightarrow> (\<forall>key p. map_of (gs_ledger s) key = Some (Stored p) \<longrightarrow>
     (\<exists>q. map_of (gs_ledger t) key = Some (Stored q) \<and> github_follows p q))"

lemma store_github_ledger [simp]:
  "map_of (gs_ledger (store_github E r s)) = (map_of (gs_ledger s))(operationPath E (g_operation_id r) \<mapsto> Stored r)"
  by (simp add: store_github_def)

lemma sign_github_id [simp]: "g_operation_id (sign_github E r) = g_operation_id r"
  by (simp add: sign_github_def)

lemma next_disk_id [simp]: "g_operation_id (next_disk d q now v c) = g_operation_id d"
  by (simp add: next_disk_def)

lemma new_disk_id [simp]: "g_operation_id (new_disk r) = g_operation_id r"
  by (simp add: new_disk_def github_operation.defs)

interpretation evolution: merge_frame E "ledger_evolves (s :: ('w, 'z) gh_state_scheme)" for E :: "'w gh_env" and s
proof
  show "ignores_world (ledger_evolves s)" "new_files_ok (ledger_evolves s)"
    by (simp_all add: ignores_world_def new_files_ok_def ledger_evolves_def put_approval_def)
next
  fix t :: "('w, 'z) gh_state_scheme" and r :: github_operation
  assume "ledger_evolves s t" "map_of (gs_ledger t) (operationPath E (g_operation_id r)) = None"
  then show "ledger_evolves s (store_github E (sign_github E (new_disk r)) t)"
    by (force simp: ledger_evolves_def)
next
  fix t :: "('w, 'z) gh_state_scheme" and d :: github_disk and q now v c
  assume t: "ledger_evolves s t" "map_of (gs_ledger t) (operationPath E (g_operation_id d)) = Some (Stored d)"
    "q \<in> set (github_transitions (g_phase d))"
  show "ledger_evolves s (store_github E (sign_github E (next_disk d q now v c)) t)"
    unfolding ledger_evolves_def
  proof (intro allI impI)
    fix key p assume "map_of (gs_ledger s) key = Some (Stored p)"
    with t(1) obtain u where "map_of (gs_ledger t) key = Some (Stored u)" "github_follows p u"
      unfolding ledger_evolves_def by blast
    with t(2,3) github_follows_next [of p d q E now v c]
    show "\<exists>u. map_of (gs_ledger (store_github E (sign_github E (next_disk d q now v c)) t)) key = Some (Stored u)
        \<and> github_follows p u"
      by auto
  qed
qed (simp_all add: ledger_evolves_def asked_def)

section \<open>Every record written is well formed\<close>

definition valid_github_file :: "'w gh_env \<Rightarrow> string \<Rightarrow> github_disk disk_file \<Rightarrow> bool" where
  "valid_github_file E key f = (case f of Malformed \<Rightarrow> True
     | Stored d \<Rightarrow> key = operationPath E (g_operation_id d) \<and> github_disk_schema (re_datetime (ge_rt E)) d
         \<and> g_state_sha256 d = github_digest E d)"

definition valid_ledger :: "'w gh_env \<Rightarrow> ('w, 'z) gh_state_scheme \<Rightarrow> bool" where
  "valid_ledger E s \<longleftrightarrow> list_all (\<lambda>(key, f). valid_github_file E key f) (gs_ledger s)"

lemma github_digest_signed [simp]: "github_digest E (sign_github E d) = github_digest E d"
  by (simp add: github_digest_def sign_github_def github_members_def)

lemma valid_ledger_store:
  assumes "valid_ledger E s" "github_disk_schema (re_datetime (ge_rt E)) (sign_github E d)"
  shows "valid_ledger E (store_github E (sign_github E d) s)"
proof -
  have "g_state_sha256 (sign_github E d) = github_digest E d"
    by (simp add: sign_github_def)
  with assms show ?thesis
    unfolding valid_ledger_def store_github_def
    by (simp, intro put_file_all) (simp_all add: valid_github_file_def)
qed

interpretation validity: merge_frame E "valid_ledger E :: ('w, 'z) gh_state_scheme \<Rightarrow> bool" for E :: "'w gh_env"
  by standard (simp_all add: valid_ledger_store, simp_all add: valid_ledger_def ignores_world_def new_files_ok_def
    put_approval_def asked_def)

section \<open>The ledger as a register of phases\<close>

text \<open>
  The abstract machine: a register maps keys to phases; a step enters a key that has no phase
  at \<open>CREATED\<close>, or moves a phase along the table.
\<close>

inductive register_step :: "(string \<rightharpoonup> op_phase) \<Rightarrow> (string \<rightharpoonup> op_phase) \<Rightarrow> bool" where
  register_enter: "m k = None \<Longrightarrow> register_step m (m(k \<mapsto> CREATED))"
| register_move: "m k = Some p \<Longrightarrow> q \<in> set (github_transitions p) \<Longrightarrow> register_step m (m(k \<mapsto> q))"

inductive_cases register_stepE: "register_step m n"

definition register_of :: "('w, 'z) gh_state_scheme \<Rightarrow> string \<rightharpoonup> op_phase" where
  "register_of s = (\<lambda>k. case map_of (gs_ledger s) k of Some (Stored d) \<Rightarrow> Some (g_phase d) | _ \<Rightarrow> None)"

lemma register_of_simps [simp]:
  "register_of (s\<lparr>rt_world := w\<rparr>) = register_of s"
  "register_of (put_approval name bytes s) = register_of s"
  "register_of (asked c s) = register_of s"
  "register_of (store_github E d s) = (register_of s)(operationPath E (g_operation_id d) \<mapsto> g_phase d)"
  by (auto simp: register_of_def put_approval_def asked_def fun_eq_iff)

lemma register_of_key:
  "map_of (gs_ledger s) k = None \<Longrightarrow> register_of s k = None"
  "map_of (gs_ledger s) k = Some (Stored d) \<Longrightarrow> register_of s k = Some (g_phase d)"
  by (simp_all add: register_of_def)

lemma phase_of_write [simp]:
  "g_phase (sign_github E d) = g_phase d" "g_phase (new_disk r) = g_phase r" "g_phase (next_disk d q now v c) = q"
  by (simp_all add: sign_github_def new_disk_def next_disk_def github_operation.defs)

interpretation register: merge_frame E "\<lambda>t :: ('w, 'z) gh_state_scheme. register_step\<^sup>*\<^sup>* m (register_of t)"
  for E :: "'w gh_env" and m
proof
  fix s :: "('w, 'z) gh_state_scheme" and r :: github_operation
  assume "register_step\<^sup>*\<^sup>* m (register_of s)" "map_of (gs_ledger s) (operationPath E (g_operation_id r)) = None" "g_phase r = CREATED"
  then show "register_step\<^sup>*\<^sup>* m (register_of (store_github E (sign_github E (new_disk r)) s))"
    using register_enter [of "register_of s" "operationPath E (g_operation_id r)"]
    by (simp add: register_of_key rtranclp.rtrancl_into_rtrancl)
next
  fix s :: "('w, 'z) gh_state_scheme" and d :: github_disk and q now v c
  assume "register_step\<^sup>*\<^sup>* m (register_of s)" "map_of (gs_ledger s) (operationPath E (g_operation_id d)) = Some (Stored d)"
    "q \<in> set (github_transitions (g_phase d))"
  then show "register_step\<^sup>*\<^sup>* m (register_of (store_github E (sign_github E (next_disk d q now v c)) s))"
    using register_move [of "register_of s" "operationPath E (g_operation_id d)" "g_phase d" q]
    by (simp add: register_of_key rtranclp.rtrancl_into_rtrancl)
qed (simp_all add: ignores_world_def new_files_ok_def)

text \<open>What the register promises by itself: a settled phase is final.\<close>

lemma register_settled:
  "register_step\<^sup>*\<^sup>* m n \<Longrightarrow> m k = Some p \<Longrightarrow> settled_github p \<Longrightarrow> n k = Some p"
proof (induction rule: rtranclp_induct)
  case (step n n')
  from step.hyps(2) show ?case
    by (rule register_stepE) (use step.IH step.prems github_table.settled_final in \<open>auto split: if_splits\<close>)
qed simp

end
