(* ===== verification/Github_Once.thy ===== *)
theory Github_Once
  imports Github_Evolution
begin

text \<open>
  External effects are asked for at most once. \<open>emits p K m\<close> is a calculus on handlers: whatever
  happens, \<open>m\<close> asks for effects of operation \<open>p\<close> only, each of a kind in \<open>K\<close> and no kind twice.
  Sequencing and exception handling compose it when the kinds are disjoint. \<open>asks_once\<close> adds that
  a handler that asks for anything found no record of its operation and leaves one.
\<close>

section \<open>Kinds of effects\<close>

datatype effect_kind = Kind_Push | Kind_Create | Kind_Update | Kind_Ready | Kind_Merge | Kind_Reply | Kind_Resolve | Kind_Retry

fun call_kind :: "effect_call \<Rightarrow> effect_kind" where
  "call_kind (Call_Push _) = Kind_Push"
| "call_kind (Call_Create_Pr _) = Kind_Create"
| "call_kind (Call_Update_Pr _ _) = Kind_Update"
| "call_kind (Call_Ready _) = Kind_Ready"
| "call_kind (Call_Merge _ _ _ _) = Kind_Merge"
| "call_kind (Call_Reply _) = Kind_Reply"
| "call_kind (Call_Resolve _) = Kind_Resolve"
| "call_kind (Call_Retry _ _) = Kind_Retry"

definition asks_of :: "string \<Rightarrow> effect_kind set \<Rightarrow> effect_call list \<Rightarrow> bool" where
  "asks_of p K es \<longleftrightarrow> distinct (map call_kind es) \<and> (\<forall>c\<in>set es. call_kind c \<in> K \<and> effect_operation c = p)"

lemma asks_of_Nil [simp]: "asks_of p K []"
  by (simp add: asks_of_def)

lemma asks_of_append:
  assumes "asks_of p K es" "asks_of p L fs" "K \<inter> L = {}"
  shows "asks_of p (K \<union> L) (es @ fs)"
  using assms unfolding asks_of_def by (auto simp: image_iff)

lemma asks_of_mono: "asks_of p K es \<Longrightarrow> K \<subseteq> L \<Longrightarrow> asks_of p L es"
  unfolding asks_of_def by blast

section \<open>The calculus\<close>

definition emits :: "string \<Rightarrow> effect_kind set \<Rightarrow> ('e, ('w, 'z) gh_state_scheme, 'a) eff \<Rightarrow> bool" where
  "emits p K m \<longleftrightarrow> (\<forall>s. \<exists>es. gs_calls (snd (m s)) = gs_calls s @ es \<and> asks_of p K es)"

definition silent :: "('e, ('w, 'z) gh_state_scheme, 'a) eff \<Rightarrow> bool" where
  "silent m \<longleftrightarrow> (\<forall>s. gs_calls (snd (m s)) = gs_calls s)"

named_theorems emit_intros "introduction rules of the calculus of effects"

lemma silentI: "(\<And>cs. keeps (\<lambda>s. gs_calls s = cs) m) \<Longrightarrow> silent m"
  by (simp add: silent_def keeps_def)

lemma emits_silent: "silent m \<Longrightarrow> emits p K m"
  by (auto simp: silent_def emits_def intro: exI [of _ "[]"])

lemma emits_mono: "emits p K m \<Longrightarrow> K \<subseteq> L \<Longrightarrow> emits p L m"
  unfolding emits_def using asks_of_mono by blast

lemma emits_bindE:
  assumes m: "emits p K m" and f: "\<And>x. emits p L (f x)" and "K \<inter> L = {}" "K \<union> L \<subseteq> M"
  shows "emits p M (bindE m f)"
  unfolding emits_def
proof
  fix s
  obtain r u where run: "m s = (r, u)"
    by (cases "m s")
  with m obtain es where es: "gs_calls u = gs_calls s @ es" "asks_of p K es"
    unfolding emits_def by (metis snd_conv)
  show "\<exists>fs. gs_calls (snd (bindE m f s)) = gs_calls s @ fs \<and> asks_of p M fs"
  proof (cases r)
    case (Inl e)
    with run es assms(4) show ?thesis
      by (auto simp: bindE_def intro!: exI [of _ es] intro: asks_of_mono)
  next
    case (Inr x)
    obtain fs where "gs_calls (snd (f x u)) = gs_calls u @ fs" "asks_of p L fs"
      using f [of x] unfolding emits_def by blast
    with run es Inr assms(4) asks_of_append [OF es(2) _ assms(3)] show ?thesis
      by (auto simp: bindE_def intro!: exI [of _ "es @ fs"] intro: asks_of_mono)
  qed
qed

lemma emits_catchE:
  assumes m: "emits p K m" and h: "\<And>e. emits p L (h e)" and "K \<inter> L = {}" "K \<union> L \<subseteq> M"
  shows "emits p M (catchE m h)"
  unfolding emits_def
proof
  fix s
  obtain r u where run: "m s = (r, u)"
    by (cases "m s")
  with m obtain es where es: "gs_calls u = gs_calls s @ es" "asks_of p K es"
    unfolding emits_def by (metis snd_conv)
  show "\<exists>fs. gs_calls (snd (catchE m h s)) = gs_calls s @ fs \<and> asks_of p M fs"
  proof (cases r)
    case (Inr x)
    with run es assms(4) show ?thesis
      by (auto simp: catchE_def intro!: exI [of _ es] intro: asks_of_mono)
  next
    case (Inl e)
    obtain fs where "gs_calls (snd (h e u)) = gs_calls u @ fs" "asks_of p L fs"
      using h [of e] unfolding emits_def by blast
    with run es Inl assms(4) asks_of_append [OF es(2) _ assms(3)] show ?thesis
      by (auto simp: catchE_def intro!: exI [of _ "es @ fs"] intro: asks_of_mono)
  qed
qed

lemma emits_after [emit_intros]: "silent m \<Longrightarrow> (\<And>x. emits p K (f x)) \<Longrightarrow> emits p K (bindE m f)"
  by (rule emits_bindE [OF emits_silent [of _ _ "{}"]]) auto

lemma emits_then [emit_intros]: "emits p K m \<Longrightarrow> (\<And>x. silent (f x)) \<Longrightarrow> emits p K (bindE m f)"
  by (rule emits_bindE [OF _ emits_silent [of _ _ "{}"]]) auto

lemma emits_recover [emit_intros]: "emits p K m \<Longrightarrow> (\<And>e. silent (h e)) \<Longrightarrow> emits p K (catchE m h)"
  by (rule emits_catchE [OF _ emits_silent [of _ _ "{}"]]) auto

lemma emits_tagE [emit_intros]: "emits p K m \<Longrightarrow> emits p K (tagE l m)"
proof -
  have "snd (tagE l m s) = snd (m s)" for s
    by (simp add: tagE_def split: prod.split sum.split)
  then show "emits p K m \<Longrightarrow> emits p K (tagE l m)"
    by (simp add: emits_def)
qed

lemma emits_if [emit_intros]: "emits p K m \<Longrightarrow> emits p K n \<Longrightarrow> emits p K (if b then m else n)"
  by simp

lemma emits_case_option [emit_intros]:
  "emits p K m \<Longrightarrow> (\<And>y. emits p K (f y)) \<Longrightarrow> emits p K (case x of None \<Rightarrow> m | Some y \<Rightarrow> f y)"
  by (cases x) simp_all

lemma emits_case_prod [emit_intros]: "(\<And>a b. emits p K (f a b)) \<Longrightarrow> emits p K (case x of (a, b) \<Rightarrow> f a b)"
  by (cases x) simp

lemma emits_case_sum [emit_intros]:
  "(\<And>a. emits p K (f a)) \<Longrightarrow> (\<And>b. emits p K (g b)) \<Longrightarrow> emits p K (case x of Inl a \<Rightarrow> f a | Inr b \<Rightarrow> g b)"
  by (cases x) simp_all

lemma emits_effect: "effect_operation c = p \<Longrightarrow> call_kind c \<in> K \<Longrightarrow> emits p K (effectG c f)"
  by (auto simp: emits_def asks_of_def effectG_def bindE_def modifyE_def askG_def split: prod.split)

section \<open>The handlers\<close>

interpretation silent: ledger_frame E "\<lambda>s :: ('w, 'z) gh_state_scheme. gs_calls s = cs" for E :: "'w gh_env" and cs
  by standard (simp_all add: ignores_world_def new_files_ok_def put_approval_def store_github_def)

lemma world_silent: "ignores_world (\<lambda>s :: ('w, 'z) gh_state_scheme. gs_calls s = cs)"
  by (simp add: ignores_world_def)

lemma silent_ci: "keeps (\<lambda>s :: ('w, 'z) gh_state_scheme. gs_calls s = cs) (getExactCiEvidence E t h)"
  by (intro pres_intros world_silent)

lemmas silent_facts = silent.of_transition silent.of_fails silent.of_finishes silent.of_reconcile_push
  silent.of_push_readback silent.of_reconcile_pr silent.of_retry_once silent.of_retry_prepare silent.of_retry_reconcile
  silent.of_resolve_recover silent.of_claim_for_merge silent.of_completeKnownMerge silent.of_merge_recover
  silent_ci world_silent

lemma emits_push: "emits (xi_operation_id i) {Kind_Push} (push_execute E t i h r p)"
  unfolding push_execute_def
  by (intro emit_intros emits_effect silentI emits_silent pres_intros silent_facts) simp_all

lemma emits_ask_pr: "emits (pc_operation_id c) {Kind_Create, Kind_Update} (ask_pr_write E t e c)"
  unfolding ask_pr_write_def by (intro emit_intros emits_effect) simp_all

lemma emits_write_pr: "emits (pc_operation_id c) {Kind_Create, Kind_Update} (write_pr E t r h c e)"
  unfolding write_pr_def Let_def
  by (intro emits_then emits_recover emits_ask_pr silentI pres_intros silent_facts)

lemma emits_pr: "emits (pc_operation_id c) {Kind_Create, Kind_Update} (execute_pr E t i c r)"
  unfolding execute_pr_def
  by (intro emits_after emits_case_option emits_if emits_write_pr emits_silent silentI pres_intros silent_facts)

lemma emits_reply: "emits (xi_operation_id i) {Kind_Reply} (reply_execute E t i b r)"
  unfolding reply_execute_def ask_reply_def
  by (intro emit_intros emits_effect silentI emits_silent pres_intros silent_facts) simp_all

lemma emits_resolve: "emits (xi_operation_id i) {Kind_Resolve} (resolve_execute E t i r)"
  unfolding resolve_execute_def resolve_attempt_def
  by (intro emit_intros emits_effect silentI emits_silent pres_intros silent_facts) simp_all

lemma emits_retry: "emits (xi_operation_id i) {Kind_Retry} (retry_execute E t i r n p)"
  unfolding retry_execute_def retry_contact_def retry_attempt_def
  by (intro emit_intros emits_effect silentI emits_silent pres_intros silent_facts) simp_all

lemma emits_merge_attempt: "emits (xi_operation_id i) {Kind_Ready, Kind_Merge} (merge_attempt E t i m r)"
proof -
  have ready: "emits (xi_operation_id i) {Kind_Ready} (tagE l (bindE (effectG (Call_Ready (xi_operation_id i)) f)
      (\<lambda>ready. assertReadyMergeCandidate m ready)))" for l f
    by (intro emits_tagE emits_then emits_effect silentI pres_intros world_silent) simp_all
  have merge: "emits (xi_operation_id i) {Kind_Merge} (bindE (tagE l (effectG (Call_Merge (xi_operation_id i) n h k) f))
      (\<lambda>api. tagE (g api) (bindE (throw_if (\<not> ma_merged api) e) (\<lambda>_. bindE (askG q) (\<lambda>merged.
        completeKnownMerge E r t m a merged (Some api) False)))))" for l n h k f g e q a
    by (intro emits_tagE emits_then emits_effect silentI pres_intros silent_facts) simp_all
  show ?thesis
    unfolding merge_attempt_def by (rule emits_bindE [OF ready merge]) auto
qed

lemma emits_merge: "emits (xi_operation_id i) {Kind_Ready, Kind_Merge} (merge_execute E (getExactCiEvidence E) t i r)"
  unfolding merge_execute_def
  by (intro emits_after emits_recover emits_merge_attempt emits_case_prod silentI pres_intros silent_facts)

section \<open>A handler finds no record and leaves one\<close>

definition recorded :: "'w gh_env \<Rightarrow> string \<Rightarrow> ('w, 'z) gh_state_scheme \<Rightarrow> bool" where
  "recorded E p s \<longleftrightarrow> map_of (gs_ledger s) (operationPath E p) \<noteq> None"

definition quiet :: "('e, ('w, 'z) gh_state_scheme, 'a) eff \<Rightarrow> bool" where
  "quiet m \<longleftrightarrow> (\<forall>s. gs_calls (snd (m s)) = gs_calls s \<and> gs_ledger (snd (m s)) = gs_ledger s)"

definition asks_once ::
  "'w gh_env \<Rightarrow> string \<Rightarrow> effect_kind set \<Rightarrow> ('e, ('w, 'z) gh_state_scheme, 'a) eff \<Rightarrow> bool" where
  "asks_once E p K m \<longleftrightarrow> (\<forall>s. \<exists>es. gs_calls (snd (m s)) = gs_calls s @ es \<and> asks_of p K es
     \<and> (es \<noteq> [] \<longrightarrow> \<not> recorded E p s \<and> recorded E p (snd (m s))))"

named_theorems once_intros "introduction rules for handlers that ask once"

interpretation presence: merge_frame E "recorded E' p :: ('w, 'z) gh_state_scheme \<Rightarrow> bool"
  for E :: "'w gh_env" and E' :: "'w gh_env" and p
  by standard (auto simp: recorded_def ignores_world_def new_files_ok_def put_approval_def asked_def)

lemma quietI: "(\<And>cs l. keeps (\<lambda>s. gs_calls s = cs \<and> gs_ledger s = l) m) \<Longrightarrow> quiet m"
  by (simp add: quiet_def keeps_def)

lemma world_quiet: "ignores_world (\<lambda>s :: ('w, 'z) gh_state_scheme. gs_calls s = cs \<and> gs_ledger s = l)"
  by (simp add: ignores_world_def)

lemma asks_once_silent: "silent m \<Longrightarrow> asks_once E p K m"
  by (auto simp: silent_def asks_once_def intro: exI [of _ "[]"])

lemma asks_once_after [once_intros]: "quiet m \<Longrightarrow> (\<And>x. asks_once E p K (f x)) \<Longrightarrow> asks_once E p K (bindE m f)"
  unfolding asks_once_def
proof (rule allI)
  fix s
  assume m: "quiet m" and f: "\<And>x. \<forall>s. \<exists>es. gs_calls (snd (f x s)) = gs_calls s @ es \<and> asks_of p K es
     \<and> (es \<noteq> [] \<longrightarrow> \<not> recorded E p s \<and> recorded E p (snd (f x s)))"
  obtain r u where run: "m s = (r, u)"
    by (cases "m s")
  with m have u: "gs_calls u = gs_calls s" "gs_ledger u = gs_ledger s"
    unfolding quiet_def by (metis snd_conv)+
  show "\<exists>es. gs_calls (snd (bindE m f s)) = gs_calls s @ es \<and> asks_of p K es
      \<and> (es \<noteq> [] \<longrightarrow> \<not> recorded E p s \<and> recorded E p (snd (bindE m f s)))"
    using f [of "projr r", THEN spec, of u] run u
    by (cases r) (auto simp: bindE_def recorded_def intro: exI [of _ "[]"])
qed

lemma asks_once_if [once_intros]: "asks_once E p K m \<Longrightarrow> asks_once E p K n \<Longrightarrow> asks_once E p K (if b then m else n)"
  by simp

lemma asks_once_case_prod [once_intros]:
  "(\<And>a b. asks_once E p K (f a b)) \<Longrightarrow> asks_once E p K (case x of (a, b) \<Rightarrow> f a b)"
  by (cases x) simp

lemma asks_once_finally [once_intros]:
  assumes m: "asks_once E p K m" and f: "silent f" "keeps (recorded E p) f"
  shows "asks_once E p K (finallyE m f)"
  unfolding asks_once_def
proof
  fix s
  obtain r u where run: "m s = (r, u)"
    by (cases "m s")
  have final: "snd (finallyE m f s) = snd (f u)"
    by (simp add: finallyE_def run split: prod.split sum.split)
  show "\<exists>es. gs_calls (snd (finallyE m f s)) = gs_calls s @ es \<and> asks_of p K es
      \<and> (es \<noteq> [] \<longrightarrow> \<not> recorded E p s \<and> recorded E p (snd (finallyE m f s)))"
    using m [unfolded asks_once_def, THEN spec, of s] f keepsD [OF f(2), of u] unfolding final silent_def run by auto
qed

lemma ledger_create_new:
  fixes E :: "'w gh_env"
  shows "returns (\<lambda>t :: ('w, 'z) gh_state_scheme. gs_ledger t = l) (ledger_create E r)
     (\<lambda>(created, _) t. created \<longrightarrow> map_of l (operationPath E (g_operation_id r)) = None \<and> recorded E (g_operation_id r) t)"
proof -
  let ?Q = "\<lambda>(created, _ :: github_operation) (t :: ('w, 'z) gh_state_scheme).
    created \<longrightarrow> map_of l (operationPath E (g_operation_id r)) = None \<and> recorded E (g_operation_id r) t"
  have body: "returns (\<lambda>t. gs_ledger t = l) (bindE (ledger_read E (g_operation_id r)) (\<lambda>existing. case existing of
        Some d \<Rightarrow> ret (False, diskRecord d)
      | None \<Rightarrow> bindE (ledger_write E (new_disk r) True) (\<lambda>stored. ret (True, diskRecord stored)))) ?Q"
    (is "returns ?P ?m ?Q")
  proof (rule returns_wp)
    fix s :: "('w, 'z) gh_state_scheme" assume s: "gs_ledger s = l"
    have new: "wp (bindE (ledger_write E (new_disk r) True) (\<lambda>stored. ret (True, diskRecord stored))) ?Q (\<lambda>_ _. True)
        (s\<lparr>rt_world := w\<rparr>)" for w
      unfolding wp_bindE wp_ret_eta by (rule wp_ledger_write) (use s in \<open>simp_all add: recorded_def\<close>)
    show "wp ?m ?Q (\<lambda>_ _. True) s"
      unfolding wp_bindE by (rule wp_ledger_read) (use new in \<open>simp_all add: wp_simps\<close>)
  qed
  have kept: "keeps (?Q x) (runtimeE (worldE u))" for x u
    by (intro pres_intros) (auto simp: ignores_world_def recorded_def)
  have same: "ignores_world ?P"
    by (simp add: ignores_world_def)
  have "returns ?P (withLockG E n ?m) ?Q" for n
    unfolding withLockG_def by (intro returns_bindE [OF returns_keeps returns_finallyE [OF body kept]] pres_intros same)
  then show ?thesis
    unfolding ledger_create_def by (intro returns_bindE [OF returns_keeps] keeps_ledger_initialize same)
qed

lemma admit_new:
  fixes s :: "('w, 'z) gh_state_scheme"
  assumes run: "admit E q s = (Inr (EXECUTE r), t)"
  shows "\<not> recorded E (aq_operation_id q) s \<and> recorded E (aq_operation_id q) t"
proof -
  let ?new = "\<lambda>t. \<not> recorded E (aq_operation_id q) s \<and> recorded E (aq_operation_id q) t"
  let ?Q = "\<lambda>a t. (\<exists>r. a = EXECUTE r) \<longrightarrow> ?new t"
  have stays: "keeps ?new (transition_github E p x v c)" for p x v c
    using presence.of_transition [of E "aq_operation_id q" E p x v c] unfolding keeps_def by blast
  have same: "ignores_world (\<lambda>t. gs_ledger t = gs_ledger s)"
    by (simp add: ignores_world_def)
  have rest: "returns (\<lambda>t. c \<longrightarrow> ?new t) (bindE (assertStoredIdentity e a) (\<lambda>_. if \<not> c then ret (STORED a)
      else bindE (transition_github E a ADMITTED None None) (\<lambda>admitted. ret (EXECUTE admitted)))) ?Q" for c e a
    by (cases c) (auto intro!: returns_bindE [OF returns_keeps] returns_ret keeps_assertStoredIdentity stays)
  have core: "returns (\<lambda>t. gs_ledger t = gs_ledger s) (bindE (ledger_create E (created_record E q now)) (\<lambda>(c, a).
      bindE (assertStoredIdentity (created_record E q now) a) (\<lambda>_. if \<not> c then ret (STORED a)
      else bindE (transition_github E a ADMITTED None None) (\<lambda>admitted. ret (EXECUTE admitted))))) ?Q" for now
    by (rule returns_bindE [OF ledger_create_new])
      (auto intro!: returns_case_prod returns_conseq [OF rest] simp: recorded_def created_record_def)
  have "returns (\<lambda>t. gs_ledger t = gs_ledger s) (admit E q) ?Q"
    unfolding admit_def Let_def
    by (rule returns_bindE [OF returns_keeps [OF keeps_throw_if]
          returns_bindE [OF returns_keeps [OF keeps_now_text [OF same]] core]])
  with run show ?thesis
    by (auto dest: returnsD)
qed

lemma asks_once_admit:
  fixes g :: "github_operation \<Rightarrow> ('w, 'z, 'a) gh"
  assumes p: "aq_operation_id q = p" and g: "\<And>r. emits p K (g r)" "\<And>r. keeps (recorded E p) (g r)" and f: "\<And>r. silent (f r)"
  shows "asks_once E p K (bindE (admit E q) (\<lambda>a. case a of EXECUTE r \<Rightarrow> g r | STORED r \<Rightarrow> f r))"
    (is "asks_once E p K (bindE _ ?k)")
  unfolding asks_once_def
proof
  fix s :: "('w, 'z) gh_state_scheme"
  obtain a u where run: "admit E q s = (a, u)"
    by (cases "admit E q s")
  have "silent (admit E q)"
    by (rule silentI, rule silent.of_admit)
  with run have u: "gs_calls u = gs_calls s"
    unfolding silent_def by (metis snd_conv)
  show "\<exists>es. gs_calls (snd (bindE (admit E q) ?k s)) = gs_calls s @ es \<and> asks_of p K es
      \<and> (es \<noteq> [] \<longrightarrow> \<not> recorded E p s \<and> recorded E p (snd (bindE (admit E q) ?k s)))"
  proof (cases a)
    case (Inl e)
    with run u show ?thesis
      by (auto simp: bindE_def intro: exI [of _ "[]"])
  next
    case (Inr b)
    show ?thesis
    proof (cases b)
      case (STORED r)
      with run u Inr f [of r] show ?thesis
        by (auto simp: bindE_def silent_def intro: exI [of _ "[]"])
    next
      case (EXECUTE r)
      have "\<not> recorded E p s" "recorded E p u"
        using admit_new [of E q s r u] run p Inr EXECUTE by auto
      moreover from this(2) have "recorded E p (snd (g r u))"
        by (rule keepsD [OF g(2)])
      ultimately show ?thesis
        using g(1) [unfolded emits_def, THEN spec, of r u] run u Inr EXECUTE by (auto simp: bindE_def)
    qed
  qed
qed

fun request_operation :: "github_request \<Rightarrow> string" where
  "request_operation (GReq_Push i) = xi_operation_id i"
| "request_operation (GReq_Pr_Write i) = xi_operation_id i"
| "request_operation (GReq_Reply i) = xi_operation_id i"
| "request_operation (GReq_Resolve i) = xi_operation_id i"
| "request_operation (GReq_Ci_Retry i) = xi_operation_id i"
| "request_operation (GReq_Merge i) = xi_operation_id i"
| "request_operation _ = []"

lemma once_push: "asks_once E (xi_operation_id i) UNIV (writePush E i)"
  unfolding writePush_def
  by (intro once_intros asks_once_admit emits_mono [OF emits_push] presence.of_push_execute silentI quietI
      pres_intros world_silent world_quiet) (simp_all add: push_request_def)

lemma once_pr: "asks_once E (xi_operation_id i) UNIV (prCreateOrUpdate E i)"
  unfolding prCreateOrUpdate_def
  by (intro once_intros asks_once_admit emits_mono [OF emits_pr [where c = "\<lparr>pc_operation_id = xi_operation_id i, pc_title = t, pc_body = b\<rparr>" for t b, simplified]]
      presence.of_execute_pr silentI quietI pres_intros world_silent world_quiet) (simp_all add: pr_write_request_def)

lemma once_reply: "asks_once E (xi_operation_id i) UNIV (writePrReply E i)"
  unfolding writePrReply_def
  by (intro once_intros asks_once_admit emits_mono [OF emits_reply] presence.of_reply_execute silentI quietI
      pres_intros world_silent world_quiet) (simp_all add: reply_request_def)

lemma once_resolve: "asks_once E (xi_operation_id i) UNIV (writePrResolveThread E i)"
  unfolding writePrResolveThread_def
  by (intro once_intros asks_once_admit emits_mono [OF emits_resolve] presence.of_resolve_execute silentI quietI
      pres_intros world_silent world_quiet) (simp_all add: resolve_request_def)

lemma once_retry_locked: "asks_once E (xi_operation_id i) UNIV (writeCiRetryFailedLocked E i r n)"
  unfolding writeCiRetryFailedLocked_def
  by (intro once_intros asks_once_admit emits_mono [OF emits_retry] presence.of_retry_execute silentI quietI
      pres_intros world_silent world_quiet) (simp_all add: retry_request_def)

lemma recorded_world: "ignores_world (recorded E p)"
  by (simp add: ignores_world_def recorded_def)

lemma once_retry: "asks_once E (xi_operation_id i) UNIV (writeCiRetryFailed E i)"
proof -
  have refused: "asks_once E (xi_operation_id i) UNIV (throw e)" for e
    by (intro asks_once_silent silentI pres_intros)
  have "asks_once E (xi_operation_id i) UNIV (withSubjectLock E a b c d (writeCiRetryFailedLocked E i r n))" for a b c d r n
    unfolding withSubjectLock_def withLockG_def
    by (intro once_intros once_retry_locked silentI quietI pres_intros world_silent world_quiet recorded_world)
  then show ?thesis
    unfolding writeCiRetryFailed_def using refused by (auto split: list.split option.split)
qed

lemma once_merge: "asks_once E (xi_operation_id i) UNIV (writeMerge E (getExactCiEvidence E) i)"
  unfolding writeMerge_def taskMatches_def
  by (intro once_intros asks_once_admit emits_mono [OF emits_merge] presence.of_merge_execute silentI quietI
      pres_intros world_silent world_quiet recorded_world) (simp_all add: merge_request_def)

lemma once_readers:
  "asks_once E p K (remoteStatus E i)" "asks_once E p K (prStatus E i)" "asks_once E p K (prReviewThreads E j)"
  "asks_once E p K (ciStatus E i)" "asks_once E p K (mergeGatePrepare E (getExactCiEvidence E) i)"
  "asks_once E p K (create_approval E g ttl)" "asks_once E p K (postMergeReadback E (getExactCiEvidence E) m)"
  by (intro asks_once_silent silentI silent.of_remoteStatus silent.of_prStatus silent.of_prReviewThreads silent.of_ciStatus
      silent.of_mergeGatePrepare silent.of_create_approval silent.of_postMergeReadback silent_ci)+

lemma onceD:
  "asks_once E p K m \<Longrightarrow> \<exists>es. gs_calls (snd (m s)) = gs_calls s @ es \<and> asks_of p K es
     \<and> (es \<noteq> [] \<longrightarrow> \<not> recorded E p s \<and> recorded E p (snd (m s)))"
  by (simp add: asks_once_def)

lemma handle_once:
  "\<exists>es. gs_calls (handle_github E q s) = gs_calls s @ es \<and> asks_of (request_operation q) UNIV es
     \<and> (es \<noteq> [] \<longrightarrow> \<not> recorded E (request_operation q) s \<and> recorded E (request_operation q) (handle_github E q s))"
  by (cases q) (simp_all only: handle_github.simps request_operation.simps,
    (rule onceD, rule once_readers once_push once_pr once_reply once_resolve once_retry once_merge)+)

text \<open>What holds between requests: no kind is asked for twice under an id, and who asked is recorded.\<close>

definition asked_at_most_once :: "effect_call list \<Rightarrow> bool" where
  "asked_at_most_once cs \<longleftrightarrow> (\<forall>p. distinct (map call_kind (filter (\<lambda>c. effect_operation c = p) cs)))"

definition calls_recorded :: "'w gh_env \<Rightarrow> ('w, 'z) gh_state_scheme \<Rightarrow> bool" where
  "calls_recorded E s \<longleftrightarrow> asked_at_most_once (gs_calls s) \<and> (\<forall>c\<in>set (gs_calls s). recorded E (effect_operation c) s)"

lemma asked_at_most_once_append:
  assumes "asked_at_most_once cs" "asks_of p K es" "\<forall>c\<in>set cs. effect_operation c \<noteq> p"
  shows "asked_at_most_once (cs @ es)"
proof -
  have "filter (\<lambda>c. effect_operation c = x) es = (if x = p then es else [])" for x
    using assms(2) by (auto simp: asks_of_def filter_empty_conv)
  moreover have none: "filter (\<lambda>c. effect_operation c = p) cs = []"
    using assms(3) by (simp add: filter_empty_conv)
  ultimately have "distinct (map call_kind (filter (\<lambda>c. effect_operation c = x) (cs @ es)))" for x
    using assms(1,2) by (cases "x = p") (simp_all only: filter_append none asked_at_most_once_def asks_of_def
      append_Nil append_Nil2 if_True if_False HOL.simp_thms)
  then show ?thesis
    by (simp add: asked_at_most_once_def)
qed

lemma handle_calls_recorded:
  assumes "calls_recorded E s"
  shows "calls_recorded E (handle_github E q s)"
proof -
  obtain es where es: "gs_calls (handle_github E q s) = gs_calls s @ es" "asks_of (request_operation q) UNIV es"
    "es \<noteq> [] \<longrightarrow> \<not> recorded E (request_operation q) s \<and> recorded E (request_operation q) (handle_github E q s)"
    using handle_once by blast
  have stays: "recorded E p s \<Longrightarrow> recorded E p (handle_github E q s)" for p
    using presence.of_serve [of E p s E "[q]"] by (simp add: serve_github_def)
  show ?thesis
  proof (cases "es = []")
    case True
    with assms es(1) stays show ?thesis
      by (simp add: calls_recorded_def)
  next
    case False
    with es(3) assms have "\<forall>c\<in>set (gs_calls s). effect_operation c \<noteq> request_operation q"
      by (auto simp: calls_recorded_def)
    moreover have "\<forall>c\<in>set es. recorded E (effect_operation c) (handle_github E q s)"
      using False es(2,3) by (simp add: asks_of_def)
    ultimately show ?thesis
      using assms es(1,2) stays asked_at_most_once_append by (auto simp: calls_recorded_def)
  qed
qed

end
