(* ===== verification/Github_Authority.thy ===== *)
theory Github_Authority
  imports Github_Once
begin

text \<open>
  Who lets a merge happen. Every merge that GitHub is asked for names a pull request, a head and
  a method; behind it stands the claim file of an owner approval, written for the operation that
  merges, and the digest in that file is the digest of a gate manifest with the same pull
  request, head and method. The invariant is carried through every handler by the contract of
  Github_Evolution; only the merge itself needs an argument of its own.
\<close>

section \<open>The invariant\<close>

definition manifest_for :: "'w gh_env \<Rightarrow> string \<Rightarrow> int \<Rightarrow> string \<Rightarrow> merge_method \<Rightarrow> bool" where
  "manifest_for E d number head method \<longleftrightarrow>
     (\<exists>v core. sha256Json (re_sha256 (ge_rt E)) v = d \<and> parseMergeGateManifestCore E v = Inr core
        \<and> mc_pr_number core = number \<and> mc_head core = head \<and> mc_merge_method core = method)"

definition merges_authorised :: "'w gh_env \<Rightarrow> ('w, 'z) gh_state_scheme \<Rightarrow> bool" where
  "merges_authorised E s \<longleftrightarrow> (\<forall>p number head method. Call_Merge p number head method \<in> set (gs_calls s)
     \<longrightarrow> (\<exists>a d. claimed_by s a p d \<and> manifest_for E d number head method))"

lemma claimed_put:
  "claimed_by s a p d \<Longrightarrow> map_of (gs_approvals s) name = None \<Longrightarrow> claimed_by (put_approval name bytes s) a p d"
  by (auto simp: claimed_by_def put_approval_def)

lemma claimed_simps [simp]:
  "claimed_by (s\<lparr>rt_world := w\<rparr>) a p d = claimed_by s a p d"
  "claimed_by (store_github E r s) a p d = claimed_by s a p d"
  "claimed_by (asked c s) a p d = claimed_by s a p d"
  by (simp_all add: claimed_by_def store_github_def asked_def)

lemma authorised_frame:
  "merges_authorised E (s\<lparr>rt_world := w\<rparr>) = merges_authorised E s"
  "merges_authorised E s \<Longrightarrow> merges_authorised E (store_github E' r s)"
  "merges_authorised E s \<Longrightarrow> map_of (gs_approvals s) name = None \<Longrightarrow> merges_authorised E (put_approval name bytes s)"
  "merges_authorised E s \<Longrightarrow> \<not> is_merge c \<Longrightarrow> merges_authorised E (asked c s)"
proof -
  show "merges_authorised E (s\<lparr>rt_world := w\<rparr>) = merges_authorised E s"
    by (simp add: merges_authorised_def)
next
  assume "merges_authorised E s"
  then show "merges_authorised E (store_github E' r s)"
    by (simp add: merges_authorised_def store_github_def claimed_by_def)
next
  assume "merges_authorised E s" "map_of (gs_approvals s) name = None"
  then show "merges_authorised E (put_approval name bytes s)"
    using claimed_put unfolding merges_authorised_def by (simp add: put_approval_def) blast
next
  assume "merges_authorised E s" "\<not> is_merge c"
  moreover have "gs_calls (asked c s) = gs_calls s @ [c]"
    by (simp add: asked_def)
  ultimately show "merges_authorised E (asked c s)"
    unfolding merges_authorised_def by (cases c) auto
qed

interpretation authority: effect_frame E "merges_authorised E' :: ('w, 'z) gh_state_scheme \<Rightarrow> bool"
  for E :: "'w gh_env" and E'
  by standard (simp_all add: ignores_world_def new_files_ok_def authorised_frame)

definition claim_held :: "'w gh_env \<Rightarrow> string \<Rightarrow> string \<Rightarrow> ('w, 'z) gh_state_scheme \<Rightarrow> bool" where
  "claim_held E p d s \<longleftrightarrow> merges_authorised E s \<and> (\<exists>a. claimed_by s a p d)"

interpretation held: effect_frame E "claim_held E' p d :: ('w, 'z) gh_state_scheme \<Rightarrow> bool"
  for E :: "'w gh_env" and E' and p and d
  by standard (auto simp: claim_held_def ignores_world_def new_files_ok_def authorised_frame intro: claimed_put)

interpretation claim_file: ledger_frame E "\<lambda>s :: ('w, 'z) gh_state_scheme. claimed_by s a p d"
  for E :: "'w gh_env" and a and p and d
  by standard (auto simp: ignores_world_def new_files_ok_def intro: claimed_put)

lemma held_world: "ignores_world (claim_held E p d)"
  by (simp add: claim_held_def ignores_world_def authorised_frame)

section \<open>The merge\<close>

lemma returns_manifest:
  "returns (\<lambda>_. True) (loadAndRevalidateExactManifest E ci i d)
     (\<lambda>m _. manifest_for E d (mc_pr_number m) (mc_head m) (mc_merge_method m))"
proof (cases "assertDigest d")
  case (Inr d')
  then have d: "assertDigest d = Inr d"
    by (simp add: assertDigest_def split: if_splits)
  show ?thesis
    unfolding loadAndRevalidateExactManifest_def d bindE_liftR
    by (intro fact_intros) (auto simp: manifest_for_def manifest_core.defs)
qed (simp add: loadAndRevalidateExactManifest_def bindE_liftR returns_throw)

lemma returns_merge_candidate:
  "returns (\<lambda>_. True) (merge_candidate E ci task i)
     (\<lambda>m _. manifest_for E (xi_manifest_sha i) (mc_pr_number m) (mc_head m) (mc_merge_method m))"
  unfolding merge_candidate_def
  by (intro fact_bindE [OF returns_manifest] fact_intros) 

lemma returns_fail_merge: "returns (\<lambda>_. True) (fail_merge E r p e) Q"
  unfolding fail_merge_def by (intro fact_intros)

lemma returns_claim_for_merge:
  "returns (\<lambda>_. True) (claim_for_merge E i r) (\<lambda>_ t. \<exists>a. claimed_by t a (xi_operation_id i) (xi_manifest_sha i))"
proof -
  have kept: "keeps (\<lambda>s. claimed_by s a p d) (transition_github E cur q v c)" for a p d cur q v c
    by (rule claim_file.of_transition)
  have rest: "returns (\<lambda>t. claimed_by t (oa_id x) (xi_operation_id i) (gr_sha (merge_gate_ref i)) \<and> F)
      (bindE (throw_if b e) (\<lambda>_. transition_github E cur q v c))
      (\<lambda>_ t. \<exists>a. claimed_by t a (xi_operation_id i) (xi_manifest_sha i))" for x b e cur q v c F
    by (rule returns_conseq [OF returns_keeps [OF keeps_bindE [OF keeps_throw_if kept]]]) (auto simp: merge_gate_ref_def)
  show ?thesis
    unfolding claim_for_merge_def by (rule returns_bindE [OF claim_approval_claims rest])
qed

lemma held_merge_call:
  assumes "manifest_for E d n h m"
  shows "keeps (claim_held E p d :: ('w, 'z) gh_state_scheme \<Rightarrow> bool) (effectG (Call_Merge p n h m) f)"
proof -
  have "claim_held E p d (asked (Call_Merge p n h m) s)" if "claim_held E p d s"
    for s :: "('w, 'z) gh_state_scheme"
    using that assms unfolding claim_held_def merges_authorised_def by (auto simp: asked_def claimed_by_def)
  then show ?thesis
    unfolding effectG_def
    by (intro keeps_bindE keeps_askG held_world) (simp add: keeps_def modifyE_def asked_def)
qed

lemma held_attempt:
  assumes "manifest_for E (xi_manifest_sha i) (mc_pr_number m) (mc_head m) (mc_merge_method m)"
  shows "keeps (claim_held E (xi_operation_id i) (xi_manifest_sha i)) (merge_attempt E t i m r)"
  unfolding merge_attempt_def
  by (intro held_merge_call [OF assms] pres_intros held_world held.of_effect held.of_completeKnownMerge) simp_all

lemma authority_of_writeMerge: "keeps (merges_authorised E) (writeMerge E (getExactCiEvidence E) i)"
proof -
  let ?I = "merges_authorised E"
  note world = authority.world
  have ci: "keeps ?I (getExactCiEvidence E t h)" for t h
    by (intro pres_intros world)
  have attempt: "keeps (\<lambda>s. ?I s \<and> (\<exists>a. claimed_by s a (xi_operation_id i) (xi_manifest_sha i)))
      (bindE (transition_github E r4 EXTERNAL_PRECONTACT None None) (\<lambda>r5.
       bindE (transition_github E r5 EXTERNAL_CONTACTED None None) (\<lambda>r6.
       catchE (merge_attempt E t i m r6) (\<lambda>(e, ready, api). merge_recover E t i m r6 e ready api))))"
    if "manifest_for E (xi_manifest_sha i) (mc_pr_number m) (mc_head m) (mc_merge_method m)" for t m r4
    unfolding claim_held_def [symmetric]
    by (intro held_attempt [OF that] pres_intros held.of_transition held.of_merge_recover)
  have claim: "keeps ?I (bindE (catchE (claim_for_merge E i r3) (fail_merge E r3 BLOCKED)) (\<lambda>r4.
       bindE (transition_github E r4 EXTERNAL_PRECONTACT None None) (\<lambda>r5.
       bindE (transition_github E r5 EXTERNAL_CONTACTED None None) (\<lambda>r6.
       catchE (merge_attempt E t i m r6) (\<lambda>(e, ready, api). merge_recover E t i m r6 e ready api)))))"
    if "manifest_for E (xi_manifest_sha i) (mc_pr_number m) (mc_head m) (mc_merge_method m)" for t m r3
    by (intro keeps_bind_then [OF _ returns_catchE [OF returns_claim_for_merge returns_fail_merge] attempt [OF that]]
        keeps_catchE authority.of_claim_for_merge authority.of_fails)
  have execute: "keeps ?I (merge_execute E (getExactCiEvidence E) t i r)" for t r
    unfolding merge_execute_def
    by (rule keeps_bindE, intro pres_intros world authority.of_fails, rule keeps_bindE, rule authority.of_transition,
        rule keeps_bindE, rule authority.of_transition,
        rule keeps_bind_fact [OF _ returns_catchE [OF returns_merge_candidate returns_fail_merge]],
        intro pres_intros world ci authority.of_fails, rule keeps_bindE, rule authority.of_transition, rule claim)
  show ?thesis
    unfolding writeMerge_def taskMatches_def getServerOwnedTask_def
    by (intro pres_intros world execute authority.of_admit)
qed

lemma serve_authorised:
  "merges_authorised E s \<Longrightarrow> merges_authorised E (serve_github E requests s)"
  by (rule serve_github_invariant) (rule authority.of_handle [OF authority_of_writeMerge])

end
