(* ===== verification/Github_Safety.thy ===== *)
theory Github_Safety
  imports Github_Authority Store_Properties
begin

text \<open>
  The properties of the GitHub boundary over arbitrary sequences of requests, with
  whatever answers GitHub, Git, the file system and the clock give.
\<close>

section \<open>A boundary to apply them to\<close>

text \<open>A world in which every question fails, over the runtime of Task_Safety.\<close>

definition refuse :: "'w \<Rightarrow> (gh_err + 'a) \<times> 'w" where
  "refuse w = (Inl (boundary ''REFUSED''), w)"

definition demo_gh :: "(bool \<times> bool) gh_env" where
  "demo_gh =
     \<lparr>ge_rt = demo_env, ge_now = (\<lambda>w. (0, w)), ge_iso = (\<lambda>_. ''T''), ge_date = (\<lambda>_. Some 0), ge_task = (\<lambda>_. refuse),
      ge_inspect = (\<lambda>_. refuse), ge_is_ancestor = (\<lambda>_ _ _. refuse), ge_push = (\<lambda>_ _ _. refuse),
      ge_repository = (\<lambda>_. refuse), ge_ref = (\<lambda>_ _. refuse), ge_open_prs = (\<lambda>_ _ _. refuse), ge_pr = (\<lambda>_ _. refuse),
      ge_create_pr = (\<lambda>_ _ _ _ _. refuse), ge_update_pr = (\<lambda>_ _ _ _ _. refuse), ge_mark_ready = (\<lambda>_ _. refuse),
      ge_threads_page = (\<lambda>_ _ _ _. refuse), ge_reply = (\<lambda>_ _ _ _. refuse), ge_resolve = (\<lambda>_ _. refuse),
      ge_checks_page = (\<lambda>_ _ _. refuse), ge_statuses_page = (\<lambda>_ _ _. refuse), ge_runs = (\<lambda>_ _. refuse),
      ge_run = (\<lambda>_ _. refuse), ge_retry = (\<lambda>_ _. refuse), ge_merge = (\<lambda>_ _ _ _. refuse), ge_compare = (\<lambda>_ _ _. refuse),
      ge_put_json = (\<lambda>_ _ _. refuse), ge_get_json = (\<lambda>_ _. refuse), ge_validation = (\<lambda>_. refuse),
      ge_review = (\<lambda>_. refuse), ge_approval_directory = refuse, ge_opaque_id = (\<lambda>w. (''id'', w)),
      ge_excl_fault = (\<lambda>w. (Excl_Ok, w)), ge_read_fault = (\<lambda>w. (Inr (), w)), ge_sync = (\<lambda>w. (Inr (), w)),
      ge_secret_free = (\<lambda>_. True), ge_urls = \<lparr>ul_parse = (\<lambda>_. None), ul_decode = (\<lambda>_. None)\<rparr>, ge_fuel = 500\<rparr>"

definition demo_gh_record :: "op_phase \<Rightarrow> github_disk" where
  "demo_gh_record p =
     \<lparr>g_operation_id = ''operation-1'', g_semantic = SEM_write_merge, g_repo_id = ''r'', g_task_id = ''t'',
      g_subject_digest = replicate 64 (CHR ''0''), g_binding_digest = replicate 64 (CHR ''0''), g_phase = p,
      g_created_at = ''T'', g_updated_at = ''T'', g_result = None, g_failure_code = None, g_revision = 3,
      g_state_sha256 = replicate 64 (CHR ''0'')\<rparr>"

definition demo_gh_state :: "(bool \<times> bool) gh_state" where
  "demo_gh_state =
     \<lparr>rt_tasks = [], rt_ops = [], rt_trace = [], rt_world = (False, True),
      gs_ledger = [(operationPath demo_gh ''operation-1'', Stored (demo_gh_record EXTERNAL_SUCCEEDED))], gs_approvals = [],
      gs_calls = []\<rparr>"

definition demo_exact :: exact_task_input where
  "demo_exact = \<lparr>xi_operation_id = ''operation-1'', xi_repo_id = ''r'', xi_task_id = ''t'',
     xi_head = replicate 40 (CHR ''a''), xi_tree = replicate 40 (CHR ''b'')\<rparr>"

section \<open>What sequences of requests keep\<close>

lemma serve_calls_recorded: "calls_recorded E (serve_github E requests (s\<lparr>gs_calls := []\<rparr>))"
  by (rule serve_github_invariant, erule handle_calls_recorded) (simp add: calls_recorded_def asked_at_most_once_def)

lemma serve_merges_authorised: "merges_authorised E (serve_github E requests (s\<lparr>gs_calls := []\<rparr>))"
  by (rule serve_authorised) (simp add: merges_authorised_def)

text \<open>The merge calls have distinct operations, each with an approval of its own.\<close>

lemma merge_operations_distinct:
  assumes "asked_at_most_once cs"
  shows "distinct (map effect_operation (filter is_merge cs))"
  using assms
proof (induction cs)
  case (Cons c cs)
  have rest: "asked_at_most_once cs"
    using Cons.prems unfolding asked_at_most_once_def
    by (metis (no_types, lifting) distinct.simps(2) filter.simps(2) list.simps(9))
  have "effect_operation x \<noteq> effect_operation c" if "is_merge c" "x \<in> set cs" "is_merge x" for x
  proof
    assume same: "effect_operation x = effect_operation c"
    have "distinct (map call_kind (filter (\<lambda>y. effect_operation y = effect_operation c) (c # cs)))"
      using Cons.prems unfolding asked_at_most_once_def by (rule spec)
    with same that show False
      by (cases c; cases x) (force simp: image_iff)+
  qed
  then have "effect_operation c \<notin> effect_operation ` set (filter is_merge cs)" if "is_merge c"
    using that by (auto simp: image_iff dest: sym)
  with Cons.IH [OF rest] show ?case
    by simp
qed simp

lemma finite_claims: "finite {a. \<exists>p d. claimed_by s a p d}"
proof (rule finite_imageD)
  have "claim_name ` {a. \<exists>p d. claimed_by s a p d} \<subseteq> dom (map_of (gs_approvals s))"
    by (auto simp: claimed_by_def)
  then show "finite (claim_name ` {a. \<exists>p d. claimed_by s a p d})"
    by (rule finite_subset) (rule finite_dom_map_of)
  show "inj_on claim_name {a. \<exists>p d. claimed_by s a p d}"
    by (simp add: inj_on_def claim_name_def)
qed

lemma merges_need_approvals:
  assumes "asked_at_most_once (gs_calls s)" "merges_authorised E s"
  shows "length (filter is_merge (gs_calls s)) \<le> card {a. \<exists>p d. claimed_by s a p d}"
proof -
  let ?ops = "map effect_operation (filter is_merge (gs_calls s))"
  have "\<exists>a d. claimed_by s a p d" if p: "p \<in> set ?ops" for p
  proof -
    obtain c where c: "c \<in> set (gs_calls s)" "is_merge c" "effect_operation c = p"
      using p by auto
    from c(2) obtain q n head m where "c = Call_Merge q n head m"
      by (rule is_merge.elims(2))
    with c(1,3) assms(2) show ?thesis
      unfolding merges_authorised_def by force
  qed
  then obtain f where f: "\<And>p. p \<in> set ?ops \<Longrightarrow> \<exists>d. claimed_by s (f p) p d"
    by metis
  have "inj_on f (set ?ops)"
    using f claimed_by_unique by (metis inj_on_def)
  moreover have "f ` set ?ops \<subseteq> {a. \<exists>p d. claimed_by s a p d}"
    using f by blast
  ultimately have "card (set ?ops) \<le> card {a. \<exists>p d. claimed_by s a p d}"
    by (metis card_image card_mono finite_claims)
  moreover have "card (set ?ops) = length ?ops"
    by (rule distinct_card) (rule merge_operations_distinct [OF assms(1)])
  ultimately show ?thesis
    by simp
qed

section \<open>The properties\<close>

text \<open>C14 (safety).
  Over any sequence of GitHub requests a stored operation keeps its identity, its phase moves
  along the transition table with one revision per move, and a settled operation never moves
  again.\<close>

theorem github_operations_move_forward:
  assumes "map_of (gs_ledger s) key = Some (Stored p)"
  shows "\<exists>q. map_of (gs_ledger (serve_github E requests s)) key = Some (Stored q) \<and> github_follows p q
     \<and> (settled_github (g_phase p) \<longrightarrow> g_phase q = g_phase p \<and> g_revision q = g_revision p)"
proof -
  have "ledger_evolves s s"
    by (auto simp: ledger_evolves_def github_follows_refl)
  then have "ledger_evolves s (serve_github E requests s)"
    by (rule evolution.of_serve)
  with assms obtain q where "map_of (gs_ledger (serve_github E requests s)) key = Some (Stored q)" "github_follows p q"
    unfolding ledger_evolves_def by blast
  then show ?thesis
    using github_table.settled_path by (fastforce simp: github_follows_def)
qed

theorem github_operations_move_forward_witness:
  "\<exists>q. map_of (gs_ledger (serve_github demo_gh [GReq_Pr_Status demo_exact, GReq_Ci_Status demo_exact] demo_gh_state))
      (operationPath demo_gh ''operation-1'') = Some (Stored q)
    \<and> github_follows (demo_gh_record EXTERNAL_SUCCEEDED) q \<and> g_phase q = EXTERNAL_SUCCEEDED"
  using github_operations_move_forward [of demo_gh_state "operationPath demo_gh ''operation-1''"
      "demo_gh_record EXTERNAL_SUCCEEDED" demo_gh "[GReq_Pr_Status demo_exact, GReq_Ci_Status demo_exact]"]
  by (auto simp: demo_gh_state_def demo_gh_record_def settled_github_def)

text \<open>C1 (safety).
  Over any sequence of GitHub requests, whatever fails, no kind of effect (push, create, update,
  Ready, merge, reply, resolve, CI retry) is asked of GitHub twice under one operation id.\<close>

theorem external_effects_at_most_once:
  "distinct (map call_kind (filter (\<lambda>c. effect_operation c = i)
     (gs_calls (serve_github E requests (s\<lparr>gs_calls := []\<rparr>)))))"
  using serve_calls_recorded [of E requests s] by (simp add: calls_recorded_def asked_at_most_once_def)

text \<open>C2 (safety).
  Over any sequence of GitHub requests, every merge GitHub was asked for is backed by the claim
  file of an owner approval, written for exactly that operation, whose gate digest is the digest
  of a manifest with exactly that pull request, head and merge method.\<close>

theorem merges_are_authorised:
  "let t = serve_github E requests (s\<lparr>gs_calls := []\<rparr>) in
     list_all (\<lambda>c. case c of Call_Merge p number head method \<Rightarrow>
        (\<exists>a d. claimed_by t a p d \<and> manifest_for E d number head method) | _ \<Rightarrow> True) (gs_calls t)"
  using serve_merges_authorised [of E requests s] unfolding Let_def merges_authorised_def
  by (auto simp: list_all_iff split: effect_call.split)

text \<open>C15 (bounds).
  GitHub is never asked for more merges than owner approvals have been consumed: an approval
  merges once, whatever is retried.\<close>

theorem merges_bounded_by_approvals:
  "let t = serve_github E requests (s\<lparr>gs_calls := []\<rparr>) in
     length (filter is_merge (gs_calls t)) \<le> card {a. \<exists>p d. claimed_by t a p d}"
  unfolding Let_def
  by (rule merges_need_approvals [OF _ serve_merges_authorised])
    (use serve_calls_recorded [of E requests s] in \<open>simp add: calls_recorded_def\<close>)


text \<open>C32 (type).
  Every record file of the ledger that parses has its operation's file name, satisfies the disk
  schema and carries its content digest, after any sequence of GitHub requests.\<close>

theorem github_records_stay_valid:
  "valid_ledger E s \<Longrightarrow> valid_ledger E (serve_github E requests s)"
  by (rule validity.of_serve)

lemma demo_gh_digest: "github_digest demo_gh d = replicate 64 (CHR ''0'')"
  by (simp add: github_digest_def sha256Json_def demo_gh_def demo_env_def demo_hash_def)

lemma demo_ledger_valid: "valid_ledger demo_gh demo_gh_state"
proof -
  have "github_disk_schema (\<lambda>s. s = ''T'') (demo_gh_record EXTERNAL_SUCCEEDED)"
    by code_simp
  then have "github_disk_schema (re_datetime (ge_rt demo_gh)) (demo_gh_record EXTERNAL_SUCCEEDED)"
    by (simp add: demo_gh_def demo_env_def)
  then show ?thesis
    by (simp add: valid_ledger_def valid_github_file_def demo_gh_state_def demo_gh_digest)
      (simp add: demo_gh_record_def)
qed

theorem github_records_stay_valid_witness:
  "valid_ledger demo_gh (serve_github demo_gh [GReq_Pr_Status demo_exact, GReq_Ci_Status demo_exact] demo_gh_state)"
  by (rule github_records_stay_valid) (rule demo_ledger_valid)

end
