(* ===== verification/Gate_Properties.thy ===== *)
theory Gate_Properties
  imports Github_Safety
begin

text \<open>
  What an eligible gate stands for: the conditions that were observed when it was evaluated.
\<close>

section \<open>The conditions of an eligible gate\<close>





lemma blocker_if_empty [simp]: "blocker_if c a b = [] \<longleftrightarrow> \<not> c"
  by (simp add: blocker_if_def)

lemma put_file_not_Nil [simp]: "put_file k v m \<noteq> []"
  by (cases m) (auto split: if_splits)

lemma deduplicate_empty [simp]: "deduplicateBlockers E bs = [] \<longleftrightarrow> bs = []"
proof -
  have "foldl (\<lambda>m b. put_file (fst b) (snd b) m) m bs = [] \<longleftrightarrow> m = [] \<and> bs = []" for m :: "blocker list"
    by (induction bs arbitrary: m) simp_all
  then show ?thesis
    by (simp add: deduplicateBlockers_def)
qed



section \<open>What the gate observed\<close>











section \<open>Preparing a manifest\<close>






end
