(* ===== verification/Effect_Guards.thy ===== *)
theory Effect_Guards
  imports Gate_Properties
begin

text \<open>
  What must have been seen before an effect is asked for. \<open>guarded C m\<close>: whatever happens, \<open>m\<close> asks
  for no effect or \<open>C\<close> holds; \<open>C\<close> speaks of answers the boundary gave (\<open>says\<close>, \<open>answered\<close>).
\<close>

section \<open>The calculus\<close>

definition says :: "('w \<Rightarrow> (gh_err + 'a) \<times> 'w) \<Rightarrow> 'a \<Rightarrow> bool" where
  "says f x \<longleftrightarrow> (\<exists>w w'. f w = (Inr x, w'))"

definition guarded :: "bool \<Rightarrow> ('e, ('w, 'z) gh_state_scheme, 'a) eff \<Rightarrow> bool" where
  "guarded C m \<longleftrightarrow> C \<or> silent m"

named_theorems guard_intros "introduction rules of the calculus of guards"

lemma fact_askG: "returns (\<lambda>_. True) (askG f) (\<lambda>x _. says f x)"
  by (auto simp: returns_def askG_def says_def split: prod.splits)

lemma guarded_silent: "silent m \<Longrightarrow> guarded C m"
  by (simp add: guarded_def)


lemma silent_bindE: "silent m \<Longrightarrow> (\<And>x s t. m s = (Inr x, t) \<Longrightarrow> gs_calls (snd (f x t)) = gs_calls t) \<Longrightarrow> silent (bindE m f)"
  unfolding silent_def bindE_def by (auto split: prod.split sum.split) (metis snd_conv)+

lemma guarded_fact:
  assumes m: "silent m" and F: "returns (\<lambda>_. True) m (\<lambda>x _. F x)" and f: "\<And>x. F x \<Longrightarrow> guarded C (f x)"
  shows "guarded C (bindE m f)"
proof (cases C)
  case False
  then have "silent (f x)" if "F x" for x
    using f [OF that] by (simp add: guarded_def)
  then have "silent (bindE m f)"
    using F by (intro silent_bindE [OF m]) (auto simp: returns_def silent_def)
  then show ?thesis
    by (rule guarded_silent)
qed (simp add: guarded_def)





lemma guarded_liftR [guard_intros]: "(\<And>x. r = Inr x \<Longrightarrow> guarded C (f x)) \<Longrightarrow> guarded C (bindE (liftR r) f)"
  by (cases r) (auto simp: bindE_liftR intro!: guarded_silent silentI pres_intros)

lemma guarded_guard [guard_intros]: "(\<not> b \<Longrightarrow> guarded C (f ())) \<Longrightarrow> guarded C (bindE (throw_if b e) f)"
proof -
  have "bindE (throw_if b e) f = (if b then throw e else f ())"
    by (simp add: throw_if_def bindE_def throw_def ret_def fun_eq_iff)
  then show "(\<not> b \<Longrightarrow> guarded C (f ())) \<Longrightarrow> guarded C (bindE (throw_if b e) f)"
    by (simp add: guarded_silent silent_def throw_def)
qed

lemma guarded_ask [guard_intros]: "(\<And>x. says g x \<Longrightarrow> guarded C (f x)) \<Longrightarrow> guarded C (bindE (askG g) f)"
  by (rule guarded_fact [OF _ fact_askG]) (intro silentI pres_intros world_silent)


section \<open>Push\<close>





lemma returns_catch_fail:
  assumes "returns (\<lambda>_. True) m Q" "\<And>e. returns (\<lambda>_. True) (h e) Q"
  shows "returns (\<lambda>_. True) (catchE m h) Q"
  by (rule returns_catchE [OF assms])





section \<open>Merge\<close>






section \<open>Retrying a run\<close>












end
