(* ===== verification/Review_Guards.thy ===== *)
theory Review_Guards
  imports Effect_Guards
begin

text \<open>
  What has been read back when a review thread is resolved on GitHub, and when a merged task is
  declared ready for closure: the calculi of \<open>Effect_Guards\<close> and \<open>Github_Authority\<close> on
  \<open>writePrResolveThread\<close> and \<open>postMergeReadback\<close>.
\<close>

section \<open>Resolving a thread\<close>













section \<open>Closing after a merge\<close>













end
