(* ===== verification/Manifest_Properties.thy ===== *)
theory Manifest_Properties
  imports Github_Safety
begin

text \<open>
  The round trip of a gate manifest: what the gate writes under its digest is what the parser
  reads back, field by field.
\<close>

definition manifest_ok :: "'w gh_env \<Rightarrow> manifest_core \<Rightarrow> bool" where
  "manifest_ok E c \<longleftrightarrow>
     id_regex 0 199 (mc_repo_id c) \<and> id_regex 0 199 (mc_task_id c)
   \<and> assertOpaqueNodeId (mc_repository_id c) = Inr (mc_repository_id c)
   \<and> assertRepositoryNameWithOwner (mc_name_with_owner c) = Inr (mc_name_with_owner c)
   \<and> assertOpaqueNodeId (mc_pr_id c) = Inr (mc_pr_id c)
   \<and> safe_integer (mc_pr_number c) \<and> 0 < mc_pr_number c
   \<and> assertSafeBranch (mc_base_branch c) = Inr (mc_base_branch c) \<and> hex_n 40 (mc_base c)
   \<and> assertSafeBranch (mc_task_branch c) = Inr (mc_task_branch c) \<and> hex_n 40 (mc_head c) \<and> hex_n 40 (mc_tree c)
   \<and> list_all (\<lambda>i. assertRunId i = Inr i) (mc_run_ids c)
   \<and> list_all (\<lambda>i. assertOpaqueNodeId i = Inr i) (mc_thread_ids c)
   \<and> id_regex 0 199 (mc_ci_status_id c) \<and> hex_n 64 (mc_ci_digest c)
   \<and> id_regex 0 199 (mc_validation_id c) \<and> hex_n 64 (mc_validation_digest c)
   \<and> id_regex 0 199 (mc_review_id c) \<and> hex_n 64 (mc_review_digest c)
   \<and> ge_date E (mc_prepared_at c) \<noteq> None \<and> ge_date E (mc_expires_at c) \<noteq> None"

lemma method_of_name:
  "(if method_name m = ''merge'' then Inr Method_Merge else if method_name m = ''squash'' then Inr Method_Squash
     else if method_name m = ''rebase'' then Inr Method_Rebase else Inl e) = Inr m"
  by (cases m) simp_all

lemma strings_of_JStr: "mapM string_of (map JStr xs) = Inr xs"
  by (induction xs) (simp_all add: string_of_def)

lemma mapM_same: "list_all (\<lambda>x. f x = Inr x) xs \<Longrightarrow> mapM f xs = Inr xs"
  by (induction xs) simp_all

text \<open>The members of the printed manifest, one lookup each.\<close>

lemma manifest_members:
  assumes "manifestCoreJson c = JObj kvs"
  shows "map_of kvs ''repoId'' = Some (JStr (mc_repo_id c))" "map_of kvs ''taskId'' = Some (JStr (mc_task_id c))"
    "map_of kvs ''repositoryId'' = Some (JStr (mc_repository_id c))"
    "map_of kvs ''repositoryNameWithOwner'' = Some (JStr (mc_name_with_owner c))"
    "map_of kvs ''pullRequestId'' = Some (JStr (mc_pr_id c))"
    "map_of kvs ''pullRequestNumber'' = Some (JNum (mc_pr_number c))"
    "map_of kvs ''baseBranch'' = Some (JStr (mc_base_branch c))" "map_of kvs ''baseSha'' = Some (JStr (mc_base c))"
    "map_of kvs ''taskBranch'' = Some (JStr (mc_task_branch c))" "map_of kvs ''headSha'' = Some (JStr (mc_head c))"
    "map_of kvs ''treeSha'' = Some (JStr (mc_tree c))"
    "map_of kvs ''mergeMethod'' = Some (JStr (method_name (mc_merge_method c)))"
    "map_of kvs ''requiredRunIds'' = Some (JArr (map JStr (mc_run_ids c)))"
    "map_of kvs ''unresolvedThreadIds'' = Some (JArr (map JStr (mc_thread_ids c)))"
    "map_of kvs ''ciStatusId'' = Some (JStr (mc_ci_status_id c))" "map_of kvs ''ciEvidenceDigest'' = Some (JStr (mc_ci_digest c))"
    "map_of kvs ''validationId'' = Some (JStr (mc_validation_id c))"
    "map_of kvs ''validationDigest'' = Some (JStr (mc_validation_digest c))"
    "map_of kvs ''independentReviewId'' = Some (JStr (mc_review_id c))"
    "map_of kvs ''independentReviewDigest'' = Some (JStr (mc_review_digest c))"
    "map_of kvs ''independentReviewRequired'' = Some (JBool (mc_review_required c))"
    "map_of kvs ''preparedAt'' = Some (JStr (mc_prepared_at c))" "map_of kvs ''expiresAt'' = Some (JStr (mc_expires_at c))"
    "plan_ok (map_of kvs ''postMergePlan'')" "fixed_fields_ok kvs"
proof -
  from assms have kvs: "kvs = (case manifestCoreJson c of JObj kvs \<Rightarrow> kvs | _ \<Rightarrow> [])"
    by simp
  show "map_of kvs ''repoId'' = Some (JStr (mc_repo_id c))" "map_of kvs ''taskId'' = Some (JStr (mc_task_id c))"
    "map_of kvs ''repositoryId'' = Some (JStr (mc_repository_id c))"
    "map_of kvs ''repositoryNameWithOwner'' = Some (JStr (mc_name_with_owner c))"
    "map_of kvs ''pullRequestId'' = Some (JStr (mc_pr_id c))"
    "map_of kvs ''pullRequestNumber'' = Some (JNum (mc_pr_number c))"
    "map_of kvs ''baseBranch'' = Some (JStr (mc_base_branch c))" "map_of kvs ''baseSha'' = Some (JStr (mc_base c))"
    "map_of kvs ''taskBranch'' = Some (JStr (mc_task_branch c))" "map_of kvs ''headSha'' = Some (JStr (mc_head c))"
    "map_of kvs ''treeSha'' = Some (JStr (mc_tree c))"
    "map_of kvs ''mergeMethod'' = Some (JStr (method_name (mc_merge_method c)))"
    "map_of kvs ''requiredRunIds'' = Some (JArr (map JStr (mc_run_ids c)))"
    "map_of kvs ''unresolvedThreadIds'' = Some (JArr (map JStr (mc_thread_ids c)))"
    "map_of kvs ''ciStatusId'' = Some (JStr (mc_ci_status_id c))" "map_of kvs ''ciEvidenceDigest'' = Some (JStr (mc_ci_digest c))"
    "map_of kvs ''validationId'' = Some (JStr (mc_validation_id c))"
    "map_of kvs ''validationDigest'' = Some (JStr (mc_validation_digest c))"
    "map_of kvs ''independentReviewId'' = Some (JStr (mc_review_id c))"
    "map_of kvs ''independentReviewDigest'' = Some (JStr (mc_review_digest c))"
    "map_of kvs ''independentReviewRequired'' = Some (JBool (mc_review_required c))"
    "map_of kvs ''preparedAt'' = Some (JStr (mc_prepared_at c))" "map_of kvs ''expiresAt'' = Some (JStr (mc_expires_at c))"
    "plan_ok (map_of kvs ''postMergePlan'')" "fixed_fields_ok kvs"
    unfolding kvs manifestCoreJson_def by (simp_all add: plan_ok_def fixed_fields_ok_def)
qed

lemma string_field_member: "map_of kvs k = Some (JStr v) \<Longrightarrow> string_field kvs k = Inr v"
  by (simp add: string_field_def string_member_def)

lemma array_member: "map_of kvs k = Some (JArr (map JStr vs)) \<Longrightarrow> string_array kvs k = Inr vs"
  by (simp add: string_array_def strings_of_JStr)

lemma parse_members:
  assumes c: "manifest_ok E c"
    and members: "\<And>k. map_of kvs k = map_option key_sorted (map_of ms k)" "manifestCoreJson c = JObj ms"
    and plan: "plan_ok (map_of kvs ''postMergePlan'')"
  shows "parseMergeGateManifestCore E (JObj kvs) = Inr c"
proof -
  note ms = manifest_members [OF members(2)]
  have str: "map_of kvs k = Some (JStr v)" if "map_of ms k = Some (JStr v)" for k v
    using that members(1) by simp
  have arr: "map_of kvs k = Some (JArr (map JStr vs))" if "map_of ms k = Some (JArr (map JStr vs))" for k vs
    using that members(1) by (simp add: comp_def)
  note fields = ms(1-5) ms(7-12) ms(15-20) ms(22-23)
  note strings = fields [THEN str, THEN string_field_member]
  note arrays = ms(13,14) [THEN arr, THEN array_member]
  have fixed: "fixed_fields_ok kvs"
    using ms(21,25) unfolding fixed_fields_ok_def members(1) by (auto split: option.splits json.splits)
  have by_method: "method_field kvs = Inr (mc_merge_method c)"
    by (simp only: method_field_def strings bindR_simps method_of_name)
  have by_number: "number_field kvs ''pullRequestNumber'' = Inr (mc_pr_number c)"
    using c by (simp add: number_field_def members(1) ms(6) manifest_ok_def)
  have required: "bool_of (map_of kvs ''independentReviewRequired'') = mc_review_required c"
    by (simp add: bool_of_def members(1) ms(21))
  have ids: "assertSafeIdentifier v = Inr v" if "id_regex 0 199 v" for v
    using that by simp
  have shas: "assertSha v = Inr v" if "hex_n 40 v" for v
    using that by simp
  have digests: "assertDigest v = Inr v" if "hex_n 64 v" for v
    using that by (simp add: assertDigest_def)
  have times: "assertTimestamp E v = Inr v" if "ge_date E v \<noteq> None" for v
    using that by (simp add: assertTimestamp_def)
  note c' = c [unfolded manifest_ok_def]
  show ?thesis
    using c' by (simp only: parseMergeGateManifestCore_def json.case strings arrays fixed plan by_method by_number required
      ids shas digests times mapM_same bindR_simps guardR_simps simp_thms) (simp add: manifest_core.equality)
qed

lemma plan_key_sorted: "plan_ok (map_option key_sorted (map_of ms ''postMergePlan''))"
  if "manifestCoreJson c = JObj ms"
proof -
  have "map_of ms ''postMergePlan'' = Some (JObj [(''readbackRequired'', JBool True), (''retainTaskBranch'', JBool True),
      (''verifyBaseContainsHead'', JBool True)])"
    using that by (auto simp: manifestCoreJson_def)
  then show ?thesis
    by (simp add: plan_ok_def sort_key_def)
qed

lemma manifest_wf: "wf_json (manifestCoreJson c)"
  by (simp add: manifestCoreJson_def list_all_iff)

text \<open>C33 (roundtrip).
  A valid manifest, printed canonically, is read back by the JSON parser and the manifest parser
  as the same manifest.\<close>

theorem manifest_round_trip:
  assumes "manifest_ok E c"
  shows "map_option (parseMergeGateManifestCore E) (json_parse (canonicalJson (manifestCoreJson c))) = Some (Inr c)"
proof -
  obtain ms where ms: "manifestCoreJson c = JObj ms"
    by (simp add: manifestCoreJson_def)
  then have "distinct (map fst ms)"
    using manifest_wf [of c] by simp
  then have "parseMergeGateManifestCore E (key_sorted (manifestCoreJson c)) = Inr c"
    unfolding ms key_sorted.simps
    by (intro parse_members [OF assms _ ms]) (simp_all only: sorted_members plan_key_sorted [OF ms])
  then show ?thesis
    using parse_canonical [OF manifest_wf, of c] by simp
qed

definition demo_core :: manifest_core where
  "demo_core =
     \<lparr>mc_repo_id = ''r'', mc_task_id = ''t'', mc_repository_id = ''R_1'', mc_name_with_owner = ''o/n'', mc_pr_id = ''PR_1'',
      mc_pr_number = 7, mc_base_branch = ''main'', mc_base = replicate 40 (CHR ''c''), mc_task_branch = ''chat-pro/tasks/s'',
      mc_head = replicate 40 (CHR ''a''), mc_tree = replicate 40 (CHR ''b''), mc_merge_method = Method_Squash,
      mc_run_ids = [''12''], mc_thread_ids = [], mc_ci_status_id = ''ci_status_1'', mc_ci_digest = replicate 64 (CHR ''0''),
      mc_validation_id = ''v'', mc_validation_digest = replicate 64 (CHR ''0''), mc_review_id = ''w'',
      mc_review_digest = replicate 64 (CHR ''0''), mc_review_required = True, mc_prepared_at = ''T'', mc_expires_at = ''T''\<rparr>"

lemma demo_core_ok: "manifest_ok demo_gh demo_core"
proof -
  have "ge_date demo_gh v \<noteq> None" for v
    by (simp add: demo_gh_def)
  moreover have "manifest_ok (demo_gh\<lparr>ge_date := \<lambda>_. Some 0\<rparr>) demo_core"
    by code_simp
  ultimately show ?thesis
    by (simp add: manifest_ok_def)
qed

theorem manifest_round_trip_witness:
  "map_option (parseMergeGateManifestCore demo_gh) (json_parse (canonicalJson (manifestCoreJson demo_core))) = Some (Inr demo_core)"
  by (rule manifest_round_trip) (rule demo_core_ok)

end
