(* ===== verification/Approval_Properties.thy ===== *)
theory Approval_Properties
  imports Github_Safety
begin

text \<open>
  Owner approvals from creation to consumption: a created approval can be claimed while it is
  not expired, and a claimed one belongs to its operation for good.
\<close>

section \<open>What the files say\<close>

lemma parse_record_members:
  assumes "approval_id_ok (oa_id r)" "assertGateId (oa_gate r) (oa_gate_sha r) = Inr (oa_gate r)" "hex_n 64 (oa_gate_sha r)"
    "ge_date E (oa_issued_at r) \<noteq> None" "ge_date E (oa_expires_at r) \<noteq> None"
    "\<not> oa_consumed r" "oa_consumed_at r = None" "oa_consumed_by r = None"
  shows "parseApprovalRecord E (key_sorted (approvalRecordJson r)) = Inr r"
proof -
  have "key_sorted (approvalRecordJson r) = JObj
     [(''approvalId'', JStr (oa_id r)), (''consumed'', JBool False), (''expiresAt'', JStr (oa_expires_at r)),
      (''gateId'', JStr (oa_gate r)), (''gateSha256'', JStr (oa_gate_sha r)), (''issuedAt'', JStr (oa_issued_at r))]"
    by (simp add: approvalRecordJson_def sort_key_def)
  moreover have "sort approval_keys = approval_keys"
    by (simp add: approval_keys_def)
  ultimately show ?thesis
    using assms
    by (simp add: parseApprovalRecord_def string_member_def approval_keys_def assertApprovalId_def assertGateDigest_def
        assertApprovalTimestamp_def del: bindR_Inr_iff)
qed

section \<open>A calm file system\<close>

definition calm :: "'w gh_env \<Rightarrow> bool" where
  "calm E \<longleftrightarrow> (\<forall>w. fst (ge_approval_directory E w) = Inr () \<and> fst (ge_read_fault E w) = Inr ()
     \<and> fst (ge_sync E w) = Inr () \<and> fst (ge_excl_fault E w) = Excl_Ok)"

lemma calm_steps:
  assumes "calm E"
  shows "\<exists>w'. ge_approval_directory E w = (Inr (), w')" "\<exists>w'. ge_read_fault E w = (Inr (), w')"
    "\<exists>w'. ge_sync E w = (Inr (), w')" "\<exists>w'. ge_excl_fault E w = (Excl_Ok, w')"
  using assms unfolding calm_def by (metis prod.collapse)+

lemma wp_approvalDirectory:
  "calm E \<Longrightarrow> (\<And>w. Q () (s\<lparr>rt_world := w\<rparr>)) \<Longrightarrow> wp (approvalDirectory E) Q R s"
  using calm_steps(1) [of E "rt_world s"] by (auto simp: approvalDirectory_def wp_simps)

lemma wp_syncDirectory: "calm E \<Longrightarrow> (\<And>w. Q () (s\<lparr>rt_world := w\<rparr>)) \<Longrightarrow> wp (syncDirectory E) Q R s"
  using calm_steps(3) [of E "rt_world s"] by (auto simp: syncDirectory_def wp_simps)

lemma wp_readSecureFile:
  assumes "calm E" "map_of (gs_approvals s) name = Some f" "af_secure f" "utf8_length (af_text f) \<noteq> 0"
    "utf8_length (af_text f) \<le> 16384" "\<And>w. Q (af_text f) (s\<lparr>rt_world := w\<rparr>)"
  shows "wp (readSecureFile E name c) Q R s"
  using assms calm_steps(2) [of E "rt_world s"] by (auto simp: readSecureFile_def wp_simps)

lemma wp_write_calm:
  assumes "calm E" "map_of (gs_approvals s) name = None" "\<And>w. Q () (put_approval name (file_text v) (s\<lparr>rt_world := w\<rparr>))"
  shows "wp (writeExclusiveFile E name v) Q R s"
  using assms calm_steps(4) [of E "rt_world s"] by (auto simp: writeExclusiveFile_def wp_simps)

lemma wp_assertSecureFile:
  assumes "calm E" "map_of (gs_approvals s) name = Some f" "af_secure f" "\<And>w. Q () (s\<lparr>rt_world := w\<rparr>)"
  shows "wp (assertSecureFile E name) Q R s"
  using assms calm_steps(2) [of E "rt_world s"] by (auto simp: assertSecureFile_def wp_simps)

lemma file_text_nonempty: "0 < utf8_length (file_text v)"
  by (simp add: utf8_length_def file_text_def code_of_def)

section \<open>Creating\<close>

definition issued :: "'w gh_env \<Rightarrow> gate_ref \<Rightarrow> owner_approval \<Rightarrow> bool" where
  "issued E i r \<longleftrightarrow> approval_id_ok (oa_id r) \<and> oa_gate r = gr_gate i \<and> oa_gate_sha r = gr_sha i
     \<and> assertGateId (gr_gate i) (gr_sha i) = Inr (gr_gate i) \<and> hex_n 64 (gr_sha i)
     \<and> \<not> oa_consumed r \<and> oa_consumed_at r = None \<and> oa_consumed_by r = None"

lemma assert_same:
  "assertGateId g d = Inr x \<Longrightarrow> x = g" "assertGateDigest d = Inr y \<Longrightarrow> y = d \<and> hex_n 64 d"
  "assertApprovalId a = Inr z \<Longrightarrow> z = a \<and> approval_id_ok a"
  by (auto simp: assertGateId_def assertGateDigest_def assertApprovalId_def split: if_splits)

lemma wp_written:
  assumes "\<And>w. map_of (gs_approvals s) name = None \<Longrightarrow> Q () (put_approval name (file_text v) (s\<lparr>rt_world := w\<rparr>))"
  shows "wp (writeExclusiveFile E name v) Q (\<lambda>_ _. True) s"
  by (rule wp_writeExclusiveFile) (use assms in simp_all)

lemma create_approval_returns:
  fixes E :: "'w gh_env"
  shows "returns (\<lambda>u :: ('w, 'z) gh_state_scheme. gs_approvals u = files) (create_approval E i ttl)
     (\<lambda>r t. issued E i r \<and> map_of (gs_approvals t)
        = (map_of files)(approval_name (oa_id r) \<mapsto> \<lparr>af_secure = True, af_text = file_text (approvalRecordJson r)\<rparr>))"
proof -
  let ?P = "\<lambda>u :: ('w, 'z) gh_state_scheme. gs_approvals u = files"
  let ?file = "\<lambda>r. \<lparr>af_secure = True, af_text = file_text (approvalRecordJson r)\<rparr>"
  let ?W = "\<lambda>r u :: ('w, 'z) gh_state_scheme. map_of (gs_approvals u) = (map_of files)(approval_name (oa_id r) \<mapsto> ?file r)"
  have same: "ignores_world ?P" "ignores_world (?W r)" for r
    by (simp_all add: ignores_world_def)
  have wrote: "returns ?P (writeExclusiveFile E (approval_name (oa_id r)) (approvalRecordJson r)) (\<lambda>_. ?W r)" for r
    by (rule returns_wp, rule wp_written) (simp add: put_approval_def)
  have finish: "returns (?W r) (bindE (assertSecureFile E n) (\<lambda>_. bindE (syncDirectory E) (\<lambda>_. ret r)))
      (\<lambda>r t. issued E i r \<and> ?W r t)" if "issued E i r" for r n
    using that by (intro returns_bindE [OF returns_keeps] pres_intros same returns_ret) simp
  have store: "returns ?P (bindE (approvalDirectory E) (\<lambda>_. bindE (writeExclusiveFile E (approval_name (oa_id r)) (approvalRecordJson r)) (\<lambda>_.
      bindE (assertSecureFile E n) (\<lambda>_. bindE (syncDirectory E) (\<lambda>_. ret r))))) (\<lambda>r t. issued E i r \<and> ?W r t)"
    if "issued E i r" for r n
    by (rule returns_bindE [OF returns_keeps [OF keeps_approvalDirectory [OF same(1)]]],
      rule returns_bindE [OF wrote finish [OF that]])
  show ?thesis
    unfolding create_approval_def Let_def
    by (rule fact_liftR, rule fact_liftR, rule fact_liftR, rule returns_bindE [OF returns_keeps [OF keeps_readG [OF same(1)]]],
        rule fact_liftR, rule returns_bindE [OF returns_keeps [OF keeps_readG [OF same(1)]]],
        rule store [where r = "\<lparr>oa_id = i', oa_gate = g, oa_gate_sha = d, oa_issued_at = a, oa_expires_at = b,
          oa_consumed = False, oa_consumed_at = None, oa_consumed_by = None\<rparr>" for i' g d a b, simplified])
      (auto simp: issued_def dest: assert_same)
qed

section \<open>Claiming\<close>

lemma wp_inspect:
  assumes calm: "calm E"
    and stored: "map_of (gs_approvals s) (approval_name a) = Some \<lparr>af_secure = True, af_text = file_text (approvalRecordJson r)\<rparr>"
    and free: "map_of (gs_approvals s) (claim_name a) = None" and r: "issued E i r" "oa_id r = a"
    and size: "utf8_length (file_text (approvalRecordJson r)) \<le> 16384"
    and dates: "ge_date E (oa_issued_at r) \<noteq> None" "ge_date E (oa_expires_at r) \<noteq> None"
    and fresh: "\<And>w. \<not> approval_expired E r (fst (ge_now E w))"
    and Q: "\<And>w. Q r (s\<lparr>rt_world := w\<rparr>)"
  shows "wp (inspect_approval E a i) Q R s"
proof -
  have parsed: "json_parse (file_text (approvalRecordJson r)) = Some (key_sorted (approvalRecordJson r))"
    by (rule parse_file_text) (simp add: approvalRecordJson_def)
  have reads: "parseApprovalRecord E (key_sorted (approvalRecordJson r)) = Inr r"
    using r dates by (intro parse_record_members) (simp_all add: issued_def)
  have ids: "assertApprovalId a = Inr a" "assertGateId (gr_gate i) (gr_sha i) = Inr (gr_gate i)" "assertGateDigest (gr_sha i) = Inr (gr_sha i)"
    using r by (auto simp: issued_def assertApprovalId_def assertGateDigest_def)
  have gate: "oa_gate r = gr_gate i" "oa_gate_sha r = gr_sha i"
    using r(1) by (simp_all add: issued_def)
  have last: "wp (bindE (readClaimIfPresent E r) (\<lambda>claim. case claim of
       Some c \<Rightarrow> ret (r\<lparr>oa_consumed := True, oa_consumed_at := Some (ac_consumed_at c), oa_consumed_by := Some (ac_operation c)\<rparr>)
     | None \<Rightarrow> bindE (readG (ge_now E)) (\<lambda>now. bindE (throw_if (approval_expired E r now) (boundary ''APPROVAL_EXPIRED'')) (\<lambda>_.
         ret r)))) Q R (s\<lparr>rt_world := w\<rparr>)" for w
    using free fresh [of w] Q r(2)
    by (auto simp: wp_simps readClaimIfPresent_def readSecureFile_def hasCode_def err_code_def split: prod.split)
  have there: "map_of (gs_approvals (s\<lparr>rt_world := w\<rparr>)) (approval_name a)
      = Some \<lparr>af_secure = True, af_text = file_text (approvalRecordJson r)\<rparr>" for w
    using stored by simp
  show ?thesis
    unfolding inspect_approval_def ids bindE_liftR wp_bindE
    by (rule wp_approvalDirectory [OF calm], rule wp_readSecureFile [OF calm there])
      (simp_all add: size file_text_nonempty parsed reads wp_simps gate last [unfolded wp_bindE])
qed

lemma wp_claim:
  assumes calm: "calm E"
    and stored: "map_of (gs_approvals s) (approval_name a) = Some \<lparr>af_secure = True, af_text = file_text (approvalRecordJson r)\<rparr>"
    and free: "map_of (gs_approvals s) (claim_name a) = None" and r: "issued E i r" "oa_id r = a"
    and size: "utf8_length (file_text (approvalRecordJson r)) \<le> 16384"
    and dates: "ge_date E (oa_issued_at r) \<noteq> None" "ge_date E (oa_expires_at r) \<noteq> None"
    and fresh: "\<And>w. \<not> approval_expired E r (fst (ge_now E w))" and p: "id_regex 0 199 p"
  shows "wp (claim_approval E a i p) (\<lambda>r' u. oa_consumed r' \<and> oa_consumed_by r' = Some p) (\<lambda>_ _. False) s"
proof -
  have put: "map_of (gs_approvals (put_approval n b u)) n = Some \<lparr>af_secure = True, af_text = b\<rparr>" for n b and u :: "('a, 'b) gh_state_scheme"
    by (simp add: put_approval_def)
  have world: "map_of (gs_approvals (u\<lparr>rt_world := w\<rparr>)) = map_of (gs_approvals u)" for w and u :: "('a, 'b) gh_state_scheme"
    by simp
  have ident: "assertSafeIdentifier p = Inr p"
    using p by simp
  have claim: "wp (bindE (throw_if (oa_consumed r) (boundary ''APPROVAL_CONSUMED'')) (\<lambda>_.
      bindE (approvalDirectory E) (\<lambda>_. bindE (now_text E) (\<lambda>consumed_at. catchE
       (bindE (writeExclusiveFile E (claim_name (oa_id r)) (approvalClaimJson \<lparr>ac_id = oa_id r, ac_gate = oa_gate r,
           ac_gate_sha = oa_gate_sha r, ac_operation = p, ac_consumed_at = consumed_at\<rparr>)) (\<lambda>_.
        bindE (assertSecureFile E (claim_name (oa_id r))) (\<lambda>_. bindE (syncDirectory E) (\<lambda>_.
        ret (r\<lparr>oa_consumed := True, oa_consumed_at := Some consumed_at, oa_consumed_by := Some p\<rparr>)))))
       (observe_claim E r p))))) (\<lambda>r' u. oa_consumed r' \<and> oa_consumed_by r' = Some p) (\<lambda>_ _. False) (s\<lparr>rt_world := w\<rparr>)" for w
  proof -
    have "\<not> oa_consumed r"
      using r(1) by (simp add: issued_def)
    then show ?thesis
      unfolding wp_bindE wp_catchE now_text_def
      apply (simp add: wp_throw_if)
      apply (rule wp_approvalDirectory [OF calm])
      apply (simp add: wp_simps split: prod.split)
      apply (intro allI impI)
      apply (rule wp_write_calm [OF calm])
       apply (simp add: free r(2))
      apply (rule wp_assertSecureFile [OF calm])
        apply (simp only: world put)
       apply simp
      apply (rule wp_syncDirectory [OF calm])
      apply (simp add: wp_simps)
      done
  qed
  show ?thesis
    unfolding claim_approval_def Let_def ident bindE_liftR
    by (subst wp_bindE, rule wp_inspect [OF calm stored free r size dates fresh], rule claim)
qed

section \<open>An approval to apply the properties to\<close>

definition demo_calm :: "(bool \<times> bool) gh_env" where
  "demo_calm = demo_gh\<lparr>ge_approval_directory := (\<lambda>w. (Inr (), w)), ge_opaque_id := (\<lambda>w. (replicate 16 (CHR ''a''), w)),
     ge_date := (\<lambda>_. Some 1)\<rparr>"

definition demo_gate :: gate_ref where
  "demo_gate = \<lparr>gr_gate = ''merge_manifest_'' @ replicate 64 (CHR ''0''), gr_sha = replicate 64 (CHR ''0'')\<rparr>"

definition demo_approval :: owner_approval where
  "demo_approval =
     \<lparr>oa_id = ''merge_approval_'' @ replicate 16 (CHR ''a''), oa_gate = ''merge_manifest_'' @ replicate 64 (CHR ''0''),
      oa_gate_sha = replicate 64 (CHR ''0''), oa_issued_at = ''T'', oa_expires_at = ''T'', oa_consumed = False,
      oa_consumed_at = None, oa_consumed_by = None\<rparr>"

definition demo_approved :: "(bool \<times> bool) gh_state" where
  "demo_approved = put_approval (approval_name (oa_id demo_approval)) (file_text (approvalRecordJson demo_approval)) demo_gh_state"

lemma demo_calm_fields:
  "ge_opaque_id demo_calm w = (replicate 16 (CHR ''a''), w)" "ge_now demo_calm w = (0, w)" "ge_iso demo_calm n = ''T''"
  "ge_approval_directory demo_calm w = (Inr (), w)" "ge_excl_fault demo_calm w = (Excl_Ok, w)"
  "ge_read_fault demo_calm w = (Inr (), w)" "ge_sync demo_calm w = (Inr (), w)" "gs_approvals demo_gh_state = []"
  by (simp_all add: demo_calm_def demo_gh_def demo_gh_state_def)

lemma demo_calm_calm: "calm demo_calm"
  by (simp add: calm_def demo_calm_def demo_gh_def)

lemma demo_gate_ok:
  "assertGateId (gr_gate demo_gate) (gr_sha demo_gate) = Inr (gr_gate demo_gate)"
  "assertGateDigest (gr_sha demo_gate) = Inr (gr_sha demo_gate)" "hex_n 64 (gr_sha demo_gate)"
  "assertApprovalId (''merge_approval_'' @ replicate 16 (CHR ''a'')) = Inr (oa_id demo_approval)"
  "assertTtl 1000 = Inr ()" "approval_id_ok (oa_id demo_approval)"
  by code_simp+

lemma demo_create: "create_approval demo_calm demo_gate 1000 demo_gh_state = (Inr demo_approval, demo_approved)"
proof -
  have r: "\<lparr>oa_id = oa_id demo_approval, oa_gate = gr_gate demo_gate, oa_gate_sha = gr_sha demo_gate, oa_issued_at = ''T'',
     oa_expires_at = ''T'', oa_consumed = False, oa_consumed_at = None, oa_consumed_by = None\<rparr> = demo_approval"
    by (simp add: demo_approval_def demo_gate_def)
  show ?thesis
    unfolding create_approval_def demo_gate_ok bindE_liftR
    by (simp add: eff_defs readG_def askG_def demo_calm_fields demo_gate_ok(4) [simplified] r approvalDirectory_def
        syncDirectory_def writeExclusiveFile_def assertSecureFile_def demo_approved_def put_approval_def Let_def)
qed

lemma demo_approval_facts:
  "utf8_length (file_text (approvalRecordJson demo_approval)) \<le> 16384"
  "ge_date demo_calm x \<noteq> None" "\<not> approval_expired demo_calm demo_approval (fst (ge_now demo_calm w))"
  "map_of (gs_approvals demo_gh_state) (claim_name (oa_id demo_approval)) = None" "issued demo_calm demo_gate demo_approval"
proof -
  show "utf8_length (file_text (approvalRecordJson demo_approval)) \<le> 16384"
    by code_simp
  show "issued demo_calm demo_gate demo_approval"
    using demo_gate_ok by (simp add: issued_def) (simp add: demo_approval_def demo_gate_def)
qed (simp_all add: demo_calm_def demo_gh_def approval_expired_def demo_gh_state_def)

section \<open>The properties\<close>

text \<open>C19 (liveness).
  On a file system without faults, an approval the owner just created and that has not
  expired can be claimed: the claim returns it consumed by the operation, and the claim file
  names the operation and the approved gate.\<close>

theorem created_approval_can_be_claimed:
  assumes "calm E" "create_approval E i ttl s = (Inr r, t)" "map_of (gs_approvals s) (claim_name (oa_id r)) = None"
    "utf8_length (file_text (approvalRecordJson r)) \<le> 16384"
    "ge_date E (oa_issued_at r) \<noteq> None" "ge_date E (oa_expires_at r) \<noteq> None"
    "\<And>w. \<not> approval_expired E r (fst (ge_now E w))" "id_regex 0 199 p"
  shows "\<exists>r' u. claim_approval E (oa_id r) i p t = (Inr r', u) \<and> oa_consumed_by r' = Some p
     \<and> claimed_by u (oa_id r') p (gr_sha i)"
proof -
  have made: "issued E i r" "map_of (gs_approvals t) = (map_of (gs_approvals s))(approval_name (oa_id r) \<mapsto>
      \<lparr>af_secure = True, af_text = file_text (approvalRecordJson r)\<rparr>)"
    using returnsD [OF create_approval_returns _ assms(2), of "gs_approvals s"] by simp_all
  have "approval_name (oa_id r) \<noteq> claim_name (oa_id r)"
    by (simp add: approval_name_def claim_name_def)
  with assms(3) made(2) have "wp (claim_approval E (oa_id r) i p) (\<lambda>r' u. oa_consumed r' \<and> oa_consumed_by r' = Some p) (\<lambda>_ _. False) t"
    by (intro wp_claim [OF assms(1) _ _ made(1) refl assms(4-8)]) simp_all
  moreover obtain x u where run: "claim_approval E (oa_id r) i p t = (x, u)"
    by (cases "claim_approval E (oa_id r) i p t")
  ultimately obtain r' where "x = Inr r'" "oa_consumed_by r' = Some p"
    by (cases x) (auto simp: wp_def)
  with run show ?thesis
    using returnsD [OF claim_approval_claims _ run [unfolded \<open>x = Inr r'\<close>]] by auto
qed

theorem created_approval_can_be_claimed_witness:
  "\<exists>r' u. claim_approval demo_calm (oa_id demo_approval) demo_gate ''operation-1'' demo_approved = (Inr r', u)
     \<and> oa_consumed_by r' = Some ''operation-1'' \<and> claimed_by u (oa_id r') ''operation-1'' (gr_sha demo_gate)"
proof (rule created_approval_can_be_claimed [OF demo_calm_calm demo_create demo_approval_facts(4,1,2,2,3)])
  show "id_regex 0 199 ''operation-1''"
    by code_simp
qed

lemma demo_claim: "\<exists>r t. claim_approval demo_calm (oa_id demo_approval) demo_gate ''operation-1'' demo_approved = (Inr r, t)"
proof -
  have there: "map_of (gs_approvals demo_approved) (approval_name (oa_id demo_approval))
      = Some \<lparr>af_secure = True, af_text = file_text (approvalRecordJson demo_approval)\<rparr>"
    "map_of (gs_approvals demo_approved) (claim_name (oa_id demo_approval)) = None"
    by (simp_all add: demo_approved_def put_approval_def demo_calm_fields approval_name_def claim_name_def)
  have "id_regex 0 199 ''operation-1''"
    by code_simp
  then have "wp (claim_approval demo_calm (oa_id demo_approval) demo_gate ''operation-1'')
      (\<lambda>r' u. oa_consumed r' \<and> oa_consumed_by r' = Some ''operation-1'') (\<lambda>_ _. False) demo_approved"
    by (rule wp_claim [OF demo_calm_calm there demo_approval_facts(5) refl demo_approval_facts(1,2,2,3)])
  then show ?thesis
    by (cases "claim_approval demo_calm (oa_id demo_approval) demo_gate ''operation-1'' demo_approved")
      (auto simp: wp_def split: sum.splits)
qed

text \<open>C18 (safety).
  An approval that one operation has claimed is never claimed by another: as long as its claim
  file stays, a claim of the same approval by a different operation fails, whatever the file
  system answers.\<close>

theorem claimed_approval_stays_with_its_operation:
  assumes "claim_approval E a i p s = (Inr r, t)" "approvals_kept t u" "q \<noteq> p"
  shows "case fst (claim_approval E' b j q u) of Inl _ \<Rightarrow> True | Inr r' \<Rightarrow> oa_id r' \<noteq> oa_id r"
proof (cases "claim_approval E' b j q u")
  case (Pair x v)
  show ?thesis
  proof (cases x)
    case (Inr r')
    have "claimed_by t (oa_id r) p (gr_sha i)"
      using returnsD [OF claim_approval_claims _ assms(1)] by simp
    moreover have "approvals_kept u v"
      using keeps_claim_approval [OF approvals_kept_frame, THEN keepsD, of u u E' b j q] Pair
      by (simp add: approvals_kept_def)
    ultimately have "claimed_by v (oa_id r) p (gr_sha i)"
      using assms(2) approvals_kept_claimed by blast
    moreover have "claimed_by v (oa_id r') q (gr_sha j)"
      using returnsD [OF claim_approval_claims _ Pair [unfolded Inr]] by simp
    ultimately show ?thesis
      using assms(3) claimed_by_unique Pair Inr by fastforce
  qed (simp add: Pair)
qed

theorem claimed_approval_stays_with_its_operation_witness:
  "\<exists>r t. claim_approval demo_calm (oa_id demo_approval) demo_gate ''operation-1'' demo_approved = (Inr r, t)
     \<and> (case fst (claim_approval demo_calm (oa_id demo_approval) demo_gate ''operation-2'' t) of
          Inl _ \<Rightarrow> True | Inr r' \<Rightarrow> oa_id r' \<noteq> oa_id r)"
proof -
  obtain r t where claim: "claim_approval demo_calm (oa_id demo_approval) demo_gate ''operation-1'' demo_approved = (Inr r, t)"
    using demo_claim by blast
  have "approvals_kept t t" "''operation-2'' \<noteq> ''operation-1''"
    by (simp_all add: approvals_kept_def)
  from claim claimed_approval_stays_with_its_operation [OF claim this] show ?thesis
    by (intro exI conjI)
qed

end
