(* ===== verification/Ci_Properties.thy ===== *)
theory Ci_Properties
  imports Github_Safety
begin

text \<open>
  Paging and continuous integration: how far the loops go, that they end, and what the overall
  status of a commit means.
\<close>

section \<open>The loop over check runs\<close>

lemma check_turn_result:
  "check_turn E r h page expected checks s = (Inr (cs, tot, again), t) \<Longrightarrow>
     tot \<le> 10000 \<and> (again \<longrightarrow> page \<noteq> 100)"
  by (auto simp: check_turn_def Let_def bindE_def throw_if_def throw_def ret_def split: prod.splits sum.splits if_splits)

text \<open>With a page for every number up to 100 the loop ends by itself: more pages change nothing.\<close>

lemma check_pages_final:
  "left + page = 101 \<Longrightarrow> 0 < left \<Longrightarrow> check_pages E r h (left + extra) page expected checks s = check_pages E r h left page expected checks s"
proof (induction left arbitrary: page expected checks s)
  case (Suc left)
  show ?case
  proof (cases "check_turn E r h page expected checks s")
    case (Pair x t)
    show ?thesis
    proof (cases x)
      case (Inr y)
      obtain cs tot again where y: "y = (cs, tot, again)"
        by (cases y)
      show ?thesis
      proof (cases again)
        case True
        with check_turn_result Pair Inr y have "page \<noteq> 100"
          by blast
        with Suc.prems have "0 < left" "left + (page + 1) = 101"
          by auto
        with Suc.IH [OF this(2,1)] True Pair Inr y show ?thesis
          by (simp add: bindE_def)
      qed (use Pair Inr y in \<open>simp add: bindE_def\<close>)
    qed (use Pair in \<open>simp add: bindE_def\<close>)
  qed
qed simp

lemma check_pages_total:
  "left + page = 101 \<Longrightarrow> 0 < left \<Longrightarrow> check_pages E r h left page expected checks s = (Inr (cs, tot), t)
   \<Longrightarrow> \<exists>n. tot = Some n \<and> n \<le> 10000"
proof (induction left arbitrary: page expected checks s)
  case (Suc left)
  from Suc.prems(3) obtain cs' n again u where turn: "check_turn E r h page expected checks s = (Inr (cs', n, again), u)"
    and rest: "(if again then check_pages E r h left (page + 1) (Some n) cs' else ret (cs', Some n)) u = (Inr (cs, tot), t)"
    by (auto simp: bindE_def split: prod.splits sum.splits)
  from check_turn_result [OF turn] have n: "n \<le> 10000" "again \<longrightarrow> page \<noteq> 100"
    by auto
  show ?case
  proof (cases again)
    case True
    with n Suc.prems have "left + (page + 1) = 101" "0 < left"
      by auto
    with Suc.IH [OF this] rest True show ?thesis
      by auto
  qed (use rest n in \<open>auto simp: ret_def\<close>)
qed simp

text \<open>The check runs collected for a commit are at most 10000 and have distinct ids, whatever pages
  GitHub returns.\<close>

lemma check_runs_bounded:
  "case fst (collectCheckRuns E task sha s) of Inr cs \<Rightarrow> length cs \<le> 10000 \<and> distinct (map ck_id cs) | Inl _ \<Rightarrow> True"
proof -
  have "returns (\<lambda>_. True) (check_pages E (sv_repository task) sha 100 1 None []) (\<lambda>x _. \<exists>n. snd x = Some n \<and> n \<le> 10000)"
    unfolding returns_def using check_pages_total [where left = 100 and page = 1] by (auto split: prod.splits)
  then have "returns (\<lambda>_. True) (collectCheckRuns E task sha) (\<lambda>cs _. length cs \<le> 10000 \<and> distinct (map ck_id cs))"
    unfolding collectCheckRuns_def by (rule fact_bindE) (intro fact_case_prod fact_guard fact_ret, auto)
  then show ?thesis
    by (cases "collectCheckRuns E task sha s") (auto dest: returnsD split: sum.split)
qed

text \<open>A hundred pages are enough: giving the loop any number of further pages never changes what it
  does.\<close>

lemma check_paging_ends:
  "check_pages E repository sha (100 + extra) 1 None [] s = check_pages E repository sha 100 1 None [] s"
  using check_pages_final [of 100 1] by simp

section \<open>The loop over review threads\<close>







text \<open>Pages that are empty and name a fresh cursor each.\<close>

definition endless :: "'w gh_env \<Rightarrow> pull_request \<Rightarrow> 'w gh_env" where
  "endless E pr = E\<lparr>ge_threads_page := (\<lambda>_ _ _ c w. (Inr \<lparr>tp_pr_id = pr_id pr, tp_pr_number = pr_number pr, tp_head = pr_head pr,
     tp_threads = [], tp_next_cursor = Some (CHR ''x'' # (case c of None \<Rightarrow> [] | Some x \<Rightarrow> x))\<rparr>, w))\<rparr>"

lemma endless_turn:
  assumes "0 < m" "\<And>x. x \<in> set seen \<Longrightarrow> length x \<le> (case c of None \<Rightarrow> 0 | Some x \<Rightarrow> length x)"
  defines "next \<equiv> CHR ''x'' # (case c of None \<Rightarrow> [] | Some x \<Rightarrow> x)"
  shows "thread_turn (endless E pr) r pr m [] seen c s = (Inr ([], Some (next # seen, next)), s)"
proof -
  have "next \<notin> set seen"
    using assms(2) by (fastforce simp: next_def split: option.splits)
  with assms(1) show ?thesis
    by (simp add: thread_turn_def endless_def bindE_def throw_if_def throw_def ret_def askG_def next_def)
qed

lemma endless_loop:
  "0 < m \<Longrightarrow> (\<And>x. x \<in> set seen \<Longrightarrow> length x \<le> (case c of None \<Rightarrow> 0 | Some x \<Rightarrow> length x))
   \<Longrightarrow> thread_loop (endless E pr) r pr m fuel [] seen c s = (Inl out_of_fuel, s)"
proof (induction fuel arbitrary: seen c)
  case 0
  show ?case
    by (simp add: throw_def)
next
  case (Suc fuel)
  let ?next = "CHR ''x'' # (case c of None \<Rightarrow> [] | Some x \<Rightarrow> x)"
  have "length x \<le> (case Some ?next of None \<Rightarrow> 0 | Some x \<Rightarrow> length x)" if "x \<in> set (?next # seen)" for x
    using that Suc.prems(2) [of x] by (auto split: option.splits)
  with Suc.IH [OF Suc.prems(1), of "?next # seen" "Some ?next"] show ?case
    by (simp add: bindE_def endless_turn [OF Suc.prems])
qed

text \<open>The loop over review threads has no bound of its own: with pages that are empty and name a
  cursor not seen before, it is still running after any number of turns.\<close>

lemma empty_pages_never_end:
  "thread_loop (endless E pr) repository pr 500 fuel [] [] None s = (Inl out_of_fuel, s)"
  by (rule endless_loop) simp_all

section \<open>The overall status\<close>

text \<open>The overall CI status is success exactly when every required check succeeded, or, with none
  required, when anything ran at all and every workflow run completed with success.\<close>

lemma ci_success_iff:
  "overallCiStatus required runs n = CI_success \<longleftrightarrow>
     (if required = [] then \<not> (n = 0 \<and> runs = [])
        \<and> list_all (\<lambda>r. wr_status r = RUN_completed \<and> wr_conclusion r = Some ''success'') runs
      else list_all (\<lambda>c. co_status c = CHK_success) required)"
proof -
  have "x = CHK_success \<longleftrightarrow> \<not> (x = CHK_failure \<or> x = CHK_missing) \<and> x \<noteq> CHK_pending" for x
    by (cases x) simp_all
  then show ?thesis
    unfolding overallCiStatus_def by (auto simp: list_all_iff list_ex_iff)
qed

text \<open>Without required checks the check runs and commit statuses of other providers do not count: a
  commit with any of them and no workflow run reads success, even when all of them failed.\<close>

lemma external_checks_do_not_count:
  "checks \<noteq> [] \<or> statuses \<noteq> [] \<Longrightarrow> sv_required_checks task = [] \<Longrightarrow>
     map_sum id (\<lambda>required. overallCiStatus required [] (length checks + length statuses))
       (normalizeRequiredChecks task checks statuses) = Inr CI_success"
  by (auto simp: normalizeRequiredChecks_def overallCiStatus_def)

definition failing_check :: check_run where
  "failing_check = \<lparr>ck_id = 1, ck_name = ''ci'', ck_app = ''app'', ck_head = replicate 40 (CHR ''a''),
     ck_status = RUN_completed, ck_conclusion = Some ''failure''\<rparr>"

definition unchecked_task :: server_owned_task where
  "unchecked_task =
     \<lparr>sv_repo_id = ''r'', sv_task_id = ''t'', sv_root = ''/w'', sv_branch = ''b'', sv_remote_name = ''origin'',
      sv_remote_identity = ''github.com/o/n'', sv_repository = \<lparr>rr_owner = ''o'', rr_name = ''n''\<rparr>, sv_base_branch = ''main'',
      sv_merge_method = Method_Squash, sv_required_checks = [], sv_transient_conclusions = [], sv_independent_review = None\<rparr>"

lemma external_checks_do_not_count_witness:
  "checkRunStatus failing_check = CHK_failure
   \<and> map_sum id (\<lambda>required. overallCiStatus required [] (length [failing_check] + length ([] :: commit_status list)))
       (normalizeRequiredChecks unchecked_task [failing_check] []) = Inr CI_success"
  using external_checks_do_not_count [of "[failing_check]" "[]" unchecked_task]
  by (simp add: checkRunStatus_def failing_check_def unchecked_task_def)

end
