(* ===== verification/Identity_Properties.thy ===== *)
theory Identity_Properties
  imports Remote_Identity
begin

text \<open>
  Canonical remote identities: a host and a path are their own identity; a host with a port is
  not.
\<close>

definition plain_host :: "string \<Rightarrow> bool" where
  "plain_host h \<longleftrightarrow> h \<noteq> [] \<and> list_all (\<lambda>c. is_alnum c \<or> c \<in> set ''.-'') h \<and> to_lower h = h \<and> networked_host h"

definition plain_path :: "string \<Rightarrow> bool" where
  "plain_path p \<longleftrightarrow> p \<noteq> [] \<and> list_all (\<lambda>c. is_alnum c \<or> c \<in> set ''_./-'') p \<and> identity_path p = p
     \<and> list_all (\<lambda>s. s \<notin> {[], ''.'', ''..''}) (split_on (CHR ''/'') p)"

text \<open>The characters of an identity are not separators of the other forms.\<close>

definition plain_char :: "char \<Rightarrow> bool" where
  "plain_char c \<longleftrightarrow> \<not> is_space c \<and> c \<noteq> CHR '':'' \<and> c \<noteq> CHR ''@'' \<and> c \<noteq> CHR 0x00 \<and> c \<noteq> CHR 0x0A \<and> c \<noteq> CHR 0x0D"

lemma alnum_plain: "is_alnum c \<Longrightarrow> plain_char c \<and> c \<noteq> CHR ''/''"
proof -
  have "plain_char c \<and> c \<noteq> CHR ''/'' \<or> code_of c \<notin> {48..57} \<union> {65..90} \<union> {97..122}"
    by (auto simp: plain_char_def is_space_def code_of_def)
  moreover assume "is_alnum c"
  then have "code_of c \<in> {48..57} \<union> {65..90} \<union> {97..122}"
    by (auto simp: is_alnum_def is_digit_def is_lower_def is_upper_def char_between_def code_of_def)
  ultimately show ?thesis
    by blast
qed

lemma mark_plain: "list_all plain_char ''_./-''"
  by code_simp

lemma host_chars: "plain_host h \<Longrightarrow> c \<in> set h \<Longrightarrow> plain_char c \<and> c \<noteq> CHR ''/''"
  using alnum_plain [of c] mark_plain by (auto simp: plain_host_def list_all_iff)

lemma path_chars: "plain_path p \<Longrightarrow> c \<in> set p \<Longrightarrow> plain_char c"
  using alnum_plain [of c] mark_plain by (auto simp: plain_path_def list_all_iff)

lemma trim_same: "(\<And>c. c \<in> set s \<Longrightarrow> \<not> is_space c) \<Longrightarrow> trim s = s"
proof -
  assume s: "\<And>c. c \<in> set s \<Longrightarrow> \<not> is_space c"
  then have "dropWhile is_space s = s"
    by (cases s) auto
  moreover have "dropWhile is_space (rev s) = rev s"
    using s by (cases "rev s") (auto simp: dropWhile_eq_self_iff in_set_conv_decomp rev_eq_Cons_iff)
  ultimately show ?thesis
    by (simp add: trim_def)
qed

lemma plain_identity:
  "plain_host h \<Longrightarrow> plain_path p \<Longrightarrow> hostPathIdentity h [] p = Inr (h @ ''/'' @ p)"
  by (auto simp: hostPathIdentity_def plain_host_def plain_path_def Let_def list_ex_iff list_all_iff)

lemma after_scheme_none:
  assumes "take 3 (dropWhile (\<lambda>x. is_alnum x \<or> x \<in> set ''+.-'') (tl s)) \<noteq> ''://''"
  shows "after_scheme s = None"
  using assms by (cases s) (auto simp: after_scheme_def Let_def)

lemma scheme_char_stop:
  "list_all (\<lambda>c. is_alnum c \<or> c \<in> set ''.-'') h \<Longrightarrow> \<not> (is_alnum x \<or> x \<in> set ''+.-'')
   \<Longrightarrow> dropWhile (\<lambda>c. is_alnum c \<or> c \<in> set ''+.-'') (h @ x # rest) = x # rest"
  by (induction h) auto

lemma span_host:
  assumes "\<And>c. c \<in> set h \<Longrightarrow> P c" "\<not> P x"
  shows "takeWhile P (h @ x # rest) = h" "dropWhile P (h @ x # rest) = x # rest"
  using assms by (induction h) auto

lemma not_file:
  assumes h: "plain_host h" and x: "x = CHR '':'' \<or> x = CHR ''/''"
  shows "\<not> prefix ''file:'' (h @ x # rest)"
proof
  let ?P = "\<lambda>c. c \<noteq> CHR '':'' \<and> c \<noteq> CHR ''/''"
  assume "prefix ''file:'' (h @ x # rest)"
  then obtain r where "h @ x # rest = ''file:'' @ r"
    by (auto simp: prefix_def)
  moreover have "takeWhile ?P (h @ x # rest) = h"
    by (rule span_host) (use host_chars [OF h] x in \<open>auto simp: plain_char_def\<close>)
  ultimately have "h = ''file''"
    by (simp only:) simp
  with h show False
    by (auto simp: plain_host_def networked_host_def)
qed

lemma identity_start:
  assumes h: "plain_host h" and x: "x = CHR '':'' \<or> x = CHR ''/''" and rest: "\<And>c. c \<in> set rest \<Longrightarrow> plain_char c \<or> c = x"
    and scheme: "take 2 rest \<noteq> ''//''"
  shows "normalizeRemoteIdentity U (h @ x # rest) = (case scp_parts (h @ x # rest) of
       Some (host, path) \<Rightarrow> hostPathIdentity host [] path
     | None \<Rightarrow> (case slash_parts (h @ x # rest) of Some (host, path) \<Rightarrow> hostPathIdentity host [] path | None \<Rightarrow> identity_error))"
proof -
  let ?s = "h @ x # rest"
  have space: "\<not> is_space c" "c \<noteq> CHR 0x00" if "c \<in> set ?s" for c
    using that host_chars [OF h, of c] rest [of c] x by (auto simp: plain_char_def is_space_def code_of_def)
  have trim: "trim ?s = ?s"
    using space(1) by (rule trim_same)
  obtain c cs where hc: "h = c # cs"
    using h by (cases h) (auto simp: plain_host_def)
  with host_chars [OF h, of c] have absolute: "\<not> is_absolute_path ?s"
    by (auto simp: is_absolute_path_def)
  have "dropWhile (\<lambda>x. is_alnum x \<or> x \<in> set ''+.-'') (cs @ x # rest) = x # rest"
    by (rule scheme_char_stop) (use h hc x in \<open>auto simp: plain_host_def is_alnum_def is_digit_def is_lower_def is_upper_def
      char_between_def code_of_def\<close>)
  then have "after_scheme ?s = None"
    using scheme x unfolding hc by (auto simp: after_scheme_def Let_def take_Cons')
  moreover have "\<not> prefix ''file://'' ?s" "\<not> prefix ''file:'' ?s"
    using not_file [OF h x] prefix_order.trans [of "''file:''" "''file://''" ?s] by auto
  moreover have "?s \<noteq> []" "CHR 0x00 \<notin> set ?s"
    using space(2) by blast+
  ultimately show ?thesis
    unfolding normalizeRemoteIdentity_def trim Let_def using absolute by (simp only: if_False simp_thms option.case)
qed

text \<open>A library without URL parsing; identities without a scheme do not ask it.\<close>

definition no_urls :: url_lib where
  "no_urls = \<lparr>ul_parse = (\<lambda>_. None), ul_decode = Some\<rparr>"

section \<open>The properties\<close>

text \<open>A plain host and path without a port is its own canonical identity.\<close>

lemma plain_identity_is_canonical:
  assumes "plain_host h" "plain_path p"
  shows "normalizeRemoteIdentity U (h @ ''/'' @ p) = Inr (h @ ''/'' @ p)"
proof -
  let ?s = "h @ CHR ''/'' # p"
  have "take 2 p \<noteq> ''//''"
    using assms(2) by (cases p) (auto simp: plain_path_def)
  then have start: "normalizeRemoteIdentity U ?s = (case scp_parts ?s of
       Some (host, path) \<Rightarrow> hostPathIdentity host [] path
     | None \<Rightarrow> (case slash_parts ?s of Some (host, path) \<Rightarrow> hostPathIdentity host [] path | None \<Rightarrow> identity_error))"
    using path_chars [OF assms(2)] by (intro identity_start [OF assms(1)]) auto
  have "dropWhile (\<lambda>c. c \<noteq> CHR '':'' \<and> c \<noteq> CHR ''/'') ?s = CHR ''/'' # p"
    by (rule span_host) (use host_chars [OF assms(1)] in \<open>auto simp: plain_char_def\<close>)
  then have "scp_parts ?s = None"
    by (simp add: scp_parts_def Let_def)
  moreover have "takeWhile (\<lambda>c. c \<noteq> CHR ''/'') ?s = h" "dropWhile (\<lambda>c. c \<noteq> CHR ''/'') ?s = CHR ''/'' # p"
    by (rule span_host; use host_chars [OF assms(1)] in auto)+
  then have "slash_parts ?s = Some (h, p)"
    using assms by (auto simp: slash_parts_def Let_def plain_host_def plain_path_def list_all_iff)
  ultimately show ?thesis
    using start plain_identity [OF assms] by simp
qed

text \<open>A host with a port is never its own canonical identity: normalizing it once more reads the
  port as the first segment of the path.\<close>

lemma identity_with_port_is_not_canonical:
  assumes "plain_host h" "plain_path (q @ ''/'' @ p)" "q \<noteq> []" "list_all is_digit q"
  shows "normalizeRemoteIdentity U (h @ '':'' @ q @ ''/'' @ p) = Inr (h @ ''/'' @ q @ ''/'' @ p)
     \<and> h @ ''/'' @ q @ ''/'' @ p \<noteq> h @ '':'' @ q @ ''/'' @ p"
proof -
  let ?s = "h @ CHR '':'' # q @ CHR ''/'' # p"
  obtain d ds where q: "q = d # ds" "is_alnum d"
    using assms(3,4) by (cases q) (auto simp: is_alnum_def)
  then have "take 2 (q @ CHR ''/'' # p) \<noteq> ''//''"
    using alnum_plain [of d] by auto
  then have start: "normalizeRemoteIdentity U ?s = (case scp_parts ?s of
       Some (host, path) \<Rightarrow> hostPathIdentity host [] path
     | None \<Rightarrow> (case slash_parts ?s of Some (host, path) \<Rightarrow> hostPathIdentity host [] path | None \<Rightarrow> identity_error))"
    using path_chars [OF assms(2)] by (intro identity_start [OF assms(1)]) auto
  have parts: "takeWhile (\<lambda>c. c \<noteq> CHR '':'' \<and> c \<noteq> CHR ''/'') ?s = h"
    "dropWhile (\<lambda>c. c \<noteq> CHR '':'' \<and> c \<noteq> CHR ''/'') ?s = CHR '':'' # q @ CHR ''/'' # p"
    by (rule span_host; use host_chars [OF assms(1)] in \<open>auto simp: plain_char_def\<close>)+
  have user: "takeWhile (\<lambda>c. c \<noteq> CHR ''@'') h = h"
    using host_chars [OF assms(1)] by (auto simp: takeWhile_eq_all_conv plain_char_def)
  have host: "h \<noteq> []"
    using assms(1) by (simp add: plain_host_def)
  have line: "CHR 0x0A \<notin> set (q @ CHR ''/'' # p)" "CHR 0x0D \<notin> set (q @ CHR ''/'' # p)"
    using path_chars [OF assms(2)] unfolding plain_char_def by fastforce+
  have "scp_parts ?s = Some (h, q @ CHR ''/'' # p)"
    unfolding scp_parts_def Let_def parts user list.case using host line by simp
  with start plain_identity [OF assms(1,2)] show ?thesis
    by simp
qed

lemma plain_identity_is_canonical_witness:
  "normalizeRemoteIdentity no_urls (''github.com'' @ ''/'' @ ''owner/name'') = Inr (''github.com'' @ ''/'' @ ''owner/name'')"
proof (rule plain_identity_is_canonical)
  show "plain_host ''github.com''" "plain_path ''owner/name''"
    by code_simp+
qed

lemma identity_with_port_is_not_canonical_witness:
  "hostPathIdentity ''git.example.com'' ''8443'' ''/owner/name.git'' = Inr (''git.example.com'' @ '':'' @ ''8443'' @ ''/'' @ ''owner/name'')
   \<and> normalizeRemoteIdentity no_urls (''git.example.com'' @ '':'' @ ''8443'' @ ''/'' @ ''owner/name'')
     = Inr (''git.example.com'' @ ''/'' @ ''8443'' @ ''/'' @ ''owner/name'')"
proof
  show "hostPathIdentity ''git.example.com'' ''8443'' ''/owner/name.git'' = Inr (''git.example.com'' @ '':'' @ ''8443'' @ ''/'' @ ''owner/name'')"
    by code_simp
  have "plain_host ''git.example.com''" "plain_path (''8443'' @ ''/'' @ ''owner/name'')" "list_all is_digit ''8443''"
    by code_simp+
  with identity_with_port_is_not_canonical [of "''git.example.com''" "''8443''" "''owner/name''" no_urls]
  show "normalizeRemoteIdentity no_urls (''git.example.com'' @ '':'' @ ''8443'' @ ''/'' @ ''owner/name'')
     = Inr (''git.example.com'' @ ''/'' @ ''8443'' @ ''/'' @ ''owner/name'')"
    by blast
qed

end
