(* ===== verification/Process_Lock.thy ===== *)
theory Process_Lock
  imports Runtime_State
begin

text \<open>
  The cross-process lock of the task runtime (src/task-runtime/cross-process-lock.ts): a directory
  that mkdir creates atomically and an owner file inside it that link creates exclusively. Several
  agents run \<open>acquire\<close> and \<open>release\<close> for one lock id at once; a turn is one operation on the file
  system by one agent, with the fault it meets, and a schedule is any sequence of turns, crashes
  and passing time. A directory has an identity (\<open>ld_id\<close>), so that a temporary file written into
  one is not found in its successor of the same name.
\<close>

section \<open>State\<close>

record lock_owner =
  ow_token :: string
  ow_pid :: int
  ow_hostname :: string
  ow_acquired_at :: string

record lock_directory =
  ld_id :: nat
  ld_mtime :: int
  ld_owner :: "lock_owner disk_file option"

text \<open>Where an agent stands in \<open>withLock\<close>; the arguments are the locals it still needs.\<close>

datatype lock_pc =
    LP_Idle
  | LP_Mkdir lock_owner int
  | LP_Ensure lock_owner int
  | LP_Link lock_owner int nat
  | LP_Undo task_err
  | LP_Read lock_owner int
  | LP_Stat lock_owner int
  | LP_Rename lock_owner int
  | LP_Sweep lock_owner int
  | LP_Wait lock_owner int
  | LP_Held string
  | LP_Release string
  | LP_Remove string
  | LP_Failed task_err
  | LP_Crashed

text \<open>The agents, what the operating system says of each, the configured times, and the syntaxes
  accepted by Zod.\<close>

record lock_env =
  le_agents :: "nat list"
  le_pid :: "nat \<Rightarrow> int"
  le_host :: "nat \<Rightarrow> string"
  le_timeout :: int
  le_stale :: int
  le_iso :: "int \<Rightarrow> string"
  le_date :: "string \<Rightarrow> int"
  le_uuid :: "string \<Rightarrow> bool"
  le_datetime :: "string \<Rightarrow> bool"

record lock_world =
  lw_now :: int
  lw_next :: nat
  lw_dir :: "lock_directory option"
  lw_pcs :: "nat \<Rightarrow> lock_pc"

datatype op_fault = No_Fault | Fault_Before task_err | Fault_After task_err

definition lock_owner_schema :: "lock_env \<Rightarrow> lock_owner \<Rightarrow> bool" where
  "lock_owner_schema E ow \<longleftrightarrow> le_uuid E (ow_token ow) \<and> safe_integer (ow_pid ow) \<and> 0 < ow_pid ow
   \<and> 1 \<le> length (ow_hostname ow) \<and> length (ow_hostname ow) \<le> 255 \<and> le_datetime E (ow_acquired_at ow)"

definition goto :: "nat \<Rightarrow> lock_pc \<Rightarrow> lock_world \<Rightarrow> lock_world" where
  "goto a p w = w\<lparr>lw_pcs := (lw_pcs w)(a := p)\<rparr>"

section \<open>The options\<close>

definition boundedInteger :: "int \<Rightarrow> int \<Rightarrow> int \<Rightarrow> task_err + int" where
  "boundedInteger v lo hi =
     (if \<not> safe_integer v \<or> v < lo \<or> hi < v then Inl (TaskErr ''TASK_RUNTIME_INVALID'') else Inr v)"

text \<open>The bounded time-out, pause and age of the lock; an option that is absent has its default.\<close>

definition lock_options :: "int option \<Rightarrow> int option \<Rightarrow> int option \<Rightarrow> task_err + (int \<times> int \<times> int)" where
  "lock_options timeout poll stale =
     bindR (boundedInteger (case timeout of None \<Rightarrow> 5000 | Some n \<Rightarrow> n) 1 60000) (\<lambda>t.
     bindR (boundedInteger (case poll of None \<Rightarrow> 25 | Some n \<Rightarrow> n) 1 1000) (\<lambda>p.
     bindR (boundedInteger (case stale of None \<Rightarrow> 30000 | Some n \<Rightarrow> n) 1000 86400000) (\<lambda>st.
     Inr (t, p, st))))"

section \<open>Acquiring\<close>

definition new_owner :: "lock_env \<Rightarrow> nat \<Rightarrow> string \<Rightarrow> lock_world \<Rightarrow> lock_owner" where
  "new_owner E a token w =
     \<lparr>ow_token = token, ow_pid = le_pid E a, ow_hostname = le_host E a, ow_acquired_at = le_iso E (lw_now w)\<rparr>"

text \<open>The directory of all locks comes first; a fault there ends the call.\<close>

definition start_acquire :: "lock_env \<Rightarrow> nat \<Rightarrow> op_fault \<Rightarrow> string \<Rightarrow> lock_world \<Rightarrow> lock_world" where
  "start_acquire E a f token w = goto a (case f of
       No_Fault \<Rightarrow> LP_Mkdir (new_owner E a token w) (lw_now w + le_timeout E)
     | Fault_Before e \<Rightarrow> LP_Failed e
     | Fault_After e \<Rightarrow> LP_Failed e) w"

text \<open>The \<open>catch\<close> of the attempt: another owner, or the directory is removed and the error thrown.\<close>

definition attempt_failed :: "lock_owner \<Rightarrow> int \<Rightarrow> task_err \<Rightarrow> lock_pc" where
  "attempt_failed ow deadline e = (if err_code e = Some ''EEXIST'' then LP_Read ow deadline else LP_Undo e)"

definition new_directory :: "lock_world \<Rightarrow> lock_world" where
  "new_directory w = w\<lparr>lw_dir := Some \<lparr>ld_id = lw_next w, ld_mtime = lw_now w, ld_owner = None\<rparr>, lw_next := lw_next w + 1\<rparr>"

definition mkdir_turn :: "nat \<Rightarrow> op_fault \<Rightarrow> lock_owner \<Rightarrow> int \<Rightarrow> lock_world \<Rightarrow> lock_world" where
  "mkdir_turn a f ow deadline w = (case f of
       Fault_Before e \<Rightarrow> goto a (attempt_failed ow deadline e) w
     | Fault_After e \<Rightarrow>
         if lw_dir w = None then goto a (attempt_failed ow deadline e) (new_directory w)
         else goto a (LP_Read ow deadline) w
     | No_Fault \<Rightarrow>
         if lw_dir w = None then goto a (LP_Ensure ow deadline) (new_directory w)
         else goto a (LP_Read ow deadline) w)"

text \<open>\<open>atomicWrite\<close> of the owner file, first half: it makes a missing parent and writes the
  temporary file into the directory it finds.\<close>

definition ensure_directory :: "lock_world \<Rightarrow> lock_world" where
  "ensure_directory w = (if lw_dir w = None then new_directory w else w)"

definition ensure_turn :: "nat \<Rightarrow> op_fault \<Rightarrow> lock_owner \<Rightarrow> int \<Rightarrow> lock_world \<Rightarrow> lock_world" where
  "ensure_turn a f ow deadline w = (case f of
       Fault_Before e \<Rightarrow> goto a (attempt_failed ow deadline e) w
     | Fault_After e \<Rightarrow> goto a (attempt_failed ow deadline e) (ensure_directory w)
     | No_Fault \<Rightarrow> (case lw_dir (ensure_directory w) of
           None \<Rightarrow> w
         | Some d \<Rightarrow> goto a (LP_Link ow deadline (ld_id d))
             ((ensure_directory w)\<lparr>lw_dir := Some (d\<lparr>ld_mtime := lw_now w\<rparr>)\<rparr>)))"

text \<open>Second half: the temporary file is linked to the owner file.\<close>

definition link_turn :: "nat \<Rightarrow> op_fault \<Rightarrow> lock_owner \<Rightarrow> int \<Rightarrow> nat \<Rightarrow> lock_world \<Rightarrow> lock_world" where
  "link_turn a f ow deadline i w = (case f of
       Fault_Before e \<Rightarrow> goto a (attempt_failed ow deadline e) w
     | _ \<Rightarrow> (case lw_dir w of
           None \<Rightarrow> goto a (attempt_failed ow deadline (OtherErr (Some ''ENOENT''))) w
         | Some d \<Rightarrow>
             if ld_id d \<noteq> i then goto a (attempt_failed ow deadline (OtherErr (Some ''ENOENT''))) w
             else if ld_owner d \<noteq> None then goto a (LP_Read ow deadline) w
             else goto a (case f of Fault_After e \<Rightarrow> attempt_failed ow deadline e | _ \<Rightarrow> LP_Held (ow_token ow))
                    (w\<lparr>lw_dir := Some (d\<lparr>ld_owner := Some (Stored ow), ld_mtime := lw_now w\<rparr>)\<rparr>)))"

definition undo_turn :: "nat \<Rightarrow> op_fault \<Rightarrow> task_err \<Rightarrow> lock_world \<Rightarrow> lock_world" where
  "undo_turn a f e w = (case f of
       Fault_Before _ \<Rightarrow> goto a (LP_Failed e) w
     | _ \<Rightarrow> goto a (LP_Failed e) (w\<lparr>lw_dir := None\<rparr>))"

section \<open>Reclaiming\<close>

definition readOwner :: "lock_env \<Rightarrow> lock_world \<Rightarrow> lock_owner option" where
  "readOwner E w = (case lw_dir w of
       None \<Rightarrow> None
     | Some d \<Rightarrow> (case ld_owner d of
           Some (Stored ow) \<Rightarrow> if lock_owner_schema E ow then Some ow else None
         | _ \<Rightarrow> None))"

definition isProcessAlive :: "lock_env \<Rightarrow> nat \<Rightarrow> int \<Rightarrow> lock_world \<Rightarrow> bool" where
  "isProcessAlive E a pid w \<longleftrightarrow>
     list_ex (\<lambda>b. le_host E b = le_host E a \<and> le_pid E b = pid \<and> lw_pcs w b \<noteq> LP_Crashed) (le_agents E)"

definition stale_owner :: "lock_env \<Rightarrow> nat \<Rightarrow> lock_owner \<Rightarrow> lock_world \<Rightarrow> bool" where
  "stale_owner E a ow w \<longleftrightarrow> le_stale E \<le> lw_now w - le_date E (ow_acquired_at ow)
   \<and> ow_hostname ow = le_host E a \<and> \<not> isProcessAlive E a (ow_pid ow) w"

definition read_turn :: "lock_env \<Rightarrow> nat \<Rightarrow> op_fault \<Rightarrow> lock_owner \<Rightarrow> int \<Rightarrow> lock_world \<Rightarrow> lock_world" where
  "read_turn E a f ow deadline w = (case f of
       No_Fault \<Rightarrow> goto a (case readOwner E w of
           None \<Rightarrow> LP_Stat ow deadline
         | Some other \<Rightarrow> if stale_owner E a other w then LP_Rename ow deadline else LP_Wait ow deadline) w
     | Fault_Before e \<Rightarrow> goto a (if err_code e = Some ''ENOENT'' then LP_Stat ow deadline else LP_Failed e) w
     | Fault_After e \<Rightarrow> goto a (if err_code e = Some ''ENOENT'' then LP_Stat ow deadline else LP_Failed e) w)"

definition stale_directory :: "lock_env \<Rightarrow> lock_directory \<Rightarrow> lock_world \<Rightarrow> bool" where
  "stale_directory E d w \<longleftrightarrow> le_stale E \<le> lw_now w - ld_mtime d"

text \<open>A directory that is gone counts as reclaimed: the loop goes on at its head.\<close>

definition stat_turn :: "lock_env \<Rightarrow> nat \<Rightarrow> op_fault \<Rightarrow> lock_owner \<Rightarrow> int \<Rightarrow> lock_world \<Rightarrow> lock_world" where
  "stat_turn E a f ow deadline w = (case f of
       No_Fault \<Rightarrow> goto a (case lw_dir w of
           None \<Rightarrow> LP_Mkdir ow deadline
         | Some d \<Rightarrow> if stale_directory E d w then LP_Rename ow deadline else LP_Wait ow deadline) w
     | Fault_Before e \<Rightarrow> goto a (if err_code e = Some ''ENOENT'' then LP_Mkdir ow deadline else LP_Failed e) w
     | Fault_After e \<Rightarrow> goto a (if err_code e = Some ''ENOENT'' then LP_Mkdir ow deadline else LP_Failed e) w)"

definition rename_failed :: "lock_owner \<Rightarrow> int \<Rightarrow> task_err \<Rightarrow> lock_pc" where
  "rename_failed ow deadline e =
     (if err_code e = Some ''ENOENT'' \<or> err_code e = Some ''EEXIST'' then LP_Mkdir ow deadline else LP_Failed e)"

definition rename_turn :: "nat \<Rightarrow> op_fault \<Rightarrow> lock_owner \<Rightarrow> int \<Rightarrow> lock_world \<Rightarrow> lock_world" where
  "rename_turn a f ow deadline w = (case f of
       Fault_Before e \<Rightarrow> goto a (rename_failed ow deadline e) w
     | Fault_After e \<Rightarrow> goto a (rename_failed ow deadline e) (w\<lparr>lw_dir := None\<rparr>)
     | No_Fault \<Rightarrow>
         if lw_dir w = None then goto a (LP_Mkdir ow deadline) w
         else goto a (LP_Sweep ow deadline) (w\<lparr>lw_dir := None\<rparr>))"

text \<open>The tombstone is removed; nobody else looks at it.\<close>

definition sweep_turn :: "nat \<Rightarrow> op_fault \<Rightarrow> lock_owner \<Rightarrow> int \<Rightarrow> lock_world \<Rightarrow> lock_world" where
  "sweep_turn a f ow deadline w = goto a (case f of
       No_Fault \<Rightarrow> LP_Mkdir ow deadline | Fault_Before e \<Rightarrow> LP_Failed e | Fault_After e \<Rightarrow> LP_Failed e) w"

definition wait_turn :: "nat \<Rightarrow> lock_owner \<Rightarrow> int \<Rightarrow> lock_world \<Rightarrow> lock_world" where
  "wait_turn a ow deadline w =
     goto a (if deadline \<le> lw_now w then LP_Failed (TaskErr ''LOCK_TIMEOUT'') else LP_Mkdir ow deadline) w"

section \<open>Releasing\<close>

definition release_turn :: "lock_env \<Rightarrow> nat \<Rightarrow> op_fault \<Rightarrow> string \<Rightarrow> lock_world \<Rightarrow> lock_world" where
  "release_turn E a f token w = goto a (case f of
       No_Fault \<Rightarrow> (case readOwner E w of
           Some ow \<Rightarrow> if ow_token ow = token then LP_Remove token else LP_Failed (TaskErr ''RUNTIME_FILE_UNSAFE'')
         | None \<Rightarrow> LP_Failed (TaskErr ''RUNTIME_FILE_UNSAFE''))
     | Fault_Before e \<Rightarrow> LP_Failed (if err_code e = Some ''ENOENT'' then TaskErr ''RUNTIME_FILE_UNSAFE'' else e)
     | Fault_After e \<Rightarrow> LP_Failed (if err_code e = Some ''ENOENT'' then TaskErr ''RUNTIME_FILE_UNSAFE'' else e)) w"

definition remove_turn :: "nat \<Rightarrow> op_fault \<Rightarrow> string \<Rightarrow> lock_world \<Rightarrow> lock_world" where
  "remove_turn a f token w = (case f of
       Fault_Before e \<Rightarrow> goto a (LP_Failed e) w
     | Fault_After e \<Rightarrow> goto a (LP_Failed e) (w\<lparr>lw_dir := None\<rparr>)
     | No_Fault \<Rightarrow>
         if lw_dir w = None then goto a (LP_Failed (OtherErr (Some ''ENOENT''))) w
         else goto a LP_Idle (w\<lparr>lw_dir := None\<rparr>))"

section \<open>Schedules\<close>

text \<open>The action under the lock is over when the scheduler lets the holder go on.\<close>

fun lock_turn :: "lock_env \<Rightarrow> nat \<Rightarrow> op_fault \<Rightarrow> lock_world \<Rightarrow> lock_world" where
  "lock_turn E a f w = (case lw_pcs w a of
       LP_Mkdir ow deadline \<Rightarrow> mkdir_turn a f ow deadline w
     | LP_Ensure ow deadline \<Rightarrow> ensure_turn a f ow deadline w
     | LP_Link ow deadline i \<Rightarrow> link_turn a f ow deadline i w
     | LP_Undo e \<Rightarrow> undo_turn a f e w
     | LP_Read ow deadline \<Rightarrow> read_turn E a f ow deadline w
     | LP_Stat ow deadline \<Rightarrow> stat_turn E a f ow deadline w
     | LP_Rename ow deadline \<Rightarrow> rename_turn a f ow deadline w
     | LP_Sweep ow deadline \<Rightarrow> sweep_turn a f ow deadline w
     | LP_Wait ow deadline \<Rightarrow> wait_turn a ow deadline w
     | LP_Held token \<Rightarrow> goto a (LP_Release token) w
     | LP_Release token \<Rightarrow> release_turn E a f token w
     | LP_Remove token \<Rightarrow> remove_turn a f token w
     | _ \<Rightarrow> w)"

declare lock_turn.simps [simp del]

definition at_rest :: "lock_pc \<Rightarrow> bool" where
  "at_rest p \<longleftrightarrow> p = LP_Idle \<or> (\<exists>e. p = LP_Failed e)"

inductive lock_step :: "lock_env \<Rightarrow> lock_world \<Rightarrow> lock_world \<Rightarrow> bool" for E where
  start: "a \<in> set (le_agents E) \<Longrightarrow> at_rest (lw_pcs w a) \<Longrightarrow> lock_step E w (start_acquire E a f token w)"
| turn: "a \<in> set (le_agents E) \<Longrightarrow> lock_step E w (lock_turn E a f w)"
| time: "0 \<le> n \<Longrightarrow> lock_step E w (w\<lparr>lw_now := lw_now w + n\<rparr>)"
| crash: "lock_step E w (goto a LP_Crashed w)"

definition idle_lock :: "int \<Rightarrow> lock_world" where
  "idle_lock now = \<lparr>lw_now = now, lw_next = 0, lw_dir = None, lw_pcs = (\<lambda>_. LP_Idle)\<rparr>"

end
