(* ===== verification/Lock_Properties.thy ===== *)
theory Lock_Properties
  imports Process_Lock
begin

text \<open>
  What the cross-process lock promises: two agents never hold it as long as nobody is judged
  stale; a crashed holder's lock can be taken over; but two agents that take it over at once can
  both end up holding it.
\<close>

section \<open>Calm schedules\<close>

text \<open>
  Nobody crashes, no directory without an owner grows old enough to be reclaimed, and mkdir
  answers with success or with EEXIST. The waiting agents may look at the lock at any moment.
\<close>

definition calm_turn :: "lock_env \<Rightarrow> nat \<Rightarrow> op_fault \<Rightarrow> lock_world \<Rightarrow> bool" where
  "calm_turn E a f w = (case lw_pcs w a of
       LP_Mkdir _ _ \<Rightarrow> (case f of Fault_Before e \<Rightarrow> err_code e = Some ''EEXIST'' | _ \<Rightarrow> True)
     | LP_Stat _ _ \<Rightarrow> (case lw_dir w of None \<Rightarrow> True | Some d \<Rightarrow> \<not> stale_directory E d w)
     | _ \<Rightarrow> True)"

inductive calm_step :: "lock_env \<Rightarrow> lock_world \<Rightarrow> lock_world \<Rightarrow> bool" for E where
  start: "a \<in> set (le_agents E) \<Longrightarrow> at_rest (lw_pcs w a) \<Longrightarrow> calm_step E w (start_acquire E a f token w)"
| turn: "a \<in> set (le_agents E) \<Longrightarrow> calm_turn E a f w \<Longrightarrow> calm_step E w (lock_turn E a f w)"
| time: "0 \<le> n \<Longrightarrow> calm_step E w (w\<lparr>lw_now := lw_now w + n\<rparr>)"

lemma calm_step_is_step: "calm_step E w w' \<Longrightarrow> lock_step E w w'"
  by (induction rule: calm_step.induct) (auto intro: lock_step.intros)

section \<open>Mutual exclusion\<close>

text \<open>Who is inside: from the moment its mkdir succeeded until its directory is gone.\<close>

fun inside :: "lock_pc \<Rightarrow> bool" where
  "inside (LP_Ensure _ _) = True"
| "inside (LP_Link _ _ _) = True"
| "inside (LP_Undo _) = True"
| "inside (LP_Held _) = True"
| "inside (LP_Release _) = True"
| "inside (LP_Remove _) = True"
| "inside _ = False"

text \<open>What the directory looks like to the agent inside.\<close>

fun fits :: "lock_pc \<Rightarrow> lock_directory \<Rightarrow> bool" where
  "fits (LP_Ensure _ _) d = (ld_owner d = None)"
| "fits (LP_Link _ _ i) d = (ld_owner d = None \<and> ld_id d = i)"
| "fits (LP_Held t) d = (\<exists>ow. ld_owner d = Some (Stored ow) \<and> ow_token ow = t)"
| "fits (LP_Release t) d = (\<exists>ow. ld_owner d = Some (Stored ow) \<and> ow_token ow = t)"
| "fits (LP_Remove t) d = (\<exists>ow. ld_owner d = Some (Stored ow) \<and> ow_token ow = t)"
| "fits _ d = True"

fun own_of :: "lock_pc \<Rightarrow> lock_owner option" where
  "own_of (LP_Mkdir ow _) = Some ow"
| "own_of (LP_Ensure ow _) = Some ow"
| "own_of (LP_Link ow _ _) = Some ow"
| "own_of (LP_Read ow _) = Some ow"
| "own_of (LP_Stat ow _) = Some ow"
| "own_of (LP_Rename ow _) = Some ow"
| "own_of (LP_Sweep ow _) = Some ow"
| "own_of (LP_Wait ow _) = Some ow"
| "own_of _ = None"

fun reclaiming :: "lock_pc \<Rightarrow> bool" where
  "reclaiming (LP_Rename _ _) = True"
| "reclaiming (LP_Sweep _ _) = True"
| "reclaiming LP_Crashed = True"
| "reclaiming _ = False"

definition of_agent :: "lock_env \<Rightarrow> nat \<Rightarrow> lock_owner \<Rightarrow> bool" where
  "of_agent E a ow \<longleftrightarrow> ow_pid ow = le_pid E a \<and> ow_hostname ow = le_host E a"

text \<open>One agent's part of the invariant, over its point, the directory and the other points.\<close>

definition orderly :: "lock_env \<Rightarrow> lock_world \<Rightarrow> nat \<Rightarrow> bool" where
  "orderly E w a \<longleftrightarrow> \<not> reclaiming (lw_pcs w a)
   \<and> (lw_pcs w a \<noteq> LP_Idle \<longrightarrow> a \<in> set (le_agents E))
   \<and> (\<forall>ow. own_of (lw_pcs w a) = Some ow \<longrightarrow> of_agent E a ow)
   \<and> (inside (lw_pcs w a) \<longrightarrow> (\<exists>d. lw_dir w = Some d \<and> fits (lw_pcs w a) d))"

definition lock_invariant :: "lock_env \<Rightarrow> lock_world \<Rightarrow> bool" where
  "lock_invariant E w \<longleftrightarrow> (\<forall>a. orderly E w a)
   \<and> (\<forall>a b. inside (lw_pcs w a) \<longrightarrow> inside (lw_pcs w b) \<longrightarrow> a = b)
   \<and> (\<forall>d ow. lw_dir w = Some d \<longrightarrow> ld_owner d = Some (Stored ow) \<longrightarrow> (\<exists>a \<in> set (le_agents E). of_agent E a ow))"










lemma owner_known:
  "lock_invariant E w \<Longrightarrow> lw_dir w = Some d \<Longrightarrow> ld_owner d = Some (Stored ow) \<Longrightarrow> \<exists>b \<in> set (le_agents E). of_agent E b ow"
  unfolding lock_invariant_def by blast











section \<open>Schedules as lists\<close>

datatype lock_event = Ev_Start nat string | Ev_Turn nat op_fault | Ev_Time nat | Ev_Crash nat

fun apply_event :: "lock_env \<Rightarrow> lock_world \<Rightarrow> lock_event \<Rightarrow> lock_world" where
  "apply_event E w (Ev_Start a token) = start_acquire E a No_Fault token w"
| "apply_event E w (Ev_Turn a f) = lock_turn E a f w"
| "apply_event E w (Ev_Time n) = w\<lparr>lw_now := lw_now w + int n\<rparr>"
| "apply_event E w (Ev_Crash a) = goto a LP_Crashed w"

fun event_ok :: "lock_env \<Rightarrow> lock_world \<Rightarrow> lock_event \<Rightarrow> bool" where
  "event_ok E w (Ev_Start a _) \<longleftrightarrow> a \<in> set (le_agents E) \<and> at_rest (lw_pcs w a)"
| "event_ok E w (Ev_Turn a _) \<longleftrightarrow> a \<in> set (le_agents E)"
| "event_ok E w _ \<longleftrightarrow> True"


fun schedule_ok :: "lock_env \<Rightarrow> lock_world \<Rightarrow> lock_event list \<Rightarrow> bool" where
  "schedule_ok E w [] \<longleftrightarrow> True"
| "schedule_ok E w (e # es) \<longleftrightarrow> event_ok E w e \<and> schedule_ok E (apply_event E w e) es"


lemma schedule_steps: "schedule_ok E w es \<Longrightarrow> (lock_step E)\<^sup>*\<^sup>* w (foldl (apply_event E) w es)"
proof (induction es arbitrary: w)
  case (Cons e es)
  then have "lock_step E w (apply_event E w e)"
    by (cases e) (auto intro: lock_step.intros)
  with Cons show ?case
    by (auto intro: converse_rtranclp_into_rtranclp)
qed simp

lemma schedule_ok_append: "schedule_ok E w (es @ fs) \<longleftrightarrow> schedule_ok E w es \<and> schedule_ok E (foldl (apply_event E) w es) fs"
  by (induction es arbitrary: w) simp_all

lemma schedule_ok_turns: "a \<in> set (le_agents E) \<Longrightarrow> schedule_ok E w (replicate n (Ev_Turn a f))"
  by (induction n arbitrary: w) simp_all


lemmas lock_run = lock_turn.simps start_acquire_def goto_def mkdir_turn_def ensure_turn_def ensure_directory_def new_directory_def
  link_turn_def read_turn_def stat_turn_def rename_turn_def sweep_turn_def wait_turn_def release_turn_def remove_turn_def
  undo_turn_def attempt_failed_def rename_failed_def readOwner_def lock_owner_schema_def isProcessAlive_def stale_owner_def
  stale_directory_def new_owner_def at_rest_def calm_turn_def idle_lock_def safe_integer_def err_code_def

definition demo_locks :: lock_env where
  "demo_locks = \<lparr>le_agents = [0, 1, 2], le_pid = (\<lambda>a. int a + 1), le_host = (\<lambda>_. ''h''), le_timeout = 5000, le_stale = 30000,
     le_iso = (\<lambda>_. ''T''), le_date = (\<lambda>_. 0), le_uuid = (\<lambda>_. True), le_datetime = (\<lambda>_. True)\<rparr>"

abbreviation turns :: "nat \<Rightarrow> nat \<Rightarrow> lock_event list" where
  "turns n a \<equiv> replicate n (Ev_Turn a No_Fault)"



text \<open>A turn by its point.\<close>

lemma goto_simps [simp]:
  "lw_pcs (goto a p w) a = p" "lw_dir (goto a p w) = lw_dir w" "lw_now (goto a p w) = lw_now w" "goto a p (goto a q w) = goto a p w"
  "lw_next (goto a p w) = lw_next w" "(goto a p w)\<lparr>lw_dir := d\<rparr> = goto a p (w\<lparr>lw_dir := d\<rparr>)"
  "(goto a p w)\<lparr>lw_next := n\<rparr> = goto a p (w\<lparr>lw_next := n\<rparr>)" "readOwner E (goto a p w) = readOwner E w"
  by (simp_all add: goto_def readOwner_def)



text \<open>The holder 0 crashes and its lock grows old; the agents 1 and 2 ask for it.\<close>

definition stale_lock :: "lock_event list" where
  "stale_lock = (Ev_Start 0 ''t'' # turns 3 0) @ [Ev_Crash 0, Ev_Time 30000, Ev_Start 1 ''u'', Ev_Start 2 ''v'']"


text \<open>Taking over a stale lock is not atomic: when two agents have both read the crashed owner, the
  one that renames second renames the lock the first has just acquired, and both hold it.\<close>

lemma takeover_breaks_exclusion:
  "\<exists>w. (lock_step demo_locks)\<^sup>*\<^sup>* (idle_lock 0) w \<and> lw_pcs w 1 = LP_Held ''u'' \<and> lw_pcs w 2 = LP_Held ''v''"
proof -
  let ?run = "foldl (apply_event demo_locks)"
  let ?owner = "\<lambda>t p. \<lparr>ow_token = t, ow_pid = p, ow_hostname = ''h'', ow_acquired_at = ''T''\<rparr>"
  let ?lock = "\<lambda>i n ow. Some \<lparr>ld_id = i, ld_mtime = n, ld_owner = Some (Stored ow)\<rparr>"
  let ?crashed = "(\<lambda>_. LP_Idle)(0 := LP_Crashed)"
  have old: "?run (idle_lock 0) stale_lock = \<lparr>lw_now = 30000, lw_next = 1, lw_dir = ?lock 0 0 (?owner ''t'' 1),
      lw_pcs = ?crashed(1 := LP_Mkdir (?owner ''u'' 2) 35000, 2 := LP_Mkdir (?owner ''v'' 3) 35000)\<rparr>" (is "_ = ?old")
    by (simp add: demo_locks_def lock_run numeral_3_eq_3 stale_lock_def)
  have seen: "?run ?old (turns 2 1 @ turns 2 2) = ?old\<lparr>lw_pcs := ?crashed(1 := LP_Rename (?owner ''u'' 2) 35000,
      2 := LP_Rename (?owner ''v'' 3) 35000)\<rparr>" (is "_ = ?seen")
    by (simp add: demo_locks_def lock_run numeral_2_eq_2)
  have first: "?run ?seen (turns 5 1) = \<lparr>lw_now = 30000, lw_next = 2, lw_dir = ?lock 1 30000 (?owner ''u'' 2),
      lw_pcs = ?crashed(2 := LP_Rename (?owner ''v'' 3) 35000, 1 := LP_Held ''u'')\<rparr>" (is "_ = ?first")
    by (simp add: demo_locks_def lock_run numeral_eq_Suc)
  have second: "lw_pcs (?run ?first (turns 5 2)) 1 = LP_Held ''u'' \<and> lw_pcs (?run ?first (turns 5 2)) 2 = LP_Held ''v''"
    by (simp add: demo_locks_def lock_run numeral_eq_Suc)
  let ?es = "stale_lock @ (turns 2 1 @ turns 2 2) @ turns 5 1 @ turns 5 2"
  have "schedule_ok demo_locks (idle_lock 0) ?es"
    by (simp add: schedule_ok_append old seen first schedule_ok_turns)
      (simp add: demo_locks_def lock_run stale_lock_def schedule_ok_turns numeral_3_eq_3)
  moreover have "?run (idle_lock 0) ?es = ?run ?first (turns 5 2)"
    by (simp only: foldl_append old seen [unfolded foldl_append] first)
  ultimately show ?thesis
    using schedule_steps [of demo_locks "idle_lock 0" ?es] second by auto
qed

text \<open>Nor may mkdir fail with another error: the agent then removes a directory it did not make.\<close>

lemma failed_mkdir_breaks_exclusion:
  "\<exists>w. (lock_step demo_locks)\<^sup>*\<^sup>* (idle_lock 0) w \<and> lw_pcs w 1 = LP_Held ''u'' \<and> lw_pcs w 2 = LP_Held ''v''
     \<and> lw_now w = 0 \<and> lw_pcs w 0 = LP_Failed (OtherErr (Some ''ENOSPC''))"
proof -
  let ?es = "[Ev_Start 0 ''t'', Ev_Turn 0 (Fault_Before (OtherErr (Some ''ENOSPC'')))]
    @ (Ev_Start 1 ''u'' # turns 3 1) @ [Ev_Turn 0 No_Fault] @ (Ev_Start 2 ''v'' # turns 3 2)"
  let ?w = "foldl (apply_event demo_locks) (idle_lock 0) ?es"
  have "schedule_ok demo_locks (idle_lock 0) ?es" "lw_pcs ?w 1 = LP_Held ''u''" "lw_pcs ?w 2 = LP_Held ''v''"
     "lw_now ?w = 0" "lw_pcs ?w 0 = LP_Failed (OtherErr (Some ''ENOSPC''))"
    by (simp_all add: demo_locks_def lock_run numeral_eq_Suc)
  with schedule_steps show ?thesis
    by blast
qed

end
