(* ===== verification/Git_Worktree.thy ===== *)
theory Git_Worktree
  imports Remote_Identity
begin

text \<open>
  The worktrees of tasks (src/task-runtime/git-worktree-service.ts) over a bounded Git process
  (src/services/git-exec.ts) and the file system. Git, lstat, mkdir, chmod and realpath are
  functions of the world; the state is the world and the list of Git commands run so far with what
  each answered (a ghost field that no code reads). Bytes and characters are not distinguished;
  what a process prints is decoded by a parameter.
\<close>

section \<open>A bounded process\<close>

text \<open>What spawning Git came to: it could not start, or it closed after these chunks of output.\<close>

datatype process_outcome =
    Spawn_Error string
  | Closed "string list" "string list" "int option"

record collected =
  cl_bytes :: string
  cl_truncated :: bool

definition collect_chunk :: "int \<Rightarrow> collected \<Rightarrow> string \<Rightarrow> collected" where
  "collect_chunk limit c chunk =
     (let remaining = limit - int (length (cl_bytes c)) in
      \<lparr>cl_bytes = (if 0 < remaining then cl_bytes c @ take (nat remaining) chunk else cl_bytes c),
       cl_truncated = (cl_truncated c \<or> max remaining 0 < int (length chunk))\<rparr>)"

definition collect_chunks :: "int \<Rightarrow> string list \<Rightarrow> collected" where
  "collect_chunks limit = foldl (collect_chunk limit) \<lparr>cl_bytes = [], cl_truncated = False\<rparr>"

record process_result =
  br_stdout :: string
  br_stderr :: string
  br_exit_code :: int
  br_stdout_truncated :: bool
  br_stderr_truncated :: bool

definition runGitBounded ::
  "(string \<Rightarrow> string) \<Rightarrow> int \<Rightarrow> int option \<Rightarrow> bool \<Rightarrow> process_outcome \<Rightarrow> task_err + process_result" where
  "runGitBounded decode max_stdout max_stderr allow_truncation outcome = (case outcome of
       Spawn_Error _ \<Rightarrow> Inl (RepoErr ''GIT_ERROR'')
     | Closed stdout stderr code \<Rightarrow>
         let p = collect_chunks max_stdout stdout;
             q = collect_chunks (case max_stderr of None \<Rightarrow> 131072 | Some n \<Rightarrow> n) stderr in
         if code \<noteq> Some 0 then Inl (RepoErr ''GIT_ERROR'')
         else if cl_truncated p \<and> \<not> allow_truncation then Inl (RepoErr ''SIZE_LIMIT_EXCEEDED'')
         else Inr \<lparr>br_stdout = decode (cl_bytes p), br_stderr = decode (cl_bytes q), br_exit_code = 0,
                   br_stdout_truncated = cl_truncated p, br_stderr_truncated = cl_truncated q\<rparr>)"

section \<open>The host\<close>

record file_metadata =
  fm_is_directory :: bool
  fm_is_symlink :: bool
  fm_mode :: nat

record 'w git_host =
  gw_sha256 :: "string \<Rightarrow> string"
  gw_decode :: "string \<Rightarrow> string"
  gw_cwd :: string
  gw_spawn :: "string \<Rightarrow> string list \<Rightarrow> 'w \<Rightarrow> process_outcome \<times> 'w"
  gw_mkdir :: "string \<Rightarrow> 'w \<Rightarrow> (task_err + unit) \<times> 'w"
  gw_chmod :: "string \<Rightarrow> 'w \<Rightarrow> (task_err + unit) \<times> 'w"
  gw_lstat :: "string \<Rightarrow> 'w \<Rightarrow> (task_err + file_metadata) \<times> 'w"
  gw_realpath :: "string \<Rightarrow> 'w \<Rightarrow> (task_err + string) \<times> 'w"

record git_command =
  gc_root :: string
  gc_args :: "string list"
  gc_answer :: "string option"

record 'w git_state =
  gw_world :: 'w
  gw_log :: "git_command list"

type_synonym ('w, 'a) worktree_eff = "(task_err, 'w git_state, 'a) eff"

definition hostE :: "('w \<Rightarrow> (task_err + 'a) \<times> 'w) \<Rightarrow> ('w, 'a) worktree_eff" where
  "hostE f = (\<lambda>s. case f (gw_world s) of (r, w) \<Rightarrow> (r, s\<lparr>gw_world := w\<rparr>))"

definition MAX_GIT_OUTPUT :: int where
  "MAX_GIT_OUTPUT = 2 * 1024 * 1024"

definition worktree_git :: "'w git_host \<Rightarrow> string \<Rightarrow> string list \<Rightarrow> ('w, string) worktree_eff" where
  "worktree_git H root args = (\<lambda>s. case gw_spawn H root args (gw_world s) of (outcome, w) \<Rightarrow>
     let r = runGitBounded (gw_decode H) MAX_GIT_OUTPUT None False outcome in
     (map_sum id br_stdout r,
      s\<lparr>gw_world := w,
        gw_log := gw_log s @ [\<lparr>gc_root = root, gc_args = args, gc_answer = (case r of Inl _ \<Rightarrow> None | Inr x \<Rightarrow> Some (br_stdout x))\<rparr>]\<rparr>))"

section \<open>Paths\<close>

definition segments_of :: "string \<Rightarrow> string list" where
  "segments_of p = kept_segments False [] (split_on (CHR ''/'') p)"

definition posix_resolve :: "string \<Rightarrow> string \<Rightarrow> string" where
  "posix_resolve cwd p = (if is_absolute_path p then posix_resolve_absolute p else posix_resolve_absolute (cwd @ ''/'' @ p))"

fun drop_common :: "string list \<Rightarrow> string list \<Rightarrow> string list \<times> string list" where
  "drop_common (x # xs) (y # ys) = (if x = y then drop_common xs ys else (x # xs, y # ys))"
| "drop_common xs ys = (xs, ys)"

text \<open>\<open>path.relative\<close> of two absolute paths.\<close>

definition posix_relative :: "string \<Rightarrow> string \<Rightarrow> string" where
  "posix_relative from to = (case drop_common (segments_of from) (segments_of to) of
     (up, down) \<Rightarrow> join_with ''/'' (map (\<lambda>_. ''..'') up @ down))"

definition isWithin :: "string \<Rightarrow> string \<Rightarrow> bool" where
  "isWithin root target \<longleftrightarrow>
     (let v = posix_relative root target in v = [] \<or> (\<not> prefix ''..'' v \<and> \<not> contains ''../'' v))"

section \<open>The binding of a task\<close>

definition worktree_root :: "string \<Rightarrow> task_err + string" where
  "worktree_root p =
     (if \<not> is_absolute_path p then Inl (TaskErr ''RUNTIME_PATH_UNSAFE'') else Inr (posix_resolve_absolute p))"

definition worktree_initialize :: "'w git_host \<Rightarrow> string \<Rightarrow> ('w, unit) worktree_eff" where
  "worktree_initialize H root =
     bindE (hostE (gw_mkdir H root)) (\<lambda>_.
     bindE (hostE (gw_lstat H root)) (\<lambda>metadata.
     bindE (throw_if (\<not> fm_is_directory metadata \<or> fm_is_symlink metadata) (TaskErr ''RUNTIME_PATH_UNSAFE'')) (\<lambda>_.
     if fm_mode metadata \<noteq> 448 then hostE (gw_chmod H root) else ret ())))"

definition task_suffix :: "(string \<Rightarrow> string) \<Rightarrow> string \<Rightarrow> string" where
  "task_suffix sha task_id = take 12 (hashedDiskKey sha ''task-worktree'' task_id)"

definition worktree_binding :: "(string \<Rightarrow> string) \<Rightarrow> string \<Rightarrow> binding_input \<Rightarrow> task_err + git_task_binding" where
  "worktree_binding sha root i =
     bindR (guardR (task_id_schema (bi_task_id i)) ZodErr) (\<lambda>_.
     bindR (guardR (git_object_id_schema (bi_base_commit i)) ZodErr) (\<lambda>_.
     bindR (guardR (git_object_id_schema (bi_base_tree i)) ZodErr) (\<lambda>_.
     bindR (guardR (branch_slug_schema (bi_branch_slug i)) (TaskErr ''TASK_RUNTIME_INVALID'')) (\<lambda>_.
     bindR (guardR (is_absolute_path (bi_owner_root i) \<and> \<not> prefix ''-'' (bi_base_branch i)
         \<and> \<not> list_ex (\<lambda>c. c = CHR 0x00 \<or> c = CHR 0x0D \<or> c = CHR 0x0A) (bi_base_branch i))
       (TaskErr ''TASK_RUNTIME_INVALID'')) (\<lambda>_.
     let name = bi_branch_slug i @ ''-'' @ task_suffix sha (bi_task_id i);
         path = posix_resolve_absolute (root @ ''/'' @ name) in
     bindR (guardR (isWithin root path) (TaskErr ''RUNTIME_PATH_UNSAFE'')) (\<lambda>_.
     Inr (binding_input.extend (i\<lparr>bi_owner_root := posix_resolve_absolute (bi_owner_root i)\<rparr>)
       \<lparr>b_server_branch = ''chat-pro/tasks/'' @ name, b_worktree_path = path\<rparr>)))))))"

definition assertDerived :: "(string \<Rightarrow> string) \<Rightarrow> string \<Rightarrow> git_task_binding \<Rightarrow> task_err + unit" where
  "assertDerived sha root b =
     bindR (worktree_binding sha root (binding_input.truncate b)) (\<lambda>derived.
     guardR (bi_owner_root derived = bi_owner_root b \<and> b_server_branch derived = b_server_branch b
       \<and> b_worktree_path derived = b_worktree_path b) (TaskErr ''GIT_BINDING_MISMATCH''))"

definition worktree_verifyRoots :: "'w git_host \<Rightarrow> string \<Rightarrow> git_task_binding \<Rightarrow> ('w, unit) worktree_eff" where
  "worktree_verifyRoots H root b =
     bindE (liftR (assertDerived (gw_sha256 H) root b)) (\<lambda>_.
     bindE (worktree_initialize H root) (\<lambda>_.
     bindE (hostE (gw_realpath H root)) (\<lambda>root_real.
     bindE (throw_if (root_real \<noteq> root) (TaskErr ''RUNTIME_PATH_UNSAFE'')) (\<lambda>_.
     bindE (hostE (gw_realpath H (bi_owner_root b))) (\<lambda>owner_real.
     bindE (throw_if (owner_real \<noteq> bi_owner_root b) (TaskErr ''GIT_BINDING_MISMATCH'')) (\<lambda>_.
     bindE (throw_if (isWithin owner_real root) (TaskErr ''RUNTIME_PATH_UNSAFE'')) (\<lambda>_.
     bindE (worktree_git H (bi_owner_root b) [''rev-parse'', ''--show-toplevel'']) (\<lambda>top.
     bindE (hostE (gw_realpath H (trim top))) (\<lambda>top_real.
     throw_if (top_real \<noteq> owner_real) (TaskErr ''GIT_BINDING_MISMATCH''))))))))))"

definition base_commit_args :: "git_task_binding \<Rightarrow> string list" where
  "base_commit_args b = [''rev-parse'', ''--verify'', bi_base_commit b @ ''^{commit}'']"

definition base_tree_args :: "git_task_binding \<Rightarrow> string list" where
  "base_tree_args b = [''rev-parse'', ''--verify'', bi_base_commit b @ ''^{tree}'']"

definition base_branch_args :: "git_task_binding \<Rightarrow> string list" where
  "base_branch_args b = [''rev-parse'', ''--verify'', ''refs/heads/'' @ bi_base_branch b @ ''^{commit}'']"

definition worktree_verifyBase :: "'w git_host \<Rightarrow> string \<Rightarrow> git_task_binding \<Rightarrow> ('w, unit) worktree_eff" where
  "worktree_verifyBase H root b =
     bindE (worktree_verifyRoots H root b) (\<lambda>_.
     bindE (worktree_git H (bi_owner_root b) [''check-ref-format'', ''--branch'', bi_base_branch b]) (\<lambda>_.
     bindE (worktree_git H (bi_owner_root b) (base_branch_args b)) (\<lambda>branch_commit.
     bindE (worktree_git H (bi_owner_root b) (base_commit_args b)) (\<lambda>exact_commit.
     bindE (worktree_git H (bi_owner_root b) (base_tree_args b)) (\<lambda>exact_tree.
     throw_if (trim branch_commit \<noteq> bi_base_commit b \<or> trim exact_commit \<noteq> bi_base_commit b \<or> trim exact_tree \<noteq> bi_base_tree b)
       (TaskErr ''GIT_BINDING_MISMATCH''))))))"

definition status_args :: "string list" where
  "status_args = [''status'', ''--porcelain=v1'', ''-z'', ''--untracked-files=all'']"

definition worktree_verifyBaseClean :: "'w git_host \<Rightarrow> string \<Rightarrow> git_task_binding \<Rightarrow> ('w, unit) worktree_eff" where
  "worktree_verifyBaseClean H root b =
     bindE (worktree_verifyBase H root b) (\<lambda>_.
     bindE (worktree_git H (bi_owner_root b) status_args) (\<lambda>status.
     throw_if (status \<noteq> []) (TaskErr ''GIT_WORKTREE_DIRTY'')))"

section \<open>What Git and the file system show\<close>

record porcelain_worktree =
  pw_path :: string
  pw_head :: "string option"
  pw_branch :: "string option"

text \<open>The loop over the tokens: the finished entries and the current one.\<close>

definition porcelain_token ::
  "porcelain_worktree list \<times> porcelain_worktree option \<Rightarrow> string \<Rightarrow> porcelain_worktree list \<times> porcelain_worktree option" where
  "porcelain_token st token = (case st of (done1, current) \<Rightarrow>
     (let finished = (case current of None \<Rightarrow> done1 | Some c \<Rightarrow> done1 @ [c]) in
      if token = [] then (finished, None)
      else if prefix ''worktree '' token then (finished, Some \<lparr>pw_path = drop 9 token, pw_head = None, pw_branch = None\<rparr>)
      else (case current of
          None \<Rightarrow> (done1, None)
        | Some c \<Rightarrow>
            if prefix ''HEAD '' token then (done1, Some (c\<lparr>pw_head := Some (drop 5 token)\<rparr>))
            else if prefix ''branch '' token then (done1, Some (c\<lparr>pw_branch := Some (drop 7 token)\<rparr>))
            else (done1, Some c))))"

definition parseWorktreePorcelain :: "string \<Rightarrow> porcelain_worktree list" where
  "parseWorktreePorcelain output =
     (case foldl porcelain_token ([], None) (split_on (CHR 0x00) output) of (done1, current) \<Rightarrow>
        (case current of None \<Rightarrow> done1 | Some c \<Rightarrow> done1 @ [c]))"

definition absent_observation :: worktree_observation where
  "absent_observation = \<lparr>w_disposition = ABSENT, w_path_present = False, w_registered = False, w_branch_present = False,
     w_observed_head = None, w_observed_tree = None, w_observed_branch = None\<rparr>"

definition pathExists :: "'w git_host \<Rightarrow> string \<Rightarrow> ('w, bool) worktree_eff" where
  "pathExists H path =
     catchE (bindE (hostE (gw_lstat H path)) (\<lambda>_. ret True))
       (\<lambda>e. if err_code e = Some ''ENOENT'' then ret False else throw e)"

definition uncertain :: "worktree_observation \<Rightarrow> task_err" where
  "uncertain v =
     (if w_disposition v = CONFLICT then TaskErr ''GIT_WORKTREE_CONFLICT'' else TaskErr ''GIT_EFFECT_UNCERTAIN'')"

definition branch_head_args :: "git_task_binding \<Rightarrow> string list" where
  "branch_head_args b = [''for-each-ref'', ''--format=%(objectname)'', ''refs/heads/'' @ b_server_branch b]"

text \<open>\<open>readBranchHead\<close> of the task's branch: the only non-empty line.\<close>

definition branch_heads :: "string \<Rightarrow> string list" where
  "branch_heads output = filter (\<lambda>v. v \<noteq> []) (map trim (split_on (CHR 0x0A) output))"

definition readBranchHead :: "'w git_host \<Rightarrow> git_task_binding \<Rightarrow> ('w, string option) worktree_eff" where
  "readBranchHead H b =
     bindE (worktree_git H (bi_owner_root b) (branch_head_args b)) (\<lambda>output.
     bindE (throw_if (1 < length (branch_heads output)) (TaskErr ''GIT_WORKTREE_CONFLICT'')) (\<lambda>_.
     ret (case branch_heads output of [] \<Rightarrow> None | v # _ \<Rightarrow> Some v)))"

definition worktree_list_args :: "string list" where
  "worktree_list_args = [''worktree'', ''list'', ''--porcelain'', ''-z'']"

text \<open>The head, the tree and the branch that the worktree itself shows.\<close>

definition observe_worktree ::
  "'w git_host \<Rightarrow> git_task_binding \<Rightarrow> porcelain_worktree \<Rightarrow> string \<Rightarrow> ('w, worktree_observation) worktree_eff" where
  "observe_worktree H b entry branch_head =
     bindE (worktree_git H (b_worktree_path b) [''rev-parse'', ''--verify'', ''HEAD^{commit}'']) (\<lambda>head.
     bindE (worktree_git H (b_worktree_path b) [''rev-parse'', ''--verify'', ''HEAD^{tree}'']) (\<lambda>tree.
     bindE (worktree_git H (b_worktree_path b) [''symbolic-ref'', ''--quiet'', ''--short'', ''HEAD'']) (\<lambda>branch.
     let exact = (pw_branch entry = Some (''refs/heads/'' @ b_server_branch b) \<and> trim branch = b_server_branch b
                  \<and> trim head = branch_head \<and> pw_head entry = Some (trim head)) in
     ret \<lparr>w_disposition = (if exact then EXACT else CONFLICT), w_path_present = True, w_registered = True,
          w_branch_present = True, w_observed_head = Some (trim head), w_observed_tree = Some (trim tree),
          w_observed_branch = Some (trim branch)\<rparr>)))"

definition partial_observation ::
  "porcelain_worktree option \<Rightarrow> bool \<Rightarrow> string option \<Rightarrow> worktree_observation" where
  "partial_observation entry present branch_head =
     \<lparr>w_disposition = PARTIAL, w_path_present = present, w_registered = (entry \<noteq> None),
      w_branch_present = (branch_head \<noteq> None),
      w_observed_head = (case Option.bind entry pw_head of None \<Rightarrow> branch_head | Some h \<Rightarrow> Some h),
      w_observed_tree = None, w_observed_branch = Option.bind entry pw_branch\<rparr>"

definition worktree_inspect :: "'w git_host \<Rightarrow> string \<Rightarrow> git_task_binding \<Rightarrow> ('w, worktree_observation) worktree_eff" where
  "worktree_inspect H root b =
     bindE (worktree_verifyRoots H root b) (\<lambda>_.
     bindE (worktree_git H (bi_owner_root b) worktree_list_args) (\<lambda>output.
     let entry = find (\<lambda>c. posix_resolve (gw_cwd H) (pw_path c) = b_worktree_path b) (parseWorktreePorcelain output) in
     bindE (readBranchHead H b) (\<lambda>branch_head.
     bindE (pathExists H (b_worktree_path b)) (\<lambda>present.
     if entry = None \<and> \<not> present \<and> branch_head = None then ret absent_observation
     else case (entry, branch_head) of
         (Some found, Some head) \<Rightarrow>
           if \<not> present then ret (partial_observation entry present branch_head)
           else bindE (hostE (gw_lstat H (b_worktree_path b))) (\<lambda>metadata.
             if \<not> fm_is_directory metadata \<or> fm_is_symlink metadata
             then ret \<lparr>w_disposition = CONFLICT, w_path_present = True, w_registered = True, w_branch_present = True,
                 w_observed_head = pw_head found, w_observed_tree = None, w_observed_branch = pw_branch found\<rparr>
             else observe_worktree H b found head)
       | _ \<Rightarrow> ret (partial_observation entry present branch_head)))))"

section \<open>Effects\<close>

definition worktree_add_args :: "git_task_binding \<Rightarrow> string list" where
  "worktree_add_args b =
     [''worktree'', ''add'', ''-b'', b_server_branch b, ''--'', b_worktree_path b, bi_base_commit b]"

definition worktree_create :: "'w git_host \<Rightarrow> string \<Rightarrow> git_task_binding \<Rightarrow> ('w, worktree_observation) worktree_eff" where
  "worktree_create H root b =
     bindE (worktree_verifyBase H root b) (\<lambda>_.
     bindE (worktree_inspect H root b) (\<lambda>before.
     if w_disposition before = EXACT then ret before
     else bindE (throw_if (w_disposition before \<noteq> ABSENT) (uncertain before)) (\<lambda>_.
          bindE (worktree_git H (bi_owner_root b) (worktree_add_args b)) (\<lambda>_.
          bindE (hostE (gw_chmod H (b_worktree_path b))) (\<lambda>_.
          bindE (worktree_inspect H root b) (\<lambda>after.
          bindE (throw_if (w_disposition after \<noteq> EXACT \<or> w_observed_head after \<noteq> Some (bi_base_commit b)
              \<or> w_observed_tree after \<noteq> Some (bi_base_tree b)) (uncertain after)) (\<lambda>_.
          ret after)))))))"

definition entry_count :: "string \<Rightarrow> nat" where
  "entry_count porcelain =
     (if porcelain = [] then 0 else length (filter (\<lambda>t. t \<noteq> []) (split_on (CHR 0x00) porcelain)))"

text \<open>The \<open>!\<close> of the source: an EXACT observation has a head, a tree and a branch.\<close>

definition worktree_statusOf :: "'w git_host \<Rightarrow> string \<Rightarrow> git_task_binding \<Rightarrow> ('w, worktree_status) worktree_eff" where
  "worktree_statusOf H root b =
     bindE (worktree_inspect H root b) (\<lambda>observation.
     bindE (throw_if (w_disposition observation \<noteq> EXACT) (uncertain observation)) (\<lambda>_.
     bindE (worktree_git H (b_worktree_path b) status_args) (\<lambda>porcelain.
     ret \<lparr>s_clean = (porcelain = []), s_porcelain_z = porcelain, s_changed_entry_count = entry_count porcelain,
          s_head = the (w_observed_head observation), s_tree = the (w_observed_tree observation),
          s_branch = the (w_observed_branch observation)\<rparr>)))"

datatype removal = Removal_Absent | Removed

definition worktree_remove_args :: "git_task_binding \<Rightarrow> string list" where
  "worktree_remove_args b = [''worktree'', ''remove'', ''--'', b_worktree_path b]"

definition worktree_remove :: "'w git_host \<Rightarrow> string \<Rightarrow> git_task_binding \<Rightarrow> ('w, removal) worktree_eff" where
  "worktree_remove H root b =
     bindE (worktree_inspect H root b) (\<lambda>observation.
     if w_disposition observation = ABSENT then ret Removal_Absent
     else bindE (throw_if (w_disposition observation \<noteq> EXACT) (uncertain observation)) (\<lambda>_.
          bindE (worktree_statusOf H root b) (\<lambda>status.
          bindE (throw_if (\<not> s_clean status) (TaskErr ''GIT_WORKTREE_DIRTY'')) (\<lambda>_.
          bindE (worktree_git H (bi_owner_root b) (worktree_remove_args b)) (\<lambda>_.
          bindE (worktree_inspect H root b) (\<lambda>after.
          bindE (throw_if (w_path_present after \<or> w_registered after) (uncertain after)) (\<lambda>_.
          ret Removed)))))))"

definition branch_delete_args :: "git_task_binding \<Rightarrow> string list" where
  "branch_delete_args b = [''branch'', ''-d'', ''--'', b_server_branch b]"

definition delete_branch ::
  "'w git_host \<Rightarrow> git_task_binding \<Rightarrow> string \<Rightarrow> ('w, bool \<times> delete_reason) worktree_eff" where
  "delete_branch H b expected =
     bindE (catchE (bindE (worktree_git H (bi_owner_root b) (branch_delete_args b)) (\<lambda>_. ret False))
        (\<lambda>e. bindE (readBranchHead H b) (\<lambda>still. if still = Some expected then ret True else throw e))) (\<lambda>kept.
     if kept then ret (False, Not_Merged)
     else bindE (readBranchHead H b) (\<lambda>left.
          bindE (throw_if (left \<noteq> None) (TaskErr ''GIT_EFFECT_UNCERTAIN'')) (\<lambda>_. ret (True, Deleted))))"

definition worktree_safeDeleteBranch ::
  "'w git_host \<Rightarrow> string \<Rightarrow> git_task_binding \<Rightarrow> string \<Rightarrow> ('w, bool \<times> delete_reason) worktree_eff" where
  "worktree_safeDeleteBranch H root b expected =
     bindE (throw_if (\<not> git_object_id_schema expected) ZodErr) (\<lambda>_.
     bindE (worktree_verifyRoots H root b) (\<lambda>_.
     bindE (worktree_git H (bi_owner_root b) worktree_list_args) (\<lambda>output.
     bindE (throw_if (list_ex (\<lambda>c. pw_branch c = Some (''refs/heads/'' @ b_server_branch b)) (parseWorktreePorcelain output))
        (TaskErr ''GIT_WORKTREE_CONFLICT'')) (\<lambda>_.
     bindE (readBranchHead H b) (\<lambda>head.
     case head of
       None \<Rightarrow> ret (False, Delete_Absent)
     | Some h \<Rightarrow>
         bindE (throw_if (h \<noteq> expected) (TaskErr ''GIT_BINDING_MISMATCH'')) (\<lambda>_.
         delete_branch H b expected))))))"

text \<open>The service as the task runtime uses it (\<open>wo_remove\<close> drops which of the two it was).\<close>

definition worktree_service :: "'w git_host \<Rightarrow> string \<Rightarrow> 'w git_state worktree_ops" where
  "worktree_service H root =
     \<lparr>wo_binding = worktree_binding (gw_sha256 H) root,
      wo_verify_base = worktree_verifyBase H root,
      wo_verify_base_clean = worktree_verifyBaseClean H root,
      wo_inspect = worktree_inspect H root,
      wo_create = worktree_create H root,
      wo_status = worktree_statusOf H root,
      wo_remove = (\<lambda>b. bindE (worktree_remove H root b) (\<lambda>_. ret ())),
      wo_delete_branch = worktree_safeDeleteBranch H root\<rparr>"

end
