(* ===== verification/Posix_Paths.thy ===== *)
theory Posix_Paths
  imports Git_Worktree
begin

text \<open>
  Segments of POSIX paths: what \<open>posix.normalize\<close>, \<open>resolve\<close> and \<open>relative\<close> do on lists of plain
  segments. The components that confine paths (worktrees, managed runtime files) share them.
\<close>

section \<open>Splitting and joining\<close>

definition plain_segment :: "string \<Rightarrow> bool" where
  "plain_segment s \<longleftrightarrow> s \<noteq> [] \<and> s \<noteq> ''.'' \<and> s \<noteq> ''..'' \<and> CHR ''/'' \<notin> set s"

lemma split_on_not_Nil [simp]: "split_on c s \<noteq> []"
  by (induction s) (auto split: list.split)

lemma split_on_segments: "w \<in> set (split_on c s) \<Longrightarrow> c \<notin> set w"
proof (induction s arbitrary: w)
  case (Cons x xs)
  then show ?case
    by (cases "split_on c xs") (auto split: if_splits)
qed simp

lemma split_on_plain: "c \<notin> set s \<Longrightarrow> split_on c s = [s]"
  by (induction s) auto

lemma split_on_append: "c \<notin> set s \<Longrightarrow> split_on c (s @ c # rest) = s # split_on c rest"
  by (induction s) auto

lemma split_join: "ss \<noteq> [] \<Longrightarrow> list_all (\<lambda>s. c \<notin> set s) ss \<Longrightarrow> split_on c (join_with [c] ss) = ss"
proof (induction "[c]" ss rule: join_with.induct)
  case (3 x y ys)
  then show ?case
    by (simp add: split_on_append)
qed (simp_all add: split_on_plain)

lemma join_split: "join_with [c] (split_on c s) = s"
proof (induction s)
  case (Cons x xs)
  obtain w ws where "split_on c xs = w # ws"
    by (cases "split_on c xs") auto
  with Cons show ?case
    by (cases ws) auto
qed simp

section \<open>Kept segments\<close>

lemma kept_plain: "list_all plain_segment ss \<Longrightarrow> kept_segments climb acc ss = rev acc @ ss"
  by (induction ss arbitrary: acc) (auto simp: plain_segment_def)

lemma kept_are_plain:
  "list_all plain_segment acc \<Longrightarrow> list_all (\<lambda>s. CHR ''/'' \<notin> set s) ss \<Longrightarrow> list_all plain_segment (kept_segments False acc ss)"
proof (induction ss arbitrary: acc)
  case (Cons s ss)
  then show ?case
    by (cases acc) (auto simp: plain_segment_def)
qed (simp add: list_all_iff)

lemma segments_plain: "list_all plain_segment (segments_of p)"
  unfolding segments_of_def by (rule kept_are_plain) (auto simp: list_all_iff dest: split_on_segments)

definition path_of :: "string list \<Rightarrow> string" where
  "path_of ss = ''/'' @ join_with ''/'' ss"

lemma resolve_path: "posix_resolve_absolute p = path_of (segments_of p)"
  by (simp add: posix_resolve_absolute_def path_of_def segments_of_def)

lemma segments_path: "list_all plain_segment ss \<Longrightarrow> segments_of (path_of ss) = ss"
proof -
  assume ss: "list_all plain_segment ss"
  then have "list_all (\<lambda>s. CHR ''/'' \<notin> set s) ss"
    by (auto simp: list_all_iff plain_segment_def)
  then have "ss \<noteq> [] \<Longrightarrow> split_on (CHR ''/'') (path_of ss) = [] # ss"
    using split_join [of ss "CHR ''/''"] by (simp add: path_of_def)
  then show ?thesis
    using kept_plain [OF ss, of False "[]"] by (cases "ss = []") (simp_all add: segments_of_def path_of_def)
qed

lemma resolve_idempotent: "posix_resolve_absolute (posix_resolve_absolute p) = posix_resolve_absolute p"
  by (simp add: resolve_path segments_path segments_plain)

lemma kept_append: "kept_segments climb acc (ss @ ts) = kept_segments climb (rev (kept_segments climb acc ss)) ts"
  by (induction climb acc ss rule: kept_segments.induct) (auto split: list.split)

lemma split_on_append_sep: "split_on c (s @ c # t) = split_on c s @ split_on c t"
proof (induction s)
  case (Cons x xs)
  then show ?case
    by (cases "split_on c xs") auto
qed simp

lemma segments_below: "plain_segment n \<Longrightarrow> segments_of (p @ ''/'' @ n) = segments_of p @ [n]"
  using split_on_plain [of "CHR ''/''" n]
  by (simp add: segments_of_def split_on_append_sep kept_append) (simp add: plain_segment_def)

section \<open>Relative paths\<close>

lemma drop_common_spec:
  "drop_common xs ys = (up, down) \<Longrightarrow> \<exists>zs. xs = zs @ up \<and> ys = zs @ down"
proof (induction xs ys arbitrary: up down rule: drop_common.induct)
  case (1 x xs y ys)
  show ?case
  proof (cases "x = y")
    case True
    with 1 obtain zs where "xs = zs @ up" "ys = zs @ down"
      by auto
    with True show ?thesis
      by (intro exI [of _ "x # zs"]) simp
  qed (use 1 in auto)
qed auto

lemma drop_common_prefix [simp]: "drop_common xs (xs @ ys) = ([], ys)"
  by (induction xs) (cases ys, auto)

lemma join_starts: "xs \<noteq> [] \<Longrightarrow> prefix (hd xs) (join_with sep xs)"
  by (cases "(sep, xs)" rule: join_with.cases) auto

text \<open>What passes the check is below the root.\<close>

lemma isWithin_below: "isWithin root target \<Longrightarrow> \<exists>rest. segments_of target = segments_of root @ rest"
proof -
  assume within: "isWithin root target"
  obtain up down where ud: "drop_common (segments_of root) (segments_of target) = (up, down)"
    by fastforce
  have "up = []"
  proof (rule ccontr)
    assume "up \<noteq> []"
    then obtain u us where up: "up = u # us"
      by (cases up) auto
    then have "prefix ''..'' (posix_relative root target)" "posix_relative root target \<noteq> []"
      using join_starts [of "map (\<lambda>_. ''..'') up @ down" "''/''"] ud by (auto simp: posix_relative_def)
    with within show False
      by (simp add: isWithin_def Let_def)
  qed
  with drop_common_spec [OF ud] show ?thesis
    by auto
qed

end
