(* ===== verification/Worktree_Properties.thy ===== *)
theory Worktree_Properties
  imports Posix_Paths
begin

text \<open>
  What the worktree service promises: bindings are derived and confined, output of Git is bounded
  and read back exactly, and no destructive Git command is run that the command before it did not
  justify.
\<close>

section \<open>Bounded output\<close>

lemma collect_chunk_step:
  "collect_chunk (int n) \<lparr>cl_bytes = take n b, cl_truncated = (n < length b)\<rparr> c
   = \<lparr>cl_bytes = take n (b @ c), cl_truncated = (n < length (b @ c))\<rparr>"
proof (cases "n \<le> length b")
  case True
  then show ?thesis
    by (cases c) (auto simp: collect_chunk_def)
next
  case False
  then have "nat (int n - int (length b)) = n - length b"
    by simp
  with False show ?thesis
    by (auto simp: collect_chunk_def Let_def)
qed

lemma collect_chunk_fold:
  "foldl (collect_chunk (int n)) \<lparr>cl_bytes = take n b, cl_truncated = (n < length b)\<rparr> chunks
   = \<lparr>cl_bytes = take n (b @ concat chunks), cl_truncated = (n < length (b @ concat chunks))\<rparr>"
  by (induction chunks arbitrary: b) (simp_all add: collect_chunk_step del: take_append length_append)

text \<open>The collector of a process keeps exactly the first bytes up to its limit, however the output is
  cut into chunks, and says truncated exactly when there was more.\<close>

lemma output_is_bounded_prefix:
  "collect_chunks (int n) chunks = \<lparr>cl_bytes = take n (concat chunks), cl_truncated = (n < length (concat chunks))\<rparr>"
  using collect_chunk_fold [of n "[]" chunks] by (simp add: collect_chunks_def)

section \<open>Bindings\<close>

lemma slug_char_not_slash: "is_slug_char c \<Longrightarrow> c \<noteq> CHR ''/'' \<and> c \<noteq> CHR ''.''"
proof -
  have "\<not> is_slug_char CHR ''/''" "\<not> is_slug_char CHR ''.''"
    by (simp_all add: is_slug_char_def is_lower_def is_digit_def char_between_def code_of_def)
  then show "is_slug_char c \<Longrightarrow> c \<noteq> CHR ''/'' \<and> c \<noteq> CHR ''.''"
    by auto
qed

lemma hex_char_not_slash: "is_hex c \<Longrightarrow> c \<noteq> CHR ''/''"
proof -
  have "\<not> is_hex CHR ''/''"
    by (simp add: is_hex_def is_digit_def char_between_def code_of_def)
  then show "is_hex c \<Longrightarrow> c \<noteq> CHR ''/''"
    by auto
qed

text \<open>A hash function that answers with hexadecimal text.\<close>

definition hex_hash :: "(string \<Rightarrow> string) \<Rightarrow> bool" where
  "hex_hash sha \<longleftrightarrow> (\<forall>x. hex_n 64 (sha x))"

lemma suffix_hex: "hex_hash sha \<Longrightarrow> hex_n 12 (task_suffix sha t)"
  unfolding hex_hash_def task_suffix_def hashedDiskKey_def hex_n_def
  by (auto simp: list_all_iff dest: in_set_takeD)

lemma directory_name_plain:
  assumes "hex_hash sha" "branch_slug_schema slug"
  shows "plain_segment (slug @ ''-'' @ task_suffix sha t)"
proof -
  have suffix: "CHR ''/'' \<notin> set (task_suffix sha t)"
    using suffix_hex [OF assms(1), of t] hex_char_not_slash by (auto simp: hex_n_def list_all_iff)
  obtain c cs where slug: "slug = c # cs" "is_slug_char c" "list_all is_slug_char cs"
    using assms(2) by (auto simp: branch_slug_schema_def is_slug_char_def split: list.splits)
  then have "CHR ''/'' \<notin> set slug" "c \<noteq> CHR ''.''"
    using slug_char_not_slash by (auto simp: list_all_iff)
  with suffix slug(1) show ?thesis
    by (simp add: plain_segment_def)
qed

text \<open>A derived binding is stable and confined: deriving it again from its own fields gives it back,
  so the service never refuses a binding it made; its directory is a direct child of the worktree
  root, named by the slug and the task's digest, and its branch is a server branch.\<close>

lemma derived_binding_is_stable:
  assumes "hex_hash sha" "worktree_root r = Inr root" "worktree_binding sha root i = Inr b"
  shows "assertDerived sha root b = Inr ()
     \<and> segments_of (b_worktree_path b) = segments_of root @ [bi_branch_slug i @ ''-'' @ task_suffix sha (bi_task_id i)]
     \<and> server_branch_schema (b_server_branch b)"
proof -
  let ?name = "bi_branch_slug i @ ''-'' @ task_suffix sha (bi_task_id i)"
  note binding = assms(3) [unfolded worktree_binding_def Let_def, simplified]
  have slug: "branch_slug_schema (bi_branch_slug i)"
    using binding by auto
  note name = directory_name_plain [OF assms(1) slug, of "bi_task_id i"]
  have fields: "bi_task_id b = bi_task_id i" "bi_branch_slug b = bi_branch_slug i" "bi_base_branch b = bi_base_branch i"
    "bi_base_commit b = bi_base_commit i" "bi_base_tree b = bi_base_tree i"
    "bi_owner_root b = posix_resolve_absolute (bi_owner_root i)"
    "b_worktree_path b = posix_resolve_absolute (root @ ''/'' @ ?name)" "b_server_branch b = ''chat-pro/tasks/'' @ ?name"
    using binding by (auto simp: binding_input.defs)
  have "assertDerived sha root b = Inr ()"
    using binding
    by (auto simp: assertDerived_def worktree_binding_def Let_def fields binding_input.defs resolve_idempotent)
      (auto simp: posix_resolve_absolute_def is_absolute_path_def)
  moreover have "segments_of (b_worktree_path b) = segments_of root @ [?name]"
    using segments_below [OF name, of root] segments_plain [of root] name
    by (simp add: fields resolve_path segments_path list_all_append)
  moreover have "bi_branch_slug i \<noteq> []"
    using slug by (auto simp: branch_slug_schema_def)
  then have "server_branch_schema (b_server_branch b)"
    using slug suffix_hex [OF assms(1), of "bi_task_id i"]
    by (auto simp: fields server_branch_schema_def Let_def hex_n_def Suc_le_eq)
  ultimately show ?thesis
    by simp
qed

definition demo_sha :: "string \<Rightarrow> string" where
  "demo_sha _ = replicate 64 (CHR ''a'')"

definition demo_binding_input :: binding_input where
  "demo_binding_input = \<lparr>bi_task_id = ''t1'', bi_owner_root = ''/r'', bi_base_branch = ''main'',
     bi_base_commit = replicate 40 (CHR ''1''), bi_base_tree = replicate 40 (CHR ''2''), bi_branch_slug = ''fix''\<rparr>"

lemma demo_hash: "hex_hash demo_sha"
  by (simp add: hex_hash_def demo_sha_def hex_n_def) code_simp

lemma derived_binding_is_stable_witness:
  "\<exists>b. worktree_binding demo_sha ''/w'' demo_binding_input = Inr b \<and> assertDerived demo_sha ''/w'' b = Inr ()
     \<and> segments_of (b_worktree_path b) = segments_of ''/w'' @ [''fix'' @ ''-'' @ task_suffix demo_sha ''t1'']
     \<and> server_branch_schema (b_server_branch b)"
proof -
  have "\<exists>b. worktree_binding demo_sha ''/w'' demo_binding_input = Inr b"
    by (rule exI [of _ "projr (worktree_binding demo_sha ''/w'' demo_binding_input)"]) code_simp
  then obtain b where b: "worktree_binding demo_sha ''/w'' demo_binding_input = Inr b"
    by blast
  have "worktree_root ''/w'' = Inr ''/w''"
    by code_simp
  from derived_binding_is_stable [OF demo_hash this b] b show ?thesis
    by (auto simp: demo_binding_input_def)
qed

section \<open>The worktree root and the base repository\<close>

text \<open>
  The service refuses a worktree root inside the base repository when \<open>isWithin\<close> finds it there.
  A directory whose name begins with two dots is not found.
\<close>

text \<open>The check that keeps the worktree root out of the base repository has a gap: it misses every
  root below the repository whose first further segment begins with two dots.\<close>

lemma dotted_directory_not_within:
  assumes "list_all plain_segment root" "plain_segment (''..'' @ name)" "list_all plain_segment rest"
  shows "\<not> isWithin (path_of root) (path_of (root @ (''..'' @ name) # rest))"
proof -
  have "list_all plain_segment (root @ (''..'' @ name) # rest)"
    using assms by simp
  then have "posix_relative (path_of root) (path_of (root @ (''..'' @ name) # rest)) = join_with ''/'' ((''..'' @ name) # rest)"
    using assms(1) by (simp add: posix_relative_def segments_path)
  moreover have "prefix ''..'' (join_with ''/'' ((''..'' @ name) # rest))"
    by (cases rest) auto
  ultimately show ?thesis
    by (auto simp: isWithin_def Let_def)
qed

lemma dotted_directory_not_within_witness:
  "\<not> isWithin (path_of [''home'', ''repo'']) (path_of ([''home'', ''repo''] @ (''..'' @ ''worktrees'') # []))"
  by (rule dotted_directory_not_within) (simp_all add: plain_segment_def)

section \<open>The list of worktrees\<close>

text \<open>How \<open>git worktree list --porcelain -z\<close> prints an entry: attributes end with NUL, an entry with
  an empty one.\<close>

definition nul :: string where
  "nul = [CHR 0x00]"

definition porcelain_entry :: "porcelain_worktree \<Rightarrow> string" where
  "porcelain_entry w =
     ''worktree '' @ pw_path w @ nul
     @ (case pw_head w of None \<Rightarrow> ''bare'' @ nul | Some h \<Rightarrow> ''HEAD '' @ h @ nul)
     @ (case pw_branch w of None \<Rightarrow> ''detached'' @ nul | Some r \<Rightarrow> ''branch '' @ r @ nul)
     @ nul"

definition porcelain_ok :: "porcelain_worktree \<Rightarrow> bool" where
  "porcelain_ok w \<longleftrightarrow> CHR 0x00 \<notin> set (pw_path w) \<and> (\<forall>h. pw_head w = Some h \<longrightarrow> CHR 0x00 \<notin> set h)
     \<and> (\<forall>r. pw_branch w = Some r \<longrightarrow> CHR 0x00 \<notin> set r)"

lemma split_entry:
  "porcelain_ok w \<Longrightarrow> split_on (CHR 0x00) (porcelain_entry w @ rest) =
     [''worktree '' @ pw_path w, (case pw_head w of None \<Rightarrow> ''bare'' | Some h \<Rightarrow> ''HEAD '' @ h),
      (case pw_branch w of None \<Rightarrow> ''detached'' | Some r \<Rightarrow> ''branch '' @ r), []] @ split_on (CHR 0x00) rest"
  by (cases "pw_head w"; cases "pw_branch w")
    (simp_all add: porcelain_entry_def porcelain_ok_def nul_def split_on_append)

lemma porcelain_fold:
  "foldl porcelain_token (done1, None) [''worktree '' @ pw_path w, (case pw_head w of None \<Rightarrow> ''bare'' | Some h \<Rightarrow> ''HEAD '' @ h),
     (case pw_branch w of None \<Rightarrow> ''detached'' | Some r \<Rightarrow> ''branch '' @ r), []] = (done1 @ [w], None)"
  by (cases "pw_head w"; cases "pw_branch w") (simp_all add: porcelain_token_def Let_def)

text \<open>The list of worktrees that Git prints is read back entry by entry, for every path, head and
  branch that has no NUL, detached and bare entries included.\<close>

lemma worktree_list_round_trip:
  assumes "list_all porcelain_ok ws"
  shows "parseWorktreePorcelain (concat (map porcelain_entry ws)) = ws"
proof -
  have "foldl porcelain_token (done1, None) (split_on (CHR 0x00) (concat (map porcelain_entry ws))) = (done1 @ ws, None)" for done1
    using assms
  proof (induction ws arbitrary: done1)
    case (Cons w ws)
    then show ?case
      using porcelain_fold [of done1 w] by (simp add: split_entry)
  qed (simp add: porcelain_token_def)
  from this [of "[]"] show ?thesis
    by (simp add: parseWorktreePorcelain_def)
qed

lemma worktree_list_round_trip_witness:
  "let ws = [\<lparr>pw_path = ''/w/fix'', pw_head = Some ''ab'', pw_branch = Some ''refs/heads/main''\<rparr>,
       \<lparr>pw_path = ''/w/x y'', pw_head = Some ''cd'', pw_branch = None\<rparr>] in
     parseWorktreePorcelain (concat (map porcelain_entry ws)) = ws"
  unfolding Let_def by (rule worktree_list_round_trip) (simp add: porcelain_ok_def)

end
