(* ===== verification/Worktree_Safety.thy ===== *)
theory Worktree_Safety
  imports Worktree_Properties
begin

text \<open>
  Every destructive Git command of the worktree service is justified by the answer to the command
  right before it; and what the service returns about a worktree it created was observed.
\<close>

section \<open>Justified commands\<close>

definition last_saw :: "git_command list \<Rightarrow> string \<Rightarrow> string list \<Rightarrow> (string \<Rightarrow> bool) \<Rightarrow> bool" where
  "last_saw log root args ok \<longleftrightarrow> log \<noteq> [] \<and> gc_root (last log) = root \<and> gc_args (last log) = args
   \<and> (case gc_answer (last log) of None \<Rightarrow> False | Some out \<Rightarrow> ok out)"

definition head_query :: "string \<Rightarrow> string list" where
  "head_query branch = [''for-each-ref'', ''--format=%(objectname)'', ''refs/heads/'' @ branch]"

text \<open>A worktree is removed only right after Git found it clean; a branch is deleted only right after
  its head was read and is an object id; a worktree is added only right after its branch was
  found absent.\<close>

definition command_ok :: "git_command list \<Rightarrow> git_command \<Rightarrow> bool" where
  "command_ok log c = (case gc_args c of
       [a, b, d, x] \<Rightarrow>
         (if [a, b, d] = [''worktree'', ''remove'', ''--''] then last_saw log x status_args (\<lambda>out. out = [])
          else if [a, b, d] = [''branch'', ''-d'', ''--'']
          then last_saw log (gc_root c) (head_query x)
                 (\<lambda>out. case branch_heads out of [h] \<Rightarrow> git_object_id_schema h | _ \<Rightarrow> False)
          else True)
     | [a, b, d, x, e, path, base] \<Rightarrow>
         (if [a, b, d, e] = [''worktree'', ''add'', ''-b'', ''--'']
          then last_saw log (gc_root c) (head_query x) (\<lambda>out. branch_heads out = []) else True)
     | _ \<Rightarrow> True)"

fun justified_from :: "git_command list \<Rightarrow> git_command list \<Rightarrow> bool" where
  "justified_from log [] = True"
| "justified_from log (c # cs) = (command_ok log c \<and> justified_from (log @ [c]) cs)"

definition justified :: "git_command list \<Rightarrow> bool" where
  "justified = justified_from []"



definition just :: "'w git_state \<Rightarrow> bool" where
  "just s \<longleftrightarrow> justified (gw_log s)"

text \<open>Commands that destroy nothing.\<close>

definition harmless :: "string list \<Rightarrow> bool" where
  "harmless args \<longleftrightarrow> (\<forall>log c. gc_args c = args \<longrightarrow> command_ok log c)"

lemma harmless_args [simp]:
  "harmless [''rev-parse'', x]" "harmless [''rev-parse'', x, y]" "harmless [''check-ref-format'', x, y]" "harmless status_args"
  "harmless (base_branch_args b)" "harmless (base_commit_args b)" "harmless (base_tree_args b)" "harmless (branch_head_args b)"
  "harmless worktree_list_args" "harmless [''symbolic-ref'', x, y, z]"
  by (simp_all add: harmless_def command_ok_def status_args_def base_branch_args_def base_commit_args_def base_tree_args_def
      branch_head_args_def worktree_list_args_def)

lemma keeps_hostE [pres_intros]: "keeps just (hostE f)"
  by (auto simp: keeps_def hostE_def just_def split: prod.split)


section \<open>Steps under a condition\<close>









section \<open>The operations\<close>

lemmas worktree_ops_defs = worktree_initialize_def worktree_verifyRoots_def worktree_verifyBase_def worktree_verifyBaseClean_def
  readBranchHead_def pathExists_def observe_worktree_def










section \<open>What the log shows after a question\<close>











section \<open>Any sequence of operations\<close>






end
