(* ===== verification/Secure_Fs.thy ===== *)
theory Secure_Fs
  imports Posix_Paths
begin

text \<open>
  The managed runtime directory (src/task-runtime/secure-runtime-fs.ts) over a file system of
  names and nodes: a link gives a node a second name, rename moves a name, and what a node's bytes
  are changes only by writing to it. Every call of the operating system may fail; a write that
  fails may have written some of its bytes. What other processes do while a reader waits is a
  parameter.
\<close>

section \<open>Managed paths\<close>

definition path_unsafe :: task_err where
  "path_unsafe = TaskErr ''RUNTIME_PATH_UNSAFE''"

definition unsafeFile :: task_err where
  "unsafeFile = TaskErr ''RUNTIME_FILE_UNSAFE''"

definition ends_with :: "string \<Rightarrow> string \<Rightarrow> bool" where
  "ends_with suf s \<longleftrightarrow> length suf \<le> length s \<and> drop (length s - length suf) s = suf"

definition validateManagedRelativePath :: "string \<Rightarrow> task_err + string" where
  "validateManagedRelativePath v =
     (if CHR 0x5C \<in> set v \<or> CHR 0x00 \<in> set v \<or> is_absolute_path v then Inl path_unsafe
      else let n = posix_normalize (if v = [] then ''.'' else v) in
        if n = ''..'' \<or> prefix ''../'' n \<or> contains ''/../'' n then Inl path_unsafe
        else Inr (if prefix ''./'' n then drop 2 n else n))"

definition managed_root :: "string \<Rightarrow> task_err + string" where
  "managed_root p = (if \<not> is_absolute_path p then Inl path_unsafe else Inr (posix_resolve_absolute p))"

definition absolutePath :: "string \<Rightarrow> string \<Rightarrow> task_err + string" where
  "absolutePath root v =
     bindR (validateManagedRelativePath v) (\<lambda>safe.
     let p = posix_resolve_absolute (root @ ''/'' @ safe);
         pre = (if ends_with ''/'' root then root else root @ ''/'') in
     if p \<noteq> root \<and> \<not> prefix pre p then Inl path_unsafe else Inr p)"

text \<open>\<open>path.join\<close> of an absolute path and a segment, and \<open>posix.dirname\<close> of a managed path.\<close>

definition posix_join :: "string \<Rightarrow> string \<Rightarrow> string" where
  "posix_join a b = posix_normalize (if b = [] then a else a @ ''/'' @ b)"

definition posix_dirname :: "string \<Rightarrow> string" where
  "posix_dirname p = (let parts = butlast (split_on (CHR ''/'') (drop_trailing (CHR ''/'') p)) in
     if parts = [] then ''.'' else join_with ''/'' parts)"

section \<open>The file system\<close>

datatype node_kind = Regular | Directory | Symlink | Unsupported

record fs_node =
  nd_kind :: node_kind
  nd_mode :: nat
  nd_bytes :: string

record 'w fs_state =
  fs_names :: "(string \<times> nat) list"
  fs_nodes :: "nat \<Rightarrow> fs_node"
  fs_next :: nat
  fs_world :: 'w

record 'w fs_env =
  sf_root :: string
  sf_fault :: "string \<Rightarrow> 'w \<Rightarrow> task_err option \<times> 'w"
  sf_cut :: "'w \<Rightarrow> nat \<times> 'w"
  sf_temp :: "'w \<Rightarrow> string \<times> 'w"
  sf_wait :: "'w fs_state \<Rightarrow> 'w fs_state"

type_synonym ('w, 'a) fs_eff = "(task_err, 'w fs_state, 'a) eff"

definition enoent :: task_err where
  "enoent = OtherErr (Some ''ENOENT'')"

definition eexist :: task_err where
  "eexist = OtherErr (Some ''EEXIST'')"

definition askF :: "('w \<Rightarrow> 'a \<times> 'w) \<Rightarrow> ('w, 'a) fs_eff" where
  "askF f = (\<lambda>s. case f (fs_world s) of (x, w) \<Rightarrow> (Inr x, s\<lparr>fs_world := w\<rparr>))"

text \<open>A call that may fail before it does anything.\<close>

definition sys_call :: "'w fs_env \<Rightarrow> string \<Rightarrow> ('w, unit) fs_eff" where
  "sys_call E call = bindE (askF (sf_fault E call)) (\<lambda>f. case f of None \<Rightarrow> ret () | Some e \<Rightarrow> throw e)"

definition node_of :: "'w fs_state \<Rightarrow> string \<Rightarrow> nat option" where
  "node_of s p = map_of (fs_names s) p"

definition link_count :: "'w fs_state \<Rightarrow> nat \<Rightarrow> nat" where
  "link_count s i = length (filter (\<lambda>n. snd n = i) (fs_names s))"

definition bind_name :: "string \<Rightarrow> nat \<Rightarrow> 'w fs_state \<Rightarrow> 'w fs_state" where
  "bind_name p i s = s\<lparr>fs_names := (p, i) # filter (\<lambda>n. fst n \<noteq> p) (fs_names s)\<rparr>"

definition drop_name :: "string \<Rightarrow> 'w fs_state \<Rightarrow> 'w fs_state" where
  "drop_name p s = s\<lparr>fs_names := filter (\<lambda>n. fst n \<noteq> p) (fs_names s)\<rparr>"

definition add_node :: "string \<Rightarrow> fs_node \<Rightarrow> 'w fs_state \<Rightarrow> 'w fs_state" where
  "add_node p nd s = bind_name p (fs_next s) (s\<lparr>fs_nodes := (fs_nodes s)(fs_next s := nd), fs_next := fs_next s + 1\<rparr>)"

definition set_node :: "nat \<Rightarrow> (fs_node \<Rightarrow> fs_node) \<Rightarrow> 'w fs_state \<Rightarrow> 'w fs_state" where
  "set_node i g s = s\<lparr>fs_nodes := (fs_nodes s)(i := g (fs_nodes s i))\<rparr>"

section \<open>System calls\<close>

definition sys_mkdir :: "'w fs_env \<Rightarrow> nat \<Rightarrow> string \<Rightarrow> ('w, unit) fs_eff" where
  "sys_mkdir E mode p =
     bindE (sys_call E ''mkdir'') (\<lambda>_.
     bindE (getE (\<lambda>s. node_of s p)) (\<lambda>present.
     if present \<noteq> None then throw eexist
     else modifyE (add_node p \<lparr>nd_kind = Directory, nd_mode = mode, nd_bytes = []\<rparr>)))"

definition sys_lstat :: "'w fs_env \<Rightarrow> string \<Rightarrow> ('w, nat \<times> fs_node) fs_eff" where
  "sys_lstat E p =
     bindE (sys_call E ''lstat'') (\<lambda>_.
     bindE (getE (\<lambda>s. map_option (\<lambda>i. (i, fs_nodes s i)) (node_of s p))) (\<lambda>found.
     case found of None \<Rightarrow> throw enoent | Some x \<Rightarrow> ret x))"

definition sys_chmod :: "'w fs_env \<Rightarrow> string \<Rightarrow> nat \<Rightarrow> ('w, unit) fs_eff" where
  "sys_chmod E p mode =
     bindE (sys_call E ''chmod'') (\<lambda>_.
     bindE (getE (\<lambda>s. node_of s p)) (\<lambda>found.
     case found of None \<Rightarrow> throw enoent | Some i \<Rightarrow> modifyE (set_node i (\<lambda>n. n\<lparr>nd_mode := mode\<rparr>))))"

definition sys_create :: "'w fs_env \<Rightarrow> string \<Rightarrow> nat \<Rightarrow> ('w, nat) fs_eff" where
  "sys_create E p mode =
     bindE (sys_call E ''open'') (\<lambda>_.
     bindE (getE (\<lambda>s. (node_of s p, fs_next s))) (\<lambda>(present, i).
     if present \<noteq> None then throw eexist
     else bindE (modifyE (add_node p \<lparr>nd_kind = Regular, nd_mode = mode, nd_bytes = []\<rparr>)) (\<lambda>_. ret i)))"

definition sys_write :: "'w fs_env \<Rightarrow> nat \<Rightarrow> string \<Rightarrow> ('w, unit) fs_eff" where
  "sys_write E i content =
     bindE (askF (sf_fault E ''write'')) (\<lambda>f.
     case f of
       None \<Rightarrow> modifyE (set_node i (\<lambda>n. n\<lparr>nd_bytes := content\<rparr>))
     | Some e \<Rightarrow> bindE (askF (sf_cut E)) (\<lambda>k.
         bindE (modifyE (set_node i (\<lambda>n. n\<lparr>nd_bytes := take k content\<rparr>))) (\<lambda>_. throw e)))"

definition sys_link :: "'w fs_env \<Rightarrow> string \<Rightarrow> string \<Rightarrow> ('w, unit) fs_eff" where
  "sys_link E from to =
     bindE (sys_call E ''link'') (\<lambda>_.
     bindE (getE (\<lambda>s. (node_of s from, node_of s to))) (\<lambda>(source, present).
     if present \<noteq> None then throw eexist
     else (case source of None \<Rightarrow> throw enoent | Some i \<Rightarrow> modifyE (bind_name to i))))"

definition sys_rename :: "'w fs_env \<Rightarrow> string \<Rightarrow> string \<Rightarrow> ('w, unit) fs_eff" where
  "sys_rename E from to =
     bindE (sys_call E ''rename'') (\<lambda>_.
     bindE (getE (\<lambda>s. node_of s from)) (\<lambda>source.
     case source of None \<Rightarrow> throw enoent | Some i \<Rightarrow> modifyE (\<lambda>s. bind_name to i (drop_name from s))))"

definition sys_unlink :: "'w fs_env \<Rightarrow> string \<Rightarrow> ('w, unit) fs_eff" where
  "sys_unlink E p =
     bindE (sys_call E ''unlink'') (\<lambda>_.
     bindE (getE (\<lambda>s. node_of s p)) (\<lambda>present.
     if present = None then throw enoent else modifyE (drop_name p)))"

text \<open>\<open>rm(path, { force: true })\<close>: an absent name is no error.\<close>

definition sys_rm_force :: "'w fs_env \<Rightarrow> string \<Rightarrow> ('w, unit) fs_eff" where
  "sys_rm_force E p = bindE (sys_call E ''rm'') (\<lambda>_. modifyE (drop_name p))"

definition fsyncDirectory :: "'w fs_env \<Rightarrow> ('w, unit) fs_eff" where
  "fsyncDirectory E =
     bindE (sys_call E ''open'') (\<lambda>_.
     finallyE
       (catchE (sys_call E ''fsync'')
         (\<lambda>e. if err_code e \<in> Some ` {''EINVAL'', ''ENOTSUP'', ''EISDIR''} then ret () else throw e))
       (sys_call E ''close''))"

section \<open>Directories\<close>

definition assertPrivateDirectory :: "'w fs_env \<Rightarrow> string \<Rightarrow> ('w, unit) fs_eff" where
  "assertPrivateDirectory E p =
     bindE (sys_lstat E p) (\<lambda>(_, nd).
     bindE (throw_if (nd_kind nd \<noteq> Directory) path_unsafe) (\<lambda>_.
     if nd_mode nd \<noteq> 448 then sys_chmod E p 448 else ret ()))"

text \<open>\<open>mkdir\<close> with \<open>recursive\<close> is silent about a directory that exists.\<close>

definition fs_initialize :: "'w fs_env \<Rightarrow> ('w, unit) fs_eff" where
  "fs_initialize E =
     bindE (sys_call E ''mkdir'') (\<lambda>_.
     bindE (getE (\<lambda>s. map_option (fs_nodes s) (node_of s (sf_root E)))) (\<lambda>present.
     bindE (case present of
         None \<Rightarrow> modifyE (add_node (sf_root E) \<lparr>nd_kind = Directory, nd_mode = 448, nd_bytes = []\<rparr>)
       | Some nd \<Rightarrow> throw_if (nd_kind nd \<noteq> Directory) eexist) (\<lambda>_.
     assertPrivateDirectory E (sf_root E))))"

definition ensure_segment :: "'w fs_env \<Rightarrow> string \<Rightarrow> string \<Rightarrow> ('w, string) fs_eff" where
  "ensure_segment E current segment =
     (let p = posix_join current segment in
      bindE (catchE (sys_mkdir E 448 p) (\<lambda>e. if err_code e = Some ''EEXIST'' then ret () else throw e)) (\<lambda>_.
      bindE (assertPrivateDirectory E p) (\<lambda>_. ret p)))"

definition ensureDirectory :: "'w fs_env \<Rightarrow> string \<Rightarrow> ('w, string) fs_eff" where
  "ensureDirectory E relative =
     bindE (fs_initialize E) (\<lambda>_.
     bindE (liftR (validateManagedRelativePath relative)) (\<lambda>safe.
     if safe = ''.'' then ret (sf_root E)
     else foldE (ensure_segment E) (sf_root E) (split_on (CHR ''/'') safe)))"

definition assert_segment :: "'w fs_env \<Rightarrow> string \<Rightarrow> string \<Rightarrow> ('w, string) fs_eff" where
  "assert_segment E current segment =
     (let p = posix_join current segment in bindE (assertPrivateDirectory E p) (\<lambda>_. ret p))"

definition assertDirectory :: "'w fs_env \<Rightarrow> string \<Rightarrow> ('w, string) fs_eff" where
  "assertDirectory E relative =
     bindE (fs_initialize E) (\<lambda>_.
     bindE (liftR (validateManagedRelativePath relative)) (\<lambda>safe.
     if safe = ''.'' then ret (sf_root E)
     else foldE (assert_segment E) (sf_root E) (split_on (CHR ''/'') safe)))"

section \<open>Files\<close>

text \<open>\<open>.catch(() => undefined)\<close>\<close>

definition quietly :: "('w, unit) fs_eff \<Rightarrow> ('w, unit) fs_eff" where
  "quietly m = catchE m (\<lambda>_. ret ())"

definition target_safe_or_absent :: "'w fs_env \<Rightarrow> string \<Rightarrow> ('w, unit) fs_eff" where
  "target_safe_or_absent E p =
     catchE (bindE (sys_lstat E p) (\<lambda>(i, nd). bindE (getE (\<lambda>s. link_count s i)) (\<lambda>links.
         throw_if (nd_kind nd \<noteq> Regular \<or> links \<noteq> 1) unsafeFile)))
       (\<lambda>e. if err_code e = Some ''ENOENT'' then ret () else throw e)"

definition write_temporary :: "'w fs_env \<Rightarrow> nat \<Rightarrow> string \<Rightarrow> string \<Rightarrow> ('w, unit) fs_eff" where
  "write_temporary E mode temporary content =
     bindE (sys_create E temporary mode) (\<lambda>i.
     finallyE (bindE (sys_write E i content) (\<lambda>_. sys_call E ''fsync'')) (sys_call E ''close''))"

text \<open>The \<open>try\<close> of the write; the mutable local \<open>createdTarget\<close> is the tag of its errors.\<close>

definition publish :: "'w fs_env \<Rightarrow> string \<Rightarrow> string \<Rightarrow> string \<Rightarrow> bool \<Rightarrow> (task_err \<times> bool, 'w fs_state, unit) eff" where
  "publish E temporary target content exclusive =
     bindE (tagE False
       (bindE (write_temporary E 384 temporary content) (\<lambda>_.
        bindE (sys_chmod E temporary 384) (\<lambda>_.
        if exclusive then sys_link E temporary target else sys_rename E temporary target)))) (\<lambda>_.
     tagE True
       (bindE (if exclusive then sys_unlink E temporary else ret ()) (\<lambda>_.
        bindE (sys_chmod E target 384) (\<lambda>_. fsyncDirectory E))))"

definition abandon :: "'w fs_env \<Rightarrow> string \<Rightarrow> task_err \<times> bool \<Rightarrow> ('w, unit) fs_eff" where
  "abandon E temporary failure = (case failure of (e, created) \<Rightarrow>
     bindE (quietly (sys_rm_force E temporary)) (\<lambda>_.
     bindE (if created then quietly (fsyncDirectory E) else ret ()) (\<lambda>_. throw e)))"

definition secure_atomicWrite :: "'w fs_env \<Rightarrow> string \<Rightarrow> string \<Rightarrow> bool \<Rightarrow> ('w, unit) fs_eff" where
  "secure_atomicWrite E relative content exclusive =
     bindE (liftR (validateManagedRelativePath relative)) (\<lambda>safe.
     bindE (throw_if (safe = ''.'') path_unsafe) (\<lambda>_.
     bindE (ensureDirectory E (posix_dirname safe)) (\<lambda>parent.
     bindE (liftR (absolutePath (sf_root E) safe)) (\<lambda>target.
     bindE (target_safe_or_absent E target) (\<lambda>_.
     bindE (askF (sf_temp E)) (\<lambda>name.
     let temporary = posix_join parent name in
     catchE (publish E temporary target content exclusive) (abandon E temporary)))))))"

text \<open>One attempt of the reader: the bytes, or \<open>None\<close> when a writer is still unlinking its
  temporary name.\<close>

definition read_attempt :: "'w fs_env \<Rightarrow> string \<Rightarrow> nat \<Rightarrow> bool \<Rightarrow> ('w, string option) fs_eff" where
  "read_attempt E p max_bytes final =
     catchE
       (bindE (sys_call E ''open'') (\<lambda>_.
        bindE (getE (\<lambda>s. map_option (\<lambda>i. (fs_nodes s i, link_count s i)) (node_of s p))) (\<lambda>found.
        case found of
          None \<Rightarrow> throw enoent
        | Some (nd, links) \<Rightarrow>
            bindE (throw_if (nd_kind nd = Symlink) (OtherErr (Some ''ELOOP''))) (\<lambda>_.
            finallyE
              (bindE (sys_call E ''stat'') (\<lambda>_.
               bindE (throw_if (nd_kind nd \<noteq> Regular \<or> nd_mode nd mod 64 \<noteq> 0) unsafeFile) (\<lambda>_.
               if links \<noteq> 1 then bindE (throw_if final unsafeFile) (\<lambda>_. ret None)
               else bindE (throw_if (max_bytes < length (nd_bytes nd)) (TaskErr ''RUNTIME_SIZE_LIMIT'')) (\<lambda>_.
                    bindE (sys_call E ''read'') (\<lambda>_. ret (Some (nd_bytes nd)))))))
              (sys_call E ''close'')))))
       (\<lambda>e. if err_code e = Some ''ELOOP'' then throw unsafeFile else throw e)"

definition TRANSIENT_LINK_RECHECKS :: nat where
  "TRANSIENT_LINK_RECHECKS = 10"

primrec read_loop :: "'w fs_env \<Rightarrow> string \<Rightarrow> nat \<Rightarrow> nat \<Rightarrow> ('w, string) fs_eff" where
  "read_loop E p max_bytes 0 = throw unsafeFile"
| "read_loop E p max_bytes (Suc left) =
     bindE (read_attempt E p max_bytes (left = 0)) (\<lambda>found.
     case found of
       Some bytes \<Rightarrow> ret bytes
     | None \<Rightarrow> bindE (modifyE (sf_wait E)) (\<lambda>_. read_loop E p max_bytes left))"

definition secure_readFile :: "'w fs_env \<Rightarrow> string \<Rightarrow> int \<Rightarrow> ('w, string) fs_eff" where
  "secure_readFile E relative max_bytes =
     bindE (throw_if (\<not> safe_integer max_bytes \<or> max_bytes < 0) (TaskErr ''TASK_RUNTIME_INVALID'')) (\<lambda>_.
     bindE (liftR (validateManagedRelativePath relative)) (\<lambda>safe.
     bindE (assertDirectory E (posix_dirname safe)) (\<lambda>_.
     bindE (liftR (absolutePath (sf_root E) safe)) (\<lambda>p.
     read_loop E p (nat max_bytes) (TRANSIENT_LINK_RECHECKS + 1)))))"

text \<open>The names directly below a directory, in the order the file system gives them.\<close>

definition entries_of :: "string \<Rightarrow> 'w fs_state \<Rightarrow> (string \<times> node_kind) list" where
  "entries_of dir s =
     map (\<lambda>n. (drop (length dir + 1) (fst n), nd_kind (fs_nodes s (snd n))))
       (filter (\<lambda>n. prefix (dir @ ''/'') (fst n) \<and> CHR ''/'' \<notin> set (drop (length dir + 1) (fst n))) (fs_names s))"

definition secure_listDirectory :: "'w fs_env \<Rightarrow> string \<Rightarrow> int \<Rightarrow> ('w, (string \<times> node_kind) list) fs_eff" where
  "secure_listDirectory E relative max_entries =
     bindE (throw_if (\<not> safe_integer max_entries \<or> max_entries < 1 \<or> 10000 < max_entries)
        (TaskErr ''TASK_RUNTIME_INVALID'')) (\<lambda>_.
     bindE (assertDirectory E relative) (\<lambda>dir.
     bindE (sys_call E ''opendir'') (\<lambda>_.
     bindE (getE (entries_of dir)) (\<lambda>entries.
     bindE (throw_if (max_entries < int (length entries)) (TaskErr ''RUNTIME_SIZE_LIMIT'')) (\<lambda>_.
     ret entries)))))"

text \<open>\<open>rm\<close> with \<open>recursive\<close>: the directory and everything below it.\<close>

definition remove_tree :: "string \<Rightarrow> 'w fs_state \<Rightarrow> 'w fs_state" where
  "remove_tree p s = s\<lparr>fs_names := filter (\<lambda>n. fst n \<noteq> p \<and> \<not> prefix (p @ ''/'') (fst n)) (fs_names s)\<rparr>"

definition secure_removeDirectory :: "'w fs_env \<Rightarrow> string \<Rightarrow> ('w, unit) fs_eff" where
  "secure_removeDirectory E relative =
     bindE (liftR (validateManagedRelativePath relative)) (\<lambda>safe.
     bindE (throw_if (safe = ''.'') path_unsafe) (\<lambda>_.
     bindE (liftR (absolutePath (sf_root E) safe)) (\<lambda>p.
     bindE (sys_lstat E p) (\<lambda>(_, nd).
     bindE (throw_if (nd_kind nd \<noteq> Directory) unsafeFile) (\<lambda>_.
     bindE (sys_call E ''rm'') (\<lambda>_. modifyE (remove_tree p)))))))"

definition secure_removeFile :: "'w fs_env \<Rightarrow> string \<Rightarrow> ('w, unit) fs_eff" where
  "secure_removeFile E relative =
     bindE (liftR (validateManagedRelativePath relative)) (\<lambda>safe.
     bindE (throw_if (safe = ''.'') path_unsafe) (\<lambda>_.
     bindE (assertDirectory E (posix_dirname safe)) (\<lambda>_.
     bindE (liftR (absolutePath (sf_root E) safe)) (\<lambda>p.
     bindE (sys_lstat E p) (\<lambda>(i, nd).
     bindE (getE (\<lambda>s. link_count s i)) (\<lambda>links.
     bindE (throw_if (nd_kind nd \<noteq> Regular \<or> links \<noteq> 1) unsafeFile) (\<lambda>_.
     bindE (sys_unlink E p) (\<lambda>_.
     fsyncDirectory E))))))))"

end
