(* ===== verification/Repo_Paths.thy ===== *)
theory Repo_Paths
  imports Secure_Fs
begin

text \<open>
  The paths of a repository that a tool may name and write (src/services/path-sandbox.ts,
  src/services/write-policy.ts, src/services/ignore-engine.ts,
  src/policies/delegation-control-artifacts.ts, src/policies/write-defaults.ts). The matcher of glob
  lists (package \<open>ignore\<close>) and \<open>realpath\<close> are parameters; files are names and nodes as in
  \<open>Secure_Fs\<close>, a name below a symbolic link to a directory being a name of its own.
\<close>

section \<open>The environment\<close>

record 'w repo_env =
  rp_fs :: "'w fs_env"
  rp_realpath :: "string \<Rightarrow> 'w fs_state \<Rightarrow> task_err + string"
  rp_sha256 :: "string \<Rightarrow> string"
  rp_encode :: "string \<Rightarrow> string"
  rp_decode :: "string \<Rightarrow> string option"
  rp_matches :: "string list \<Rightarrow> string \<Rightarrow> task_err + bool"
  rp_secret_values :: "string \<Rightarrow> string list"

definition rp_root :: "'w repo_env \<Rightarrow> string" where
  "rp_root E = sf_root (rp_fs E)"

definition realpathE :: "'w repo_env \<Rightarrow> string \<Rightarrow> ('w, string) fs_eff" where
  "realpathE E p = bindE (getE (rp_realpath E p)) liftR"

definition repo_error :: "string \<Rightarrow> task_err" where
  "repo_error code = RepoErr code"

definition not_found :: "task_err \<Rightarrow> bool" where
  "not_found e \<longleftrightarrow> err_code e = Some ''ENOENT''"

section \<open>Paths\<close>

definition slashes :: "string \<Rightarrow> string" where
  "slashes = map (\<lambda>c. if c = CHR 0x5C then CHR ''/'' else c)"

definition normalizeRepoPath :: "string \<Rightarrow> string" where
  "normalizeRepoPath p = dropWhile (\<lambda>c. c = CHR ''/'') (slashes p)"

definition drop_dot_slash :: "string \<Rightarrow> string" where
  "drop_dot_slash p = (if prefix ''./'' p then drop 2 p else p)"

text \<open>\<open>/^[A-Za-z]:[\\/]/\<close>\<close>

definition drive_path :: "string \<Rightarrow> bool" where
  "drive_path p = (case p of c # d # e # _ \<Rightarrow> (is_lower c \<or> is_upper c) \<and> d = CHR '':'' \<and> (e = CHR 0x5C \<or> e = CHR ''/'') | _ \<Rightarrow> False)"

definition validateRepoPath :: "string \<Rightarrow> task_err + string" where
  "validateRepoPath p =
     (if p = [] then Inr ''.''
      else if prefix ''/'' p \<or> drive_path p then Inl (repo_error ''ABSOLUTE_PATH_REJECTED'')
      else let n = posix_normalize (normalizeRepoPath p) in
        if n = ''..'' \<or> prefix ''../'' n \<or> contains ''/../'' n then Inl (repo_error ''PATH_TRAVERSAL_REJECTED'')
        else Inr (if n = ''.'' then ''.'' else drop_dot_slash n))"

section \<open>Control artifacts of delegation\<close>

definition AGENT_RUN_PREFIX :: string where
  "AGENT_RUN_PREFIX = ''.chatgpt/codex-runs/''"

definition INTERNAL_RUN_FILES :: "string list" where
  "INTERNAL_RUN_FILES = [''runner.session.json'', ''runner.attempt.json'', ''runner.lock.json'',
     ''runner.lock.json.replace'', ''review.json'', ''review-gate.json'']"

text \<open>\<open>/^interactions\/turn-[0-9]{4}(?:-[a-f0-9]{64})?\.reply\.json$/\<close>\<close>

definition internal_reply :: "string \<Rightarrow> bool" where
  "internal_reply p \<longleftrightarrow>
     prefix ''interactions/turn-'' p \<and>
     (let t = drop 18 p; rest = drop 4 t in
      length t \<ge> 4 \<and> list_all is_digit (take 4 t) \<and>
      (rest = ''.reply.json''
       \<or> (prefix ''-'' rest \<and> hex_n 64 (take 64 (drop 1 rest)) \<and> drop 65 rest = ''.reply.json'')))"

definition isDelegationControlArtifact :: "string \<Rightarrow> bool" where
  "isDelegationControlArtifact p =
     (let normalized = to_lower (drop_dot_slash (posix_normalize (normalizeRepoPath p)));
          relative = join_with ''/'' (drop 1 (split_on (CHR ''/'') (drop (length AGENT_RUN_PREFIX) normalized))) in
      prefix AGENT_RUN_PREFIX normalized \<and>
      (list_ex (\<lambda>f. relative = f \<or> prefix (f @ ''.tmp-'') relative) INTERNAL_RUN_FILES \<or> internal_reply relative))"

section \<open>Sensitive names\<close>

definition PUBLIC_ENV_TEMPLATE_PATHS :: "string list" where
  "PUBLIC_ENV_TEMPLATE_PATHS = [''.env.example'', ''.env.sample'', ''.env.template'', ''example.env'']"

definition isPublicEnvTemplatePath :: "string \<Rightarrow> bool" where
  "isPublicEnvTemplatePath p \<longleftrightarrow> normalizeRepoPath p \<in> set PUBLIC_ENV_TEMPLATE_PATHS"

definition secret_name :: "string \<Rightarrow> string list \<Rightarrow> bool" where
  "secret_name base segments \<longleftrightarrow>
     base = ''.env'' \<or> prefix ''.env.'' base \<or> list_ex (\<lambda>x. ends_with x base) [''.pem'', ''.key'', ''.p12'', ''.pfx'']
     \<or> base = ''id_rsa'' \<or> base = ''id_ed25519'' \<or> ''secrets'' \<in> set segments \<or> ''credentials'' \<in> set segments"

text \<open>\<open>posix.basename\<close>: trailing separators do not count.\<close>

definition posix_basename :: "string \<Rightarrow> string" where
  "posix_basename p = last (split_on (CHR ''/'') (drop_trailing (CHR ''/'') p))"

definition isSensitiveCandidate :: "string \<Rightarrow> bool" where
  "isSensitiveCandidate p =
     (let n = normalizeRepoPath p; lower = to_lower n in
      if isDelegationControlArtifact n then True
      else if isPublicEnvTemplatePath n then False
      else secret_name (posix_basename lower) (split_on (CHR ''/'') lower))"

definition isHardSecretPath :: "string \<Rightarrow> bool" where
  "isHardSecretPath p = (let segments = split_on (CHR ''/'') (to_lower p) in secret_name (last segments) segments)"

section \<open>The write policy\<close>

record write_policy =
  wp_enabled :: bool
  wp_allowed_globs :: "string list"
  wp_denied_globs :: "string list"
  wp_max_bytes :: int

definition DEFAULT_WRITE_POLICY :: write_policy where
  "DEFAULT_WRITE_POLICY = \<lparr>wp_enabled = False,
     wp_allowed_globs = [''.chatgpt/**'', ''.codex/**'', ''docs/**'', ''README.md'', ''CHANGELOG.md'', ''CONTRIBUTING.md'',
       ''SECURITY.md'', ''CODE_OF_CONDUCT.md'', ''SUPPORT.md'', ''LICENSE'', ''.gitignore''],
     wp_denied_globs = [''.env'', ''.env.local'', ''.env.production'', ''.env.*'', ''**/*.pem'', ''**/*.key'', ''.git/**'',
       ''node_modules/**'', ''**/node_modules/**'', ''dist/**'', ''**/dist/**'', ''build/**'', ''**/build/**'', ''out/**'',
       ''**/out/**'', ''coverage/**'', ''**/coverage/**'', ''test-results/**'', ''**/test-results/**'',
       ''playwright-report/**'', ''**/playwright-report/**'', ''.next/**'', ''**/.next/**'', ''.nuxt/**'', ''**/.nuxt/**'',
       ''.svelte-kit/**'', ''**/.svelte-kit/**'', ''.astro/**'', ''**/.astro/**'', ''.cache/**'', ''**/.cache/**'',
       ''.turbo/**'', ''**/.turbo/**'', ''.vercel/**'', ''**/.vercel/**'', ''.venv/**'', ''**/.venv/**'', ''venv/**'',
       ''**/venv/**''],
     wp_max_bytes = 1048576\<rparr>"

definition policy_of :: "bool option \<Rightarrow> string list option \<Rightarrow> string list option \<Rightarrow> int option \<Rightarrow> write_policy" where
  "policy_of enabled allowed denied max_bytes =
     \<lparr>wp_enabled = (case enabled of None \<Rightarrow> wp_enabled DEFAULT_WRITE_POLICY | Some x \<Rightarrow> x),
      wp_allowed_globs = (case allowed of None \<Rightarrow> wp_allowed_globs DEFAULT_WRITE_POLICY | Some x \<Rightarrow> x),
      wp_denied_globs = (case denied of None \<Rightarrow> wp_denied_globs DEFAULT_WRITE_POLICY | Some x \<Rightarrow> x),
      wp_max_bytes = (case max_bytes of None \<Rightarrow> wp_max_bytes DEFAULT_WRITE_POLICY | Some x \<Rightarrow> x)\<rparr>"

definition assertAllowed :: "'w repo_env \<Rightarrow> write_policy \<Rightarrow> string \<Rightarrow> nat \<Rightarrow> task_err + unit" where
  "assertAllowed E P p bytes =
     (if \<not> wp_enabled P then Inl (repo_error ''WRITE_DISABLED'')
      else if wp_max_bytes P < int bytes then Inl (repo_error ''SIZE_LIMIT_EXCEEDED'')
      else bindR (rp_matches E (wp_denied_globs P) p) (\<lambda>denied.
        if denied then Inl (repo_error ''WRITE_DENIED_GLOB'')
        else if isSensitiveCandidate p \<and> isHardSecretPath p then Inl (repo_error ''SECRET_CANDIDATE_BLOCKED'')
        else bindR (rp_matches E (wp_allowed_globs P) p) (\<lambda>allowed.
          if \<not> allowed then Inl (repo_error ''WRITE_NOT_ALLOWED_GLOB'') else Inr ())))"

section \<open>The sandbox\<close>

record resolved_path =
  rv_repo_path :: string
  rv_absolute :: string
  rv_stat :: fs_node

definition artifact_blocked :: task_err where
  "artifact_blocked = repo_error ''INTERNAL_ARTIFACT_BLOCKED''"

definition sandbox_resolve :: "'w repo_env \<Rightarrow> string \<Rightarrow> ('w, resolved_path) fs_eff" where
  "sandbox_resolve E p =
     bindE (liftR (validateRepoPath p)) (\<lambda>normalized.
     bindE (throw_if (isDelegationControlArtifact normalized) artifact_blocked) (\<lambda>_.
     let absolute = posix_join (rp_root E) normalized in
     bindE (realpathE E (rp_root E)) (\<lambda>root_real.
     bindE (realpathE E absolute) (\<lambda>target_real.
     bindE (sys_lstat (rp_fs E) absolute) (\<lambda>(_, stat).
     bindE (throw_if (\<not> isWithin root_real target_real) (repo_error ''SYMLINK_ESCAPE_REJECTED'')) (\<lambda>_.
     bindE (throw_if (isDelegationControlArtifact (normalizeRepoPath (posix_relative root_real target_real))) artifact_blocked) (\<lambda>_.
     bindE (throw_if (nd_kind stat = Unsupported) (repo_error ''UNSUPPORTED_FILE_TYPE'')) (\<lambda>_.
     ret \<lparr>rv_repo_path = normalized, rv_absolute = target_real, rv_stat = stat\<rparr>))))))))"

datatype boundary_class = Normal_Boundary string | Nested_Repo string | Submodule string

definition classifyBoundary :: "'w repo_env \<Rightarrow> string \<Rightarrow> ('w, boundary_class) fs_eff" where
  "classifyBoundary E p =
     bindE (liftR (validateRepoPath p)) (\<lambda>normalized.
     let absolute = posix_join (rp_root E) normalized in
     catchE
       (bindE (sys_lstat (rp_fs E) (posix_join absolute ''.git'')) (\<lambda>(_, stat).
        ret (if nd_kind stat = Directory then Nested_Repo normalized
             else if nd_kind stat = Regular then Submodule normalized else Normal_Boundary normalized)))
       (\<lambda>_. ret (Normal_Boundary normalized)))"

end
