(* ===== verification/File_Edits.thy ===== *)
theory File_Edits
  imports Repo_Paths
begin

text \<open>
  The edits of texts of src/services/file-writer.ts: what each action makes of the old text.
  \<open>replace_first\<close> is \<open>String.prototype.replace\<close> with a string pattern, which expands dollar
  patterns in the replacement.
\<close>

section \<open>Strings\<close>

fun index_of :: "string \<Rightarrow> string \<Rightarrow> nat option" where
  "index_of anchor [] = (if anchor = [] then Some 0 else None)"
| "index_of anchor (x # xs) = (if prefix anchor (x # xs) then Some 0 else map_option Suc (index_of anchor xs))"

text \<open>\<open>text.indexOf(find, k)\<close> for \<open>k\<close> at most the length.\<close>

definition index_from :: "string \<Rightarrow> string \<Rightarrow> nat \<Rightarrow> nat option" where
  "index_from anchor text k = map_option (\<lambda>i. k + i) (index_of anchor (drop k text))"

text \<open>\<open>GetSubstitution\<close> without captures: the dollar sign, the match, what precedes and what
  follows it; any other dollar stays.\<close>

fun substitution :: "string \<Rightarrow> string \<Rightarrow> string \<Rightarrow> string \<Rightarrow> string" where
  "substitution lead matched trail [] = []"
| "substitution lead matched trail [c] = [c]"
| "substitution lead matched trail (c # d # cs) =
     (if c = CHR ''$'' \<and> d = CHR ''$'' then CHR ''$'' # substitution lead matched trail cs
      else if c = CHR ''$'' \<and> d = CHR ''&'' then matched @ substitution lead matched trail cs
      else if c = CHR ''$'' \<and> d = CHR 0x60 then lead @ substitution lead matched trail cs
      else if c = CHR ''$'' \<and> d = CHR 0x27 then trail @ substitution lead matched trail cs
      else c # substitution lead matched trail (d # cs))"

definition replace_first :: "string \<Rightarrow> string \<Rightarrow> string \<Rightarrow> string" where
  "replace_first text anchor replacement = (case index_of anchor text of
       None \<Rightarrow> text
     | Some i \<Rightarrow> let lead = take i text; trail = drop (i + length anchor) text in
         lead @ substitution lead anchor trail replacement @ trail)"

section \<open>One edit\<close>

datatype edit_action = W_write | W_replace | W_append | W_prepend | W_insert_before | W_insert_after

definition require_text :: "string \<Rightarrow> string option \<Rightarrow> task_err + string" where
  "require_text code t = (case t of None \<Rightarrow> Inl (repo_error code) | Some x \<Rightarrow> Inr x)"

definition requireContent :: "string option \<Rightarrow> task_err + string" where
  "requireContent = require_text ''WRITE_CONTENT_REQUIRED''"

definition requireFind :: "string option \<Rightarrow> task_err + string" where
  "requireFind t = (case t of None \<Rightarrow> Inl (repo_error ''WRITE_FIND_REQUIRED'')
     | Some x \<Rightarrow> if x = [] then Inl (repo_error ''WRITE_FIND_REQUIRED'') else Inr x)"

definition requireReplace :: "string option \<Rightarrow> task_err + string" where
  "requireReplace = require_text ''WRITE_CONTENT_REQUIRED''"

definition assertFindAppearsExactlyOnce :: "string \<Rightarrow> string \<Rightarrow> task_err + nat" where
  "assertFindAppearsExactlyOnce text anchor = (case index_of anchor text of
       None \<Rightarrow> Inl (repo_error ''WRITE_FIND_NOT_FOUND'')
     | Some first \<Rightarrow> if index_from anchor text (first + length anchor) \<noteq> None
         then Inl (repo_error ''WRITE_FIND_NOT_UNIQUE'') else Inr first)"

definition insert_text :: "string \<Rightarrow> nat \<Rightarrow> string \<Rightarrow> string" where
  "insert_text text i content = take i text @ content @ drop i text"

definition anchored_edit :: "edit_action \<Rightarrow> string option \<Rightarrow> string option \<Rightarrow> string option \<Rightarrow> string \<Rightarrow> task_err + string" where
  "anchored_edit action anchor replace content text =
     bindR (requireFind anchor) (\<lambda>f.
     if action = W_replace then
       bindR (requireReplace replace) (\<lambda>r. bindR (assertFindAppearsExactlyOnce text f) (\<lambda>_. Inr (replace_first text f r)))
     else
       bindR (assertFindAppearsExactlyOnce text f) (\<lambda>i.
       bindR (requireContent content) (\<lambda>c.
       Inr (insert_text text (if action = W_insert_before then i else i + length f) c))))"

definition computeNextText :: "edit_action \<Rightarrow> string option \<Rightarrow> string option \<Rightarrow> string option \<Rightarrow> string \<Rightarrow> task_err + string" where
  "computeNextText action anchor replace content text = (case action of
       W_append \<Rightarrow> bindR (requireContent content) (\<lambda>c. Inr (text @ c))
     | W_prepend \<Rightarrow> bindR (requireContent content) (\<lambda>c. Inr (c @ text))
     | _ \<Rightarrow> anchored_edit action anchor replace content text)"

section \<open>Grouped edits\<close>

record grouped_edit =
  gx_type :: edit_action
  gx_find :: "string option"
  gx_replace :: "string option"
  gx_content :: "string option"

text \<open>The anchor is looked for before the replacement is required.\<close>

definition grouped_step :: "string \<Rightarrow> grouped_edit \<Rightarrow> task_err + string" where
  "grouped_step text e =
     bindR (requireFind (gx_find e)) (\<lambda>f.
     bindR (assertFindAppearsExactlyOnce text f) (\<lambda>i.
     if gx_type e = W_replace then bindR (requireReplace (gx_replace e)) (\<lambda>r. Inr (replace_first text f r))
     else bindR (requireContent (gx_content e)) (\<lambda>c.
       Inr (insert_text text (if gx_type e = W_insert_before then i else i + length f) c))))"

fun applyGroupedEdits :: "string \<Rightarrow> grouped_edit list \<Rightarrow> task_err + string" where
  "applyGroupedEdits text [] = Inr text"
| "applyGroupedEdits text (e # es) = bindR (grouped_step text e) (\<lambda>t. applyGroupedEdits t es)"

section \<open>Secrets\<close>

definition hasSecretValue :: "'w repo_env \<Rightarrow> string \<Rightarrow> bool" where
  "hasSecretValue E text \<longleftrightarrow> rp_secret_values E text \<noteq> []"

definition fingerprint_count :: "'w repo_env \<Rightarrow> string \<Rightarrow> string \<Rightarrow> nat" where
  "fingerprint_count E text d = length (filter (\<lambda>v. rp_sha256 E v = d) (rp_secret_values E text))"

definition hasNewSecretValue :: "'w repo_env \<Rightarrow> string \<Rightarrow> string \<Rightarrow> bool" where
  "hasNewSecretValue E old_text next_text \<longleftrightarrow>
     list_ex (\<lambda>v. fingerprint_count E old_text (rp_sha256 E v) < fingerprint_count E next_text (rp_sha256 E v))
       (rp_secret_values E next_text)"

end
