(* ===== verification/File_Writer.thy ===== *)
theory File_Writer
  imports File_Edits
begin

text \<open>
  Writing one file of a repository (src/services/file-writer.ts) with the file helpers of
  src/runtime/fs-helpers.ts. Texts of summaries are left out. The mode bits asked for are recorded
  as they are, without the process's umask.
\<close>

section \<open>File helpers\<close>

definition dirname_of :: "string \<Rightarrow> string" where
  "dirname_of p = (let d = posix_dirname p in if d = [] then ''/'' else d)"

text \<open>The directories from below the file system's root down to the path.\<close>

definition ancestors :: "string \<Rightarrow> string list" where
  "ancestors p = map (\<lambda>k. ''/'' @ join_with ''/'' (take (Suc k) (segments_of p))) [0..<length (segments_of p)]"

definition ensure_made :: "'w fs_env \<Rightarrow> string \<Rightarrow> ('w, unit) fs_eff" where
  "ensure_made F p =
     bindE (sys_call F ''mkdir'') (\<lambda>_.
     bindE (getE (\<lambda>s. map_option (\<lambda>i. nd_kind (fs_nodes s i)) (node_of s p))) (\<lambda>kind.
     case kind of
       None \<Rightarrow> modifyE (add_node p \<lparr>nd_kind = Directory, nd_mode = 511, nd_bytes = []\<rparr>)
     | Some k \<Rightarrow> throw_if (k = Regular \<or> k = Unsupported) eexist))"

definition mkdir_recursive :: "'w fs_env \<Rightarrow> string \<Rightarrow> ('w, unit) fs_eff" where
  "mkdir_recursive F p = for_each (ancestors p) (ensure_made F)"

definition replace_file :: "'w fs_env \<Rightarrow> string \<Rightarrow> string \<Rightarrow> string \<Rightarrow> ('w, unit) fs_eff" where
  "replace_file F temporary p content =
     bindE (write_temporary F 438 temporary content) (\<lambda>_.
     bindE (sys_rename F temporary p) (\<lambda>_.
     fsyncDirectory F))"

definition cleanup_temporary :: "'w fs_env \<Rightarrow> string \<Rightarrow> task_err \<Rightarrow> ('w, 'a) fs_eff" where
  "cleanup_temporary F temporary e = bindE (quietly (sys_rm_force F temporary)) (\<lambda>_. throw e)"

definition atomicWriteFile :: "'w fs_env \<Rightarrow> string \<Rightarrow> string \<Rightarrow> ('w, unit) fs_eff" where
  "atomicWriteFile F p content =
     bindE (mkdir_recursive F (dirname_of p)) (\<lambda>_.
     bindE (askF (sf_temp F)) (\<lambda>suffix.
     catchE (replace_file F (p @ suffix) p content) (cleanup_temporary F (p @ suffix))))"

definition create_file :: "'w fs_env \<Rightarrow> string \<Rightarrow> string \<Rightarrow> string \<Rightarrow> ('w, unit) fs_eff" where
  "create_file F temporary p content =
     bindE (write_temporary F 438 temporary content) (\<lambda>_.
     bindE (sys_link F temporary p) (\<lambda>_.
     bindE (sys_rm_force F temporary) (\<lambda>_.
     fsyncDirectory F)))"

definition writeExclusive :: "'w fs_env \<Rightarrow> string \<Rightarrow> string \<Rightarrow> ('w, unit) fs_eff" where
  "writeExclusive F p content =
     bindE (mkdir_recursive F (dirname_of p)) (\<lambda>_.
     bindE (askF (sf_temp F)) (\<lambda>suffix.
     catchE (create_file F (p @ suffix) p content) (cleanup_temporary F (p @ suffix))))"

definition sys_read :: "'w fs_env \<Rightarrow> string \<Rightarrow> ('w, string) fs_eff" where
  "sys_read F p =
     bindE (sys_call F ''read'') (\<lambda>_.
     bindE (getE (\<lambda>s. map_option (fs_nodes s) (node_of s p))) (\<lambda>found.
     case found of
       None \<Rightarrow> throw enoent
     | Some nd \<Rightarrow> bindE (throw_if (nd_kind nd \<noteq> Regular) (OtherErr (Some ''EISDIR''))) (\<lambda>_. ret (nd_bytes nd))))"

section \<open>The target\<close>

record existing_target =
  et_repo_path :: string
  et_absolute :: string
  et_content :: string
  et_text :: string
  et_sha256 :: string

datatype write_target = Existing existing_target | Missing string string

definition target_absolute :: "write_target \<Rightarrow> string" where
  "target_absolute t = (case t of Existing e \<Rightarrow> et_absolute e | Missing _ p \<Rightarrow> p)"

definition target_exists :: "write_target \<Rightarrow> bool" where
  "target_exists t = (case t of Existing _ \<Rightarrow> True | Missing _ _ \<Rightarrow> False)"

definition target_text :: "write_target \<Rightarrow> string" where
  "target_text t = (case t of Existing e \<Rightarrow> et_text e | Missing _ _ \<Rightarrow> [])"

definition target_sha :: "write_target \<Rightarrow> string option" where
  "target_sha t = (case t of Existing e \<Rightarrow> Some (et_sha256 e) | Missing _ _ \<Rightarrow> None)"

definition decodeUtf8 :: "'w repo_env \<Rightarrow> string \<Rightarrow> task_err + string" where
  "decodeUtf8 E content = (case rp_decode E content of None \<Rightarrow> Inl (repo_error ''BINARY_FILE_REJECTED'') | Some t \<Rightarrow> Inr t)"

definition assertWithinRoot :: "'w repo_env \<Rightarrow> string \<Rightarrow> ('w, unit) fs_eff" where
  "assertWithinRoot E p =
     bindE (realpathE E (rp_root E)) (\<lambda>root_real.
     bindE (realpathE E p) (\<lambda>target_real.
     throw_if (\<not> isWithin root_real target_real) (repo_error ''SYMLINK_ESCAPE_REJECTED'')))"

definition parent_segment :: "'w repo_env \<Rightarrow> bool \<Rightarrow> bool \<Rightarrow> string \<Rightarrow> string \<Rightarrow> ('w, string) fs_eff" where
  "parent_segment E create_dirs dry_run current segment =
     (let path = (if current = [] then segment else current @ ''/'' @ segment);
          absolute = posix_join (rp_root E) path in
      bindE
        (catchE
          (bindE (sys_lstat (rp_fs E) absolute) (\<lambda>(_, stat).
           bindE (throw_if (nd_kind stat = Unsupported) (repo_error ''UNSUPPORTED_FILE_TYPE'')) (\<lambda>_.
           bindE (throw_if (nd_kind stat \<noteq> Directory \<and> nd_kind stat \<noteq> Symlink) (repo_error ''UNSUPPORTED_FILE_TYPE'')) (\<lambda>_.
           assertWithinRoot E absolute))))
          (\<lambda>e. if \<not> not_found e then throw e
               else if \<not> create_dirs then throw (repo_error ''WRITE_PARENT_MISSING'')
               else if dry_run then ret ()
               else bindE (sys_mkdir (rp_fs E) 511 absolute) (\<lambda>_. assertWithinRoot E absolute)))
        (\<lambda>_. ret path))"

definition ensureParentDirectory :: "'w repo_env \<Rightarrow> string \<Rightarrow> bool \<Rightarrow> bool \<Rightarrow> ('w, unit) fs_eff" where
  "ensureParentDirectory E repo_path create_dirs dry_run =
     (let parent = posix_dirname repo_path in
      if parent = ''.'' then assertWithinRoot E (rp_root E)
      else bindE (foldE (parent_segment E create_dirs dry_run) []
             (filter (\<lambda>x. x \<noteq> []) (split_on (CHR ''/'') (normalizeRepoPath parent)))) (\<lambda>_. ret ()))"

definition read_target :: "'w repo_env \<Rightarrow> string \<Rightarrow> ('w, existing_target) fs_eff" where
  "read_target E repo_path =
     bindE (sandbox_resolve E repo_path) (\<lambda>resolved.
     bindE (throw_if (nd_kind (rv_stat resolved) \<noteq> Regular) (repo_error ''UNSUPPORTED_FILE_TYPE'')) (\<lambda>_.
     bindE (sys_read (rp_fs E) (rv_absolute resolved)) (\<lambda>content.
     bindE (liftR (decodeUtf8 E content)) (\<lambda>t.
     ret \<lparr>et_repo_path = rv_repo_path resolved, et_absolute = rv_absolute resolved, et_content = content,
          et_text = t, et_sha256 = rp_sha256 E content\<rparr>))))"

definition resolveTarget :: "'w repo_env \<Rightarrow> string \<Rightarrow> bool \<Rightarrow> bool \<Rightarrow> ('w, write_target) fs_eff" where
  "resolveTarget E repo_path create_dirs dry_run =
     bindE (catchE (bindE (read_target E repo_path) (\<lambda>t. ret (Some t)))
              (\<lambda>e. if not_found e then ret None else throw e)) (\<lambda>found.
     case found of
       Some t \<Rightarrow> ret (Existing t)
     | None \<Rightarrow> bindE (ensureParentDirectory E repo_path create_dirs dry_run) (\<lambda>_.
         ret (Missing repo_path (posix_join (rp_root E) repo_path))))"

definition truthy_text :: "string option \<Rightarrow> bool" where
  "truthy_text t \<longleftrightarrow> t \<noteq> None \<and> t \<noteq> Some []"

definition assertPreconditions :: "write_target \<Rightarrow> string option \<Rightarrow> bool option \<Rightarrow> task_err + unit" where
  "assertPreconditions t expected_sha expected_missing =
     (if expected_missing = Some True \<and> target_exists t then Inl (repo_error ''WRITE_TARGET_EXISTS'')
      else if truthy_text expected_sha \<and> \<not> target_exists t then Inl (repo_error ''WRITE_TARGET_MISSING'')
      else if truthy_text expected_sha \<and> target_exists t \<and> expected_sha \<noteq> target_sha t
        then Inl (repo_error ''WRITE_STALE_EXPECTED_SHA'')
      else Inr ())"

section \<open>One write\<close>

record write_input =
  wi_path :: string
  wi_action :: "edit_action option"
  wi_content :: "string option"
  wi_find :: "string option"
  wi_replace :: "string option"
  wi_create_dirs :: "bool option"
  wi_dry_run :: "bool option"
  wi_expected_sha :: "string option"
  wi_expected_missing :: "bool option"

datatype result_action = Did edit_action | Did_edit

record write_result =
  wr_path :: string
  wr_action :: result_action
  wr_dry_run :: bool
  wr_changed :: bool
  wr_created :: bool
  wr_bytes_written :: nat
  wr_old_sha256 :: "string option"
  wr_new_sha256 :: string

definition checkPreconditions :: "'w repo_env \<Rightarrow> write_input \<Rightarrow> ('w, unit) fs_eff" where
  "checkPreconditions E i =
     (if \<not> truthy_text (wi_expected_sha i) \<and> wi_expected_missing i \<noteq> Some True then ret ()
      else bindE (liftR (validateRepoPath (wi_path i))) (\<lambda>repo_path.
           bindE (resolveTarget E repo_path (wi_create_dirs i = Some True) True) (\<lambda>t.
           liftR (assertPreconditions t (wi_expected_sha i) (wi_expected_missing i)))))"

definition computeNextContent :: "edit_action \<Rightarrow> write_input \<Rightarrow> write_target \<Rightarrow> task_err + string" where
  "computeNextContent action i t =
     (if action = W_write then requireContent (wi_content i)
      else (case t of
          Missing _ _ \<Rightarrow> Inl (repo_error ''WRITE_TARGET_MISSING'')
        | Existing e \<Rightarrow>
            if CHR 0x00 \<in> set (et_content e) then Inl (repo_error ''BINARY_FILE_REJECTED'')
            else computeNextText action (wi_find i) (wi_replace i) (wi_content i) (et_text e)))"

definition result_of :: "'w repo_env \<Rightarrow> string \<Rightarrow> result_action \<Rightarrow> bool \<Rightarrow> write_target \<Rightarrow> string \<Rightarrow> write_result" where
  "result_of E repo_path action dry_run t content =
     (let changed = (target_sha t \<noteq> Some (rp_sha256 E content)) in
      \<lparr>wr_path = repo_path, wr_action = action, wr_dry_run = dry_run, wr_changed = changed,
       wr_created = (\<not> target_exists t), wr_bytes_written = (if dry_run \<or> \<not> changed then 0 else length content),
       wr_old_sha256 = target_sha t, wr_new_sha256 = rp_sha256 E content\<rparr>)"

text \<open>The end of both kinds of write.\<close>

definition commit_write :: "'w repo_env \<Rightarrow> write_target \<Rightarrow> string \<Rightarrow> write_result \<Rightarrow> ('w, write_result) fs_eff" where
  "commit_write E t content r =
     (if wr_dry_run r \<or> \<not> wr_changed r then ret r
      else bindE (atomicWriteFile (rp_fs E) (target_absolute t) content) (\<lambda>_. ret r))"

definition file_write :: "'w repo_env \<Rightarrow> write_policy \<Rightarrow> write_input \<Rightarrow> ('w, write_result) fs_eff" where
  "file_write E P i =
     (let action = (case wi_action i of None \<Rightarrow> W_write | Some a \<Rightarrow> a);
          dry_run = (wi_dry_run i = Some True) in
      bindE (liftR (validateRepoPath (wi_path i))) (\<lambda>repo_path.
      bindE (liftR (assertAllowed E P repo_path 0)) (\<lambda>_.
      bindE (resolveTarget E repo_path (wi_create_dirs i = Some True) dry_run) (\<lambda>t.
      bindE (liftR (assertPreconditions t (wi_expected_sha i) (wi_expected_missing i))) (\<lambda>_.
      bindE (liftR (computeNextContent action i t)) (\<lambda>next_text.
      bindE (throw_if (if action = W_write then hasSecretValue E next_text else hasNewSecretValue E (target_text t) next_text)
        (repo_error ''SECRET_CANDIDATE_BLOCKED'')) (\<lambda>_.
      bindE (liftR (assertAllowed E P repo_path (length (rp_encode E next_text)))) (\<lambda>_.
      commit_write E t (rp_encode E next_text)
        (result_of E repo_path (Did action) dry_run t (rp_encode E next_text))))))))))"

record edit_input =
  ei_path :: string
  ei_edits :: "grouped_edit list"
  ei_dry_run :: "bool option"
  ei_expected_sha :: "string option"
  ei_expected_missing :: "bool option"

definition existing_text :: "write_target \<Rightarrow> task_err + string" where
  "existing_text t = (case t of
       Missing _ _ \<Rightarrow> Inl (repo_error ''WRITE_TARGET_MISSING'')
     | Existing e \<Rightarrow> if CHR 0x00 \<in> set (et_content e) then Inl (repo_error ''BINARY_FILE_REJECTED'') else Inr (et_text e))"

definition writeGroupedEdit :: "'w repo_env \<Rightarrow> write_policy \<Rightarrow> edit_input \<Rightarrow> ('w, write_result) fs_eff" where
  "writeGroupedEdit E P i =
     (let dry_run = (ei_dry_run i = Some True) in
      bindE (liftR (validateRepoPath (ei_path i))) (\<lambda>repo_path.
      bindE (liftR (assertAllowed E P repo_path 0)) (\<lambda>_.
      bindE (resolveTarget E repo_path False False) (\<lambda>t.
      bindE (liftR (assertPreconditions t (ei_expected_sha i) (ei_expected_missing i))) (\<lambda>_.
      bindE (liftR (bindR (existing_text t) (\<lambda>old. applyGroupedEdits old (ei_edits i)))) (\<lambda>next_text.
      bindE (throw_if (hasNewSecretValue E (target_text t) next_text) (repo_error ''SECRET_CANDIDATE_BLOCKED'')) (\<lambda>_.
      bindE (liftR (assertAllowed E P repo_path (length (rp_encode E next_text)))) (\<lambda>_.
      commit_write E t (rp_encode E next_text)
        (result_of E repo_path Did_edit dry_run t (rp_encode E next_text))))))))))"

end
