(* ===== verification/Write_Changes.thy ===== *)
theory Write_Changes
  imports File_Writer
begin

text \<open>
  The edit pack (src/services/write-changes-service.ts): every change is previewed, then applied
  one after the other; when one fails, the files written before it are put back. The diagnostics of
  a failure are its value: which paths were rolled back and which not. Summaries and the texts of
  next steps are left out.
\<close>

section \<open>Changes\<close>

record simple_change =
  sc_type :: edit_action
  sc_path :: string
  sc_content :: "string option"
  sc_find :: "string option"
  sc_replace :: "string option"
  sc_expected_sha :: "string option"
  sc_expected_missing :: "bool option"

record edit_change =
  ec_path :: string
  ec_edits :: "grouped_edit list"
  ec_expected_sha :: "string option"
  ec_expected_missing :: "bool option"

datatype write_change = Simple_Change simple_change | Edit_Change edit_change

definition change_path :: "write_change \<Rightarrow> string" where
  "change_path c = (case c of Simple_Change s \<Rightarrow> sc_path s | Edit_Change e \<Rightarrow> ec_path e)"

definition MAX_CHANGES_PER_PACK :: nat where
  "MAX_CHANGES_PER_PACK = 25"

definition MAX_TOTAL_CHANGE_CONTENT_BYTES :: int where
  "MAX_TOTAL_CHANGE_CONTENT_BYTES = 5 * 1024 * 1024"

definition text_bytes :: "'w repo_env \<Rightarrow> string option \<Rightarrow> nat" where
  "text_bytes E t = (case t of None \<Rightarrow> 0 | Some x \<Rightarrow> length (rp_encode E x))"

definition change_bytes :: "'w repo_env \<Rightarrow> write_change \<Rightarrow> nat" where
  "change_bytes E c = (case c of
       Edit_Change e \<Rightarrow> sum_list (map (\<lambda>x. text_bytes E (gx_content x) + text_bytes E (gx_replace x)) (ec_edits e))
     | Simple_Change s \<Rightarrow> text_bytes E (sc_content s) + text_bytes E (sc_replace s))"

definition totalPayloadBytes :: "'w repo_env \<Rightarrow> write_change list \<Rightarrow> nat" where
  "totalPayloadBytes E cs = sum_list (map (change_bytes E) cs)"

definition safeDuplicatePathKey :: "string \<Rightarrow> string" where
  "safeDuplicatePathKey p = (case validateRepoPath p of Inl _ \<Rightarrow> p | Inr v \<Rightarrow> v)"

fun assertUniqueTargetPaths :: "string list \<Rightarrow> write_change list \<Rightarrow> task_err + unit" where
  "assertUniqueTargetPaths seen [] = Inr ()"
| "assertUniqueTargetPaths seen (c # cs) =
     (let key = safeDuplicatePathKey (change_path c) in
      if key \<in> set seen then Inl (repo_error ''VALIDATION_ERROR'') else assertUniqueTargetPaths (key # seen) cs)"

section \<open>Applying one change\<close>

text \<open>The guard of the second pass: what the preview found.\<close>

record write_guard =
  wg_expected_sha :: "string option"
  wg_expected_missing :: "bool option"

definition transaction_guard :: "write_result \<Rightarrow> string option \<Rightarrow> bool option \<Rightarrow> write_guard" where
  "transaction_guard preview sha missing =
     (if wr_created preview then \<lparr>wg_expected_sha = sha, wg_expected_missing = Some True\<rparr>
      else \<lparr>wg_expected_sha = wr_old_sha256 preview, wg_expected_missing = missing\<rparr>)"

definition guard_of :: "write_result option \<Rightarrow> string option \<Rightarrow> bool option \<Rightarrow> write_guard" where
  "guard_of preview sha missing = (case preview of
       None \<Rightarrow> \<lparr>wg_expected_sha = sha, wg_expected_missing = missing\<rparr>
     | Some r \<Rightarrow> transaction_guard r sha missing)"

definition toWriteFileInput :: "simple_change \<Rightarrow> bool \<Rightarrow> write_result option \<Rightarrow> write_input" where
  "toWriteFileInput c dry_run preview =
     (let g = guard_of preview (sc_expected_sha c) (sc_expected_missing c) in
      \<lparr>wi_path = sc_path c, wi_action = Some (sc_type c), wi_content = sc_content c, wi_find = sc_find c,
       wi_replace = sc_replace c, wi_create_dirs = (if sc_type c = W_write then Some True else None),
       wi_dry_run = Some dry_run, wi_expected_sha = wg_expected_sha g, wi_expected_missing = wg_expected_missing g\<rparr>)"

text \<open>A grouped edit gets its path, its edits and the guard of the preview; the guards the change
  itself carries are not passed on.\<close>

definition toEditInput :: "edit_change \<Rightarrow> bool \<Rightarrow> write_result option \<Rightarrow> edit_input" where
  "toEditInput c dry_run preview =
     (let g = guard_of preview None None in
      \<lparr>ei_path = ec_path c, ei_edits = ec_edits c, ei_dry_run = Some dry_run,
       ei_expected_sha = wg_expected_sha g, ei_expected_missing = wg_expected_missing g\<rparr>)"

definition applyChange :: "'w repo_env \<Rightarrow> write_policy \<Rightarrow> write_change \<Rightarrow> bool \<Rightarrow> write_result option \<Rightarrow> ('w, write_result) fs_eff" where
  "applyChange E P c dry_run preview = (case c of
       Edit_Change e \<Rightarrow> writeGroupedEdit E P (toEditInput e dry_run preview)
     | Simple_Change s \<Rightarrow> file_write E P (toWriteFileInput s dry_run preview))"

section \<open>Snapshots\<close>

record target_snapshot =
  ts_path :: string
  ts_absolute :: string
  ts_old :: "string option"
  ts_missing_parents :: "string list"

definition missing_parent :: "'w repo_env \<Rightarrow> string \<times> string list \<Rightarrow> string \<Rightarrow> ('w, string \<times> string list) fs_eff" where
  "missing_parent E acc segment = (case acc of (current, missing) \<Rightarrow>
     let path = (if current = [] then segment else current @ ''/'' @ segment) in
     catchE (bindE (sys_lstat (rp_fs E) (posix_join (rp_root E) path)) (\<lambda>_. ret (path, missing)))
       (\<lambda>e. if not_found e then ret (path, missing @ [path]) else throw e))"

definition findMissingParentPaths :: "'w repo_env \<Rightarrow> string \<Rightarrow> ('w, string list) fs_eff" where
  "findMissingParentPaths E repo_path =
     (let parent = posix_dirname repo_path in
      if parent = ''.'' then ret []
      else bindE (foldE (missing_parent E) ([], []) (split_on (CHR ''/'') parent)) (\<lambda>(_, missing). ret missing))"

definition captureSnapshot :: "'w repo_env \<Rightarrow> string \<Rightarrow> ('w, target_snapshot) fs_eff" where
  "captureSnapshot E p =
     bindE (liftR (validateRepoPath p)) (\<lambda>repo_path.
     bindE (catchE
        (bindE (sandbox_resolve E repo_path) (\<lambda>resolved.
         bindE (sys_read (rp_fs E) (rv_absolute resolved)) (\<lambda>content.
         ret (Some \<lparr>ts_path = repo_path, ts_absolute = rv_absolute resolved, ts_old = Some content, ts_missing_parents = []\<rparr>))))
        (\<lambda>e. if not_found e then ret None else throw e)) (\<lambda>found.
     case found of
       Some snapshot \<Rightarrow> ret snapshot
     | None \<Rightarrow> bindE (findMissingParentPaths E repo_path) (\<lambda>missing.
         ret \<lparr>ts_path = repo_path, ts_absolute = posix_join (rp_root E) repo_path, ts_old = None,
              ts_missing_parents = missing\<rparr>)))"

fun captureSnapshots :: "'w repo_env \<Rightarrow> write_change list \<Rightarrow> ('w, target_snapshot list) fs_eff" where
  "captureSnapshots E [] = ret []"
| "captureSnapshots E (c # cs) =
     bindE (captureSnapshot E (change_path c)) (\<lambda>x. bindE (captureSnapshots E cs) (\<lambda>xs. ret (x # xs)))"

definition snapshot_of :: "target_snapshot list \<Rightarrow> string \<Rightarrow> target_snapshot option" where
  "snapshot_of snapshots p = map_of (map (\<lambda>x. (ts_path x, x)) (rev snapshots)) p"

section \<open>Rolling back\<close>

fun unique_paths :: "string list \<Rightarrow> string list" where
  "unique_paths [] = []"
| "unique_paths (x # xs) = x # filter (\<lambda>y. y \<noteq> x) (unique_paths xs)"

record rollback_report =
  rr_rolled_back :: "string list"
  rr_failed :: "string list"

definition restore_snapshot :: "'w repo_env \<Rightarrow> rollback_report \<Rightarrow> target_snapshot \<Rightarrow> ('w, rollback_report) fs_eff" where
  "restore_snapshot E acc x =
     catchE
       (bindE (case ts_old x of
            Some content \<Rightarrow> atomicWriteFile (rp_fs E) (ts_absolute x) content
          | None \<Rightarrow> sys_unlink (rp_fs E) (ts_absolute x)) (\<lambda>_.
        ret (acc\<lparr>rr_rolled_back := rr_rolled_back acc @ [ts_path x]\<rparr>)))
       (\<lambda>e. if ts_old x = None \<and> not_found e then ret (acc\<lparr>rr_rolled_back := rr_rolled_back acc @ [ts_path x]\<rparr>)
            else ret (acc\<lparr>rr_failed := rr_failed acc @ [ts_path x]\<rparr>))"

definition sys_rmdir :: "'w fs_env \<Rightarrow> string \<Rightarrow> ('w, unit) fs_eff" where
  "sys_rmdir F p =
     bindE (sys_call F ''rmdir'') (\<lambda>_.
     bindE (getE (\<lambda>s. (map_option (\<lambda>i. nd_kind (fs_nodes s i)) (node_of s p), entries_of p s))) (\<lambda>(kind, entries).
     case kind of
       None \<Rightarrow> throw enoent
     | Some k \<Rightarrow>
         bindE (throw_if (k \<noteq> Directory) (OtherErr (Some ''ENOTDIR''))) (\<lambda>_.
         bindE (throw_if (entries \<noteq> []) (OtherErr (Some ''ENOTEMPTY''))) (\<lambda>_.
         modifyE (drop_name p)))))"

definition depth_of :: "string \<Rightarrow> int" where
  "depth_of p = int (length (split_on (CHR ''/'') p))"

definition rollbackAppliedPaths ::
  "'w repo_env \<Rightarrow> target_snapshot list \<Rightarrow> string list \<Rightarrow> ('w, rollback_report) fs_eff" where
  "rollbackAppliedPaths E snapshots applied =
     (let to_restore = concat (map (\<lambda>p. case snapshot_of snapshots p of None \<Rightarrow> [] | Some x \<Rightarrow> [x]) (rev (unique_paths applied)));
          parents = sort_cmp (\<lambda>l r. depth_of r - depth_of l) (unique_paths (concat (map ts_missing_parents to_restore))) in
      bindE (foldE (restore_snapshot E) \<lparr>rr_rolled_back = [], rr_failed = []\<rparr> to_restore) (\<lambda>report.
      bindE (for_each parents (\<lambda>p. quietly (sys_rmdir (rp_fs E) (posix_join (rp_root E) p)))) (\<lambda>_.
      ret \<lparr>rr_rolled_back = rev (rr_rolled_back report), rr_failed = rev (rr_failed report)\<rparr>)))"

section \<open>The pack\<close>

text \<open>A failure is refused before anything was written, or comes with the report of its rollback.\<close>

datatype pack_failure = Pack_Refused task_err | Pack_Failed task_err rollback_report

definition atomicFailure :: "task_err \<Rightarrow> rollback_report \<Rightarrow> pack_failure" where
  "atomicFailure e r =
     Pack_Failed (if rr_failed r \<noteq> [] then repo_error ''INTERNAL_ERROR''
       else (case e of RepoErr code \<Rightarrow> RepoErr code | _ \<Rightarrow> repo_error ''INTERNAL_ERROR'')) r"

definition refusedE :: "('w, 'a) fs_eff \<Rightarrow> (pack_failure, 'w fs_state, 'a) eff" where
  "refusedE m = (\<lambda>s. case m s of (Inl e, t) \<Rightarrow> (Inl (Pack_Refused e), t) | (Inr x, t) \<Rightarrow> (Inr x, t))"

fun preview_changes :: "'w repo_env \<Rightarrow> write_policy \<Rightarrow> write_change list \<Rightarrow> ('w, write_result list) fs_eff" where
  "preview_changes E P [] = ret []"
| "preview_changes E P (c # cs) =
     bindE (applyChange E P c True None) (\<lambda>r. bindE (preview_changes E P cs) (\<lambda>rs. ret (r # rs)))"

text \<open>The second pass: \<open>applied\<close> are the paths changed so far.\<close>

fun apply_changes ::
  "'w repo_env \<Rightarrow> write_policy \<Rightarrow> target_snapshot list \<Rightarrow> string list \<Rightarrow> (write_change \<times> write_result) list
   \<Rightarrow> (pack_failure, 'w fs_state, write_result list) eff" where
  "apply_changes E P snapshots applied [] = ret []"
| "apply_changes E P snapshots applied ((c, preview) # rest) = (\<lambda>s.
     case applyChange E P c False (Some preview) s of
       (Inl e, t) \<Rightarrow>
         bindE (refusedE (rollbackAppliedPaths E snapshots applied)) (\<lambda>report. throw (atomicFailure e report)) t
     | (Inr result, t) \<Rightarrow>
         bindE (apply_changes E P snapshots (if wr_changed result then applied @ [wr_path result] else applied) rest)
           (\<lambda>results. ret (result # results)) t)"

record pack_result =
  pr_dry_run :: bool
  pr_changed_paths :: "string list"
  pr_files :: "write_result list"
  pr_changed :: nat
  pr_created :: nat
  pr_unchanged :: nat

definition pack_result_of :: "bool \<Rightarrow> write_result list \<Rightarrow> pack_result" where
  "pack_result_of dry_run files =
     (let changed = length (filter wr_changed files) in
      \<lparr>pr_dry_run = dry_run, pr_changed_paths = unique_paths (map wr_path (filter wr_changed files)), pr_files = files,
       pr_changed = changed, pr_created = length (filter wr_created files), pr_unchanged = length files - changed\<rparr>)"

definition apply_pack ::
  "'w repo_env \<Rightarrow> write_policy \<Rightarrow> write_change list \<Rightarrow> bool option \<Rightarrow> (pack_failure, 'w fs_state, pack_result) eff" where
  "apply_pack E P changes dry_run =
     bindE (refusedE (throw_if (MAX_CHANGES_PER_PACK < length changes) (repo_error ''SIZE_LIMIT_EXCEEDED''))) (\<lambda>_.
     bindE (refusedE (throw_if (MAX_TOTAL_CHANGE_CONTENT_BYTES < int (totalPayloadBytes E changes)) (repo_error ''SIZE_LIMIT_EXCEEDED''))) (\<lambda>_.
     bindE (refusedE (liftR (assertUniqueTargetPaths [] changes))) (\<lambda>_.
     bindE (refusedE (preview_changes E P changes)) (\<lambda>previews.
     if dry_run = Some True then ret (pack_result_of True previews)
     else bindE (refusedE (captureSnapshots E changes)) (\<lambda>snapshots.
          bindE (apply_changes E P snapshots [] (zip changes previews)) (\<lambda>files.
          ret (pack_result_of False files)))))))"

end
