(* ===== verification/Secure_Fs_Properties.thy ===== *)
theory Secure_Fs_Properties
  imports Secure_Fs
begin

text \<open>
  Managed paths stay below the runtime root, a write replaces a file as a whole or not at all
  whichever call fails, and a reader returns only private regular files.
\<close>

section \<open>Triples\<close>

text \<open>\<open>triple P m Q R\<close>: from \<open>P\<close>, \<open>m\<close> returns in \<open>Q\<close> or throws in \<open>R\<close>.\<close>

definition triple :: "('s \<Rightarrow> bool) \<Rightarrow> ('e, 's, 'a) eff \<Rightarrow> ('a \<Rightarrow> 's \<Rightarrow> bool) \<Rightarrow> ('s \<Rightarrow> bool) \<Rightarrow> bool" where
  "triple P m Q R \<longleftrightarrow> (\<forall>s. P s \<longrightarrow> wp m Q (\<lambda>_. R) s)"

lemma triple_bind: "triple P m Q R \<Longrightarrow> (\<And>x. triple (Q x) (f x) Q' R) \<Longrightarrow> triple P (bindE m f) Q' R"
  unfolding triple_def wp_bindE by (blast intro: wp_conseq)

lemma triple_conseq:
  "triple P m Q R \<Longrightarrow> (\<And>s. P' s \<Longrightarrow> P s) \<Longrightarrow> (\<And>x s. Q x s \<Longrightarrow> Q' x s) \<Longrightarrow> (\<And>s. R s \<Longrightarrow> R' s) \<Longrightarrow> triple P' m Q' R'"
  unfolding triple_def by (blast intro: wp_conseq)

lemma triple_keeps: "keeps P m \<Longrightarrow> triple P m (\<lambda>_. P) P"
  unfolding triple_def wp_def keeps_def by (auto split: prod.split sum.split)

lemma triple_tag: "triple P m Q R \<Longrightarrow> triple P (tagE l m) Q R"
  by (simp add: triple_def wp_tagE)

lemma triple_finally:
  assumes "triple P m (\<lambda>_. Q) R" "keeps Q f" "keeps R f" "\<And>s. Q s \<Longrightarrow> R s"
  shows "triple P (finallyE m f) (\<lambda>_. Q) R"
  unfolding triple_def
proof (intro allI impI)
  fix s assume "P s"
  then have "wp m (\<lambda>_. Q) (\<lambda>_. R) s"
    using assms(1) by (simp add: triple_def)
  then show "wp (finallyE m f) (\<lambda>_. Q) (\<lambda>_. R) s"
    using assms(2-4) unfolding wp_def finallyE_def keeps_def
    by (fastforce split: prod.splits sum.splits)
qed

section \<open>Managed paths\<close>

lemma split_path: "us \<noteq> [] \<Longrightarrow> list_all plain_segment us \<Longrightarrow> split_on (CHR ''/'') (path_of us) = [] # us"
  using split_join [of us "CHR ''/''"] by (simp add: path_of_def list_all_iff plain_segment_def)

lemma path_no_separator: "us \<noteq> [] \<Longrightarrow> list_all plain_segment us \<Longrightarrow> \<not> ends_with ''/'' (path_of us)"
proof
  assume us: "us \<noteq> []" "list_all plain_segment us" and "ends_with ''/'' (path_of us)"
  then obtain q where "path_of us = q @ CHR ''/'' # []"
    unfolding ends_with_def by (metis append_take_drop_id)
  then have "last (split_on (CHR ''/'') (path_of us)) = []"
    by (simp only: split_on_append_sep) simp
  then have "last us = []"
    using split_path [OF us] us(1) by simp
  with us show False
    by (auto simp: list_all_iff plain_segment_def)
qed

lemma string_prefix_segments:
  assumes "list_all plain_segment rs" "rs \<noteq> []" "list_all plain_segment ss" "prefix (path_of rs @ ''/'') (path_of ss)"
  shows "\<exists>rest. ss = rs @ rest"
proof -
  obtain t where "path_of ss = path_of rs @ CHR ''/'' # t"
    using assms(4) by (auto simp: prefix_def)
  then have "split_on (CHR ''/'') (path_of ss) = ([] # rs) @ split_on (CHR ''/'') t"
    using split_path [OF assms(2,1)] by (simp add: split_on_append_sep)
  moreover have "ss \<noteq> []"
    using \<open>path_of ss = _\<close> assms(1,2) by (cases rs) (auto simp: path_of_def plain_segment_def)
  ultimately show ?thesis
    using split_path [OF _ assms(3)] by simp
qed

text \<open>Every managed path lies below the runtime root: whatever relative path is asked for, the absolute
  path that is used consists of the segments of the root and then plain segments, without dots.\<close>

lemma managed_paths_confined:
  assumes "managed_root r = Inr root" "absolutePath root v = Inr p"
  shows "\<exists>rest. p = path_of (segments_of root @ rest) \<and> list_all plain_segment rest"
proof -
  have root: "root = path_of (segments_of root)"
    using assms(1) by (auto simp: managed_root_def resolve_path segments_path segments_plain split: if_splits)
  obtain safe where safe: "p = posix_resolve_absolute (root @ ''/'' @ safe)"
    and inside: "p = root \<or> prefix (if ends_with ''/'' root then root else root @ ''/'') p"
    using assms(2) by (auto simp: absolutePath_def Let_def split: if_splits)
  let ?ss = "segments_of (root @ ''/'' @ safe)"
  have p: "p = path_of ?ss"
    by (simp add: safe resolve_path)
  have "\<exists>rest. ?ss = segments_of root @ rest"
  proof (cases "segments_of root = []")
    case False
    then have "\<not> ends_with ''/'' root"
      using path_no_separator [OF False segments_plain] root by simp
    with inside have "p = root \<or> prefix (root @ ''/'') p"
      by simp
    then show ?thesis
    proof
      assume "p = root"
      then show ?thesis
        using root p segments_path [OF segments_plain] by (metis append_Nil2)
    next
      assume "prefix (root @ ''/'') p"
      with root p have "prefix (path_of (segments_of root) @ ''/'') (path_of ?ss)"
        by simp
      from string_prefix_segments [OF segments_plain False segments_plain this] show ?thesis .
    qed
  qed simp
  then show ?thesis
    using p segments_plain [of "root @ ''/'' @ safe"] by (auto simp: list_all_append)
qed

lemma managed_paths_confined_witness:
  "\<exists>rest. ''/run/locks/a.lock'' = path_of (segments_of ''/run'' @ rest) \<and> list_all plain_segment rest"
proof (rule managed_paths_confined)
  show "managed_root ''/run'' = Inr ''/run''" "absolutePath ''/run'' ''locks/./a.lock'' = Inr ''/run/locks/a.lock''"
    by code_simp+
qed

section \<open>Files by name\<close>

definition fs_wf :: "'w fs_state \<Rightarrow> bool" where
  "fs_wf s \<longleftrightarrow> (\<forall>n \<in> set (fs_names s). snd n < fs_next s)"

definition file_at :: "'w fs_state \<Rightarrow> string \<Rightarrow> string option" where
  "file_at s p = (case node_of s p of
       None \<Rightarrow> None
     | Some i \<Rightarrow> if nd_kind (fs_nodes s i) = Regular then Some (nd_bytes (fs_nodes s i)) else None)"

lemma map_of_other: "q \<noteq> p \<Longrightarrow> map_of (filter (\<lambda>n. fst n \<noteq> p) xs) q = map_of xs q"
  by (induction xs) auto

lemma map_of_gone: "map_of (filter (\<lambda>n. fst n \<noteq> p) xs) p = None"
  by (induction xs) auto

lemma node_of_simps [simp]:
  "node_of (bind_name p i s) q = (if q = p then Some i else node_of s q)"
  "node_of (drop_name p s) q = (if q = p then None else node_of s q)"
  "node_of (add_node p nd s) q = (if q = p then Some (fs_next s) else node_of s q)"
  "node_of (set_node i g s) q = node_of s q"
  "node_of (s\<lparr>fs_world := w\<rparr>) q = node_of s q"
  by (simp_all add: node_of_def bind_name_def drop_name_def add_node_def set_node_def map_of_other map_of_gone)

lemma nodes_simps [simp]:
  "fs_nodes (bind_name p i s) = fs_nodes s" "fs_nodes (drop_name p s) = fs_nodes s"
  "fs_nodes (add_node p nd s) = (fs_nodes s)(fs_next s := nd)" "fs_nodes (set_node i g s) = (fs_nodes s)(i := g (fs_nodes s i))"
  by (simp_all add: bind_name_def drop_name_def add_node_def set_node_def)

lemma wf_simps [simp]:
  "fs_wf s \<Longrightarrow> i < fs_next s \<Longrightarrow> fs_wf (bind_name p i s)" "fs_wf s \<Longrightarrow> fs_wf (drop_name p s)" "fs_wf s \<Longrightarrow> fs_wf (add_node p nd s)"
  "fs_wf s \<Longrightarrow> fs_wf (set_node i g s)" "fs_wf (s\<lparr>fs_world := w\<rparr>) = fs_wf s"
  by (auto simp: fs_wf_def bind_name_def drop_name_def add_node_def set_node_def less_Suc_eq)

lemma node_bound: "fs_wf s \<Longrightarrow> node_of s q = Some i \<Longrightarrow> i < fs_next s"
  unfolding fs_wf_def node_of_def using map_of_SomeD by fastforce

definition fs_blind :: "('w fs_state \<Rightarrow> bool) \<Rightarrow> bool" where
  "fs_blind P \<longleftrightarrow> (\<forall>s w. P (s\<lparr>fs_world := w\<rparr>) = P s)"

lemma keeps_askF: "fs_blind P \<Longrightarrow> keeps P (askF f)"
  by (auto simp: keeps_def askF_def fs_blind_def split: prod.split)

lemma keeps_sys_call: "fs_blind P \<Longrightarrow> keeps P (sys_call E c)"
  unfolding sys_call_def by (intro pres_intros keeps_askF)

section \<open>The stages of a write\<close>

definition kept :: "(string \<Rightarrow> string option) \<Rightarrow> 'w fs_state \<Rightarrow> bool" where
  "kept f s \<longleftrightarrow> fs_wf s \<and> file_at s = f"

text \<open>Everything but the temporary name is as it was.\<close>

definition unpublished :: "(string \<Rightarrow> string option) \<Rightarrow> string \<Rightarrow> 'w fs_state \<Rightarrow> bool" where
  "unpublished f tmp s \<longleftrightarrow> fs_wf s \<and> (\<forall>q. q \<noteq> tmp \<longrightarrow> file_at s q = f q)"

definition staged :: "(string \<Rightarrow> string option) \<Rightarrow> string \<Rightarrow> string \<Rightarrow> nat \<Rightarrow> 'w fs_state \<Rightarrow> bool" where
  "staged f tmp bytes i s \<longleftrightarrow> unpublished f tmp s \<and> node_of s tmp = Some i \<and> nd_kind (fs_nodes s i) = Regular
   \<and> nd_bytes (fs_nodes s i) = bytes \<and> (\<forall>q. node_of s q = Some i \<longrightarrow> q = tmp)"

definition published :: "(string \<Rightarrow> string option) \<Rightarrow> string \<Rightarrow> string \<Rightarrow> string \<Rightarrow> 'w fs_state \<Rightarrow> bool" where
  "published f tmp p bytes s \<longleftrightarrow> fs_wf s \<and> file_at s p = Some bytes \<and> (\<forall>q. q \<noteq> tmp \<longrightarrow> q \<noteq> p \<longrightarrow> file_at s q = f q)"

lemma file_at_world [simp]: "file_at (s\<lparr>fs_world := w\<rparr>) = file_at s"
  by (rule ext) (simp add: file_at_def split: option.split)

lemma stages_blind [simp]:
  "fs_blind (kept f)" "fs_blind (unpublished f tmp)" "fs_blind (staged f tmp c i)" "fs_blind (published f tmp p c)"
  by (simp_all add: fs_blind_def kept_def unpublished_def staged_def published_def)

lemma blind_disj [simp]: "fs_blind P \<Longrightarrow> fs_blind Q \<Longrightarrow> fs_blind (\<lambda>s. P s \<or> Q s)"
  "fs_blind P \<Longrightarrow> fs_blind (\<lambda>s. P s \<and> b)"
  by (simp_all add: fs_blind_def)

lemma file_at_simps [simp]:
  "file_at (add_node p nd s) q = (if q = p then (if nd_kind nd = Regular then Some (nd_bytes nd) else None)
     else if node_of s q = Some (fs_next s) then (if nd_kind nd = Regular then Some (nd_bytes nd) else None) else file_at s q)"
  "file_at (drop_name p s) q = (if q = p then None else file_at s q)"
  "file_at (bind_name p i s) q = (if q = p then (if nd_kind (fs_nodes s i) = Regular then Some (nd_bytes (fs_nodes s i)) else None)
     else file_at s q)"
  by (simp_all add: file_at_def split: option.split)

lemma file_at_mode [simp]: "file_at (set_node i (\<lambda>n. n\<lparr>nd_mode := m\<rparr>) s) = file_at s"
  by (rule ext) (simp add: file_at_def split: option.split)

lemma kept_directory:
  "kept f s \<Longrightarrow> node_of s p = None \<Longrightarrow> kept f (add_node p \<lparr>nd_kind = Directory, nd_mode = m, nd_bytes = b\<rparr> s)"
proof -
  assume s: "kept f s" "node_of s p = None"
  then have "node_of s q \<noteq> Some (fs_next s)" for q
    using node_bound [of s q "fs_next s"] by (auto simp: kept_def)
  moreover have "f p = None"
    using s by (auto simp: kept_def file_at_def)
  ultimately show ?thesis
    using s by (auto simp: kept_def fun_eq_iff)
qed

lemma keeps_look: "(\<And>s. P s \<Longrightarrow> P (snd (f (g s) s))) \<Longrightarrow> keeps P (bindE (getE g) f)"
  by (simp add: keeps_def bindE_def getE_def)

lemma keeps_mkdir_kept: "keeps (kept f) (sys_mkdir E m p)"
  unfolding sys_mkdir_def
  by (intro keeps_bindE [OF keeps_sys_call] keeps_look) (auto simp: modifyE_def throw_def kept_directory)

lemma keeps_chmod: "(\<And>s i. P s \<Longrightarrow> P (set_node i (\<lambda>n. n\<lparr>nd_mode := m\<rparr>) s)) \<Longrightarrow> fs_blind P \<Longrightarrow> keeps P (sys_chmod E p m)"
  unfolding sys_chmod_def
  by (intro keeps_bindE [OF keeps_sys_call] keeps_bindE [OF keeps_getE] keeps_case_option keeps_throw)
    (simp_all add: keeps_def modifyE_def)

lemma keeps_lstat: "fs_blind P \<Longrightarrow> keeps P (sys_lstat E p)"
  unfolding sys_lstat_def by (intro pres_intros keeps_sys_call)

lemma keeps_fsync: "fs_blind P \<Longrightarrow> keeps P (fsyncDirectory E)"
  unfolding fsyncDirectory_def by (intro pres_intros keeps_sys_call)

lemma mode_stages:
  "kept f s \<Longrightarrow> kept f (set_node i (\<lambda>n. n\<lparr>nd_mode := m\<rparr>) s)"
  "staged f tmp c j s \<Longrightarrow> staged f tmp c j (set_node i (\<lambda>n. n\<lparr>nd_mode := m\<rparr>) s)"
  "published f tmp p c s \<Longrightarrow> published f tmp p c (set_node i (\<lambda>n. n\<lparr>nd_mode := m\<rparr>) s)"
  by (auto simp: kept_def staged_def unpublished_def published_def)

lemma keeps_private: "keeps (kept f) (assertPrivateDirectory E p)"
  unfolding assertPrivateDirectory_def by (intro pres_intros keeps_lstat keeps_chmod mode_stages stages_blind)

lemma keeps_initialize_fs: "keeps (kept f) (fs_initialize E)"
  unfolding fs_initialize_def
proof (intro keeps_bindE [OF keeps_sys_call] keeps_look)
  fix s :: "'a fs_state" assume s: "kept f s"
  show "kept f (snd (bindE (case map_option (fs_nodes s) (node_of s (sf_root E)) of
      None \<Rightarrow> modifyE (add_node (sf_root E) \<lparr>nd_kind = Directory, nd_mode = 448, nd_bytes = []\<rparr>)
    | Some nd \<Rightarrow> throw_if (nd_kind nd \<noteq> Directory) eexist) (\<lambda>_. assertPrivateDirectory E (sf_root E)) s))"
    using keepsD [OF keeps_private] s kept_directory [OF s]
    by (cases "node_of s (sf_root E)") (auto simp: bindE_def modifyE_def throw_if_def throw_def ret_def)
qed simp

lemma keeps_ensure: "keeps (kept f) (ensureDirectory E d)"
  unfolding ensureDirectory_def ensure_segment_def Let_def
  by (intro pres_intros keeps_initialize_fs keeps_foldE keeps_mkdir_kept keeps_private)

lemma keeps_assert: "keeps (kept f) (assertDirectory E d)"
  unfolding assertDirectory_def assert_segment_def Let_def
  by (intro pres_intros keeps_initialize_fs keeps_foldE keeps_private)

lemma keeps_target: "fs_blind P \<Longrightarrow> keeps P (target_safe_or_absent E p)"
  unfolding target_safe_or_absent_def by (intro pres_intros keeps_lstat)

section \<open>Staging\<close>

lemma triple_look:
  "(\<And>s. P s \<Longrightarrow> triple (\<lambda>t. t = s) (f (g s)) Q R) \<Longrightarrow> triple P (bindE (getE g) f) Q R"
  by (simp add: triple_def wp_bindE) (simp add: wp_def getE_def)

lemma triple_modify: "(\<And>s. P s \<Longrightarrow> Q () (h s)) \<Longrightarrow> triple P (modifyE h) Q R"
  by (simp add: triple_def wp_def modifyE_def)

lemma triple_throw: "(\<And>s. P s \<Longrightarrow> R s) \<Longrightarrow> triple P (throw e) Q R"
  by (simp add: triple_def wp_def throw_def)

lemma triple_ret: "(\<And>s. P s \<Longrightarrow> Q x s) \<Longrightarrow> triple P (ret x) Q R"
  by (simp add: triple_def wp_def ret_def)

lemma triple_call:
  "fs_blind P \<Longrightarrow> (\<And>s. P s \<Longrightarrow> R s) \<Longrightarrow> triple P (sys_call E c) (\<lambda>_. P) R"
  by (rule triple_conseq [OF triple_keeps [OF keeps_sys_call]])

lemma triple_ask:
  "fs_blind P \<Longrightarrow> (\<And>s. P s \<Longrightarrow> R s) \<Longrightarrow> triple P (askF f) (\<lambda>_. P) R"
  by (rule triple_conseq [OF triple_keeps [OF keeps_askF]])

lemma unpublished_kept: "kept f s \<Longrightarrow> unpublished f tmp s"
  by (auto simp: kept_def unpublished_def)

lemma unpublished_staged: "staged f tmp c i s \<Longrightarrow> unpublished f tmp s"
  by (simp add: staged_def)

lemma staged_fresh:
  assumes "kept f s" "node_of s tmp = None"
  shows "staged f tmp [] (fs_next s) (add_node tmp \<lparr>nd_kind = Regular, nd_mode = m, nd_bytes = []\<rparr> s)"
proof -
  have "node_of s q \<noteq> Some (fs_next s)" for q
    using node_bound [of s q "fs_next s"] assms(1) by (auto simp: kept_def)
  with assms show ?thesis
    by (auto simp: staged_def unpublished_def kept_def split: if_splits)
qed

lemma triple_create:
  "triple (kept f) (sys_create E tmp m) (\<lambda>i. staged f tmp [] i) (unpublished f tmp)"
  unfolding sys_create_def
proof (rule triple_bind [OF triple_call], simp, erule unpublished_kept, rule triple_look)
  fix s :: "'a fs_state" assume s: "kept f s"
  show "triple (\<lambda>t. t = s) (case (node_of s tmp, fs_next s) of (present, i) \<Rightarrow>
      if present \<noteq> None then throw eexist
      else bindE (modifyE (add_node tmp \<lparr>nd_kind = Regular, nd_mode = m, nd_bytes = []\<rparr>)) (\<lambda>_. ret i))
      (\<lambda>i. staged f tmp [] i) (unpublished f tmp)"
    using s staged_fresh [OF s] unpublished_kept [OF s]
    by (auto simp: triple_def wp_def throw_def bindE_def modifyE_def ret_def)
qed

lemma staged_write:
  assumes "staged f tmp b i s"
  shows "staged f tmp c i (set_node i (\<lambda>n. n\<lparr>nd_bytes := c\<rparr>) s)"
proof -
  have "file_at (set_node i g s) q = file_at s q" if "q \<noteq> tmp" for q g
  proof -
    have "node_of s q \<noteq> Some i"
      using assms that unfolding staged_def by blast
    then show ?thesis
      by (cases "node_of s q") (simp_all add: file_at_def)
  qed
  then show ?thesis
    using assms by (simp add: staged_def unpublished_def)
qed

lemma triple_write:
  "triple (staged f tmp b i) (sys_write E i c) (\<lambda>_. staged f tmp c i) (unpublished f tmp)"
proof -
  have cut: "triple (staged f tmp b i) (bindE (askF (sf_cut E)) (\<lambda>k.
      bindE (modifyE (set_node i (\<lambda>n. n\<lparr>nd_bytes := take k c\<rparr>))) (\<lambda>_. throw e))) (\<lambda>_. staged f tmp c i) (unpublished f tmp)" for e
    apply (rule triple_bind [OF triple_ask], simp, erule unpublished_staged)
    apply (rule triple_bind [OF triple_modify [where Q = "\<lambda>_. unpublished f tmp"]], erule unpublished_staged [OF staged_write])
    apply (rule triple_throw, assumption)
    done
  show ?thesis
    unfolding sys_write_def
    apply (rule triple_bind [OF triple_ask], simp, erule unpublished_staged)
    apply (rename_tac fault, case_tac fault)
     apply (simp add: triple_modify staged_write)
    apply (simp add: cut)
    done
qed

lemma triple_temporary:
  "triple (kept f) (write_temporary E m tmp c) (\<lambda>_ s. \<exists>i. staged f tmp c i s) (unpublished f tmp)"
  unfolding write_temporary_def
proof (rule triple_bind [OF triple_create])
  fix i
  have "triple (staged f tmp [] i) (bindE (sys_write E i c) (\<lambda>_. sys_call E ''fsync'')) (\<lambda>_. staged f tmp c i) (unpublished f tmp)"
    by (rule triple_bind [OF triple_write triple_call]) (simp, erule unpublished_staged)
  then have "triple (staged f tmp [] i) (finallyE (bindE (sys_write E i c) (\<lambda>_. sys_call E ''fsync'')) (sys_call E ''close''))
      (\<lambda>_. staged f tmp c i) (unpublished f tmp)"
    by (rule triple_finally) (simp_all add: keeps_sys_call unpublished_staged)
  then show "triple (staged f tmp [] i) (finallyE (bindE (sys_write E i c) (\<lambda>_. sys_call E ''fsync'')) (sys_call E ''close''))
      (\<lambda>_ s. \<exists>i. staged f tmp c i s) (unpublished f tmp)"
    by (rule triple_conseq) blast+
qed

section \<open>Publishing\<close>

lemma published_link:
  assumes "staged f tmp c i s" "p \<noteq> tmp"
  shows "published f tmp p c (bind_name p i s)" "published f tmp p c (bind_name p i (drop_name tmp s))"
proof -
  have i: "i < fs_next s" "fs_wf s"
    using assms(1) node_bound by (auto simp: staged_def unpublished_def)
  have drop: "fs_next (drop_name tmp s) = fs_next s"
    by (simp add: drop_name_def)
  show "published f tmp p c (bind_name p i s)" "published f tmp p c (bind_name p i (drop_name tmp s))"
    using assms i by (simp_all add: published_def staged_def unpublished_def drop)
qed

lemma published_drop: "published f tmp p c s \<Longrightarrow> p \<noteq> tmp \<Longrightarrow> published f tmp p c (drop_name tmp s)"
  by (simp add: published_def)

lemma unpublished_drop: "unpublished f tmp s \<Longrightarrow> unpublished f tmp (drop_name tmp s)"
  by (simp add: unpublished_def)

text \<open>What an exclusive write may do: the target was not there.\<close>

definition may_publish :: "(string \<Rightarrow> string option) \<Rightarrow> string \<Rightarrow> bool \<Rightarrow> bool" where
  "may_publish f p exclusive \<longleftrightarrow> (exclusive \<longrightarrow> f p = None)"

definition whole :: "(string \<Rightarrow> string option) \<Rightarrow> string \<Rightarrow> string \<Rightarrow> string \<Rightarrow> bool \<Rightarrow> 'w fs_state \<Rightarrow> bool" where
  "whole f tmp p c exclusive s \<longleftrightarrow> published f tmp p c s \<and> may_publish f p exclusive"

lemma whole_blind [simp]: "fs_blind (whole f tmp p c ex)"
  by (simp add: fs_blind_def whole_def published_def)

lemma blind_staged: "fs_blind (\<lambda>s. \<exists>i. staged f tmp c i s)"
  by (simp add: fs_blind_def staged_def unpublished_def)

lemma triple_move:
  assumes "p \<noteq> tmp"
  shows "triple (\<lambda>s. \<exists>i. staged f tmp c i s) (if ex then sys_link E tmp p else sys_rename E tmp p)
     (\<lambda>_. whole f tmp p c ex) (unpublished f tmp)"
proof -
  have node: "node_of s tmp = Some i" if "staged f tmp c i s" for i and s :: "'a fs_state"
    using that by (simp add: staged_def)
  have absent: "f p = None" if "staged f tmp c i s" "node_of s p = None" for i and s :: "'a fs_state"
  proof -
    have "file_at s p = f p"
      using unpublished_staged [OF that(1)] assms by (simp add: unpublished_def)
    then show ?thesis
      using that(2) by (simp add: file_at_def)
  qed
  have rename: "triple (\<lambda>s. \<exists>i. staged f tmp c i s) (sys_rename E tmp p) (\<lambda>_. whole f tmp p c False) (unpublished f tmp)"
    unfolding sys_rename_def
  proof (rule triple_bind [OF triple_call], rule blind_staged, blast intro: unpublished_staged, rule triple_look)
    fix s :: "'a fs_state" assume "\<exists>i. staged f tmp c i s"
    then obtain i where i: "staged f tmp c i s" ..
    show "triple (\<lambda>t. t = s) (case node_of s tmp of None \<Rightarrow> throw enoent | Some i \<Rightarrow> modifyE (\<lambda>s. bind_name p i (drop_name tmp s)))
        (\<lambda>_. whole f tmp p c False) (unpublished f tmp)"
      using published_link [OF i assms] by (simp add: node [OF i] triple_def wp_def modifyE_def whole_def may_publish_def)
  qed
  have link: "triple (\<lambda>s. \<exists>i. staged f tmp c i s) (sys_link E tmp p) (\<lambda>_. whole f tmp p c True) (unpublished f tmp)"
    unfolding sys_link_def
  proof (rule triple_bind [OF triple_call], rule blind_staged, blast intro: unpublished_staged, rule triple_look)
    fix s :: "'a fs_state" assume "\<exists>i. staged f tmp c i s"
    then obtain i where i: "staged f tmp c i s" ..
    show "triple (\<lambda>t. t = s) (case (node_of s tmp, node_of s p) of (source, present) \<Rightarrow>
        if present \<noteq> None then throw eexist
        else (case source of None \<Rightarrow> throw enoent | Some i \<Rightarrow> modifyE (bind_name p i))) (\<lambda>_. whole f tmp p c True) (unpublished f tmp)"
      using published_link [OF i assms] unpublished_staged [OF i] absent [OF i]
      by (simp add: node [OF i] triple_def wp_def modifyE_def throw_def whole_def may_publish_def)
  qed
  show ?thesis
    using rename link by (cases ex) simp_all
qed

section \<open>The whole write\<close>

lemma whole_mode: "whole f tmp p c ex s \<Longrightarrow> whole f tmp p c ex (set_node i (\<lambda>n. n\<lparr>nd_mode := m\<rparr>) s)"
  by (simp add: whole_def mode_stages)

lemma keeps_unlink: "fs_blind P \<Longrightarrow> (\<And>s. P s \<Longrightarrow> P (drop_name q s)) \<Longrightarrow> keeps P (sys_unlink E q)"
  unfolding sys_unlink_def
  by (intro keeps_bindE [OF keeps_sys_call] keeps_look) (auto simp: throw_def modifyE_def)

lemma keeps_rm: "fs_blind P \<Longrightarrow> (\<And>s. P s \<Longrightarrow> P (drop_name q s)) \<Longrightarrow> keeps P (sys_rm_force E q)"
  unfolding sys_rm_force_def by (intro keeps_bindE [OF keeps_sys_call]) (simp_all add: keeps_def modifyE_def)

text \<open>Either nothing was published, or everything was.\<close>

definition all_or_nothing ::
  "(string \<Rightarrow> string option) \<Rightarrow> string \<Rightarrow> string \<Rightarrow> string \<Rightarrow> bool \<Rightarrow> 'w fs_state \<Rightarrow> bool" where
  "all_or_nothing f tmp p c exclusive s \<longleftrightarrow> unpublished f tmp s \<or> whole f tmp p c exclusive s"

lemma all_or_nothing_blind [simp]: "fs_blind (all_or_nothing f tmp p c ex)"
  by (simp add: fs_blind_def all_or_nothing_def whole_def published_def unpublished_def)

lemma all_or_nothing_drop: "p \<noteq> tmp \<Longrightarrow> all_or_nothing f tmp p c ex s \<Longrightarrow> all_or_nothing f tmp p c ex (drop_name tmp s)"
  by (auto simp: all_or_nothing_def whole_def published_drop unpublished_drop)

lemma triple_publish:
  assumes "p \<noteq> tmp"
  shows "triple (kept f) (publish E tmp p c ex) (\<lambda>_. whole f tmp p c ex) (all_or_nothing f tmp p c ex)"
proof -
  have chmod: "keeps (\<lambda>s. \<exists>i. staged f tmp c i s) (sys_chmod E tmp 384)"
    by (rule keeps_chmod [OF _ blind_staged]) (blast intro: mode_stages)
  have first: "triple (kept f) (bindE (write_temporary E 384 tmp c) (\<lambda>_. bindE (sys_chmod E tmp 384) (\<lambda>_.
      if ex then sys_link E tmp p else sys_rename E tmp p))) (\<lambda>_. whole f tmp p c ex) (unpublished f tmp)"
    apply (rule triple_bind [OF triple_temporary], rule triple_bind [OF _ triple_move [OF assms]])
    apply (rule triple_conseq [OF triple_keeps [OF chmod]])
      apply (auto intro: unpublished_staged)
    done
  have second: "keeps (whole f tmp p c ex) (bindE (if ex then sys_unlink E tmp else ret ()) (\<lambda>_.
      bindE (sys_chmod E p 384) (\<lambda>_. fsyncDirectory E)))"
    by (intro keeps_bindE keeps_if keeps_unlink keeps_chmod keeps_fsync keeps_ret whole_mode)
      (simp_all add: whole_def published_drop assms)
  show ?thesis
    unfolding publish_def
    apply (rule triple_bind [OF triple_tag [OF triple_conseq [OF first]]], assumption, assumption, simp add: all_or_nothing_def)
    apply (rule triple_tag [OF triple_conseq [OF triple_keeps [OF second]]], assumption, assumption, simp add: all_or_nothing_def)
    done
qed

lemma keeps_abandon: "p \<noteq> tmp \<Longrightarrow> keeps (all_or_nothing f tmp p c ex) (abandon E tmp failure)"
  unfolding abandon_def quietly_def
  by (intro keeps_case_prod keeps_bindE keeps_catchE keeps_ret keeps_if keeps_throw keeps_rm keeps_fsync)
    (simp_all add: all_or_nothing_drop)

lemma triple_catch:
  assumes m: "triple P m Q R" and h: "\<And>e. keeps R (h e)" and throws: "\<And>e s. \<exists>x. fst (h e s) = Inl x"
  shows "triple P (catchE m h) Q R"
  unfolding triple_def wp_catchE
proof (intro allI impI)
  fix s assume "P s"
  with m have "wp m Q (\<lambda>_. R) s"
    by (simp add: triple_def)
  then show "wp m Q (\<lambda>e. wp (h e) Q (\<lambda>_. R)) s"
  proof (rule wp_conseq)
    fix e t assume "R t"
    obtain x u where u: "h e t = (Inl x, u)"
      using throws [of e t] by (cases "h e t") auto
    with keepsD_eq [OF h \<open>R t\<close> u] show "wp (h e) Q (\<lambda>_. R) t"
      by (simp add: wp_def)
  qed
qed

lemma abandon_throws: "\<exists>x. fst (abandon E tmp failure s) = Inl x"
  by (cases failure) (auto simp: abandon_def bindE_def throw_def split: prod.split sum.split)

text \<open>The names temporary files may have.\<close>

definition temporary_path :: "'w fs_env \<Rightarrow> string \<Rightarrow> bool" where
  "temporary_path E q \<longleftrightarrow> (\<exists>dir w. q = posix_join dir (fst (sf_temp E w)))"

text \<open>The files are the old ones, except for the target's content.\<close>

definition files_as :: "'w fs_env \<Rightarrow> (string \<Rightarrow> string option) \<Rightarrow> 'w fs_state \<Rightarrow> bool" where
  "files_as E f s \<longleftrightarrow> (\<forall>q. \<not> temporary_path E q \<longrightarrow> file_at s q = f q)"

lemma triple_fact: "(F \<Longrightarrow> triple P m Q R) \<Longrightarrow> triple (\<lambda>s. P s \<and> F) m Q R"
  by (auto simp: triple_def)

lemma triple_answer:
  "fs_blind P \<Longrightarrow> (\<And>s. P s \<Longrightarrow> R s) \<Longrightarrow> triple P (askF g) (\<lambda>x s. P s \<and> (\<exists>w. x = fst (g w))) R"
  by (auto simp: triple_def wp_def askF_def fs_blind_def split: prod.split) (metis fst_conv)

lemma triple_secure_write:
  assumes target: "\<And>safe. validateManagedRelativePath v = Inr safe \<Longrightarrow> absolutePath (sf_root E) safe = Inr p"
    and p: "\<not> temporary_path E p"
  shows "triple (kept f) (secure_atomicWrite E v c ex)
     (\<lambda>_ s. files_as E (f(p := Some c)) s \<and> may_publish f p ex)
     (\<lambda>s. files_as E f s \<or> (files_as E (f(p := Some c)) s \<and> may_publish f p ex))"
proof -
  let ?Q = "\<lambda>s. files_as E (f(p := Some c)) s \<and> may_publish f p ex"
  let ?R = "\<lambda>s. files_as E f s \<or> ?Q s"
  have R: "kept f s \<Longrightarrow> ?R s" for s
    by (auto simp: kept_def files_as_def)
  have publish: "triple (kept f) (catchE (publish E tmp p c ex) (abandon E tmp)) (\<lambda>_. ?Q) ?R" if "temporary_path E tmp" for tmp
  proof -
    from that p have "p \<noteq> tmp"
      by blast
    have "triple (kept f) (catchE (publish E tmp p c ex) (abandon E tmp)) (\<lambda>_. whole f tmp p c ex) (all_or_nothing f tmp p c ex)"
      by (rule triple_catch [OF triple_publish [OF \<open>p \<noteq> tmp\<close>] keeps_abandon [OF \<open>p \<noteq> tmp\<close>] abandon_throws])
    then show ?thesis
      by (rule triple_conseq)
        (use that in \<open>auto simp: all_or_nothing_def whole_def published_def unpublished_def files_as_def\<close>)
  qed
  have keep: "triple (kept f) m (\<lambda>_. kept f) ?R" if "keeps (kept f) m" for m :: "(task_err, _, 'b) eff"
    by (rule triple_conseq [OF triple_keeps [OF that]]) (simp_all add: R)
  show ?thesis
  proof (cases "validateManagedRelativePath v")
    case (Inl e)
    then show ?thesis
      using R by (simp add: secure_atomicWrite_def bindE_liftR triple_throw)
  next
    case (Inr safe)
    note p' = target [OF Inr]
    show ?thesis
      unfolding secure_atomicWrite_def Inr bindE_liftR Let_def
      apply (rule triple_bind [OF keep [OF keeps_throw_if]], rule triple_bind [OF keep [OF keeps_ensure]])
      apply (simp only: p' bindE_liftR)
      apply (rule triple_bind [OF keep [OF keeps_target]], simp)
      apply (rule triple_bind [OF triple_answer [OF stages_blind(1) R]], assumption, rule triple_fact, rule publish)
      apply (auto simp: temporary_path_def)
      done
  qed
qed

end
