(* ===== verification/Secure_File_Properties.thy ===== *)
theory Secure_File_Properties
  imports Secure_Fs_Properties
begin

text \<open>
  What the callers of the managed file system rely on: its atomic write is the abstract write of
  the task runtime, and its reader returns private regular files only.
\<close>

section \<open>Temporary names\<close>

lemma kept_segments_snoc: "plain_segment n \<Longrightarrow> kept_segments climb acc (ss @ [n]) = kept_segments climb acc ss @ [n]"
  by (simp add: kept_append) (simp add: plain_segment_def)

lemma join_snoc_suffix: "suffix n (join_with sep (ss @ [n]))"
  by (induction sep "ss @ [n]" arbitrary: ss rule: join_with.induct)
    (auto simp: Cons_eq_append_conv suffix_def intro: exI)

lemma join_snoc_Nil: "n \<noteq> [] \<Longrightarrow> join_with sep (ss @ [n]) \<noteq> []"
  using join_snoc_suffix [of n sep ss] by auto

lemma join_ends: "plain_segment n \<Longrightarrow> suffix n (posix_join d n)"
proof -
  assume n: "plain_segment n"
  then have "n \<noteq> []" "last n \<noteq> CHR ''/''"
    unfolding plain_segment_def using last_in_set [of n] by metis+
  then show ?thesis
    using n join_snoc_suffix [of n "''/''"] join_snoc_Nil [OF \<open>n \<noteq> []\<close>, of "''/''"]
    by (auto simp: posix_join_def posix_normalize_def Let_def split_on_append_sep split_on_plain plain_segment_def kept_segments_snoc
        intro: suffix_appendI suffix_ConsI)
qed

definition temporary_names_plain :: "'w fs_env \<Rightarrow> bool" where
  "temporary_names_plain E \<longleftrightarrow> (\<forall>w. plain_segment (fst (sf_temp E w)))"

lemma not_temporary: "temporary_names_plain E \<Longrightarrow> (\<And>w. \<not> suffix (fst (sf_temp E w)) p) \<Longrightarrow> \<not> temporary_path E p"
  unfolding temporary_path_def temporary_names_plain_def using join_ends by blast

section \<open>The abstract write\<close>

text \<open>What the stores of the task runtime take a write to do: the three outcomes of
  \<open>atomicWrite\<close> there, on files by name.\<close>

definition abstract_write ::
  "write_fault \<Rightarrow> string \<Rightarrow> string \<Rightarrow> (string \<Rightarrow> string option) \<Rightarrow> (task_err + unit) \<times> (string \<Rightarrow> string option)" where
  "abstract_write fault p content files = (case fault of
       Write_Ok \<Rightarrow> (Inr (), files(p := Some content))
     | Write_Fails_Before e \<Rightarrow> (Inl e, files)
     | Write_Fails_After e \<Rightarrow> (Inl e, files(p := Some content)))"

text \<open>C24 (refinement).
  The managed file system's write implements the abstract write of the task runtime: whichever
  call of the operating system fails, and however many bytes a failing write leaves, its result
  and the files afterwards are those of one of the three abstract outcomes, temporary names
  aside; the target is replaced as a whole or not at all, and an exclusive write changes it only
  when it was absent.\<close>

theorem write_is_all_or_nothing:
  assumes "fs_wf s" "temporary_names_plain E" "\<And>w. \<not> suffix (fst (sf_temp E w)) p"
    and "validateManagedRelativePath v = Inr safe" "absolutePath (sf_root E) safe = Inr p"
    and run: "secure_atomicWrite E v content exclusive s = (r, t)"
  shows "\<exists>fault files. abstract_write fault p content (file_at s) = (r, files) \<and> files_as E files t
    \<and> (files p \<noteq> file_at s p \<longrightarrow> may_publish (file_at s) p exclusive)"
proof -
  have "wp (secure_atomicWrite E v content exclusive) (\<lambda>_ t. files_as E ((file_at s)(p := Some content)) t \<and> may_publish (file_at s) p exclusive)
     (\<lambda>_ t. files_as E (file_at s) t \<or> (files_as E ((file_at s)(p := Some content)) t \<and> may_publish (file_at s) p exclusive)) s"
    using triple_secure_write [OF _ not_temporary [OF assms(2,3)], of v "file_at s" content exclusive] assms(1,4,5)
    by (simp add: triple_def kept_def)
  then show ?thesis
  proof (cases r)
    case (Inl e)
    have "files_as E (file_at s) t \<or> (files_as E ((file_at s)(p := Some content)) t \<and> may_publish (file_at s) p exclusive)"
      using wp_throwD [OF \<open>wp _ _ _ s\<close>] run Inl by blast
    then show ?thesis
      using Inl by (auto simp: abstract_write_def intro: exI [of _ "Write_Fails_Before e"] exI [of _ "Write_Fails_After e"])
  next
    case (Inr x)
    then show ?thesis
      using wp_returnD [OF \<open>wp _ _ _ s\<close>] run by (auto simp: abstract_write_def intro!: exI [of _ Write_Ok])
  qed
qed

definition sample_fs :: "nat \<Rightarrow> nat fs_env" where
  "sample_fs failing = \<lparr>sf_root = ''/r'',
     sf_fault = (\<lambda>call n. (if n = failing then Some (OtherErr (Some ''EIO'')) else None, n + 1)),
     sf_cut = (\<lambda>n. (1, n)), sf_temp = (\<lambda>n. (''.tmp-1-a'', n)), sf_wait = (\<lambda>s. s)\<rparr>"

definition blank_fs :: "nat fs_state" where
  "blank_fs = \<lparr>fs_names = [], fs_nodes = (\<lambda>_. \<lparr>nd_kind = Unsupported, nd_mode = 0, nd_bytes = []\<rparr>), fs_next = 0, fs_world = 0\<rparr>"

text \<open>The write that fails at its ninth call, after some of the bytes were written.\<close>

theorem write_is_all_or_nothing_witness:
  "\<exists>fault files. abstract_write fault ''/r/a.json'' ''{}'' (file_at blank_fs)
      = (fst (secure_atomicWrite (sample_fs 9) ''a.json'' ''{}'' True blank_fs), files)
    \<and> files_as (sample_fs 9) files (snd (secure_atomicWrite (sample_fs 9) ''a.json'' ''{}'' True blank_fs))
    \<and> (files ''/r/a.json'' \<noteq> file_at blank_fs ''/r/a.json'' \<longrightarrow> may_publish (file_at blank_fs) ''/r/a.json'' True)"
proof (rule write_is_all_or_nothing [OF _ _ _ _ _ prod.collapse [symmetric]])
  show "fs_wf blank_fs" "temporary_names_plain (sample_fs 9)" "\<And>w. \<not> suffix (fst (sf_temp (sample_fs 9) w)) ''/r/a.json''"
    by (simp_all add: fs_wf_def blank_fs_def temporary_names_plain_def sample_fs_def plain_segment_def suffix_def)
  show "validateManagedRelativePath ''a.json'' = Inr ''a.json''" "absolutePath (sf_root (sample_fs 9)) ''a.json'' = Inr ''/r/a.json''"
    by code_simp+
qed

section \<open>The reader\<close>

lemma wp_sys_call: "(\<And>w. Q () (s\<lparr>fs_world := w\<rparr>)) \<Longrightarrow> (\<And>e w. R e (s\<lparr>fs_world := w\<rparr>)) \<Longrightarrow> wp (sys_call E c) Q R s"
  by (auto simp: wp_def sys_call_def bindE_def askF_def throw_def ret_def split: prod.split option.split)

text \<open>A private regular file with one name and at most \<open>max_bytes\<close> bytes.\<close>

definition private_file :: "'w fs_state \<Rightarrow> string \<Rightarrow> nat \<Rightarrow> string \<Rightarrow> bool" where
  "private_file s p max_bytes bytes \<longleftrightarrow> (\<exists>i. node_of s p = Some i \<and> nd_kind (fs_nodes s i) = Regular \<and> nd_mode (fs_nodes s i) mod 64 = 0
     \<and> link_count s i = 1 \<and> nd_bytes (fs_nodes s i) = bytes \<and> length bytes \<le> max_bytes)"

lemma link_count_world [simp]: "link_count (s\<lparr>fs_world := w\<rparr>) i = link_count s i"
  by (simp add: link_count_def)

lemma read_attempt_readable:
  "returns (\<lambda>_. True) (read_attempt E p m final) (\<lambda>x t. \<forall>b. x = Some b \<longrightarrow> private_file t p m b)"
  apply (rule returns_wp)
  unfolding read_attempt_def wp_catchE wp_bindE
  apply (rule wp_sys_call)
   apply (auto simp: wp_simps wp_if private_file_def split: option.split intro!: wp_sys_call)
  done

lemma read_loop_readable: "returns (\<lambda>_. True) (read_loop E p m n) (\<lambda>b t. private_file t p m b)"
proof (induction n)
  case (Suc n)
  show ?case
    unfolding read_loop.simps
    apply (rule returns_bindE [OF read_attempt_readable])
    apply (rename_tac found, case_tac found)
     apply (simp add: returns_bindE [OF returns_any Suc])
    apply (simp add: returns_ret)
    done
qed (simp add: returns_throw)

lemma secure_read_readable:
  "returns (\<lambda>_. True) (secure_readFile E v max_bytes) (\<lambda>b t. 0 \<le> max_bytes \<and> (\<exists>safe p.
     validateManagedRelativePath v = Inr safe \<and> absolutePath (sf_root E) safe = Inr p \<and> private_file t p (nat max_bytes) b))"
  unfolding secure_readFile_def
  apply (rule fact_guard, rule fact_liftR, rule fact_step, rule fact_liftR)
  apply (rule returns_conseq [OF read_loop_readable], simp_all)
  done

text \<open>C27 (safety).
  Whatever the file system answers and other processes do meanwhile, a read returns only the bytes
  of a regular file at the managed path that has no other name, is accessible to its owner alone
  and holds no more than the requested number of bytes.\<close>

theorem read_is_private_regular_file:
  assumes "secure_readFile E v max_bytes s = (Inr bytes, t)"
  shows "0 \<le> max_bytes \<and> (\<exists>safe p. validateManagedRelativePath v = Inr safe \<and> absolutePath (sf_root E) safe = Inr p
     \<and> private_file t p (nat max_bytes) bytes)"
  using returnsD [OF secure_read_readable _ assms] by simp

definition one_file :: "nat fs_state" where
  "one_file = blank_fs\<lparr>fs_names := [(''/r/a'', 1), (''/r'', 0)],
     fs_nodes := (fs_nodes blank_fs)(0 := \<lparr>nd_kind = Directory, nd_mode = 448, nd_bytes = []\<rparr>,
        1 := \<lparr>nd_kind = Regular, nd_mode = 384, nd_bytes = ''{}''\<rparr>), fs_next := 2\<rparr>"

theorem read_is_private_regular_file_witness:
  "0 \<le> (100 :: int) \<and> (\<exists>safe p. validateManagedRelativePath ''a'' = Inr safe \<and> absolutePath (sf_root (sample_fs 99)) safe = Inr p
     \<and> private_file (snd (secure_readFile (sample_fs 99) ''a'' 100 one_file)) p (nat 100) ''{}'')"
proof (rule read_is_private_regular_file)
  have "fst (secure_readFile (sample_fs 99) ''a'' 100 one_file) = Inr ''{}''"
    by code_simp
  then show "secure_readFile (sample_fs 99) ''a'' 100 one_file = (Inr ''{}'', snd (secure_readFile (sample_fs 99) ''a'' 100 one_file))"
    by (metis prod.collapse)
qed

section \<open>The root\<close>

text \<open>The guard of \<open>removeDirectory\<close> compares with one spelling of the root only: \<open>./\<close> passes it
  and the whole runtime root is removed.\<close>

lemma dot_slash_removes_root:
  "validateManagedRelativePath ''./'' = Inr []"
  "fs_names (snd (secure_removeDirectory (sample_fs 99) ''.'' one_file)) = fs_names one_file"
  "fst (secure_removeDirectory (sample_fs 99) ''./'' one_file) = Inr ()"
  "fs_names (snd (secure_removeDirectory (sample_fs 99) ''./'' one_file)) = []"
  by code_simp+

end
