(* ===== verification/Repo_Path_Properties.thy ===== *)
theory Repo_Path_Properties
  imports Repo_Paths Secure_File_Properties
begin

text \<open>What a validated path of a repository looks like.\<close>

section \<open>Normalized relative paths\<close>

definition path_segment :: "string \<Rightarrow> bool" where
  "path_segment s \<longleftrightarrow> s \<noteq> [] \<and> s \<noteq> ''.'' \<and> CHR ''/'' \<notin> set s"

text \<open>Climbing segments come first.\<close>

definition climbs_first :: "string list \<Rightarrow> bool" where
  "climbs_first ss \<longleftrightarrow> (\<exists>n rest. ss = replicate n ''..'' @ rest \<and> list_all plain_segment rest)"

lemma climbs_snoc_plain: "climbs_first ss \<Longrightarrow> plain_segment s \<Longrightarrow> climbs_first (ss @ [s])"
  unfolding climbs_first_def by (elim exE conjE, rename_tac n rest, rule_tac x = n in exI, rule_tac x = "rest @ [s]" in exI) simp

lemma climbs_butlast: "climbs_first (ss @ [t]) \<Longrightarrow> t \<noteq> ''..'' \<Longrightarrow> climbs_first ss"
proof -
  assume "climbs_first (ss @ [t])" and t: "t \<noteq> ''..''"
  then obtain n rest where eq: "ss @ [t] = replicate n ''..'' @ rest" "list_all plain_segment rest"
    unfolding climbs_first_def by blast
  have "rest \<noteq> []"
  proof
    assume "rest = []"
    with eq(1) have *: "ss @ [t] = replicate n ''..''"
      by simp
    then have "t \<in> set (replicate n ''..'')"
      by (metis in_set_conv_decomp)
    with t show False
      by (simp split: if_splits)
  qed
  then have "ss = replicate n ''..'' @ butlast rest"
    using eq(1) by (metis butlast_append butlast_snoc)
  moreover have "list_all plain_segment (butlast rest)"
    using eq(2) by (auto simp: list_all_iff dest: in_set_butlastD)
  ultimately show ?thesis
    unfolding climbs_first_def by blast
qed

lemma climbs_snoc_up: "climbs_first ss \<Longrightarrow> ss = [] \<or> last ss = ''..'' \<Longrightarrow> climbs_first (ss @ [''..''])"
proof -
  assume ss: "climbs_first ss" "ss = [] \<or> last ss = ''..''"
  then obtain n rest where eq: "ss = replicate n ''..'' @ rest" "list_all plain_segment rest"
    unfolding climbs_first_def by blast
  have "rest = []"
  proof (rule ccontr)
    assume "rest \<noteq> []"
    then have "last ss \<in> set rest" "ss \<noteq> []"
      using eq(1) by auto
    with eq(2) ss(2) show False
      by (auto simp: list_all_iff plain_segment_def)
  qed
  with eq have "ss @ [''..''] = replicate (Suc n) ''..'' @ []"
    by (simp add: replicate_append_same)
  then show ?thesis
    unfolding climbs_first_def by (intro exI [of _ "Suc n"] exI [of _ "[]"]) simp
qed

lemma kept_climbs:
  "climbs_first (rev acc) \<Longrightarrow> list_all (\<lambda>s. CHR ''/'' \<notin> set s) ss \<Longrightarrow> climbs_first (kept_segments True acc ss)"
proof (induction ss arbitrary: acc)
  case (Cons s ss)
  show ?case
  proof (cases "s = [] \<or> s = ''.''")
    case True
    with Cons show ?thesis
      by simp
  next
    case kept: False
    show ?thesis
    proof (cases "s = ''..''")
      case True
      show ?thesis
      proof (cases acc)
        case Nil
        have "climbs_first (rev [''..''])"
          unfolding climbs_first_def by (intro exI [of _ 1] exI [of _ "[]"]) simp
        with Cons Nil True show ?thesis
          by simp
      next
        case (Cons t ts)
        show ?thesis
        proof (cases "t = ''..''")
          case up: True
          have "climbs_first (rev (''..'' # acc))"
            using climbs_snoc_up [OF Cons.prems(1)] up Cons by simp
          with Cons.IH [of "''..'' # acc"] Cons.prems True up Cons show ?thesis
            by simp
        next
          case False
          have "climbs_first (rev ts)"
            using climbs_butlast [of "rev ts" t] Cons.prems(1) Cons False by simp
          with Cons.IH [of ts] Cons.prems True False Cons show ?thesis
            by simp
        qed
      qed
    next
      case False
      with kept Cons.prems have "plain_segment s"
        by (simp add: plain_segment_def)
      with Cons kept False climbs_snoc_plain show ?thesis
        by simp
    qed
  qed
qed simp

lemma kept_members: "set (kept_segments climb acc ss) \<subseteq> set acc \<union> set ss"
  by (induction climb acc ss rule: kept_segments.induct) (auto split: if_splits list.splits)

lemma split_members: "w \<in> set (split_on c s) \<Longrightarrow> set w \<subseteq> set s"
proof (induction s arbitrary: w)
  case (Cons x xs)
  then show ?case
    by (cases "split_on c xs") (fastforce split: if_splits)+
qed simp

lemma join_members: "set (join_with sep ss) \<subseteq> set sep \<union> \<Union> (set ` set ss)"
  by (induction sep ss rule: join_with.induct) auto

lemma normalize_chars: "set (posix_normalize q) \<subseteq> set q \<union> set ''./''"
proof -
  have "set (join_with ''/'' (kept_segments climb [] (split_on (CHR ''/'') q))) \<subseteq> set q \<union> set ''/''" for climb
    using join_members [of "''/''" "kept_segments climb [] (split_on (CHR ''/'') q)"]
      kept_members [of climb "[]" "split_on (CHR ''/'') q"] split_members [of _ "CHR ''/''" q] by fastforce
  then show ?thesis
    unfolding posix_normalize_def Let_def by (auto split: if_splits)
qed

lemma slashes_plain: "CHR 0x5C \<notin> set (slashes p)" "CHR 0x5C \<notin> set p \<Longrightarrow> slashes p = p"
  by (auto simp: slashes_def intro!: map_idI)

lemma normalized_relative: "\<not> prefix ''/'' (normalizeRepoPath p)"
proof
  assume "prefix ''/'' (normalizeRepoPath p)"
  then obtain t where "dropWhile (\<lambda>c. c = CHR ''/'') (slashes p) = CHR ''/'' # t"
    by (auto simp: normalizeRepoPath_def prefix_def)
  then show False
    by (simp add: dropWhile_eq_Cons_conv)
qed

lemma normalized_no_backslash: "CHR 0x5C \<notin> set (normalizeRepoPath p)"
  using slashes_plain(1) [of p] by (auto simp: normalizeRepoPath_def dest: set_dropWhileD)

text \<open>The first segment decides what the joined text begins with.\<close>

lemma join_shape: "\<exists>t. join_with ''/'' (s # ss) = s @ t \<and> (t = [] \<longleftrightarrow> ss = []) \<and> (t \<noteq> [] \<longrightarrow> hd t = CHR ''/'')"
  by (cases ss) auto

lemma plain_no_dot_slash:
  assumes "list_all plain_segment ss" "ss \<noteq> []" "tail = [] \<or> hd tail = CHR ''/''"
  shows "\<not> prefix ''./'' (join_with ''/'' ss @ tail)"
proof -
  obtain s rest where ss: "ss = s # rest"
    using assms(2) by (cases ss) auto
  obtain t where t: "join_with ''/'' ss = s @ t" "t \<noteq> [] \<longrightarrow> hd t = CHR ''/''"
    using join_shape [of s rest] ss by auto
  have s: "plain_segment s"
    using assms(1) ss by simp
  then obtain c cs where c: "s = c # cs"
    by (cases s) (auto simp: plain_segment_def)
  show ?thesis
    using s t c by (cases cs) (auto simp: plain_segment_def prefix_def)
qed

text \<open>A validated path is the repository, or plain segments with at most a separator at the end.\<close>

lemma validated_shape:
  assumes "validateRepoPath p = Inr r"
  shows "r = ''.'' \<or> r = [] \<or> (\<exists>ss tail. ss \<noteq> [] \<and> list_all plain_segment ss \<and> (tail = [] \<or> tail = ''/'')
     \<and> r = join_with ''/'' ss @ tail)"
proof -
  let ?q = "normalizeRepoPath p"
  let ?ks = "kept_segments True [] (split_on (CHR ''/'') ?q)"
  show ?thesis
  proof (cases "p = [] \<or> ?q = []")
    case True
    then show ?thesis
      using assms by (auto simp: validateRepoPath_def posix_normalize_def Let_def split: if_splits)
  next
    case False
    let ?n = "posix_normalize ?q"
    have n: "\<not> (?n = ''..'' \<or> prefix ''../'' ?n)" "r = (if ?n = ''.'' then ''.'' else drop_dot_slash ?n)"
      using assms False by (auto simp: validateRepoPath_def Let_def split: if_splits)
    have climbs: "climbs_first ?ks"
      by (rule kept_climbs)
        (auto simp: climbs_first_def list_all_iff dest: split_on_segments intro: exI [of _ 0] exI [of _ "[]"])
    then obtain k rest where ks: "?ks = replicate k ''..'' @ rest" "list_all plain_segment rest"
      unfolding climbs_first_def by blast
    let ?tail = "if last ?q = CHR ''/'' then ''/'' else []"
    have tail: "?tail = [] \<or> ?tail = ''/''"
      by simp
    have body: "join_with ''/'' ?ks \<noteq> [] \<Longrightarrow> ?n = join_with ''/'' ?ks @ ?tail"
      and empty: "join_with ''/'' ?ks = [] \<Longrightarrow> ?n = ''.'' \<or> ?n = ''./''"
      using normalized_relative [of p] False by (simp_all add: posix_normalize_def Let_def)
    show ?thesis
    proof (cases "?ks = []")
      case True
      with empty n show ?thesis
        by (auto simp: drop_dot_slash_def prefix_def)
    next
      case nonempty: False
      have "k = 0"
      proof (rule ccontr)
        assume "k \<noteq> 0"
        then obtain us where us: "?ks = ''..'' # us"
          using ks(1) by (cases k) auto
        obtain t where "join_with ''/'' ?ks = ''..'' @ t" "t \<noteq> [] \<longrightarrow> hd t = CHR ''/''"
          using join_shape [of "''..''" us] us by auto
        moreover from this body have "?n = (''..'' @ t) @ ?tail"
          by simp
        ultimately show False
          using n(1) tail by (cases t) (auto simp: prefix_def)
      qed
      with ks have plain: "list_all plain_segment ?ks"
        by simp
      then have "join_with ''/'' ?ks \<noteq> []"
        using nonempty join_starts [OF nonempty, of "''/''"] by (cases ?ks) (auto simp: plain_segment_def)
      with body have eq: "?n = join_with ''/'' ?ks @ ?tail"
        by blast
      have "\<not> prefix ''./'' ?n" "?n \<noteq> ''.''"
        unfolding eq using plain_no_dot_slash [OF plain nonempty] tail plain nonempty
          plain_no_dot_slash [OF plain nonempty, of "''/''"]
        by (auto simp: append_eq_Cons_conv)
      then have "r = join_with ''/'' ?ks @ ?tail"
        using n(2) eq by (simp add: drop_dot_slash_def)
      with plain nonempty tail show ?thesis
        by blast
    qed
  qed
qed

section \<open>Below the root\<close>

lemma split_plain: "ss \<noteq> [] \<Longrightarrow> list_all plain_segment ss \<Longrightarrow> split_on (CHR ''/'') (join_with ''/'' ss) = ss"
  using split_join [of ss "CHR ''/''"] by (simp add: list_all_iff plain_segment_def)

lemma segments_skip_empty: "segments_of (p @ ''/'') = segments_of p"
  using split_on_append_sep [of "CHR ''/''" p "[]"] by (simp add: segments_of_def kept_append)

lemma segments_normalize:
  assumes "prefix ''/'' q"
  shows "segments_of (posix_normalize q) = segments_of q"
proof -
  have "segments_of (''/'' @ join_with ''/'' (segments_of q)) = segments_of q"
    using segments_path [OF segments_plain, of q] by (simp add: path_of_def)
  then show ?thesis
    using assms segments_skip_empty [of "''/'' @ join_with ''/'' (segments_of q)"]
    by (auto simp: posix_normalize_def Let_def segments_of_def [symmetric])
qed

lemma kept_nothing: "list_all (\<lambda>s. s = [] \<or> s = ''.'') ss \<Longrightarrow> kept_segments climb acc ss = rev acc"
  by (induction ss) auto

lemma segments_after:
  assumes "list_all plain_segment ss" "tail = [] \<or> tail = ''/''" "r = join_with ''/'' ss @ tail"
  shows "segments_of (p @ ''/'' @ r) = segments_of p @ ss"
proof (cases "ss = []")
  case True
  with assms show ?thesis
    using segments_skip_empty [of p] segments_skip_empty [of "p @ ''/''"] by auto
next
  case False
  have "segments_of (p @ ''/'' @ join_with ''/'' ss) = segments_of p @ ss"
    using split_plain [OF False assms(1)] kept_plain [OF assms(1)] by (simp add: segments_of_def split_on_append_sep kept_append)
  then show ?thesis
    using assms(2,3) segments_skip_empty [of "p @ ''/'' @ join_with ''/'' ss"] by auto
qed

text \<open>A repository path that passes validation cannot leave the repository: joined with an absolute
  root it names the root's segments and then plain segments, without dots.\<close>

lemma repo_paths_confined:
  assumes "validateRepoPath p = Inr r" "prefix ''/'' root"
  shows "\<exists>rest. segments_of (posix_join root r) = segments_of root @ rest \<and> list_all plain_segment rest"
proof -
  have join: "segments_of (posix_join root r) = segments_of (root @ ''/'' @ r)" if "r \<noteq> []"
    using that assms(2) segments_normalize [of "root @ ''/'' @ r"] by (auto simp: posix_join_def prefix_def)
  from validated_shape [OF assms(1)] consider "r = ''.''" | "r = []"
    | ss tail where "ss \<noteq> []" "list_all plain_segment ss" "tail = [] \<or> tail = ''/''" "r = join_with ''/'' ss @ tail"
    by blast
  then show ?thesis
  proof cases
    case 1
    have "segments_of (root @ ''/.'') = segments_of root"
      using split_on_append_sep [of "CHR ''/''" root "''.''"] by (simp add: segments_of_def kept_append)
    with 1 join show ?thesis
      by simp
  next
    case 2
    with segments_normalize [OF assms(2)] show ?thesis
      by (simp add: posix_join_def)
  next
    case 3
    then have "r \<noteq> []"
      using join_starts [of ss "''/''"] by (cases ss) (auto simp: plain_segment_def)
    with 3 join segments_after [OF 3(2-4), of root] show ?thesis
      by auto
  qed
qed

lemma repo_paths_confined_witness:
  "\<exists>rest. segments_of (posix_join ''/work/repo'' ''docs/a.md'') = segments_of ''/work/repo'' @ rest \<and> list_all plain_segment rest"
proof (rule repo_paths_confined)
  show "validateRepoPath ''docs/x/../a.md'' = Inr ''docs/a.md''"
    by code_simp
qed simp

lemma validated_no_backslash: "validateRepoPath p = Inr r \<Longrightarrow> CHR 0x5C \<notin> set r"
  using normalize_chars [of "normalizeRepoPath p"] normalized_no_backslash [of p]
  by (auto simp: validateRepoPath_def drop_dot_slash_def Let_def split: if_splits dest: in_set_dropD)

lemma drop_trailing_plain: "list_all plain_segment ss \<Longrightarrow> ss \<noteq> [] \<Longrightarrow> tail = [] \<or> tail = ''/'' \<Longrightarrow>
   drop_trailing (CHR ''/'') (join_with ''/'' ss @ tail) = join_with ''/'' ss"
proof -
  assume ss: "list_all plain_segment ss" "ss \<noteq> []" and tail: "tail = [] \<or> tail = ''/''"
  have "last ss \<noteq> []" "CHR ''/'' \<notin> set (last ss)"
    using ss last_in_set [of ss] by (auto simp: list_all_iff plain_segment_def)
  then obtain us c where "last ss = us @ [c]" "c \<noteq> CHR ''/''"
    by (cases "last ss" rule: rev_cases) auto
  moreover have "suffix (last ss) (join_with ''/'' ss)"
    using join_snoc_suffix [of "last ss" "''/''" "butlast ss"] ss(2) by simp
  ultimately obtain vs where "join_with ''/'' ss = vs @ [c]"
    by (auto simp: suffix_def)
  with tail \<open>c \<noteq> CHR ''/''\<close> show ?thesis
    by (auto simp: drop_trailing_def)
qed

text \<open>The parent of a validated path is the repository or a joined list of plain segments.\<close>

lemma validated_parent:
  assumes "validateRepoPath p = Inr r" "posix_dirname r \<noteq> ''.''"
  shows "\<exists>ps. ps \<noteq> [] \<and> list_all plain_segment ps \<and> split_on (CHR ''/'') (normalizeRepoPath (posix_dirname r)) = ps"
proof -
  from validated_shape [OF assms(1)] obtain ss tail where r: "ss \<noteq> []" "list_all plain_segment ss"
    "tail = [] \<or> tail = ''/''" "r = join_with ''/'' ss @ tail"
    using assms(2) by (auto simp: posix_dirname_def drop_trailing_def)
  have "posix_dirname r = (if butlast ss = [] then ''.'' else join_with ''/'' (butlast ss))"
    unfolding posix_dirname_def r(4) drop_trailing_plain [OF r(2,1,3)] split_plain [OF r(1,2)] by (simp add: Let_def)
  with assms(2) have parent: "posix_dirname r = join_with ''/'' (butlast ss)" "butlast ss \<noteq> []"
    by (auto split: if_splits)
  have plain: "list_all plain_segment (butlast ss)"
    using r(2) by (auto simp: list_all_iff dest: in_set_butlastD)
  have "set w \<subseteq> set r" if "w \<in> set (butlast ss)" for w
    using that split_members [of w "CHR ''/''" "join_with ''/'' ss"] split_plain [OF r(1,2)] r(4)
    by (auto dest: in_set_butlastD)
  then have "set (posix_dirname r) \<subseteq> set r \<union> set ''/''"
    using join_members [of "''/''" "butlast ss"] unfolding parent(1) by fastforce
  then have "slashes (posix_dirname r) = posix_dirname r"
    using validated_no_backslash [OF assms(1)] by (intro slashes_plain(2)) auto
  moreover obtain u us where us: "butlast ss = u # us" "u \<noteq> []" "hd u \<noteq> CHR ''/''"
    using parent(2) plain by (cases "butlast ss"; cases "hd (butlast ss)") (auto simp: plain_segment_def)
  ultimately have "normalizeRepoPath (posix_dirname r) = posix_dirname r"
    using parent(1) join_shape [of u us] by (cases u) (auto simp: normalizeRepoPath_def)
  then show ?thesis
    using parent plain split_plain [OF parent(2) plain] by (intro exI [of _ "butlast ss"]) simp
qed

end
