(* ===== verification/Write_Properties.thy ===== *)
theory Write_Properties
  imports Write_Changes Repo_Path_Properties
begin

text \<open>
  What a tool that writes a file of a repository may do to it: which file changes, to what, and
  under which checks.
\<close>

section \<open>Edits of texts\<close>

lemma index_of_Some:
  "index_of part old = Some i \<Longrightarrow> \<exists>before after. old = before @ part @ after \<and> length before = i"
proof (induction part old arbitrary: i rule: index_of.induct)
  case (1 part)
  then show ?case
    by (auto split: if_splits)
next
  case (2 part x xs)
  show ?case
  proof (cases "prefix part (x # xs)")
    case True
    with 2 show ?thesis
      by (auto simp: prefix_def intro!: exI [of _ "[]"])
  next
    case False
    with 2 obtain j where j: "index_of part xs = Some j" "i = Suc j"
      by (auto split: if_splits)
    from 2(1) [OF False j(1)] obtain before after where "xs = before @ part @ after" "length before = j"
      by blast
    with j show ?thesis
      by (intro exI [of _ "x # before"] exI [of _ after]) simp
  qed
qed

lemma substitution_plain: "CHR ''$'' \<notin> set r \<Longrightarrow> substitution b m a r = r"
  by (induction b m a r rule: substitution.induct) auto

definition spliced :: "edit_action \<Rightarrow> string \<Rightarrow> string \<Rightarrow> string \<Rightarrow> string \<Rightarrow> string" where
  "spliced action before part after new = (case action of
       W_replace \<Rightarrow> before @ new @ after
     | W_insert_before \<Rightarrow> before @ new @ part @ after
     | _ \<Rightarrow> before @ part @ new @ after)"

text \<open>An edit with an anchor changes the text at the anchor only: the anchor occurs, does not occur
  again after itself, and the new text is the old one with the replacement in its place, or the
  content before or after it, provided a replacement holds no dollar sign.\<close>

lemma edit_is_a_splice:
  assumes run: "anchored_edit action (Some part) new content old = Inr t"
    and plain: "action = W_replace \<Longrightarrow> CHR ''$'' \<notin> set (the new)"
  shows "\<exists>before after. old = before @ part @ after \<and> index_of part after = None
     \<and> t = spliced action before part after (the (if action = W_replace then new else content))"
proof -
  from run obtain i where i: "index_of part old = Some i" "index_from part old (i + length part) = None"
    by (auto simp: anchored_edit_def requireFind_def assertFindAppearsExactlyOnce_def
        split: if_splits sum.splits option.splits)
  from index_of_Some [OF i(1)] obtain before after where old: "old = before @ part @ after" "length before = i"
    by blast
  have "t = spliced action before part after (the (if action = W_replace then new else content))"
    using run plain i old
    by (auto simp: anchored_edit_def requireFind_def requireReplace_def requireContent_def require_text_def
        assertFindAppearsExactlyOnce_def replace_first_def substitution_plain insert_text_def spliced_def Let_def
        split: if_splits sum.splits option.splits edit_action.splits)
  moreover have "index_of part after = None"
    using i(2) old by (simp add: index_from_def)
  ultimately show ?thesis
    using old by blast
qed

lemma edit_is_a_splice_witness:
  "\<exists>before after. ''let a = 1;'' = before @ ''1'' @ after \<and> index_of ''1'' after = None
     \<and> ''let a = 2;'' = spliced W_replace before ''1'' after (the (if W_replace = W_replace then Some ''2'' else None))"
proof (rule edit_is_a_splice)
  show "anchored_edit W_replace (Some ''1'') (Some ''2'') None ''let a = 1;'' = Inr ''let a = 2;''"
    by code_simp
qed simp

text \<open>A replacement with dollar signs is not what is written, and an anchor that overlaps itself
  counts as one occurrence.\<close>

lemma replacement_expands_dollars:
  "anchored_edit W_replace (Some ''X'') (Some ''$$5'') None ''price: X'' = Inr ''price: $5''"
  "anchored_edit W_replace (Some ''X'') (Some ''[$&]'') None ''price: X'' = Inr ''price: [X]''"
  by code_simp+

lemma overlapping_anchor_is_unique: "assertFindAppearsExactlyOnce ''aaa'' ''aa'' = Inr 0"
  by code_simp

section \<open>Replacing a file\<close>

text \<open>The names temporary files may have.\<close>

definition scratch_name :: "'w fs_env \<Rightarrow> string \<Rightarrow> bool" where
  "scratch_name F q \<longleftrightarrow> (\<exists>p w. q = p @ fst (sf_temp F w))"

definition same_files :: "'w fs_env \<Rightarrow> (string \<Rightarrow> string option) \<Rightarrow> (string \<Rightarrow> string option) \<Rightarrow> bool" where
  "same_files F f g \<longleftrightarrow> (\<forall>q. \<not> scratch_name F q \<longrightarrow> f q = g q)"

definition kept_but :: "'w fs_env \<Rightarrow> (string \<Rightarrow> string option) \<Rightarrow> 'w fs_state \<Rightarrow> bool" where
  "kept_but F f s \<longleftrightarrow> fs_wf s \<and> same_files F (file_at s) f"

lemma same_files_refl [simp]: "same_files F f f"
  by (simp add: same_files_def)

lemma same_files_trans: "same_files F f g \<Longrightarrow> same_files F g h \<Longrightarrow> same_files F f h"
  by (simp add: same_files_def)

lemma same_files_upd: "same_files F f g \<Longrightarrow> same_files F (f(p := c)) (g(p := c))"
  by (simp add: same_files_def)

lemma kept_but_kept: "kept f s \<Longrightarrow> kept_but F f s"
  by (simp add: kept_def kept_but_def)

lemma kept_but_trans: "kept_but F f s \<Longrightarrow> same_files F f g \<Longrightarrow> kept_but F g s"
  unfolding kept_but_def by (blast intro: same_files_trans)

lemma blind_kept_but [simp]: "fs_blind (kept_but F f)"
  by (simp add: fs_blind_def kept_but_def)

lemma keeps_ensure_made: "keeps (kept f) (ensure_made F p)"
  unfolding ensure_made_def
proof (intro keeps_bindE [OF keeps_sys_call] keeps_look)
  fix s :: "'a fs_state" assume s: "kept f s"
  then show "kept f (snd ((case map_option (\<lambda>i. nd_kind (fs_nodes s i)) (node_of s p) of
      None \<Rightarrow> modifyE (add_node p \<lparr>nd_kind = Directory, nd_mode = 511, nd_bytes = []\<rparr>)
    | Some k \<Rightarrow> throw_if (k = Regular \<or> k = Unsupported) eexist) s))"
    using kept_directory [OF s] by (cases "node_of s p") (auto simp: modifyE_def throw_if_def throw_def ret_def)
qed simp

lemma keeps_mkdir_recursive: "keeps (kept f) (mkdir_recursive F p)"
  unfolding mkdir_recursive_def by (intro keeps_for_each keeps_ensure_made)

lemma triple_rename:
  assumes "p \<noteq> tmp"
  shows "triple (\<lambda>s. \<exists>i. staged f tmp c i s) (sys_rename F tmp p) (\<lambda>_. whole f tmp p c False) (unpublished f tmp)"
  using triple_move [OF assms, of f c False F] by simp

lemma triple_replace_file:
  assumes "p \<noteq> tmp"
  shows "triple (kept f) (replace_file F tmp p c) (\<lambda>_. whole f tmp p c False) (all_or_nothing f tmp p c False)"
  unfolding replace_file_def
  apply (rule triple_bind [OF triple_conseq [OF triple_temporary]], assumption, assumption, simp add: all_or_nothing_def)
  apply (rule triple_bind [OF triple_conseq [OF triple_rename [OF assms]]], assumption, assumption, simp add: all_or_nothing_def)
  apply (rule triple_conseq [OF triple_keeps [OF keeps_fsync [OF whole_blind]]], assumption, assumption, simp add: all_or_nothing_def)
  done

lemma whole_kept_but:
  assumes "\<exists>w. tmp = q @ fst (sf_temp F w)"
  shows "whole f tmp p c False s \<Longrightarrow> kept_but F (f(p := Some c)) s" "unpublished f tmp s \<Longrightarrow> kept_but F f s"
  using assms by (auto simp: whole_def published_def unpublished_def kept_but_def same_files_def scratch_name_def)

lemma cleanup_throws: "\<exists>x. fst (cleanup_temporary F tmp e s) = Inl x"
  by (auto simp: cleanup_temporary_def bindE_def throw_def split: prod.split sum.split)

lemma triple_atomic_write:
  assumes p: "\<not> scratch_name F p"
  shows "triple (kept f) (atomicWriteFile F p c) (\<lambda>_. kept_but F (f(p := Some c)))
     (\<lambda>s. kept_but F f s \<or> kept_but F (f(p := Some c)) s)"
proof -
  let ?R = "\<lambda>s. kept_but F f s \<or> kept_but F (f(p := Some c)) s"
  have attempt: "triple (kept f) (catchE (replace_file F tmp p c) (cleanup_temporary F tmp)) (\<lambda>_. kept_but F (f(p := Some c))) ?R"
    if tmp: "\<exists>w. tmp = p @ fst (sf_temp F w)" for tmp
  proof -
    from tmp p have neq: "p \<noteq> tmp"
      by (auto simp: scratch_name_def)
    have "keeps (all_or_nothing f tmp p c False) (cleanup_temporary F tmp e)" for e
      unfolding cleanup_temporary_def quietly_def
      by (intro keeps_bindE keeps_catchE keeps_ret keeps_throw keeps_rm) (simp_all add: all_or_nothing_drop neq)
    from triple_catch [OF triple_replace_file [OF neq] this cleanup_throws] show ?thesis
      by (rule triple_conseq) (use whole_kept_but [OF tmp] in \<open>auto simp: all_or_nothing_def\<close>)
  qed
  show ?thesis
    unfolding atomicWriteFile_def
    apply (rule triple_bind [OF triple_conseq [OF triple_keeps [OF keeps_mkdir_recursive]]], assumption, assumption,
        simp add: kept_but_kept)
    apply (rule triple_bind [OF triple_answer [OF stages_blind(1)]], simp add: kept_but_kept, rule triple_fact, rule attempt)
    apply blast
    done
qed

section \<open>What a write is allowed by\<close>

text \<open>The target lies in the repository: an existing file by its real path, a new one by the real
  path of its parent.\<close>

definition resolves_to :: "'w repo_env \<Rightarrow> string \<Rightarrow> string \<Rightarrow> bool" where
  "resolves_to E q p \<longleftrightarrow> (\<exists>u v root_real. rp_realpath E (rp_root E) u = Inr root_real \<and> rp_realpath E q v = Inr p
     \<and> isWithin root_real p)"

definition parent_path :: "'w repo_env \<Rightarrow> string \<Rightarrow> string" where
  "parent_path E repo_path = (if posix_dirname repo_path = ''.'' then rp_root E
     else posix_join (rp_root E) (join_with ''/'' (filter (\<lambda>x. x \<noteq> []) (split_on (CHR ''/'') (normalizeRepoPath (posix_dirname repo_path))))))"

definition target_in_repo :: "'w repo_env \<Rightarrow> string \<Rightarrow> write_target \<Rightarrow> bool" where
  "target_in_repo E repo_path t = (case t of
       Existing e \<Rightarrow> validateRepoPath repo_path = Inr (et_repo_path e)
         \<and> resolves_to E (posix_join (rp_root E) (et_repo_path e)) (et_absolute e)
     | Missing _ p \<Rightarrow> p = posix_join (rp_root E) repo_path \<and> (\<exists>q. resolves_to E (parent_path E repo_path) q))"

text \<open>What the target says about the file it was read from.\<close>

definition target_true :: "'w repo_env \<Rightarrow> (string \<Rightarrow> string option) \<Rightarrow> write_target \<Rightarrow> bool" where
  "target_true E f t = (case t of
       Existing e \<Rightarrow> f (et_absolute e) = Some (et_content e) \<and> rp_decode E (et_content e) = Some (et_text e)
         \<and> et_sha256 e = rp_sha256 E (et_content e)
     | Missing _ _ \<Rightarrow> True)"

lemma keeps_realpath: "keeps P (realpathE E p)"
  unfolding realpathE_def by (intro pres_intros)

lemma fact_realpath: "(\<And>u x. rp_realpath E p u = Inr x \<Longrightarrow> returns (\<lambda>_. True) (f x) Q)
   \<Longrightarrow> returns (\<lambda>_. True) (bindE (realpathE E p) f) Q"
  by (rule fact_bindE [where F = "\<lambda>x. \<exists>u. rp_realpath E p u = Inr x"])
    (auto simp: realpathE_def returns_def bindE_def getE_def liftR_def split: sum.splits)

lemma assert_within_fact:
  "returns (\<lambda>_. True) (assertWithinRoot E p) (\<lambda>_ _. \<exists>q. resolves_to E p q)"
  unfolding assertWithinRoot_def
  apply (rule fact_realpath, rule fact_realpath)
  apply (simp add: returns_def throw_if_def throw_def ret_def resolves_to_def)
  apply blast
  done

lemma keeps_assert_within: "keeps P (assertWithinRoot E p)"
  unfolding assertWithinRoot_def by (intro pres_intros keeps_realpath)

lemma resolve_facts:
  "returns (\<lambda>_. True) (sandbox_resolve E p) (\<lambda>r _. validateRepoPath p = Inr (rv_repo_path r)
     \<and> resolves_to E (posix_join (rp_root E) (rv_repo_path r)) (rv_absolute r))"
  unfolding sandbox_resolve_def Let_def
  apply (rule fact_liftR, rule fact_step, rule fact_realpath, rule fact_realpath, rule fact_step)
  apply (rule fact_case_prod, rule fact_guard, rule fact_step, rule fact_step, rule fact_ret)
  apply (auto simp: resolves_to_def)
  done

lemma keeps_resolve: "fs_blind P \<Longrightarrow> keeps P (sandbox_resolve E p)"
  unfolding sandbox_resolve_def Let_def by (intro pres_intros keeps_realpath keeps_lstat)

lemma triple_returns:
  "keeps P m \<Longrightarrow> returns (\<lambda>_. True) m (\<lambda>x _. F x) \<Longrightarrow> (\<And>s. P s \<Longrightarrow> R s) \<Longrightarrow> triple P m (\<lambda>x s. P s \<and> F x) R"
  unfolding triple_def wp_def keeps_def returns_def by (auto split: prod.split sum.split)

lemma triple_read:
  "triple (kept f) (sys_read F p) (\<lambda>c s. kept f s \<and> f p = Some c) (kept f)"
proof -
  have "triple (\<lambda>t. t = s) (case map_option (fs_nodes s) (node_of s p) of
       None \<Rightarrow> throw enoent
     | Some nd \<Rightarrow> bindE (throw_if (nd_kind nd \<noteq> Regular) (OtherErr (Some ''EISDIR''))) (\<lambda>_. ret (nd_bytes nd)))
     (\<lambda>c s. kept f s \<and> f p = Some c) (kept f)" if "kept f s" for s :: "'a fs_state"
    using that by (cases "node_of s p")
      (auto simp: triple_def wp_def throw_def throw_if_def bindE_def ret_def kept_def file_at_def)
  then show ?thesis
    unfolding sys_read_def by (intro triple_bind [OF triple_call] triple_look) simp_all
qed

lemma keeps_sys_read: "fs_blind P \<Longrightarrow> keeps P (sys_read F p)"
  unfolding sys_read_def by (intro pres_intros keeps_sys_call)

lemma triple_read_target:
  "triple (kept f) (read_target E p) (\<lambda>e s. kept f s \<and> target_in_repo E p (Existing e) \<and> target_true E f (Existing e)) (kept f)"
  unfolding read_target_def
  apply (rule triple_bind [OF triple_returns [OF keeps_resolve resolve_facts]], simp, assumption, rule triple_fact)
  apply (rule triple_bind [OF triple_keeps [OF keeps_throw_if]])
  apply (rule triple_bind [OF triple_read], rule triple_fact)
  apply (rename_tac r u content, case_tac "rp_decode E content")
   apply (simp add: decodeUtf8_def bindE_liftR triple_throw)
  apply (simp add: decodeUtf8_def bindE_liftR)
  apply (rule triple_ret)
  apply (simp add: target_in_repo_def target_true_def)
  done

section \<open>The parents of a new file\<close>

definition below_path :: "string \<Rightarrow> string \<Rightarrow> string" where
  "below_path current segment = (if current = [] then segment else current @ ''/'' @ segment)"

lemma foldl_below: "cur \<noteq> [] \<Longrightarrow> foldl below_path cur segs = join_with ''/'' (cur # segs)"
proof (induction segs arbitrary: cur)
  case (Cons s segs)
  then have "below_path cur s = cur @ ''/'' @ s"
    by (simp add: below_path_def)
  with Cons.IH [of "cur @ ''/'' @ s"] show ?case
    by (cases segs) simp_all
qed simp

definition realpath_inside :: "'w repo_env \<Rightarrow> string \<Rightarrow> bool" where
  "realpath_inside E p \<longleftrightarrow> (\<exists>q. resolves_to E p q)"

lemma parent_segment_fact:
  "returns (\<lambda>_. True) (parent_segment E cd False current segment)
     (\<lambda>r _. r = below_path current segment \<and> realpath_inside E (posix_join (rp_root E) r))"
proof -
  let ?a = "posix_join (rp_root E) (below_path current segment)"
  have within: "returns (\<lambda>_. True) (assertWithinRoot E p) (\<lambda>_ _. realpath_inside E p)" for p
    unfolding realpath_inside_def by (rule assert_within_fact)
  have "returns (\<lambda>_. True)
      (catchE
          (bindE (sys_lstat (rp_fs E) ?a) (\<lambda>(_, stat).
           bindE (throw_if (nd_kind stat = Unsupported) (repo_error ''UNSUPPORTED_FILE_TYPE'')) (\<lambda>_.
           bindE (throw_if (nd_kind stat \<noteq> Directory \<and> nd_kind stat \<noteq> Symlink) (repo_error ''UNSUPPORTED_FILE_TYPE'')) (\<lambda>_.
           assertWithinRoot E ?a))))
          (\<lambda>e. if \<not> not_found e then throw e
               else if \<not> cd then throw (repo_error ''WRITE_PARENT_MISSING'')
               else if False then ret ()
               else bindE (sys_mkdir (rp_fs E) 511 ?a) (\<lambda>_. assertWithinRoot E ?a)))
      (\<lambda>_ _. realpath_inside E ?a)"
    by (intro returns_catchE fact_step fact_case_prod fact_guard within)
      (auto intro!: fact_step within returns_throw)
  then show ?thesis
    unfolding parent_segment_def Let_def below_path_def [symmetric]
    by (rule fact_bindE) (simp add: returns_ret)
qed

lemma parent_fold_fact:
  "segs \<noteq> [] \<Longrightarrow> returns (\<lambda>_. True) (foldE (parent_segment E cd False) current segs)
     (\<lambda>r _. r = foldl below_path current segs \<and> realpath_inside E (posix_join (rp_root E) r))"
proof (induction segs arbitrary: current)
  case (Cons s segs)
  show ?case
  proof (cases "segs = []")
    case True
    then show ?thesis
      using parent_segment_fact by (auto intro!: fact_bindE [OF parent_segment_fact] returns_ret)
  next
    case False
    show ?thesis
      by (simp, rule fact_bindE [OF parent_segment_fact]) (use Cons.IH [OF False] in simp)
  qed
qed simp

lemma parent_path_validated:
  assumes "validateRepoPath p = Inr r" "posix_dirname r \<noteq> ''.''"
  shows "\<exists>u us. filter (\<lambda>x. x \<noteq> []) (split_on (CHR ''/'') (normalizeRepoPath (posix_dirname r))) = u # us
     \<and> parent_path E r = posix_join (rp_root E) (foldl below_path [] (u # us))"
proof -
  from validated_parent [OF assms] obtain ps where ps: "ps \<noteq> []" "list_all plain_segment ps"
    "split_on (CHR ''/'') (normalizeRepoPath (posix_dirname r)) = ps"
    by blast
  then obtain u us where "ps = u # us" "u \<noteq> []"
    by (cases ps) (auto simp: plain_segment_def)
  moreover have "filter (\<lambda>x. x \<noteq> []) ps = ps"
    using ps(2) by (auto simp: list_all_iff plain_segment_def intro!: filter_True)
  ultimately show ?thesis
    using ps(3) assms(2) foldl_below [of u us] by (simp add: parent_path_def below_path_def)
qed

lemma ensure_parent_fact:
  assumes "validateRepoPath p = Inr r"
  shows "returns (\<lambda>_. True) (ensureParentDirectory E r cd False) (\<lambda>_ _. realpath_inside E (parent_path E r))"
proof (cases "posix_dirname r = ''.''")
  case True
  then show ?thesis
    using assert_within_fact [of E "rp_root E"] by (simp add: ensureParentDirectory_def parent_path_def realpath_inside_def)
next
  case False
  from parent_path_validated [OF assms False] obtain u us where us:
    "filter (\<lambda>x. x \<noteq> []) (split_on (CHR ''/'') (normalizeRepoPath (posix_dirname r))) = u # us"
    "parent_path E r = posix_join (rp_root E) (foldl below_path [] (u # us))"
    by blast
  show ?thesis
    unfolding ensureParentDirectory_def Let_def us(1) us(2) if_not_P [OF False]
    by (rule fact_bindE [OF parent_fold_fact]) (auto intro: returns_ret)
qed

lemma keeps_parent_segment: "keeps (kept f) (parent_segment E cd dry current segment)"
  unfolding parent_segment_def Let_def
  by (intro pres_intros keeps_lstat keeps_assert_within keeps_mkdir_kept stages_blind)

lemma keeps_ensure_parent: "keeps (kept f) (ensureParentDirectory E r cd dry)"
  unfolding ensureParentDirectory_def Let_def
  by (intro pres_intros keeps_foldE keeps_parent_segment keeps_assert_within)

text \<open>In a dry run nothing is made and not every parent is looked at.\<close>

definition target_found :: "'w repo_env \<Rightarrow> (string \<Rightarrow> string option) \<Rightarrow> string \<Rightarrow> bool \<Rightarrow> write_target \<Rightarrow> bool" where
  "target_found E f r dry t \<longleftrightarrow> target_true E f t \<and> (case t of
       Existing e \<Rightarrow> target_in_repo E r t
     | Missing q p \<Rightarrow> p = posix_join (rp_root E) r \<and> (dry \<or> target_in_repo E r t))"

lemma triple_resolve_target:
  assumes "validateRepoPath p = Inr r"
  shows "triple (kept f) (resolveTarget E r cd dry) (\<lambda>t s. kept f s \<and> target_found E f r dry t) (kept f)"
proof -
  have read: "triple (kept f) (catchE (bindE (read_target E r) (\<lambda>t. ret (Some t))) (\<lambda>e. if not_found e then ret None else throw e))
      (\<lambda>x s. kept f s \<and> (\<forall>e. x = Some e \<longrightarrow> target_in_repo E r (Existing e) \<and> target_true E f (Existing e))) (kept f)"
  proof -
    have "triple (kept f) (bindE (read_target E r) (\<lambda>t. ret (Some t)))
       (\<lambda>x s. kept f s \<and> (\<forall>e. x = Some e \<longrightarrow> target_in_repo E r (Existing e) \<and> target_true E f (Existing e))) (kept f)"
      by (rule triple_bind [OF triple_read_target], rule triple_ret) simp
    then show ?thesis
      by (auto simp: triple_def wp_catchE wp_ret wp_throw wp_if elim!: wp_conseq)
  qed
  have parent: "triple (kept f) (ensureParentDirectory E r cd dry) (\<lambda>_ s. kept f s \<and> (dry \<or> realpath_inside E (parent_path E r))) (kept f)"
  proof (cases dry)
    case True
    then show ?thesis
      using triple_keeps [OF keeps_ensure_parent] by simp
  next
    case False
    with triple_returns [OF keeps_ensure_parent ensure_parent_fact [OF assms]] show ?thesis
      by simp
  qed
  show ?thesis
    unfolding resolveTarget_def
    apply (rule triple_bind [OF read])
    apply (rename_tac x, case_tac x)
     apply simp
     apply (rule triple_bind [OF triple_conseq [OF parent]], simp, assumption, assumption)
     apply (rule triple_ret)
     apply (simp add: target_found_def target_true_def target_in_repo_def realpath_inside_def)
    apply simp
    apply (rule triple_ret)
    apply (simp add: target_found_def)
    done
qed

section \<open>A checked write\<close>

text \<open>Both kinds of write are this one: \<open>compute\<close> makes the new text and \<open>blocked\<close> finds secrets in it.\<close>

definition checked_write ::
  "'w repo_env \<Rightarrow> write_policy \<Rightarrow> string \<Rightarrow> bool \<Rightarrow> bool \<Rightarrow> bool \<Rightarrow> string option \<Rightarrow> bool option
   \<Rightarrow> (write_target \<Rightarrow> task_err + string) \<Rightarrow> (write_target \<Rightarrow> string \<Rightarrow> bool) \<Rightarrow> result_action \<Rightarrow> ('w, write_result) fs_eff" where
  "checked_write E P path cd looking dry sha missing compute blocked action =
     bindE (liftR (validateRepoPath path)) (\<lambda>r.
     bindE (liftR (assertAllowed E P r 0)) (\<lambda>_.
     bindE (resolveTarget E r cd looking) (\<lambda>t.
     bindE (liftR (assertPreconditions t sha missing)) (\<lambda>_.
     bindE (liftR (compute t)) (\<lambda>next_text.
     bindE (throw_if (blocked t next_text) (repo_error ''SECRET_CANDIDATE_BLOCKED'')) (\<lambda>_.
     bindE (liftR (assertAllowed E P r (length (rp_encode E next_text)))) (\<lambda>_.
     commit_write E t (rp_encode E next_text) (result_of E r action dry t (rp_encode E next_text)))))))))"

definition write_action_of :: "write_input \<Rightarrow> edit_action" where
  "write_action_of i = (case wi_action i of None \<Rightarrow> W_write | Some a \<Rightarrow> a)"

definition write_blocked :: "'w repo_env \<Rightarrow> write_input \<Rightarrow> write_target \<Rightarrow> string \<Rightarrow> bool" where
  "write_blocked E i t next_text = (if write_action_of i = W_write then hasSecretValue E next_text
     else hasNewSecretValue E (target_text t) next_text)"

lemma file_write_checked:
  "file_write E P i = checked_write E P (wi_path i) (wi_create_dirs i = Some True) (wi_dry_run i = Some True)
     (wi_dry_run i = Some True) (wi_expected_sha i) (wi_expected_missing i) (computeNextContent (write_action_of i) i)
     (write_blocked E i) (Did (write_action_of i))"
  by (simp add: file_write_def checked_write_def Let_def write_action_of_def write_blocked_def)

definition edit_compute :: "edit_input \<Rightarrow> write_target \<Rightarrow> task_err + string" where
  "edit_compute i t = bindR (existing_text t) (\<lambda>old. applyGroupedEdits old (ei_edits i))"

lemma grouped_edit_checked:
  "writeGroupedEdit E P i = checked_write E P (ei_path i) False False (ei_dry_run i = Some True)
     (ei_expected_sha i) (ei_expected_missing i) (edit_compute i) (\<lambda>t. hasNewSecretValue E (target_text t)) Did_edit"
  by (simp add: writeGroupedEdit_def checked_write_def Let_def edit_compute_def)

definition policy_permits :: "'w repo_env \<Rightarrow> write_policy \<Rightarrow> string \<Rightarrow> nat \<Rightarrow> bool" where
  "policy_permits E P r bytes \<longleftrightarrow> wp_enabled P \<and> int bytes \<le> wp_max_bytes P
     \<and> rp_matches E (wp_denied_globs P) r = Inr False \<and> rp_matches E (wp_allowed_globs P) r = Inr True
     \<and> \<not> (isSensitiveCandidate r \<and> isHardSecretPath r)"

lemma assertAllowed_permits: "assertAllowed E P r bytes = Inr u \<longleftrightarrow> policy_permits E P r bytes"
  by (auto simp: assertAllowed_def policy_permits_def bindR_def not_less split: if_splits sum.splits)

text \<open>The file \<open>p\<close> may become \<open>content\<close>, given the files \<open>f\<close>.\<close>

definition write_permitted ::
  "'w repo_env \<Rightarrow> write_policy \<Rightarrow> string \<Rightarrow> string option \<Rightarrow> bool option \<Rightarrow> (write_target \<Rightarrow> task_err + string)
   \<Rightarrow> (write_target \<Rightarrow> string \<Rightarrow> bool) \<Rightarrow> (string \<Rightarrow> string option) \<Rightarrow> string \<Rightarrow> string \<Rightarrow> bool" where
  "write_permitted E P path sha missing compute blocked f p content \<longleftrightarrow>
     (\<exists>r t next_text. validateRepoPath path = Inr r \<and> policy_permits E P r (length content)
        \<and> target_in_repo E r t \<and> target_true E f t \<and> p = target_absolute t
        \<and> assertPreconditions t sha missing = Inr () \<and> compute t = Inr next_text \<and> content = rp_encode E next_text
        \<and> \<not> blocked t next_text)"

text \<open>Temporary names are apart from the files that are written.\<close>

definition targets_apart :: "'w repo_env \<Rightarrow> string \<Rightarrow> bool" where
  "targets_apart E path \<longleftrightarrow> (\<forall>r t. validateRepoPath path = Inr r \<longrightarrow> target_in_repo E r t \<longrightarrow>
     \<not> scratch_name (rp_fs E) (target_absolute t))"

text \<open>The state after a write whose result is \<open>x\<close>.\<close>

definition write_done ::
  "'w repo_env \<Rightarrow> (string \<Rightarrow> string option) \<Rightarrow> (string \<Rightarrow> string \<Rightarrow> bool) \<Rightarrow> bool \<Rightarrow> write_result \<Rightarrow> 'w fs_state \<Rightarrow> bool" where
  "write_done E f permitted dry x s \<longleftrightarrow> wr_dry_run x = dry \<and>
     (if dry \<or> \<not> wr_changed x then kept_but (rp_fs E) f s
      else \<exists>p content. permitted p content \<and> wr_new_sha256 x = rp_sha256 E content \<and> wr_bytes_written x = length content
         \<and> kept_but (rp_fs E) (f(p := Some content)) s)"

definition write_failed ::
  "'w repo_env \<Rightarrow> (string \<Rightarrow> string option) \<Rightarrow> (string \<Rightarrow> string \<Rightarrow> bool) \<Rightarrow> bool \<Rightarrow> 'w fs_state \<Rightarrow> bool" where
  "write_failed E f permitted dry s \<longleftrightarrow> kept_but (rp_fs E) f s
     \<or> (\<not> dry \<and> (\<exists>p content. permitted p content \<and> kept_but (rp_fs E) (f(p := Some content)) s))"

lemma write_failed_kept: "kept f s \<Longrightarrow> write_failed E f Q dry s"
  by (simp add: write_failed_def kept_but_kept)

lemma triple_liftR:
  "(\<And>x. r = Inr x \<Longrightarrow> triple P (f x) Q R) \<Longrightarrow> (\<And>s. P s \<Longrightarrow> R s) \<Longrightarrow> triple P (bindE (liftR r) f) Q R"
  by (cases r) (simp_all add: bindE_liftR triple_throw)

lemma triple_guard: "(\<not> b \<Longrightarrow> triple P (f ()) Q R) \<Longrightarrow> (\<And>s. P s \<Longrightarrow> R s) \<Longrightarrow> triple P (bindE (throw_if b e) f) Q R"
  by (cases b) (simp_all add: triple_def wp_def bindE_def throw_if_def throw_def ret_def)

lemma triple_commit:
  assumes "permitted (target_absolute t) content" "\<not> scratch_name (rp_fs E) (target_absolute t)"
    "wr_new_sha256 x = rp_sha256 E content" "wr_bytes_written x = (if wr_dry_run x \<or> \<not> wr_changed x then 0 else length content)"
  shows "triple (kept f) (commit_write E t content x) (\<lambda>y s. y = x \<and> write_done E f permitted (wr_dry_run x) y s)
     (write_failed E f permitted (wr_dry_run x))"
proof (cases "wr_dry_run x \<or> \<not> wr_changed x")
  case True
  then show ?thesis
    by (auto simp: commit_write_def write_done_def intro!: triple_ret kept_but_kept)
next
  case False
  have "triple (kept f) (bindE (atomicWriteFile (rp_fs E) (target_absolute t) content) (\<lambda>_. ret x))
      (\<lambda>y s. y = x \<and> write_done E f permitted (wr_dry_run x) y s) (write_failed E f permitted (wr_dry_run x))"
    apply (rule triple_bind [OF triple_conseq [OF triple_atomic_write [OF assms(2)]]], assumption, assumption)
     apply (use assms(1) False in \<open>auto simp: write_failed_def\<close>) []
    apply (rule triple_ret)
    apply (use assms False in \<open>auto simp: write_done_def\<close>)
    done
  with False show ?thesis
    by (simp add: commit_write_def)
qed

lemma triple_checked_write:
  assumes apart: "targets_apart E path" and looking: "looking \<Longrightarrow> dry"
  shows "triple (kept f) (checked_write E P path cd looking dry sha missing compute blocked action)
     (write_done E f (write_permitted E P path sha missing compute blocked f) dry)
     (write_failed E f (write_permitted E P path sha missing compute blocked f) dry)"
  unfolding checked_write_def
proof (rule triple_liftR, rule triple_liftR)
  let ?W = "write_permitted E P path sha missing compute blocked f"
  fix r assume r: "validateRepoPath path = Inr r"
  have commit: "triple (kept f) (commit_write E t (rp_encode E n) (result_of E r action dry t (rp_encode E n)))
      (write_done E f ?W dry) (write_failed E f ?W dry)"
    if t: "target_found E f r looking t" and n: "compute t = Inr n" "\<not> blocked t n" "assertPreconditions t sha missing = Inr ()"
      "policy_permits E P r (length (rp_encode E n))" for t n
  proof (cases "dry \<or> \<not> wr_changed (result_of E r action dry t (rp_encode E n))")
    case True
    then show ?thesis
      by (auto simp: commit_write_def result_of_def Let_def write_done_def intro!: triple_ret kept_but_kept)
  next
    case False
    then have "target_in_repo E r t" "target_true E f t"
      using t looking by (auto simp: target_found_def split: write_target.splits)
    then have "?W (target_absolute t) (rp_encode E n)" "\<not> scratch_name (rp_fs E) (target_absolute t)"
      using r n apart unfolding write_permitted_def targets_apart_def by blast+
    from triple_commit [where permitted = ?W and x = "result_of E r action dry t (rp_encode E n)" and f = f, OF this] show ?thesis
      by (rule triple_conseq) (auto simp: result_of_def Let_def)
  qed
  show "triple (kept f) (bindE (resolveTarget E r cd looking) (\<lambda>t.
     bindE (liftR (assertPreconditions t sha missing)) (\<lambda>_.
     bindE (liftR (compute t)) (\<lambda>next_text.
     bindE (throw_if (blocked t next_text) (repo_error ''SECRET_CANDIDATE_BLOCKED'')) (\<lambda>_.
     bindE (liftR (assertAllowed E P r (length (rp_encode E next_text)))) (\<lambda>_.
     commit_write E t (rp_encode E next_text) (result_of E r action dry t (rp_encode E next_text))))))))
     (write_done E f ?W dry) (write_failed E f ?W dry)"
    apply (rule triple_bind [OF triple_conseq [OF triple_resolve_target [OF r]]], assumption, assumption, erule write_failed_kept)
    apply (rule triple_fact, rule triple_liftR, rule triple_liftR, rule triple_guard, rule triple_liftR)
        apply (rule commit, assumption, assumption, assumption, simp, simp add: assertAllowed_permits)
       apply (erule write_failed_kept)+
    done
qed (erule write_failed_kept)+

definition file_write_effect ::
  "'w repo_env \<Rightarrow> write_policy \<Rightarrow> write_input \<Rightarrow> (string \<Rightarrow> string option) \<Rightarrow> task_err + write_result \<Rightarrow> 'w fs_state \<Rightarrow> bool" where
  "file_write_effect E P i f r t =
     (let ok = write_permitted E P (wi_path i) (wi_expected_sha i) (wi_expected_missing i)
                 (computeNextContent (write_action_of i) i) (write_blocked E i) f in
      case r of Inr x \<Rightarrow> write_done E f ok (wi_dry_run i = Some True) x t
              | Inl _ \<Rightarrow> write_failed E f ok (wi_dry_run i = Some True) t)"

text \<open>C22 (safety).
  A write of a file changes no other file than its target, temporary names aside, and the target
  only as far as it is permitted: the policy allows the validated path and the size, the target
  resolves inside the repository, the stale-state guards match what is there, the content is what
  the action makes of the old text and no secret is added. Without a change or in a dry run nothing
  is written; a write that fails left the old file or the complete new one.\<close>

theorem file_write_is_guarded:
  assumes "fs_wf s" "targets_apart E (wi_path i)" "file_write E P i s = (r, t)"
  shows "file_write_effect E P i (file_at s) r t"
proof -
  let ?ok = "write_permitted E P (wi_path i) (wi_expected_sha i) (wi_expected_missing i)
     (computeNextContent (write_action_of i) i) (write_blocked E i) (file_at s)"
  let ?dry = "wi_dry_run i = Some True"
  have "wp (file_write E P i) (write_done E (file_at s) ?ok ?dry) (\<lambda>_. write_failed E (file_at s) ?ok ?dry) s"
    using triple_checked_write [OF assms(2), of ?dry ?dry] assms(1)
    unfolding file_write_checked triple_def kept_def by blast
  from wp_returnD [OF this] wp_throwD [OF this] show ?thesis
    using assms(3) by (cases r) (simp_all add: file_write_effect_def Let_def)
qed

text \<open>A repository with one file, without links.\<close>

definition sample_repo :: "nat \<Rightarrow> nat repo_env" where
  "sample_repo failing = \<lparr>rp_fs = sample_fs failing,
     rp_realpath = (\<lambda>p s. if node_of s p = None then Inl enoent else Inr p),
     rp_sha256 = (\<lambda>x. x), rp_encode = (\<lambda>x. x), rp_decode = Some, rp_matches = (\<lambda>gs p. Inr (p \<in> set gs)),
     rp_secret_values = (\<lambda>_. [])\<rparr>"

definition sample_policy :: write_policy where
  "sample_policy = policy_of (Some True) (Some [''a'', ''b'', ''c'']) None None"

definition sample_write :: write_input where
  "sample_write = \<lparr>wi_path = ''a'', wi_action = Some W_append, wi_content = Some ''!'', wi_find = None, wi_replace = None,
     wi_create_dirs = None, wi_dry_run = None, wi_expected_sha = Some ''{}'', wi_expected_missing = None\<rparr>"

lemma sample_apart:
  assumes "validateRepoPath p = Inr r" "\<not> suffix ''.tmp-1-a'' (posix_join ''/r'' r)"
    "\<And>q. validateRepoPath r = Inr q \<Longrightarrow> \<not> suffix ''.tmp-1-a'' (posix_join ''/r'' q)"
  shows "targets_apart (sample_repo n) p"
  unfolding targets_apart_def
proof (intro allI impI)
  fix r' t assume "validateRepoPath p = Inr r'" and t: "target_in_repo (sample_repo n) r' t"
  with assms(1) have "r' = r"
    by simp
  with t have "\<not> suffix ''.tmp-1-a'' (target_absolute t)"
    using assms(2,3) by (cases t) (auto simp: target_in_repo_def resolves_to_def target_absolute_def sample_repo_def
        rp_root_def sample_fs_def split: if_splits)
  then show "\<not> scratch_name (rp_fs (sample_repo n)) (target_absolute t)"
    by (auto simp: scratch_name_def sample_repo_def sample_fs_def suffix_def)
qed

theorem file_write_is_guarded_witness:
  "file_write_effect (sample_repo 99) sample_policy sample_write (file_at one_file)
     (fst (file_write (sample_repo 99) sample_policy sample_write one_file))
     (snd (file_write (sample_repo 99) sample_policy sample_write one_file))"
proof (rule file_write_is_guarded [OF _ _ prod.collapse [symmetric]])
  show "fs_wf one_file"
    by (simp add: fs_wf_def one_file_def blank_fs_def)
  have a: "validateRepoPath ''a'' = Inr ''a''" "posix_join ''/r'' ''a'' = ''/r/a''"
    by code_simp+
  show "targets_apart (sample_repo 99) (wi_path sample_write)"
    unfolding sample_write_def by (simp, rule sample_apart [OF a(1)]) (simp_all add: a suffix_def)
qed

end
