(* ===== verification/Pack_Properties.thy ===== *)
theory Pack_Properties
  imports Write_Properties
begin

text \<open>
  What an edit pack leaves behind when it fails, in a repository without symbolic links whose files
  only this process changes.
\<close>

section \<open>Validating a validated path\<close>

lemma normalize_plain:
  assumes "ss \<noteq> []" "list_all plain_segment ss" "tail = [] \<or> tail = ''/''"
  shows "posix_normalize (join_with ''/'' ss @ tail) = join_with ''/'' ss @ tail"
proof -
  let ?p = "join_with ''/'' ss @ tail"
  obtain u us where us: "ss = u # us" "u \<noteq> []" "hd u \<noteq> CHR ''/''"
    using assms(1,2) by (cases ss; cases "hd ss") (auto simp: plain_segment_def)
  have relative: "\<not> prefix ''/'' ?p" "?p \<noteq> []"
    using join_shape [of u us] us by (cases u; auto)+
  have split: "split_on (CHR ''/'') ?p = ss \<or> split_on (CHR ''/'') ?p = ss @ [[]]"
    using assms(3) split_plain [OF assms(1,2)] split_on_append_sep [of "CHR ''/''" "join_with ''/'' ss" "[]"] by auto
  then have kept: "kept_segments True [] (split_on (CHR ''/'') ?p) = ss"
    using kept_plain [OF assms(2), of True "[]"] kept_append [of True "[]" ss "[[]]"] by auto
  have trailing: "last ?p = CHR ''/'' \<longleftrightarrow> tail = ''/''"
  proof (cases "tail = []")
    case True
    have "drop_trailing (CHR ''/'') (join_with ''/'' ss @ ''/'') = join_with ''/'' ss"
      using drop_trailing_plain [OF assms(2,1), of "''/''"] by simp
    then have "dropWhile (\<lambda>x. x = CHR ''/'') (rev (join_with ''/'' ss)) = rev (join_with ''/'' ss)"
      by (simp add: drop_trailing_def) (metis rev_rev_ident)
    then show ?thesis
      using relative True by (cases "rev (join_with ''/'' ss)") (auto split: if_splits simp: dropWhile_eq_Cons_conv)
  qed (use assms(3) in auto)
  have "join_with ''/'' ss \<noteq> []"
    using join_shape [of u us] us by auto
  then show ?thesis
    using relative kept trailing assms(3) by (auto simp: posix_normalize_def Let_def)
qed

lemma validate_again:
  assumes "validateRepoPath p = Inr r" "r \<noteq> []" "validateRepoPath r = Inr q"
  shows "q = r"
proof -
  from validated_shape [OF assms(1)] assms(2) consider "r = ''.''"
    | ss tail where "ss \<noteq> []" "list_all plain_segment ss" "tail = [] \<or> tail = ''/''" "r = join_with ''/'' ss @ tail"
    by blast
  then show ?thesis
  proof cases
    case 1
    have "validateRepoPath ''.'' = Inr ''.''"
      by code_simp
    with 1 assms(3) show ?thesis
      by simp
  next
    case 2
    obtain u us where us: "ss = u # us" "u \<noteq> []" "hd u \<noteq> CHR ''/''"
      using 2(1,2) by (cases ss; cases "hd ss") (auto simp: plain_segment_def)
    then have "normalizeRepoPath r = r"
      using slashes_plain(2) [OF validated_no_backslash [OF assms(1)]] join_shape [of u us] 2(4)
      by (cases u) (auto simp: normalizeRepoPath_def)
    moreover have "\<not> prefix ''./'' r"
      using plain_no_dot_slash [OF 2(2,1), of tail] 2(3,4) by auto
    ultimately show ?thesis
      using assms(2,3) normalize_plain [OF 2(1-3)] 2(4)
      by (auto simp: validateRepoPath_def drop_dot_slash_def Let_def split: if_splits)
  qed
qed

section \<open>A plain host\<close>

definition plain_host :: "'w repo_env \<Rightarrow> bool" where
  "plain_host E \<longleftrightarrow>
     (\<forall>call w e. fst (sf_fault (rp_fs E) call w) = Some e \<longrightarrow> \<not> not_found e) \<and>
     (\<forall>p u. case rp_realpath E p u of Inr q \<Rightarrow> q = p \<and> node_of u p \<noteq> None | Inl e \<Rightarrow> not_found e \<longrightarrow> node_of u p = None) \<and>
     (\<forall>u e. rp_realpath E (rp_root E) u = Inl e \<longrightarrow> \<not> not_found e)"

lemma plain_real:
  fixes u :: "'w fs_state"
  assumes "plain_host E"
  shows "case rp_realpath E p u of Inr q \<Rightarrow> q = p \<and> node_of u p \<noteq> None | Inl e \<Rightarrow> not_found e \<longrightarrow> node_of u p = None"
  using assms unfolding plain_host_def by blast

lemma plain_realpath: "plain_host E \<Longrightarrow> rp_realpath E p u = Inr q \<Longrightarrow> q = p"
  using plain_real [of E u p] by simp

lemma plain_missing: "plain_host E \<Longrightarrow> rp_realpath E p u = Inl e \<Longrightarrow> not_found e \<Longrightarrow> node_of u p = None"
  using plain_real [of E u p] by simp

lemma plain_root: "plain_host E \<Longrightarrow> rp_realpath E (rp_root E) u = Inl e \<Longrightarrow> \<not> not_found e"
  unfolding plain_host_def by blast

lemma plain_fault: "plain_host E \<Longrightarrow> fst (sf_fault (rp_fs E) call w) = Some e \<Longrightarrow> \<not> not_found e"
  unfolding plain_host_def by blast

text \<open>The file a change is about.\<close>

definition change_target :: "'w repo_env \<Rightarrow> write_change \<Rightarrow> string" where
  "change_target E c = posix_join (rp_root E) (safeDuplicatePathKey (change_path c))"

definition pack_paths_ok :: "'w repo_env \<Rightarrow> write_change list \<Rightarrow> bool" where
  "pack_paths_ok E cs \<longleftrightarrow> (\<forall>c \<in> set cs. validateRepoPath (change_path c) \<noteq> Inr []
     \<and> \<not> scratch_name (rp_fs E) (change_target E c))"

lemma plain_target:
  assumes "plain_host E" "validateRepoPath p = Inr r" "r \<noteq> []" "target_in_repo E r t"
  shows "target_absolute t = posix_join (rp_root E) r"
proof (cases t)
  case (Existing e)
  then have e: "validateRepoPath r = Inr (et_repo_path e)" "resolves_to E (posix_join (rp_root E) (et_repo_path e)) (et_absolute e)"
    using assms(4) by (auto simp: target_in_repo_def)
  with validate_again [OF assms(2,3)] plain_realpath [OF assms(1)] Existing show ?thesis
    by (auto simp: target_absolute_def resolves_to_def)
next
  case (Missing q p')
  with assms(4) show ?thesis
    by (simp add: target_in_repo_def target_absolute_def)
qed

section \<open>One change\<close>

lemma triple_from_but:
  assumes "\<And>g. same_files F g f \<Longrightarrow> triple (kept g) m Q R"
  shows "triple (kept_but F f) m Q R"
  unfolding triple_def
proof (intro allI impI)
  fix s assume s: "kept_but F f s"
  then have "kept (file_at s) s" "same_files F (file_at s) f"
    by (simp_all add: kept_but_def kept_def)
  with assms show "wp m Q (\<lambda>_. R) s"
    unfolding triple_def by blast
qed

lemma checked_write_path:
  "returns (\<lambda>_. True) (checked_write E P path cd looking dry sha missing compute blocked action)
     (\<lambda>x _. validateRepoPath path = Inr (wr_path x))"
proof -
  have commit: "returns (\<lambda>_. True) (commit_write E t c x) (\<lambda>y _. y = x)" for t c x
    unfolding commit_write_def by (auto intro!: returns_ret fact_step)
  show ?thesis
    unfolding checked_write_def
    by (intro fact_liftR fact_step fact_guard) (auto simp: result_of_def Let_def intro!: returns_conseq [OF commit])
qed

lemma triple_path: "triple P m Q R \<Longrightarrow> returns (\<lambda>_. True) m (\<lambda>x _. F x) \<Longrightarrow> triple P m (\<lambda>x s. Q x s \<and> F x) R"
  unfolding triple_def returns_def wp_def by (fastforce split: prod.splits sum.splits)

definition one_file_changed :: "'w repo_env \<Rightarrow> (string \<Rightarrow> string option) \<Rightarrow> string \<Rightarrow> 'w fs_state \<Rightarrow> bool" where
  "one_file_changed E f p s \<longleftrightarrow> (\<exists>x. kept_but (rp_fs E) (f(p := x)) s)"

lemma triple_checked_plain:
  assumes host: "plain_host E" and path: "validateRepoPath path \<noteq> Inr []" "targets_apart E path" and looking: "looking \<Longrightarrow> dry"
  shows "triple (kept_but (rp_fs E) f) (checked_write E P path cd looking dry sha missing compute blocked action)
     (\<lambda>x s. validateRepoPath path = Inr (wr_path x) \<and>
        (if dry \<or> \<not> wr_changed x then kept_but (rp_fs E) f s
         else one_file_changed E f (posix_join (rp_root E) (safeDuplicatePathKey path)) s))
     (\<lambda>s. if dry then kept_but (rp_fs E) f s else one_file_changed E f (posix_join (rp_root E) (safeDuplicatePathKey path)) s)"
proof (rule triple_from_but)
  fix g assume g: "same_files (rp_fs E) g f"
  let ?F = "rp_fs E"
  let ?p = "posix_join (rp_root E) (safeDuplicatePathKey path)"
  have permitted: "p = ?p" if "write_permitted E P path sha missing compute blocked g p c" for p c
    using that path(1) plain_target [OF host] by (fastforce simp: write_permitted_def safeDuplicatePathKey_def)
  have same: "kept_but ?F g s \<Longrightarrow> kept_but ?F f s" "kept_but ?F g s \<Longrightarrow> one_file_changed E f ?p s"
    "kept_but ?F (g(?p := x)) s \<Longrightarrow> one_file_changed E f ?p s" for s x
  proof -
    show "kept_but ?F g s \<Longrightarrow> kept_but ?F f s"
      by (rule kept_but_trans [OF _ g])
    show "kept_but ?F (g(?p := x)) s \<Longrightarrow> one_file_changed E f ?p s" for x
      unfolding one_file_changed_def using kept_but_trans [OF _ same_files_upd [OF g]] by blast
    from this [of "g ?p"] show "kept_but ?F g s \<Longrightarrow> one_file_changed E f ?p s"
      by simp
  qed
  show "triple (kept g) (checked_write E P path cd looking dry sha missing compute blocked action)
     (\<lambda>x s. validateRepoPath path = Inr (wr_path x) \<and>
        (if dry \<or> \<not> wr_changed x then kept_but ?F f s else one_file_changed E f ?p s))
     (\<lambda>s. if dry then kept_but ?F f s else one_file_changed E f ?p s)"
    apply (rule triple_conseq [OF triple_path [OF triple_checked_write [OF path(2) looking] checked_write_path]])
       apply (assumption, assumption)
     apply (use same permitted in \<open>fastforce simp: write_done_def split: if_splits\<close>)
    apply (use same permitted in \<open>fastforce simp: write_failed_def split: if_splits\<close>)
    done
qed

lemma triple_apply_change:
  assumes "plain_host E" "pack_paths_ok E cs" "c \<in> set cs"
  shows "triple (kept_but (rp_fs E) f) (applyChange E P c dry preview)
     (\<lambda>x s. validateRepoPath (change_path c) = Inr (wr_path x) \<and>
        (if dry \<or> \<not> wr_changed x then kept_but (rp_fs E) f s else one_file_changed E f (change_target E c) s))
     (\<lambda>s. if dry then kept_but (rp_fs E) f s else one_file_changed E f (change_target E c) s)"
proof -
  have path: "validateRepoPath (change_path c) \<noteq> Inr []" "targets_apart E (change_path c)"
    using assms(2,3) plain_target [OF assms(1)]
    by (fastforce simp: pack_paths_ok_def targets_apart_def change_target_def safeDuplicatePathKey_def)+
  show ?thesis
  proof (cases c)
    case (Simple_Change x)
    with path show ?thesis
      unfolding Simple_Change applyChange_def write_change.case file_write_checked
      by (intro triple_conseq [OF triple_checked_plain [OF assms(1)]])
        (auto simp: toWriteFileInput_def Let_def change_path_def change_target_def split: if_splits)
  next
    case (Edit_Change x)
    with path show ?thesis
      unfolding Edit_Change applyChange_def write_change.case grouped_edit_checked
      by (intro triple_conseq [OF triple_checked_plain [OF assms(1)]])
        (auto simp: toEditInput_def Let_def change_path_def change_target_def split: if_splits)
  qed
qed

section \<open>Snapshots\<close>

lemma wp_call:
  assumes "\<And>w. Q () (s\<lparr>fs_world := w\<rparr>)" "\<And>e v w. fst (sf_fault F call v) = Some e \<Longrightarrow> R e (s\<lparr>fs_world := w\<rparr>)"
  shows "wp (sys_call F call) Q R s"
proof (cases "sf_fault F call (fs_world s)")
  case (Pair x w)
  then have "fst (sf_fault F call (fs_world s)) = x"
    by simp
  with Pair assms(1) assms(2) [of "fs_world s"] show ?thesis
    by (cases x) (auto simp: wp_def sys_call_def bindE_def askF_def throw_def ret_def)
qed

lemma wp_realpath: "wp (realpathE E p) Q R s = (case rp_realpath E p s of Inl e \<Rightarrow> R e s | Inr x \<Rightarrow> Q x s)"
  by (simp add: realpathE_def wp_simps)

lemma not_found_codes [simp]: "not_found enoent" "not_found (OtherErr (Some c)) \<longleftrightarrow> c = ''ENOENT''"
  "not_found (repo_error c) \<longleftrightarrow> c = ''ENOENT''"
  by (auto simp: not_found_def enoent_def repo_error_def err_code_def)

lemma validate_not_missing: "validateRepoPath p = Inl e \<Longrightarrow> \<not> not_found e"
  by (auto simp: validateRepoPath_def Let_def split: if_splits)

lemma kept_world [simp]: "kept g (s\<lparr>fs_world := w\<rparr>) = kept g s"
  by (simp add: kept_def)

lemma kept_absent: "kept g s \<Longrightarrow> node_of s p = None \<Longrightarrow> g p = None"
  by (auto simp: kept_def file_at_def)

lemma wp_resolve_plain:
  assumes host: "plain_host E" and r: "validateRepoPath p = Inr r" "r \<noteq> []" and s: "kept g s"
  shows "wp (sandbox_resolve E r) (\<lambda>x t. kept g t \<and> rv_absolute x = posix_join (rp_root E) r)
     (\<lambda>e t. kept g t \<and> (not_found e \<longrightarrow> g (posix_join (rp_root E) r) = None)) s"
proof (cases "validateRepoPath r")
  case (Inl e)
  with s validate_not_missing [OF Inl] show ?thesis
    by (simp add: sandbox_resolve_def bindE_liftR wp_throw)
next
  case (Inr q)
  with validate_again [OF r] have q: "validateRepoPath r = Inr r"
    by simp
  let ?a = "posix_join (rp_root E) r"
  have real: "rp_realpath E ?a s = Inr x \<Longrightarrow> x = ?a" "rp_realpath E ?a s = Inl e \<Longrightarrow> not_found e \<Longrightarrow> g ?a = None" for x e
    using plain_realpath [OF host] plain_missing [OF host] kept_absent [OF s] by blast+
  show ?thesis
    unfolding sandbox_resolve_def q bindE_liftR Let_def wp_bindE wp_throw_if wp_realpath sys_lstat_def artifact_blocked_def
    apply (cases "isDelegationControlArtifact r")
     apply (simp only: if_True)
     apply (simp add: s)
    apply (simp only: if_False)
    apply (cases "rp_realpath E (rp_root E) s"; simp)
     apply (use s plain_root [OF host] in blast)
    apply (cases "rp_realpath E ?a s"; simp)
     apply (use s real in blast)
    apply (rule wp_call)
     apply (use s real in \<open>auto simp: wp_simps kept_absent split: option.split prod.split\<close>) []
    apply (use s plain_fault [OF host] in auto)
    done
qed

text \<open>A snapshot holds what the file was.\<close>

definition snapshot_ok :: "'w repo_env \<Rightarrow> (string \<Rightarrow> string option) \<Rightarrow> string \<Rightarrow> target_snapshot \<Rightarrow> bool" where
  "snapshot_ok E f p x \<longleftrightarrow> validateRepoPath p = Inr (ts_path x) \<and> ts_absolute x = posix_join (rp_root E) (ts_path x)
     \<and> ts_old x = f (ts_absolute x)"

lemma wp_sys_read:
  assumes s: "kept g s" and host: "plain_host E"
  shows "wp (sys_read (rp_fs E) p) (\<lambda>c t. kept g t \<and> g p = Some c) (\<lambda>e t. kept g t \<and> (not_found e \<longrightarrow> g p = None)) s"
  unfolding sys_read_def wp_bindE
  apply (rule wp_call)
   apply (use s in \<open>auto simp: wp_simps kept_absent kept_def file_at_def split: option.split\<close>) []
  apply (use s plain_fault [OF host] in auto)
  done

lemma keeps_find_missing: "fs_blind P \<Longrightarrow> keeps P (findMissingParentPaths E r)"
  unfolding findMissingParentPaths_def missing_parent_def Let_def
  by (intro pres_intros keeps_foldE keeps_lstat)

lemma triple_snapshot:
  assumes host: "plain_host E" and p: "validateRepoPath p \<noteq> Inr []"
    and apart: "\<not> scratch_name (rp_fs E) (posix_join (rp_root E) (safeDuplicatePathKey p))"
  shows "triple (kept_but (rp_fs E) f) (captureSnapshot E p) (\<lambda>x s. kept_but (rp_fs E) f s \<and> snapshot_ok E f p x) (kept_but (rp_fs E) f)"
proof (rule triple_from_but)
  fix g assume g: "same_files (rp_fs E) g f"
  have but: "kept g s \<Longrightarrow> kept_but (rp_fs E) f s" for s
    using g by (simp add: kept_def kept_but_def)
  show "triple (kept g) (captureSnapshot E p) (\<lambda>x s. kept_but (rp_fs E) f s \<and> snapshot_ok E f p x) (kept_but (rp_fs E) f)"
    unfolding captureSnapshot_def
  proof (rule triple_liftR)
    fix r assume r: "validateRepoPath p = Inr r"
    with p have "r \<noteq> []"
      by auto
    let ?a = "posix_join (rp_root E) r"
    let ?read = "bindE (sandbox_resolve E r) (\<lambda>resolved. bindE (sys_read (rp_fs E) (rv_absolute resolved)) (\<lambda>content.
        ret (Some \<lparr>ts_path = r, ts_absolute = rv_absolute resolved, ts_old = Some content, ts_missing_parents = []\<rparr>)))"
    have fg: "g ?a = f ?a"
      using g apart r by (simp add: same_files_def safeDuplicatePathKey_def)
    have "wp ?read (\<lambda>x t. kept g t \<and> (\<exists>y. x = Some y \<and> snapshot_ok E f p y)) (\<lambda>e t. kept g t \<and> (not_found e \<longrightarrow> g ?a = None)) s"
      if "kept g s" for s
      unfolding wp_bindE
      apply (rule wp_conseq [OF wp_resolve_plain [OF host r \<open>r \<noteq> []\<close> that]])
       apply (elim conjE, rule wp_conseq [OF wp_sys_read [OF _ host]], assumption)
        apply (use r fg in \<open>auto simp: wp_ret snapshot_ok_def\<close>)
      done
    note reading = this
    have caught: "triple (kept g) (catchE ?read (\<lambda>e. if not_found e then ret None else throw e))
        (\<lambda>x t. kept g t \<and> (case x of Some y \<Rightarrow> snapshot_ok E f p y | None \<Rightarrow> g ?a = None)) (kept g)"
      unfolding triple_def wp_catchE
      by (intro allI impI, rule wp_conseq [OF reading], assumption) (auto simp: wp_if wp_ret wp_throw)
    show "triple (kept g) (bindE (catchE ?read (\<lambda>e. if not_found e then ret None else throw e)) (\<lambda>found.
       case found of Some snapshot \<Rightarrow> ret snapshot
       | None \<Rightarrow> bindE (findMissingParentPaths E r) (\<lambda>missing.
           ret \<lparr>ts_path = r, ts_absolute = ?a, ts_old = None, ts_missing_parents = missing\<rparr>)))
       (\<lambda>x s. kept_but (rp_fs E) f s \<and> snapshot_ok E f p x) (kept_but (rp_fs E) f)"
      apply (rule triple_bind [OF triple_conseq [OF caught]], assumption, assumption, erule but)
      apply (rename_tac found, case_tac found; simp)
       apply (rule triple_fact)
       apply (rule triple_bind [OF triple_conseq [where Q' = "\<lambda>_. kept g", OF triple_keeps [OF keeps_find_missing [OF stages_blind(1)]]]])
          apply (assumption, assumption, erule but)
       apply (rule triple_ret, simp add: snapshot_ok_def r fg [symmetric] but)
      apply (rule triple_ret, simp add: but)
      done
  qed (erule but)
qed

lemma triple_snapshots:
  assumes host: "plain_host E"
  shows "pack_paths_ok E cs \<Longrightarrow> triple (kept_but (rp_fs E) f) (captureSnapshots E cs)
     (\<lambda>xs s. kept_but (rp_fs E) f s \<and> list_all2 (\<lambda>c. snapshot_ok E f (change_path c)) cs xs) (kept_but (rp_fs E) f)"
proof (induction cs)
  case Nil
  show ?case
    by (auto intro: triple_ret)
next
  case (Cons c cs)
  then have c: "validateRepoPath (change_path c) \<noteq> Inr []"
    "\<not> scratch_name (rp_fs E) (posix_join (rp_root E) (safeDuplicatePathKey (change_path c)))" and cs: "pack_paths_ok E cs"
    by (auto simp: pack_paths_ok_def change_target_def)
  show ?case
    unfolding captureSnapshots.simps
    apply (rule triple_bind [OF triple_snapshot [OF host c]], rule triple_fact)
    apply (rule triple_bind [OF Cons.IH [OF cs]], rule triple_fact, rule triple_ret)
    apply simp
    done
qed

section \<open>Rolling back\<close>

text \<open>What restoring the snapshots makes of the files.\<close>

fun restored :: "(string \<Rightarrow> string option) \<Rightarrow> target_snapshot list \<Rightarrow> string \<Rightarrow> string option" where
  "restored g [] = g"
| "restored g (x # xs) = restored (g(ts_absolute x := ts_old x)) xs"

lemma restored_old:
  "\<forall>x \<in> set xs. ts_old x = f (ts_absolute x) \<Longrightarrow> restored g xs q = (if q \<in> ts_absolute ` set xs then f q else g q)"
  by (induction xs arbitrary: g) auto

lemma file_at_nothing: "node_of s p = None \<Longrightarrow> file_at s p = None"
  "node_of s p = Some i \<Longrightarrow> nd_kind (fs_nodes s i) \<noteq> Regular \<Longrightarrow> file_at s p = None"
  by (simp_all add: file_at_def)

lemma wp_any: "wp m (\<lambda>_ _. True) (\<lambda>_ _. True) s"
  by (simp add: wp_def split: prod.split sum.split)

lemma wp_unlink_restores:
  assumes host: "plain_host E" and s: "kept_but (rp_fs E) g s"
  shows "wp (sys_unlink (rp_fs E) p) (\<lambda>_. kept_but (rp_fs E) (g(p := None)))
     (\<lambda>e t. not_found e \<longrightarrow> kept_but (rp_fs E) (g(p := None)) t) s"
  unfolding sys_unlink_def wp_bindE
  apply (rule wp_call)
   apply (use s in \<open>auto simp: wp_simps kept_but_def same_files_def file_at_nothing\<close>) []
  apply (use plain_fault [OF host] in blast)
  done

lemma triple_restore:
  assumes host: "plain_host E" and x: "\<not> scratch_name (rp_fs E) (ts_absolute x)"
  shows "triple (\<lambda>s. rr_failed acc = [] \<longrightarrow> kept_but (rp_fs E) g s) (restore_snapshot E acc x)
     (\<lambda>acc' s. rr_failed acc' = [] \<longrightarrow> kept_but (rp_fs E) (g(ts_absolute x := ts_old x)) s) (\<lambda>_. False)"
proof (cases "rr_failed acc = []")
  case False
  show ?thesis
    unfolding triple_def restore_snapshot_def wp_catchE wp_bindE
    by (intro allI impI, rule wp_conseq [OF wp_any]) (use False in \<open>auto simp: wp_ret wp_if\<close>)
next
  case True
  have "wp (case ts_old x of Some content \<Rightarrow> atomicWriteFile (rp_fs E) (ts_absolute x) content
      | None \<Rightarrow> sys_unlink (rp_fs E) (ts_absolute x))
     (\<lambda>_. kept_but (rp_fs E) (g(ts_absolute x := ts_old x)))
     (\<lambda>e t. ts_old x = None \<and> not_found e \<longrightarrow> kept_but (rp_fs E) (g(ts_absolute x := ts_old x)) t) s"
    if s: "kept_but (rp_fs E) g s" for s
  proof (cases "ts_old x")
    case None
    with wp_unlink_restores [OF host s] show ?thesis
      by simp
  next
    case (Some content)
    have "triple (kept_but (rp_fs E) g) (atomicWriteFile (rp_fs E) (ts_absolute x) content)
        (\<lambda>_. kept_but (rp_fs E) (g(ts_absolute x := Some content))) (\<lambda>_. True)"
    proof (rule triple_from_but)
      fix h assume h: "same_files (rp_fs E) h g"
      show "triple (kept h) (atomicWriteFile (rp_fs E) (ts_absolute x) content)
          (\<lambda>_. kept_but (rp_fs E) (g(ts_absolute x := Some content))) (\<lambda>_. True)"
        by (rule triple_conseq [OF triple_atomic_write [OF x, of h]])
          (auto intro: kept_but_trans [OF _ same_files_upd [OF h]])
    qed
    with s have "wp (atomicWriteFile (rp_fs E) (ts_absolute x) content)
        (\<lambda>_. kept_but (rp_fs E) (g(ts_absolute x := Some content))) (\<lambda>_ _. True) s"
      by (simp add: triple_def)
    with Some show ?thesis
      by (simp add: wp_conseq)
  qed
  note core = this
  show ?thesis
    unfolding triple_def restore_snapshot_def wp_catchE wp_bindE
    by (intro allI impI, rule wp_conseq [OF core]) (use True in \<open>auto simp: wp_if wp_ret\<close>)
qed

lemma triple_restore_all:
  assumes host: "plain_host E"
  shows "\<forall>x \<in> set xs. \<not> scratch_name (rp_fs E) (ts_absolute x) \<Longrightarrow>
    triple (\<lambda>s. rr_failed acc = [] \<longrightarrow> kept_but (rp_fs E) g s) (foldE (restore_snapshot E) acc xs)
     (\<lambda>acc' s. rr_failed acc' = [] \<longrightarrow> kept_but (rp_fs E) (restored g xs) s) (\<lambda>_. False)"
proof (induction xs arbitrary: acc g)
  case Nil
  show ?case
    by (auto intro: triple_ret)
next
  case (Cons x xs)
  then have "\<not> scratch_name (rp_fs E) (ts_absolute x)" "\<forall>x \<in> set xs. \<not> scratch_name (rp_fs E) (ts_absolute x)"
    by auto
  then show ?case
    unfolding foldE.simps restored.simps
    by (intro triple_bind [OF triple_restore [OF host]] Cons.IH)
qed

lemma keeps_rmdir: "keeps (kept_but F f) (quietly (sys_rmdir F p))"
proof -
  have "keeps (kept_but F f) (sys_rmdir F p)"
    unfolding sys_rmdir_def
  proof (intro keeps_bindE [OF keeps_sys_call] keeps_look)
    fix s :: "'a fs_state" assume s: "kept_but F f s"
    then show "kept_but F f (snd ((case (map_option (\<lambda>i. nd_kind (fs_nodes s i)) (node_of s p), entries_of p s) of
        (kind, entries) \<Rightarrow> case kind of None \<Rightarrow> throw enoent
        | Some k \<Rightarrow> bindE (throw_if (k \<noteq> Directory) (OtherErr (Some ''ENOTDIR''))) (\<lambda>_.
            bindE (throw_if (entries \<noteq> []) (OtherErr (Some ''ENOTEMPTY''))) (\<lambda>_. modifyE (drop_name p)))) s))"
      by (cases "node_of s p")
        (auto simp: throw_def throw_if_def bindE_def ret_def modifyE_def kept_but_def same_files_def file_at_nothing)
  qed simp
  then show ?thesis
    unfolding quietly_def by (intro pres_intros)
qed

lemma triple_quietly_all:
  assumes "\<And>p. keeps P (quietly (m p))"
  shows "triple P (for_each ps (\<lambda>p. quietly (m p))) (\<lambda>_. P) (\<lambda>_. False)"
proof (induction ps)
  case Nil
  show ?case
    by (auto intro: triple_ret)
next
  case (Cons p ps)
  have "triple P (quietly (m p)) (\<lambda>_. P) (\<lambda>_. False)"
    using assms [of p] by (auto simp: triple_def wp_def keeps_def quietly_def catchE_def ret_def split: prod.splits sum.splits)
  then show ?case
    unfolding for_each.simps by (rule triple_bind) (rule Cons.IH)
qed

lemma triple_rollback:
  assumes host: "plain_host E" and snaps: "\<forall>x \<in> set snapshots. ts_old x = f (ts_absolute x) \<and> \<not> scratch_name (rp_fs E) (ts_absolute x)"
    and covered: "\<And>q. g q \<noteq> f q \<Longrightarrow> q \<notin> Q \<Longrightarrow> \<exists>p \<in> set applied. \<exists>x. snapshot_of snapshots p = Some x \<and> ts_absolute x = q"
  shows "triple (kept_but (rp_fs E) g) (rollbackAppliedPaths E snapshots applied)
     (\<lambda>report s. rr_failed report = [] \<longrightarrow> (\<exists>h. kept_but (rp_fs E) h s \<and> (\<forall>q. q \<notin> Q \<longrightarrow> h q = f q))) (\<lambda>_. False)"
proof -
  let ?xs = "concat (map (\<lambda>p. case snapshot_of snapshots p of None \<Rightarrow> [] | Some x \<Rightarrow> [x]) (rev (unique_paths applied)))"
  have sub: "set ?xs \<subseteq> set snapshots"
    by (auto simp: snapshot_of_def split: option.splits dest!: map_of_SomeD [OF sym])
  have uniq: "set (unique_paths ps) = set ps" for ps
    by (induction ps) auto
  have "restored g ?xs q = f q" if "q \<notin> Q" for q
  proof -
    have "restored g ?xs q = (if q \<in> ts_absolute ` set ?xs then f q else g q)"
      using snaps sub by (intro restored_old) blast
    moreover have "q \<in> ts_absolute ` set ?xs" if "g q \<noteq> f q"
      using covered [OF that \<open>q \<notin> Q\<close>] by (force simp: uniq split: option.split)
    ultimately show ?thesis
      by auto
  qed
  then have done_: "kept_but (rp_fs E) (restored g ?xs) s \<Longrightarrow> \<exists>h. kept_but (rp_fs E) h s \<and> (\<forall>q. q \<notin> Q \<longrightarrow> h q = f q)" for s
    by blast
  have dirs: "triple (\<lambda>s. b \<longrightarrow> kept_but (rp_fs E) h s) (for_each ps (\<lambda>p. quietly (sys_rmdir (rp_fs E) (posix_join (rp_root E) p))))
      (\<lambda>_ s. b \<longrightarrow> kept_but (rp_fs E) h s) (\<lambda>_. False)" for b h ps
    by (rule triple_quietly_all) (use keeps_rmdir in \<open>cases b; auto simp: keeps_def\<close>)
  show ?thesis
    unfolding rollbackAppliedPaths_def Let_def
    apply (rule triple_bind [OF triple_conseq [OF triple_restore_all [OF host]]])
        apply (use snaps sub in blast)
       apply simp
      apply assumption
     apply simp
    apply (rule triple_bind [OF dirs], rule triple_ret)
    apply (use done_ in simp)
    done
qed

section \<open>The pack\<close>

lemma wp_refused: "wp (refusedE m) Q R s = wp m Q (\<lambda>e. R (Pack_Refused e)) s"
  by (auto simp: wp_def refusedE_def split: prod.split sum.split)

text \<open>What may be said of the files after a pack failed: with a refusal all is as it was; after a
  complete rollback one target of the pack at most is not.\<close>

definition pack_left :: "'w repo_env \<Rightarrow> write_change list \<Rightarrow> (string \<Rightarrow> string option) \<Rightarrow> pack_failure \<Rightarrow> 'w fs_state \<Rightarrow> bool" where
  "pack_left E cs f failure s = (case failure of
       Pack_Refused _ \<Rightarrow> kept_but (rp_fs E) f s
     | Pack_Failed _ report \<Rightarrow> rr_failed report = [] \<longrightarrow> (\<exists>c \<in> set cs. one_file_changed E f (change_target E c) s))"

text \<open>The files so far differ from the first ones at the targets of applied paths only.\<close>

definition pack_inv :: "'w repo_env \<Rightarrow> (string \<Rightarrow> string option) \<Rightarrow> target_snapshot list \<Rightarrow> string list
   \<Rightarrow> (string \<Rightarrow> string option) \<Rightarrow> bool" where
  "pack_inv E f snapshots applied g \<longleftrightarrow>
     (\<forall>q. g q \<noteq> f q \<longrightarrow> (\<exists>p \<in> set applied. \<exists>x. snapshot_of snapshots p = Some x \<and> ts_absolute x = q))"

lemma snapshots_found:
  assumes "list_all2 (\<lambda>c. snapshot_ok E f (change_path c)) cs xs" "c \<in> set cs" "validateRepoPath (change_path c) = Inr r"
  shows "\<exists>x. snapshot_of xs r = Some x \<and> ts_absolute x = change_target E c"
proof -
  have all: "\<forall>x \<in> set xs. ts_absolute x = posix_join (rp_root E) (ts_path x)"
    using assms(1) by (auto simp: list_all2_conv_all_nth in_set_conv_nth snapshot_ok_def)
  obtain y where y: "y \<in> set xs" "ts_path y = r"
    using assms by (fastforce simp: list_all2_conv_all_nth in_set_conv_nth snapshot_ok_def)
  then have "r \<in> fst ` set (map (\<lambda>x. (ts_path x, x)) (rev xs))"
    by force
  then obtain x where x: "map_of (map (\<lambda>x. (ts_path x, x)) (rev xs)) r = Some x"
    by (metis not_None_eq map_of_eq_None_iff)
  with map_of_SomeD [OF x] all assms(3) show ?thesis
    by (auto simp: snapshot_of_def change_target_def safeDuplicatePathKey_def)
qed

lemma wp_apply_changes:
  assumes host: "plain_host E" and cs: "pack_paths_ok E cs"
    and snaps: "list_all2 (\<lambda>c. snapshot_ok E f (change_path c)) cs xs"
  shows "set (map fst rest) \<subseteq> set cs \<Longrightarrow> pack_inv E f xs applied g \<Longrightarrow> kept_but (rp_fs E) g s \<Longrightarrow>
     wp (apply_changes E P xs applied rest) (\<lambda>_ _. True) (pack_left E cs f) s"
proof (induction rest arbitrary: applied g s)
  case Nil
  show ?case
    by (simp add: wp_ret)
next
  case (Cons cp rest)
  obtain c preview where cp: "cp = (c, preview)"
    by (cases cp)
  with Cons.prems have c: "c \<in> set cs" and rest: "set (map fst rest) \<subseteq> set cs"
    by auto
  have old: "\<forall>x \<in> set xs. ts_old x = f (ts_absolute x) \<and> \<not> scratch_name (rp_fs E) (ts_absolute x)"
  proof
    fix x assume "x \<in> set xs"
    then obtain i where i: "i < length xs" "x = xs ! i"
      by (auto simp: in_set_conv_nth)
    then have "cs ! i \<in> set cs" "snapshot_ok E f (change_path (cs ! i)) x"
      using snaps by (auto simp: list_all2_conv_all_nth)
    with cs show "ts_old x = f (ts_absolute x) \<and> \<not> scratch_name (rp_fs E) (ts_absolute x)"
      by (auto simp: snapshot_ok_def pack_paths_ok_def change_target_def safeDuplicatePathKey_def split: sum.splits)
  qed
  have step: "wp (applyChange E P c False (Some preview))
     (\<lambda>x t. validateRepoPath (change_path c) = Inr (wr_path x) \<and>
        (if \<not> wr_changed x then kept_but (rp_fs E) g t else one_file_changed E g (change_target E c) t))
     (\<lambda>_ t. one_file_changed E g (change_target E c) t) s"
    using triple_apply_change [OF host cs c, of g P False "Some preview"] Cons.prems(3) by (simp add: triple_def)
  show ?case
  proof (cases "applyChange E P c False (Some preview) s")
    case (Pair r t)
    show ?thesis
    proof (cases r)
      case (Inl e)
      with wp_throwD [OF step] Pair obtain y where t: "kept_but (rp_fs E) (g(change_target E c := y)) t"
        by (auto simp: one_file_changed_def)
      have undone: "triple (kept_but (rp_fs E) (g(change_target E c := y))) (rollbackAppliedPaths E xs applied)
         (\<lambda>report s. rr_failed report = [] \<longrightarrow> (\<exists>h. kept_but (rp_fs E) h s \<and> (\<forall>q. q \<notin> {change_target E c} \<longrightarrow> h q = f q))) (\<lambda>_. False)"
        by (rule triple_rollback [OF host old]) (use Cons.prems(2) in \<open>auto simp: pack_inv_def split: if_splits\<close>)
      have target: "h = f(change_target E c := h (change_target E c))" if "\<forall>q. q \<notin> {change_target E c} \<longrightarrow> h q = f q" for h
        using that by (auto simp: fun_eq_iff)
      from undone t have "wp (rollbackAppliedPaths E xs applied) (\<lambda>report u. rr_failed report = [] \<longrightarrow>
          (\<exists>h. kept_but (rp_fs E) h u \<and> (\<forall>q. q \<notin> {change_target E c} \<longrightarrow> h q = f q))) (\<lambda>_ _. False) t"
        by (simp add: triple_def)
      then have "wp (rollbackAppliedPaths E xs applied) (\<lambda>report u. rr_failed report = [] \<longrightarrow>
          (\<exists>c \<in> set cs. one_file_changed E f (change_target E c) u)) (\<lambda>_ _. False) t"
        by (rule wp_conseq) (use c target in \<open>unfold one_file_changed_def, metis\<close>)
      then have "wp (bindE (refusedE (rollbackAppliedPaths E xs applied)) (\<lambda>report. throw (atomicFailure e report)))
          (\<lambda>_ _. True) (pack_left E cs f) t"
        unfolding wp_bindE wp_refused by (rule wp_conseq) (auto simp: wp_throw pack_left_def atomicFailure_def)
      with Pair Inl cp show ?thesis
        by (simp add: wp_def)
    next
      case (Inr x)
      with wp_returnD [OF step] Pair have x: "validateRepoPath (change_path c) = Inr (wr_path x)"
        "if \<not> wr_changed x then kept_but (rp_fs E) g t else one_file_changed E g (change_target E c) t"
        by auto
      let ?applied = "if wr_changed x then applied @ [wr_path x] else applied"
      from snapshots_found [OF snaps c x(1)] obtain y where y: "snapshot_of xs (wr_path x) = Some y" "ts_absolute y = change_target E c"
        by blast
      have "\<exists>h. kept_but (rp_fs E) h t \<and> pack_inv E f xs ?applied h"
      proof (cases "wr_changed x")
        case False
        with x Cons.prems(2) show ?thesis
          by auto
      next
        case True
        with x obtain z where "kept_but (rp_fs E) (g(change_target E c := z)) t"
          by (auto simp: one_file_changed_def)
        moreover have "pack_inv E f xs ?applied (g(change_target E c := z))"
          using Cons.prems(2) True y by (auto simp: pack_inv_def)
        ultimately show ?thesis
          by blast
      qed
      with Cons.IH [OF rest] have "wp (apply_changes E P xs ?applied rest) (\<lambda>_ _. True) (pack_left E cs f) t"
        by blast
      then have "wp (bindE (apply_changes E P xs ?applied rest) (\<lambda>results. ret (x # results))) (\<lambda>_ _. True) (pack_left E cs f) t"
        unfolding wp_bindE by (rule wp_conseq) (auto simp: wp_ret)
      with Pair Inr cp show ?thesis
        by (simp add: wp_def)
    qed
  qed
qed

lemma triple_previews:
  assumes "plain_host E" "pack_paths_ok E cs"
  shows "set ds \<subseteq> set cs \<Longrightarrow> triple (kept_but (rp_fs E) f) (preview_changes E P ds) (\<lambda>_. kept_but (rp_fs E) f) (kept_but (rp_fs E) f)"
proof (induction ds)
  case Nil
  show ?case
    by (auto intro: triple_ret)
next
  case (Cons d ds)
  then have d: "d \<in> set cs" and ds: "set ds \<subseteq> set cs"
    by auto
  show ?case
    unfolding preview_changes.simps
    apply (rule triple_bind [OF triple_conseq [where Q' = "\<lambda>_. kept_but (rp_fs E) f", OF triple_apply_change [OF assms d, where dry = True]]])
       apply (assumption, simp, simp)
    apply (rule triple_bind [OF Cons.IH [OF ds]], rule triple_ret, assumption)
    done
qed

lemma wp_refuse:
  "triple (kept_but (rp_fs E) f) m Q (kept_but (rp_fs E) f) \<Longrightarrow> kept_but (rp_fs E) f s \<Longrightarrow> wp (refusedE m) Q (pack_left E cs f) s"
  unfolding wp_refused triple_def by (auto intro: wp_conseq simp: pack_left_def)

text \<open>C21 (safety).
  An edit pack that fails leaves the files as they were: when it is refused nothing has changed,
  and when its rollback reports no failed path every file has its old content except, at most, the
  target of one of its changes. This holds in a repository without symbolic links and whichever
  calls of the operating system fail, as long as none of them claims that something is absent that
  is there.\<close>

theorem failed_pack_leaves_files:
  assumes "fs_wf s" "plain_host E" "pack_paths_ok E changes" and run: "apply_pack E P changes dry s = (Inl failure, t)"
  shows "pack_left E changes (file_at s) failure t"
proof -
  let ?f = "file_at s"
  let ?R = "pack_left E changes ?f"
  have guard: "triple (kept_but (rp_fs E) ?f) (throw_if b e) (\<lambda>_. kept_but (rp_fs E) ?f) (kept_but (rp_fs E) ?f)"
    "triple (kept_but (rp_fs E) ?f) (liftR r) (\<lambda>_. kept_but (rp_fs E) ?f) (kept_but (rp_fs E) ?f)" for b e and r :: "task_err + unit"
    by (rule triple_keeps, intro pres_intros)+
  have s: "kept_but (rp_fs E) ?f s"
    using assms(1) by (simp add: kept_but_def)
  have "wp (apply_pack E P changes dry) (\<lambda>_ _. True) ?R s"
    unfolding apply_pack_def wp_bindE
    apply (rule wp_conseq [OF wp_refuse [where cs = changes, OF guard(1) s]])
     apply (rule wp_conseq [OF wp_refuse [where cs = changes, OF guard(1)]], assumption)
      apply (rule wp_conseq [OF wp_refuse [where cs = changes, OF guard(2)]], assumption)
       apply (rule wp_conseq [OF wp_refuse [where cs = changes, OF triple_previews [OF assms(2,3) order_refl]]], assumption)
        apply (simp only: wp_if wp_bindE wp_ret if_True simp_thms split: if_split)
        apply (rule impI)
        apply (rule wp_conseq [OF wp_refuse [where cs = changes, OF triple_snapshots [OF assms(2,3)]]], assumption)
         apply (elim conjE)
         apply (simp only: wp_bindE)
         apply (rule wp_conseq [OF wp_apply_changes [OF assms(2,3)]], assumption)
             apply (auto dest: set_zip_leftD simp: pack_inv_def wp_ret)
    done
  from wp_throwD [OF this run] show ?thesis .
qed

definition pack_repo :: "nat \<Rightarrow> nat repo_env" where
  "pack_repo failing = (sample_repo failing)\<lparr>rp_realpath := (\<lambda>p s. if node_of s p \<noteq> None then Inr p
     else if p = ''/r'' then Inl (OtherErr (Some ''EIO'')) else Inl enoent)\<rparr>"

definition pack_policy :: write_policy where
  "pack_policy = policy_of (Some True) (Some [''a'', ''b'']) (Some []) None"

definition new_b :: "write_change list" where
  "new_b = [Simple_Change \<lparr>sc_type = W_write, sc_path = ''b'', sc_content = Some ''new'', sc_find = None, sc_replace = None,
       sc_expected_sha = None, sc_expected_missing = None\<rparr>]"

text \<open>The seventh call that may fail is the sync of the directory, after the file was put in its
  place: the pack reports a complete rollback, and the new file stays.\<close>

lemma failed_change_stays:
  "(case apply_pack (pack_repo 7) pack_policy new_b None one_file of (r, t) \<Rightarrow> (r, file_at t ''/r/b'')) =
   (Inl (Pack_Failed (RepoErr ''INTERNAL_ERROR'') \<lparr>rr_rolled_back = [], rr_failed = []\<rparr>), Some ''new'')"
  by code_simp

theorem failed_pack_leaves_files_witness:
  "pack_left (pack_repo 7) new_b (file_at one_file)
     (Pack_Failed (RepoErr ''INTERNAL_ERROR'') \<lparr>rr_rolled_back = [], rr_failed = []\<rparr>)
     (snd (apply_pack (pack_repo 7) pack_policy new_b None one_file))"
proof (rule failed_pack_leaves_files)
  show "fs_wf one_file"
    by (simp add: fs_wf_def one_file_def blank_fs_def)
  show "plain_host (pack_repo 7)"
    by (simp add: plain_host_def pack_repo_def sample_repo_def sample_fs_def rp_root_def)
  have "validateRepoPath ''b'' = Inr ''b''" "posix_join ''/r'' ''b'' = ''/r/b''"
    by code_simp+
  then show "pack_paths_ok (pack_repo 7) new_b"
    by (auto simp: pack_paths_ok_def new_b_def change_path_def change_target_def safeDuplicatePathKey_def pack_repo_def
        sample_repo_def sample_fs_def rp_root_def scratch_name_def Cons_eq_append_conv append_eq_Cons_conv)
  show "apply_pack (pack_repo 7) pack_policy new_b None one_file =
      (Inl (Pack_Failed (RepoErr ''INTERNAL_ERROR'') \<lparr>rr_rolled_back = [], rr_failed = []\<rparr>),
       snd (apply_pack (pack_repo 7) pack_policy new_b None one_file))"
    using failed_change_stays by (auto split: prod.splits)
qed

text \<open>The stale-state guards of a grouped edit have no influence on what is done.\<close>

lemma edit_guards_are_ignored:
  "applyChange E P (Edit_Change (e\<lparr>ec_expected_sha := x, ec_expected_missing := y\<rparr>)) dry preview
   = applyChange E P (Edit_Change e) dry preview"
  by (simp add: applyChange_def toEditInput_def)

end
