(* ===== verification/Git_Status.thy ===== *)
theory Git_Status
  imports Write_Changes
begin

text \<open>
  What Git tells of a repository (src/services/git-service.ts): the status, the diff, and the
  fingerprint of the changed paths that reviews are bound to. A command of Git is a function of the
  files, which it may change; the commands run so far are a ghost field that no code reads. Locale
  order is a parameter. The texts of warnings are left out.
\<close>

section \<open>Commands\<close>

record 'w ops_state =
  os_fs :: "'w fs_state"
  os_log :: "git_command list"

record 'w git_env =
  og_repo :: "'w repo_env"
  og_git :: "string list \<Rightarrow> 'w fs_state \<Rightarrow> process_outcome \<times> 'w fs_state"
  og_decode :: "string \<Rightarrow> string"
  og_compare :: "string \<Rightarrow> string \<Rightarrow> int"
  og_mode_size :: "fs_node \<Rightarrow> string"

type_synonym ('w, 'a) ops_eff = "(task_err, 'w ops_state, 'a) eff"

abbreviation og_fs :: "'w git_env \<Rightarrow> 'w fs_env" where
  "og_fs G \<equiv> rp_fs (og_repo G)"

abbreviation og_root :: "'w git_env \<Rightarrow> string" where
  "og_root G \<equiv> rp_root (og_repo G)"

definition fsE :: "(task_err, 'w fs_state, 'a) eff \<Rightarrow> ('w, 'a) ops_eff" where
  "fsE m = (\<lambda>s. case m (os_fs s) of (r, t) \<Rightarrow> (r, s\<lparr>os_fs := t\<rparr>))"

text \<open>A command whose output is read by \<open>reader\<close>.\<close>

definition ran_git :: "'w git_env \<Rightarrow> (process_outcome \<Rightarrow> task_err + process_result) \<Rightarrow> string list \<Rightarrow> ('w, process_result) ops_eff" where
  "ran_git G reader args = (\<lambda>s. case og_git G args (os_fs s) of (outcome, t) \<Rightarrow>
     let r = reader outcome in
     (r, \<lparr>os_fs = t, os_log = os_log s @ [\<lparr>gc_root = og_root G, gc_args = args,
            gc_answer = (case r of Inl _ \<Rightarrow> None | Inr x \<Rightarrow> Some (br_stdout x))\<rparr>]\<rparr>))"

definition STATUS_LIMIT :: int where
  "STATUS_LIMIT = 16 * 1024 * 1024"

definition SMALL_GIT_LIMIT :: int where
  "SMALL_GIT_LIMIT = 1024 * 1024"

definition gitText :: "'w git_env \<Rightarrow> string list \<Rightarrow> int \<Rightarrow> ('w, string) ops_eff" where
  "gitText G args max_bytes =
     bindE (ran_git G (runGitBounded (og_decode G) max_bytes None False) args) (\<lambda>r. ret (br_stdout r))"

text \<open>\<open>text.split(c).filter(Boolean)\<close>\<close>

definition parts_of :: "char \<Rightarrow> string \<Rightarrow> string list" where
  "parts_of c t = filter (\<lambda>x. x \<noteq> []) (split_on c t)"

definition lines_of :: "string \<Rightarrow> string list" where
  "lines_of = parts_of (CHR 0x0A)"

definition sort_locale :: "'w git_env \<Rightarrow> string list \<Rightarrow> string list" where
  "sort_locale G = sort_cmp (og_compare G)"

definition delegationControlArtifactGitExcludes :: "string list" where
  "delegationControlArtifactGitExcludes =
     concat (map (\<lambda>f. ['':(exclude,glob)'' @ AGENT_RUN_PREFIX @ ''*/'' @ f,
                       '':(exclude,glob)'' @ AGENT_RUN_PREFIX @ ''*/'' @ f @ ''.tmp-*'']) INTERNAL_RUN_FILES)
     @ ['':(exclude,glob)'' @ AGENT_RUN_PREFIX @ ''*/interactions/turn-*.reply.json'']"

section \<open>The status\<close>

record status_file =
  gf_path :: string
  gf_original :: "string option"
  gf_index :: string
  gf_worktree :: string

text \<open>The part before the first separator and, when there is one, the part up to the next.\<close>

definition split_arrow :: "string \<Rightarrow> string \<times> string option" where
  "split_arrow raw = (case index_of '' -> '' raw of
       None \<Rightarrow> (raw, None)
     | Some i \<Rightarrow> let rest = drop (i + 4) raw in
         (take i raw, Some (case index_of '' -> '' rest of None \<Rightarrow> rest | Some j \<Rightarrow> take j rest)))"

definition parseStatusLine :: "string \<Rightarrow> status_file" where
  "parseStatusLine line =
     (let index = take 1 line; worktree = take 1 (drop 1 line); raw = drop 3 line in
      if index = ''R'' \<or> index = ''C'' then
        (case split_arrow raw of (original, path) \<Rightarrow>
           \<lparr>gf_path = (case path of None \<Rightarrow> raw | Some p \<Rightarrow> p), gf_original = Some original, gf_index = index, gf_worktree = worktree\<rparr>)
      else \<lparr>gf_path = raw, gf_original = None, gf_index = index, gf_worktree = worktree\<rparr>)"

definition hidden_file :: "string \<Rightarrow> string option \<Rightarrow> bool" where
  "hidden_file p original \<longleftrightarrow> isDelegationControlArtifact p
     \<or> isDelegationControlArtifact (case original of None \<Rightarrow> [] | Some o' \<Rightarrow> o')"

definition visible_files :: "string \<Rightarrow> status_file list" where
  "visible_files porcelain = filter (\<lambda>f. \<not> hidden_file (gf_path f) (gf_original f)) (map parseStatusLine (lines_of porcelain))"

definition count_status :: "(string \<times> nat) list \<Rightarrow> status_file \<Rightarrow> (string \<times> nat) list" where
  "count_status counts f =
     (let t = trim (gf_index f @ gf_worktree f); key = (if t = [] then ''clean'' else t) in
      put_file key ((case map_of counts key of None \<Rightarrow> 0 | Some n \<Rightarrow> n) + 1) counts)"

record repo_status =
  gs_branch :: string
  gs_head :: string
  gs_clean :: bool
  gs_files :: "status_file list"
  gs_counts :: "(string \<times> nat) list"

definition status_of_repo :: "'w git_env \<Rightarrow> ('w, repo_status) ops_eff" where
  "status_of_repo G =
     bindE (gitText G [''rev-parse'', ''--abbrev-ref'', ''HEAD''] SMALL_GIT_LIMIT) (\<lambda>branch.
     bindE (gitText G [''rev-parse'', ''HEAD''] SMALL_GIT_LIMIT) (\<lambda>head.
     bindE (gitText G ([''status'', ''--porcelain=v1'', ''--untracked-files=all'', ''--'', ''.''] @ delegationControlArtifactGitExcludes) STATUS_LIMIT) (\<lambda>porcelain.
     let files = visible_files porcelain in
     ret \<lparr>gs_branch = trim branch, gs_head = trim head, gs_clean = (files = []), gs_files = files,
          gs_counts = foldl count_status [] files\<rparr>)))"

section \<open>The fingerprint of paths\<close>

datatype path_kind = File_Kind | Symlink_Kind | Missing_Kind | Other_Kind

record path_state =
  ps_path :: string
  ps_exists :: bool
  ps_kind :: path_kind
  ps_content :: string

definition kind_text :: "path_kind \<Rightarrow> string" where
  "kind_text k = (case k of File_Kind \<Rightarrow> ''file'' | Symlink_Kind \<Rightarrow> ''symlink'' | Missing_Kind \<Rightarrow> ''missing'' | Other_Kind \<Rightarrow> ''other'')"

text \<open>The kind and the content's hash of what is there; the content of a file is read again from
  its name.\<close>

definition present_state :: "'w git_env \<Rightarrow> string \<Rightarrow> ('w, path_kind \<times> string) fs_eff" where
  "present_state G absolute =
     bindE (sys_lstat (og_fs G) absolute) (\<lambda>(_, stat).
     if nd_kind stat = Symlink then
       bindE (sys_call (og_fs G) ''readlink'') (\<lambda>_. ret (Symlink_Kind, rp_sha256 (og_repo G) (nd_bytes stat)))
     else if nd_kind stat = Regular then
       bindE (sys_read (og_fs G) absolute) (\<lambda>content. ret (File_Kind, rp_sha256 (og_repo G) content))
     else ret (Other_Kind, rp_sha256 (og_repo G) (''other:'' @ og_mode_size G stat)))"

definition pathState :: "'w git_env \<Rightarrow> string \<Rightarrow> ('w, path_state) ops_eff" where
  "pathState G p =
     bindE (fsE (catchE (bindE (present_state G (posix_join (og_root G) p)) (\<lambda>x. ret (Some x)))
        (\<lambda>e. if not_found e then ret None else throw e))) (\<lambda>found.
     ret (case found of
       Some (kind, sha) \<Rightarrow> \<lparr>ps_path = p, ps_exists = True, ps_kind = kind, ps_content = sha\<rparr>
     | None \<Rightarrow> \<lparr>ps_path = p, ps_exists = False, ps_kind = Missing_Kind, ps_content = rp_sha256 (og_repo G) ''missing''\<rparr>))"

fun all_path_states :: "'w git_env \<Rightarrow> string list \<Rightarrow> ('w, path_state list) ops_eff" where
  "all_path_states G [] = ret []"
| "all_path_states G (p # ps) = bindE (pathState G p) (\<lambda>x. bindE (all_path_states G ps) (\<lambda>xs. ret (x # xs)))"

definition pathStates :: "'w git_env \<Rightarrow> string list \<Rightarrow> ('w, path_state list) ops_eff" where
  "pathStates G paths =
     bindE (liftR (mapM validateRepoPath paths)) (\<lambda>normalized. all_path_states G (sort_locale G (unique_paths normalized)))"

text \<open>\<open>JSON.stringify(state)\<close>\<close>

definition state_text :: "path_state \<Rightarrow> string" where
  "state_text x =
     ''{'' @ join_with '','' (map member_text [(''path'', quote_string (ps_path x)),
        (''exists'', if ps_exists x then ''true'' else ''false''), (''kind'', quote_string (kind_text (ps_kind x))),
        (''content_sha256'', quote_string (ps_content x))]) @ ''}''"

definition states_fingerprint :: "'w git_env \<Rightarrow> path_state list \<Rightarrow> string" where
  "states_fingerprint G states = (if states = [] then ''clean''
     else rp_sha256 (og_repo G) (concat (map (\<lambda>x. state_text x @ [CHR 0x00]) states)))"

definition contentFingerprint :: "'w git_env \<Rightarrow> string list \<Rightarrow> ('w, string) ops_eff" where
  "contentFingerprint G paths = bindE (pathStates G paths) (\<lambda>states. ret (states_fingerprint G states))"

definition touched_names :: "status_file \<Rightarrow> string list" where
  "touched_names f = filter (\<lambda>p. p \<noteq> []) ((case gf_original f of None \<Rightarrow> [] | Some p \<Rightarrow> [p]) @ [gf_path f])"

definition changedProjectPaths :: "'w git_env \<Rightarrow> bool \<Rightarrow> ('w, string list) ops_eff" where
  "changedProjectPaths G exclude_chatgpt =
     bindE (status_of_repo G) (\<lambda>status.
     ret (sort_locale G (unique_paths (filter (\<lambda>p. \<not> exclude_chatgpt \<or> \<not> prefix ''.chatgpt/'' p)
       (concat (map touched_names (gs_files status)))))))"

definition reviewStateFingerprint :: "'w git_env \<Rightarrow> string list option \<Rightarrow> ('w, string) ops_eff" where
  "reviewStateFingerprint G paths =
     bindE (case paths of Some ps \<Rightarrow> ret ps | None \<Rightarrow> changedProjectPaths G True) (contentFingerprint G)"

definition worktreeFingerprint :: "'w git_env \<Rightarrow> ('w, string) ops_eff" where
  "worktreeFingerprint G = bindE (changedProjectPaths G True) (contentFingerprint G)"

section \<open>The diff\<close>

record diff_options =
  dx_base :: "string option"
  dx_compare :: "string option"
  dx_staged :: bool
  dx_paths :: "string list option"
  dx_max_bytes :: "int option"
  dx_context_lines :: "nat option"
  dx_max_files :: "nat option"

definition diffArgs :: "diff_options \<Rightarrow> bool \<Rightarrow> string list" where
  "diffArgs d names_only =
     [''diff'', ''--find-renames'']
     @ (if names_only then [''--name-only'', ''-z'']
        else [''--unified='' @ nat_digits (case dx_context_lines d of None \<Rightarrow> 3 | Some n \<Rightarrow> n)])
     @ (if dx_staged d then [''--cached''] else [])
     @ (if truthy_text (dx_base d) then
          if truthy_text (dx_compare d) then [the (dx_base d) @ ''...'' @ the (dx_compare d)] else [the (dx_base d)]
        else [])"

definition diffPathNames :: "'w git_env \<Rightarrow> diff_options \<Rightarrow> ('w, string list) ops_eff" where
  "diffPathNames G d =
     bindE (gitText G (diffArgs d True @ [''--'', ''.''] @ delegationControlArtifactGitExcludes) STATUS_LIMIT) (\<lambda>t.
     ret (sort_locale G (unique_paths (filter (\<lambda>p. \<not> isDelegationControlArtifact p) (parts_of (CHR 0x00) t)))))"

definition renamed_names :: "string list \<Rightarrow> status_file \<Rightarrow> string list" where
  "renamed_names selected f =
     (if gf_path f \<in> set selected \<or> (\<exists>p \<in> set_option (gf_original f). p \<noteq> [] \<and> p \<in> set selected) then touched_names f else [])"

definition expandRenamePaths :: "'w git_env \<Rightarrow> string list \<Rightarrow> ('w, string list) ops_eff" where
  "expandRenamePaths G paths =
     bindE (status_of_repo G) (\<lambda>status.
     ret (sort_locale G (unique_paths (concat (map (renamed_names paths) (gs_files status)) @ unique_paths paths))))"

record diff_file =
  xf_path :: string
  xf_original :: "string option"
  xf_status :: "string option"
  xf_hunks :: "string list"

text \<open>\<open>/^diff --git a\/(.+?) b\/(.+)$/\<close>: the second group, after the first \<open>" b/"\<close> that leaves both
  groups a character.\<close>

definition diff_git_path :: "string \<Rightarrow> string option" where
  "diff_git_path line =
     (let rest = drop 13 line in
      if \<not> prefix ''diff --git a/'' line \<or> CHR 0x0D \<in> set rest then None
      else case index_from '' b/'' rest 1 of
          None \<Rightarrow> None
        | Some i \<Rightarrow> if drop (i + 3) rest = [] then None else Some (drop (i + 3) rest))"

text \<open>The file being read with the lines of its current hunk.\<close>

definition close_hunk :: "diff_file \<Rightarrow> string list \<Rightarrow> diff_file" where
  "close_hunk f hunk = (if hunk = [] then f else f\<lparr>xf_hunks := xf_hunks f @ [join_with [CHR 0x0A] hunk]\<rparr>)"

type_synonym diff_reader = "diff_file list \<times> (diff_file \<times> string list) option"

definition finish_diff :: "diff_reader \<Rightarrow> diff_file list" where
  "finish_diff r = (case r of (files, current) \<Rightarrow>
     (case current of None \<Rightarrow> files | Some (f, hunk) \<Rightarrow> files @ [close_hunk f hunk]))"

definition read_diff_line :: "diff_reader \<Rightarrow> string \<Rightarrow> diff_reader" where
  "read_diff_line r line = (case r of (files, current) \<Rightarrow>
     if prefix ''diff --git '' line then
       (finish_diff r, Some (\<lparr>xf_path = (case diff_git_path line of None \<Rightarrow> ''unknown'' | Some p \<Rightarrow> p), xf_original = None,
          xf_status = None, xf_hunks = []\<rparr>, []))
     else (case current of
         None \<Rightarrow> r
       | Some (f, hunk) \<Rightarrow> (files, Some (
           if prefix ''rename from '' line then (f\<lparr>xf_original := Some (drop 12 line), xf_status := Some ''renamed''\<rparr>, hunk)
           else if prefix ''rename to '' line then (f\<lparr>xf_path := drop 10 line, xf_status := Some ''renamed''\<rparr>, hunk)
           else if prefix ''new file mode '' line then (f\<lparr>xf_status := Some ''added''\<rparr>, hunk)
           else if prefix ''deleted file mode '' line then (f\<lparr>xf_status := Some ''deleted''\<rparr>, hunk)
           else if prefix ''@@'' line then
             (close_hunk (if xf_status f = None then f\<lparr>xf_status := Some ''modified''\<rparr> else f) hunk, [line])
           else if hunk \<noteq> [] then (f, hunk @ [line]) else (f, hunk)))))"

definition parseDiff :: "string \<Rightarrow> diff_file list" where
  "parseDiff diff = finish_diff (foldl read_diff_line ([], None) (split_on (CHR 0x0A) diff))"

datatype truncation = Not_Truncated | By_Files | By_Bytes | By_Files_And_Bytes

record diff_result =
  dr_files :: "diff_file list"
  dr_total :: nat
  dr_truncation :: truncation

definition truncation_of :: "bool \<Rightarrow> bool \<Rightarrow> truncation" where
  "truncation_of files bytes =
     (if files then if bytes then By_Files_And_Bytes else By_Files else if bytes then By_Bytes else Not_Truncated)"

definition MAX_DIFF_BYTES :: int where
  "MAX_DIFF_BYTES = 256000"

definition git_diff :: "'w git_env \<Rightarrow> diff_options \<Rightarrow> ('w, diff_result) ops_eff" where
  "git_diff G d =
     bindE (case dx_paths d of
         Some ps \<Rightarrow> liftR (map_sum id Some (mapM validateRepoPath ps))
       | None \<Rightarrow> ret None) (\<lambda>requested.
     bindE (case requested of Some ps \<Rightarrow> ret ps | None \<Rightarrow> diffPathNames G d) (\<lambda>candidates.
     let total = length candidates;
         selected = (case dx_max_files d of None \<Rightarrow> candidates | Some n \<Rightarrow> if n = 0 then candidates else take n candidates);
         cut = length selected < total in
     if selected = [] then ret \<lparr>dr_files = [], dr_total = total, dr_truncation = truncation_of cut False\<rparr>
     else bindE (if requested \<noteq> None \<or> cut then bindE (expandRenamePaths G selected) (\<lambda>ps. ret (''--'' # ps))
                 else ret ([''--'', ''.''] @ delegationControlArtifactGitExcludes)) (\<lambda>tail_args.
          let max_bytes = min (case dx_max_bytes d of None \<Rightarrow> MAX_DIFF_BYTES | Some n \<Rightarrow> n) MAX_DIFF_BYTES in
          bindE (ran_git G (runGitBounded (og_decode G) max_bytes None True) (diffArgs d False @ tail_args)) (\<lambda>result.
          ret \<lparr>dr_files = filter (\<lambda>f. \<not> hidden_file (xf_path f) (xf_original f)) (parseDiff (br_stdout result)),
               dr_total = total, dr_truncation = truncation_of cut (br_stdout_truncated result)\<rparr>))))"

end
