(* ===== verification/Git_Operations.thy ===== *)
theory Git_Operations
  imports Git_Status
begin

text \<open>
  The mutating Git tools (src/services/git-operations-service.ts) with their policy
  (src/services/operations-policy.ts), path checks (src/services/git-operation-safety.ts) and the
  cleanup of generated files (src/services/cleanup-service.ts). The review gate of delegations and
  the integration review are answered by the world. Texts of messages are left out.
\<close>

section \<open>The policy\<close>

record ops_policy =
  op_enabled :: bool
  op_stage_enabled :: bool
  op_commit_enabled :: bool
  op_finalize_enabled :: bool
  op_validation_enabled :: bool
  op_max_paths :: nat
  op_cleanup_enabled :: bool
  op_cleanup_globs :: "string list"

definition DEFAULT_OPERATIONS_POLICY :: ops_policy where
  "DEFAULT_OPERATIONS_POLICY = \<lparr>op_enabled = False, op_stage_enabled = False, op_commit_enabled = False,
     op_finalize_enabled = False, op_validation_enabled = False, op_max_paths = 50, op_cleanup_enabled = False,
     op_cleanup_globs = [''.chatgpt/tool-tests/**'', ''.chatgpt/backups/**'', ''.chatgpt/audits/**'', ''.chatgpt/backlog/**'',
       ''.chatgpt/codex-runs/**'', ''coverage/**'', ''dist/**'', ''test-results/**'']\<rparr>"

definition assertEnabled :: "ops_policy \<Rightarrow> task_err + unit" where
  "assertEnabled P = guardR (op_enabled P) (repo_error ''OPERATIONS_DISABLED'')"

definition assertPathCount :: "ops_policy \<Rightarrow> string list \<Rightarrow> task_err + unit" where
  "assertPathCount P paths =
     (if paths = [] then Inl (repo_error ''GIT_OPERATION_PATHS_REQUIRED'')
      else guardR (length paths \<le> op_max_paths P) (repo_error ''GIT_OPERATION_TOO_MANY_PATHS''))"

definition assertCodexRunFinalizeAllowed :: "ops_policy \<Rightarrow> task_err + unit" where
  "assertCodexRunFinalizeAllowed P = guardR (op_finalize_enabled P) (repo_error ''CODEX_RUN_FINALIZE_DISABLED'')"

definition assertStageAllowed :: "ops_policy \<Rightarrow> string list \<Rightarrow> task_err + unit" where
  "assertStageAllowed P paths =
     bindR (assertEnabled P) (\<lambda>_.
     bindR (guardR (op_stage_enabled P) (repo_error ''GIT_STAGE_DISABLED'')) (\<lambda>_. assertPathCount P paths))"

definition assertCommitAllowed :: "ops_policy \<Rightarrow> string list \<Rightarrow> task_err + unit" where
  "assertCommitAllowed P paths =
     bindR (assertEnabled P) (\<lambda>_.
     bindR (guardR (op_commit_enabled P) (repo_error ''GIT_COMMIT_DISABLED'')) (\<lambda>_. assertPathCount P paths))"

definition assertReviewBoundStageCommitAllowed :: "ops_policy \<Rightarrow> string list \<Rightarrow> task_err + unit" where
  "assertReviewBoundStageCommitAllowed P paths =
     bindR (assertEnabled P) (\<lambda>_.
     bindR (guardR (op_stage_enabled P) (repo_error ''GIT_STAGE_DISABLED'')) (\<lambda>_.
     bindR (guardR (op_commit_enabled P) (repo_error ''GIT_COMMIT_DISABLED'')) (\<lambda>_.
     bindR (guardR (paths \<noteq> []) (repo_error ''GIT_OPERATION_PATHS_REQUIRED'')) (\<lambda>_.
     guardR (length paths \<le> 2000) (repo_error ''GIT_OPERATION_TOO_MANY_PATHS'')))))"

definition assertRestoreAllowed :: "ops_policy \<Rightarrow> string list \<Rightarrow> task_err + unit" where
  "assertRestoreAllowed P paths = bindR (assertEnabled P) (\<lambda>_. assertPathCount P paths)"

definition assertCleanupAllowed :: "ops_policy \<Rightarrow> string list \<Rightarrow> task_err + unit" where
  "assertCleanupAllowed P paths =
     bindR (assertEnabled P) (\<lambda>_.
     bindR (guardR (op_cleanup_enabled P) (repo_error ''CLEANUP_DISABLED'')) (\<lambda>_.
     bindR (guardR (paths \<noteq> []) (repo_error ''CLEANUP_PATHS_REQUIRED'')) (\<lambda>_. assertPathCount P paths)))"

definition assertValidationAllowed :: "ops_policy \<Rightarrow> task_err + unit" where
  "assertValidationAllowed P =
     bindR (assertEnabled P) (\<lambda>_. guardR (op_validation_enabled P) (repo_error ''VALIDATION_DISABLED''))"

section \<open>The paths of an operation\<close>

definition pathspec_chars :: "char set" where
  "pathspec_chars = set ''*?[]{}''"

definition shell_chars :: "char set" where
  "shell_chars = {CHR 0x00, CHR 0x0D, CHR 0x0A} \<union> set '';&|$<>'' \<union> {CHR 0x60}"

definition has_char :: "char set \<Rightarrow> string \<Rightarrow> bool" where
  "has_char cs p \<longleftrightarrow> list_ex (\<lambda>c. c \<in> cs) p"

definition git_internal :: "string \<Rightarrow> bool" where
  "git_internal p \<longleftrightarrow> p = ''.git'' \<or> prefix ''.git/'' p"

text \<open>\<open>/(?:^|\/)\.\.(?:\/|$)/\<close>\<close>

definition has_parent_segment :: "string \<Rightarrow> bool" where
  "has_parent_segment p \<longleftrightarrow> ''..'' \<in> set (split_on (CHR ''/'') p)"

definition isAllowedEnvTemplatePath :: "string \<Rightarrow> bool" where
  "isAllowedEnvTemplatePath p \<longleftrightarrow> p \<in> set [''.env.example'', ''.env.sample'', ''.env.template'', ''example.env'']"

definition validateExplicitPath :: "string \<Rightarrow> task_err + string" where
  "validateExplicitPath p =
     bindR (validateRepoPath p) (\<lambda>n.
     if n = ''.'' \<or> n = ''*'' \<or> has_char pathspec_chars n \<or> has_parent_segment n then Inl (repo_error ''GIT_OPERATION_UNSAFE_PATHSPEC'')
     else if has_char shell_chars n \<or> prefix '':'' n \<or> prefix ''-'' n then Inl (repo_error ''GIT_OPERATION_UNSAFE_PATHSPEC'')
     else if git_internal n then Inl (repo_error ''GIT_OPERATION_UNSAFE_PATHSPEC'')
     else if isHardSecretPath n \<and> \<not> isAllowedEnvTemplatePath n then Inl (repo_error ''SECRET_CANDIDATE_BLOCKED'')
     else Inr n)"

text \<open>The directories a path is in, from the nearest; the length of the path is enough fuel.\<close>

fun parent_chain :: "nat \<Rightarrow> string \<Rightarrow> string list" where
  "parent_chain 0 p = []"
| "parent_chain (Suc n) p = (if p = ''.'' then [] else p # parent_chain n (posix_dirname p))"

fun nearest_parent_within :: "'w repo_env \<Rightarrow> string list \<Rightarrow> ('w, unit) fs_eff" where
  "nearest_parent_within E [] = assertWithinRoot E (rp_root E)"
| "nearest_parent_within E (p # ps) =
     catchE (assertWithinRoot E (posix_join (rp_root E) p))
       (\<lambda>e. if not_found e then nearest_parent_within E ps else throw e)"

definition assertExistingParentWithinRoot :: "'w repo_env \<Rightarrow> string \<Rightarrow> ('w, unit) fs_eff" where
  "assertExistingParentWithinRoot E p = nearest_parent_within E (parent_chain (length p) (posix_dirname p))"

definition operation_path_within :: "'w repo_env \<Rightarrow> string \<Rightarrow> ('w, unit) fs_eff" where
  "operation_path_within E p =
     (let absolute = posix_join (rp_root E) p in
      bindE (catchE
        (bindE (sys_lstat (rp_fs E) absolute) (\<lambda>(_, stat).
         bindE (throw_if (nd_kind stat = Unsupported) (repo_error ''UNSUPPORTED_FILE_TYPE'')) (\<lambda>_.
         bindE (assertWithinRoot E absolute) (\<lambda>_. ret True))))
        (\<lambda>e. if not_found e then ret False else throw e)) (\<lambda>present.
      if present then ret () else assertExistingParentWithinRoot E p))"

definition assertSafeEnvTemplateContent :: "'w git_env \<Rightarrow> string \<Rightarrow> ('w, unit) fs_eff" where
  "assertSafeEnvTemplateContent G p =
     (if \<not> isAllowedEnvTemplatePath p then ret ()
      else bindE (sys_read (og_fs G) (posix_join (og_root G) p)) (\<lambda>content.
           throw_if (hasSecretValue (og_repo G) (og_decode G content)) (repo_error ''SECRET_CANDIDATE_BLOCKED'')))"

definition check_explicit_path :: "'w git_env \<Rightarrow> bool \<Rightarrow> string \<Rightarrow> ('w, unit) ops_eff" where
  "check_explicit_path G scan p =
     bindE (fsE (operation_path_within (og_repo G) p)) (\<lambda>_.
     if scan then fsE (assertSafeEnvTemplateContent G p) else ret ())"

definition validateExplicitPaths :: "'w git_env \<Rightarrow> bool \<Rightarrow> string list \<Rightarrow> ('w, string list) ops_eff" where
  "validateExplicitPaths G scan paths =
     bindE (liftR (mapM validateExplicitPath paths)) (\<lambda>normalized.
     bindE (for_each normalized (check_explicit_path G scan)) (\<lambda>_. ret normalized))"

definition samePathSet :: "string list \<Rightarrow> string list \<Rightarrow> bool" where
  "samePathSet actual expected \<longleftrightarrow> sort actual = sort expected"

definition validateCommitMessage :: "string \<Rightarrow> task_err + unit" where
  "validateCommitMessage m =
     guardR (trim m \<noteq> [] \<and> \<not> has_char {CHR 0x00, CHR 0x0D, CHR 0x0A} m
       \<and> \<not> contains ''&&'' m \<and> \<not> contains ''||'' m \<and> \<not> contains ''$('' m \<and> \<not> has_char {CHR '';'', CHR 0x60, CHR ''<'', CHR ''>''} m)
       (repo_error ''GIT_COMMIT_MESSAGE_INVALID'')"

section \<open>Cleanup\<close>

record cleanup_target =
  ct_path :: string
  ct_absolute :: string
  ct_directory :: bool

text \<open>\<open>execFile\<close>: a process that fails, or prints more than the buffer holds, is an error.\<close>

definition execFile_result :: "(string \<Rightarrow> string) \<Rightarrow> int \<Rightarrow> process_outcome \<Rightarrow> task_err + process_result" where
  "execFile_result decode max_buffer outcome = (case outcome of
       Spawn_Error _ \<Rightarrow> Inl (OtherErr None)
     | Closed stdout stderr code \<Rightarrow>
         if code \<noteq> Some 0 \<or> max_buffer < int (length (concat stdout)) \<or> max_buffer < int (length (concat stderr)) then Inl (OtherErr None)
         else Inr \<lparr>br_stdout = decode (concat stdout), br_stderr = decode (concat stderr), br_exit_code = 0,
                   br_stdout_truncated = False, br_stderr_truncated = False\<rparr>)"

definition LIST_BUFFER :: int where
  "LIST_BUFFER = 128 * 1024"

definition trackedPathsUnder :: "'w git_env \<Rightarrow> string \<Rightarrow> ('w, string list) ops_eff" where
  "trackedPathsUnder G p =
     catchE (bindE (ran_git G (execFile_result (og_decode G) LIST_BUFFER) [''ls-files'', ''--'', p]) (\<lambda>r. ret (lines_of (br_stdout r))))
       (\<lambda>_. ret [])"

definition assertUntracked :: "'w git_env \<Rightarrow> string \<Rightarrow> ('w, unit) ops_eff" where
  "assertUntracked G p =
     bindE (trackedPathsUnder G p) (\<lambda>tracked. throw_if (tracked \<noteq> []) (repo_error ''CLEANUP_TRACKED_PATH''))"

definition validateCleanupPath :: "'w repo_env \<Rightarrow> ops_policy \<Rightarrow> string \<Rightarrow> task_err + string" where
  "validateCleanupPath E P p =
     bindR (validateRepoPath p) (\<lambda>r.
     if r = ''.'' \<or> r = ''*'' \<or> has_char pathspec_chars r \<or> has_char shell_chars r \<or> prefix '':'' r \<or> prefix ''-'' r
       then Inl (repo_error ''CLEANUP_UNSAFE_PATH'')
     else if git_internal r then Inl (repo_error ''CLEANUP_UNSAFE_PATH'')
     else if isSensitiveCandidate r then Inl (repo_error ''SECRET_CANDIDATE_BLOCKED'')
     else bindR (rp_matches E (op_cleanup_globs P) r) (\<lambda>whole.
       if whole then Inr r
       else bindR (rp_matches E (op_cleanup_globs P) (r @ ''/placeholder'')) (\<lambda>inside.
         if inside then Inr r else Inl (repo_error ''CLEANUP_NOT_ALLOWED_GLOB''))))"

text \<open>A child is a longer name than its directory, so the length of the longest name is enough fuel.\<close>

primrec assertDirectorySafe :: "'w repo_env \<Rightarrow> nat \<Rightarrow> string \<Rightarrow> ('w, unit) fs_eff" where
  "assertDirectorySafe E 0 p = ret ()"
| "assertDirectorySafe E (Suc fuel) p =
     bindE (sys_call (rp_fs E) ''readdir'') (\<lambda>_.
     bindE (getE (entries_of p)) (\<lambda>entries.
     for_each entries (\<lambda>entry.
       let child = posix_join p (fst entry) in
       bindE (sys_lstat (rp_fs E) child) (\<lambda>(_, stat).
       bindE (throw_if (nd_kind stat = Unsupported) (repo_error ''UNSUPPORTED_FILE_TYPE'')) (\<lambda>_.
       bindE (assertWithinRoot E child) (\<lambda>_.
       if nd_kind stat = Directory then assertDirectorySafe E fuel child else ret ()))))))"

definition longest_name :: "'w fs_state \<Rightarrow> nat" where
  "longest_name s = foldr (\<lambda>n k. max (length (fst n)) k) (fs_names s) 0"

definition directory_safe :: "'w repo_env \<Rightarrow> string \<Rightarrow> ('w, unit) fs_eff" where
  "directory_safe E p = bindE (getE longest_name) (\<lambda>fuel. assertDirectorySafe E fuel p)"

definition resolve_cleanup :: "'w git_env \<Rightarrow> ops_policy \<Rightarrow> string \<Rightarrow> ('w, cleanup_target option) ops_eff" where
  "resolve_cleanup G P path =
     bindE (liftR (validateCleanupPath (og_repo G) P path)) (\<lambda>r.
     let absolute = posix_join (og_root G) r in
     bindE (fsE (catchE (bindE (sys_lstat (og_fs G) absolute) (\<lambda>(_, stat). ret (Some stat)))
        (\<lambda>e. if not_found e then ret None else throw e))) (\<lambda>found.
     case found of
       None \<Rightarrow> ret None
     | Some stat \<Rightarrow>
         bindE (throw_if (nd_kind stat = Unsupported) (repo_error ''UNSUPPORTED_FILE_TYPE'')) (\<lambda>_.
         bindE (fsE (assertWithinRoot (og_repo G) absolute)) (\<lambda>_.
         bindE (assertUntracked G r) (\<lambda>_.
         if nd_kind stat = Directory then
           bindE (fsE (directory_safe (og_repo G) absolute)) (\<lambda>_.
           ret (Some \<lparr>ct_path = r, ct_absolute = absolute, ct_directory = True\<rparr>))
         else ret (Some \<lparr>ct_path = r, ct_absolute = absolute, ct_directory = False\<rparr>))))))"

fun resolve_cleanups :: "'w git_env \<Rightarrow> ops_policy \<Rightarrow> string list \<Rightarrow> ('w, cleanup_target option list) ops_eff" where
  "resolve_cleanups G P [] = ret []"
| "resolve_cleanups G P (p # ps) = bindE (resolve_cleanup G P p) (\<lambda>x. bindE (resolve_cleanups G P ps) (\<lambda>xs. ret (x # xs)))"

text \<open>\<open>rm(path, { recursive })\<close>\<close>

definition sys_rm :: "'w fs_env \<Rightarrow> bool \<Rightarrow> string \<Rightarrow> ('w, unit) fs_eff" where
  "sys_rm F recursive p =
     bindE (sys_call F ''rm'') (\<lambda>_.
     bindE (getE (\<lambda>s. map_option (\<lambda>i. nd_kind (fs_nodes s i)) (node_of s p))) (\<lambda>kind.
     case kind of
       None \<Rightarrow> throw enoent
     | Some k \<Rightarrow> if recursive then modifyE (remove_tree p)
         else if k = Directory then throw (OtherErr (Some ''ERR_FS_EISDIR'')) else modifyE (drop_name p)))"

record deleted_path =
  dp_path :: string
  dp_directory :: bool

record cleanup_result =
  cr_dry_run :: bool
  cr_deleted :: "deleted_path list"
  cr_skipped :: "string list"

definition targets_of :: "cleanup_target option list \<Rightarrow> cleanup_target list" where
  "targets_of ts = concat (map (\<lambda>t. case t of None \<Rightarrow> [] | Some x \<Rightarrow> [x]) ts)"

definition cleanup :: "'w git_env \<Rightarrow> ops_policy \<Rightarrow> string list \<Rightarrow> bool option \<Rightarrow> ('w, cleanup_result) ops_eff" where
  "cleanup G P paths dry_run =
     bindE (liftR (assertCleanupAllowed P paths)) (\<lambda>_.
     bindE (resolve_cleanups G P paths) (\<lambda>targets.
     bindE (if dry_run = Some True then ret ()
            else for_each (targets_of targets) (\<lambda>t. fsE (sys_rm (og_fs G) (ct_directory t) (ct_absolute t)))) (\<lambda>_.
     ret \<lparr>cr_dry_run = (dry_run = Some True),
          cr_deleted = map (\<lambda>t. \<lparr>dp_path = ct_path t, dp_directory = ct_directory t\<rparr>) (targets_of targets),
          cr_skipped = map snd (filter (\<lambda>x. fst x = None) (zip targets paths))\<rparr>)))"

end
