(* ===== verification/Git_Mutations.thy ===== *)
theory Git_Mutations
  imports Git_Operations
begin

text \<open>
  The operations of src/services/git-operations-service.ts: stage, unstage, restore, commit,
  stage and commit in one, and recovery. The review gate of delegations and the integration review
  look at the files and answer; the fingerprint they are given is computed first.
\<close>

section \<open>The service\<close>

datatype gated_operation = Stage_Op | Commit_Op | Stage_Commit_Op

record review_request =
  gr_repo_id :: string
  gr_paths :: "string list"
  gr_operation :: gated_operation
  gr_head :: string
  gr_fingerprint :: string

record integration_review =
  ir_id :: string
  ir_paths :: "string list"
  ir_message :: string

record 'w mutations_env =
  gm_git :: "'w git_env"
  gm_policy :: ops_policy
  gm_gate :: "review_request \<Rightarrow> 'w fs_state \<Rightarrow> (task_err + string list) \<times> 'w"
  gm_integration :: "string \<Rightarrow> string \<Rightarrow> string \<Rightarrow> 'w fs_state \<Rightarrow> (task_err + integration_review) \<times> 'w"

definition lookE :: "('w fs_state \<Rightarrow> (task_err + 'a) \<times> 'w) \<Rightarrow> ('w, 'a) ops_eff" where
  "lookE f = fsE (\<lambda>s. case f s of (r, w) \<Rightarrow> (r, s\<lparr>fs_world := w\<rparr>))"

definition ops_git :: "'w git_env \<Rightarrow> string list \<Rightarrow> ('w, string) ops_eff" where
  "ops_git G args =
     bindE (ran_git G (runGitBounded (og_decode G) (16 * 1024 * 1024) (Some (256 * 1024)) False) args) (\<lambda>r. ret (br_stdout r))"

definition headSha :: "'w git_env \<Rightarrow> ('w, string) ops_eff" where
  "headSha G = bindE (ops_git G [''rev-parse'', ''HEAD'']) (\<lambda>t. ret (trim t))"

definition assertExpectedHead :: "'w git_env \<Rightarrow> string \<Rightarrow> ('w, string) ops_eff" where
  "assertExpectedHead G expected =
     bindE (headSha G) (\<lambda>head. bindE (throw_if (head \<noteq> expected) (repo_error ''GIT_HEAD_MISMATCH'')) (\<lambda>_. ret head))"

definition stagedPaths :: "'w git_env \<Rightarrow> ('w, string list) ops_eff" where
  "stagedPaths G = bindE (ops_git G [''diff'', ''--name-only'', ''--cached'']) (\<lambda>t. ret (sort (lines_of t)))"

definition statusSummary :: "'w git_env \<Rightarrow> ('w, nat) ops_eff" where
  "statusSummary G = bindE (ops_git G [''status'', ''--porcelain=v1'', ''--untracked-files=all'']) (\<lambda>t. ret (length (lines_of t)))"

definition ask_gate :: "'w mutations_env \<Rightarrow> string option \<Rightarrow> string list \<Rightarrow> gated_operation \<Rightarrow> string \<Rightarrow> ('w, string list) ops_eff" where
  "ask_gate M repo_id paths operation head =
     bindE (reviewStateFingerprint (gm_git M) None) (\<lambda>fingerprint.
     lookE (gm_gate M \<lparr>gr_repo_id = (case repo_id of None \<Rightarrow> ''unknown'' | Some r \<Rightarrow> r), gr_paths = paths,
       gr_operation = operation, gr_head = head, gr_fingerprint = fingerprint\<rparr>))"

definition git_add :: "'w git_env \<Rightarrow> string list \<Rightarrow> ('w, unit) ops_eff" where
  "git_add G paths = bindE (ops_git G ([''add'', ''--''] @ paths)) (\<lambda>_. ret ())"

definition git_restore :: "'w git_env \<Rightarrow> string list \<Rightarrow> ('w, unit) ops_eff" where
  "git_restore G paths = bindE (ops_git G ([''restore'', ''--''] @ paths)) (\<lambda>_. ret ())"

definition git_unstage :: "'w git_env \<Rightarrow> string list \<Rightarrow> ('w, unit) ops_eff" where
  "git_unstage G paths = bindE (ops_git G ([''restore'', ''--staged'', ''--''] @ paths)) (\<lambda>_. ret ())"

definition git_commit :: "'w git_env \<Rightarrow> string \<Rightarrow> ('w, unit) ops_eff" where
  "git_commit G message = bindE (ops_git G [''commit'', ''-m'', message]) (\<lambda>_. ret ())"

definition unless_dry :: "bool option \<Rightarrow> ('w, unit) ops_eff \<Rightarrow> ('w, unit) ops_eff" where
  "unless_dry dry_run m = (if dry_run = Some True then ret () else m)"

definition validateReviewBoundPaths :: "'w mutations_env \<Rightarrow> string list \<Rightarrow> ('w, string list) ops_eff" where
  "validateReviewBoundPaths M paths =
     bindE (liftR (assertReviewBoundStageCommitAllowed (gm_policy M) paths)) (\<lambda>_. validateExplicitPaths (gm_git M) True paths)"

section \<open>Stage, unstage and restore\<close>

record paths_input =
  pi_repo_id :: "string option"
  pi_paths :: "string list"
  pi_expected_head :: string
  pi_dry_run :: "bool option"

record paths_result =
  pq_dry_run :: bool
  pq_head :: string
  pq_paths :: "string list"
  pq_warnings :: "string list"

definition git_stage :: "'w mutations_env \<Rightarrow> paths_input \<Rightarrow> ('w, paths_result) ops_eff" where
  "git_stage M i =
     bindE (liftR (assertStageAllowed (gm_policy M) (pi_paths i))) (\<lambda>_.
     bindE (assertExpectedHead (gm_git M) (pi_expected_head i)) (\<lambda>head.
     bindE (validateExplicitPaths (gm_git M) True (pi_paths i)) (\<lambda>paths.
     bindE (ask_gate M (pi_repo_id i) paths Stage_Op head) (\<lambda>warnings.
     bindE (unless_dry (pi_dry_run i) (git_add (gm_git M) paths)) (\<lambda>_.
     ret \<lparr>pq_dry_run = (pi_dry_run i = Some True), pq_head = head, pq_paths = paths, pq_warnings = warnings\<rparr>)))))"

definition git_unstage_paths :: "'w mutations_env \<Rightarrow> paths_input \<Rightarrow> ('w, paths_result) ops_eff" where
  "git_unstage_paths M i =
     bindE (liftR (assertStageAllowed (gm_policy M) (pi_paths i))) (\<lambda>_.
     bindE (assertExpectedHead (gm_git M) (pi_expected_head i)) (\<lambda>head.
     bindE (validateExplicitPaths (gm_git M) True (pi_paths i)) (\<lambda>paths.
     bindE (unless_dry (pi_dry_run i) (git_unstage (gm_git M) paths)) (\<lambda>_.
     ret \<lparr>pq_dry_run = (pi_dry_run i = Some True), pq_head = head, pq_paths = paths, pq_warnings = []\<rparr>))))"

definition restorePaths :: "'w mutations_env \<Rightarrow> paths_input \<Rightarrow> ('w, paths_result) ops_eff" where
  "restorePaths M i =
     bindE (liftR (assertRestoreAllowed (gm_policy M) (pi_paths i))) (\<lambda>_.
     bindE (assertExpectedHead (gm_git M) (pi_expected_head i)) (\<lambda>head.
     bindE (validateExplicitPaths (gm_git M) False (pi_paths i)) (\<lambda>paths.
     bindE (unless_dry (pi_dry_run i) (git_restore (gm_git M) paths)) (\<lambda>_.
     ret \<lparr>pq_dry_run = (pi_dry_run i = Some True), pq_head = head, pq_paths = paths, pq_warnings = []\<rparr>))))"

section \<open>Commit\<close>

record commit_input =
  ci_repo_id :: "string option"
  ci_message :: string
  ci_expected_head :: string
  ci_expected_staged :: "string list"
  ci_dry_run :: "bool option"

record commit_result =
  cm_dry_run :: bool
  cm_head_before :: string
  cm_head_after :: "string option"
  cm_staged_paths :: "string list"
  cm_committed_paths :: "string list"
  cm_remaining :: "nat option"
  cm_review_id :: "string option"
  cm_warnings :: "string list"

definition commit_preview :: "string \<Rightarrow> string list \<Rightarrow> string list \<Rightarrow> string list \<Rightarrow> commit_result" where
  "commit_preview head staged committed warnings =
     \<lparr>cm_dry_run = True, cm_head_before = head, cm_head_after = None, cm_staged_paths = staged,
      cm_committed_paths = committed, cm_remaining = None, cm_review_id = None, cm_warnings = warnings\<rparr>"

definition git_commit_staged :: "'w mutations_env \<Rightarrow> commit_input \<Rightarrow> ('w, commit_result) ops_eff" where
  "git_commit_staged M i =
     bindE (liftR (assertCommitAllowed (gm_policy M) (ci_expected_staged i))) (\<lambda>_.
     bindE (assertExpectedHead (gm_git M) (ci_expected_head i)) (\<lambda>head.
     bindE (liftR (validateCommitMessage (ci_message i))) (\<lambda>_.
     bindE (validateExplicitPaths (gm_git M) True (ci_expected_staged i)) (\<lambda>expected.
     bindE (stagedPaths (gm_git M)) (\<lambda>actual.
     bindE (throw_if (actual = []) (repo_error ''GIT_NOTHING_STAGED'')) (\<lambda>_.
     bindE (validateExplicitPaths (gm_git M) True actual) (\<lambda>_.
     bindE (throw_if (\<not> samePathSet actual expected) (repo_error ''GIT_STAGED_PATHS_MISMATCH'')) (\<lambda>_.
     bindE (ask_gate M (ci_repo_id i) actual Commit_Op head) (\<lambda>warnings.
     if ci_dry_run i = Some True then ret (commit_preview head [] actual warnings)
     else bindE (git_commit (gm_git M) (ci_message i)) (\<lambda>_.
          bindE (headSha (gm_git M)) (\<lambda>after.
          ret \<lparr>cm_dry_run = False, cm_head_before = head, cm_head_after = Some after, cm_staged_paths = [],
               cm_committed_paths = actual, cm_remaining = None, cm_review_id = None, cm_warnings = warnings\<rparr>)))))))))))"

record stage_commit_input =
  sx_repo_id :: "string option"
  sx_paths :: "string list option"
  sx_review_id :: "string option"
  sx_message :: string
  sx_expected_head :: string
  sx_dry_run :: "bool option"

definition resolve_integration :: "'w mutations_env \<Rightarrow> string option \<Rightarrow> string \<Rightarrow> string \<Rightarrow> ('w, integration_review) ops_eff" where
  "resolve_integration M repo_id review_id head =
     lookE (gm_integration M (case repo_id of None \<Rightarrow> ''unknown'' | Some r \<Rightarrow> r) review_id head)"

text \<open>Unstage what this request staged; whether that succeeds does not matter.\<close>

definition undo_staging :: "'w git_env \<Rightarrow> string list \<Rightarrow> string list \<Rightarrow> ('w, unit) ops_eff" where
  "undo_staging G before actual = (if before = [] then catchE (git_unstage G actual) (\<lambda>_. ret ()) else ret ())"

definition bound_review :: "'w mutations_env \<Rightarrow> stage_commit_input \<Rightarrow> string \<Rightarrow> ('w, integration_review option) ops_eff" where
  "bound_review M i head =
     (if truthy_text (sx_review_id i) then bindE (resolve_integration M (sx_repo_id i) (the (sx_review_id i)) head) (\<lambda>x. ret (Some x))
      else ret None)"

definition requested_paths :: "'w mutations_env \<Rightarrow> stage_commit_input \<Rightarrow> integration_review option \<Rightarrow> ('w, string list) ops_eff" where
  "requested_paths M i integration = (case integration of
       Some x \<Rightarrow> bindE (liftR (assertReviewBoundStageCommitAllowed (gm_policy M) (ir_paths x))) (\<lambda>_. ret (ir_paths x))
     | None \<Rightarrow> let paths = (case sx_paths i of None \<Rightarrow> [] | Some ps \<Rightarrow> ps) in
         bindE (liftR (assertStageAllowed (gm_policy M) paths)) (\<lambda>_.
         bindE (liftR (assertCommitAllowed (gm_policy M) paths)) (\<lambda>_. ret paths)))"

definition staged_and_checked :: "'w mutations_env \<Rightarrow> stage_commit_input \<Rightarrow> integration_review option \<Rightarrow> string \<Rightarrow> string list \<Rightarrow> string list
   \<Rightarrow> ('w, string list \<times> string list) ops_eff" where
  "staged_and_checked M i integration head paths before =
     bindE (git_add (gm_git M) paths) (\<lambda>_.
     bindE (case integration of None \<Rightarrow> ret ()
            | Some x \<Rightarrow> bindE (resolve_integration M (sx_repo_id i) (ir_id x) head) (\<lambda>_. ret ())) (\<lambda>_.
     bindE (stagedPaths (gm_git M)) (\<lambda>actual.
     bindE (validateExplicitPaths (gm_git M) True actual) (\<lambda>_.
     bindE (throw_if (actual = []) (repo_error ''GIT_NOTHING_STAGED'')) (\<lambda>_.
     bindE (if samePathSet actual paths then ret ()
            else bindE (undo_staging (gm_git M) before actual) (\<lambda>_. throw (repo_error ''GIT_STAGED_PATHS_MISMATCH''))) (\<lambda>_.
     bindE (catchE (ask_gate M (sx_repo_id i) actual Stage_Commit_Op head)
        (\<lambda>e. bindE (undo_staging (gm_git M) before actual) (\<lambda>_. throw e))) (\<lambda>warnings.
     ret (actual, warnings))))))))"

definition stageCommit :: "'w mutations_env \<Rightarrow> stage_commit_input \<Rightarrow> ('w, commit_result) ops_eff" where
  "stageCommit M i =
     bindE (assertExpectedHead (gm_git M) (sx_expected_head i)) (\<lambda>head.
     bindE (liftR (validateCommitMessage (sx_message i))) (\<lambda>_.
     bindE (bound_review M i head) (\<lambda>integration.
     bindE (throw_if (\<exists>x \<in> set_option integration. ir_message x \<noteq> sx_message i) (repo_error ''DELEGATION_REVIEW_GATE_BLOCKED'')) (\<lambda>_.
     bindE (requested_paths M i integration) (\<lambda>requested.
     bindE (validateExplicitPaths (gm_git M) True requested) (\<lambda>paths.
     bindE (stagedPaths (gm_git M)) (\<lambda>before.
     bindE (throw_if (before \<noteq> [] \<and> \<not> samePathSet before paths) (repo_error ''GIT_STAGED_PATHS_MISMATCH'')) (\<lambda>_.
     bindE (ask_gate M (sx_repo_id i) paths Stage_Commit_Op head) (\<lambda>warnings.
     if sx_dry_run i = Some True then ret (commit_preview head paths paths warnings)
     else bindE (staged_and_checked M i integration head paths before) (\<lambda>(actual, more).
          bindE (git_commit (gm_git M) (sx_message i)) (\<lambda>_.
          bindE (headSha (gm_git M)) (\<lambda>after.
          bindE (statusSummary (gm_git M)) (\<lambda>remaining.
          ret \<lparr>cm_dry_run = False, cm_head_before = head, cm_head_after = Some after, cm_staged_paths = paths,
               cm_committed_paths = actual, cm_remaining = Some remaining, cm_review_id = map_option ir_id integration,
               cm_warnings = unique_paths (warnings @ more)\<rparr>)))))))))))))"

section \<open>Recovery\<close>

definition assertNoDuplicateDeletionPaths :: "deleted_path list \<Rightarrow> string list \<Rightarrow> task_err + unit" where
  "assertNoDuplicateDeletionPaths cleanup_preview discard_preview =
     guardR (\<not> list_ex (\<lambda>p. p \<in> set (map dp_path cleanup_preview)) discard_preview) (repo_error ''GIT_OPERATION_UNSAFE_PATHSPEC'')"

text \<open>\<open>/(^|\/)(node_modules|dist|coverage|test-results|\.cache|\.next)(\/|$)/\<close>\<close>

definition isGeneratedOrDependencyPath :: "string \<Rightarrow> bool" where
  "isGeneratedOrDependencyPath p \<longleftrightarrow>
     list_ex (\<lambda>s. s \<in> set [''node_modules'', ''dist'', ''coverage'', ''test-results'', ''.cache'', ''.next'']) (split_on (CHR ''/'') p)"

definition check_discard :: "'w git_env \<Rightarrow> string \<Rightarrow> ('w, unit) ops_eff" where
  "check_discard G p =
     bindE (throw_if (isGeneratedOrDependencyPath p) (repo_error ''DISCARD_PATH_NOT_ALLOWED'')) (\<lambda>_.
     bindE (ops_git G [''ls-files'', ''--'', p]) (\<lambda>tracked.
     bindE (throw_if (trim tracked \<noteq> []) (repo_error ''DISCARD_TRACKED_PATH_REJECTED'')) (\<lambda>_.
     bindE (fsE (sys_lstat (og_fs G) (posix_join (og_root G) p))) (\<lambda>(_, stat).
     bindE (throw_if (nd_kind stat = Symlink) (repo_error ''DISCARD_UNSUPPORTED_FILE_TYPE'')) (\<lambda>_.
     throw_if (nd_kind stat \<noteq> Regular) (repo_error ''DISCARD_UNSUPPORTED_FILE_TYPE''))))))"

definition validateDiscardPaths :: "'w mutations_env \<Rightarrow> string list \<Rightarrow> ('w, string list) ops_eff" where
  "validateDiscardPaths M paths =
     bindE (liftR (assertRestoreAllowed (gm_policy M) paths)) (\<lambda>_.
     bindE (validateExplicitPaths (gm_git M) False paths) (\<lambda>normalized.
     bindE (for_each normalized (check_discard (gm_git M))) (\<lambda>_. ret normalized)))"

record recover_input =
  rc_expected_head :: string
  rc_unstage :: "string list"
  rc_restore :: "string list"
  rc_cleanup :: "string list"
  rc_discard :: "string list"
  rc_dry_run :: "bool option"

record recover_result =
  rq_dry_run :: bool
  rq_head :: string
  rq_unstaged :: "string list"
  rq_restored :: "string list"
  rq_deleted :: "deleted_path list"
  rq_discarded :: "string list"
  rq_skipped :: "string list"
  rq_remaining :: nat

definition nonempty_paths :: "string list \<Rightarrow> ('w, string list) ops_eff \<Rightarrow> ('w, string list) ops_eff" where
  "nonempty_paths ps m = (if ps = [] then ret [] else m)"

definition recover_phases :: "'w mutations_env \<Rightarrow> recover_input \<Rightarrow> string list \<Rightarrow> string list \<Rightarrow> string list \<Rightarrow> ('w, unit) ops_eff" where
  "recover_phases M i unstage restore discard =
     bindE (if unstage = [] then ret () else git_unstage (gm_git M) unstage) (\<lambda>_.
     bindE (if restore = [] then ret () else git_restore (gm_git M) restore) (\<lambda>_.
     bindE (if rc_cleanup i = [] then ret ()
            else bindE (cleanup (gm_git M) (gm_policy M) (rc_cleanup i) None) (\<lambda>_. ret ())) (\<lambda>_.
     for_each discard (\<lambda>p. fsE (sys_rm (og_fs (gm_git M)) False (posix_join (og_root (gm_git M)) p))))))"

definition recover :: "'w mutations_env \<Rightarrow> recover_input \<Rightarrow> ('w, recover_result) ops_eff" where
  "recover M i =
     bindE (throw_if (rc_unstage i = [] \<and> rc_restore i = [] \<and> rc_cleanup i = [] \<and> rc_discard i = [])
        (repo_error ''GIT_OPERATION_PATHS_REQUIRED'')) (\<lambda>_.
     bindE (assertExpectedHead (gm_git M) (rc_expected_head i)) (\<lambda>head.
     bindE (liftR (if rc_unstage i = [] then Inr () else assertStageAllowed (gm_policy M) (rc_unstage i))) (\<lambda>_.
     bindE (liftR (if rc_restore i = [] then Inr () else assertRestoreAllowed (gm_policy M) (rc_restore i))) (\<lambda>_.
     bindE (nonempty_paths (rc_unstage i) (validateExplicitPaths (gm_git M) True (rc_unstage i))) (\<lambda>unstage.
     bindE (nonempty_paths (rc_restore i) (validateExplicitPaths (gm_git M) False (rc_restore i))) (\<lambda>restore.
     bindE (nonempty_paths (rc_discard i) (validateDiscardPaths M (rc_discard i))) (\<lambda>discard.
     bindE (if rc_cleanup i = [] then ret \<lparr>cr_dry_run = True, cr_deleted = [], cr_skipped = []\<rparr>
            else cleanup (gm_git M) (gm_policy M) (rc_cleanup i) (Some True)) (\<lambda>preview.
     bindE (liftR (assertNoDuplicateDeletionPaths (cr_deleted preview) discard)) (\<lambda>_.
     bindE (unless_dry (rc_dry_run i) (recover_phases M i unstage restore discard)) (\<lambda>_.
     bindE (statusSummary (gm_git M)) (\<lambda>remaining.
     ret \<lparr>rq_dry_run = (rc_dry_run i = Some True), rq_head = head, rq_unstaged = unstage, rq_restored = restore,
          rq_deleted = cr_deleted preview, rq_discarded = discard, rq_skipped = cr_skipped preview,
          rq_remaining = remaining\<rparr>)))))))))))"

end
