(* ===== verification/Operation_Receipts.thy ===== *)
theory Operation_Receipts
  imports Git_Mutations
begin

text \<open>
  Receipts of writes and the append-only ledger of operations
  (src/services/operation-receipt-service.ts, src/services/operation-ledger-service.ts with their
  contracts). The texts of the two files are the environment's: printing a receipt or an entry,
  and parsing a text and checking its types. Which texts hold secrets or host paths is a parameter.
\<close>

section \<open>Receipts\<close>

datatype write_tool = Tool_Write_File | Tool_Write_Changes | Tool_Apply_Patchset | Tool_Rollback_Patchset

datatype file_action = Edited result_action | Deleted_File | Renamed_File

record receipt_file =
  rf_path :: string
  rf_new_path :: "string option"
  rf_action :: "file_action option"
  rf_changed :: bool
  rf_created :: bool
  rf_old_sha256 :: "string option"
  rf_new_sha256 :: "string option"

datatype rollback_strategy = Restore_Tracked | Cleanup_Created | Manual_Review

record path_hint =
  ph_path :: string
  ph_strategy :: rollback_strategy
  ph_reason :: string

record rollback_hint =
  rh_executable :: bool
  rh_reason :: string
  rh_paths :: "path_hint list"

record receipt_counts =
  rn_requested :: nat
  rn_changed :: nat
  rn_created :: nat
  rn_unchanged :: nat

record receipt_input =
  ri_tool :: write_tool
  ri_repo_id :: string
  ri_head_before :: "string option"
  ri_head_after :: "string option"
  ri_touched :: "string list"
  ri_changed :: "string list"
  ri_created :: "string list"
  ri_modified :: "string list"
  ri_counts :: receipt_counts
  ri_summary :: string
  ri_files :: "receipt_file list option"
  ri_hint :: "rollback_hint option"
  ri_patchset_id :: "string option"
  ri_commit_sha :: "string option"
  ri_validation_ids :: "string list option"

record operation_receipt =
  or_operation_id :: string
  or_timestamp :: string
  or_body :: receipt_input

datatype ledger_event = Write_Applied | Patchset_Rolled_Back

record ledger_entry =
  le_entry_id :: string
  le_event :: ledger_event
  le_receipt :: operation_receipt

definition LAST_WRITE_RECEIPT_PATH :: string where
  "LAST_WRITE_RECEIPT_PATH = ''.chatgpt/operations/last-write.json''"

definition OPERATION_LEDGER_PATH :: string where
  "OPERATION_LEDGER_PATH = ''.chatgpt/operations/ledger.jsonl''"

record 'w receipt_env =
  re_repo :: "'w repo_env"
  re_unsafe_text :: "string \<Rightarrow> bool"
  re_now :: "'w \<Rightarrow> string \<times> 'w"
  re_uuid :: "'w \<Rightarrow> string \<times> 'w"
  re_receipt_text :: "operation_receipt \<Rightarrow> string"
  re_receipt_of :: "string \<Rightarrow> operation_receipt option"
  re_entry_text :: "ledger_entry \<Rightarrow> string"
  re_entry_of :: "string \<Rightarrow> ledger_entry option"

abbreviation re_fs :: "'w receipt_env \<Rightarrow> 'w fs_env" where
  "re_fs R \<equiv> rp_fs (re_repo R)"

definition repo_file :: "'w receipt_env \<Rightarrow> string \<Rightarrow> string" where
  "repo_file R p = posix_join (rp_root (re_repo R)) p"

section \<open>What a receipt may hold\<close>

definition isRepoRelativePathLiteral :: "string \<Rightarrow> bool" where
  "isRepoRelativePathLiteral v \<longleftrightarrow> v \<noteq> [] \<and> \<not> prefix ''/'' v \<and> \<not> drive_path v \<and> CHR 0x5C \<notin> set v
     \<and> list_all (\<lambda>p. p \<noteq> [] \<and> p \<noteq> ''.'' \<and> p \<noteq> ''..'') (split_on (CHR ''/'') v)"

definition optional :: "('a \<Rightarrow> bool) \<Rightarrow> 'a option \<Rightarrow> bool" where
  "optional P x = (case x of None \<Rightarrow> True | Some y \<Rightarrow> P y)"

definition receipt_file_valid :: "receipt_file \<Rightarrow> bool" where
  "receipt_file_valid f \<longleftrightarrow> isRepoRelativePathLiteral (rf_path f) \<and> optional isRepoRelativePathLiteral (rf_new_path f)
     \<and> optional (hex_n 64) (rf_old_sha256 f) \<and> optional (hex_n 64) (rf_new_sha256 f)"

text \<open>The refinements of the schema; its types are the record's.\<close>

definition receipt_valid :: "receipt_input \<Rightarrow> bool" where
  "receipt_valid i \<longleftrightarrow> optional (hex_n 40) (ri_head_before i) \<and> optional (hex_n 40) (ri_head_after i)
     \<and> optional (list_all receipt_file_valid) (ri_files i)
     \<and> optional (\<lambda>h. list_all (\<lambda>p. isRepoRelativePathLiteral (ph_path p)) (rh_paths h)) (ri_hint i)
     \<and> optional (hex_n 40) (ri_commit_sha i)"

definition unsafe_text :: task_err where
  "unsafe_text = OtherErr None"

definition assertSafeText :: "'w receipt_env \<Rightarrow> string \<Rightarrow> task_err + unit" where
  "assertSafeText R v = guardR (\<not> re_unsafe_text R v) unsafe_text"

definition safeText :: "'w receipt_env \<Rightarrow> string \<Rightarrow> task_err + string" where
  "safeText R v = bindR (assertSafeText R v) (\<lambda>_. Inr v)"

definition uniqueSafePaths :: "string list \<Rightarrow> task_err + string list" where
  "uniqueSafePaths paths = bindR (mapM validateRepoPath paths) (\<lambda>ps. Inr (unique_paths ps))"

definition sanitize_file :: "receipt_file \<Rightarrow> task_err + receipt_file" where
  "sanitize_file f = bindR (validateRepoPath (rf_path f)) (\<lambda>p. Inr (f\<lparr>rf_path := p\<rparr>))"

definition sanitize_hint_path :: "'w receipt_env \<Rightarrow> path_hint \<Rightarrow> task_err + path_hint" where
  "sanitize_hint_path R h =
     bindR (validateRepoPath (ph_path h)) (\<lambda>p. bindR (safeText R (ph_reason h)) (\<lambda>t. Inr (h\<lparr>ph_path := p, ph_reason := t\<rparr>)))"

definition sanitize_hint :: "'w receipt_env \<Rightarrow> rollback_hint \<Rightarrow> task_err + rollback_hint" where
  "sanitize_hint R h =
     bindR (safeText R (rh_reason h)) (\<lambda>t. bindR (mapM (sanitize_hint_path R) (rh_paths h)) (\<lambda>ps.
     Inr (h\<lparr>rh_reason := t, rh_paths := ps\<rparr>)))"

definition map_optional :: "('a \<Rightarrow> task_err + 'b) \<Rightarrow> 'a option \<Rightarrow> task_err + 'b option" where
  "map_optional f x = (case x of None \<Rightarrow> Inr None | Some y \<Rightarrow> bindR (f y) (\<lambda>z. Inr (Some z)))"

definition sanitizeWriteInput :: "'w receipt_env \<Rightarrow> receipt_input \<Rightarrow> task_err + receipt_input" where
  "sanitizeWriteInput R i =
     bindR (assertSafeText R (ri_summary i)) (\<lambda>_.
     bindR (uniqueSafePaths (ri_touched i)) (\<lambda>touched.
     bindR (uniqueSafePaths (ri_changed i)) (\<lambda>changed.
     bindR (uniqueSafePaths (ri_created i)) (\<lambda>created.
     bindR (uniqueSafePaths (ri_modified i)) (\<lambda>modified.
     bindR (map_optional (mapM sanitize_file) (ri_files i)) (\<lambda>files.
     bindR (map_optional (sanitize_hint R) (ri_hint i)) (\<lambda>hint.
     Inr (i\<lparr>ri_touched := touched, ri_changed := changed, ri_created := created, ri_modified := modified,
          ri_files := files, ri_hint := hint\<rparr>))))))))"

section \<open>Writing\<close>

text \<open>\<open>toISOString().replace(/[:.]/g, "-")\<close> and the first characters of a random identifier.\<close>

definition stamped_id :: "'w receipt_env \<Rightarrow> string \<Rightarrow> ('w, string) fs_eff" where
  "stamped_id R kind =
     bindE (askF (re_now R)) (\<lambda>now. bindE (askF (re_uuid R)) (\<lambda>uuid.
     ret (kind @ ''-'' @ map (\<lambda>c. if c = CHR '':'' \<or> c = CHR ''.'' then CHR ''-'' else c) now @ ''-'' @ take 8 uuid)))"

definition createOperationId :: "'w receipt_env \<Rightarrow> ('w, string) fs_eff" where
  "createOperationId R = stamped_id R ''write''"

definition createLedgerEntryId :: "'w receipt_env \<Rightarrow> ('w, string) fs_eff" where
  "createLedgerEntryId R = stamped_id R ''ledger''"

text \<open>\<open>appendFile\<close>: the file is made when it is absent; a write that fails may have written some
  bytes.\<close>

definition sys_append :: "'w fs_env \<Rightarrow> string \<Rightarrow> string \<Rightarrow> ('w, unit) fs_eff" where
  "sys_append F p content =
     bindE (sys_call F ''open'') (\<lambda>_.
     bindE (getE (\<lambda>s. map_option (\<lambda>i. (i, fs_nodes s i)) (node_of s p))) (\<lambda>found.
     case found of
       None \<Rightarrow> bindE (sys_create F p 438) (\<lambda>i. sys_write F i content)
     | Some (i, nd) \<Rightarrow>
         bindE (throw_if (nd_kind nd \<noteq> Regular) (OtherErr (Some ''EISDIR''))) (\<lambda>_.
         bindE (askF (sf_fault F ''write'')) (\<lambda>f.
         case f of
           None \<Rightarrow> modifyE (set_node i (\<lambda>n. n\<lparr>nd_bytes := nd_bytes n @ content\<rparr>))
         | Some e \<Rightarrow> bindE (askF (sf_cut F)) (\<lambda>k.
             bindE (modifyE (set_node i (\<lambda>n. n\<lparr>nd_bytes := nd_bytes n @ take k content\<rparr>))) (\<lambda>_. throw e))))))"

definition appendLedgerEntry :: "'w receipt_env \<Rightarrow> operation_receipt \<Rightarrow> ledger_event option \<Rightarrow> ('w, bool) fs_eff" where
  "appendLedgerEntry R receipt event =
     catchE
       (bindE (createLedgerEntryId R) (\<lambda>entry_id.
        let entry = \<lparr>le_entry_id = entry_id, le_event = (case event of None \<Rightarrow> Write_Applied | Some e \<Rightarrow> e),
              le_receipt = receipt\<lparr>or_body := (or_body receipt)\<lparr>ri_validation_ids :=
                Some (case ri_validation_ids (or_body receipt) of None \<Rightarrow> [] | Some v \<Rightarrow> v)\<rparr>\<rparr>\<rparr>;
            p = repo_file R OPERATION_LEDGER_PATH in
        bindE (mkdir_recursive (re_fs R) (dirname_of p)) (\<lambda>_.
        bindE (sys_append (re_fs R) p (rp_encode (re_repo R) (re_entry_text R entry @ [CHR 0x0A]))) (\<lambda>_.
        ret True))))
       (\<lambda>_. ret False)"

record receipt_ref =
  rr_operation_id :: string
  rr_in_ledger :: bool

record receipt_outcome =
  ro_receipt :: "receipt_ref option"
  ro_warnings :: "string list"

definition write_receipt_file :: "'w receipt_env \<Rightarrow> operation_receipt \<Rightarrow> ('w, unit) fs_eff" where
  "write_receipt_file R receipt =
     atomicWriteFile (re_fs R) (repo_file R LAST_WRITE_RECEIPT_PATH) (rp_encode (re_repo R) (re_receipt_text R receipt @ [CHR 0x0A]))"

definition parse_receipt :: "operation_receipt \<Rightarrow> task_err + operation_receipt" where
  "parse_receipt r = (if receipt_valid (or_body r) then Inr r else Inl (OtherErr None))"

definition pending_receipt :: "'w receipt_env \<Rightarrow> receipt_input \<Rightarrow> operation_receipt \<Rightarrow> rollback_hint option \<Rightarrow> task_err + operation_receipt" where
  "pending_receipt R i receipt hint = (case hint of
       None \<Rightarrow> Inr receipt
     | Some h \<Rightarrow> bindR (sanitizeWriteInput R (i\<lparr>ri_hint := Some h\<rparr>)) (\<lambda>clean.
         parse_receipt (receipt\<lparr>or_body := (or_body receipt)\<lparr>ri_hint := ri_hint clean\<rparr>\<rparr>)))"

definition writeLastWrite ::
  "'w receipt_env \<Rightarrow> receipt_input \<Rightarrow> ledger_event option \<Rightarrow> rollback_hint option \<Rightarrow> ('w, receipt_outcome) fs_eff" where
  "writeLastWrite R i event hint_before =
     catchE
       (bindE (createOperationId R) (\<lambda>operation_id.
        bindE (askF (re_now R)) (\<lambda>now.
        bindE (liftR (sanitizeWriteInput R i)) (\<lambda>clean.
        bindE (liftR (parse_receipt \<lparr>or_operation_id = operation_id, or_timestamp = now, or_body = clean\<rparr>)) (\<lambda>receipt.
        bindE (liftR (pending_receipt R i receipt hint_before)) (\<lambda>pending.
        bindE (write_receipt_file R pending) (\<lambda>_.
        bindE (appendLedgerEntry R receipt event) (\<lambda>recorded.
        bindE (if recorded \<and> hint_before \<noteq> None then write_receipt_file R receipt else ret ()) (\<lambda>_.
        ret \<lparr>ro_receipt = Some \<lparr>rr_operation_id = operation_id, rr_in_ledger = recorded\<rparr>,
             ro_warnings = (if recorded then [] else [''OPERATION_LEDGER_APPEND_FAILED''])\<rparr>)))))))))
       (\<lambda>_. ret \<lparr>ro_receipt = None, ro_warnings = [''OPERATION_RECEIPT_WRITE_FAILED'']\<rparr>)"

section \<open>Reading\<close>

definition isSafeRepoPath :: "string \<Rightarrow> bool" where
  "isSafeRepoPath p \<longleftrightarrow> validateRepoPath p = Inr p \<and> \<not> prefix ''/'' p"

definition isSafeReceipt :: "'w receipt_env \<Rightarrow> receipt_input \<Rightarrow> bool" where
  "isSafeReceipt R i \<longleftrightarrow> list_all isSafeRepoPath (ri_touched i @ ri_changed i @ ri_created i @ ri_modified i)
     \<and> \<not> re_unsafe_text R (ri_summary i)"

definition valid_receipt_of :: "'w receipt_env \<Rightarrow> string \<Rightarrow> operation_receipt option" where
  "valid_receipt_of R t = (case re_receipt_of R t of None \<Rightarrow> None
     | Some r \<Rightarrow> if receipt_valid (or_body r) then Some r else None)"

definition readLastWrite :: "'w receipt_env \<Rightarrow> string \<Rightarrow> ('w, string + operation_receipt) fs_eff" where
  "readLastWrite R repo_id =
     catchE
       (bindE (sys_read (re_fs R) (repo_file R LAST_WRITE_RECEIPT_PATH)) (\<lambda>raw.
        ret (case valid_receipt_of R raw of
            None \<Rightarrow> Inl ''INVALID_LAST_WRITE_RECEIPT''
          | Some r \<Rightarrow> if ri_repo_id (or_body r) \<noteq> repo_id \<or> \<not> isSafeReceipt R (or_body r)
              then Inl ''INVALID_LAST_WRITE_RECEIPT'' else Inr r)))
       (\<lambda>e. ret (Inl (if not_found e then ''NO_LAST_WRITE_RECEIPT'' else ''INVALID_LAST_WRITE_RECEIPT'')))"

definition isSafeLedgerEntry :: "'w receipt_env \<Rightarrow> ledger_entry \<Rightarrow> bool" where
  "isSafeLedgerEntry R e =
     (let i = or_body (le_receipt e); hints = (case ri_hint i of None \<Rightarrow> [] | Some h \<Rightarrow> rh_paths h) in
      list_all isSafeRepoPath (ri_touched i @ ri_changed i @ ri_created i @ ri_modified i
        @ map rf_path (case ri_files i of None \<Rightarrow> [] | Some fs \<Rightarrow> fs) @ map ph_path hints)
      \<and> \<not> re_unsafe_text R (ri_summary i)
      \<and> optional (\<lambda>h. \<not> re_unsafe_text R (rh_reason h)) (ri_hint i)
      \<and> list_all (\<lambda>h. \<not> re_unsafe_text R (ph_reason h)) hints)"

definition ledger_line :: "'w receipt_env \<Rightarrow> string \<Rightarrow> ledger_entry option" where
  "ledger_line R line = (case re_entry_of R line of None \<Rightarrow> None
     | Some e \<Rightarrow> if receipt_valid (or_body (le_receipt e)) \<and> isSafeLedgerEntry R e then Some e else None)"

text \<open>The entries of the ledger, and the warnings.\<close>

definition ledger_entries :: "'w receipt_env \<Rightarrow> string \<Rightarrow> ledger_entry list \<times> string list" where
  "ledger_entries R raw =
     (let ls = map (ledger_line R) (filter (\<lambda>l. trim l \<noteq> []) (split_on (CHR 0x0A) raw)) in
      (concat (map (\<lambda>e. case e of None \<Rightarrow> [] | Some x \<Rightarrow> [x]) ls),
       if None \<in> set ls then [''OPERATION_LEDGER_INVALID_LINES''] else []))"

definition readEntries :: "'w receipt_env \<Rightarrow> ('w, ledger_entry list \<times> string list) fs_eff" where
  "readEntries R =
     catchE (bindE (sys_read (re_fs R) (repo_file R OPERATION_LEDGER_PATH)) (\<lambda>raw. ret (ledger_entries R raw)))
       (\<lambda>e. ret ([], if not_found e then [] else [''OPERATION_LEDGER_READ_FAILED'']))"

definition entries_for_repo :: "string \<Rightarrow> ledger_entry list \<Rightarrow> ledger_entry list" where
  "entries_for_repo repo_id = filter (\<lambda>e. ri_repo_id (or_body (le_receipt e)) = repo_id)"

definition readAllForRepo :: "'w receipt_env \<Rightarrow> string \<Rightarrow> ('w, ledger_entry list \<times> string list) fs_eff" where
  "readAllForRepo R repo_id =
     bindE (readEntries R) (\<lambda>(entries, warnings). ret (entries_for_repo repo_id entries, warnings))"

fun filterAfterOperation :: "string option \<Rightarrow> ledger_entry list \<Rightarrow> ledger_entry list" where
  "filterAfterOperation op_id [] = []"
| "filterAfterOperation op_id (e # es) =
     (if \<not> truthy_text op_id then e # es
      else if Some (or_operation_id (le_receipt e)) = op_id then es else filterAfterOperation op_id es)"

record ledger_input =
  li_repo_id :: string
  li_limit :: "nat option"
  li_cursor :: "string option"
  li_after :: "string option"

record ledger_page =
  lg_events :: "ledger_entry list"
  lg_next_cursor :: "string option"
  lg_warnings :: "string list"

definition page_of :: "nat \<Rightarrow> string option \<Rightarrow> ledger_entry list \<Rightarrow> ledger_entry list \<times> string option" where
  "page_of limit cursor newest =
     (let start = (if truthy_text cursor then digits_value 0 (the cursor) else 0) in
      (take limit (drop start newest), if start + limit < length newest then Some (nat_digits (start + limit)) else None))"

definition DEFAULT_LEDGER_LIMIT :: nat where
  "DEFAULT_LEDGER_LIMIT = 20"

definition read_ledger :: "'w receipt_env \<Rightarrow> ledger_input \<Rightarrow> ('w, ledger_page) fs_eff" where
  "read_ledger R i =
     bindE (readEntries R) (\<lambda>(entries, warnings).
     let newest = rev (filterAfterOperation (li_after i) (entries_for_repo (li_repo_id i) entries)) in
     case page_of (case li_limit i of None \<Rightarrow> DEFAULT_LEDGER_LIMIT | Some n \<Rightarrow> n) (li_cursor i) newest of
       (events, next_page) \<Rightarrow> ret \<lparr>lg_events = events, lg_next_cursor = next_page, lg_warnings = warnings\<rparr>)"

end
