(* ===== verification/Git_Mutation_Properties.thy ===== *)
theory Git_Mutation_Properties
  imports Git_Mutations Pack_Properties
begin

text \<open>
  What the mutating Git tools ask Git: every commit is of staged paths that were listed, validated
  and put before the review gate, with nothing in between that could stage another; a dry run only
  reads.
\<close>

section \<open>Commands that only read\<close>

definition read_command :: "string list \<Rightarrow> bool" where
  "read_command args \<longleftrightarrow> take 1 args \<in> (\<lambda>c. [c]) ` {''rev-parse'', ''status'', ''diff'', ''ls-files''}"

definition reads_only :: "git_command list \<Rightarrow> bool" where
  "reads_only cs \<longleftrightarrow> list_all (\<lambda>c. read_command (gc_args c)) cs"

text \<open>A predicate on the commands that holds on when more is only read.\<close>

definition read_stable :: "(git_command list \<Rightarrow> bool) \<Rightarrow> bool" where
  "read_stable P \<longleftrightarrow> (\<forall>log c. P log \<longrightarrow> read_command (gc_args c) \<longrightarrow> P (log @ [c]))"

abbreviation logged :: "(git_command list \<Rightarrow> bool) \<Rightarrow> 'w ops_state \<Rightarrow> bool" where
  "logged P s \<equiv> P (os_log s)"

named_theorems read_steps "steps that keep what stays when more is only read"

lemma logged_fsE [pres_intros]: "keeps (logged P) (fsE m)"
  by (auto simp: keeps_def fsE_def split: prod.split)

lemma logged_lookE [pres_intros]: "keeps (logged P) (lookE f)"
  unfolding lookE_def by (rule logged_fsE)

lemma logged_ran:
  "(\<And>log answer. P log \<Longrightarrow> P (log @ [\<lparr>gc_root = og_root G, gc_args = args, gc_answer = answer\<rparr>])) \<Longrightarrow>
   keeps (logged P) (ran_git G reader args)"
  by (auto simp: keeps_def ran_git_def Let_def split: prod.split)

lemma logged_read: "read_stable P \<Longrightarrow> read_command args \<Longrightarrow> keeps (logged P) (ran_git G reader args)"
  by (rule logged_ran) (auto simp: read_stable_def)

lemma read_commands [simp]:
  "read_command (''rev-parse'' # xs)" "read_command (''status'' # xs)" "read_command (''diff'' # xs)"
  "read_command (''ls-files'' # xs)" "\<not> read_command (''commit'' # xs)" "\<not> read_command (''add'' # xs)"
  "\<not> read_command (''restore'' # xs)"
  by (auto simp: read_command_def)

lemma diff_args_read [simp]: "read_command (diffArgs d b @ xs)"
  by (simp add: diffArgs_def)

lemma logged_gitText [read_steps]: "read_stable P \<Longrightarrow> read_command args \<Longrightarrow> keeps (logged P) (gitText G args n)"
  unfolding gitText_def by (intro pres_intros logged_read)

lemma logged_status [read_steps]: "read_stable P \<Longrightarrow> keeps (logged P) (status_of_repo G)"
  unfolding status_of_repo_def by (intro pres_intros read_steps) simp_all

lemma logged_states: "keeps (logged P) (all_path_states G ps)"
  by (induction ps) (auto intro!: pres_intros simp: pathState_def)

lemma logged_fingerprint [read_steps]: "read_stable P \<Longrightarrow> keeps (logged P) (reviewStateFingerprint G ps)"
  unfolding reviewStateFingerprint_def contentFingerprint_def pathStates_def changedProjectPaths_def
  by (intro pres_intros read_steps logged_states)

lemma logged_ops_read [read_steps]: "read_stable P \<Longrightarrow> read_command args \<Longrightarrow> keeps (logged P) (ops_git G args)"
  unfolding ops_git_def by (intro pres_intros logged_read)

lemma logged_head [read_steps]: "read_stable P \<Longrightarrow> keeps (logged P) (headSha G)"
  unfolding headSha_def by (intro pres_intros read_steps) simp_all

lemma logged_expected_head [read_steps]: "read_stable P \<Longrightarrow> keeps (logged P) (assertExpectedHead G h)"
  unfolding assertExpectedHead_def by (intro pres_intros read_steps)

lemma logged_staged [read_steps]: "read_stable P \<Longrightarrow> keeps (logged P) (stagedPaths G)"
  unfolding stagedPaths_def by (intro pres_intros read_steps) simp_all

lemma logged_summary [read_steps]: "read_stable P \<Longrightarrow> keeps (logged P) (statusSummary G)"
  unfolding statusSummary_def by (intro pres_intros read_steps) simp_all

lemma logged_gate [read_steps]: "read_stable P \<Longrightarrow> keeps (logged P) (ask_gate M r ps op' h)"
  unfolding ask_gate_def by (intro pres_intros read_steps)

lemma logged_explicit [pres_intros]: "keeps (logged P) (validateExplicitPaths G scan ps)"
  unfolding validateExplicitPaths_def check_explicit_path_def by (intro pres_intros)

lemma logged_integration [pres_intros]: "keeps (logged P) (resolve_integration M r i h)"
  unfolding resolve_integration_def by (intro pres_intros)

lemma logged_bound [pres_intros]: "keeps (logged P) (bound_review M i h)"
  unfolding bound_review_def by (intro pres_intros)

lemma logged_requested [pres_intros]: "keeps (logged P) (requested_paths M i x)"
  unfolding requested_paths_def by (intro pres_intros)

lemma logged_untracked [read_steps]: "read_stable P \<Longrightarrow> keeps (logged P) (assertUntracked G p)"
  unfolding assertUntracked_def trackedPathsUnder_def by (intro pres_intros logged_read) simp_all

lemma logged_resolve_cleanup [read_steps]: "read_stable P \<Longrightarrow> keeps (logged P) (resolve_cleanup G P' p)"
  unfolding resolve_cleanup_def by (intro pres_intros read_steps)

lemma logged_resolve_cleanups: "read_stable P \<Longrightarrow> keeps (logged P) (resolve_cleanups G P' ps)"
  by (induction ps) (auto intro!: pres_intros read_steps)

lemma logged_cleanup [read_steps]: "read_stable P \<Longrightarrow> keeps (logged P) (cleanup G P' ps d)"
  unfolding cleanup_def by (intro pres_intros logged_resolve_cleanups)

lemma logged_discard [read_steps]: "read_stable P \<Longrightarrow> keeps (logged P) (check_discard G p)"
  unfolding check_discard_def by (intro pres_intros read_steps) simp_all

lemma logged_discards [read_steps]: "read_stable P \<Longrightarrow> keeps (logged P) (validateDiscardPaths M ps)"
  unfolding validateDiscardPaths_def by (intro pres_intros read_steps)

section \<open>Requests\<close>

datatype git_request =
    Stage paths_input
  | Unstage paths_input
  | Restore paths_input
  | Commit commit_input
  | Stage_Commit stage_commit_input
  | Cleanup "string list" "bool option"
  | Recover recover_input

definition request_dry :: "git_request \<Rightarrow> bool option" where
  "request_dry r = (case r of Stage i \<Rightarrow> pi_dry_run i | Unstage i \<Rightarrow> pi_dry_run i | Restore i \<Rightarrow> pi_dry_run i
     | Commit i \<Rightarrow> ci_dry_run i | Stage_Commit i \<Rightarrow> sx_dry_run i | Cleanup _ d \<Rightarrow> d | Recover i \<Rightarrow> rc_dry_run i)"

definition outcome_of :: "('w, 'a) ops_eff \<Rightarrow> 'w ops_state \<Rightarrow> 'w ops_state" where
  "outcome_of m s = snd (m s)"

definition serve_git :: "'w mutations_env \<Rightarrow> git_request \<Rightarrow> 'w ops_state \<Rightarrow> 'w ops_state" where
  "serve_git M r = (case r of
       Stage i \<Rightarrow> outcome_of (git_stage M i)
     | Unstage i \<Rightarrow> outcome_of (git_unstage_paths M i)
     | Restore i \<Rightarrow> outcome_of (restorePaths M i)
     | Commit i \<Rightarrow> outcome_of (git_commit_staged M i)
     | Stage_Commit i \<Rightarrow> outcome_of (stageCommit M i)
     | Cleanup ps d \<Rightarrow> outcome_of (cleanup (gm_git M) (gm_policy M) ps d)
     | Recover i \<Rightarrow> outcome_of (recover M i))"

lemma keeps_outcome: "keeps P m \<Longrightarrow> P s \<Longrightarrow> P (outcome_of m s)"
  by (simp add: keeps_def outcome_of_def)

section \<open>Dry runs\<close>

lemma dry_stage: "read_stable P \<Longrightarrow> pi_dry_run i = Some True \<Longrightarrow> keeps (logged P) (git_stage M i)"
  by (simp add: git_stage_def unless_dry_def) (intro pres_intros read_steps)

lemma dry_unstage: "read_stable P \<Longrightarrow> pi_dry_run i = Some True \<Longrightarrow> keeps (logged P) (git_unstage_paths M i)"
  by (simp add: git_unstage_paths_def unless_dry_def) (intro pres_intros read_steps)

lemma dry_restore: "read_stable P \<Longrightarrow> pi_dry_run i = Some True \<Longrightarrow> keeps (logged P) (restorePaths M i)"
  by (simp add: restorePaths_def unless_dry_def) (intro pres_intros read_steps)

lemma dry_commit: "read_stable P \<Longrightarrow> ci_dry_run i = Some True \<Longrightarrow> keeps (logged P) (git_commit_staged M i)"
  by (simp add: git_commit_staged_def) (intro pres_intros read_steps)

lemma dry_stage_commit: "read_stable P \<Longrightarrow> sx_dry_run i = Some True \<Longrightarrow> keeps (logged P) (stageCommit M i)"
  by (simp add: stageCommit_def) (intro pres_intros read_steps)

lemma dry_recover: "read_stable P \<Longrightarrow> rc_dry_run i = Some True \<Longrightarrow> keeps (logged P) (recover M i)"
  by (simp only: recover_def unless_dry_def nonempty_paths_def simp_thms if_True) (intro pres_intros read_steps)

lemma dry_request_reads:
  assumes stable: "read_stable P" and dry: "request_dry r = Some True" and s: "P (os_log s)"
  shows "P (os_log (serve_git M r s))"
  using dry unfolding serve_git_def request_dry_def
  by (cases r; simp; intro keeps_outcome [where P = "logged P", OF _ s] dry_stage [OF stable] dry_unstage [OF stable]
      dry_restore [OF stable] dry_commit [OF stable] dry_stage_commit [OF stable] dry_recover [OF stable] logged_cleanup [OF stable])

text \<open>C35 (safety).
  A dry run asks Git nothing but reading commands, whatever the request.\<close>

theorem dry_runs_only_read:
  assumes "request_dry r = Some True"
  shows "\<exists>asked. os_log (serve_git M r s) = os_log s @ asked \<and> reads_only asked"
proof -
  have "read_stable (\<lambda>log. \<exists>asked. log = os_log s @ asked \<and> reads_only asked)"
    unfolding read_stable_def
  proof (intro allI impI)
    fix log and c :: git_command assume "\<exists>asked. log = os_log s @ asked \<and> reads_only asked" and c: "read_command (gc_args c)"
    then obtain asked where "log = os_log s @ asked" "reads_only asked"
      by blast
    with c show "\<exists>asked. log @ [c] = os_log s @ asked \<and> reads_only asked"
      by (intro exI [of _ "asked @ [c]"]) (simp add: reads_only_def)
  qed
  from dry_request_reads [OF this assms, of s M] show ?thesis
    by (simp add: reads_only_def)
qed

section \<open>Commits\<close>

definition commit_command :: "git_command \<Rightarrow> bool" where
  "commit_command c \<longleftrightarrow> take 1 (gc_args c) = [''commit'']"

definition gate_passes :: "'w mutations_env \<Rightarrow> review_request \<Rightarrow> bool" where
  "gate_passes M req \<longleftrightarrow> (\<exists>fs warnings. fst (gm_gate M req fs) = Inr warnings)"

text \<open>The commands before end in a listing of the staged paths and then only reads.\<close>

definition just_listed :: "string \<Rightarrow> string list \<Rightarrow> git_command list \<Rightarrow> bool" where
  "just_listed head actual log \<longleftrightarrow>
     (\<exists>earlier listing later h t. log = earlier @ [listing] @ later \<and> reads_only later
        \<and> gc_args listing = [''diff'', ''--name-only'', ''--cached''] \<and> gc_answer listing = Some t \<and> actual = sort (lines_of t)
        \<and> h \<in> set earlier \<and> gc_args h = [''rev-parse'', ''HEAD''] \<and> (\<exists>x. gc_answer h = Some x \<and> trim x = head))"

definition commit_justified :: "'w mutations_env \<Rightarrow> git_command list \<Rightarrow> bool" where
  "commit_justified M log \<longleftrightarrow>
     (\<exists>req. just_listed (gr_head req) (gr_paths req) log \<and> gr_paths req \<noteq> []
        \<and> (\<forall>p \<in> set (gr_paths req). \<exists>n. validateExplicitPath p = Inr n) \<and> gate_passes M req)"

definition commits_justified :: "'w mutations_env \<Rightarrow> git_command list \<Rightarrow> bool" where
  "commits_justified M log \<longleftrightarrow> (\<forall>k < length log. commit_command (log ! k) \<longrightarrow> commit_justified M (take k log))"

lemma commits_snoc: "commits_justified M (log @ [c]) \<longleftrightarrow> commits_justified M log \<and> (commit_command c \<longrightarrow> commit_justified M log)"
  by (auto simp: commits_justified_def less_Suc_eq nth_append)


lemma reads_snoc: "reads_only (cs @ [c]) \<longleftrightarrow> reads_only cs \<and> read_command (gc_args c)"
  by (simp add: reads_only_def)

lemma read_is_no_commit: "read_command (gc_args c) \<Longrightarrow> \<not> commit_command c"
  by (auto simp: read_command_def commit_command_def)

lemma justified_stable [simp]: "read_stable (commits_justified M)"
  by (simp add: read_stable_def commits_snoc read_is_no_commit)

lemma just_listed_snoc: "just_listed h a log \<Longrightarrow> read_command (gc_args c) \<Longrightarrow> just_listed h a (log @ [c])"
  unfolding just_listed_def by (elim exE conjE, rule exI, rule exI, rule exI [of _ "_ @ [c]"]) (auto simp: reads_snoc)

definition head_read :: "string \<Rightarrow> git_command list \<Rightarrow> bool" where
  "head_read head log \<longleftrightarrow> (\<exists>h \<in> set log. gc_args h = [''rev-parse'', ''HEAD''] \<and> (\<exists>x. gc_answer h = Some x \<and> trim x = head))"

definition after_head :: "'w mutations_env \<Rightarrow> string \<Rightarrow> git_command list \<Rightarrow> bool" where
  "after_head M head log \<longleftrightarrow> commits_justified M log \<and> head_read head log"

definition after_listing :: "'w mutations_env \<Rightarrow> string \<Rightarrow> string list \<Rightarrow> git_command list \<Rightarrow> bool" where
  "after_listing M head actual log \<longleftrightarrow> commits_justified M log \<and> head_read head log \<and> just_listed head actual log"

lemma head_stable [simp]: "read_stable (after_head M head)" "read_stable (after_listing M head actual)"
  by (auto simp: read_stable_def after_head_def after_listing_def commits_snoc read_is_no_commit head_read_def
      just_listed_snoc)

lemma after_head_other: "after_head M h log \<Longrightarrow> \<not> commit_command c \<Longrightarrow> after_head M h (log @ [c])"
  by (auto simp: after_head_def commits_snoc head_read_def)

text \<open>What a command answered is in the log.\<close>

lemma triple_ops_git:
  assumes "\<And>log answer. P log \<Longrightarrow> Q answer (log @ [\<lparr>gc_root = og_root G, gc_args = args, gc_answer = answer\<rparr>])"
    "\<And>log. Q None log \<Longrightarrow> R log"
  shows "triple (logged P) (ops_git G args) (\<lambda>x. logged (Q (Some x))) (logged R)"
  unfolding triple_def ops_git_def wp_bindE wp_ret
  using assms by (auto simp: wp_def ran_git_def Let_def split: prod.split sum.split)

lemma triple_head:
  "triple (logged (commits_justified M)) (assertExpectedHead G h) (\<lambda>head. logged (after_head M head)) (logged (commits_justified M))"
  unfolding assertExpectedHead_def headSha_def
  apply (rule triple_bind [OF triple_bind [OF triple_ops_git [where Q = "\<lambda>answer log. commits_justified M log
      \<and> (\<exists>c \<in> set log. gc_args c = [''rev-parse'', ''HEAD''] \<and> gc_answer c = answer)"]]])
     apply (auto simp: commits_snoc commit_command_def) [2]
   apply (rule triple_ret [where Q = "\<lambda>x. logged (after_head M x)"])
   apply (auto simp: after_head_def head_read_def) []
  apply (rule triple_guard)
   apply (auto intro: triple_ret simp: after_head_def)
  done

lemma triple_staged:
  "triple (logged (after_head M h)) (stagedPaths G) (\<lambda>actual. logged (after_listing M h actual)) (logged (commits_justified M))"
  unfolding stagedPaths_def
  apply (rule triple_bind [OF triple_ops_git [where Q = "\<lambda>answer log. \<exists>before c. log = before @ [c] \<and> after_head M h before
      \<and> gc_args c = [''diff'', ''--name-only'', ''--cached''] \<and> gc_answer c = answer"]])
    apply auto []
   apply (auto simp: after_head_def commits_snoc commit_command_def) []
  apply (rule triple_ret)
  apply (auto simp: after_head_def after_listing_def commits_snoc commit_command_def head_read_def just_listed_def)
  subgoal for t s before c
    by (rule exI [of _ before], rule exI [of _ c], rule exI [of _ "[]"]) (auto simp: reads_only_def)
  done


lemma triple_step:
  assumes "triple P m Q R" "\<And>x. triple (Q x) (f x) Q' R" "\<And>s. P' s \<Longrightarrow> P s"
  shows "triple P' (bindE m f) Q' R"
proof (rule triple_bind)
  show "triple P' m Q R"
    by (rule triple_conseq [OF assms(1)]) (use assms(3) in auto)
qed (rule assms(2))

lemma triple_keeping: "keeps P m \<Longrightarrow> (\<And>s. P s \<Longrightarrow> R s) \<Longrightarrow> triple P m (\<lambda>_. P) R"
  unfolding triple_def by (blast intro: keeps_wp wp_conseq)

text \<open>A step that keeps what is known and whose result has a property.\<close>

lemma triple_known:
  assumes "keeps P m" "returns (\<lambda>_. True) m (\<lambda>x _. F x)" "\<And>s. P s \<Longrightarrow> R s" "\<And>x. F x \<Longrightarrow> triple P (f x) Q' R"
  shows "triple P (bindE m f) Q' R"
proof (rule triple_bind)
  show "triple P m (\<lambda>x s. P s \<and> F x) R"
    by (rule triple_path [OF triple_conseq [OF triple_keeps [OF assms(1)]] assms(2)]) (use assms(3) in auto)
  show "triple (\<lambda>s. P s \<and> F x) (f x) Q' R" for x
    by (rule triple_fact) (rule assms(4))
qed

lemma triple_kept: "keeps P m \<Longrightarrow> (\<And>s. P s \<Longrightarrow> R s) \<Longrightarrow> (\<And>x. triple P (f x) Q' R) \<Longrightarrow> triple P (bindE m f) Q' R"
  by (rule triple_known [where F = "\<lambda>_. True"]) (auto simp: returns_def)

lemma explicit_validated:
  "returns (\<lambda>_. True) (validateExplicitPaths G scan ps) (\<lambda>x _. \<forall>p \<in> set ps. \<exists>n. validateExplicitPath p = Inr n)"
proof -
  have "\<forall>p \<in> set ps. \<exists>n. f p = Inr n" if "mapM f ps = Inr ns" for f :: "string \<Rightarrow> task_err + string" and ns
    using that by (induction ps arbitrary: ns) (auto split: sum.splits)
  then show ?thesis
    unfolding validateExplicitPaths_def by (intro fact_intros) auto
qed

lemma look_answered: "returns (\<lambda>_. True) (lookE f) (\<lambda>x _. \<exists>fs. fst (f fs) = Inr x)"
  unfolding returns_def lookE_def fsE_def by (auto split: prod.splits) (metis fst_conv)

lemma gate_answered:
  "returns (\<lambda>_. True) (ask_gate M r ps op' h) (\<lambda>x _. \<exists>req. gr_paths req = ps \<and> gr_head req = h \<and> gate_passes M req)"
  unfolding ask_gate_def
  apply (rule fact_step)
  apply (rule returns_conseq [OF look_answered], rule TrueI)
  subgoal for fingerprint x
    by (rule exI [of _ "\<lparr>gr_repo_id = (case r of None \<Rightarrow> ''unknown'' | Some r \<Rightarrow> r), gr_paths = ps,
       gr_operation = op', gr_head = h, gr_fingerprint = fingerprint\<rparr>"]) (auto simp: gate_passes_def)
  done

lemma after_listing_justified: "after_listing M h a log \<Longrightarrow> commits_justified M log"
  by (simp add: after_listing_def)

lemma keeps_no_commit: "args = a # rest \<Longrightarrow> a \<noteq> ''commit'' \<Longrightarrow> keeps (logged (commits_justified M)) (ops_git G args)"
  unfolding ops_git_def by (intro pres_intros logged_ran) (auto simp: commits_snoc commit_command_def)

lemma keeps_undo: "keeps (logged (commits_justified M)) (undo_staging G before actual)"
  unfolding undo_staging_def git_unstage_def by (intro pres_intros keeps_no_commit [where a = "''restore''"]) simp_all

lemma triple_git_add:
  "triple (logged (after_head M h)) (git_add G paths) (\<lambda>_. logged (after_head M h)) (logged (commits_justified M))"
  unfolding git_add_def
  apply (rule triple_bind [OF triple_ops_git [where Q = "\<lambda>_. after_head M h"]])
    apply (rule after_head_other, auto simp: commit_command_def after_head_def intro: triple_ret)
  done

lemma triple_undo_throw: "(\<And>s. P s \<Longrightarrow> commits_justified M (os_log s)) \<Longrightarrow>
   triple P (bindE (undo_staging G before actual) (\<lambda>_. throw e)) Q (logged (commits_justified M))"
  by (rule triple_step [OF triple_keeps [OF keeps_undo]]) (auto intro: triple_throw)

definition gated :: "'w mutations_env \<Rightarrow> string \<Rightarrow> string list \<Rightarrow> bool" where
  "gated M h actual \<longleftrightarrow> (\<exists>req. gr_paths req = actual \<and> gr_head req = h \<and> gate_passes M req)"

lemma triple_gate:
  "triple (logged (after_listing M h actual)) (ask_gate M r actual op' h)
     (\<lambda>_ s. after_listing M h actual (os_log s) \<and> gated M h actual) (logged (commits_justified M))"
  unfolding gated_def
proof (rule triple_path [OF _ gate_answered])
  show "triple (logged (after_listing M h actual)) (ask_gate M r actual op' h) (\<lambda>_. logged (after_listing M h actual))
     (logged (commits_justified M))"
    by (rule triple_keeping [OF logged_gate]) (simp_all add: after_listing_justified)
qed

lemma throws_at_last: "\<exists>x. fst (bindE m (\<lambda>_. throw e) s) = Inl x"
  by (auto simp: bindE_def throw_def split: prod.splits sum.splits)

lemma triple_gate_or_undo:
  "triple (logged (after_listing M h actual))
     (catchE (ask_gate M r actual op' h) (\<lambda>e. bindE (undo_staging G before actual) (\<lambda>_. throw e)))
     (\<lambda>_ s. after_listing M h actual (os_log s) \<and> gated M h actual) (logged (commits_justified M))"
proof (rule triple_catch)
  show "triple (logged (after_listing M h actual)) (ask_gate M r actual op' h)
     (\<lambda>_ s. after_listing M h actual (os_log s) \<and> gated M h actual) (logged (commits_justified M))"
    by (rule triple_gate)
  show "keeps (logged (commits_justified M)) (bindE (undo_staging G before actual) (\<lambda>_. throw e))" for e
    by (intro pres_intros keeps_undo)
qed (rule throws_at_last)

text \<open>What is known of the paths about to be committed.\<close>

definition may_commit :: "'w mutations_env \<Rightarrow> string \<Rightarrow> string list \<Rightarrow> bool" where
  "may_commit M h actual \<longleftrightarrow> actual \<noteq> [] \<and> (\<forall>p \<in> set actual. \<exists>n. validateExplicitPath p = Inr n) \<and> gated M h actual"

lemma triple_commit_command:
  assumes "may_commit M h actual"
  shows "triple (logged (after_listing M h actual)) (git_commit G message)
    (\<lambda>_. logged (commits_justified M)) (logged (commits_justified M))"
  unfolding git_commit_def
  apply (rule triple_bind [OF triple_ops_git [where Q = "\<lambda>_. commits_justified M"]])
  using assms by (auto simp: after_listing_def commits_snoc commit_justified_def may_commit_def gated_def intro: triple_ret)

lemma triple_checked:
  "triple (logged (after_head M h)) (staged_and_checked M i integration h paths before)
     (\<lambda>x s. after_listing M h (fst x) (os_log s) \<and> may_commit M h (fst x)) (logged (commits_justified M))"
  unfolding staged_and_checked_def
proof (rule triple_step [OF triple_git_add])
  let ?J = "logged (commits_justified M)"
  let ?Q = "\<lambda>x s. after_listing M h (fst x) (os_log s) \<and> may_commit M h (fst x)"
  let ?gate = "\<lambda>actual. catchE (ask_gate M (sx_repo_id i) actual Stage_Commit_Op h)
     (\<lambda>e. bindE (undo_staging (gm_git M) before actual) (\<lambda>_. throw e))"
  let ?same = "\<lambda>actual. if samePathSet actual paths then ret ()
     else bindE (undo_staging (gm_git M) before actual) (\<lambda>_. throw (repo_error ''GIT_STAGED_PATHS_MISMATCH''))"
  have last: "triple (logged (after_listing M h actual)) (bindE (?gate actual) (\<lambda>warnings. ret (actual, warnings))) ?Q ?J"
    if "actual \<noteq> []" "\<forall>p \<in> set actual. \<exists>n. validateExplicitPath p = Inr n" for actual
    by (rule triple_bind [OF triple_gate_or_undo], rule triple_ret) (use that in \<open>auto simp: may_commit_def\<close>)
  have same: "triple (logged (after_listing M h actual)) (?same actual) (\<lambda>_. logged (after_listing M h actual)) ?J" for actual
    by (cases "samePathSet actual paths")
      (auto intro!: triple_ret triple_undo_throw dest: after_listing_justified)
  show "triple (logged (after_head M h)) (bindE (case integration of None \<Rightarrow> ret ()
            | Some x \<Rightarrow> bindE (resolve_integration M (sx_repo_id i) (ir_id x) h) (\<lambda>_. ret ())) (\<lambda>_.
     bindE (stagedPaths (gm_git M)) (\<lambda>actual.
     bindE (validateExplicitPaths (gm_git M) True actual) (\<lambda>_.
     bindE (throw_if (actual = []) (repo_error ''GIT_NOTHING_STAGED'')) (\<lambda>_.
     bindE (?same actual) (\<lambda>_. bindE (?gate actual) (\<lambda>warnings. ret (actual, warnings)))))))) ?Q ?J"
  proof (rule triple_kept, intro pres_intros)
    show "triple (logged (after_head M h)) (bindE (stagedPaths (gm_git M)) (\<lambda>actual.
       bindE (validateExplicitPaths (gm_git M) True actual) (\<lambda>_.
       bindE (throw_if (actual = []) (repo_error ''GIT_NOTHING_STAGED'')) (\<lambda>_.
       bindE (?same actual) (\<lambda>_. bindE (?gate actual) (\<lambda>warnings. ret (actual, warnings))))))) ?Q ?J"
      by (rule triple_step [OF triple_staged], rule triple_known [OF logged_explicit explicit_validated], erule after_listing_justified,
          rule triple_guard, rule triple_bind [OF same], rule last) (auto simp: after_listing_def)
  qed (simp add: after_head_def)
qed

lemma triple_unless:
  "triple P m (\<lambda>_. Q) R \<Longrightarrow> (\<And>s. P s \<Longrightarrow> Q s) \<Longrightarrow> triple P (if b then ret x else m) (\<lambda>_. Q) R"
  by (auto simp: triple_def wp_ret)

lemma triple_commit_staged:
  "triple (logged (commits_justified M)) (git_commit_staged M i) (\<lambda>_. logged (commits_justified M)) (logged (commits_justified M))"
  unfolding git_commit_staged_def
  apply (rule triple_liftR)
   apply (rule triple_step [OF triple_head])
    apply (rule triple_liftR)
     apply (rule triple_kept [OF logged_explicit])
      apply (simp add: after_head_def)
     apply (rule triple_step [OF triple_staged])
      apply (rule triple_guard)
       apply (rule triple_known [OF logged_explicit explicit_validated])
        apply (erule after_listing_justified)
       apply (rule triple_guard)
        apply (rule triple_bind [OF triple_gate])
        apply (rule triple_fact)
        apply (rule triple_unless [OF triple_step [OF triple_commit_command]])
           apply (simp add: may_commit_def)
          apply (rule triple_keeps, intro pres_intros read_steps)
          apply (auto simp: after_listing_def after_head_def)
  done

lemma triple_case_pair: "(\<And>a b. triple (P (a, b)) (f a b) Q R) \<Longrightarrow> triple (P x) (case x of (a, b) \<Rightarrow> f a b) Q R"
  by (cases x) simp

lemma triple_stage_commit:
  "triple (logged (commits_justified M)) (stageCommit M i) (\<lambda>_. logged (commits_justified M)) (logged (commits_justified M))"
  unfolding stageCommit_def
  apply (rule triple_step [OF triple_head])
   apply (rule triple_liftR)
    apply (rule triple_kept [OF logged_bound], simp add: after_head_def)
    apply (rule triple_guard)
     apply (rule triple_kept [OF logged_requested], simp add: after_head_def)
     apply (rule triple_kept [OF logged_explicit], simp add: after_head_def)
     apply (rule triple_kept [OF logged_staged], simp, simp add: after_head_def)
     apply (rule triple_guard)
      apply (rule triple_kept [OF logged_gate], simp, simp add: after_head_def)
      apply (rule triple_unless [OF triple_step [OF triple_checked]])
         apply (rule triple_case_pair, rule triple_fact, rule triple_step [OF triple_commit_command], simp)
           apply (rule triple_keeps, intro pres_intros read_steps)
          apply (auto simp: after_head_def)
  done


section \<open>Any sequence of requests\<close>

definition serve_git_all :: "'w mutations_env \<Rightarrow> git_request list \<Rightarrow> 'w fs_state \<Rightarrow> 'w ops_state" where
  "serve_git_all M requests fs = foldl (\<lambda>s r. serve_git M r s) \<lparr>os_fs = fs, os_log = []\<rparr> requests"

lemma keeps_other:
  "keeps (logged (commits_justified M)) (git_add G ps)" "keeps (logged (commits_justified M)) (git_restore G ps)"
  "keeps (logged (commits_justified M)) (git_unstage G ps)"
  unfolding git_add_def git_restore_def git_unstage_def
  by (intro pres_intros keeps_no_commit [where a = "''add''"] keeps_no_commit [where a = "''restore''"]; simp)+

lemma triple_is_kept: "triple P m (\<lambda>_. P) P \<Longrightarrow> keeps P m"
  by (rule keeps_wpI) (simp add: triple_def)

lemma keeps_unless [pres_intros]: "keeps P m \<Longrightarrow> keeps P (unless_dry d m)"
  by (simp add: unless_dry_def pres_intros)

lemma request_keeps_justified: "commits_justified M (os_log s) \<Longrightarrow> commits_justified M (os_log (serve_git M r s))"
proof -
  note steps = pres_intros read_steps [OF justified_stable] keeps_other
  have simple: "keeps (logged (commits_justified M)) (git_stage M i)" "keeps (logged (commits_justified M)) (git_unstage_paths M i)"
    "keeps (logged (commits_justified M)) (restorePaths M i)" for i
    unfolding git_stage_def git_unstage_paths_def restorePaths_def by (intro steps)+
  have recovery: "keeps (logged (commits_justified M)) (recover M i)" for i
    unfolding recover_def nonempty_paths_def recover_phases_def by (intro steps)
  show "commits_justified M (os_log s) \<Longrightarrow> commits_justified M (os_log (serve_git M r s))"
    unfolding serve_git_def
    by (cases r; simp; rule keeps_outcome [where P = "logged (commits_justified M)"];
        (rule simple recovery logged_cleanup [OF justified_stable] triple_is_kept [OF triple_commit_staged]
          triple_is_kept [OF triple_stage_commit] | assumption))
qed

text \<open>C20 (safety).
  However Git answers and whichever requests came before, a commit is asked for only when the
  staged paths were listed after HEAD was read, every listed path passed the path checks, the
  review gate passed exactly these paths at that head, and Git was only read from in between.\<close>

theorem commits_are_justified: "commits_justified M (os_log (serve_git_all M requests fs))"
proof -
  have "commits_justified M (os_log s) \<Longrightarrow> commits_justified M (os_log (foldl (\<lambda>s r. serve_git M r s) s requests))" for s
    by (induction requests arbitrary: s) (simp_all add: request_keeps_justified)
  then show ?thesis
    by (simp add: serve_git_all_def commits_justified_def)
qed


section \<open>A repository with one staged path\<close>

text \<open>For evaluation: a chunk within the limit is taken whole.\<close>

lemma collect_chunk_whole [code]:
  "collect_chunk limit c chunk =
     (let remaining = limit - int (length (cl_bytes c)) in
      \<lparr>cl_bytes = (if 0 < remaining then cl_bytes c @ (if int (length chunk) \<le> remaining then chunk else take (nat remaining) chunk)
          else cl_bytes c),
       cl_truncated = (cl_truncated c \<or> max remaining 0 < int (length chunk))\<rparr>)"
  by (auto simp: collect_chunk_def Let_def)

definition sample_git :: "nat git_env" where
  "sample_git = \<lparr>og_repo = sample_repo 99,
     og_git = (\<lambda>args fs. (Closed (if args = [''rev-parse'', ''HEAD''] then [''h1'', [CHR 0x0A]]
        else if args = [''diff'', ''--name-only'', ''--cached''] then [''a'' @ [CHR 0x0A]] else []) [] (Some 0), fs)),
     og_decode = (\<lambda>x. x), og_compare = (\<lambda>x y. if x = y then 0 else if x < y then - 1 else 1), og_mode_size = (\<lambda>_. [])\<rparr>"

definition sample_mutations :: "nat mutations_env" where
  "sample_mutations = \<lparr>gm_git = sample_git,
     gm_policy = DEFAULT_OPERATIONS_POLICY\<lparr>op_enabled := True, op_stage_enabled := True, op_commit_enabled := True\<rparr>,
     gm_gate = (\<lambda>_ fs. (Inr [], fs_world fs)), gm_integration = (\<lambda>_ _ _ fs. (Inl enoent, fs_world fs))\<rparr>"

definition sample_commit :: "bool option \<Rightarrow> commit_input" where
  "sample_commit dry = \<lparr>ci_repo_id = None, ci_message = ''m'', ci_expected_head = ''h1'', ci_expected_staged = [''a''], ci_dry_run = dry\<rparr>"

text \<open>The commit is asked for, after the listing and the reads of the fingerprint.\<close>

lemma commit_happens:
  "map (\<lambda>c. take 2 (gc_args c)) (os_log (serve_git_all sample_mutations [Commit (sample_commit None)] one_file))
   = [[''rev-parse'', ''HEAD''], [''diff'', ''--name-only''], [''rev-parse'', ''--abbrev-ref''], [''rev-parse'', ''HEAD''],
      [''status'', ''--porcelain=v1''], [''commit'', ''-m''], [''rev-parse'', ''HEAD'']]"
  by code_simp

theorem dry_runs_only_read_witness:
  "\<exists>asked. os_log (serve_git sample_mutations (Commit (sample_commit (Some True))) \<lparr>os_fs = one_file, os_log = []\<rparr>)
     = os_log \<lparr>os_fs = one_file, os_log = []\<rparr> @ asked \<and> reads_only asked"
  by (rule dry_runs_only_read) (simp add: request_dry_def sample_commit_def)

end
