(* ===== verification/Receipt_Properties.thy ===== *)
theory Receipt_Properties
  imports Operation_Receipts Git_Mutation_Properties
begin

text \<open>
  The ledger of operations only grows, whatever fails while a receipt is written, and its pages
  hold every event once.
\<close>

section \<open>Appending\<close>

lemma triple_recover:
  assumes "triple P m Q R" "\<And>e. triple R (h e) Q R'"
  shows "triple P (catchE m h) Q R'"
  using assms unfolding triple_def wp_catchE by (blast intro: wp_conseq)

definition text_at :: "'w fs_state \<Rightarrow> string \<Rightarrow> string" where
  "text_at s p = (case file_at s p of None \<Rightarrow> [] | Some c \<Rightarrow> c)"

lemma text_world [simp]: "text_at (s\<lparr>fs_world := w\<rparr>) p = text_at s p"
  by (simp add: text_at_def)

lemma wp_askF: "wp (askF f) Q R s = (case f (fs_world s) of (x, w) \<Rightarrow> Q x (s\<lparr>fs_world := w\<rparr>))"
  by (simp add: wp_def askF_def split: prod.split)

lemma text_appended:
  "node_of s p = Some i \<Longrightarrow> nd_kind (fs_nodes s i) = Regular \<Longrightarrow>
   text_at (set_node i (\<lambda>n. n\<lparr>nd_bytes := nd_bytes n @ c\<rparr>) s) p = text_at s p @ c"
  by (simp add: text_at_def file_at_def)

lemma text_created:
  "text_at (set_node (fs_next s) (\<lambda>n. n\<lparr>nd_bytes := c\<rparr>) (add_node p \<lparr>nd_kind = Regular, nd_mode = m, nd_bytes = b\<rparr> s)) p = c"
  by (simp add: text_at_def file_at_def)

lemma text_absent: "node_of s p = None \<Longrightarrow> text_at s p = []"
  by (simp add: text_at_def file_at_def)

text \<open>A write that fails leaves some first bytes of what it was to append.\<close>

definition grown :: "string \<Rightarrow> string \<Rightarrow> 'w fs_state \<Rightarrow> bool" where
  "grown p old s \<longleftrightarrow> fs_wf s \<and> prefix old (text_at s p)"

definition holds_text :: "string \<Rightarrow> string \<Rightarrow> 'w fs_state \<Rightarrow> bool" where
  "holds_text p c s \<longleftrightarrow> fs_wf s \<and> text_at s p = c"

lemma grown_blind [simp]: "fs_blind (grown p old)" "fs_blind (holds_text p old)"
  by (simp_all add: fs_blind_def grown_def holds_text_def)

lemma holds_grown: "holds_text p old s \<Longrightarrow> grown p old s"
  by (simp add: holds_text_def grown_def)

lemma wp_create_new:
  assumes "holds_text p old s" "node_of s p = None"
  shows "wp (bindE (sys_create F p 438) (\<lambda>i. sys_write F i c)) (\<lambda>_. holds_text p c) (\<lambda>_. grown p old) s"
proof -
  have old: "old = []"
    using assms by (simp add: holds_text_def text_absent)
  have wf: "fs_wf s"
    using assms by (simp add: holds_text_def)
  show ?thesis
    unfolding sys_create_def wp_bindE
    apply (rule wp_call)
     apply (simp add: wp_simps assms(2) sys_write_def wp_askF split: prod.split option.split)
     apply (use wf old in \<open>auto simp: holds_text_def grown_def text_created text_at_def file_at_def add_node_def set_node_def
        bind_name_def node_of_def fs_wf_def less_Suc_eq\<close>)
    done
qed

lemma triple_append:
  "triple (holds_text p old) (sys_append F p c) (\<lambda>_. holds_text p (old @ c)) (grown p old)"
proof -
  have "wp (case map_option (\<lambda>i. (i, fs_nodes s i)) (node_of s p) of
       None \<Rightarrow> bindE (sys_create F p 438) (\<lambda>i. sys_write F i c)
     | Some (i, nd) \<Rightarrow>
         bindE (throw_if (nd_kind nd \<noteq> Regular) (OtherErr (Some ''EISDIR''))) (\<lambda>_.
         bindE (askF (sf_fault F ''write'')) (\<lambda>f.
         case f of
           None \<Rightarrow> modifyE (set_node i (\<lambda>n. n\<lparr>nd_bytes := nd_bytes n @ c\<rparr>))
         | Some e \<Rightarrow> bindE (askF (sf_cut F)) (\<lambda>k.
             bindE (modifyE (set_node i (\<lambda>n. n\<lparr>nd_bytes := nd_bytes n @ take k c\<rparr>))) (\<lambda>_. throw e)))))
     (\<lambda>_. holds_text p (old @ c)) (\<lambda>_. grown p old) s" if s: "holds_text p old s" for s
  proof (cases "node_of s p")
    case None
    with wp_create_new [OF s None, of F c] s show ?thesis
      by (simp add: holds_text_def text_absent)
  next
    case (Some i)
    with s show ?thesis
      by (auto simp: wp_simps wp_askF holds_text_def grown_def text_appended split: prod.split option.split)
  qed
  then have body: "triple (holds_text p old) (bindE (getE (\<lambda>s. map_option (\<lambda>i. (i, fs_nodes s i)) (node_of s p))) (\<lambda>found. case found of
       None \<Rightarrow> bindE (sys_create F p 438) (\<lambda>i. sys_write F i c)
     | Some (i, nd) \<Rightarrow>
         bindE (throw_if (nd_kind nd \<noteq> Regular) (OtherErr (Some ''EISDIR''))) (\<lambda>_.
         bindE (askF (sf_fault F ''write'')) (\<lambda>f.
         case f of
           None \<Rightarrow> modifyE (set_node i (\<lambda>n. n\<lparr>nd_bytes := nd_bytes n @ c\<rparr>))
         | Some e \<Rightarrow> bindE (askF (sf_cut F)) (\<lambda>k.
             bindE (modifyE (set_node i (\<lambda>n. n\<lparr>nd_bytes := nd_bytes n @ take k c\<rparr>))) (\<lambda>_. throw e))))))
     (\<lambda>_. holds_text p (old @ c)) (grown p old)"
    unfolding triple_def wp_bindE wp_getE by blast
  show ?thesis
    unfolding sys_append_def
    by (rule triple_kept [OF keeps_sys_call [OF grown_blind(2)] holds_grown body])
qed

section \<open>Writing a receipt\<close>

text \<open>The two files are two, and not among the temporary names.\<close>

definition receipts_apart :: "'w receipt_env \<Rightarrow> bool" where
  "receipts_apart R \<longleftrightarrow> \<not> scratch_name (re_fs R) (repo_file R OPERATION_LEDGER_PATH)
     \<and> \<not> scratch_name (re_fs R) (repo_file R LAST_WRITE_RECEIPT_PATH)
     \<and> repo_file R OPERATION_LEDGER_PATH \<noteq> repo_file R LAST_WRITE_RECEIPT_PATH"

lemma keeps_text_mkdir: "keeps (holds_text p c) (mkdir_recursive F q)"
proof (rule keepsI)
  fix s :: "'a fs_state" assume "holds_text p c s"
  then show "holds_text p c (snd (mkdir_recursive F q s))"
    using keepsD [OF keeps_mkdir_recursive [of "file_at s" F q], of s] by (auto simp: holds_text_def kept_def text_at_def)
qed

lemma text_kept_but: "kept_but F f s \<Longrightarrow> \<not> scratch_name F p \<Longrightarrow> text_at s p = (case f p of None \<Rightarrow> [] | Some c \<Rightarrow> c)"
  by (simp add: kept_but_def same_files_def text_at_def)

lemma keeps_text_atomic:
  assumes "\<not> scratch_name F p" "\<not> scratch_name F q" "p \<noteq> q"
    and P: "\<And>s t. P s \<Longrightarrow> fs_wf t \<Longrightarrow> text_at t p = text_at s p \<Longrightarrow> P t" "\<And>s. P s \<Longrightarrow> fs_wf s"
  shows "keeps P (atomicWriteFile F q c)"
proof (rule keeps_wpI)
  fix s assume s: "P s"
  then have "wp (atomicWriteFile F q c) (\<lambda>_. kept_but F ((file_at s)(q := Some c)))
      (\<lambda>_ t. kept_but F (file_at s) t \<or> kept_but F ((file_at s)(q := Some c)) t) s"
    using triple_atomic_write [OF assms(2), of "file_at s" c] P(2) by (simp add: triple_def kept_def)
  then show "wp (atomicWriteFile F q c) (\<lambda>_. P) (\<lambda>_. P) s"
    by (rule wp_conseq) (use assms(1,3) P(1) [OF s] in \<open>auto simp: kept_but_def same_files_def text_at_def\<close>)
qed

definition entry_line :: "'w receipt_env \<Rightarrow> ledger_entry \<Rightarrow> string" where
  "entry_line R e = rp_encode (re_repo R) (re_entry_text R e @ [CHR 0x0A])"

definition event_of :: "ledger_event option \<Rightarrow> ledger_event" where
  "event_of event = (case event of None \<Rightarrow> Write_Applied | Some e \<Rightarrow> e)"

text \<open>What the ledger holds after an append that reported success or not.\<close>

definition ledger_after ::
  "'w receipt_env \<Rightarrow> string \<Rightarrow> ledger_event \<Rightarrow> string \<Rightarrow> bool \<Rightarrow> 'w fs_state \<Rightarrow> bool" where
  "ledger_after R old event operation_id recorded s \<longleftrightarrow>
     (if recorded then \<exists>e. le_event e = event \<and> or_operation_id (le_receipt e) = operation_id
        \<and> holds_text (repo_file R OPERATION_LEDGER_PATH) (old @ entry_line R e) s
      else grown (repo_file R OPERATION_LEDGER_PATH) old s)"

lemma ledger_after_blind [simp]: "fs_blind (ledger_after R old event operation_id recorded)"
  by (simp add: fs_blind_def ledger_after_def holds_text_def grown_def)

lemma keeps_stamp: "fs_blind P \<Longrightarrow> keeps P (stamped_id R kind)"
  unfolding stamped_id_def by (intro pres_intros keeps_askF)

lemma triple_append_entry:
  "triple (holds_text (repo_file R OPERATION_LEDGER_PATH) old) (appendLedgerEntry R receipt event)
     (\<lambda>recorded. ledger_after R old (event_of event) (or_operation_id receipt) recorded) (\<lambda>_. False)"
proof -
  let ?L = "repo_file R OPERATION_LEDGER_PATH"
  let ?entry = "\<lambda>entry_id. \<lparr>le_entry_id = entry_id, le_event = event_of event,
     le_receipt = receipt\<lparr>or_body := (or_body receipt)\<lparr>ri_validation_ids :=
       Some (case ri_validation_ids (or_body receipt) of None \<Rightarrow> [] | Some v \<Rightarrow> v)\<rparr>\<rparr>\<rparr>"
  have add: "triple (holds_text ?L old) (bindE (mkdir_recursive (re_fs R) (dirname_of ?L)) (\<lambda>_.
      bindE (sys_append (re_fs R) ?L (entry_line R (?entry entry_id))) (\<lambda>_. ret True)))
      (\<lambda>recorded. ledger_after R old (event_of event) (or_operation_id receipt) recorded) (grown ?L old)" for entry_id
    apply (rule triple_kept [OF keeps_text_mkdir], erule holds_grown)
    apply (rule triple_bind [OF triple_append], rule triple_ret)
    apply (force simp: ledger_after_def)
    done
  have all: "triple (holds_text ?L old) (bindE (createLedgerEntryId R) (\<lambda>entry_id.
      bindE (mkdir_recursive (re_fs R) (dirname_of ?L)) (\<lambda>_.
      bindE (sys_append (re_fs R) ?L (entry_line R (?entry entry_id))) (\<lambda>_. ret True))))
      (\<lambda>recorded. ledger_after R old (event_of event) (or_operation_id receipt) recorded) (grown ?L old)"
    unfolding createLedgerEntryId_def
    by (rule triple_kept [OF keeps_stamp [OF grown_blind(2)] holds_grown add])
  show ?thesis
    unfolding appendLedgerEntry_def Let_def entry_line_def [symmetric] event_of_def [symmetric]
    by (rule triple_recover [OF all]) (auto intro!: triple_ret simp: ledger_after_def)
qed

lemma keeps_receipt_file:
  "receipts_apart R \<Longrightarrow> keeps (holds_text (repo_file R OPERATION_LEDGER_PATH) c) (write_receipt_file R receipt)"
  unfolding write_receipt_file_def
  by (rule keeps_text_atomic [where p = "repo_file R OPERATION_LEDGER_PATH"]) (auto simp: receipts_apart_def holds_text_def)

lemma keeps_ledger_after_file:
  "receipts_apart R \<Longrightarrow> keeps (ledger_after R old event operation_id recorded) (write_receipt_file R receipt)"
  unfolding write_receipt_file_def
  by (rule keeps_text_atomic [where p = "repo_file R OPERATION_LEDGER_PATH"])
    (auto simp: receipts_apart_def holds_text_def grown_def ledger_after_def split: if_splits)

text \<open>What an outcome says of the ledger.\<close>

definition told :: "'w receipt_env \<Rightarrow> string \<Rightarrow> ledger_event \<Rightarrow> receipt_outcome \<Rightarrow> 'w fs_state \<Rightarrow> bool" where
  "told R old event out s \<longleftrightarrow> (case ro_receipt out of
       None \<Rightarrow> grown (repo_file R OPERATION_LEDGER_PATH) old s
     | Some r \<Rightarrow> ledger_after R old event (rr_operation_id r) (rr_in_ledger r) s)"

lemma ledger_after_grown: "ledger_after R old event operation_id recorded s \<Longrightarrow> grown (repo_file R OPERATION_LEDGER_PATH) old s"
  by (auto simp: ledger_after_def holds_text_def grown_def split: if_splits)

lemma parse_receipt_is: "parse_receipt r = Inr r' \<Longrightarrow> r' = r"
  by (simp add: parse_receipt_def split: if_splits)

lemma triple_write_last:
  assumes "receipts_apart R"
  shows "triple (holds_text (repo_file R OPERATION_LEDGER_PATH) old) (writeLastWrite R i event hint)
     (told R old (event_of event)) (\<lambda>_. False)"
proof -
  let ?L = "repo_file R OPERATION_LEDGER_PATH"
  note blind = grown_blind(2)
  have finish: "triple (ledger_after R old (event_of event) oid recorded)
     (bindE (if recorded \<and> hint \<noteq> None then write_receipt_file R receipt else ret ()) (\<lambda>_.
        ret \<lparr>ro_receipt = Some \<lparr>rr_operation_id = oid, rr_in_ledger = recorded\<rparr>,
             ro_warnings = (if recorded then [] else [''OPERATION_LEDGER_APPEND_FAILED''])\<rparr>))
     (told R old (event_of event)) (grown ?L old)" for oid recorded receipt
    by (rule triple_kept [OF _ ledger_after_grown])
      (auto intro!: keeps_ledger_after_file [OF assms] keeps_ret triple_ret simp: told_def)
  have append: "triple (holds_text ?L old) (bindE (appendLedgerEntry R receipt event) (\<lambda>recorded.
        bindE (if recorded \<and> hint \<noteq> None then write_receipt_file R receipt else ret ()) (\<lambda>_.
        ret \<lparr>ro_receipt = Some \<lparr>rr_operation_id = oid, rr_in_ledger = recorded\<rparr>,
             ro_warnings = (if recorded then [] else [''OPERATION_LEDGER_APPEND_FAILED''])\<rparr>)))
     (told R old (event_of event)) (grown ?L old)" if "or_operation_id receipt = oid" for oid receipt
    unfolding that [symmetric]
    by (rule triple_bind [OF triple_conseq [OF triple_append_entry _ _ FalseE]]) (assumption | rule finish)+
  show ?thesis
    unfolding writeLastWrite_def createOperationId_def
    apply (rule triple_recover)
     apply (rule triple_kept [OF keeps_stamp [OF blind] holds_grown])
      apply assumption
     apply (rule triple_kept [OF keeps_askF [OF blind] holds_grown])
      apply assumption
     apply (rule triple_liftR)
      apply (rule triple_liftR)
       apply (drule parse_receipt_is)
       apply (rule triple_liftR)
        apply (rule triple_kept [OF keeps_receipt_file [OF assms] holds_grown])
         apply assumption
        apply (rule append, simp)
       apply (erule holds_grown)+
    apply (rule triple_ret, simp add: told_def)
    done
qed

text \<open>C36 (safety). The ledger is append-only: however the writing of a receipt ends, and whatever
  calls of the file system fail on the way, the old ledger is a first part of the new one. The
  writer never throws, and when it reports the operation as recorded, the ledger is the old one
  and exactly one line, the entry of that operation with its event.\<close>

theorem ledger_is_append_only:
  assumes "fs_wf s" "receipts_apart R" "writeLastWrite R i event hint s = (r, t)"
  shows "prefix (text_at s (repo_file R OPERATION_LEDGER_PATH)) (text_at t (repo_file R OPERATION_LEDGER_PATH))
    \<and> (\<exists>out. r = Inr out \<and> (case ro_receipt out of None \<Rightarrow> True | Some o_id \<Rightarrow> if rr_in_ledger o_id
          then \<exists>e. le_event e = event_of event \<and> or_operation_id (le_receipt e) = rr_operation_id o_id
            \<and> text_at t (repo_file R OPERATION_LEDGER_PATH) = text_at s (repo_file R OPERATION_LEDGER_PATH) @ entry_line R e
          else True))"
proof -
  have "wp (writeLastWrite R i event hint) (told R (text_at s (repo_file R OPERATION_LEDGER_PATH)) (event_of event)) (\<lambda>_ _. False) s"
    using triple_write_last [OF assms(2)] assms(1) by (simp add: triple_def holds_text_def)
  with assms(3) show ?thesis
    by (force simp: wp_def told_def ledger_after_def holds_text_def grown_def split: sum.splits option.splits if_splits)
qed

definition sample_receipts :: "nat receipt_env" where
  "sample_receipts = \<lparr>re_repo = sample_repo 99, re_unsafe_text = (\<lambda>_. False), re_now = (\<lambda>n. (''T'', n)),
     re_uuid = (\<lambda>n. (CHR ''u'' # nat_digits n, n + 1)),
     re_receipt_text = (\<lambda>r. or_operation_id r), re_receipt_of = (\<lambda>_. None),
     re_entry_text = (\<lambda>e. le_entry_id e @ '' '' @ or_operation_id (le_receipt e)), re_entry_of = (\<lambda>_. None)\<rparr>"

definition sample_receipt_input :: receipt_input where
  "sample_receipt_input = \<lparr>ri_tool = Tool_Write_File, ri_repo_id = ''repo'', ri_head_before = None, ri_head_after = None,
     ri_touched = [''a''], ri_changed = [''a''], ri_created = [], ri_modified = [''a''],
     ri_counts = \<lparr>rn_requested = 1, rn_changed = 1, rn_created = 0, rn_unchanged = 0\<rparr>, ri_summary = ''s'', ri_files = None,
     ri_hint = None, ri_patchset_id = None, ri_commit_sha = None, ri_validation_ids = None\<rparr>"

text \<open>The ledger holds the operation's line, and the other file the operation.\<close>

lemma recorded_write:
  "(case writeLastWrite sample_receipts sample_receipt_input None None one_file of (r, t) \<Rightarrow>
      (r, file_at t ''/r/.chatgpt/operations/ledger.jsonl'', file_at t ''/r/.chatgpt/operations/last-write.json''))
   = (Inr \<lparr>ro_receipt = Some \<lparr>rr_operation_id = ''write-T-u0'', rr_in_ledger = True\<rparr>, ro_warnings = []\<rparr>,
      Some (''ledger-T-u12 write-T-u0'' @ [CHR 0x0A]), Some (''write-T-u0'' @ [CHR 0x0A]))"
  by code_simp

theorem ledger_is_append_only_witness:
  "\<exists>e. le_event e = Write_Applied \<and> or_operation_id (le_receipt e) = ''write-T-u0''
    \<and> text_at (snd (writeLastWrite sample_receipts sample_receipt_input None None one_file)) ''/r/.chatgpt/operations/ledger.jsonl''
       = text_at one_file ''/r/.chatgpt/operations/ledger.jsonl'' @ entry_line sample_receipts e"
proof -
  have paths: "repo_file sample_receipts OPERATION_LEDGER_PATH = ''/r/.chatgpt/operations/ledger.jsonl''"
    "repo_file sample_receipts LAST_WRITE_RECEIPT_PATH = ''/r/.chatgpt/operations/last-write.json''"
    by code_simp+
  have temp: "fst (sf_temp (re_fs sample_receipts) w) = ''.tmp-1-a''" for w
    by (simp add: sample_receipts_def sample_repo_def sample_fs_def)
  have wf: "fs_wf one_file"
    by (simp add: fs_wf_def one_file_def blank_fs_def)
  have apart: "receipts_apart sample_receipts"
    unfolding receipts_apart_def paths scratch_name_def temp by (auto simp: Cons_eq_append_conv)
  have run: "writeLastWrite sample_receipts sample_receipt_input None None one_file =
     (Inr \<lparr>ro_receipt = Some \<lparr>rr_operation_id = ''write-T-u0'', rr_in_ledger = True\<rparr>, ro_warnings = []\<rparr>,
      snd (writeLastWrite sample_receipts sample_receipt_input None None one_file))"
    using recorded_write by (auto split: prod.splits)
  show ?thesis
    using ledger_is_append_only [OF wf apart run] by (simp add: paths event_of_def)
qed

section \<open>The pages of the ledger\<close>

text \<open>A reader that follows the cursors.\<close>

fun follow_pages :: "nat \<Rightarrow> nat \<Rightarrow> string option \<Rightarrow> ledger_entry list \<Rightarrow> ledger_entry list" where
  "follow_pages 0 limit cursor newest = []"
| "follow_pages (Suc n) limit cursor newest = (case page_of limit cursor newest of
     (events, next_page) \<Rightarrow> events @ (if next_page = None then [] else follow_pages n limit next_page newest))"

lemma page_at:
  "page_of limit (Some (nat_digits k)) newest
   = (take limit (drop k newest), if k + limit < length newest then Some (nat_digits (k + limit)) else None)"
  using digits_value_nat_digits [of k] nat_digits_nonempty [of k] by (simp add: page_of_def truthy_text_def Let_def)

lemma follow_from:
  "0 < limit \<Longrightarrow> length newest \<le> k + n \<Longrightarrow> k < length newest \<Longrightarrow>
   follow_pages n limit (Some (nat_digits k)) newest = drop k newest"
proof (induction n arbitrary: k)
  case (Suc n)
  have "drop (k + limit) newest = drop limit (drop k newest)"
    by (simp add: add.commute)
  with Suc show ?case
    by (auto simp: page_at simp del: drop_drop)
qed simp

text \<open>A reader that starts without a cursor and follows the cursors it is given sees
  every event of the ledger exactly once, newest first, whatever the size of a page.\<close>

lemma pages_hold_every_event:
  assumes "0 < limit"
  shows "follow_pages (Suc (length newest)) limit None newest = newest"
proof (cases "limit < length newest")
  case True
  with follow_from [OF assms, of newest limit "length newest"] show ?thesis
    by (simp add: page_of_def truthy_text_def)
next
  case False
  then show ?thesis
    by (simp add: page_of_def truthy_text_def)
qed

definition sample_entry :: "string \<Rightarrow> ledger_entry" where
  "sample_entry name = \<lparr>le_entry_id = name, le_event = Write_Applied,
     le_receipt = \<lparr>or_operation_id = name, or_timestamp = ''T'', or_body = sample_receipt_input\<rparr>\<rparr>"

lemma pages_hold_every_event_witness:
  "follow_pages (Suc (length (map sample_entry [''1'', ''2'', ''3'']))) 2 None (map sample_entry [''1'', ''2'', ''3''])
     = map sample_entry [''1'', ''2'', ''3'']"
  by (rule pages_hold_every_event) simp

end
