(* ===== verification/Patchsets.thy ===== *)
theory Patchsets
  imports Operation_Receipts
begin

text \<open>
  Patchsets (src/services/patchset-service.ts with patchset-manifest-store.ts, patchset-recovery.ts,
  patchset-apply-results.ts and contracts/patchset.contract.ts): a manifest of file operations is
  prepared, applied as a whole with snapshots to go back to, and rolled back from the ledger entry
  of its application. Diagnostics of errors and the payloads of next steps are left out, except
  whether a rollback is offered.
\<close>

section \<open>Manifests\<close>

datatype patch_operation =
    P_Create string
  | P_Modify string
  | P_Delete
  | P_Rename string
  | P_Edit "(string \<times> string) list"

record patch_file =
  pf_path :: string
  pf_operation :: patch_operation
  pf_expected_sha :: "string option"
  pf_expected_missing :: "bool option"
  pf_new_sha256 :: "string option"
  pf_hunk_count :: "nat option"

record patch_counts =
  pc_files :: nat
  pc_creates :: nat
  pc_modifies :: nat
  pc_deletes :: nat
  pc_renames :: nat
  pc_edits :: nat

record patch_manifest =
  pm_patchset_id :: string
  pm_repo_id :: string
  pm_created_at :: string
  pm_intent :: string
  pm_base_head :: "string option"
  pm_session_id :: "string option"
  pm_files :: "patch_file list"
  pm_counts :: patch_counts

record 'w patch_env =
  px_receipts :: "'w receipt_env"
  px_git :: "'w mutations_env"
  px_policy :: write_policy
  px_manifest_text :: "patch_manifest \<Rightarrow> string"
  px_manifest_of :: "string \<Rightarrow> patch_manifest option"

abbreviation px_repo :: "'w patch_env \<Rightarrow> 'w repo_env" where
  "px_repo X \<equiv> og_repo (gm_git (px_git X))"

abbreviation px_fs :: "'w patch_env \<Rightarrow> 'w fs_env" where
  "px_fs X \<equiv> rp_fs (px_repo X)"

definition px_file :: "'w patch_env \<Rightarrow> string \<Rightarrow> string" where
  "px_file X p = posix_join (rp_root (px_repo X)) p"

definition new_path_of :: "patch_file \<Rightarrow> string option" where
  "new_path_of f = (case pf_operation f of P_Rename q \<Rightarrow> Some q | _ \<Rightarrow> None)"

definition patchsetAffectedPaths :: "patch_file list \<Rightarrow> string list" where
  "patchsetAffectedPaths files =
     concat (map (\<lambda>f. case pf_operation f of P_Rename q \<Rightarrow> [pf_path f, q] | _ \<Rightarrow> [pf_path f]) files)"

definition patchsetManifestPath :: "string \<Rightarrow> string" where
  "patchsetManifestPath patchset_id = ''.chatgpt/patchsets/'' @ patchset_id @ ''/manifest.json''"

text \<open>\<open>/^patchset-[A-Za-z0-9._-]+$/\<close>\<close>

definition patchset_id_ok :: "string \<Rightarrow> bool" where
  "patchset_id_ok p \<longleftrightarrow> prefix ''patchset-'' p \<and> drop 9 p \<noteq> [] \<and> list_all (\<lambda>c. is_alnum c \<or> c \<in> set ''._-'') (drop 9 p)"

definition hunks_ok :: "(string \<times> string) list \<Rightarrow> bool" where
  "hunks_ok hunks \<longleftrightarrow> hunks \<noteq> [] \<and> length hunks \<le> 25 \<and> list_all (\<lambda>h. fst h \<noteq> []) hunks"

definition patch_file_ok :: "patch_file \<Rightarrow> bool" where
  "patch_file_ok f \<longleftrightarrow> pf_path f \<noteq> [] \<and> optional (hex_n 64) (pf_expected_sha f) \<and> optional (hex_n 64) (pf_new_sha256 f)
     \<and> (case pf_operation f of P_Rename q \<Rightarrow> q \<noteq> [] | P_Edit hunks \<Rightarrow> hunks_ok hunks | _ \<Rightarrow> True)"

definition patch_manifest_ok :: "patch_manifest \<Rightarrow> bool" where
  "patch_manifest_ok m \<longleftrightarrow> patchset_id_ok (pm_patchset_id m) \<and> pm_intent m \<noteq> [] \<and> optional (hex_n 40) (pm_base_head m)
     \<and> pm_files m \<noteq> [] \<and> length (pm_files m) \<le> 25 \<and> list_all patch_file_ok (pm_files m)"

definition zod_error :: task_err where
  "zod_error = OtherErr None"

definition parsed :: "bool \<Rightarrow> task_err + unit" where
  "parsed ok = guardR ok zod_error"

section \<open>The manifest store\<close>

record prepare_input =
  pp_repo_id :: string
  pp_intent :: string
  pp_base_head :: "string option"
  pp_session_id :: "string option"
  pp_files :: "patch_file list"

definition assertSafeIntent :: "'w patch_env \<Rightarrow> string \<Rightarrow> task_err + unit" where
  "assertSafeIntent X intent = guardR (\<not> re_unsafe_text (px_receipts X) intent) (repo_error ''VALIDATION_ERROR'')"

definition prepare_file :: "'w patch_env \<Rightarrow> patch_file \<Rightarrow> task_err + patch_file" where
  "prepare_file X f =
     bindR (validateRepoPath (pf_path f)) (\<lambda>p.
     let allowed = assertAllowed (px_repo X) (px_policy X);
         written = (\<lambda>content. bindR (allowed p (length (rp_encode (px_repo X) content))) (\<lambda>_.
           Inr (f\<lparr>pf_path := p, pf_new_sha256 := Some (rp_sha256 (px_repo X) (rp_encode (px_repo X) content))\<rparr>))) in
     case pf_operation f of
       P_Create content \<Rightarrow> written content
     | P_Modify content \<Rightarrow> written content
     | P_Rename q \<Rightarrow> bindR (allowed p 0) (\<lambda>_. bindR (validateRepoPath q) (\<lambda>n. bindR (allowed n 0) (\<lambda>_.
         Inr (f\<lparr>pf_path := p, pf_operation := P_Rename n\<rparr>))))
     | P_Edit hunks \<Rightarrow> bindR (allowed p 0) (\<lambda>_. Inr (f\<lparr>pf_path := p, pf_hunk_count := Some (length hunks)\<rparr>))
     | P_Delete \<Rightarrow> bindR (allowed p 0) (\<lambda>_. Inr (f\<lparr>pf_path := p\<rparr>)))"

definition assertUniquePaths :: "string list \<Rightarrow> task_err + unit" where
  "assertUniquePaths paths = guardR (distinct paths) (repo_error ''VALIDATION_ERROR'')"

definition count_operation :: "(patch_operation \<Rightarrow> bool) \<Rightarrow> patch_file list \<Rightarrow> nat" where
  "count_operation P files = length (filter (\<lambda>f. P (pf_operation f)) files)"

definition counts_of :: "patch_file list \<Rightarrow> patch_counts" where
  "counts_of files = \<lparr>pc_files = length files,
     pc_creates = count_operation (\<lambda>x. case x of P_Create _ \<Rightarrow> True | _ \<Rightarrow> False) files,
     pc_modifies = count_operation (\<lambda>x. case x of P_Modify _ \<Rightarrow> True | _ \<Rightarrow> False) files,
     pc_deletes = count_operation (\<lambda>x. case x of P_Delete \<Rightarrow> True | _ \<Rightarrow> False) files,
     pc_renames = count_operation (\<lambda>x. case x of P_Rename _ \<Rightarrow> True | _ \<Rightarrow> False) files,
     pc_edits = count_operation (\<lambda>x. case x of P_Edit _ \<Rightarrow> True | _ \<Rightarrow> False) files\<rparr>"

definition createPatchsetId :: "'w patch_env \<Rightarrow> ('w, string) fs_eff" where
  "createPatchsetId X = stamped_id (px_receipts X) ''patchset''"

definition prepare_input_ok :: "prepare_input \<Rightarrow> bool" where
  "prepare_input_ok i \<longleftrightarrow> pp_intent i \<noteq> [] \<and> optional (hex_n 40) (pp_base_head i) \<and> pp_files i \<noteq> []
     \<and> length (pp_files i) \<le> 25 \<and> list_all patch_file_ok (pp_files i)"

text \<open>What the schema keeps of a file of the request.\<close>

definition stripped_file :: "patch_file \<Rightarrow> patch_file" where
  "stripped_file f = f\<lparr>pf_new_sha256 := None, pf_hunk_count := None,
     pf_expected_missing := (case pf_operation f of P_Create _ \<Rightarrow> pf_expected_missing f | P_Modify _ \<Rightarrow> pf_expected_missing f
       | _ \<Rightarrow> None)\<rparr>"

definition manifest_file_text :: "'w patch_env \<Rightarrow> patch_manifest \<Rightarrow> string" where
  "manifest_file_text X m = rp_encode (px_repo X) (px_manifest_text X m @ [CHR 0x0A])"

definition store_prepare :: "'w patch_env \<Rightarrow> prepare_input \<Rightarrow> ('w, patch_manifest) fs_eff" where
  "store_prepare X i =
     bindE (liftR (parsed (prepare_input_ok i))) (\<lambda>_.
     bindE (liftR (assertSafeIntent X (pp_intent i))) (\<lambda>_.
     bindE (liftR (mapM (prepare_file X) (map stripped_file (pp_files i)))) (\<lambda>files.
     bindE (liftR (assertUniquePaths (patchsetAffectedPaths files))) (\<lambda>_.
     bindE (createPatchsetId X) (\<lambda>patchset_id.
     bindE (askF (re_now (px_receipts X))) (\<lambda>now.
     let m = \<lparr>pm_patchset_id = patchset_id, pm_repo_id = pp_repo_id i, pm_created_at = now, pm_intent = pp_intent i,
           pm_base_head = pp_base_head i, pm_session_id = pp_session_id i, pm_files = files, pm_counts = counts_of files\<rparr> in
     bindE (liftR (parsed (patch_manifest_ok m))) (\<lambda>_.
     bindE (atomicWriteFile (px_fs X) (px_file X (patchsetManifestPath patchset_id)) (manifest_file_text X m)) (\<lambda>_.
     ret m))))))))"

definition readManifest :: "'w patch_env \<Rightarrow> string \<Rightarrow> ('w, patch_manifest) fs_eff" where
  "readManifest X patchset_id =
     bindE (sys_read (px_fs X) (px_file X (patchsetManifestPath patchset_id))) (\<lambda>raw.
     case px_manifest_of X raw of
       None \<Rightarrow> throw zod_error
     | Some m \<Rightarrow> bindE (liftR (parsed (patch_manifest_ok m))) (\<lambda>_. ret m))"

section \<open>Recovery\<close>

record patch_ledger =
  pl_apply :: "ledger_entry option"
  pl_rollback :: "ledger_entry option"

definition ledger_step :: "string \<Rightarrow> patch_ledger \<Rightarrow> ledger_entry \<Rightarrow> patch_ledger" where
  "ledger_step patchset_id l e =
     (if ri_patchset_id (or_body (le_receipt e)) \<noteq> Some patchset_id then l
      else case le_event e of
          Write_Applied \<Rightarrow> \<lparr>pl_apply = Some e, pl_rollback = None\<rparr>
        | Patchset_Rolled_Back \<Rightarrow> l\<lparr>pl_rollback := Some e\<rparr>)"

definition patchsetLedgerState :: "'w patch_env \<Rightarrow> string \<Rightarrow> string \<Rightarrow> ('w, patch_ledger) fs_eff" where
  "patchsetLedgerState X repo_id patchset_id =
     bindE (readAllForRepo (px_receipts X) repo_id) (\<lambda>(events, _).
     ret (foldl (ledger_step patchset_id) \<lparr>pl_apply = None, pl_rollback = None\<rparr> events))"

definition assertNoStagedPatchsetPaths :: "status_file list \<Rightarrow> string list \<Rightarrow> task_err + unit" where
  "assertNoStagedPatchsetPaths files affected =
     guardR (filter (\<lambda>f. gf_path f \<in> set affected \<and> trim (gf_index f) \<noteq> [] \<and> gf_index f \<noteq> ''?'') files = [])
       (repo_error ''PATCHSET_ROLLBACK_STAGED_PATHS'')"

definition readExistingFile :: "'w patch_env \<Rightarrow> string \<Rightarrow> ('w, string option) fs_eff" where
  "readExistingFile X p =
     catchE (bindE (sys_read (px_fs X) (px_file X p)) (\<lambda>c. ret (Some c))) (\<lambda>e. if not_found e then ret None else throw e)"

definition assertDeletableCreatedFile :: "'w patch_env \<Rightarrow> string \<Rightarrow> ('w, unit) fs_eff" where
  "assertDeletableCreatedFile X p =
     bindE (sandbox_resolve (px_repo X) p) (\<lambda>r.
     throw_if (nd_kind (rv_stat r) \<noteq> Regular) (repo_error ''PATCHSET_ROLLBACK_UNSUPPORTED_TARGET''))"

type_synonym path_snapshot = "string \<times> string option"

fun capturePatchSnapshots :: "'w patch_env \<Rightarrow> string list \<Rightarrow> ('w, path_snapshot list) fs_eff" where
  "capturePatchSnapshots X [] = ret []"
| "capturePatchSnapshots X (p # ps) =
     bindE (readExistingFile X p) (\<lambda>c. bindE (capturePatchSnapshots X ps) (\<lambda>xs. ret ((p, c) # xs)))"

text \<open>\<open>writeFile\<close>: the file is truncated or made, then written.\<close>

definition sys_writeFile :: "'w fs_env \<Rightarrow> string \<Rightarrow> string \<Rightarrow> ('w, unit) fs_eff" where
  "sys_writeFile F p content =
     bindE (getE (\<lambda>s. map_option (\<lambda>i. (i, nd_kind (fs_nodes s i))) (node_of s p))) (\<lambda>found.
     case found of
       None \<Rightarrow> bindE (sys_create F p 438) (\<lambda>i. sys_write F i content)
     | Some (i, kind) \<Rightarrow>
         bindE (sys_call F ''open'') (\<lambda>_.
         bindE (throw_if (kind \<noteq> Regular) (OtherErr (Some ''EISDIR''))) (\<lambda>_. sys_write F i content)))"

definition restore_path :: "'w patch_env \<Rightarrow> path_snapshot \<Rightarrow> ('w, unit) fs_eff" where
  "restore_path X snapshot = (case snapshot of (p, old) \<Rightarrow>
     let absolute = px_file X p in
     case old of
       Some content \<Rightarrow> bindE (mkdir_recursive (px_fs X) (dirname_of absolute)) (\<lambda>_. sys_writeFile (px_fs X) absolute content)
     | None \<Rightarrow> catchE (sys_unlink (px_fs X) absolute) (\<lambda>e. if not_found e then ret () else throw e))"

definition restoreSnapshots :: "'w patch_env \<Rightarrow> path_snapshot list \<Rightarrow> ('w, unit) fs_eff" where
  "restoreSnapshots X snapshots = for_each (rev snapshots) (restore_path X)"

section \<open>Checks of one file\<close>

record checked_file =
  cf_absolute :: string
  cf_content :: string
  cf_sha256 :: string

definition validateExistingRegularFile :: "'w patch_env \<Rightarrow> string \<Rightarrow> string option \<Rightarrow> ('w, checked_file) fs_eff" where
  "validateExistingRegularFile X p expected =
     bindE (sandbox_resolve (px_repo X) p) (\<lambda>r.
     bindE (throw_if (nd_kind (rv_stat r) \<noteq> Regular) (repo_error ''UNSUPPORTED_FILE_TYPE'')) (\<lambda>_.
     bindE (sys_read (px_fs X) (rv_absolute r)) (\<lambda>content.
     let sha = rp_sha256 (px_repo X) content in
     bindE (throw_if (truthy_text expected \<and> expected \<noteq> Some sha) (repo_error ''WRITE_STALE_EXPECTED_SHA'')) (\<lambda>_.
     ret \<lparr>cf_absolute = rv_absolute r, cf_content = content, cf_sha256 = sha\<rparr>))))"

definition validateDestinationParent :: "'w patch_env \<Rightarrow> string \<Rightarrow> ('w, unit) fs_eff" where
  "validateDestinationParent X p =
     (let parent = posix_dirname p in
      if parent = ''.'' then ret ()
      else catchE
        (bindE (sandbox_resolve (px_repo X) parent) (\<lambda>r.
         throw_if (nd_kind (rv_stat r) \<noteq> Directory) (repo_error ''WRITE_PARENT_MISSING'')))
        (\<lambda>e. if not_found e then ret () else throw e))"

definition validateMissingPath :: "'w patch_env \<Rightarrow> string \<Rightarrow> ('w, unit) fs_eff" where
  "validateMissingPath X p =
     catchE
       (bindE (sandbox_resolve (px_repo X) p) (\<lambda>r.
        bindE (if nd_kind (rv_stat r) = Regular then bindE (sys_read (px_fs X) (rv_absolute r)) (\<lambda>_. ret ()) else ret ()) (\<lambda>_.
        throw (repo_error ''WRITE_TARGET_EXISTS''))))
       (\<lambda>e. if not_found e then validateDestinationParent X p else throw e)"

text \<open>The number of times \<open>find\<close> occurs, each search starting behind the last hit; the schema
  refuses an empty \<open>find\<close>, for which the loop of the source would not end.\<close>

function countOccurrences :: "string \<Rightarrow> string \<Rightarrow> nat" where
  "countOccurrences t anchor = (if anchor = [] then 0
     else case index_of anchor t of None \<Rightarrow> 0 | Some i \<Rightarrow> Suc (countOccurrences (drop (i + length anchor) t) anchor))"
  by pat_completeness auto

lemma index_of_bound: "index_of part old = Some i \<Longrightarrow> i + length part \<le> length old"
proof (induction part old arbitrary: i rule: index_of.induct)
  case (2 part x xs)
  show ?case
  proof (cases "prefix part (x # xs)")
    case True
    with 2(2) prefix_length_le [OF True] show ?thesis
      by auto
  next
    case False
    with 2 obtain j where "index_of part xs = Some j" "i = Suc j"
      by (auto split: if_splits)
    with 2(1) [OF False] show ?thesis
      by simp
  qed
qed (auto split: if_splits)

termination countOccurrences
  by (relation "measure (\<lambda>(t, anchor). length t)") (auto dest!: index_of_bound simp flip: length_greater_0_conv)

declare countOccurrences.simps [simp del]

datatype hunk_status = Matched | Not_Found | Not_Unique

record hunk_diagnostic =
  hd_path :: string
  hd_index :: nat
  hd_status :: hunk_status
  hd_occurrences :: nat

fun check_hunks :: "string \<Rightarrow> nat \<Rightarrow> string \<Rightarrow> (string \<times> string) list \<Rightarrow> task_err + hunk_diagnostic list" where
  "check_hunks p i t [] = Inr []"
| "check_hunks p i t ((anchor, replacement) # hs) =
     (let n = countOccurrences t anchor in
      if n \<noteq> 1 then Inl (repo_error ''PATCHSET_HUNK_VALIDATION_FAILED'')
      else bindR (check_hunks p (Suc i) (replace_first t anchor replacement) hs) (\<lambda>ds.
        Inr (\<lparr>hd_path = p, hd_index = i, hd_status = Matched, hd_occurrences = n\<rparr> # ds)))"

definition validateEditFile :: "'w patch_env \<Rightarrow> string \<Rightarrow> string option \<Rightarrow> (string \<times> string) list \<Rightarrow> ('w, hunk_diagnostic list) fs_eff" where
  "validateEditFile X p expected hunks =
     bindE (validateExistingRegularFile X p expected) (\<lambda>existing.
     bindE (liftR (decodeUtf8 (px_repo X) (cf_content existing))) (\<lambda>t.
     liftR (check_hunks p 0 t hunks)))"

definition assertTrackedPath :: "'w patch_env \<Rightarrow> string \<Rightarrow> ('w, unit) ops_eff" where
  "assertTrackedPath X p =
     catchE (bindE (ran_git (gm_git (px_git X)) (execFile_result (og_decode (gm_git (px_git X))) LIST_BUFFER)
         [''ls-files'', ''--error-unmatch'', ''--'', p]) (\<lambda>_. ret ()))
       (\<lambda>_. throw (repo_error ''VALIDATION_ERROR''))"

section \<open>Applying one file\<close>

definition write_of :: "patch_file \<Rightarrow> string \<Rightarrow> bool \<Rightarrow> bool \<Rightarrow> write_input" where
  "write_of f content create dry_run =
     \<lparr>wi_path = pf_path f, wi_action = Some W_write, wi_content = Some content, wi_find = None, wi_replace = None,
      wi_create_dirs = Some create, wi_dry_run = Some dry_run, wi_expected_sha = pf_expected_sha f,
      wi_expected_missing = pf_expected_missing f\<rparr>"

definition edit_of :: "patch_file \<Rightarrow> (string \<times> string) list \<Rightarrow> bool \<Rightarrow> edit_input" where
  "edit_of f hunks dry_run =
     \<lparr>ei_path = pf_path f,
      ei_edits = map (\<lambda>h. \<lparr>gx_type = W_replace, gx_find = Some (fst h), gx_replace = Some (snd h), gx_content = None\<rparr>) hunks,
      ei_dry_run = Some dry_run, ei_expected_sha = pf_expected_sha f, ei_expected_missing = None\<rparr>"

definition validateApplyFile :: "'w patch_env \<Rightarrow> patch_file \<Rightarrow> ('w, unit) ops_eff" where
  "validateApplyFile X f = (case pf_operation f of
       P_Create content \<Rightarrow> bindE (fsE (file_write (px_repo X) (px_policy X) (write_of f content True True))) (\<lambda>_. ret ())
     | P_Modify content \<Rightarrow> bindE (fsE (file_write (px_repo X) (px_policy X) (write_of f content False True))) (\<lambda>_. ret ())
     | P_Delete \<Rightarrow>
         bindE (fsE (validateExistingRegularFile X (pf_path f) (pf_expected_sha f))) (\<lambda>_. assertTrackedPath X (pf_path f))
     | P_Rename q \<Rightarrow>
         bindE (fsE (validateExistingRegularFile X (pf_path f) (pf_expected_sha f))) (\<lambda>_.
         bindE (assertTrackedPath X (pf_path f)) (\<lambda>_. fsE (validateMissingPath X q)))
     | P_Edit hunks \<Rightarrow> bindE (fsE (validateEditFile X (pf_path f) (pf_expected_sha f) hunks)) (\<lambda>_. ret ()))"

datatype operation_name = Op_Create | Op_Modify | Op_Delete | Op_Rename | Op_Edit

record apply_file_result =
  af_operation :: operation_name
  af_path :: string
  af_new_path :: "string option"
  af_changed :: bool
  af_old_sha256 :: "string option"
  af_new_sha256 :: "string option"
  af_hunks :: "hunk_diagnostic list"

definition written_result :: "operation_name \<Rightarrow> write_result \<Rightarrow> hunk_diagnostic list \<Rightarrow> apply_file_result" where
  "written_result name r hunks = \<lparr>af_operation = name, af_path = wr_path r, af_new_path = None, af_changed = wr_changed r,
     af_old_sha256 = wr_old_sha256 r, af_new_sha256 = Some (wr_new_sha256 r), af_hunks = hunks\<rparr>"

definition applyFile :: "'w patch_env \<Rightarrow> patch_file \<Rightarrow> bool \<Rightarrow> ('w, apply_file_result) fs_eff" where
  "applyFile X f dry_run = (case pf_operation f of
       P_Create content \<Rightarrow> bindE (file_write (px_repo X) (px_policy X) (write_of f content True dry_run)) (\<lambda>r.
         ret (written_result Op_Create r []))
     | P_Modify content \<Rightarrow> bindE (file_write (px_repo X) (px_policy X) (write_of f content False dry_run)) (\<lambda>r.
         ret (written_result Op_Modify r []))
     | P_Edit hunks \<Rightarrow>
         bindE (validateEditFile X (pf_path f) (pf_expected_sha f) hunks) (\<lambda>validation.
         bindE (writeGroupedEdit (px_repo X) (px_policy X) (edit_of f hunks dry_run)) (\<lambda>r.
         ret (written_result Op_Edit r validation)))
     | P_Delete \<Rightarrow>
         bindE (validateExistingRegularFile X (pf_path f) (pf_expected_sha f)) (\<lambda>existing.
         bindE (if dry_run then ret () else sys_unlink (px_fs X) (cf_absolute existing)) (\<lambda>_.
         ret \<lparr>af_operation = Op_Delete, af_path = pf_path f, af_new_path = None, af_changed = True,
              af_old_sha256 = Some (cf_sha256 existing), af_new_sha256 = None, af_hunks = []\<rparr>))
     | P_Rename q \<Rightarrow>
         bindE (validateExistingRegularFile X (pf_path f) (pf_expected_sha f)) (\<lambda>existing.
         bindE (validateMissingPath X q) (\<lambda>_.
         bindE (if dry_run then ret ()
                else bindE (mkdir_recursive (px_fs X) (dirname_of (px_file X q))) (\<lambda>_.
                     sys_rename (px_fs X) (cf_absolute existing) (px_file X q))) (\<lambda>_.
         ret \<lparr>af_operation = Op_Rename, af_path = pf_path f, af_new_path = Some q, af_changed = True,
              af_old_sha256 = Some (cf_sha256 existing), af_new_sha256 = Some (cf_sha256 existing), af_hunks = []\<rparr>))))"

fun apply_files :: "'w patch_env \<Rightarrow> bool \<Rightarrow> patch_file list \<Rightarrow> ('w, apply_file_result list) fs_eff" where
  "apply_files X dry_run [] = ret []"
| "apply_files X dry_run (f # fs) =
     bindE (applyFile X f dry_run) (\<lambda>r. bindE (apply_files X dry_run fs) (\<lambda>rs. ret (r # rs)))"


section \<open>The results of an application\<close>

definition changedPathsForResults :: "apply_file_result list \<Rightarrow> string list" where
  "changedPathsForResults rs = concat (map (\<lambda>r. if \<not> af_changed r then []
     else if af_operation r = Op_Rename \<and> truthy_text (af_new_path r) then [af_path r, the (af_new_path r)] else [af_path r]) rs)"

definition hunkDiagnosticsForResults :: "apply_file_result list \<Rightarrow> hunk_diagnostic list" where
  "hunkDiagnosticsForResults rs = concat (map af_hunks rs)"

definition hint_at :: "string \<Rightarrow> rollback_strategy \<Rightarrow> string \<Rightarrow> path_hint" where
  "hint_at p strategy reason = \<lparr>ph_path = p, ph_strategy = strategy, ph_reason = reason\<rparr>"

definition hints_of :: "apply_file_result \<Rightarrow> path_hint list" where
  "hints_of r =
     (if af_operation r = Op_Create then
        [hint_at (af_path r) Cleanup_Created ''Patchset rollback can delete this SHA-matched untracked created file.'']
      else if af_operation r = Op_Rename \<and> truthy_text (af_new_path r) then
        [hint_at (af_path r) Restore_Tracked ''Patchset rollback can restore this tracked rename source when current state still matches.'',
         hint_at (the (af_new_path r)) Cleanup_Created ''Patchset rollback can delete this SHA-matched untracked rename destination.'']
      else [hint_at (af_path r) Restore_Tracked
        (if af_operation r = Op_Delete
         then ''Patchset rollback can restore this tracked deleted path when current state still matches.''
         else ''Patchset rollback can restore this tracked modified path when current state still matches.'')])"

definition needs_head_reason :: string where
  "needs_head_reason = ''First-class rollback requires an expected Git HEAD; review the patchset and current Git state before calling repo_rollback_patchset.''"

definition rollbackHintForResults :: "apply_file_result list \<Rightarrow> bool \<Rightarrow> string option \<Rightarrow> rollback_hint" where
  "rollbackHintForResults rs executable unavailable =
     \<lparr>rh_executable = executable,
      rh_reason = (if rs = [] then ''No changed patchset paths require rollback.''
        else if executable then ''First-class rollback is available through repo_rollback_patchset while the patchset remains uncommitted, unstaged, and unchanged since apply.''
        else case unavailable of None \<Rightarrow> needs_head_reason | Some t \<Rightarrow> t),
      rh_paths = concat (map hints_of rs)\<rparr>"

definition changed_by :: "operation_name list \<Rightarrow> apply_file_result list \<Rightarrow> apply_file_result list" where
  "changed_by names rs = filter (\<lambda>r. af_operation r \<in> set names \<and> af_changed r) rs"

definition renamed_by :: "apply_file_result list \<Rightarrow> (string \<times> string) list" where
  "renamed_by rs = map (\<lambda>r. (af_path r, the (af_new_path r))) (filter (\<lambda>r. truthy_text (af_new_path r)) (changed_by [Op_Rename] rs))"

record apply_counts =
  ac_files :: nat
  ac_changed :: nat
  ac_created :: nat
  ac_modified :: nat
  ac_deleted :: nat
  ac_renamed :: nat
  ac_edited :: nat

record apply_result =
  ap_dry_run :: bool
  ap_changed_paths :: "string list"
  ap_created_paths :: "string list"
  ap_modified_paths :: "string list"
  ap_deleted_paths :: "string list"
  ap_renamed_paths :: "(string \<times> string) list"
  ap_hunks :: "hunk_diagnostic list"
  ap_counts :: apply_counts
  ap_receipt :: "receipt_ref option"
  ap_hint :: "rollback_hint option"
  ap_rollback_offered :: bool
  ap_warnings :: "string list"

definition apply_counts_of :: "nat \<Rightarrow> apply_file_result list \<Rightarrow> apply_counts" where
  "apply_counts_of files rs =
     \<lparr>ac_files = files, ac_changed = length (filter af_changed rs), ac_created = length (changed_by [Op_Create] rs),
      ac_modified = length (changed_by [Op_Modify, Op_Edit] rs), ac_deleted = length (changed_by [Op_Delete] rs),
      ac_renamed = length (changed_by [Op_Rename] rs), ac_edited = length (changed_by [Op_Edit] rs)\<rparr>"

definition apply_result_of ::
  "bool \<Rightarrow> nat \<Rightarrow> apply_file_result list \<Rightarrow> receipt_ref option \<Rightarrow> rollback_hint option \<Rightarrow> bool \<Rightarrow> string list \<Rightarrow> apply_result" where
  "apply_result_of dry files rs receipt hint offered warnings =
     \<lparr>ap_dry_run = dry, ap_changed_paths = changedPathsForResults rs,
      ap_created_paths = map af_path (changed_by [Op_Create] rs),
      ap_modified_paths = map af_path (changed_by [Op_Modify, Op_Edit] rs),
      ap_deleted_paths = map af_path (changed_by [Op_Delete] rs), ap_renamed_paths = renamed_by rs,
      ap_hunks = hunkDiagnosticsForResults rs, ap_counts = apply_counts_of files rs, ap_receipt = receipt, ap_hint = hint,
      ap_rollback_offered = offered, ap_warnings = warnings\<rparr>"

definition receipt_file_of :: "apply_file_result \<Rightarrow> receipt_file" where
  "receipt_file_of r =
     \<lparr>rf_path = af_path r, rf_new_path = (if truthy_text (af_new_path r) then af_new_path r else None),
      rf_action = Some (case af_operation r of Op_Create \<Rightarrow> Edited (Did W_write) | Op_Modify \<Rightarrow> Edited (Did W_write)
        | Op_Delete \<Rightarrow> Deleted_File | Op_Rename \<Rightarrow> Renamed_File | Op_Edit \<Rightarrow> Edited Did_edit),
      rf_changed = af_changed r, rf_created = (af_operation r = Op_Create),
      rf_old_sha256 = (if truthy_text (af_old_sha256 r) then af_old_sha256 r else None),
      rf_new_sha256 = (if truthy_text (af_new_sha256 r) then af_new_sha256 r else None)\<rparr>"

definition apply_receipt_input ::
  "patch_manifest \<Rightarrow> string option \<Rightarrow> string \<Rightarrow> string \<Rightarrow> apply_file_result list \<Rightarrow> string \<Rightarrow> rollback_hint \<Rightarrow> receipt_input" where
  "apply_receipt_input m head repo_id patchset_id rs summary hint =
     (let changed = filter af_changed rs; created = map af_path (changed_by [Op_Create] rs) in
      \<lparr>ri_tool = Tool_Apply_Patchset, ri_repo_id = repo_id,
       ri_head_before = (if truthy_text head then head else None), ri_head_after = (if truthy_text head then head else None),
       ri_touched = map af_path rs, ri_changed = changedPathsForResults changed, ri_created = created,
       ri_modified = map af_path (changed_by [Op_Modify, Op_Edit] rs),
       ri_counts = \<lparr>rn_requested = length (pm_files m), rn_changed = length changed, rn_created = length created,
         rn_unchanged = length rs - length changed\<rparr>,
       ri_summary = summary, ri_files = Some (map receipt_file_of rs), ri_hint = Some hint,
       ri_patchset_id = Some patchset_id, ri_commit_sha = None, ri_validation_ids = None\<rparr>)"

end
