(* ===== verification/Patchset_Service.thy ===== *)
theory Patchset_Service
  imports Patchsets
begin

text \<open>
  Applying and rolling back a patchset (src/services/patchset-service.ts). An application that
  fails goes back to the snapshots it took; a rollback restores the tracked paths with Git and
  deletes the paths the application created, when their content is still what it wrote.
\<close>

section \<open>Applying\<close>

record apply_input =
  ai_repo_id :: string
  ai_patchset_id :: string
  ai_expected_head :: "string option"
  ai_dry_run :: "bool option"

definition apply_input_ok :: "apply_input \<Rightarrow> bool" where
  "apply_input_ok i \<longleftrightarrow> patchset_id_ok (ai_patchset_id i) \<and> optional (hex_n 40) (ai_expected_head i)"

definition same_repo :: "patch_manifest \<Rightarrow> string \<Rightarrow> task_err + unit" where
  "same_repo m repo_id = guardR (pm_repo_id m = repo_id) (repo_error ''VALIDATION_ERROR'')"

definition rollback_head :: "apply_input \<Rightarrow> patch_manifest \<Rightarrow> string option" where
  "rollback_head i m = (case ai_expected_head i of Some h \<Rightarrow> Some h | None \<Rightarrow> pm_base_head m)"

definition check_head :: "'w patch_env \<Rightarrow> string option \<Rightarrow> ('w, unit) ops_eff" where
  "check_head X head =
     (if \<not> truthy_text head then ret ()
      else bindE (status_of_repo (gm_git (px_git X))) (\<lambda>status.
           throw_if (Some (gs_head status) \<noteq> head) (repo_error ''GIT_HEAD_MISMATCH'')))"

definition plural :: "nat \<Rightarrow> string \<Rightarrow> string \<Rightarrow> string" where
  "plural n one many = (if n = 1 then one else many)"

definition apply_summary :: "string \<Rightarrow> nat \<Rightarrow> string" where
  "apply_summary patchset_id n = ''Applied patchset '' @ patchset_id @ '' across '' @ nat_digits n @ '' '' @ plural n ''file'' ''files'' @ ''.''"

definition pending_reason :: string where
  "pending_reason = ''First-class rollback is not advertised until the patchset apply ledger entry is recorded.''"

definition unrecorded_reason :: string where
  "unrecorded_reason = ''First-class rollback is unavailable because the patchset apply ledger entry could not be recorded; review the patchset and current Git state before recovery.''"

text \<open>The files of the manifest one after the other; the snapshots are put back when one fails.\<close>

definition apply_or_restore :: "'w patch_env \<Rightarrow> patch_file list \<Rightarrow> ('w, apply_file_result list) fs_eff" where
  "apply_or_restore X files =
     bindE (capturePatchSnapshots X (patchsetAffectedPaths files)) (\<lambda>snapshots.
     catchE (apply_files X False files) (\<lambda>e. bindE (restoreSnapshots X snapshots) (\<lambda>_. throw e)))"

definition record_apply :: "'w patch_env \<Rightarrow> apply_input \<Rightarrow> patch_manifest \<Rightarrow> apply_file_result list \<Rightarrow> ('w, apply_result) fs_eff" where
  "record_apply X i m rs =
     (let head = rollback_head i m; changed = filter af_changed rs;
          summary = apply_summary (ai_patchset_id i) (length (changedPathsForResults changed));
          requested = rollbackHintForResults changed (truthy_text head) None;
          pending = rollbackHintForResults changed False (Some pending_reason) in
      bindE (writeLastWrite (px_receipts X) (apply_receipt_input m head (ai_repo_id i) (ai_patchset_id i) rs summary requested)
         None (Some pending)) (\<lambda>receipt.
      let recorded = (case ro_receipt receipt of None \<Rightarrow> False | Some r \<Rightarrow> rr_in_ledger r) in
      ret (apply_result_of False (length (pm_files m)) rs (ro_receipt receipt)
         (Some (rollbackHintForResults changed (truthy_text head \<and> recorded) (if truthy_text head then Some unrecorded_reason else None)))
         (changed \<noteq> [] \<and> truthy_text head \<and> recorded) (ro_warnings receipt))))"

definition patchset_apply :: "'w patch_env \<Rightarrow> apply_input \<Rightarrow> ('w, apply_result) ops_eff" where
  "patchset_apply X i =
     bindE (liftR (parsed (apply_input_ok i))) (\<lambda>_.
     bindE (fsE (readManifest X (ai_patchset_id i))) (\<lambda>m.
     bindE (liftR (same_repo m (ai_repo_id i))) (\<lambda>_.
     bindE (throw_if (truthy_text (ai_expected_head i) \<and> truthy_text (pm_base_head m) \<and> ai_expected_head i \<noteq> pm_base_head m)
        (repo_error ''GIT_HEAD_MISMATCH'')) (\<lambda>_.
     bindE (check_head X (rollback_head i m)) (\<lambda>_.
     bindE (for_each (pm_files m) (validateApplyFile X)) (\<lambda>_.
     if ai_dry_run i = Some True then
       bindE (fsE (apply_files X True (pm_files m))) (\<lambda>planned.
       ret (apply_result_of True (length (pm_files m)) planned None None False []))
     else
       bindE (fsE (apply_or_restore X (pm_files m))) (\<lambda>rs. fsE (record_apply X i m rs))))))))"

section \<open>The plan of a rollback\<close>

record rollback_plan =
  rp_restored :: "string list"
  rp_deleted :: "string list"
  rp_skipped :: "(string \<times> string) list"
  rp_before :: "(string \<times> string) list"
  rp_after :: "(string \<times> string) list"

definition empty_plan :: rollback_plan where
  "empty_plan = \<lparr>rp_restored = [], rp_deleted = [], rp_skipped = [], rp_before = [], rp_after = []\<rparr>"

definition skip_path :: "string \<Rightarrow> string \<Rightarrow> rollback_plan \<Rightarrow> rollback_plan" where
  "skip_path p reason plan = plan\<lparr>rp_skipped := rp_skipped plan @ [(p, reason)]\<rparr>"

definition plan_restore :: "string \<Rightarrow> string option \<Rightarrow> rollback_plan \<Rightarrow> rollback_plan" where
  "plan_restore p old plan = plan\<lparr>rp_restored := rp_restored plan @ [p],
     rp_after := (if truthy_text old then put_file p (the old) (rp_after plan) else rp_after plan)\<rparr>"

definition plan_delete :: "string \<Rightarrow> rollback_plan \<Rightarrow> rollback_plan" where
  "plan_delete p plan = plan\<lparr>rp_deleted := rp_deleted plan @ [p]\<rparr>"

definition saw_content :: "string \<Rightarrow> string \<Rightarrow> rollback_plan \<Rightarrow> rollback_plan" where
  "saw_content p sha plan = plan\<lparr>rp_before := put_file p sha (rp_before plan)\<rparr>"

definition drift :: task_err where
  "drift = repo_error ''PATCHSET_ROLLBACK_DRIFT''"

definition applied_file :: "ledger_entry \<Rightarrow> string \<Rightarrow> receipt_file option" where
  "applied_file e p = (case ri_files (or_body (le_receipt e)) of None \<Rightarrow> None | Some fs \<Rightarrow> find (\<lambda>f. rf_path f = p) fs)"

definition untracked :: "status_file list \<Rightarrow> string \<Rightarrow> bool" where
  "untracked files p = (case find (\<lambda>f. gf_path f = p) files of None \<Rightarrow> False
     | Some f \<Rightarrow> gf_index f = ''?'' \<and> gf_worktree f = ''?'')"

definition or_else :: "'a option \<Rightarrow> 'a option \<Rightarrow> 'a option" where
  "or_else x y = (case x of None \<Rightarrow> y | Some _ \<Rightarrow> x)"

text \<open>A path that the application made: its content is what was written and Git does not track it.\<close>

definition plan_created :: "'w patch_env \<Rightarrow> status_file list \<Rightarrow> string \<Rightarrow> string \<Rightarrow> bool \<Rightarrow> rollback_plan \<Rightarrow> ('w, rollback_plan) fs_eff" where
  "plan_created X files p content drifted plan =
     bindE (throw_if drifted drift) (\<lambda>_.
     bindE (throw_if (\<not> untracked files p) drift) (\<lambda>_.
     bindE (assertDeletableCreatedFile X p) (\<lambda>_.
     ret (plan_delete p (saw_content p (rp_sha256 (px_repo X) content) plan)))))"

definition plan_file :: "'w patch_env \<Rightarrow> ledger_entry \<Rightarrow> status_file list \<Rightarrow> rollback_plan \<Rightarrow> patch_file \<Rightarrow> ('w, rollback_plan) fs_eff" where
  "plan_file X entry files plan f =
     (let p = pf_path f; sha = rp_sha256 (px_repo X) in
      case applied_file entry p of
        None \<Rightarrow> ret (skip_path p ''UNCHANGED_BY_APPLY'' plan)
      | Some a \<Rightarrow>
          if \<not> rf_changed a then ret (skip_path p ''UNCHANGED_BY_APPLY'' plan)
          else let expected = or_else (rf_new_sha256 a) (pf_new_sha256 f) in
          case pf_operation f of
            P_Create _ \<Rightarrow> bindE (readExistingFile X p) (\<lambda>content.
              case content of
                None \<Rightarrow> ret (skip_path p ''CREATED_PATH_ALREADY_MISSING'' plan)
              | Some c \<Rightarrow> plan_created X files p c (Some (sha c) \<noteq> expected) plan)
          | P_Delete \<Rightarrow> bindE (readExistingFile X p) (\<lambda>content.
              bindE (throw_if (content \<noteq> None) drift) (\<lambda>_. ret (plan_restore p (rf_old_sha256 a) plan)))
          | P_Rename q \<Rightarrow> bindE (readExistingFile X p) (\<lambda>old.
              bindE (throw_if (old \<noteq> None) drift) (\<lambda>_.
              bindE (readExistingFile X q) (\<lambda>new.
              case new of
                None \<Rightarrow> throw drift
              | Some c \<Rightarrow> bindE (plan_created X files q c (truthy_text expected \<and> Some (sha c) \<noteq> expected) plan) (\<lambda>planned.
                  ret (plan_restore p (rf_old_sha256 a) planned)))))
          | _ \<Rightarrow> bindE (readExistingFile X p) (\<lambda>content.
              case content of
                None \<Rightarrow> throw drift
              | Some c \<Rightarrow> bindE (throw_if (Some (sha c) \<noteq> expected) drift) (\<lambda>_.
                  ret (plan_restore p (rf_old_sha256 a) (saw_content p (sha c) plan)))))"

definition planRollback :: "'w patch_env \<Rightarrow> patch_manifest \<Rightarrow> ledger_entry \<Rightarrow> status_file list \<Rightarrow> ('w, rollback_plan) fs_eff" where
  "planRollback X m entry files = foldE (plan_file X entry files) empty_plan (pm_files m)"

section \<open>Rolling back\<close>

record rollback_input =
  rb_repo_id :: string
  rb_patchset_id :: string
  rb_expected_head :: string
  rb_dry_run :: "bool option"

record rollback_result =
  rq_dry :: bool
  rq_restored_paths :: "string list"
  rq_deleted_paths :: "string list"
  rq_skipped_paths :: "(string \<times> string) list"
  rq_receipt :: "receipt_ref option"
  rq_warnings :: "string list"

definition rollback_input_ok :: "rollback_input \<Rightarrow> bool" where
  "rollback_input_ok i \<longleftrightarrow> patchset_id_ok (rb_patchset_id i) \<and> hex_n 40 (rb_expected_head i)"

definition rollback_summary :: "string \<Rightarrow> nat \<Rightarrow> string" where
  "rollback_summary patchset_id n = ''Rolled back patchset '' @ patchset_id @ '' across '' @ nat_digits n @ '' '' @ plural n ''path'' ''paths'' @ ''.''"

definition rolled_file :: "rollback_plan \<Rightarrow> string \<Rightarrow> bool \<Rightarrow> receipt_file" where
  "rolled_file plan p restored =
     \<lparr>rf_path = p, rf_new_path = None, rf_action = None, rf_changed = True, rf_created = False,
      rf_old_sha256 = map_of (rp_before plan) p, rf_new_sha256 = (if restored then map_of (rp_after plan) p else None)\<rparr>"

definition rollback_receipt_input :: "patch_manifest \<Rightarrow> rollback_input \<Rightarrow> rollback_plan \<Rightarrow> receipt_input" where
  "rollback_receipt_input m i plan =
     (let affected = patchsetAffectedPaths (pm_files m); changed = rp_restored plan @ rp_deleted plan;
          head = (if truthy_text (pm_base_head m) then pm_base_head m else None) in
      \<lparr>ri_tool = Tool_Rollback_Patchset, ri_repo_id = rb_repo_id i, ri_head_before = head, ri_head_after = head,
       ri_touched = affected, ri_changed = changed, ri_created = [], ri_modified = rp_restored plan,
       ri_counts = \<lparr>rn_requested = length affected, rn_changed = length changed, rn_created = 0, rn_unchanged = length (rp_skipped plan)\<rparr>,
       ri_summary = rollback_summary (rb_patchset_id i) (length changed),
       ri_files = Some (map (\<lambda>p. rolled_file plan p True) (rp_restored plan) @ map (\<lambda>p. rolled_file plan p False) (rp_deleted plan)),
       ri_hint = None, ri_patchset_id = Some (rb_patchset_id i), ri_commit_sha = None, ri_validation_ids = None\<rparr>)"

text \<open>What the ledger must say: applied, not committed, not rolled back since.\<close>

definition applied_entry :: "patch_ledger \<Rightarrow> task_err + ledger_entry" where
  "applied_entry l = (case pl_apply l of
       None \<Rightarrow> Inl (repo_error ''PATCHSET_NOT_APPLIED'')
     | Some e \<Rightarrow>
         if truthy_text (ri_commit_sha (or_body (le_receipt e))) then Inl (repo_error ''PATCHSET_ALREADY_COMMITTED'')
         else if pl_rollback l \<noteq> None then Inl (repo_error ''PATCHSET_ALREADY_ROLLED_BACK'') else Inr e)"

definition execute_rollback :: "'w patch_env \<Rightarrow> rollback_input \<Rightarrow> rollback_plan \<Rightarrow> ('w, unit) ops_eff" where
  "execute_rollback X i plan =
     bindE (if rp_restored plan = [] then ret ()
            else bindE (restorePaths (px_git X) \<lparr>pi_repo_id = None, pi_paths = rp_restored plan,
                   pi_expected_head = rb_expected_head i, pi_dry_run = None\<rparr>) (\<lambda>_. ret ())) (\<lambda>_.
     for_each (rp_deleted plan) (\<lambda>p. fsE (sys_unlink (px_fs X) (px_file X p))))"

definition patchset_rollback :: "'w patch_env \<Rightarrow> rollback_input \<Rightarrow> ('w, rollback_result) ops_eff" where
  "patchset_rollback X i =
     bindE (liftR (parsed (rollback_input_ok i))) (\<lambda>_.
     bindE (fsE (readManifest X (rb_patchset_id i))) (\<lambda>m.
     bindE (liftR (same_repo m (rb_repo_id i))) (\<lambda>_.
     let affected = patchsetAffectedPaths (pm_files m) in
     bindE (liftR (assertRestoreAllowed (gm_policy (px_git X)) affected)) (\<lambda>_.
     bindE (fsE (patchsetLedgerState X (rb_repo_id i) (rb_patchset_id i))) (\<lambda>ledger.
     bindE (liftR (applied_entry ledger)) (\<lambda>entry.
     bindE (status_of_repo (gm_git (px_git X))) (\<lambda>status.
     bindE (throw_if (gs_head status \<noteq> rb_expected_head i) (repo_error ''GIT_HEAD_MISMATCH'')) (\<lambda>_.
     bindE (liftR (assertNoStagedPatchsetPaths (gs_files status) affected)) (\<lambda>_.
     bindE (fsE (planRollback X m entry (gs_files status))) (\<lambda>plan.
     bindE (unless_dry (rb_dry_run i) (execute_rollback X i plan)) (\<lambda>_.
     let changed = rp_restored plan @ rp_deleted plan; dry = (rb_dry_run i = Some True) in
     bindE (if dry \<or> changed = [] then ret \<lparr>ro_receipt = None, ro_warnings = []\<rparr>
            else fsE (writeLastWrite (px_receipts X) (rollback_receipt_input m i plan) (Some Patchset_Rolled_Back) None)) (\<lambda>receipt.
     ret \<lparr>rq_dry = dry, rq_restored_paths = rp_restored plan, rq_deleted_paths = rp_deleted plan,
          rq_skipped_paths = rp_skipped plan, rq_receipt = ro_receipt receipt, rq_warnings = ro_warnings receipt\<rparr>))))))))))))"

section \<open>Reviewing\<close>

record review_state =
  rs_applied :: bool
  rs_rolled_back :: bool

definition review_of :: "patch_ledger \<Rightarrow> review_state" where
  "review_of l = \<lparr>rs_applied = (pl_apply l \<noteq> None \<and> pl_rollback l = None), rs_rolled_back = (pl_rollback l \<noteq> None)\<rparr>"

definition patchset_review :: "'w patch_env \<Rightarrow> string \<Rightarrow> string \<Rightarrow> ('w, patch_manifest \<times> review_state) fs_eff" where
  "patchset_review X repo_id patchset_id =
     bindE (liftR (parsed (patchset_id_ok patchset_id))) (\<lambda>_.
     bindE (readManifest X patchset_id) (\<lambda>m.
     bindE (liftR (same_repo m repo_id)) (\<lambda>_.
     bindE (patchsetLedgerState X repo_id patchset_id) (\<lambda>l. ret (m, review_of l)))))"

definition patchset_prepare :: "'w patch_env \<Rightarrow> prepare_input \<Rightarrow> ('w, patch_manifest \<times> string list) fs_eff" where
  "patchset_prepare X i = bindE (store_prepare X i) (\<lambda>m. ret (m, patchsetAffectedPaths (pm_files m)))"

end
