(* ===== verification/Patchset_Properties.thy ===== *)
theory Patchset_Properties
  imports Patchset_Service Receipt_Properties
begin

text \<open>
  Patchsets: what the checks of an edit promise, what a rollback deletes and restores, and three
  ways in which an application or its rollback does more than it should.
\<close>

section \<open>The hunks of an edit\<close>

lemma counted_once:
  assumes "anchor \<noteq> []"
  shows "countOccurrences t anchor = 1 \<longleftrightarrow> (\<exists>i. assertFindAppearsExactlyOnce t anchor = Inr i)"
proof (cases "index_of anchor t")
  case None
  with assms show ?thesis
    by (simp add: countOccurrences.simps [of t] assertFindAppearsExactlyOnce_def)
next
  case (Some i)
  have "countOccurrences u anchor = 0 \<longleftrightarrow> index_of anchor u = None" for u
    using assms by (subst countOccurrences.simps) (simp split: option.split)
  with assms Some show ?thesis
    by (simp add: countOccurrences.simps [of t] assertFindAppearsExactlyOnce_def index_from_def)
qed

definition hunk_edit :: "string \<times> string \<Rightarrow> grouped_edit" where
  "hunk_edit h = \<lparr>gx_type = W_replace, gx_find = Some (fst h), gx_replace = Some (snd h), gx_content = None\<rparr>"

lemma edits_of_hunks: "ei_edits (edit_of f hunks dry_run) = map hunk_edit hunks"
  by (simp add: edit_of_def hunk_edit_def)

text \<open>C38 (equivalence). The diagnosis of the hunks of a patchset, which counts the occurrences of each
  anchor, accepts exactly the hunks that the writer, which searches twice, can apply one after the
  other.\<close>

theorem hunks_accepted_iff_applicable:
  assumes "list_all (\<lambda>h. fst h \<noteq> []) hunks"
  shows "(\<exists>ds. check_hunks p i t hunks = Inr ds) \<longleftrightarrow> (\<exists>u. applyGroupedEdits t (map hunk_edit hunks) = Inr u)"
  using assms
proof (induction hunks arbitrary: i t)
  case (Cons h hs)
  obtain anchor replacement where h: "h = (anchor, replacement)"
    by (cases h)
  with Cons.prems counted_once [of anchor t] Cons.IH [of "Suc i" "replace_first t anchor replacement"] show ?case
    by (cases "assertFindAppearsExactlyOnce t anchor"; cases "check_hunks p (Suc i) (replace_first t anchor replacement) hs")
      (auto simp: hunk_edit_def grouped_step_def requireFind_def requireReplace_def require_text_def bindR_def Let_def)
qed simp

theorem hunks_accepted_iff_applicable_witness:
  "(\<exists>ds. check_hunks ''a'' 0 ''xyx'' [(''y'', ''x''), (''x'', ''z'')] = Inr ds)
    \<longleftrightarrow> (\<exists>u. applyGroupedEdits ''xyx'' (map hunk_edit [(''y'', ''x''), (''x'', ''z'')]) = Inr u)"
  by (rule hunks_accepted_iff_applicable) simp

section \<open>The plan of a rollback\<close>






lemma plan_steps [simp]:
  "rp_deleted (skip_path p reason plan) = rp_deleted plan" "rp_restored (skip_path p reason plan) = rp_restored plan"
  "rp_deleted (plan_restore p old plan) = rp_deleted plan" "rp_restored (plan_restore p old plan) = rp_restored plan @ [p]"
  "rp_deleted (plan_delete p plan) = rp_deleted plan @ [p]" "rp_restored (plan_delete p plan) = rp_restored plan"
  "rp_deleted (saw_content p sha plan) = rp_deleted plan" "rp_restored (saw_content p sha plan) = rp_restored plan"
  by (simp_all add: skip_path_def plan_restore_def plan_delete_def saw_content_def)














definition sample_patch :: "nat patch_env" where
  "sample_patch = \<lparr>px_receipts = sample_receipts, px_git = sample_mutations, px_policy = sample_policy,
     px_manifest_text = (\<lambda>m. pm_patchset_id m), px_manifest_of = (\<lambda>_. None)\<rparr>"

definition patched :: "patch_operation \<Rightarrow> string \<Rightarrow> patch_file" where
  "patched operation p = \<lparr>pf_path = p, pf_operation = operation, pf_expected_sha = None, pf_expected_missing = None,
     pf_new_sha256 = None, pf_hunk_count = None\<rparr>"

definition sample_manifest :: "patch_file list \<Rightarrow> patch_manifest" where
  "sample_manifest files = \<lparr>pm_patchset_id = ''patchset-1'', pm_repo_id = ''repo'', pm_created_at = ''T'', pm_intent = ''i'',
     pm_base_head = None, pm_session_id = None, pm_files = files, pm_counts = counts_of files\<rparr>"

definition applied_as :: "receipt_file list \<Rightarrow> ledger_entry" where
  "applied_as files = \<lparr>le_entry_id = ''l'', le_event = Write_Applied,
     le_receipt = \<lparr>or_operation_id = ''w'', or_timestamp = ''T'', or_body = sample_receipt_input\<lparr>ri_files := Some files\<rparr>\<rparr>\<rparr>"

definition untracked_a :: "status_file list" where
  "untracked_a = [\<lparr>gf_path = ''a'', gf_original = None, gf_index = ''?'', gf_worktree = ''?''\<rparr>]"




section \<open>Where a patchset does more than it should\<close>

text \<open>A \<open>create\<close> without guards replaces a file that exists and that Git does not track; the receipt
  does not say so, and the rollback deletes the path: the old content is lost.\<close>

lemma created_over_existing_is_deleted:
  "(case applyFile sample_patch (patched (P_Create ''new'') ''a'') False one_file of (Inr r, t) \<Rightarrow>
      (file_at one_file ''/r/a'', file_at t ''/r/a'',
       map_sum id rp_deleted (fst (planRollback sample_patch (sample_manifest [patched (P_Create ''new'') ''a''])
         (applied_as [receipt_file_of r]) untracked_a t))))
   = (Some ''{}'', Some ''new'', Inr [''a''])"
  by code_simp

text \<open>Deletions and renames ask no write policy when they are applied; only the preparation does, and
  the manifest is a file of the repository in between.\<close>

lemma moves_ignore_the_policy:
  "applyFile (X\<lparr>px_policy := P\<rparr>) (patched P_Delete p) dry = applyFile X (patched P_Delete p) dry"
  "applyFile (X\<lparr>px_policy := P\<rparr>) (patched (P_Rename q) p) dry = applyFile X (patched (P_Rename q) p) dry"
  by (simp_all add: applyFile_def patched_def validateExistingRegularFile_def validateMissingPath_def
      validateDestinationParent_def px_file_def cong: if_cong)

text \<open>The destination of a rename is checked only as far as it exists: below a symbolic link that leads
  out of the repository, a directory that does not exist yet passes, and the file is moved there.\<close>

definition linked_patch :: "nat patch_env" where
  "linked_patch = sample_patch\<lparr>px_git := sample_mutations\<lparr>gm_git := sample_git\<lparr>og_repo := (sample_repo 99)\<lparr>
     rp_realpath := (\<lambda>p s. if p = ''/r/link'' then Inr ''/out'' else if node_of s p = None then Inl enoent else Inr p)\<rparr>\<rparr>\<rparr>\<rparr>"

definition linked_files :: "nat fs_state" where
  "linked_files = one_file\<lparr>fs_names := (''/r/link'', 2) # fs_names one_file,
     fs_nodes := (fs_nodes one_file)(2 := \<lparr>nd_kind = Directory, nd_mode = 448, nd_bytes = []\<rparr>), fs_next := 3\<rparr>"

lemma rename_escapes_through_link:
  "fst (sandbox_resolve (px_repo linked_patch) ''link'' linked_files) = Inl (repo_error ''SYMLINK_ESCAPE_REJECTED'')"
  "(case applyFile linked_patch (patched (P_Rename ''link/sub/b'') ''a'') False linked_files of (r, t) \<Rightarrow>
      (map_sum id af_changed r, file_at t ''/r/a'', file_at t ''/r/link/sub/b'')) = (Inr True, None, Some ''{}'')"
  by code_simp+

end
