(* ===== verification/Delegation_Contracts.thy ===== *)
theory Delegation_Contracts
  imports Git_Mutations
begin

text \<open>
  Records of delegated runs (src/delegation/artifact-contracts.ts, execution-runtime-contracts.ts,
  runtime-budget.ts): the run of an agent, its status, the supervisor of the queue, the admission,
  the intent and the result of a launch, and the questions and replies of a turn. Literal fields
  are left out of the records; the members that are digested are written out in full.
\<close>

section \<open>Names and identifiers\<close>

definition AGENT_RUNNER_RUNS_DIR :: string where
  "AGENT_RUNNER_RUNS_DIR = ''.chatgpt/codex-runs''"

definition DEFAULT_AGENT_RUNNER_MAX_RUNTIME_MS :: int where
  "DEFAULT_AGENT_RUNNER_MAX_RUNTIME_MS = 900000"

definition digits_n :: "nat \<Rightarrow> string \<Rightarrow> bool" where
  "digits_n n s \<longleftrightarrow> length s = n \<and> list_all is_digit s"

definition lower_or_digit :: "char \<Rightarrow> bool" where
  "lower_or_digit c \<longleftrightarrow> is_lower c \<or> is_digit c"

text \<open>\<open>/^[0-9]{4}-[0-9]{2}-[0-9]{2}T[0-9]{6}Z-[a-z0-9][a-z0-9-]{0,79}$/\<close>\<close>

definition run_id_ok :: "string \<Rightarrow> bool" where
  "run_id_ok s \<longleftrightarrow> digits_n 4 (take 4 s) \<and> take 1 (drop 4 s) = ''-'' \<and> digits_n 2 (take 2 (drop 5 s))
     \<and> take 1 (drop 7 s) = ''-'' \<and> digits_n 2 (take 2 (drop 8 s)) \<and> take 1 (drop 10 s) = ''T''
     \<and> digits_n 6 (take 6 (drop 11 s)) \<and> take 2 (drop 17 s) = ''Z-''
     \<and> (case drop 19 s of [] \<Rightarrow> False
        | c # cs \<Rightarrow> lower_or_digit c \<and> length cs \<le> 79 \<and> list_all (\<lambda>x. lower_or_digit x \<or> x = CHR ''-'') cs)"

datatype runner_name = Opencode_Sdk | Opencode_Server | Codex_Sdk | Codex_App_Server

fun runner_text :: "runner_name \<Rightarrow> string" where
  "runner_text Opencode_Sdk = ''opencode_sdk''"
| "runner_text Opencode_Server = ''opencode_server''"
| "runner_text Codex_Sdk = ''codex_sdk''"
| "runner_text Codex_App_Server = ''codex_app_server''"

datatype runner_mode = Manual | Queued

record runner_metadata =
  rme_mode :: runner_mode
  rme_requested :: "runner_name option"
  rme_auto_start :: "bool option"
  rme_max_runtime :: "int option"
  rme_profile :: "string option"
  rme_commit_after_green :: "bool option"

definition positive :: "int \<Rightarrow> bool" where
  "positive n \<longleftrightarrow> 0 < n"

definition runner_metadata_ok :: "runner_metadata \<Rightarrow> bool" where
  "runner_metadata_ok m \<longleftrightarrow> optional positive (rme_max_runtime m) \<and> optional (\<lambda>p. p \<noteq> []) (rme_profile m)"

text \<open>\<open>/^dispatch_[a-f0-9]{64}$/\<close>, \<open>/^[a-z0-9][a-z0-9._-]{0,127}$/\<close>, \<open>/^[A-Z][A-Z0-9_]{0,127}$/\<close> and
  \<open>/^[a-f0-9]{40,64}$/\<close>\<close>

definition dispatch_id_ok :: "string \<Rightarrow> bool" where
  "dispatch_id_ok s \<longleftrightarrow> prefix ''dispatch_'' s \<and> hex_n 64 (drop 9 s)"

definition service_name_ok :: "string \<Rightarrow> bool" where
  "service_name_ok s = (case s of [] \<Rightarrow> False
     | c # cs \<Rightarrow> lower_or_digit c \<and> length cs \<le> 127 \<and> list_all (\<lambda>x. lower_or_digit x \<or> x \<in> set ''._-'') cs)"

definition stable_code :: "string \<Rightarrow> bool" where
  "stable_code s = (case s of [] \<Rightarrow> False
     | c # cs \<Rightarrow> is_upper c \<and> length cs \<le> 127 \<and> list_all (\<lambda>x. is_upper x \<or> is_digit x \<or> x = CHR ''_'') cs)"

definition object_id_ok :: "string \<Rightarrow> bool" where
  "object_id_ok s \<longleftrightarrow> 40 \<le> length s \<and> length s \<le> 64 \<and> list_all is_hex s"

section \<open>The supervisor\<close>

record service_identity =
  svi_service_id :: string
  svi_instance_id :: string

definition service_identity_ok :: "service_identity \<Rightarrow> bool" where
  "service_identity_ok i \<longleftrightarrow> service_name_ok (svi_service_id i) \<and> service_name_ok (svi_instance_id i)"

definition identity_json :: "service_identity \<Rightarrow> json" where
  "identity_json i = JObj [(''schema_version'', JNum 1), (''service_id'', JStr (svi_service_id i)),
     (''instance_id'', JStr (svi_instance_id i)), (''implementation'', JStr ''chat-pro-repository-mcp''),
     (''protocol'', JStr ''semantic-worker-dispatch-v1'')]"

datatype supervisor_status = Sup_Starting | Sup_Ready | Sup_Running | Sup_Degraded | Sup_Stopped

fun supervisor_status_text :: "supervisor_status \<Rightarrow> string" where
  "supervisor_status_text Sup_Starting = ''starting''"
| "supervisor_status_text Sup_Ready = ''ready''"
| "supervisor_status_text Sup_Running = ''running''"
| "supervisor_status_text Sup_Degraded = ''degraded''"
| "supervisor_status_text Sup_Stopped = ''stopped''"

datatype queue_consumer = Con_Idle | Con_Scanning | Con_Launching | Con_Blocked_Unknown

fun consumer_text :: "queue_consumer \<Rightarrow> string" where
  "consumer_text Con_Idle = ''idle''"
| "consumer_text Con_Scanning = ''scanning''"
| "consumer_text Con_Launching = ''launching''"
| "consumer_text Con_Blocked_Unknown = ''blocked_unknown_effect''"

datatype public_contact = Contact_None | Contact_Possible | Contact_Confirmed

fun public_contact_text :: "public_contact \<Rightarrow> string" where
  "public_contact_text Contact_None = ''none''"
| "public_contact_text Contact_Possible = ''possible''"
| "public_contact_text Contact_Confirmed = ''confirmed''"

record health_attestation =
  hat_identity :: service_identity
  hat_status :: supervisor_status
  hat_consumer :: queue_consumer
  hat_active_dispatch :: "string option"
  hat_last_scan :: "string option"
  hat_unknown_count :: int
  hat_contact :: public_contact
  hat_live_effects :: bool
  hat_attested_at :: string
  hat_sha256 :: string

definition health_members :: "health_attestation \<Rightarrow> (string \<times> json) list" where
  "health_members h = [(''schema_version'', JNum 1), (''service_identity'', identity_json (hat_identity h)),
     (''status'', JStr (supervisor_status_text (hat_status h))), (''queue_consumer'', JStr (consumer_text (hat_consumer h))),
     (''active_dispatch_id'', nullable (hat_active_dispatch h)), (''last_scan_at'', nullable (hat_last_scan h)),
     (''unknown_effect_count'', JNum (hat_unknown_count h)), (''provider_contact'', JStr (public_contact_text (hat_contact h))),
     (''live_effects_enabled'', JBool (hat_live_effects h)), (''attested_at'', JStr (hat_attested_at h)),
     (''attestation_sha256'', JStr (hat_sha256 h))]"

definition health_ok :: "(string \<Rightarrow> bool) \<Rightarrow> health_attestation \<Rightarrow> bool" where
  "health_ok dt h \<longleftrightarrow> service_identity_ok (hat_identity h) \<and> hat_status h \<noteq> Sup_Starting
     \<and> optional dispatch_id_ok (hat_active_dispatch h) \<and> optional (timestamp_schema dt) (hat_last_scan h)
     \<and> 0 \<le> hat_unknown_count h \<and> timestamp_schema dt (hat_attested_at h) \<and> hex_n 64 (hat_sha256 h)"

record supervisor_state =
  sup_repo_id :: string
  sup_runner :: runner_name
  sup_status :: supervisor_status
  sup_revision :: int
  sup_heartbeat_at :: string
  sup_updated_at :: string
  sup_last_scan :: "string option"
  sup_last_claimed :: "string option"
  sup_active_run :: "string option"
  sup_stale_after :: int
  sup_identity :: "service_identity option"
  sup_health :: "health_attestation option"
  sup_warnings :: "string list"

definition supervisor_refinement :: "supervisor_state \<Rightarrow> bool" where
  "supervisor_refinement s \<longleftrightarrow> (sup_identity s = None \<longleftrightarrow> sup_health s = None)
     \<and> (case (sup_identity s, sup_health s) of (Some i, Some h) \<Rightarrow> i = hat_identity h \<and> sup_status s = hat_status h | _ \<Rightarrow> True)"

definition supervisor_ok :: "(string \<Rightarrow> bool) \<Rightarrow> supervisor_state \<Rightarrow> bool" where
  "supervisor_ok dt s \<longleftrightarrow> length_between 1 200 (sup_repo_id s) \<and> 0 \<le> sup_revision s
     \<and> timestamp_schema dt (sup_heartbeat_at s) \<and> timestamp_schema dt (sup_updated_at s)
     \<and> optional (timestamp_schema dt) (sup_last_scan s) \<and> optional run_id_ok (sup_last_claimed s)
     \<and> optional run_id_ok (sup_active_run s) \<and> 0 < sup_stale_after s \<and> optional service_identity_ok (sup_identity s)
     \<and> optional (health_ok dt) (sup_health s) \<and> length (sup_warnings s) \<le> 20
     \<and> list_all (length_between 1 500) (sup_warnings s) \<and> supervisor_refinement s"

section \<open>Launches\<close>

record task_binding =
  tbi_task_id :: string
  tbi_task_repo_id :: string
  tbi_base_repo_id :: string
  tbi_head_sha :: string
  tbi_tree_sha :: string
  tbi_state_sha256 :: string
  tbi_binding_sha256 :: string

record delegation_binding =
  dbi_manifest_sha256 :: string
  dbi_task_sha256 :: string
  dbi_baseline_sha256 :: string
  dbi_prompt_sha256 :: string

record dispatch_binding =
  dsb_repo_id :: string
  dsb_run_id :: string
  dsb_runner :: runner_name
  dsb_task :: task_binding
  dsb_delegation :: delegation_binding
  dsb_supervisor :: service_identity
  dsb_max_runtime :: int

record admitted_dispatch =
  dsp_dispatch_id :: string
  dsp_binding :: dispatch_binding
  dsp_admitted_at :: string
  dsp_admission_sha256 :: string
  dsp_record_sha256 :: string

definition task_binding_json :: "task_binding \<Rightarrow> json" where
  "task_binding_json t = JObj [(''task_id'', JStr (tbi_task_id t)), (''task_repo_id'', JStr (tbi_task_repo_id t)),
     (''base_repo_id'', JStr (tbi_base_repo_id t)), (''head_sha'', JStr (tbi_head_sha t)), (''tree_sha'', JStr (tbi_tree_sha t)),
     (''state_sha256'', JStr (tbi_state_sha256 t)), (''binding_sha256'', JStr (tbi_binding_sha256 t))]"

definition delegation_binding_json :: "delegation_binding \<Rightarrow> json" where
  "delegation_binding_json d = JObj [(''manifest_canonical_sha256'', JStr (dbi_manifest_sha256 d)),
     (''task_sha256'', JStr (dbi_task_sha256 d)), (''baseline_sha256'', JStr (dbi_baseline_sha256 d)),
     (''prompt_sha256'', JStr (dbi_prompt_sha256 d))]"

definition stable_binding_members :: "dispatch_binding \<Rightarrow> (string \<times> json) list" where
  "stable_binding_members b = [(''repo_id'', JStr (dsb_repo_id b)), (''run_id'', JStr (dsb_run_id b)),
     (''runner'', JStr (runner_text (dsb_runner b))), (''task_binding'', task_binding_json (dsb_task b)),
     (''delegation_binding'', delegation_binding_json (dsb_delegation b)), (''supervisor'', identity_json (dsb_supervisor b)),
     (''max_runtime_ms'', JNum (dsb_max_runtime b)), (''launch_ordinal'', JNum 1),
     (''replay_policy'', JStr ''never_after_launch_intent'')]"

definition dispatch_members :: "admitted_dispatch \<Rightarrow> (string \<times> json) list" where
  "dispatch_members d = [(''schema_version'', JNum 1), (''dispatch_id'', JStr (dsp_dispatch_id d))]
     @ stable_binding_members (dsp_binding d)
     @ [(''admitted_at'', JStr (dsp_admitted_at d)), (''admission_sha256'', JStr (dsp_admission_sha256 d)),
        (''record_sha256'', JStr (dsp_record_sha256 d))]"

definition dispatch_ok :: "(string \<Rightarrow> bool) \<Rightarrow> admitted_dispatch \<Rightarrow> bool" where
  "dispatch_ok dt d \<longleftrightarrow> (let b = dsp_binding d; t = dsb_task b; g = dsb_delegation b in
     dispatch_id_ok (dsp_dispatch_id d) \<and> length_between 1 200 (dsb_repo_id b) \<and> run_id_ok (dsb_run_id b)
     \<and> length_between 1 128 (tbi_task_id t) \<and> length_between 1 200 (tbi_task_repo_id t) \<and> length_between 1 200 (tbi_base_repo_id t)
     \<and> object_id_ok (tbi_head_sha t) \<and> object_id_ok (tbi_tree_sha t) \<and> hex_n 64 (tbi_state_sha256 t) \<and> hex_n 64 (tbi_binding_sha256 t)
     \<and> hex_n 64 (dbi_manifest_sha256 g) \<and> hex_n 64 (dbi_task_sha256 g) \<and> hex_n 64 (dbi_baseline_sha256 g) \<and> hex_n 64 (dbi_prompt_sha256 g)
     \<and> service_identity_ok (dsb_supervisor b) \<and> 0 < dsb_max_runtime b \<and> timestamp_schema dt (dsp_admitted_at d)
     \<and> hex_n 64 (dsp_admission_sha256 d) \<and> hex_n 64 (dsp_record_sha256 d))"

record launch_intent =
  lnc_dispatch_id :: string
  lnc_supervisor :: service_identity
  lnc_requested_at :: string
  lnc_sha256 :: string

definition intent_members :: "launch_intent \<Rightarrow> (string \<times> json) list" where
  "intent_members i = [(''schema_version'', JNum 1), (''dispatch_id'', JStr (lnc_dispatch_id i)), (''launch_ordinal'', JNum 1),
     (''supervisor'', identity_json (lnc_supervisor i)), (''requested_at'', JStr (lnc_requested_at i)),
     (''intent_sha256'', JStr (lnc_sha256 i))]"

definition intent_ok :: "(string \<Rightarrow> bool) \<Rightarrow> launch_intent \<Rightarrow> bool" where
  "intent_ok dt i \<longleftrightarrow> dispatch_id_ok (lnc_dispatch_id i) \<and> service_identity_ok (lnc_supervisor i)
     \<and> timestamp_schema dt (lnc_requested_at i) \<and> hex_n 64 (lnc_sha256 i)"

datatype launch_effect = No_External_Effect | Known_Complete | Known_Failed | Effect_Unknown

fun launch_effect_text :: "launch_effect \<Rightarrow> string" where
  "launch_effect_text No_External_Effect = ''no_external_effect''"
| "launch_effect_text Known_Complete = ''known_complete''"
| "launch_effect_text Known_Failed = ''known_failed''"
| "launch_effect_text Effect_Unknown = ''unknown''"

datatype provider_contact = Provider_None | Provider_Confirmed | Provider_Unknown

fun provider_contact_text :: "provider_contact \<Rightarrow> string" where
  "provider_contact_text Provider_None = ''none''"
| "provider_contact_text Provider_Confirmed = ''confirmed''"
| "provider_contact_text Provider_Unknown = ''unknown''"

datatype terminal_state = Term_Completed | Term_Blocked | Term_Failed | Term_Unknown

fun terminal_text :: "terminal_state \<Rightarrow> string" where
  "terminal_text Term_Completed = ''completed''"
| "terminal_text Term_Blocked = ''blocked''"
| "terminal_text Term_Failed = ''failed''"
| "terminal_text Term_Unknown = ''unknown''"

record launch_outcome =
  wlo_effect :: launch_effect
  wlo_contact :: provider_contact
  wlo_terminal :: terminal_state
  wlo_code :: string

definition outcome_ok :: "launch_outcome \<Rightarrow> bool" where
  "outcome_ok w \<longleftrightarrow> stable_code (wlo_code w) \<and> (wlo_effect w = Effect_Unknown \<longrightarrow> wlo_terminal w = Term_Unknown)
     \<and> (wlo_contact w = Provider_Unknown \<longrightarrow> wlo_effect w = Effect_Unknown)"

record launch_result =
  wlr_dispatch_id :: string
  wlr_outcome :: launch_outcome
  wlr_started_at :: string
  wlr_completed_at :: string
  wlr_sha256 :: string

definition launch_result_members :: "launch_result \<Rightarrow> (string \<times> json) list" where
  "launch_result_members r = (let w = wlr_outcome r in
     [(''schema_version'', JNum 1), (''dispatch_id'', JStr (wlr_dispatch_id r)), (''launch_ordinal'', JNum 1),
      (''effect_state'', JStr (launch_effect_text (wlo_effect w))), (''provider_contact'', JStr (provider_contact_text (wlo_contact w))),
      (''terminal_state'', JStr (terminal_text (wlo_terminal w))), (''outcome_code'', JStr (wlo_code w)),
      (''started_at'', JStr (wlr_started_at r)), (''completed_at'', JStr (wlr_completed_at r)),
      (''replay_allowed'', JBool False), (''result_sha256'', JStr (wlr_sha256 r))])"

definition launch_result_ok :: "(string \<Rightarrow> bool) \<Rightarrow> launch_result \<Rightarrow> bool" where
  "launch_result_ok dt r \<longleftrightarrow> dispatch_id_ok (wlr_dispatch_id r) \<and> outcome_ok (wlr_outcome r)
     \<and> timestamp_schema dt (wlr_started_at r) \<and> timestamp_schema dt (wlr_completed_at r) \<and> hex_n 64 (wlr_sha256 r)"

end
