(* ===== verification/Delegation_Records.thy ===== *)
theory Delegation_Records
  imports Delegation_Contracts
begin

text \<open>
  The status, the events, the attempts and the conversation of a delegated run
  (src/delegation/artifact-contracts.ts), and its budget of time (src/delegation/runtime-budget.ts).
\<close>

section \<open>The status of a run\<close>

datatype run_lifecycle = Run_Pending | Run_Claimed | Run_Running | Run_Awaiting_Input | Run_Completed | Run_Failed
  | Run_Blocked_Policy | Run_Blocked_Verification | Run_Timed_Out | Run_Canceled | Run_Committed

datatype validation_status = Val_Missing | Val_Skipped | Val_Passed | Val_Failed

record validation_state =
  vst_status :: validation_status
  vst_profile :: "string option"
  vst_artifact_path :: "string option"

datatype run_commit_status = Commit_Skipped | Commit_Committed | Commit_Failed

record run_commit_state =
  cst_attempted :: bool
  cst_allowed :: bool
  cst_status :: run_commit_status
  cst_commit_sha :: "string option"

text \<open>The repository, the run and, for the historical reviewer, the paths.\<close>

record run_review =
  rrv_codex :: "string \<times> string"
  rrv_legacy_ship :: "(string \<times> string list) option"
  rrv_instructions :: "string list"

datatype review_requirement = Product_Required | Technical_Only | Legacy_Unavailable

text \<open>What the two versions of a status have in common.\<close>

record status_body =
  rst_repo_id :: string
  rst_run_id :: string
  rst_runner :: runner_name
  rst_status :: run_lifecycle
  rst_revision :: int
  rst_started_at :: "string option"
  rst_updated_at :: string
  rst_completed_at :: "string option"
  rst_prompt_path :: string
  rst_result_found :: bool
  rst_head_before :: "string option"
  rst_head_after :: "string option"
  rst_worktree_before :: "string option"
  rst_worktree_after :: "string option"
  rst_changed_paths :: "string list"
  rst_validation :: validation_state
  rst_commit :: run_commit_state
  rst_review :: "run_review option"
  rst_warnings :: "string list"

record legacy_status =
  lgs_body :: status_body
  lgs_result_path :: string

record delegated_status =
  rsv_body :: status_body
  rsv_manifest_version :: int
  rsv_requirement :: review_requirement
  rsv_legacy_result_path :: "string option"
  rsv_result_json_path :: string

definition review_ok :: "run_review \<Rightarrow> bool" where
  "review_ok r \<longleftrightarrow> fst (rrv_codex r) \<noteq> [] \<and> run_id_ok (snd (rrv_codex r))
     \<and> optional (\<lambda>l. fst l \<noteq> [] \<and> length (snd l) \<le> 100) (rrv_legacy_ship r)
     \<and> length (rrv_instructions r) \<le> 4 \<and> list_all (length_between 1 500) (rrv_instructions r)"

definition non_empty :: "string \<Rightarrow> bool" where
  "non_empty s \<longleftrightarrow> s \<noteq> []"

definition status_body_ok :: "(string \<Rightarrow> bool) \<Rightarrow> status_body \<Rightarrow> bool" where
  "status_body_ok dt b \<longleftrightarrow> rst_repo_id b \<noteq> [] \<and> run_id_ok (rst_run_id b) \<and> 0 \<le> rst_revision b
     \<and> optional (timestamp_schema dt) (rst_started_at b) \<and> timestamp_schema dt (rst_updated_at b)
     \<and> optional (timestamp_schema dt) (rst_completed_at b) \<and> rst_prompt_path b \<noteq> []
     \<and> optional non_empty (vst_profile (rst_validation b)) \<and> optional non_empty (vst_artifact_path (rst_validation b))
     \<and> optional review_ok (rst_review b)"

definition legacy_status_ok :: "(string \<Rightarrow> bool) \<Rightarrow> legacy_status \<Rightarrow> bool" where
  "legacy_status_ok dt l \<longleftrightarrow> status_body_ok dt (lgs_body l) \<and> lgs_result_path l \<noteq> []
     \<and> optional (\<lambda>r. rrv_legacy_ship r \<noteq> None) (rst_review (lgs_body l))"

definition status_refinement :: "delegated_status \<Rightarrow> bool" where
  "status_refinement s \<longleftrightarrow>
     (if rsv_manifest_version s = 3 then rsv_legacy_result_path s = None \<and> rsv_requirement s \<noteq> Legacy_Unavailable
      else rsv_requirement s = Legacy_Unavailable)"

definition run_status_ok :: "(string \<Rightarrow> bool) \<Rightarrow> delegated_status \<Rightarrow> bool" where
  "run_status_ok dt s \<longleftrightarrow> status_body_ok dt (rsv_body s) \<and> rsv_manifest_version s \<in> {1, 2, 3}
     \<and> optional non_empty (rsv_legacy_result_path s) \<and> rsv_result_json_path s \<noteq> [] \<and> status_refinement s"

section \<open>Events\<close>

datatype run_event_type = Ev_Queued | Ev_Claimed | Ev_Started | Ev_Thread_Started | Ev_Thread_Resumed | Ev_Input_Requested
  | Ev_Input_Received | Ev_Heartbeat | Ev_Adapter_Event | Ev_Result_Detected | Ev_Validation_Started | Ev_Validation_Completed
  | Ev_Policy_Blocked | Ev_Commit_Started | Ev_Commit_Completed | Ev_Completed | Ev_Failed | Ev_Timed_Out | Ev_Canceled

record run_event =
  rev_repo_id :: string
  rev_run_id :: string
  rev_type :: run_event_type
  rev_timestamp :: string
  rev_summary :: "string option"

definition run_event_ok :: "(string \<Rightarrow> bool) \<Rightarrow> run_event \<Rightarrow> bool" where
  "run_event_ok dt e \<longleftrightarrow> rev_repo_id e \<noteq> [] \<and> run_id_ok (rev_run_id e) \<and> timestamp_schema dt (rev_timestamp e)
     \<and> optional (\<lambda>t. length t \<le> 2000) (rev_summary e)"

section \<open>Turns\<close>

datatype attempt_operation = Att_Start | Att_Resume

datatype attempt_state = Att_In_Flight | Att_Settled

record run_attempt =
  att_repo_id :: string
  att_run_id :: string
  att_provider :: runner_name
  att_operation :: attempt_operation
  att_turn_index :: int
  att_state :: attempt_state
  att_app_turn_id :: "string option"
  att_result_before :: "string option"
  att_active_before :: "int option"
  att_awaiting_ms :: "int option"
  att_awaiting_started :: "string option"
  att_started_at :: string
  att_updated_at :: string

definition one_line :: "nat \<Rightarrow> string \<Rightarrow> bool" where
  "one_line n s \<longleftrightarrow> length_between 1 n s \<and> CHR 0x00 \<notin> set s \<and> CHR 0x0D \<notin> set s \<and> CHR 0x0A \<notin> set s"

definition non_negative :: "int \<Rightarrow> bool" where
  "non_negative n \<longleftrightarrow> 0 \<le> n"

definition attempt_ok :: "(string \<Rightarrow> bool) \<Rightarrow> run_attempt \<Rightarrow> bool" where
  "attempt_ok dt a \<longleftrightarrow> length_between 1 200 (att_repo_id a) \<and> run_id_ok (att_run_id a)
     \<and> 0 \<le> att_turn_index a \<and> att_turn_index a \<le> 32 \<and> optional (one_line 1024) (att_app_turn_id a)
     \<and> optional (hex_n 64) (att_result_before a) \<and> optional non_negative (att_active_before a)
     \<and> optional non_negative (att_awaiting_ms a) \<and> optional (timestamp_schema dt) (att_awaiting_started a)
     \<and> timestamp_schema dt (att_started_at a) \<and> timestamp_schema dt (att_updated_at a)
     \<and> (att_state a = Att_Settled \<longrightarrow> att_awaiting_started a = None)"

record run_session =
  ses_repo_id :: string
  ses_run_id :: string
  ses_provider :: runner_name
  ses_thread_id :: string
  ses_model :: "string option"
  ses_turn_index :: int
  ses_max_runtime :: "int option"
  ses_active_runtime :: int
  ses_last_consumed :: "int option"
  ses_created_at :: string
  ses_updated_at :: string

definition session_ok :: "(string \<Rightarrow> bool) \<Rightarrow> run_session \<Rightarrow> bool" where
  "session_ok dt s \<longleftrightarrow> length_between 1 200 (ses_repo_id s) \<and> run_id_ok (ses_run_id s) \<and> one_line 1024 (ses_thread_id s)
     \<and> optional (one_line 512) (ses_model s) \<and> 0 \<le> ses_turn_index s \<and> ses_turn_index s \<le> 32
     \<and> optional positive (ses_max_runtime s) \<and> 0 \<le> ses_active_runtime s
     \<and> optional (\<lambda>n. 1 \<le> n \<and> n \<le> 32) (ses_last_consumed s)
     \<and> timestamp_schema dt (ses_created_at s) \<and> timestamp_schema dt (ses_updated_at s)"

definition interaction_text :: "string \<Rightarrow> bool" where
  "interaction_text s \<longleftrightarrow> length_between 1 2000 s \<and> CHR 0x00 \<notin> set s"

text \<open>\<open>/^q-[a-z0-9][a-z0-9-]{0,63}$/\<close>\<close>

definition question_id_ok :: "string \<Rightarrow> bool" where
  "question_id_ok s \<longleftrightarrow> prefix ''q-'' s \<and> (case drop 2 s of [] \<Rightarrow> False
     | c # cs \<Rightarrow> lower_or_digit c \<and> length cs \<le> 63 \<and> list_all (\<lambda>x. lower_or_digit x \<or> x = CHR ''-'') cs)"

record turn_question =
  tqu_id :: string
  tqu_prompt :: string
  tqu_options :: "string list option"

definition turn_question_ok :: "turn_question \<Rightarrow> bool" where
  "turn_question_ok q \<longleftrightarrow> question_id_ok (tqu_id q) \<and> interaction_text (tqu_prompt q)
     \<and> optional (\<lambda>xs. length xs \<le> 8 \<and> list_all (length_between 1 500) xs) (tqu_options q)"

type_synonym turn_answer = "string \<times> string"

definition turn_answer_ok :: "turn_answer \<Rightarrow> bool" where
  "turn_answer_ok a \<longleftrightarrow> question_id_ok (fst a) \<and> interaction_text (snd a)"

datatype turn_outcome =
    Turn_Completed string
  | Turn_Blocked string
  | Turn_Needs_Input "string option" "turn_question list"

definition turn_outcome_ok :: "turn_outcome \<Rightarrow> bool" where
  "turn_outcome_ok t = (case t of
       Turn_Completed summary \<Rightarrow> length_between 1 2000 summary
     | Turn_Blocked summary \<Rightarrow> length_between 1 2000 summary
     | Turn_Needs_Input summary qs \<Rightarrow> optional (length_between 1 2000) summary \<and> 1 \<le> length qs \<and> length qs \<le> 3
         \<and> list_all turn_question_ok qs \<and> distinct (map tqu_id qs))"

record interaction_question =
  que_repo_id :: string
  que_run_id :: string
  que_turn_index :: int
  que_request_sha256 :: "string option"
  que_questions :: "turn_question list"
  que_created_at :: string

definition question_ok :: "(string \<Rightarrow> bool) \<Rightarrow> interaction_question \<Rightarrow> bool" where
  "question_ok dt q \<longleftrightarrow> length_between 1 200 (que_repo_id q) \<and> run_id_ok (que_run_id q)
     \<and> 1 \<le> que_turn_index q \<and> que_turn_index q \<le> 32 \<and> optional (hex_n 64) (que_request_sha256 q)
     \<and> 1 \<le> length (que_questions q) \<and> length (que_questions q) \<le> 3 \<and> list_all turn_question_ok (que_questions q)
     \<and> timestamp_schema dt (que_created_at q)"

record interaction_reply =
  rpl_repo_id :: string
  rpl_run_id :: string
  rpl_turn_index :: int
  rpl_question_sha256 :: string
  rpl_answers :: "turn_answer list"
  rpl_created_at :: string

definition reply_ok :: "(string \<Rightarrow> bool) \<Rightarrow> interaction_reply \<Rightarrow> bool" where
  "reply_ok dt r \<longleftrightarrow> length_between 1 200 (rpl_repo_id r) \<and> run_id_ok (rpl_run_id r)
     \<and> 1 \<le> rpl_turn_index r \<and> rpl_turn_index r \<le> 32 \<and> hex_n 64 (rpl_question_sha256 r)
     \<and> 1 \<le> length (rpl_answers r) \<and> length (rpl_answers r) \<le> 3 \<and> list_all turn_answer_ok (rpl_answers r)
     \<and> timestamp_schema dt (rpl_created_at r)"

section \<open>The budget of time\<close>

definition resolveEffectiveMaxRuntimeMs :: "int \<Rightarrow> int option \<Rightarrow> int option \<Rightarrow> int" where
  "resolveEffectiveMaxRuntimeMs repository requested persisted =
     min repository (min (case requested of None \<Rightarrow> repository | Some n \<Rightarrow> n) (case persisted of None \<Rightarrow> repository | Some n \<Rightarrow> n))"

record runtime_budget =
  bud_requested :: "int option"
  bud_effective :: int
  bud_active :: int
  bud_remaining :: int

definition describeAgentRuntimeBudget :: "int \<Rightarrow> int option \<Rightarrow> int \<Rightarrow> int option \<Rightarrow> runtime_budget" where
  "describeAgentRuntimeBudget repository requested active persisted =
     (let effective = resolveEffectiveMaxRuntimeMs repository requested persisted; spent = max 0 active in
      \<lparr>bud_requested = requested, bud_effective = effective, bud_active = spent, bud_remaining = max 0 (effective - spent)\<rparr>)"

end
