(* ===== verification/Delegation_Stores.thy ===== *)
theory Delegation_Stores
  imports Delegation_Records
begin

text \<open>
  The files of a delegated run (src/delegation/safe-artifact.ts, run-store.ts, dispatch-store.ts,
  supervisor-store.ts, attempt-store.ts). The texts of the records are the environment's: printing
  a record, and parsing a text with the types of its schema; the refinements of the schemas and
  the digests are written out.
\<close>

section \<open>The environment\<close>

text \<open>The run as it was handed out; \<open>man_json\<close> is the whole parsed value.\<close>

record run_manifest =
  man_version :: int
  man_repo_id :: string
  man_run_id :: string
  man_prompt_path :: "string option"
  man_result_path :: "string option"
  man_result_json_path :: "string option"
  man_manifest_path :: "string option"
  man_runner :: "runner_metadata option"
  man_requirement :: review_requirement
  man_task_sha256 :: string
  man_baseline_sha256 :: string
  man_baseline_head :: string
  man_prompt_sha256 :: string
  man_json :: json

record 'w run_env =
  de_repo :: "'w repo_env"
  de_now :: "'w \<Rightarrow> string \<times> 'w"
  de_datetime :: "string \<Rightarrow> bool"
  de_compare :: "string \<Rightarrow> string \<Rightarrow> int"
  de_redact :: "string \<Rightarrow> string"
  de_manifest_of :: "string \<Rightarrow> run_manifest option"
  de_status_text :: "delegated_status \<Rightarrow> string"
  de_status_of :: "string \<Rightarrow> (legacy_status + delegated_status) option"
  de_event_text :: "run_event \<Rightarrow> string"
  de_dispatch_text :: "admitted_dispatch \<Rightarrow> string"
  de_dispatch_of :: "string \<Rightarrow> admitted_dispatch option"
  de_intent_text :: "launch_intent \<Rightarrow> string"
  de_intent_of :: "string \<Rightarrow> launch_intent option"
  de_result_text :: "launch_result \<Rightarrow> string"
  de_result_of :: "string \<Rightarrow> launch_result option"
  de_supervisor_text :: "supervisor_state \<Rightarrow> string"
  de_supervisor_of :: "string \<Rightarrow> supervisor_state option"
  de_attempt_text :: "run_attempt \<Rightarrow> string"
  de_attempt_of :: "string \<Rightarrow> run_attempt option"
  de_session_text :: "run_session \<Rightarrow> string"
  de_session_of :: "string \<Rightarrow> run_session option"
  de_question_text :: "interaction_question \<Rightarrow> string"
  de_question_of :: "string \<Rightarrow> interaction_question option"
  de_reply_text :: "interaction_reply \<Rightarrow> string"
  de_reply_of :: "string \<Rightarrow> interaction_reply option"

abbreviation de_fs :: "'w run_env \<Rightarrow> 'w fs_env" where
  "de_fs D \<equiv> rp_fs (de_repo D)"

abbreviation de_sha256 :: "'w run_env \<Rightarrow> string \<Rightarrow> string" where
  "de_sha256 D \<equiv> rp_sha256 (de_repo D)"

definition run_file :: "'w run_env \<Rightarrow> string \<Rightarrow> string" where
  "run_file D p = posix_join (rp_root (de_repo D)) p"

text \<open>\<open>JSON.stringify(value, null, 2)\<close> or a line, with its newline, as bytes.\<close>

definition file_bytes :: "'w run_env \<Rightarrow> string \<Rightarrow> string" where
  "file_bytes D t = rp_encode (de_repo D) (t @ [CHR 0x0A])"

definition artifact_error :: task_err where
  "artifact_error = repo_error ''AGENT_RUN_ARTIFACT_INVALID''"

definition already_exists :: "task_err \<Rightarrow> bool" where
  "already_exists e \<longleftrightarrow> err_code e = Some ''EEXIST''"

definition is_repo_error :: "task_err \<Rightarrow> bool" where
  "is_repo_error e \<longleftrightarrow> (case e of RepoErr _ \<Rightarrow> True | _ \<Rightarrow> False)"

section \<open>Safe artifacts\<close>

text \<open>Both real paths and the node, as \<open>Promise.all\<close> gives them.\<close>

definition real_nodes :: "'w run_env \<Rightarrow> string \<Rightarrow> ('w, string \<times> string \<times> fs_node) fs_eff" where
  "real_nodes D absolute =
     bindE (realpathE (de_repo D) (rp_root (de_repo D))) (\<lambda>root_real.
     bindE (realpathE (de_repo D) absolute) (\<lambda>target_real.
     bindE (sys_lstat (de_fs D) absolute) (\<lambda>(_, stat). ret (root_real, target_real, stat))))"

definition readSafeRunArtifact :: "'w run_env \<Rightarrow> string \<Rightarrow> int \<Rightarrow> ('w, string option) fs_eff" where
  "readSafeRunArtifact D p max_bytes =
     catchE
       (bindE (real_nodes D (run_file D p)) (\<lambda>(root_real, target_real, stat).
        bindE (throw_if (\<not> isWithin root_real target_real \<or> nd_kind stat \<noteq> Regular \<or> max_bytes < int (length (nd_bytes stat)))
          artifact_error) (\<lambda>_.
        bindE (sys_read (de_fs D) target_real) (\<lambda>c. ret (Some c)))))
       (\<lambda>e. if not_found e then ret None else throw e)"

definition assertSafeRunDirectory :: "'w run_env \<Rightarrow> string \<Rightarrow> ('w, unit) fs_eff" where
  "assertSafeRunDirectory D p =
     bindE (real_nodes D (run_file D p)) (\<lambda>(root_real, target_real, stat).
     throw_if (\<not> isWithin root_real target_real \<or> nd_kind stat \<noteq> Directory) artifact_error)"

definition parent_of :: "string \<Rightarrow> string" where
  "parent_of p = join_with ''/'' (butlast (split_on (CHR ''/'') p))"

definition writeSafeRunJson :: "'w run_env \<Rightarrow> string \<Rightarrow> string \<Rightarrow> ('w, unit) fs_eff" where
  "writeSafeRunJson D p t =
     bindE (assertSafeRunDirectory D (parent_of p)) (\<lambda>_.
     bindE (catchE
       (bindE (real_nodes D (run_file D p)) (\<lambda>(root_real, target_real, stat).
        throw_if (\<not> isWithin root_real target_real \<or> nd_kind stat \<noteq> Regular) artifact_error))
       (\<lambda>e. if not_found e then ret () else throw e)) (\<lambda>_.
     atomicWriteFile (de_fs D) (run_file D p) (file_bytes D t)))"

text \<open>The file is made and written in place; a failure after it was made leaves it.\<close>

definition exclusive_steps :: "'w run_env \<Rightarrow> string \<Rightarrow> string \<Rightarrow> ('w, bool) fs_eff" where
  "exclusive_steps D absolute content =
     bindE (sys_create (de_fs D) absolute 384) (\<lambda>i.
     bindE (finallyE
       (bindE (sys_write (de_fs D) i content) (\<lambda>_. sys_call (de_fs D) ''fsync''))
       (sys_call (de_fs D) ''close'')) (\<lambda>_.
     bindE (sys_chmod (de_fs D) absolute 384) (\<lambda>_.
     bindE (fsyncDirectory (de_fs D)) (\<lambda>_. ret True))))"

definition writeExclusiveSafeRunJson :: "'w run_env \<Rightarrow> string \<Rightarrow> string \<Rightarrow> ('w, bool) fs_eff" where
  "writeExclusiveSafeRunJson D p t =
     bindE (assertSafeRunDirectory D (parent_of p)) (\<lambda>_.
     catchE (exclusive_steps D (run_file D p) (file_bytes D t)) (\<lambda>e. if already_exists e then ret False else throw e))"

section \<open>Runs\<close>

record run_paths =
  rpt_run_dir :: string
  rpt_prompt :: string
  rpt_legacy_result :: string
  rpt_result_json :: string
  rpt_manifest :: string
  rpt_status :: string
  rpt_events :: string
  rpt_lock :: string

definition run_id_invalid :: task_err where
  "run_id_invalid = repo_error ''RUNNER_RUN_ID_INVALID''"

definition paths_of_run :: "string \<Rightarrow> run_paths" where
  "paths_of_run run_id = (let dir = AGENT_RUNNER_RUNS_DIR @ ''/'' @ run_id in
     \<lparr>rpt_run_dir = dir, rpt_prompt = dir @ ''/PROMPT.md'', rpt_legacy_result = dir @ ''/RESULT.md'',
      rpt_result_json = dir @ ''/RESULT.json'', rpt_manifest = dir @ ''/run.json'', rpt_status = dir @ ''/runner.status.json'',
      rpt_events = dir @ ''/runner.events.jsonl'', rpt_lock = dir @ ''/runner.lock.json''\<rparr>)"

definition runPaths :: "string \<Rightarrow> task_err + run_paths" where
  "runPaths run_id = (if run_id_ok run_id then Inr (paths_of_run run_id) else Inl run_id_invalid)"

definition isSafeRepoRelativePath :: "string \<Rightarrow> bool" where
  "isSafeRepoRelativePath v \<longleftrightarrow> v \<noteq> [] \<and> \<not> prefix ''/'' v \<and> \<not> drive_path v \<and> CHR 0x5C \<notin> set v
     \<and> list_all (\<lambda>p. p \<noteq> [] \<and> p \<noteq> ''.'' \<and> p \<noteq> ''..'') (split_on (CHR ''/'') v)"

definition validateManifestArtifactPath :: "string option \<Rightarrow> string \<Rightarrow> task_err + string" where
  "validateManifestArtifactPath v expected = (case v of
       None \<Rightarrow> Inr expected
     | Some p \<Rightarrow> if \<not> isSafeRepoRelativePath p \<or> p \<noteq> expected then Inl run_id_invalid else Inr p)"

record run_record =
  run_repo_id :: string
  run_run_id :: string
  run_manifest_of :: run_manifest
  run_runner :: runner_metadata
  run_legacy_result :: "string option"
  run_paths_of :: run_paths

definition manual_runner :: runner_metadata where
  "manual_runner = \<lparr>rme_mode = Manual, rme_requested = None, rme_auto_start = None, rme_max_runtime = None,
     rme_profile = None, rme_commit_after_green = None\<rparr>"

definition runner_of_manifest :: "run_manifest \<Rightarrow> task_err + runner_metadata" where
  "runner_of_manifest m = (let r = (case man_runner m of None \<Rightarrow> manual_runner | Some r \<Rightarrow> r) in
     if runner_metadata_ok r then Inr r else Inl ZodErr)"

text \<open>The paths that the manifest names must be those of the run's own directory.\<close>

definition record_of_manifest :: "run_manifest \<Rightarrow> task_err + run_record" where
  "record_of_manifest m =
     (let d = paths_of_run (man_run_id m) in
      bindR (if man_version m = 3 then Inr None
             else bindR (validateManifestArtifactPath (man_result_path m) (rpt_legacy_result d)) (\<lambda>p. Inr (Some p))) (\<lambda>legacy.
      bindR (guardR (man_version m \<noteq> 3 \<or> man_manifest_path m = Some (rpt_manifest d)) run_id_invalid) (\<lambda>_.
      bindR (runner_of_manifest m) (\<lambda>runner.
      bindR (validateManifestArtifactPath (man_prompt_path m) (rpt_prompt d)) (\<lambda>_.
      bindR (validateManifestArtifactPath (man_result_json_path m) (rpt_result_json d)) (\<lambda>_.
      Inr \<lparr>run_repo_id = man_repo_id m, run_run_id = man_run_id m, run_manifest_of = m, run_runner = runner,
           run_legacy_result = legacy, run_paths_of = d\<rparr>))))))"

definition MAX_MANIFEST_BYTES :: int where
  "MAX_MANIFEST_BYTES = 524288"

definition MAX_STATUS_BYTES :: int where
  "MAX_STATUS_BYTES = 262144"

definition MAX_EVENTS_BYTES :: int where
  "MAX_EVENTS_BYTES = 4194304"

definition readRun :: "'w run_env \<Rightarrow> string \<Rightarrow> ('w, run_record) fs_eff" where
  "readRun D run_id =
     bindE (liftR (runPaths run_id)) (\<lambda>paths.
     bindE (assertSafeRunDirectory D (rpt_run_dir paths)) (\<lambda>_.
     bindE (readSafeRunArtifact D (rpt_manifest paths) MAX_MANIFEST_BYTES) (\<lambda>raw.
     case raw of
       None \<Rightarrow> throw artifact_error
     | Some t \<Rightarrow>
         (case de_manifest_of D t of
            None \<Rightarrow> throw artifact_error
          | Some m \<Rightarrow>
              bindE (throw_if (man_run_id m \<noteq> run_id) run_id_invalid) (\<lambda>_.
              liftR (record_of_manifest m))))))"

definition sys_readdir :: "'w run_env \<Rightarrow> string \<Rightarrow> ('w, (string \<times> node_kind) list) fs_eff" where
  "sys_readdir D p =
     bindE (realpathE (de_repo D) p) (\<lambda>real.
     bindE (sys_call (de_fs D) ''readdir'') (\<lambda>_.
     bindE (getE (\<lambda>s. map_option (\<lambda>i. nd_kind (fs_nodes s i)) (node_of s real))) (\<lambda>kind.
     case kind of
       None \<Rightarrow> throw enoent
     | Some k \<Rightarrow> if k \<noteq> Directory then throw (OtherErr (Some ''ENOTDIR'')) else getE (entries_of real))))"

definition discoverRunIds :: "'w run_env \<Rightarrow> ('w, string list) fs_eff" where
  "discoverRunIds D =
     bindE (catchE (sys_readdir D (run_file D AGENT_RUNNER_RUNS_DIR)) (\<lambda>e. if not_found e then ret [] else throw e)) (\<lambda>entries.
     ret (sort_cmp (de_compare D) (filter run_id_ok (map fst (filter (\<lambda>x. snd x = Directory) entries)))))"

text \<open>A run that vanished or whose manifest names another run is passed over; any other error ends it.\<close>

fun read_runs :: "'w run_env \<Rightarrow> string list \<Rightarrow> ('w, run_record list) fs_eff" where
  "read_runs D [] = ret []"
| "read_runs D (x # xs) =
     bindE (catchE (bindE (readRun D x) (\<lambda>r. ret [r]))
       (\<lambda>e. if e = run_id_invalid \<or> not_found e then ret [] else throw e)) (\<lambda>here.
     bindE (read_runs D xs) (\<lambda>rest. ret (here @ rest)))"

definition discoverRuns :: "'w run_env \<Rightarrow> ('w, run_record list) fs_eff" where
  "discoverRuns D =
     bindE (discoverRunIds D) (\<lambda>ids.
     bindE (read_runs D ids) (\<lambda>rs. ret (sort_cmp (\<lambda>a b. de_compare D (run_run_id a) (run_run_id b)) rs)))"

section \<open>Status and events\<close>

definition normalizeLegacyStatus :: "'w run_env \<Rightarrow> legacy_status \<Rightarrow> run_record \<Rightarrow> task_err + delegated_status" where
  "normalizeLegacyStatus D l r =
     (let m = run_manifest_of r; b = lgs_body l; three = (man_version m = 3);
          review = map_option (\<lambda>x. x\<lparr>rrv_legacy_ship := (if three then None else rrv_legacy_ship x)\<rparr>) (rst_review b);
          s = \<lparr>rsv_body = b\<lparr>rst_review := review\<rparr>, rsv_manifest_version = man_version m,
               rsv_requirement = (if three then man_requirement m else Legacy_Unavailable),
               rsv_legacy_result_path = (if three then None else run_legacy_result r),
               rsv_result_json_path = rpt_result_json (run_paths_of r)\<rparr> in
      if run_status_ok (de_datetime D) s then Inr s else Inl ZodErr)"

definition writeStatus :: "'w run_env \<Rightarrow> delegated_status \<Rightarrow> string option \<Rightarrow> ('w, delegated_status) fs_eff" where
  "writeStatus D input updated =
     bindE (case updated of None \<Rightarrow> askF (de_now D) | Some t \<Rightarrow> ret t) (\<lambda>now.
     let s = input\<lparr>rsv_body := (rsv_body input)\<lparr>rst_updated_at := now\<rparr>\<rparr> in
     bindE (throw_if (\<not> run_status_ok (de_datetime D) s) ZodErr) (\<lambda>_.
     bindE (liftR (runPaths (rst_run_id (rsv_body s)))) (\<lambda>paths.
     bindE (writeSafeRunJson D (rpt_status paths) (de_status_text D s)) (\<lambda>_. ret s))))"

definition parsed_status :: "'w run_env \<Rightarrow> string \<Rightarrow> string \<Rightarrow> ('w, delegated_status) fs_eff" where
  "parsed_status D run_id raw =
     catchE
       (case de_status_of D raw of
          None \<Rightarrow> throw ZodErr
        | Some (Inr s) \<Rightarrow> if run_status_ok (de_datetime D) s then ret s else throw ZodErr
        | Some (Inl l) \<Rightarrow>
            bindE (throw_if (\<not> legacy_status_ok (de_datetime D) l) ZodErr) (\<lambda>_.
            bindE (readRun D run_id) (\<lambda>r. liftR (normalizeLegacyStatus D l r))))
       (\<lambda>e. if e = ZodErr \<or> is_repo_error e then throw artifact_error else throw e)"

definition readStatus :: "'w run_env \<Rightarrow> string \<Rightarrow> ('w, delegated_status option) fs_eff" where
  "readStatus D run_id =
     catchE
       (bindE (liftR (runPaths run_id)) (\<lambda>paths.
        bindE (readSafeRunArtifact D (rpt_status paths) MAX_STATUS_BYTES) (\<lambda>raw.
        case raw of None \<Rightarrow> ret None | Some t \<Rightarrow> bindE (parsed_status D run_id t) (\<lambda>s. ret (Some s)))))
       (\<lambda>e. if not_found e then ret None else throw e)"

text \<open>\<open>open\<close> for appending, without following a link, and one write.\<close>

definition append_private :: "'w fs_env \<Rightarrow> string \<Rightarrow> string \<Rightarrow> ('w, unit) fs_eff" where
  "append_private F p content =
     bindE (sys_call F ''open'') (\<lambda>_.
     bindE (getE (\<lambda>s. map_option (\<lambda>i. (i, fs_nodes s i)) (node_of s p))) (\<lambda>found.
     bindE (case found of
         None \<Rightarrow> bindE (sys_create F p 384) (\<lambda>i. ret (i, \<lparr>nd_kind = Regular, nd_mode = 384, nd_bytes = []\<rparr>))
       | Some x \<Rightarrow> bindE (throw_if (nd_kind (snd x) = Symlink) (OtherErr (Some ''ELOOP''))) (\<lambda>_. ret x)) (\<lambda>(i, nd).
     finallyE
       (bindE (throw_if (nd_kind nd \<noteq> Regular) artifact_error) (\<lambda>_.
        bindE (askF (sf_fault F ''write'')) (\<lambda>f.
        case f of
          None \<Rightarrow> modifyE (set_node i (\<lambda>n. n\<lparr>nd_bytes := nd_bytes n @ content\<rparr>))
        | Some e \<Rightarrow> bindE (askF (sf_cut F)) (\<lambda>k.
            bindE (modifyE (set_node i (\<lambda>n. n\<lparr>nd_bytes := nd_bytes n @ take k content\<rparr>))) (\<lambda>_. throw e)))))
       (sys_call F ''close''))))"

definition appendEvent :: "'w run_env \<Rightarrow> run_event \<Rightarrow> string option \<Rightarrow> ('w, run_event) fs_eff" where
  "appendEvent D input timestamp =
     bindE (case timestamp of None \<Rightarrow> askF (de_now D) | Some t \<Rightarrow> ret t) (\<lambda>now.
     let e = input\<lparr>rev_timestamp := now, rev_summary := map_option (de_redact D) (rev_summary input)\<rparr> in
     bindE (throw_if (\<not> run_event_ok (de_datetime D) e) ZodErr) (\<lambda>_.
     bindE (liftR (runPaths (rev_run_id e))) (\<lambda>paths.
     bindE (readSafeRunArtifact D (rpt_events paths) MAX_EVENTS_BYTES) (\<lambda>existing.
     let line = file_bytes D (de_event_text D e) in
     bindE (throw_if (MAX_EVENTS_BYTES < int (length (case existing of None \<Rightarrow> [] | Some t \<Rightarrow> t)) + int (length line)) artifact_error) (\<lambda>_.
     bindE (assertSafeRunDirectory D (rpt_run_dir paths)) (\<lambda>_.
     bindE (mkdir_recursive (de_fs D) (dirname_of (run_file D (rpt_events paths)))) (\<lambda>_.
     bindE (append_private (de_fs D) (run_file D (rpt_events paths)) line) (\<lambda>_. ret e))))))))"

end
