(* ===== verification/Delegation_Queue.thy ===== *)
theory Delegation_Queue
  imports Delegation_Stores
begin

text \<open>
  The queue of delegated runs (src/delegation/dispatch-store.ts, supervisor-store.ts,
  attempt-store.ts, queue-supervisor.ts): a queued run is admitted, an intent to launch it is put on
  file, the worker is launched and its result is put on file; whatever is unknown blocks the run.
  The list of launches asked for is a ghost field. The admission of a run and the worker are
  parameters; the worker may change the files.
\<close>

section \<open>Dispatches\<close>

record dispatch_paths =
  dpt_dispatch :: string
  dpt_intent :: string
  dpt_result :: string

definition paths_of_dispatch :: "string \<Rightarrow> dispatch_paths" where
  "paths_of_dispatch run_id = (let dir = rpt_run_dir (paths_of_run run_id) in
     \<lparr>dpt_dispatch = dir @ ''/admitted-dispatch.json'', dpt_intent = dir @ ''/worker-launch-intent.json'',
      dpt_result = dir @ ''/worker-launch-result.json''\<rparr>)"

definition dispatchPaths :: "string \<Rightarrow> task_err + dispatch_paths" where
  "dispatchPaths run_id = bindR (runPaths run_id) (\<lambda>_. Inr (paths_of_dispatch run_id))"

definition MAX_RECORD_BYTES :: int where
  "MAX_RECORD_BYTES = 262144"

definition admission_digest :: "'w run_env \<Rightarrow> dispatch_binding \<Rightarrow> string" where
  "admission_digest D b = sha256Json (de_sha256 D) (JObj (stable_binding_members b))"

definition dispatch_digest :: "'w run_env \<Rightarrow> admitted_dispatch \<Rightarrow> string" where
  "dispatch_digest D d = digestRecord (de_sha256 D) (dispatch_members d) ''record_sha256''"

definition intent_digest :: "'w run_env \<Rightarrow> launch_intent \<Rightarrow> string" where
  "intent_digest D i = digestRecord (de_sha256 D) (intent_members i) ''intent_sha256''"

definition launch_digest :: "'w run_env \<Rightarrow> launch_result \<Rightarrow> string" where
  "launch_digest D r = digestRecord (de_sha256 D) (launch_result_members r) ''result_sha256''"

definition verifyDispatch :: "'w run_env \<Rightarrow> admitted_dispatch \<Rightarrow> task_err + unit" where
  "verifyDispatch D d =
     guardR (dsp_dispatch_id d = ''dispatch_'' @ dsp_admission_sha256 d \<and> dsp_record_sha256 d = dispatch_digest D d
       \<and> dsp_admission_sha256 d = admission_digest D (dsp_binding d)) artifact_error"

definition verifyIntent :: "'w run_env \<Rightarrow> launch_intent \<Rightarrow> task_err + unit" where
  "verifyIntent D i = guardR (lnc_sha256 i = intent_digest D i) artifact_error"

definition verifyResult :: "'w run_env \<Rightarrow> launch_result \<Rightarrow> task_err + unit" where
  "verifyResult D r = guardR (wlr_sha256 r = launch_digest D r) artifact_error"

text \<open>A record that does not parse, or that its check refuses, is an invalid artifact.\<close>

definition read_record :: "'w run_env \<Rightarrow> string \<Rightarrow> (string \<Rightarrow> 'r option) \<Rightarrow> ('r \<Rightarrow> bool) \<Rightarrow> ('r \<Rightarrow> task_err + unit) \<Rightarrow> ('w, 'r option) fs_eff" where
  "read_record D p parse ok verify =
     bindE (readSafeRunArtifact D p MAX_RECORD_BYTES) (\<lambda>raw.
     case raw of
       None \<Rightarrow> ret None
     | Some t \<Rightarrow> (case parse t of
           None \<Rightarrow> throw artifact_error
         | Some r \<Rightarrow> if ok r \<and> verify r = Inr () then ret (Some r) else throw artifact_error))"

definition readDispatch :: "'w run_env \<Rightarrow> string \<Rightarrow> ('w, admitted_dispatch option) fs_eff" where
  "readDispatch D run_id = bindE (liftR (dispatchPaths run_id)) (\<lambda>p.
     read_record D (dpt_dispatch p) (de_dispatch_of D) (dispatch_ok (de_datetime D)) (verifyDispatch D))"

definition readIntent :: "'w run_env \<Rightarrow> string \<Rightarrow> ('w, launch_intent option) fs_eff" where
  "readIntent D run_id = bindE (liftR (dispatchPaths run_id)) (\<lambda>p.
     read_record D (dpt_intent p) (de_intent_of D) (intent_ok (de_datetime D)) (verifyIntent D))"

definition readResult :: "'w run_env \<Rightarrow> string \<Rightarrow> ('w, launch_result option) fs_eff" where
  "readResult D run_id = bindE (liftR (dispatchPaths run_id)) (\<lambda>p.
     read_record D (dpt_result p) (de_result_of D) (launch_result_ok (de_datetime D)) (verifyResult D))"

definition task_conflict :: task_err where
  "task_conflict = repo_error ''TASK_OPERATION_CONFLICT''"

definition assertSameDispatch :: "'w run_env \<Rightarrow> admitted_dispatch \<Rightarrow> admitted_dispatch \<Rightarrow> task_err + admitted_dispatch" where
  "assertSameDispatch D existing candidate =
     bindR (verifyDispatch D existing) (\<lambda>_.
     bindR (guardR (dsp_admission_sha256 existing = dsp_admission_sha256 candidate \<and> dsp_dispatch_id existing = dsp_dispatch_id candidate)
       task_conflict) (\<lambda>_. Inr existing))"

definition assertIntent :: "'w run_env \<Rightarrow> launch_intent \<Rightarrow> admitted_dispatch \<Rightarrow> task_err + launch_intent" where
  "assertIntent D existing dispatch =
     bindR (verifyIntent D existing) (\<lambda>_.
     bindR (guardR (lnc_dispatch_id existing = dsp_dispatch_id dispatch \<and> lnc_supervisor existing = dsb_supervisor (dsp_binding dispatch))
       task_conflict) (\<lambda>_. Inr existing))"

definition assertSameResult :: "'w run_env \<Rightarrow> launch_result \<Rightarrow> launch_result \<Rightarrow> task_err + launch_result" where
  "assertSameResult D existing candidate =
     bindR (verifyResult D existing) (\<lambda>_.
     bindR (guardR (wlr_dispatch_id existing = wlr_dispatch_id candidate \<and> wlr_sha256 existing = wlr_sha256 candidate)
       task_conflict) (\<lambda>_. Inr existing))"

text \<open>A record is put on file once; who comes second takes what is there when it is the same.\<close>

definition ensure_once ::
  "'w run_env \<Rightarrow> string \<Rightarrow> string \<Rightarrow> 'r \<Rightarrow> ('w, 'r option) fs_eff \<Rightarrow> ('r \<Rightarrow> task_err + 'r) \<Rightarrow> ('w, 'r \<times> bool) fs_eff" where
  "ensure_once D p t candidate read same =
     bindE (writeExclusiveSafeRunJson D p t) (\<lambda>created.
     if created then ret (candidate, True)
     else bindE read (\<lambda>raced.
       case raced of
         None \<Rightarrow> throw artifact_error
       | Some r \<Rightarrow> bindE (liftR (same r)) (\<lambda>x. ret (x, False))))"

definition dispatch_candidate :: "'w run_env \<Rightarrow> dispatch_binding \<Rightarrow> string \<Rightarrow> admitted_dispatch" where
  "dispatch_candidate D b now =
     (let a = admission_digest D b;
          d = \<lparr>dsp_dispatch_id = ''dispatch_'' @ a, dsp_binding = b, dsp_admitted_at = now, dsp_admission_sha256 = a,
               dsp_record_sha256 = replicate 64 (CHR ''0'')\<rparr> in
      d\<lparr>dsp_record_sha256 := dispatch_digest D d\<rparr>)"

definition ensureAdmitted :: "'w run_env \<Rightarrow> dispatch_binding \<Rightarrow> string option \<Rightarrow> ('w, admitted_dispatch \<times> bool) fs_eff" where
  "ensureAdmitted D b admitted_at =
     bindE (case admitted_at of None \<Rightarrow> askF (de_now D) | Some t \<Rightarrow> ret t) (\<lambda>now.
     let candidate = dispatch_candidate D b now in
     bindE (throw_if (\<not> dispatch_ok (de_datetime D) candidate) ZodErr) (\<lambda>_.
     bindE (readDispatch D (dsb_run_id b)) (\<lambda>existing.
     case existing of
       Some e \<Rightarrow> bindE (liftR (assertSameDispatch D e candidate)) (\<lambda>x. ret (x, False))
     | None \<Rightarrow> ensure_once D (dpt_dispatch (paths_of_dispatch (dsb_run_id b))) (de_dispatch_text D candidate) candidate
         (readDispatch D (dsb_run_id b)) (\<lambda>r. assertSameDispatch D r candidate))))"

definition intent_candidate :: "'w run_env \<Rightarrow> admitted_dispatch \<Rightarrow> service_identity \<Rightarrow> string \<Rightarrow> launch_intent" where
  "intent_candidate D d supervisor now =
     (let i = \<lparr>lnc_dispatch_id = dsp_dispatch_id d, lnc_supervisor = supervisor, lnc_requested_at = now,
           lnc_sha256 = replicate 64 (CHR ''0'')\<rparr> in i\<lparr>lnc_sha256 := intent_digest D i\<rparr>)"

definition ensureLaunchIntent :: "'w run_env \<Rightarrow> admitted_dispatch \<Rightarrow> service_identity \<Rightarrow> ('w, launch_intent \<times> bool) fs_eff" where
  "ensureLaunchIntent D d supervisor =
     (let run_id = dsb_run_id (dsp_binding d) in
      bindE (askF (de_now D)) (\<lambda>now.
      bindE (throw_if (supervisor \<noteq> dsb_supervisor (dsp_binding d)) task_conflict) (\<lambda>_.
      bindE (readIntent D run_id) (\<lambda>existing.
      case existing of
        Some e \<Rightarrow> bindE (liftR (assertIntent D e d)) (\<lambda>x. ret (x, False))
      | None \<Rightarrow>
          let candidate = intent_candidate D d supervisor now in
          bindE (throw_if (\<not> intent_ok (de_datetime D) candidate) ZodErr) (\<lambda>_.
          ensure_once D (dpt_intent (paths_of_dispatch run_id)) (de_intent_text D candidate) candidate
            (readIntent D run_id) (\<lambda>r. assertIntent D r d))))))"

definition result_candidate :: "'w run_env \<Rightarrow> admitted_dispatch \<Rightarrow> launch_outcome \<Rightarrow> string \<Rightarrow> string \<Rightarrow> launch_result" where
  "result_candidate D d outcome started now =
     (let r = \<lparr>wlr_dispatch_id = dsp_dispatch_id d, wlr_outcome = outcome, wlr_started_at = started, wlr_completed_at = now,
           wlr_sha256 = replicate 64 (CHR ''0'')\<rparr> in r\<lparr>wlr_sha256 := launch_digest D r\<rparr>)"

definition writeLaunchResult ::
  "'w run_env \<Rightarrow> admitted_dispatch \<Rightarrow> launch_outcome \<Rightarrow> string \<Rightarrow> string option \<Rightarrow> ('w, launch_result \<times> bool) fs_eff" where
  "writeLaunchResult D d outcome started completed_at =
     (let run_id = dsb_run_id (dsp_binding d) in
      bindE (readIntent D run_id) (\<lambda>found.
      case found of
        None \<Rightarrow> throw task_conflict
      | Some intent \<Rightarrow>
          bindE (liftR (assertIntent D intent d)) (\<lambda>_.
          bindE (throw_if (\<not> outcome_ok outcome) ZodErr) (\<lambda>_.
          bindE (case completed_at of None \<Rightarrow> askF (de_now D) | Some t \<Rightarrow> ret t) (\<lambda>now.
          let candidate = result_candidate D d outcome started now in
          bindE (throw_if (\<not> launch_result_ok (de_datetime D) candidate) ZodErr) (\<lambda>_.
          bindE (readResult D run_id) (\<lambda>existing.
          case existing of
            Some e \<Rightarrow> bindE (liftR (assertSameResult D e candidate)) (\<lambda>x. ret (x, False))
          | None \<Rightarrow> ensure_once D (dpt_result (paths_of_dispatch run_id)) (de_result_text D candidate) candidate
              (readResult D run_id) (\<lambda>r. assertSameResult D r candidate))))))))"

section \<open>The state of the supervisor\<close>

definition SUPERVISOR_STATE_PATH :: string where
  "SUPERVISOR_STATE_PATH = AGENT_RUNNER_RUNS_DIR @ ''/.runner-supervisor.json''"

definition MAX_STATE_BYTES :: int where
  "MAX_STATE_BYTES = 65536"

definition health_digest :: "'w run_env \<Rightarrow> health_attestation \<Rightarrow> string" where
  "health_digest D h = digestRecord (de_sha256 D) (health_members h) ''attestation_sha256''"

definition supervisor_read :: "'w run_env \<Rightarrow> ('w, supervisor_state option) fs_eff" where
  "supervisor_read D =
     catchE
       (let absolute = run_file D SUPERVISOR_STATE_PATH in
        bindE (sys_lstat (de_fs D) absolute) (\<lambda>(_, stat).
        bindE (throw_if (nd_kind stat \<noteq> Regular \<or> MAX_STATE_BYTES < int (length (nd_bytes stat))) artifact_error) (\<lambda>_.
        bindE (sys_read (de_fs D) absolute) (\<lambda>raw.
        case de_supervisor_of D raw of
          None \<Rightarrow> throw artifact_error
        | Some s \<Rightarrow>
            if \<not> supervisor_ok (de_datetime D) s \<or> \<not> optional (\<lambda>h. hat_sha256 h = health_digest D h) (sup_health s)
            then throw artifact_error else ret (Some s)))))
       (\<lambda>e. if not_found e then ret None else throw e)"

definition supervisor_writeNow :: "'w run_env \<Rightarrow> supervisor_state \<Rightarrow> int option \<Rightarrow> string option \<Rightarrow> ('w, supervisor_state) fs_eff" where
  "supervisor_writeNow D input revision updated_at =
     bindE (supervisor_read D) (\<lambda>current.
     bindE (case updated_at of None \<Rightarrow> askF (de_now D) | Some t \<Rightarrow> ret t) (\<lambda>now.
     let s = input\<lparr>sup_revision := (case revision of Some n \<Rightarrow> n
             | None \<Rightarrow> (case current of None \<Rightarrow> 0 | Some c \<Rightarrow> sup_revision c) + 1), sup_updated_at := now\<rparr> in
     bindE (throw_if (\<not> supervisor_ok (de_datetime D) s) ZodErr) (\<lambda>_.
     bindE (mkdir_recursive (de_fs D) (run_file D AGENT_RUNNER_RUNS_DIR)) (\<lambda>_.
     bindE (sys_lstat (de_fs D) (run_file D AGENT_RUNNER_RUNS_DIR)) (\<lambda>(_, stat).
     bindE (throw_if (nd_kind stat \<noteq> Directory) artifact_error) (\<lambda>_.
     bindE (atomicWriteFile (de_fs D) (run_file D SUPERVISOR_STATE_PATH) (file_bytes D (de_supervisor_text D s))) (\<lambda>_.
     ret s)))))))"

section \<open>Attempts\<close>

definition MAX_ATTEMPT_BYTES :: int where
  "MAX_ATTEMPT_BYTES = 65536"

definition interaction_error :: task_err where
  "interaction_error = repo_error ''RUNNER_INTERACTION_INVALID''"

definition attemptPath :: "string \<Rightarrow> task_err + string" where
  "attemptPath run_id = bindR (runPaths run_id) (\<lambda>p. Inr (rpt_run_dir p @ ''/runner.attempt.json''))"

definition attempt_read :: "'w run_env \<Rightarrow> string \<Rightarrow> string \<Rightarrow> ('w, run_attempt option) fs_eff" where
  "attempt_read D repo_id run_id =
     bindE (liftR (attemptPath run_id)) (\<lambda>p.
     bindE (readSafeRunArtifact D p MAX_ATTEMPT_BYTES) (\<lambda>raw.
     case raw of
       None \<Rightarrow> ret None
     | Some t \<Rightarrow> (case de_attempt_of D t of
           None \<Rightarrow> throw ZodErr
         | Some a \<Rightarrow>
             bindE (throw_if (\<not> attempt_ok (de_datetime D) a) ZodErr) (\<lambda>_.
             bindE (throw_if (att_repo_id a \<noteq> repo_id \<or> att_run_id a \<noteq> run_id) interaction_error) (\<lambda>_. ret (Some a))))))"

definition attempt_write :: "'w run_env \<Rightarrow> run_attempt \<Rightarrow> string option \<Rightarrow> ('w, run_attempt) fs_eff" where
  "attempt_write D input updated_at =
     bindE (case updated_at of None \<Rightarrow> askF (de_now D) | Some t \<Rightarrow> ret t) (\<lambda>now.
     let a = input\<lparr>att_updated_at := now\<rparr> in
     bindE (throw_if (\<not> attempt_ok (de_datetime D) a) ZodErr) (\<lambda>_.
     bindE (liftR (attemptPath (att_run_id a))) (\<lambda>p.
     bindE (writeSafeRunJson D p (de_attempt_text D a)) (\<lambda>_. ret a))))"

section \<open>The queue\<close>

datatype run_admission =
    Adm_Task_Absent string
  | Adm_Conflicting string
  | Adm_Matching task_binding

record launch_request =
  lrq_run_id :: string
  lrq_dispatch :: admitted_dispatch
  lrq_max_runtime :: int

record 'w queue_state =
  qs_fs :: "'w fs_state"
  qs_launches :: "launch_request list"

type_synonym ('w, 'a) queue_eff = "(task_err, 'w queue_state, 'a) eff"

record 'w queue_env =
  qe_run :: "'w run_env"
  qe_repo_id :: string
  qe_runner :: runner_name
  qe_identity :: service_identity
  qe_provider_free :: bool
  qe_max_runtime :: "int option"
  qe_stale_after :: "int option"
  qe_admission :: "run_record \<Rightarrow> 'w fs_state \<Rightarrow> (task_err + run_admission) \<times> 'w"
  qe_launch :: "launch_request \<Rightarrow> run_record \<Rightarrow> 'w fs_state \<Rightarrow> (task_err + launch_outcome) \<times> 'w fs_state"

definition filesQ :: "('w, 'a) fs_eff \<Rightarrow> ('w, 'a) queue_eff" where
  "filesQ m = (\<lambda>s. case m (qs_fs s) of (r, t) \<Rightarrow> (r, s\<lparr>qs_fs := t\<rparr>))"

definition read_admission :: "'w queue_env \<Rightarrow> run_record \<Rightarrow> ('w, run_admission) queue_eff" where
  "read_admission Q r = filesQ (\<lambda>s. case qe_admission Q r s of (x, w) \<Rightarrow> (x, s\<lparr>fs_world := w\<rparr>))"

definition launch_worker :: "'w queue_env \<Rightarrow> launch_request \<Rightarrow> run_record \<Rightarrow> ('w, launch_outcome) queue_eff" where
  "launch_worker Q q r =
     bindE (modifyE (\<lambda>s. s\<lparr>qs_launches := qs_launches s @ [q]\<rparr>)) (\<lambda>_. filesQ (qe_launch Q q r))"

datatype scan_result =
    Scan_Idle nat
  | Scan_Not_Admitted nat string run_admission
  | Scan_Settled nat string string launch_result
  | Scan_Launched nat string string launch_result
  | Scan_Blocked nat string string string

record health_input =
  hin_status :: supervisor_status
  hin_consumer :: queue_consumer
  hin_scan_at :: string
  hin_active_dispatch :: "string option"
  hin_active_run :: "string option"
  hin_last_claimed :: "string option"
  hin_increment :: bool
  hin_contact :: public_contact
  hin_warnings :: "string list"

definition plain_health :: "supervisor_status \<Rightarrow> queue_consumer \<Rightarrow> string \<Rightarrow> health_input" where
  "plain_health status consumer scan_at = \<lparr>hin_status = status, hin_consumer = consumer, hin_scan_at = scan_at,
     hin_active_dispatch = None, hin_active_run = None, hin_last_claimed = None, hin_increment = False,
     hin_contact = Contact_None, hin_warnings = []\<rparr>"

definition health_candidate :: "'w queue_env \<Rightarrow> health_input \<Rightarrow> int \<Rightarrow> string \<Rightarrow> health_attestation" where
  "health_candidate Q i prior now =
     (let h = \<lparr>hat_identity = qe_identity Q, hat_status = hin_status i, hat_consumer = hin_consumer i,
           hat_active_dispatch = hin_active_dispatch i, hat_last_scan = Some (hin_scan_at i),
           hat_unknown_count = (if hin_increment i then prior + 1 else prior), hat_contact = hin_contact i,
           hat_live_effects = (\<not> qe_provider_free Q), hat_attested_at = now, hat_sha256 = replicate 64 (CHR ''0'')\<rparr> in
      h\<lparr>hat_sha256 := health_digest (qe_run Q) h\<rparr>)"

definition prior_unknown :: "supervisor_state option \<Rightarrow> int" where
  "prior_unknown current = (case current of None \<Rightarrow> 0 | Some s \<Rightarrow> (case sup_health s of None \<Rightarrow> 0 | Some h \<Rightarrow> hat_unknown_count h))"

definition writeHealth :: "'w queue_env \<Rightarrow> health_input \<Rightarrow> ('w, unit) fs_eff" where
  "writeHealth Q i =
     bindE (supervisor_read (qe_run Q)) (\<lambda>current.
     bindE (askF (de_now (qe_run Q))) (\<lambda>now.
     let h = health_candidate Q i (prior_unknown current) now in
     bindE (throw_if (\<not> health_ok (de_datetime (qe_run Q)) h) ZodErr) (\<lambda>_.
     bindE (supervisor_writeNow (qe_run Q)
       \<lparr>sup_repo_id = qe_repo_id Q, sup_runner = qe_runner Q, sup_status = hin_status i, sup_revision = 0,
        sup_heartbeat_at = hat_attested_at h, sup_updated_at = [], sup_last_scan = Some (hin_scan_at i),
        sup_last_claimed = (case hin_last_claimed i of Some x \<Rightarrow> Some x | None \<Rightarrow> (case current of None \<Rightarrow> None | Some c \<Rightarrow> sup_last_claimed c)),
        sup_active_run = hin_active_run i, sup_stale_after = (case qe_stale_after Q of None \<Rightarrow> 30000 | Some n \<Rightarrow> n),
        sup_identity = Some (qe_identity Q), sup_health = Some h, sup_warnings = hin_warnings i\<rparr> None None) (\<lambda>_.
     ret ()))))"

definition publicProviderContact :: "provider_contact \<Rightarrow> public_contact" where
  "publicProviderContact c = (case c of Provider_Confirmed \<Rightarrow> Contact_Confirmed | Provider_Unknown \<Rightarrow> Contact_Possible | Provider_None \<Rightarrow> Contact_None)"

definition blockUnknown :: "'w queue_env \<Rightarrow> string \<Rightarrow> nat \<Rightarrow> run_record \<Rightarrow> admitted_dispatch \<Rightarrow> string \<Rightarrow> bool \<Rightarrow> ('w, scan_result) queue_eff" where
  "blockUnknown Q scan_at scanned r d reason increment =
     bindE (filesQ (writeHealth Q ((plain_health Sup_Degraded Con_Blocked_Unknown scan_at)\<lparr>
         hin_active_dispatch := Some (dsp_dispatch_id d), hin_last_claimed := Some (run_run_id r), hin_increment := increment,
         hin_contact := Contact_Possible, hin_warnings := [''UNKNOWN_EFFECT_NO_REPLAY'']\<rparr>))) (\<lambda>_.
     ret (Scan_Blocked scanned (run_run_id r) (dsp_dispatch_id d) reason))"

definition unknown_outcome :: launch_outcome where
  "unknown_outcome = \<lparr>wlo_effect = Effect_Unknown, wlo_contact = Provider_Unknown, wlo_terminal = Term_Unknown,
     wlo_code = ''LAUNCH_BOUNDARY_UNKNOWN''\<rparr>"

definition launch_outcome_of :: "'w queue_env \<Rightarrow> launch_request \<Rightarrow> run_record \<Rightarrow> ('w, launch_outcome) queue_eff" where
  "launch_outcome_of Q q r =
     catchE
       (bindE (launch_worker Q q r) (\<lambda>w.
        bindE (throw_if (\<not> outcome_ok w) ZodErr) (\<lambda>_.
        bindE (throw_if (qe_provider_free Q \<and> wlo_contact w \<noteq> Provider_None) (OtherErr None)) (\<lambda>_. ret w))))
       (\<lambda>_. ret unknown_outcome)"

definition settled_health :: "string \<Rightarrow> string \<Rightarrow> launch_result \<Rightarrow> health_input" where
  "settled_health scan_at run_id result = (plain_health Sup_Ready Con_Idle scan_at)\<lparr>hin_last_claimed := Some run_id,
     hin_contact := publicProviderContact (wlo_contact (wlr_outcome result))\<rparr>"

text \<open>After the result is on file, or could not be put there.\<close>

definition report_launch :: "'w queue_env \<Rightarrow> string \<Rightarrow> nat \<Rightarrow> run_record \<Rightarrow> admitted_dispatch \<Rightarrow> launch_result option \<Rightarrow> ('w, scan_result) queue_eff" where
  "report_launch Q scan_at scanned r d written = (case written of
       None \<Rightarrow> blockUnknown Q scan_at scanned r d ''RESULT_WRITE_UNKNOWN'' True
     | Some result \<Rightarrow>
         if wlo_effect (wlr_outcome result) = Effect_Unknown then
           bindE (filesQ (writeHealth Q ((plain_health Sup_Degraded Con_Blocked_Unknown scan_at)\<lparr>
               hin_active_dispatch := Some (dsp_dispatch_id d), hin_last_claimed := Some (run_run_id r), hin_increment := True,
               hin_contact := publicProviderContact (wlo_contact (wlr_outcome result)),
               hin_warnings := [''UNKNOWN_EFFECT_NO_REPLAY'']\<rparr>))) (\<lambda>_.
           ret (Scan_Blocked scanned (run_run_id r) (dsp_dispatch_id d) (wlo_code (wlr_outcome result))))
         else
           bindE (filesQ (writeHealth Q (settled_health scan_at (run_run_id r) result))) (\<lambda>_.
           ret (Scan_Launched scanned (run_run_id r) (dsp_dispatch_id d) result)))"

definition launch_run :: "'w queue_env \<Rightarrow> string \<Rightarrow> nat \<Rightarrow> run_record \<Rightarrow> admitted_dispatch \<Rightarrow> int \<Rightarrow> ('w, scan_result) queue_eff" where
  "launch_run Q scan_at scanned r d max_runtime =
     bindE (filesQ (ensureLaunchIntent (qe_run Q) d (qe_identity Q))) (\<lambda>(intent, created).
     if \<not> created then blockUnknown Q scan_at scanned r d ''CONCURRENT_LAUNCH_INTENT_WITHOUT_RESULT'' True
     else
       bindE (filesQ (writeHealth Q ((plain_health Sup_Running Con_Launching scan_at)\<lparr>
           hin_active_dispatch := Some (dsp_dispatch_id d), hin_active_run := Some (run_run_id r),
           hin_last_claimed := Some (run_run_id r)\<rparr>))) (\<lambda>_.
       bindE (launch_outcome_of Q \<lparr>lrq_run_id = run_run_id r, lrq_dispatch = d, lrq_max_runtime = max_runtime\<rparr> r) (\<lambda>outcome.
       bindE (catchE (bindE (filesQ (writeLaunchResult (qe_run Q) d outcome (lnc_requested_at intent) None)) (\<lambda>x. ret (Some (fst x))))
         (\<lambda>_. ret None)) (\<lambda>written.
       report_launch Q scan_at scanned r d written))))"

definition dispatch_binding_of :: "'w queue_env \<Rightarrow> run_record \<Rightarrow> runner_name \<Rightarrow> task_binding \<Rightarrow> int \<Rightarrow> dispatch_binding" where
  "dispatch_binding_of Q r requested task max_runtime =
     (let m = run_manifest_of r in
      \<lparr>dsb_repo_id = run_repo_id r, dsb_run_id = run_run_id r, dsb_runner = requested, dsb_task = task,
       dsb_delegation = \<lparr>dbi_manifest_sha256 = sha256Json (de_sha256 (qe_run Q)) (man_json m), dbi_task_sha256 = man_task_sha256 m,
         dbi_baseline_sha256 = man_baseline_sha256 m, dbi_prompt_sha256 = man_prompt_sha256 m\<rparr>,
       dsb_supervisor = qe_identity Q, dsb_max_runtime = max_runtime\<rparr>)"

definition default_runtime :: "int option \<Rightarrow> int" where
  "default_runtime n = (case n of None \<Rightarrow> DEFAULT_AGENT_RUNNER_MAX_RUNTIME_MS | Some k \<Rightarrow> k)"

text \<open>A run that is admitted: its dispatch is put on file; a result or an intent that is on file already
  settles or blocks it.\<close>

definition process_admitted :: "'w queue_env \<Rightarrow> string \<Rightarrow> nat \<Rightarrow> run_record \<Rightarrow> runner_name \<Rightarrow> task_binding \<Rightarrow> ('w, scan_result) queue_eff" where
  "process_admitted Q scan_at scanned r requested task =
     (let D = qe_run Q; max_runtime = min (default_runtime (rme_max_runtime (run_runner r))) (default_runtime (qe_max_runtime Q)) in
      bindE (filesQ (ensureAdmitted D (dispatch_binding_of Q r requested task max_runtime) None)) (\<lambda>(d, _).
      bindE (filesQ (readResult D (run_run_id r))) (\<lambda>existing_result.
      bindE (filesQ (readIntent D (run_run_id r))) (\<lambda>existing_intent.
      case existing_result of
        Some result \<Rightarrow>
          if existing_intent = None \<or> wlr_dispatch_id result \<noteq> dsp_dispatch_id d
          then blockUnknown Q scan_at scanned r d ''RESULT_WITHOUT_MATCHING_INTENT'' True
          else if wlo_effect (wlr_outcome result) = Effect_Unknown
          then blockUnknown Q scan_at scanned r d ''PERSISTED_UNKNOWN_EFFECT'' False
          else bindE (filesQ (writeHealth Q (settled_health scan_at (run_run_id r) result))) (\<lambda>_.
               ret (Scan_Settled scanned (run_run_id r) (dsp_dispatch_id d) result))
      | None \<Rightarrow>
          if existing_intent \<noteq> None then blockUnknown Q scan_at scanned r d ''LAUNCH_INTENT_WITHOUT_RESULT'' True
          else launch_run Q scan_at scanned r d max_runtime))))"

definition queued_here :: "'w queue_env \<Rightarrow> run_record \<Rightarrow> bool" where
  "queued_here Q r \<longleftrightarrow> run_repo_id r = qe_repo_id Q \<and> rme_mode (run_runner r) = Queued \<and> rme_requested (run_runner r) = Some (qe_runner Q)"

definition finish_scan :: "'w queue_env \<Rightarrow> string \<Rightarrow> nat \<Rightarrow> scan_result option \<Rightarrow> ('w, scan_result) queue_eff" where
  "finish_scan Q scan_at scanned last_blocked =
     bindE (filesQ (writeHealth Q ((plain_health Sup_Ready Con_Idle scan_at)\<lparr>
         hin_warnings := (if last_blocked = None then [] else [''QUEUED_RUN_NOT_ADMITTED''])\<rparr>))) (\<lambda>_.
     ret (case last_blocked of None \<Rightarrow> Scan_Idle scanned | Some b \<Rightarrow> b))"

fun scan_runs :: "'w queue_env \<Rightarrow> string \<Rightarrow> nat \<Rightarrow> scan_result option \<Rightarrow> run_record list \<Rightarrow> ('w, scan_result) queue_eff" where
  "scan_runs Q scan_at scanned last_blocked [] = finish_scan Q scan_at scanned last_blocked"
| "scan_runs Q scan_at scanned last_blocked (r # rs) =
     (if \<not> queued_here Q r then scan_runs Q scan_at scanned last_blocked rs
      else bindE (filesQ (readStatus (qe_run Q) (run_run_id r))) (\<lambda>existing.
        if existing \<noteq> None then scan_runs Q scan_at scanned last_blocked rs
        else
          let n = scanned + 1 in
          bindE (read_admission Q r) (\<lambda>admission.
          case admission of
            Adm_Matching task \<Rightarrow>
              if man_version (run_manifest_of r) \<noteq> 3
              then scan_runs Q scan_at n (Some (Scan_Not_Admitted n (run_run_id r) (Adm_Conflicting ''UNSUPPORTED_RUN_BINDING''))) rs
              else process_admitted Q scan_at n r (qe_runner Q) task
          | refused \<Rightarrow> scan_runs Q scan_at n (Some (Scan_Not_Admitted n (run_run_id r) refused)) rs)))"

definition scanOnce :: "'w queue_env \<Rightarrow> ('w, scan_result) queue_eff" where
  "scanOnce Q =
     bindE (filesQ (askF (de_now (qe_run Q)))) (\<lambda>scan_at.
     bindE (filesQ (writeHealth Q (plain_health Sup_Running Con_Scanning scan_at))) (\<lambda>_.
     bindE (filesQ (discoverRuns (qe_run Q))) (\<lambda>records.
     scan_runs Q scan_at 0 None records)))"

text \<open>Any number of scans, by any supervisors of the repository, one after the other.\<close>

fun scan_all :: "'w queue_env list \<Rightarrow> 'w queue_state \<Rightarrow> 'w queue_state" where
  "scan_all [] s = s"
| "scan_all (Q # Qs) s = scan_all Qs (snd (scanOnce Q s))"

end
