(* ===== verification/Delegation_Interactions.thy ===== *)
theory Delegation_Interactions
  imports Delegation_Queue
begin

text \<open>
  The conversation of a run (src/delegation/interaction-store.ts): its session, the question of each
  turn and the reply to it, as files of the run's directory. A question is put on file once, or takes
  the place of the one whose digest the caller names; a reply is put on file once for each question.
\<close>

section \<open>Paths\<close>

definition MAX_INTERACTION_BYTES :: int where
  "MAX_INTERACTION_BYTES = 131072"

definition runDirectory :: "string \<Rightarrow> task_err + string" where
  "runDirectory run_id = (if run_id_ok run_id then Inr (''.chatgpt/codex-runs/'' @ run_id) else Inl interaction_error)"

definition sessionPath :: "string \<Rightarrow> task_err + string" where
  "sessionPath run_id = bindR (runDirectory run_id) (\<lambda>d. Inr (d @ ''/runner.session.json''))"

definition turn_range :: "int \<Rightarrow> task_err + unit" where
  "turn_range n = guardR (1 \<le> n \<and> n \<le> 32) interaction_error"

text \<open>\<open>String(n).padStart(4, "0")\<close>\<close>

definition turn_text :: "int \<Rightarrow> string" where
  "turn_text n = (let d = nat_digits (nat n) in replicate (4 - length d) (CHR ''0'') @ d)"

definition interactionPaths :: "string \<Rightarrow> int \<Rightarrow> task_err + (string \<times> string)" where
  "interactionPaths run_id n =
     bindR (runDirectory run_id) (\<lambda>d.
     bindR (turn_range n) (\<lambda>_.
     let stem = d @ ''/interactions/turn-'' @ turn_text n in Inr (stem @ ''.question.json'', stem @ ''.reply.json'')))"

definition questionReplyPath :: "string \<Rightarrow> int \<Rightarrow> string \<Rightarrow> task_err + string" where
  "questionReplyPath run_id n question_sha256 =
     bindR (guardR (hex_n 64 question_sha256) interaction_error) (\<lambda>_.
     bindR (runDirectory run_id) (\<lambda>d.
     bindR (turn_range n) (\<lambda>_.
     Inr (d @ ''/interactions/turn-'' @ turn_text n @ ''-'' @ question_sha256 @ ''.reply.json''))))"

definition assertBinding :: "string \<Rightarrow> string \<Rightarrow> string \<Rightarrow> string \<Rightarrow> task_err + unit" where
  "assertBinding actual_repo actual_run repo_id run_id = guardR (actual_repo = repo_id \<and> actual_run = run_id) interaction_error"

definition assertInteractionBinding :: "string \<Rightarrow> string \<Rightarrow> int \<Rightarrow> string \<Rightarrow> string \<Rightarrow> int \<Rightarrow> task_err + unit" where
  "assertInteractionBinding actual_repo actual_run actual_turn repo_id run_id turn =
     bindR (assertBinding actual_repo actual_run repo_id run_id) (\<lambda>_. guardR (actual_turn = turn) interaction_error)"

section \<open>Files\<close>

definition readRawArtifact :: "'w run_env \<Rightarrow> string \<Rightarrow> ('w, string option) fs_eff" where
  "readRawArtifact D p =
     catchE
       (bindE (real_nodes D (run_file D p)) (\<lambda>(root_real, target_real, stat).
        bindE (throw_if (nd_kind stat \<noteq> Regular \<or> MAX_INTERACTION_BYTES < int (length (nd_bytes stat)) \<or> \<not> isWithin root_real target_real)
          interaction_error) (\<lambda>_.
        bindE (sys_read (de_fs D) target_real) (\<lambda>c. ret (Some c)))))
       (\<lambda>e. if not_found e then ret None else throw e)"

definition readArtifact :: "'w run_env \<Rightarrow> string \<Rightarrow> (string \<Rightarrow> 'r option) \<Rightarrow> ('r \<Rightarrow> bool) \<Rightarrow> ('w, 'r option) fs_eff" where
  "readArtifact D p parse ok =
     bindE (readRawArtifact D p) (\<lambda>raw. case raw of
         None \<Rightarrow> ret None
       | Some t \<Rightarrow> (case parse t of
             None \<Rightarrow> throw ZodErr
           | Some v \<Rightarrow> if ok v then ret (Some v) else throw ZodErr))"

definition interaction_directory :: "'w run_env \<Rightarrow> string \<Rightarrow> ('w, unit) fs_eff" where
  "interaction_directory D p =
     bindE (real_nodes D p) (\<lambda>(root_real, target_real, stat).
     throw_if (nd_kind stat \<noteq> Directory \<or> \<not> isWithin root_real target_real) interaction_error)"

definition assertSafeRunDirectoryOf :: "'w run_env \<Rightarrow> string \<Rightarrow> ('w, unit) fs_eff" where
  "assertSafeRunDirectoryOf D run_id = bindE (liftR (runDirectory run_id)) (\<lambda>d. interaction_directory D (run_file D d))"

definition assertAbsentOrRegular :: "'w run_env \<Rightarrow> string \<Rightarrow> ('w, unit) fs_eff" where
  "assertAbsentOrRegular D p =
     catchE (bindE (sys_lstat (de_fs D) (run_file D p)) (\<lambda>(_, stat). throw_if (nd_kind stat \<noteq> Regular) interaction_error))
       (\<lambda>e. if not_found e then ret () else throw e)"

definition assertSafeInteractionDirectory :: "'w run_env \<Rightarrow> string \<Rightarrow> ('w, unit) fs_eff" where
  "assertSafeInteractionDirectory D run_id =
     bindE (assertSafeRunDirectoryOf D run_id) (\<lambda>_.
     bindE (liftR (runDirectory run_id)) (\<lambda>d.
     let p = posix_join (run_file D d) ''interactions'' in
     bindE (mkdir_recursive (de_fs D) p) (\<lambda>_. interaction_directory D p)))"

section \<open>The session\<close>

definition readSession :: "'w run_env \<Rightarrow> string \<Rightarrow> string \<Rightarrow> ('w, run_session option) fs_eff" where
  "readSession D repo_id run_id =
     bindE (liftR (sessionPath run_id)) (\<lambda>p.
     bindE (readArtifact D p (de_session_of D) (session_ok (de_datetime D))) (\<lambda>v. case v of
         None \<Rightarrow> ret None
       | Some s \<Rightarrow> bindE (liftR (assertBinding (ses_repo_id s) (ses_run_id s) repo_id run_id)) (\<lambda>_. ret (Some s))))"

definition writeSession :: "'w run_env \<Rightarrow> run_session \<Rightarrow> string option \<Rightarrow> int option \<Rightarrow> ('w, run_session) fs_eff" where
  "writeSession D input updated_at active =
     bindE (assertSafeRunDirectoryOf D (ses_run_id input)) (\<lambda>_.
     bindE (liftR (sessionPath (ses_run_id input))) (\<lambda>p.
     bindE (assertAbsentOrRegular D p) (\<lambda>_.
     bindE (case updated_at of None \<Rightarrow> askF (de_now D) | Some t \<Rightarrow> ret t) (\<lambda>now.
     let s = input\<lparr>ses_active_runtime := (case active of None \<Rightarrow> 0 | Some n \<Rightarrow> n), ses_updated_at := now\<rparr> in
     bindE (throw_if (\<not> session_ok (de_datetime D) s) ZodErr) (\<lambda>_.
     bindE (atomicWriteFile (de_fs D) (run_file D p) (file_bytes D (de_session_text D s))) (\<lambda>_. ret s))))))"

section \<open>Questions\<close>

text \<open>The digest is that of the text as it was read, written again as UTF-8; an empty file is no question.\<close>

definition text_digest :: "'w run_env \<Rightarrow> string \<Rightarrow> string" where
  "text_digest D raw = de_sha256 D (case rp_decode (de_repo D) raw of None \<Rightarrow> raw | Some t \<Rightarrow> rp_encode (de_repo D) t)"

definition readQuestion :: "'w run_env \<Rightarrow> string \<Rightarrow> string \<Rightarrow> int \<Rightarrow> ('w, (interaction_question \<times> string) option) fs_eff" where
  "readQuestion D repo_id run_id n =
     bindE (liftR (interactionPaths run_id n)) (\<lambda>paths.
     bindE (readRawArtifact D (fst paths)) (\<lambda>raw. case raw of
         None \<Rightarrow> ret None
       | Some t \<Rightarrow>
           if t = [] then ret None
           else (case de_question_of D t of
               None \<Rightarrow> throw ZodErr
             | Some q \<Rightarrow>
                 bindE (throw_if (\<not> question_ok (de_datetime D) q) ZodErr) (\<lambda>_.
                 bindE (liftR (assertInteractionBinding (que_repo_id q) (que_run_id q) (que_turn_index q) repo_id run_id n)) (\<lambda>_.
                 ret (Some (q, text_digest D t)))))))"

definition question_taken :: "'w run_env \<Rightarrow> interaction_question \<Rightarrow> ('w, interaction_question \<times> string) fs_eff" where
  "question_taken D q =
     bindE (readQuestion D (que_repo_id q) (que_run_id q) (que_turn_index q)) (\<lambda>existing. case existing of
         None \<Rightarrow> throw interaction_error
       | Some x \<Rightarrow> if de_question_text D (fst x) \<noteq> de_question_text D q then throw interaction_error else ret x)"

definition writeQuestion ::
  "'w run_env \<Rightarrow> interaction_question \<Rightarrow> string option \<Rightarrow> string option \<Rightarrow> ('w, interaction_question \<times> string) fs_eff" where
  "writeQuestion D input created_at replace_sha256 =
     bindE (case created_at of None \<Rightarrow> askF (de_now D) | Some t \<Rightarrow> ret t) (\<lambda>now.
     let q = input\<lparr>que_created_at := now\<rparr>; bytes = file_bytes D (de_question_text D q) in
     bindE (throw_if (\<not> question_ok (de_datetime D) q) ZodErr) (\<lambda>_.
     bindE (assertSafeInteractionDirectory D (que_run_id q)) (\<lambda>_.
     bindE (liftR (interactionPaths (que_run_id q) (que_turn_index q))) (\<lambda>paths.
     case replace_sha256 of
       Some sha \<Rightarrow>
         bindE (readQuestion D (que_repo_id q) (que_run_id q) (que_turn_index q)) (\<lambda>existing.
         bindE (throw_if (map_option snd existing \<noteq> Some sha) interaction_error) (\<lambda>_.
         bindE (atomicWriteFile (de_fs D) (run_file D (fst paths)) bytes) (\<lambda>_. ret (q, de_sha256 D bytes))))
     | None \<Rightarrow>
         catchE (bindE (writeExclusive (de_fs D) (run_file D (fst paths)) bytes) (\<lambda>_. ret (q, de_sha256 D bytes)))
           (\<lambda>e. if already_exists e then question_taken D q else throw e)))))"

section \<open>Replies\<close>

fun first_reply ::
  "'w run_env \<Rightarrow> string \<Rightarrow> string \<Rightarrow> int \<Rightarrow> string option \<Rightarrow> string list \<Rightarrow> ('w, interaction_reply option) fs_eff" where
  "first_reply D repo_id run_id n question_sha256 [] = ret None"
| "first_reply D repo_id run_id n question_sha256 (p # ps) =
     bindE (readArtifact D p (de_reply_of D) (reply_ok (de_datetime D))) (\<lambda>v. case v of
         None \<Rightarrow> first_reply D repo_id run_id n question_sha256 ps
       | Some r \<Rightarrow>
           bindE (liftR (assertInteractionBinding (rpl_repo_id r) (rpl_run_id r) (rpl_turn_index r) repo_id run_id n)) (\<lambda>_.
           if question_sha256 = None \<or> question_sha256 = Some (rpl_question_sha256 r) then ret (Some r)
           else first_reply D repo_id run_id n question_sha256 ps))"

definition reply_paths :: "string \<Rightarrow> int \<Rightarrow> string option \<Rightarrow> task_err + string list" where
  "reply_paths run_id n question_sha256 = (case question_sha256 of
       None \<Rightarrow> bindR (interactionPaths run_id n) (\<lambda>p. Inr [snd p])
     | Some sha \<Rightarrow> bindR (questionReplyPath run_id n sha) (\<lambda>own. bindR (interactionPaths run_id n) (\<lambda>p. Inr [own, snd p])))"

definition readReply :: "'w run_env \<Rightarrow> string \<Rightarrow> string \<Rightarrow> int \<Rightarrow> string option \<Rightarrow> ('w, interaction_reply option) fs_eff" where
  "readReply D repo_id run_id n question_sha256 =
     bindE (liftR (reply_paths run_id n question_sha256)) (\<lambda>paths. first_reply D repo_id run_id n question_sha256 paths)"

definition reply_exists :: task_err where
  "reply_exists = repo_error ''RUNNER_REPLY_ALREADY_EXISTS''"

definition writeReply :: "'w run_env \<Rightarrow> interaction_reply \<Rightarrow> string option \<Rightarrow> ('w, interaction_reply) fs_eff" where
  "writeReply D input created_at =
     bindE (case created_at of None \<Rightarrow> askF (de_now D) | Some t \<Rightarrow> ret t) (\<lambda>now.
     let r = input\<lparr>rpl_created_at := now\<rparr> in
     bindE (throw_if (\<not> reply_ok (de_datetime D) r) ZodErr) (\<lambda>_.
     bindE (assertSafeInteractionDirectory D (rpl_run_id r)) (\<lambda>_.
     bindE (liftR (questionReplyPath (rpl_run_id r) (rpl_turn_index r) (rpl_question_sha256 r))) (\<lambda>p.
     bindE (catchE (writeExclusive (de_fs D) (run_file D p) (file_bytes D (de_reply_text D r)))
       (\<lambda>e. throw (if already_exists e then reply_exists else e))) (\<lambda>_.
     ret r)))))"

end
