(* ===== verification/Delegation_Properties.thy ===== *)
theory Delegation_Properties
  imports Delegation_Interactions Git_Mutation_Properties Receipt_Properties
begin

text \<open>
  A run of the queue is launched at most once, whatever fails and however many supervisors scan,
  because the intent to launch it is a file that is made once; and a scan launches only what its
  admission bound.
\<close>

section \<open>Names that stay\<close>

definition holding :: "string set \<Rightarrow> 'w fs_state \<Rightarrow> bool" where
  "holding X s \<longleftrightarrow> (\<forall>p \<in> X. node_of s p \<noteq> None)"

lemma holding_blind [simp]: "fs_blind (holding X)"
  by (simp add: fs_blind_def holding_def)

lemma holding_simps [simp]:
  "holding X s \<Longrightarrow> holding X (bind_name p i s)" "holding X s \<Longrightarrow> holding X (add_node p nd s)"
  "holding X (set_node i g s) = holding X s" "p \<notin> X \<Longrightarrow> holding X (drop_name p s) = holding X s"
  by (auto simp: holding_def)

named_theorems holding_steps "operations after which every name that was there is there"

lemmas holding_calls [holding_steps] =
  keeps_askF [OF holding_blind] keeps_sys_call [OF holding_blind] keeps_lstat [OF holding_blind] keeps_fsync [OF holding_blind]
  keeps_sys_read [OF holding_blind]

lemma keeps_modify: "(\<And>s. P s \<Longrightarrow> P (f s)) \<Longrightarrow> keeps P (modifyE f)"
  by (simp add: keeps_def modifyE_def)

lemma holding_chmod [holding_steps]: "keeps (holding X) (sys_chmod F p m)"
  by (rule keeps_chmod) simp_all

lemma holding_write [holding_steps]: "keeps (holding X) (sys_write F i c)"
  unfolding sys_write_def by (intro pres_intros holding_steps keeps_modify) simp_all

lemma holding_create [holding_steps]: "keeps (holding X) (sys_create F p m)"
  unfolding sys_create_def by (intro pres_intros holding_steps keeps_modify) simp

lemma holding_mkdir [holding_steps]: "keeps (holding X) (mkdir_recursive F p)"
  unfolding mkdir_recursive_def ensure_made_def by (intro pres_intros holding_steps keeps_modify) simp

lemma holding_realpath [holding_steps]: "keeps (holding X) (realpathE E p)"
  unfolding realpathE_def by (intro pres_intros)

lemma holding_rename: "tmp \<notin> X \<Longrightarrow> keeps (holding X) (sys_rename F tmp p)"
  unfolding sys_rename_def by (intro pres_intros holding_steps keeps_modify) simp

lemma holding_rm: "tmp \<notin> X \<Longrightarrow> keeps (holding X) (sys_rm_force F tmp)"
  by (rule keeps_rm) simp_all

definition apart_from :: "'w fs_env \<Rightarrow> string set \<Rightarrow> bool" where
  "apart_from F X \<longleftrightarrow> (\<forall>p \<in> X. \<not> scratch_name F p)"

lemma keeps_askF_value: "fs_blind P \<Longrightarrow> (\<And>w. keeps P (h (fst (f w)))) \<Longrightarrow> keeps P (bindE (askF f) h)"
  by (auto simp: keeps_def bindE_def askF_def fs_blind_def split: prod.split) (metis fst_conv)

lemma holding_atomic: "apart_from F X \<Longrightarrow> keeps (holding X) (atomicWriteFile F p c)"
  unfolding atomicWriteFile_def replace_file_def write_temporary_def cleanup_temporary_def quietly_def
  by (intro keeps_bindE [OF holding_mkdir] keeps_askF_value pres_intros holding_steps holding_rename holding_rm holding_blind)
    (auto simp: apart_from_def scratch_name_def)

lemma holding_nodes [holding_steps]: "keeps (holding X) (real_nodes D p)"
  unfolding real_nodes_def by (intro pres_intros holding_steps)

lemma holding_artifact [holding_steps]: "keeps (holding X) (readSafeRunArtifact D p n)"
  unfolding readSafeRunArtifact_def by (intro pres_intros holding_steps)

lemma holding_directory [holding_steps]: "keeps (holding X) (assertSafeRunDirectory D p)"
  unfolding assertSafeRunDirectory_def by (intro pres_intros holding_steps)

lemma holding_exclusive [holding_steps]: "keeps (holding X) (writeExclusiveSafeRunJson D p t)"
  unfolding writeExclusiveSafeRunJson_def exclusive_steps_def by (intro pres_intros holding_steps)

lemma holding_readdir [holding_steps]: "keeps (holding X) (sys_readdir D p)"
  unfolding sys_readdir_def by (intro pres_intros holding_steps)

lemma holding_run [holding_steps]: "keeps (holding X) (readRun D r)"
  unfolding readRun_def by (intro pres_intros holding_steps)

lemma holding_runs [holding_steps]: "keeps (holding X) (read_runs D rs)"
  by (induction rs) (auto intro!: pres_intros holding_steps)

lemma holding_discover [holding_steps]: "keeps (holding X) (discoverRuns D)"
  unfolding discoverRuns_def discoverRunIds_def by (intro pres_intros holding_steps)

lemma holding_status [holding_steps]: "keeps (holding X) (readStatus D r)"
  unfolding readStatus_def parsed_status_def by (intro pres_intros holding_steps)

lemma holding_records [holding_steps]:
  "keeps (holding X) (readDispatch D r)" "keeps (holding X) (readIntent D r)" "keeps (holding X) (readResult D r)"
  unfolding readDispatch_def readIntent_def readResult_def read_record_def by (intro pres_intros holding_steps)+

lemma holding_once [holding_steps]: "keeps (holding X) rd \<Longrightarrow> keeps (holding X) (ensure_once D p t c rd same)"
  unfolding ensure_once_def by (intro pres_intros holding_steps)

lemma holding_ensure [holding_steps]:
  "keeps (holding X) (ensureAdmitted D b t)" "keeps (holding X) (ensureLaunchIntent D d i)"
  "keeps (holding X) (writeLaunchResult D d out started t)"
  unfolding ensureAdmitted_def ensureLaunchIntent_def writeLaunchResult_def by (intro pres_intros holding_steps)+

lemma holding_supervisor [holding_steps]: "keeps (holding X) (supervisor_read D)"
  unfolding supervisor_read_def by (intro pres_intros holding_steps)

lemma holding_health: "apart_from (de_fs (qe_run Q)) X \<Longrightarrow> keeps (holding X) (writeHealth Q i)"
  unfolding writeHealth_def supervisor_writeNow_def by (intro pres_intros holding_steps holding_atomic)

section \<open>Queue steps\<close>

definition launched :: "'w queue_state \<Rightarrow> string list" where
  "launched s = map (\<lambda>q. dsb_run_id (dsp_binding (lrq_dispatch q))) (qs_launches s)"

definition intent_at :: "string \<Rightarrow> string \<Rightarrow> string" where
  "intent_at root run_id = posix_join root (dpt_intent (paths_of_dispatch run_id))"

text \<open>Every run launched has its intent on file, and none was launched twice.\<close>

definition claimed :: "string \<Rightarrow> 'w queue_state \<Rightarrow> bool" where
  "claimed root s \<longleftrightarrow> distinct (launched s) \<and> holding (intent_at root ` set (launched s)) (qs_fs s)"

definition may_launch :: "string \<Rightarrow> string \<Rightarrow> 'w queue_state \<Rightarrow> bool" where
  "may_launch root run_id s \<longleftrightarrow> claimed root s \<and> run_id \<notin> set (launched s) \<and> holding {intent_at root run_id} (qs_fs s)"

text \<open>What is needed of a supervisor and its worker: temporary names end otherwise than the intents do,
  and a worker leaves the intents where they are.\<close>

definition supervises :: "string \<Rightarrow> 'w queue_env \<Rightarrow> bool" where
  "supervises root Q \<longleftrightarrow> rp_root (de_repo (qe_run Q)) = root \<and> apart_from (de_fs (qe_run Q)) (range (intent_at root))
     \<and> (\<forall>q r s run_id. node_of s (intent_at root run_id) \<noteq> None \<longrightarrow> node_of (snd (qe_launch Q q r s)) (intent_at root run_id) \<noteq> None)"

lemma launched_files [simp]: "launched (s\<lparr>qs_fs := t\<rparr>) = launched s"
  by (simp add: launched_def)

text \<open>What keeps every intent keeps what is known of the launches.\<close>

definition intents_stay :: "string \<Rightarrow> ('w, 'a) fs_eff \<Rightarrow> bool" where
  "intents_stay root m \<longleftrightarrow> (\<forall>ids. keeps (holding (intent_at root ` ids)) m)"

lemma intents_stayI: "(\<And>X. keeps (holding X) m) \<Longrightarrow> intents_stay root m"
  by (simp add: intents_stay_def)

lemma claimed_files: "intents_stay root m \<Longrightarrow> keeps (claimed root) (filesQ m)"
  unfolding keeps_def intents_stay_def filesQ_def claimed_def by (auto split: prod.split) (metis snd_conv)

lemma may_launch_files: "intents_stay root m \<Longrightarrow> keeps (may_launch root run_id) (filesQ m)"
proof (rule keepsI)
  fix s :: "'a queue_state" assume m: "intents_stay root m" and s: "may_launch root run_id s"
  have "holding (intent_at root ` ids) (qs_fs s) \<Longrightarrow> holding (intent_at root ` ids) (snd (m (qs_fs s)))" for ids
    using m by (simp add: intents_stay_def keeps_def)
  from this [of "set (launched s)"] this [of "{run_id}"] s show "may_launch root run_id (snd (filesQ m s))"
    by (cases "m (qs_fs s)") (simp add: may_launch_def claimed_def filesQ_def)
qed

lemma health_stays: "supervises root Q \<Longrightarrow> intents_stay root (writeHealth Q i)"
  unfolding intents_stay_def supervises_def by (auto intro!: holding_health simp: apart_from_def)

lemma worker_stays: "supervises root Q \<Longrightarrow> intents_stay root (qe_launch Q q r)"
  by (auto simp: intents_stay_def keeps_def holding_def supervises_def)

lemma admission_claimed: "keeps (claimed root) (read_admission Q r)"
  unfolding read_admission_def
  by (rule claimed_files) (auto simp: intents_stay_def keeps_def holding_def node_of_def split: prod.split)

text \<open>The intent is made once: who makes it finds no launch of the run.\<close>

lemma triple_made:
  "triple (holding X) (sys_create F a m) (\<lambda>_ s. holding (insert a X) s \<and> a \<notin> X) (holding X)"
  unfolding sys_create_def
  apply (rule triple_bind [OF triple_call [OF holding_blind]], assumption)
  apply (rule triple_look)
  apply (auto simp: triple_def wp_simps holding_def split: prod.split)
  done

lemma triple_exclusive:
  "triple (holding X) (writeExclusiveSafeRunJson D p t)
     (\<lambda>made s. holding X s \<and> (made \<longrightarrow> holding (insert (run_file D p) X) s \<and> run_file D p \<notin> X)) (holding X)"
proof -
  let ?a = "run_file D p"
  have steps: "triple (holding X) (exclusive_steps D ?a c)
     (\<lambda>made s. holding X s \<and> (made \<longrightarrow> holding (insert ?a X) s \<and> ?a \<notin> X)) (holding X)" for c
    unfolding exclusive_steps_def
    apply (rule triple_bind [OF triple_made], rule triple_fact)
    apply (rule triple_conseq [OF triple_keeping [where P = "holding (insert ?a X)" and R = "holding X"]])
        apply (intro pres_intros holding_steps)
       apply (auto simp: holding_def)
    done
  show ?thesis
    unfolding writeExclusiveSafeRunJson_def
    apply (rule triple_kept [OF holding_directory], assumption)
    apply (rule triple_recover [OF steps])
    apply (auto intro!: triple_ret triple_throw)
    done
qed

lemma triple_once:
  assumes "\<And>Y. keeps (holding Y) rd"
  shows "triple (holding X) (ensure_once D p t c rd same)
     (\<lambda>x s. holding X s \<and> (snd x \<longrightarrow> holding (insert (run_file D p) X) s \<and> run_file D p \<notin> X)) (holding X)"
  unfolding ensure_once_def
  apply (rule triple_bind [OF triple_exclusive])
  subgoal for made
    apply (cases made)
     apply (auto intro!: triple_ret) [1]
    apply simp
    apply (rule triple_kept [OF assms], assumption)
    subgoal for r by (cases r) (auto intro!: triple_ret triple_throw triple_liftR)
    done
  done

lemma triple_ensure_intent:
  "triple (holding X) (ensureLaunchIntent D d i)
     (\<lambda>x s. holding X s \<and> (snd x \<longrightarrow> holding (insert (run_file D (dpt_intent (paths_of_dispatch (dsb_run_id (dsp_binding d))))) X) s
        \<and> run_file D (dpt_intent (paths_of_dispatch (dsb_run_id (dsp_binding d)))) \<notin> X)) (holding X)"
  unfolding ensureLaunchIntent_def Let_def
  apply (rule triple_kept [OF keeps_askF [OF holding_blind]], assumption)
  apply (rule triple_guard [rotated], assumption)
  apply (rule triple_kept [OF holding_records(2)], assumption)
  subgoal for now existing
    apply (cases existing)
     apply simp
     apply (rule triple_guard [rotated], assumption)
     apply (rule triple_once [OF holding_records(2)])
    apply (auto intro!: triple_liftR triple_ret)
    done
  done

lemma triple_files:
  assumes "\<And>X. triple (holding X) m (\<lambda>x s. holding X s \<and> (snd x \<longrightarrow> holding (insert (intent_at root run_id) X) s \<and> intent_at root run_id \<notin> X))
      (holding X)"
  shows "triple (claimed root) (filesQ m) (\<lambda>x s. claimed root s \<and> (snd x \<longrightarrow> may_launch root run_id s)) (claimed root)"
proof -
  have "wp (filesQ m) (\<lambda>x s. claimed root s \<and> (snd x \<longrightarrow> may_launch root run_id s)) (\<lambda>_. claimed root) s"
    if s: "claimed root s" for s
  proof -
    let ?X = "intent_at root ` set (launched s)"
    have "wp m (\<lambda>x s. holding ?X s \<and> (snd x \<longrightarrow> holding (insert (intent_at root run_id) ?X) s \<and> intent_at root run_id \<notin> ?X))
        (\<lambda>_. holding ?X) (qs_fs s)"
      using assms [of ?X] s by (simp add: triple_def claimed_def)
    then show ?thesis
      using s by (auto simp: wp_def filesQ_def claimed_def may_launch_def holding_def split: prod.splits sum.splits)
  qed
  then show ?thesis
    by (simp add: triple_def)
qed

lemma triple_intent:
  assumes "supervises root Q"
  shows "triple (claimed root) (filesQ (ensureLaunchIntent (qe_run Q) d i))
     (\<lambda>x s. claimed root s \<and> (snd x \<longrightarrow> may_launch root (dsb_run_id (dsp_binding d)) s)) (claimed root)"
  using triple_ensure_intent [of _ "qe_run Q" d i] assms
  by (intro triple_files) (simp add: supervises_def run_file_def intent_at_def)

section \<open>What a scan does around a launch\<close>

text \<open>What the health reports and the result of a launch keep, every step that is made of them keeps.\<close>

locale queue_frame =
  fixes Q :: "'w queue_env" and P :: "'w queue_state \<Rightarrow> bool"
  assumes health: "keeps P (filesQ (writeHealth Q i))"
    and result: "keeps P (filesQ (writeLaunchResult (qe_run Q) d outcome started completed))"
begin

lemma of_blocked: "keeps P (blockUnknown Q t n r d reason inc)"
  unfolding blockUnknown_def by (intro pres_intros health)

lemma of_report: "keeps P (report_launch Q t n r d x)"
  unfolding report_launch_def by (intro pres_intros health of_blocked)

lemma of_written:
  "keeps P (catchE (bindE (filesQ (writeLaunchResult (qe_run Q) d outcome started completed)) (\<lambda>x. ret (Some (fst x)))) (\<lambda>_. ret None))"
  by (intro pres_intros result)

lemma of_finish: "keeps P (finish_scan Q t n b)"
  unfolding finish_scan_def by (intro pres_intros health)

end

definition supervised_claims :: "string \<Rightarrow> 'w queue_env \<Rightarrow> 'w queue_state \<Rightarrow> bool" where
  "supervised_claims root Q s \<longleftrightarrow> (supervises root Q \<longrightarrow> claimed root s)"

lemma keeps_supervised: "(supervises root Q \<Longrightarrow> keeps (claimed root) m) \<Longrightarrow> keeps (supervised_claims root Q) m"
  by (auto simp: keeps_def supervised_claims_def)

interpretation claims: queue_frame Q "supervised_claims root Q" for Q :: "'w queue_env" and root
  by standard (intro keeps_supervised claimed_files health_stays intents_stayI holding_steps, assumption,
      intro keeps_supervised claimed_files intents_stayI holding_steps)

lemma supervised_keeps: "supervises root Q \<Longrightarrow> keeps (supervised_claims root Q) m \<Longrightarrow> keeps (claimed root) m"
  by (simp add: keeps_def supervised_claims_def)

lemmas claimed_blocked = supervised_keeps [OF _ claims.of_blocked]
lemmas claimed_report = supervised_keeps [OF _ claims.of_report]
lemmas claimed_result = supervised_keeps [OF _ claims.of_written]
lemmas claimed_finish = supervised_keeps [OF _ claims.of_finish]

section \<open>A launch\<close>

lemma triple_launch_worker:
  assumes "supervises root Q" "run_id = dsb_run_id (dsp_binding (lrq_dispatch q))"
  shows "triple (may_launch root run_id) (launch_worker Q q r) (\<lambda>_. claimed root) (claimed root)"
  unfolding launch_worker_def
  apply (rule triple_bind [where Q = "\<lambda>_. claimed root"])
   apply (rule triple_modify)
   apply (use assms(2) in \<open>auto simp: may_launch_def claimed_def launched_def holding_def\<close>) [1]
  apply (rule triple_keeps [OF claimed_files [OF worker_stays [OF assms(1)]]])
  done

lemma triple_outcome:
  assumes "supervises root Q" "run_id = dsb_run_id (dsp_binding (lrq_dispatch q))"
  shows "triple (may_launch root run_id) (launch_outcome_of Q q r) (\<lambda>_. claimed root) (claimed root)"
  unfolding launch_outcome_of_def
  apply (rule triple_recover [where R = "claimed root"])
   apply (rule triple_bind [OF triple_launch_worker [OF assms]])
   apply (rule triple_guard, rule triple_guard, rule triple_ret)
     apply assumption+
  apply (rule triple_ret, assumption)
  done

lemma claimed_launch_run:
  assumes "supervises root Q"
  shows "keeps (claimed root) (launch_run Q t n r d m)"
proof (rule triple_is_kept)
  show "triple (claimed root) (launch_run Q t n r d m) (\<lambda>_. claimed root) (claimed root)"
    unfolding launch_run_def
    apply (rule triple_bind [OF triple_intent [OF assms]])
    subgoal for x
      apply (cases "snd x"; cases x; simp)
       apply (rule triple_conseq [where P' = "\<lambda>s. claimed root s \<and> may_launch root (dsb_run_id (dsp_binding d)) s"])
          apply (rule triple_bind [OF triple_keeping [where R = "claimed root",
              OF may_launch_files [OF health_stays [OF assms], of "dsb_run_id (dsp_binding d)"]]])
           apply (simp add: may_launch_def)
          apply (rule triple_bind [OF triple_outcome [OF assms]], simp)
          apply (rule triple_bind [OF triple_keeps [OF claimed_result [OF assms]]])
          apply (rule triple_keeps [OF claimed_report [OF assms]])
         apply (erule conjunct2, assumption+)
      apply (rule triple_keeps [OF claimed_blocked [OF assms]])
      done
    done
qed

lemma claimed_process: "supervises root Q \<Longrightarrow> keeps (claimed root) (process_admitted Q t n r requested task)"
  unfolding process_admitted_def Let_def
  by (intro pres_intros claimed_files intents_stayI holding_steps health_stays claimed_blocked claimed_launch_run)

lemma claimed_scan_runs: "supervises root Q \<Longrightarrow> keeps (claimed root) (scan_runs Q t n b rs)"
proof (induction rs arbitrary: n b)
  case Nil
  then show ?case
    by (simp add: claimed_finish)
next
  case (Cons r rs)
  have answered: "keeps (claimed root) (case a of Adm_Matching task \<Rightarrow> f task | refused \<Rightarrow> g refused)"
    if "\<And>task. keeps (claimed root) (f task)" "\<And>x. keeps (claimed root) (g x)"
    for a and f :: "task_binding \<Rightarrow> ('a, scan_result) queue_eff" and g
    using that by (cases a) simp_all
  show ?case
    unfolding scan_runs.simps Let_def using Cons
    by (intro pres_intros claimed_files [OF intents_stayI] holding_steps admission_claimed answered claimed_process)
      (auto intro!: answered)
qed

lemma claimed_scan: "supervises root Q \<Longrightarrow> keeps (claimed root) (scanOnce Q)"
  unfolding scanOnce_def
  by (intro pres_intros claimed_files health_stays claimed_scan_runs) (auto intro!: claimed_files intents_stayI holding_steps)

text \<open>C7 (safety).
  However many supervisors of a repository scan, one scan after the other, and whatever call of the
  operating system, record, clock or worker fails in between, no run is launched twice, provided
  that workers leave the files of launch intents where they are and temporary names are others.\<close>

theorem runs_launched_at_most_once:
  assumes "list_all (supervises root) Qs" "qs_launches s = []"
  shows "distinct (launched (scan_all Qs s))"
proof -
  have "claimed root (scan_all Qs s)" if "claimed root s"
    using assms(1) that
  proof (induction Qs arbitrary: s)
    case (Cons Q Qs)
    then show ?case
      using keepsD [OF claimed_scan, of root Q s] by simp
  qed simp
  moreover have "claimed root s"
    using assms(2) by (simp add: claimed_def launched_def holding_def)
  ultimately show ?thesis
    by (simp add: claimed_def)
qed

text \<open>A repository with one queued run that is admitted; the worker's effect is unknown. The scan
  launches it, and no later scan does.\<close>

definition sample_sha :: string where "sample_sha = replicate 64 (CHR ''0'')"

definition sample_run_id :: string where "sample_run_id = ''2024-01-01T000000Z-a''"

definition sample_identity :: service_identity where
  "sample_identity = \<lparr>svi_service_id = ''s'', svi_instance_id = ''i''\<rparr>"

definition queued_manifest :: run_manifest where
  "queued_manifest = \<lparr>man_version = 3, man_repo_id = ''r'', man_run_id = sample_run_id, man_prompt_path = None, man_result_path = None,
     man_result_json_path = None, man_manifest_path = Some (''.chatgpt/codex-runs/'' @ sample_run_id @ ''/run.json''),
     man_runner = Some \<lparr>rme_mode = Queued, rme_requested = Some Codex_App_Server, rme_auto_start = None, rme_max_runtime = None,
       rme_profile = None, rme_commit_after_green = None\<rparr>,
     man_requirement = Legacy_Unavailable, man_task_sha256 = sample_sha, man_baseline_sha256 = sample_sha, man_baseline_head = sample_sha, man_prompt_sha256 = sample_sha, man_json = JNum 1\<rparr>"

definition sample_supervisor :: supervisor_state where
  "sample_supervisor = \<lparr>sup_repo_id = ''r'', sup_runner = Codex_App_Server, sup_status = Sup_Ready, sup_revision = 1,
        sup_heartbeat_at = ''2024-01-01T00:00:00.000Z'', sup_updated_at = ''2024-01-01T00:00:00.000Z'', sup_last_scan = None, sup_last_claimed = None,
        sup_active_run = None, sup_stale_after = 30000, sup_identity = None, sup_health = None, sup_warnings = []\<rparr>"

definition sample_task :: task_binding where
  "sample_task = \<lparr>tbi_task_id = ''2024-01-01T00:00:00.000Z'', tbi_task_repo_id = ''tr'', tbi_base_repo_id = ''r'', tbi_head_sha = sample_sha, tbi_tree_sha = sample_sha,
     tbi_state_sha256 = sample_sha, tbi_binding_sha256 = sample_sha\<rparr>"

definition sample_intent :: launch_intent where
  "sample_intent = \<lparr>lnc_dispatch_id = ''dispatch_'' @ sample_sha, lnc_supervisor = sample_identity, lnc_requested_at = ''2024-01-01T00:00:00.000Z'', lnc_sha256 = sample_sha\<rparr>"

definition sample_run_env :: "nat run_env" where
  "sample_run_env = \<lparr>de_repo = (sample_repo 9999)\<lparr>rp_sha256 := (\<lambda>_. sample_sha)\<rparr>, de_now = (\<lambda>n. (''2024-01-01T00:00:00.000Z'', n)), de_datetime = (\<lambda>_. True),
     de_compare = (\<lambda>_ _. 0), de_redact = (\<lambda>x. x), de_manifest_of = (\<lambda>_. Some queued_manifest),
     de_status_text = (\<lambda>_. ''s''), de_status_of = (\<lambda>_. None), de_event_text = (\<lambda>_. ''e''),
     de_dispatch_text = (\<lambda>_. ''d''), de_dispatch_of = (\<lambda>_. None), de_intent_text = (\<lambda>_. ''i''), de_intent_of = (\<lambda>_. Some sample_intent),
     de_result_text = (\<lambda>_. ''r''), de_result_of = (\<lambda>_. None), de_supervisor_text = (\<lambda>_. ''u''), de_supervisor_of = (\<lambda>_. Some sample_supervisor),
     de_attempt_text = (\<lambda>_. ''a''), de_attempt_of = (\<lambda>_. None), de_session_text = (\<lambda>_. ''n''), de_session_of = (\<lambda>_. None),
     de_question_text = (\<lambda>_. ''q''), de_question_of = (\<lambda>_. None), de_reply_text = (\<lambda>_. ''p''), de_reply_of = (\<lambda>_. None)\<rparr>"

definition sample_queue :: "nat queue_env" where
  "sample_queue = \<lparr>qe_run = sample_run_env, qe_repo_id = ''r'', qe_runner = Codex_App_Server, qe_identity = sample_identity,
     qe_provider_free = False, qe_max_runtime = None, qe_stale_after = None,
     qe_admission = (\<lambda>r s. (Inr (Adm_Matching sample_task), fs_world s)),
     qe_launch = (\<lambda>q r s. (Inr \<lparr>wlo_effect = Effect_Unknown, wlo_contact = Provider_Unknown, wlo_terminal = Term_Unknown, wlo_code = ''X''\<rparr>, s))\<rparr>"

definition sample_runs :: "nat fs_state" where
  "sample_runs = \<lparr>fs_names = [(''/r/.chatgpt/codex-runs/'' @ sample_run_id @ ''/run.json'', 4), (''/r/.chatgpt/codex-runs/'' @ sample_run_id, 3),
      (''/r/.chatgpt/codex-runs'', 2), (''/r/.chatgpt'', 1), (''/r'', 0)],
     fs_nodes = (\<lambda>i. if i = 4 then \<lparr>nd_kind = Regular, nd_mode = 384, nd_bytes = ''m''\<rparr> else \<lparr>nd_kind = Directory, nd_mode = 448, nd_bytes = []\<rparr>),
     fs_next = 5, fs_world = 0\<rparr>"



lemma sample_supervises: "supervises ''/r'' sample_queue"
proof -
  have root: "rp_root (de_repo (qe_run sample_queue)) = ''/r''"
    by (simp add: sample_queue_def sample_run_env_def sample_repo_def sample_fs_def rp_root_def)
  have n: "plain_segment ''worker-launch-intent.json''"
    by (simp add: plain_segment_def)
  have intent: "suffix ''worker-launch-intent.json'' (intent_at ''/r'' run_id)" for run_id
    using join_ends [OF n, of "''/r/'' @ rpt_run_dir (paths_of_run run_id)"]
    by (simp add: intent_at_def paths_of_dispatch_def Let_def posix_join_def)
  have "\<not> suffix ''.tmp-1-a'' (intent_at ''/r'' run_id)" for run_id
    using intent [of run_id] by (auto simp: suffix_def dest!: arg_cong [where f = last])
  then have "\<not> scratch_name (sample_fs 9999) (intent_at ''/r'' run_id)" for run_id
    by (auto simp: scratch_name_def sample_fs_def suffix_def)
  then show ?thesis
    unfolding supervises_def root
    by (simp add: apart_from_def sample_queue_def sample_run_env_def sample_repo_def)
qed

theorem runs_launched_at_most_once_witness:
  "distinct (launched (scan_all [sample_queue, sample_queue] \<lparr>qs_fs = sample_runs, qs_launches = []\<rparr>))"
  by (rule runs_launched_at_most_once [where root = "''/r''"]) (simp_all add: sample_supervises)

section \<open>What is launched\<close>

text \<open>The run is queued for this supervisor, its admission answered with the task, and the dispatch
  on file is the one of that run, task, supervisor and time.\<close>

definition authorized :: "'w queue_env \<Rightarrow> launch_request \<Rightarrow> bool" where
  "authorized Q q \<longleftrightarrow> (\<exists>r task u. queued_here Q r \<and> man_version (run_manifest_of r) = 3
     \<and> fst (qe_admission Q r u) = Inr (Adm_Matching task) \<and> lrq_run_id q = run_run_id r
     \<and> verifyDispatch (qe_run Q) (lrq_dispatch q) = Inr ()
     \<and> dsp_admission_sha256 (lrq_dispatch q)
         = admission_digest (qe_run Q) (dispatch_binding_of Q r (qe_runner Q) task (lrq_max_runtime q))
     \<and> dsb_supervisor (dsp_binding (lrq_dispatch q)) = qe_identity Q
     \<and> lrq_max_runtime q \<le> default_runtime (qe_max_runtime Q)
     \<and> lrq_max_runtime q \<le> default_runtime (rme_max_runtime (run_runner r)))"

definition at_most_one_more :: "'w queue_env \<Rightarrow> launch_request list \<Rightarrow> 'w queue_state \<Rightarrow> bool" where
  "at_most_one_more Q before s \<longleftrightarrow>
     (\<exists>new. qs_launches s = before @ new \<and> length new \<le> 1 \<and> list_all (authorized Q) new)"

lemma keeps_launches: "keeps (\<lambda>s. R (qs_launches s)) (filesQ m)"
  by (auto simp: keeps_def filesQ_def split: prod.split)

lemma keeps_more: "keeps (at_most_one_more Q L) (filesQ m)"
  unfolding at_most_one_more_def by (rule keeps_launches)

lemma keeps_unlaunched: "keeps (\<lambda>s. qs_launches s = L) (filesQ m)"
  by (rule keeps_launches)

lemma none_more: "qs_launches s = L \<Longrightarrow> at_most_one_more Q L s"
  by (auto simp: at_most_one_more_def intro: exI [of _ "[]"])

lemma returns_files: "returns (\<lambda>_. True) m (\<lambda>x _. F x) \<Longrightarrow> returns (\<lambda>_. True) (filesQ m) (\<lambda>x _. F x)"
  by (auto simp: returns_def filesQ_def split: prod.splits)

lemma returns_supervisor:
  "returns (\<lambda>_. True) (ensureLaunchIntent D d i) (\<lambda>_ _. i = dsb_supervisor (dsp_binding d))"
  unfolding ensureLaunchIntent_def Let_def
  by (rule fact_step, rule fact_guard) (auto simp: returns_def)

lemma returns_admission: "returns (\<lambda>_. True) (read_admission Q r) (\<lambda>x _. \<exists>u. fst (qe_admission Q r u) = Inr x)"
  unfolding read_admission_def
  by (rule returns_files) (auto simp: returns_def split: prod.splits, metis fst_conv)

lemma verified_candidate: "verifyDispatch D (dispatch_candidate D b now) = Inr ()"
  by (simp add: verifyDispatch_def dispatch_candidate_def Let_def dispatch_digest_def digestRecord_def dispatch_members_def)

lemma candidate_digest: "dsp_admission_sha256 (dispatch_candidate D b now) = admission_digest D b"
  by (simp add: dispatch_candidate_def Let_def)

lemma same_dispatch: "assertSameDispatch D e c = Inr x \<Longrightarrow>
    x = e \<and> verifyDispatch D e = Inr () \<and> dsp_admission_sha256 e = dsp_admission_sha256 c"
  by (auto simp: assertSameDispatch_def)

lemma returns_admitted:
  "returns (\<lambda>_. True) (ensureAdmitted D b t)
     (\<lambda>x _. verifyDispatch D (fst x) = Inr () \<and> dsp_admission_sha256 (fst x) = admission_digest D b)"
  unfolding ensureAdmitted_def ensure_once_def Let_def
  by (intro fact_step fact_guard fact_case_option fact_liftR fact_throw fact_ret returns_if)
    (auto simp: verified_candidate candidate_digest dest!: same_dispatch)

lemma more_worker:
  assumes "authorized Q q"
  shows "triple (\<lambda>s. qs_launches s = L) (launch_worker Q q r) (\<lambda>_. at_most_one_more Q L) (at_most_one_more Q L)"
  unfolding launch_worker_def
  apply (rule triple_bind [where Q = "\<lambda>_. at_most_one_more Q L"])
   apply (rule triple_modify)
   apply (use assms in \<open>auto simp: at_most_one_more_def intro: exI [of _ "[q]"]\<close>) [1]
  apply (rule triple_keeps [OF keeps_more])
  done

lemma more_outcome:
  assumes "authorized Q q"
  shows "triple (\<lambda>s. qs_launches s = L) (launch_outcome_of Q q r) (\<lambda>_. at_most_one_more Q L) (at_most_one_more Q L)"
  unfolding launch_outcome_of_def
  apply (rule triple_recover [where R = "at_most_one_more Q L"])
   apply (rule triple_bind [OF more_worker [OF assms]])
   apply (rule triple_guard, rule triple_guard, rule triple_ret)
     apply assumption+
  apply (rule triple_ret, assumption)
  done

interpretation more: queue_frame Q "at_most_one_more Q' L" for Q and Q' :: "'w queue_env" and L
  by standard (rule keeps_more)+

lemma triple_unlaunched: "keeps (at_most_one_more Q L) m \<Longrightarrow>
    triple (\<lambda>s. qs_launches s = L) m (\<lambda>_. at_most_one_more Q L) (at_most_one_more Q L)"
  by (rule triple_conseq [OF triple_keeps]) (auto intro: none_more)

lemma more_launch_run:
  assumes "dsb_supervisor (dsp_binding d) = qe_identity Q \<Longrightarrow>
      authorized Q \<lparr>lrq_run_id = run_run_id r, lrq_dispatch = d, lrq_max_runtime = m\<rparr>"
  shows "triple (\<lambda>s. qs_launches s = L) (launch_run Q t n r d m) (\<lambda>_. at_most_one_more Q L) (at_most_one_more Q L)"
  unfolding launch_run_def
  apply (rule triple_known [OF keeps_unlaunched returns_files [OF returns_supervisor]], erule none_more)
  subgoal for x
    apply (cases x, simp)
    apply (intro conjI impI)
     apply (rule triple_unlaunched [OF more.of_blocked])
    apply (rule triple_kept [OF keeps_unlaunched], erule none_more)
    apply (rule triple_bind [OF more_outcome], rule assms, simp)
    apply (rule triple_keeps)
    apply (intro pres_intros keeps_more more.of_report)
    done
  done

lemma more_process:
  assumes "queued_here Q r" "man_version (run_manifest_of r) = 3" "fst (qe_admission Q r u) = Inr (Adm_Matching task)"
  shows "triple (\<lambda>s. qs_launches s = L) (process_admitted Q t n r (qe_runner Q) task)
     (\<lambda>_. at_most_one_more Q L) (at_most_one_more Q L)"
  unfolding process_admitted_def Let_def
  apply (rule triple_known [OF keeps_unlaunched returns_files [OF returns_admitted]], erule none_more)
  subgoal for x
    apply (cases x, simp)
    apply (rule triple_kept [OF keeps_unlaunched], erule none_more)
    apply (rule triple_kept [OF keeps_unlaunched], erule none_more)
    subgoal for d created result intent
      apply (cases result)
       apply simp
       apply (intro conjI impI)
        apply (rule triple_unlaunched [OF more.of_blocked])
       apply (rule more_launch_run)
       apply (unfold authorized_def, intro exI [of _ r] exI [of _ task] exI [of _ u])
       apply (use assms in simp)
      apply (rule triple_unlaunched)
      apply (simp del: not_None_eq)
      apply (intro conjI impI pres_intros keeps_more more.of_blocked)
      done
    done
  done

lemma more_scan_runs:
  "triple (\<lambda>s. qs_launches s = L) (scan_runs Q t n b rs) (\<lambda>_. at_most_one_more Q L) (at_most_one_more Q L)"
proof (induction rs arbitrary: n b)
  case Nil
  show ?case
    unfolding scan_runs.simps by (rule triple_unlaunched [OF more.of_finish])
next
  case (Cons r rs)
  have admitted: "triple (\<lambda>s. qs_launches s = L) (bindE (read_admission Q r) (\<lambda>admission. case admission of
      Adm_Matching task \<Rightarrow> if man_version (run_manifest_of r) \<noteq> 3 then f else process_admitted Q t n r (qe_runner Q) task
    | refused \<Rightarrow> g refused)) (\<lambda>_. at_most_one_more Q L) (at_most_one_more Q L)"
    if "queued_here Q r" "triple (\<lambda>s. qs_launches s = L) f (\<lambda>_. at_most_one_more Q L) (at_most_one_more Q L)"
      "\<And>x. triple (\<lambda>s. qs_launches s = L) (g x) (\<lambda>_. at_most_one_more Q L) (at_most_one_more Q L)" for n f g
    apply (rule triple_known [OF _ returns_admission], unfold read_admission_def, rule keeps_unlaunched, erule none_more)
    subgoal for x using that by (cases x) (auto intro: more_process)
    done
  show ?case
    unfolding scan_runs.simps Let_def
    apply (cases "queued_here Q r")
     apply simp
     apply (rule triple_kept [OF keeps_unlaunched], erule none_more)
    subgoal for existing
      apply (cases existing)
       apply simp
       apply (rule admitted)
         apply (auto intro: Cons)
      done
    apply (simp add: Cons)
    done
qed

lemma scan_adds_one: "at_most_one_more Q (qs_launches s) (snd (scanOnce Q s))"
proof -
  have "triple (\<lambda>u. qs_launches u = qs_launches s) (scanOnce Q) (\<lambda>_. at_most_one_more Q (qs_launches s)) (at_most_one_more Q (qs_launches s))"
    unfolding scanOnce_def
    by (rule triple_kept [OF keeps_unlaunched], erule none_more)+ (rule more_scan_runs)
  then have "wp (scanOnce Q) (\<lambda>_. at_most_one_more Q (qs_launches s)) (\<lambda>_. at_most_one_more Q (qs_launches s)) s"
    by (simp add: triple_def)
  then show ?thesis
    by (auto simp: wp_def split: prod.splits sum.splits)
qed

text \<open>C39 (safety).
  A scan asks for at most one launch, whatever fails: of a run of version 3 that is queued here for
  this runner, whose admission answered with a task, under a dispatch whose digests bind exactly
  that run, its manifest, the task, this supervisor and a time within both limits.\<close>

theorem scans_launch_what_was_admitted: "at_most_one_more Q (qs_launches s) (snd (scanOnce Q s))"
  by (rule scan_adds_one)

text \<open>An admitted run without a status, also one that is settled or blocked, ends the scan: the runs
  behind it wait.\<close>

lemma admitted_run_hides_the_rest:
  assumes "queued_here Q r" "readStatus (qe_run Q) (run_run_id r) (qs_fs s) = (Inr None, u)"
    "fst (qe_admission Q r u) = Inr (Adm_Matching task)" "man_version (run_manifest_of r) = 3"
  shows "scan_runs Q t n b (r # rs) s = scan_runs Q t n b [r] s"
  using assms
  by (cases "qe_admission Q r u") (simp add: bindE_def filesQ_def read_admission_def)

end
