(* ===== verification/Interaction_Properties.thy ===== *)
theory Interaction_Properties
  imports Delegation_Properties
begin

text \<open>
  A question gets one reply: a reply that is on file is never replaced, and one that is written is
  complete or not there.
\<close>

section \<open>Creating a file\<close>

lemma whole_new:
  assumes "\<exists>w. tmp = q @ fst (sf_temp F w)"
  shows "whole f tmp p c True s \<Longrightarrow> kept_but F (f(p := Some c)) s \<and> f p = None"
  using assms by (auto simp: whole_def may_publish_def published_def kept_but_def same_files_def scratch_name_def)

lemma triple_link:
  assumes "p \<noteq> tmp"
  shows "triple (\<lambda>s. \<exists>i. staged f tmp c i s) (sys_link F tmp p) (\<lambda>_. whole f tmp p c True) (unpublished f tmp)"
  using triple_move [OF assms, of f c True F] by simp

lemma triple_create_file:
  assumes "p \<noteq> tmp"
  shows "triple (kept f) (create_file F tmp p c) (\<lambda>_. whole f tmp p c True) (all_or_nothing f tmp p c True)"
proof -
  have rm: "keeps (whole f tmp p c True) (sys_rm_force F tmp)"
    by (rule keeps_rm) (simp_all add: whole_def published_drop assms)
  show ?thesis
    unfolding create_file_def
    apply (rule triple_bind [OF triple_conseq [OF triple_temporary]], assumption, assumption, simp add: all_or_nothing_def)
    apply (rule triple_bind [OF triple_conseq [OF triple_link [OF assms]]], assumption, assumption, simp add: all_or_nothing_def)
    apply (rule triple_conseq [OF triple_keeps [OF keeps_bindE [OF rm keeps_fsync [OF whole_blind]]]], assumption, assumption,
        simp add: all_or_nothing_def)
    done
qed

text \<open>What an exclusive write leaves when it returns, and when it throws.\<close>

definition created :: "'w fs_env \<Rightarrow> (string \<Rightarrow> string option) \<Rightarrow> string \<Rightarrow> string \<Rightarrow> 'w fs_state \<Rightarrow> bool" where
  "created F f p c s \<longleftrightarrow> f p = None \<and> kept_but F (f(p := Some c)) s"

lemma triple_exclusive_file:
  assumes p: "\<not> scratch_name F p"
  shows "triple (kept f) (writeExclusive F p c) (\<lambda>_. created F f p c) (\<lambda>s. kept_but F f s \<or> created F f p c s)"
proof -
  let ?R = "\<lambda>s. kept_but F f s \<or> created F f p c s"
  have attempt: "triple (kept f) (catchE (create_file F tmp p c) (cleanup_temporary F tmp)) (\<lambda>_. created F f p c) ?R"
    if tmp: "\<exists>w. tmp = p @ fst (sf_temp F w)" for tmp
  proof -
    from tmp p have neq: "p \<noteq> tmp"
      by (auto simp: scratch_name_def)
    have "keeps (all_or_nothing f tmp p c True) (cleanup_temporary F tmp e)" for e
      unfolding cleanup_temporary_def quietly_def
      by (intro keeps_bindE keeps_catchE keeps_ret keeps_throw keeps_rm) (simp_all add: all_or_nothing_drop neq)
    from triple_catch [OF triple_create_file [OF neq] this cleanup_throws] show ?thesis
      by (rule triple_conseq)
        (use whole_new [OF tmp] whole_kept_but(2) [OF tmp] in \<open>auto simp: all_or_nothing_def created_def\<close>)
  qed
  show ?thesis
    unfolding writeExclusive_def
    apply (rule triple_bind [OF triple_conseq [OF triple_keeps [OF keeps_mkdir_recursive]]], assumption, assumption,
        simp add: kept_but_kept)
    apply (rule triple_bind [OF triple_answer [OF stages_blind(1)]], simp add: kept_but_kept, rule triple_fact, rule attempt)
    apply blast
    done
qed

section \<open>Replies\<close>

lemma keeps_nodes: "fs_blind P \<Longrightarrow> keeps P (real_nodes D p)"
  unfolding real_nodes_def realpathE_def by (intro pres_intros keeps_lstat)

lemma keeps_interaction_directory: "keeps (kept f) (assertSafeInteractionDirectory D run_id)"
  unfolding assertSafeInteractionDirectory_def assertSafeRunDirectoryOf_def interaction_directory_def
  by (intro pres_intros keeps_nodes keeps_mkdir_recursive) simp_all

text \<open>The reply that is put on file, at the path of its question.\<close>

definition replied :: "'w run_env \<Rightarrow> interaction_reply \<Rightarrow> (string \<Rightarrow> string option) \<Rightarrow> interaction_reply \<Rightarrow> 'w fs_state \<Rightarrow> bool" where
  "replied D input f r t \<longleftrightarrow> r = input\<lparr>rpl_created_at := rpl_created_at r\<rparr> \<and> reply_ok (de_datetime D) r
     \<and> (\<exists>p. questionReplyPath (rpl_run_id input) (rpl_turn_index input) (rpl_question_sha256 input) = Inr p
          \<and> created (de_fs D) f (run_file D p) (file_bytes D (de_reply_text D r)) t)"

definition reply_effect ::
  "'w run_env \<Rightarrow> interaction_reply \<Rightarrow> (string \<Rightarrow> string option) \<Rightarrow> task_err + interaction_reply \<Rightarrow> 'w fs_state \<Rightarrow> bool" where
  "reply_effect D input f result t \<longleftrightarrow> (case result of
       Inr r \<Rightarrow> replied D input f r t
     | Inl _ \<Rightarrow> kept_but (de_fs D) f t \<or> (\<exists>r. replied D input f r t))"

definition reply_path_apart :: "'w run_env \<Rightarrow> interaction_reply \<Rightarrow> bool" where
  "reply_path_apart D input \<longleftrightarrow>
     (\<forall>p. questionReplyPath (rpl_run_id input) (rpl_turn_index input) (rpl_question_sha256 input) = Inr p \<longrightarrow>
        \<not> scratch_name (de_fs D) (run_file D p))"

lemma triple_reply:
  assumes "reply_path_apart D input"
  shows "triple (kept f) (writeReply D input t) (replied D input f) (\<lambda>s. kept_but (de_fs D) f s \<or> (\<exists>r. replied D input f r s))"
proof -
  let ?R = "\<lambda>s. kept_but (de_fs D) f s \<or> (\<exists>r. replied D input f r s)"
  have attempt: "triple (kept f) (bindE (catchE (writeExclusive (de_fs D) (run_file D p) (file_bytes D (de_reply_text D r)))
       (\<lambda>e. throw (if already_exists e then reply_exists else e))) (\<lambda>_. ret r)) (replied D input f) ?R"
    if r: "r = input\<lparr>rpl_created_at := now\<rparr>" "reply_ok (de_datetime D) r"
      and p: "questionReplyPath (rpl_run_id input) (rpl_turn_index input) (rpl_question_sha256 input) = Inr p" for now r p
  proof -
    have put: "replied D input f r s" if "created (de_fs D) f (run_file D p) (file_bytes D (de_reply_text D r)) s" for s
      using that r p by (auto simp: replied_def)
    have "\<not> scratch_name (de_fs D) (run_file D p)"
      using assms p by (simp add: reply_path_apart_def)
    from triple_exclusive_file [OF this, of f "file_bytes D (de_reply_text D r)"] show ?thesis
      by (intro triple_bind [OF triple_recover]) (assumption | auto intro!: triple_throw triple_ret put)+
  qed
  show ?thesis
    unfolding writeReply_def Let_def
    apply (rule triple_kept)
      apply (intro pres_intros keeps_askF stages_blind)
     apply (simp add: kept_but_kept)
    apply (rule triple_guard [rotated], simp add: kept_but_kept)
    apply (rule triple_kept [OF keeps_interaction_directory], simp add: kept_but_kept)
    apply (rule triple_liftR [rotated], simp add: kept_but_kept)
    apply (rule attempt)
      apply simp_all
    done
qed

text \<open>C40 (functional).
  A reply is put on file only where its question has none yet: when the write returns, the file of
  the question was absent and is now the whole reply as given, stamped and valid, and every other
  file is as it was, temporary names aside; when it throws, all files are as they were or exactly
  that much has happened.\<close>

theorem reply_is_final:
  assumes "fs_wf s" "reply_path_apart D input" "writeReply D input created_at s = (result, t)"
  shows "reply_effect D input (file_at s) result t"
proof -
  have "wp (writeReply D input created_at) (replied D input (file_at s))
      (\<lambda>_ u. kept_but (de_fs D) (file_at s) u \<or> (\<exists>r. replied D input (file_at s) r u)) s"
    using triple_reply [OF assms(2), of "file_at s" created_at] assms(1) by (simp add: triple_def kept_def)
  from wp_returnD [OF this] wp_throwD [OF this] show ?thesis
    using assms(3) by (cases result) (simp_all add: reply_effect_def)
qed

definition sample_reply :: interaction_reply where
  "sample_reply = \<lparr>rpl_repo_id = ''r'', rpl_run_id = sample_run_id, rpl_turn_index = 1, rpl_question_sha256 = sample_sha,
     rpl_answers = [(''q-a'', ''yes'')], rpl_created_at = []\<rparr>"

theorem reply_is_final_witness:
  "reply_effect sample_run_env sample_reply (file_at sample_runs) (fst (writeReply sample_run_env sample_reply None sample_runs))
     (snd (writeReply sample_run_env sample_reply None sample_runs))"
proof (rule reply_is_final [OF _ _ prod.collapse [symmetric]])
  show "fs_wf sample_runs"
    by (simp add: fs_wf_def sample_runs_def)
  have "questionReplyPath sample_run_id 1 sample_sha
      = Inr (''.chatgpt/codex-runs/'' @ sample_run_id @ ''/interactions/turn-0001-'' @ sample_sha @ ''.reply.json'')"
    "posix_join ''/r'' (''.chatgpt/codex-runs/'' @ sample_run_id @ ''/interactions/turn-0001-'' @ sample_sha @ ''.reply.json'')
      = ''/r/.chatgpt/codex-runs/'' @ sample_run_id @ ''/interactions/turn-0001-'' @ sample_sha @ ''.reply.json''"
    by code_simp+
  then show "reply_path_apart sample_run_env sample_reply"
    by (auto simp: reply_path_apart_def sample_reply_def scratch_name_def run_file_def rp_root_def sample_run_env_def sample_repo_def
        sample_fs_def dest!: arg_cong [where f = last])
qed

end
